(* ===== verification/Prelude.thy ===== *)
theory Prelude imports Main "HOL-Library.Multiset" begin

text \<open>
  Shared vocabulary of the development: the exceptions of the API, database tables as lists of
  rows with the query and update operations the services use, the two collections
  \<open>table_simps\<close> and \<open>result_simps\<close>, and generic lemmas the components share.
\<close>

section \<open>Exceptions and results\<close>

text \<open>
  The services report an error by throwing a NestJS exception that carries a \<open>code\<close>. The
  constructor is the exception class, its argument the \<open>code\<close> field; messages for people are
  left out. The last two are the errors of the ORM (\<open>P2002\<close> when a unique index refuses a row,
  \<open>P2025\<close> when \<open>findUniqueOrThrow\<close> finds none).
\<close>

datatype exn =
    BadRequestException string
  | ConflictException string
  | NotFoundException string
  | ForbiddenException string
  | UnauthorizedException string
  | UnprocessableEntityException string
  | BadGatewayException string
  | UniqueViolation
  | RecordNotFound

text \<open>A call either throws (\<open>Inl\<close>) or returns (\<open>Inr\<close>).\<close>

type_synonym 'a result = "exn + 'a"

named_theorems result_simps \<open>unfolding of results and their sequencing\<close>
named_theorems table_simps \<open>queries and updates on tables\<close>

text \<open>Sequencing: the rest of a method runs only when the call before it returned.\<close>

definition bindr :: "'a result \<Rightarrow> ('a \<Rightarrow> 'b result) \<Rightarrow> 'b result" where
  "bindr m f = (case m of Inl e \<Rightarrow> Inl e | Inr x \<Rightarrow> f x)"

lemma bindr_Inl [simp, result_simps]: "bindr (Inl e) f = Inl e"
  by (simp add: bindr_def)

lemma bindr_Inr [simp, result_simps]: "bindr (Inr x) f = f x"
  by (simp add: bindr_def)

lemma bindr_eq_Inr: "bindr m f = Inr y \<longleftrightarrow> (\<exists>x. m = Inr x \<and> f x = Inr y)"
  by (cases m) auto

lemma bindr_eq_Inl: "bindr m f = Inl e \<longleftrightarrow> m = Inl e \<or> (\<exists>x. m = Inr x \<and> f x = Inl e)"
  by (cases m) auto

lemma bindrE:
  assumes "bindr m f = Inr y"
  obtains x where "m = Inr x" and "f x = Inr y"
  using assms by (auto simp: bindr_eq_Inr)

text \<open>\<open>if (b) throw e;\<close> before the rest of a method.\<close>

definition guard :: "bool \<Rightarrow> exn \<Rightarrow> unit result" where
  "guard ok e = (if ok then Inr () else Inl e)"

lemma guard_Inr [simp, result_simps]: "guard ok e = Inr u \<longleftrightarrow> ok"
  by (simp add: guard_def)

lemma guard_Inl [simp, result_simps]: "guard ok e = Inl e' \<longleftrightarrow> \<not> ok \<and> e' = e"
  by (auto simp: guard_def)

lemma guard_True [simp, result_simps]: "guard True e = Inr ()"
  by (simp add: guard_def)

lemma guard_False [simp, result_simps]: "guard False e = Inl e"
  by (simp add: guard_def)

text \<open>A lookup whose absence is an exception.\<close>

definition found :: "'a option \<Rightarrow> exn \<Rightarrow> 'a result" where
  "found r e = (case r of None \<Rightarrow> Inl e | Some x \<Rightarrow> Inr x)"

lemma found_Some [simp, result_simps]: "found (Some x) e = Inr x"
  by (simp add: found_def)

lemma found_None [simp, result_simps]: "found None e = Inl e"
  by (simp add: found_def)

lemma found_eq_Inr [simp]: "found r e = Inr x \<longleftrightarrow> r = Some x"
  by (cases r) auto

lemma found_eq_Inl [simp]: "found r e = Inl e' \<longleftrightarrow> r = None \<and> e' = e"
  by (cases r) auto

text \<open>A \<open>for\<close> loop whose body may throw: the fold stops at the first exception.\<close>

fun foldr_res :: "('a \<Rightarrow> 's \<Rightarrow> 's result) \<Rightarrow> 'a list \<Rightarrow> 's \<Rightarrow> 's result" where
  "foldr_res f [] s = Inr s"
| "foldr_res f (x # xs) s = bindr (f x s) (foldr_res f xs)"

lemma foldr_res_invariant:
  assumes "foldr_res f xs s = Inr t" and "P s"
    and "\<And>x u v. x \<in> set xs \<Longrightarrow> P u \<Longrightarrow> f x u = Inr v \<Longrightarrow> P v"
  shows "P t"
  using assms
proof (induction xs arbitrary: s)
  case Nil
  then show ?case by simp
next
  case (Cons x xs)
  then obtain u where "f x s = Inr u" and "foldr_res f xs u = Inr t"
    by (auto elim: bindrE)
  with Cons show ?case by (metis list.set_intros(1) list.set_intros(2))
qed

section \<open>Tables\<close>

text \<open>
  A table is the list of its rows visible to the tenant, oldest first. \<open>findFirst\<close>,
  \<open>count\<close>, \<open>updateMany\<close> and \<open>create\<close> of the ORM become the operations below.
\<close>

definition find_first :: "('r \<Rightarrow> bool) \<Rightarrow> 'r list \<Rightarrow> 'r option" where
  "find_first p rows = List.find p rows"

definition count_rows :: "('r \<Rightarrow> bool) \<Rightarrow> 'r list \<Rightarrow> nat" where
  "count_rows p rows = length (filter p rows)"

definition update_many :: "('r \<Rightarrow> bool) \<Rightarrow> ('r \<Rightarrow> 'r) \<Rightarrow> 'r list \<Rightarrow> 'r list" where
  "update_many p f rows = map (\<lambda>r. if p r then f r else r) rows"

definition create_row :: "'r \<Rightarrow> 'r list \<Rightarrow> 'r list" where
  "create_row r rows = rows @ [r]"

lemma find_first_Nil [simp]: "find_first p [] = None"
  by (simp add: find_first_def)

lemma find_first_Cons [simp]:
  "find_first p (r # rows) = (if p r then Some r else find_first p rows)"
  by (simp add: find_first_def)

lemma find_first_SomeD: "find_first p rows = Some r \<Longrightarrow> r \<in> set rows \<and> p r"
  by (induction rows) (auto split: if_splits)

lemma find_first_None_iff: "find_first p rows = None \<longleftrightarrow> (\<forall>r\<in>set rows. \<not> p r)"
  by (induction rows) auto

lemma find_first_append:
  "find_first p (xs @ ys) = (case find_first p xs of None \<Rightarrow> find_first p ys | Some r \<Rightarrow> Some r)"
  by (induction xs) auto

lemma count_rows_Nil [simp]: "count_rows p [] = 0"
  by (simp add: count_rows_def)

lemma count_rows_Cons [simp]:
  "count_rows p (r # rows) = (if p r then 1 else 0) + count_rows p rows"
  by (simp add: count_rows_def)

lemma count_rows_eq_0 [table_simps]: "count_rows p rows = 0 \<longleftrightarrow> (\<forall>r\<in>set rows. \<not> p r)"
  by (induction rows) auto

lemma count_rows_pos [table_simps]: "0 < count_rows p rows \<longleftrightarrow> (\<exists>r\<in>set rows. p r)"
  by (induction rows) auto

lemma count_rows_append: "count_rows p (xs @ ys) = count_rows p xs + count_rows p ys"
  by (simp add: count_rows_def)

lemma update_many_Nil [simp]: "update_many p f [] = []"
  by (simp add: update_many_def)

lemma update_many_Cons [simp]:
  "update_many p f (r # rows) = (if p r then f r else r) # update_many p f rows"
  by (simp add: update_many_def)

lemma length_update_many [simp]: "length (update_many p f rows) = length rows"
  by (simp add: update_many_def)

lemma set_update_many:
  "set (update_many p f rows) = f ` {r \<in> set rows. p r} \<union> {r \<in> set rows. \<not> p r}"
  by (auto simp: update_many_def)

lemma in_update_manyE:
  assumes "x \<in> set (update_many p f rows)"
  obtains r where "r \<in> set rows" and "x = (if p r then f r else r)"
  using assms by (auto simp: update_many_def)

lemma map_update_many_inv:
  "(\<And>r. g (f r) = g r) \<Longrightarrow> map g (update_many p f rows) = map g rows"
  by (induction rows) auto

lemma update_many_no_match: "\<forall>r\<in>set rows. \<not> p r \<Longrightarrow> update_many p f rows = rows"
  by (induction rows) auto

lemma set_create_row [simp]: "set (create_row r rows) = insert r (set rows)"
  by (auto simp: create_row_def)

lemma find_first_update_many_key:
  assumes "\<And>r. k (f r) = k r"
  shows "find_first (\<lambda>r. k r = i) (update_many (\<lambda>r. k r = i) f rows) =
         map_option f (find_first (\<lambda>r. k r = i) rows)"
  by (induction rows) (auto simp: assms)

lemma find_first_update_many_other:
  assumes "\<And>r. k (f r) = k r" and "i \<noteq> j"
  shows "find_first (\<lambda>r. k r = i) (update_many (\<lambda>r. k r = j) f rows) =
         find_first (\<lambda>r. k r = i) rows"
  by (induction rows) (use assms in auto)

text \<open>With unique keys a lookup by key and membership are the same thing.\<close>

lemma find_first_key_unique:
  assumes "distinct (map k rows)" and "r \<in> set rows"
  shows "find_first (\<lambda>x. k x = k r) rows = Some r"
  using assms by (induction rows) (auto simp: image_iff)

text \<open>Updating the row with a key changes one place of the table.\<close>

lemma update_many_split:
  assumes "distinct (map k rows)" and "r \<in> set rows"
  obtains xs ys where "rows = xs @ r # ys"
    and "update_many (\<lambda>x. k x = k r) f rows = xs @ f r # ys"
proof -
  obtain xs ys where rows: "rows = xs @ r # ys" using assms(2) by (meson split_list)
  have other: "\<forall>x\<in>set xs \<union> set ys. k x \<noteq> k r" using assms(1) rows by (auto simp: image_iff)
  have "update_many (\<lambda>x. k x = k r) f rows =
      update_many (\<lambda>x. k x = k r) f xs @ f r # update_many (\<lambda>x. k x = k r) f ys"
    by (simp add: rows update_many_def)
  also have "\<dots> = xs @ f r # ys" using other by (simp add: update_many_no_match)
  finally show thesis using rows that by blast
qed

lemma distinct_map_create_row [table_simps]:
  "distinct (map k (create_row r rows)) \<longleftrightarrow> distinct (map k rows) \<and> k r \<notin> k ` set rows"
  by (auto simp: create_row_def)

lemma sum_list_update_many:
  fixes g :: "'r \<Rightarrow> int"
  shows "sum_list (map g (update_many p f rows)) =
         sum_list (map g rows) + sum_list (map (\<lambda>r. if p r then g (f r) - g r else 0) rows)"
  by (induction rows) auto

section \<open>Ledgers\<close>

text \<open>
  The contract of an account kept with its entries: a posting moves the balance and the sum of
  the entries of its key by the same amount and leaves the other keys alone. Then every balance
  is the sum of its entries after any run of postings.
\<close>

locale ledger =
  fixes balance :: "'k \<Rightarrow> 's \<Rightarrow> int" and entries :: "'k \<Rightarrow> 's \<Rightarrow> int"
    and post :: "'k \<Rightarrow> int \<Rightarrow> 's \<Rightarrow> 's result" and wf :: "'s \<Rightarrow> bool"
  assumes post_balance: "wf s \<Longrightarrow> post k x s = Inr s' \<Longrightarrow>
      balance j s' = balance j s + (if j = k then x else 0)"
    and post_entries: "wf s \<Longrightarrow> post k x s = Inr s' \<Longrightarrow>
      entries j s' = entries j s + (if j = k then x else 0)"
    and post_wf: "wf s \<Longrightarrow> post k x s = Inr s' \<Longrightarrow> wf s'"
begin

definition balanced :: "'s \<Rightarrow> bool" where
  "balanced s \<longleftrightarrow> (\<forall>k. balance k s = entries k s)"

lemma post_balanced: "wf s \<Longrightarrow> post k x s = Inr s' \<Longrightarrow> balanced s \<Longrightarrow> balanced s'"
  by (simp add: balanced_def post_balance post_entries)

lemma run_balanced:
  assumes "foldr_res (\<lambda>(k, x). post k x) ps s = Inr s'" and "wf s" and "balanced s"
  shows "wf s' \<and> balanced s'"
  by (rule foldr_res_invariant [OF assms(1), where P = "\<lambda>s. wf s \<and> balanced s"])
    (use assms(2,3) in \<open>auto intro: post_wf post_balanced\<close>)

lemma run_balance:
  assumes "foldr_res (\<lambda>(k, x). post k x) ps s = Inr s'" and "wf s"
  shows "balance j s' = balance j s + sum_list (map snd (filter (\<lambda>p. fst p = j) ps))"
  using assms
proof (induction ps arbitrary: s)
  case Nil
  then show ?case by simp
next
  case (Cons p ps)
  obtain k x where p: "p = (k, x)" by (cases p)
  obtain t where t: "post k x s = Inr t" and rest: "foldr_res (\<lambda>(k, x). post k x) ps t = Inr s'"
    using Cons.prems(1) p by (auto elim: bindrE)
  have "balance j s' = balance j t + sum_list (map snd (filter (\<lambda>p. fst p = j) ps))"
    using Cons.IH [OF rest] post_wf [OF Cons.prems(2) t] by simp
  then show ?case using post_balance [OF Cons.prems(2) t, of j] p by simp
qed

end

end
