(* ===== verification/Binary64.thy ===== *)
theory Binary64 imports Complex_Main "HOL-Library.Log_Nat" Prelude begin

text \<open>
  JavaScript numbers. A finite number is the rational it denotes, and every arithmetic
  operation rounds its exact result to 53 significant bits, ties to even (\<open>fl\<close>), as
  IEEE 754 binary64 does inside the normal range; overflow, subnormals, \<open>NaN\<close> and the sign of
  zero are outside the model. \<open>Math.round\<close>, \<open>Math.sign\<close> and \<open>Math.abs\<close> are exact.
\<close>

section \<open>Rounding to binary64\<close>

text \<open>The binary exponent of a positive number: \<open>2 ^ e \<le> x < 2 ^ (e + 1)\<close>.\<close>

definition exponent :: "rat \<Rightarrow> int" where
  "exponent x =
     (if 1 \<le> x then int (floorlog 2 (nat \<lfloor>x\<rfloor>)) - 1
      else - int (floorlog 2 (nat (\<lceil>1 / x\<rceil> - 1))))"

text \<open>Round to the nearest integer, ties to even.\<close>

definition round_even :: "rat \<Rightarrow> int" where
  "round_even x =
     (let n = \<lfloor>x\<rfloor>; d = x - of_int n
      in if d < 1 / 2 then n else if 1 / 2 < d then n + 1 else if even n then n else n + 1)"

text \<open>One unit in the last place of a 53-bit number as large as \<open>x\<close>.\<close>

definition ulp :: "rat \<Rightarrow> rat" where
  "ulp x = 2 powi (exponent x - 52)"

definition fl_pos :: "rat \<Rightarrow> rat" where
  "fl_pos x = of_int (round_even (x / ulp x)) * ulp x"

definition fl :: "rat \<Rightarrow> rat" where
  "fl x = (if x = 0 then 0 else if 0 < x then fl_pos x else - fl_pos (- x))"

lemma floorlog_rat:
  assumes "0 < n"
  shows "0 < floorlog 2 n" and "(2::rat) ^ (floorlog 2 n - 1) \<le> of_nat n"
    and "of_nat n + 1 \<le> (2::rat) ^ floorlog 2 n"
proof -
  have fb: "2 ^ (floorlog 2 n - 1) \<le> n" "n < 2 ^ floorlog 2 n"
    using floorlog_bounds [of n 2] assms by simp_all
  show "0 < floorlog 2 n"
    using assms floorlog_eq_zero_iff [of 2 n] by simp
  have "of_nat (2 ^ (floorlog 2 n - 1)) \<le> (of_nat n :: rat)"
    using fb(1) of_nat_le_iff by blast
  then show "(2::rat) ^ (floorlog 2 n - 1) \<le> of_nat n" by simp
  have "of_nat (n + 1) \<le> (of_nat (2 ^ floorlog 2 n) :: rat)"
    using fb(2) by (intro of_nat_mono) simp
  then show "of_nat n + 1 \<le> (2::rat) ^ floorlog 2 n" by simp
qed

text \<open>The exponent is the right one on both sides of 1.\<close>

lemma exponent_bounds_ge_1:
  assumes "1 \<le> x"
  shows "2 powi exponent x \<le> x \<and> x < 2 powi (exponent x + 1)"
proof -
  define n where "n = nat \<lfloor>x\<rfloor>"
  have fl1: "1 \<le> \<lfloor>x\<rfloor>" using assms by (simp add: le_floor_iff)
  then have n_int: "of_nat n = (of_int \<lfloor>x\<rfloor> :: rat)" and n0: "0 < n"
    by (simp_all add: n_def)
  have nx: "of_nat n \<le> x" "x < of_nat n + 1"
    unfolding n_int by linarith+
  note f = floorlog_rat [OF n0]
  have e: "exponent x = int (floorlog 2 n - 1)"
    using assms f(1) by (simp add: exponent_def n_def of_nat_diff)
  then have e1: "exponent x + 1 = int (floorlog 2 n)" using f(1) by simp
  have "2 powi exponent x \<le> x"
    unfolding e power_int_of_nat using f(2) nx(1) by linarith
  moreover have "x < 2 powi (exponent x + 1)"
    unfolding e1 power_int_of_nat using f(3) nx(2) by linarith
  ultimately show ?thesis by simp
qed

lemma exponent_bounds_lt_1:
  assumes "0 < x" and "x < 1"
  shows "2 powi exponent x \<le> x \<and> x < 2 powi (exponent x + 1)"
proof -
  define q where "q = \<lceil>1 / x\<rceil>"
  define m where "m = nat (q - 1)"
  have "1 < 1 / x" using assms by simp
  then have c: "2 \<le> q" unfolding q_def by linarith
  then have "int m = q - 1" and m0: "0 < m" by (simp_all add: m_def)
  then have m_int: "of_nat m = of_int q - (1::rat)"
    by (metis of_int_1 of_int_diff of_int_of_nat_eq)
  have mx: "of_nat m < 1 / x" "1 / x \<le> of_nat m + 1"
    unfolding m_int q_def by linarith+
  note f = floorlog_rat [OF m0]
  have e: "exponent x = - int (floorlog 2 m)"
    using assms by (simp add: exponent_def m_def q_def)
  then have e1: "exponent x + 1 = - int (floorlog 2 m - 1)" using f(1) by simp
  have "1 / x \<le> 2 ^ floorlog 2 m" using mx(2) f(3) by linarith
  then have "2 powi exponent x \<le> x"
    unfolding e power_int_minus power_int_of_nat using assms by (simp add: field_simps)
  moreover have "2 ^ (floorlog 2 m - 1) < 1 / x" using mx(1) f(2) by linarith
  then have "x < 2 powi (exponent x + 1)"
    unfolding e1 power_int_minus power_int_of_nat using assms by (simp add: field_simps)
  ultimately show ?thesis by simp
qed

lemma exponent_bounds:
  assumes "0 < x"
  shows "2 powi exponent x \<le> x" and "x < 2 powi (exponent x + 1)"
  using exponent_bounds_ge_1 exponent_bounds_lt_1 assms by (cases "1 \<le> x"; force)+

text \<open>The exponent is unique, so a concrete one can be checked instead of computed.\<close>

lemma exponent_eqI:
  assumes "2 powi e \<le> x" and "x < 2 powi (e + 1)"
  shows "exponent x = e"
proof -
  have pos: "0 < x" using assms(1) zero_less_power_int [of "2::rat" e] by linarith
  have lt: "2 powi e < (2::rat) powi (exponent x + 1)" "2 powi exponent x < (2::rat) powi (e + 1)"
    using exponent_bounds [OF pos] assms by linarith+
  have "e < exponent x + 1"
    using lt(1) power_int_increasing [of "exponent x + 1" e "2::rat"] by (meson le_less_trans not_less one_le_numeral order.strict_trans1)
  moreover have "exponent x < e + 1"
    using lt(2) power_int_increasing [of "e + 1" "exponent x" "2::rat"] by (meson le_less_trans not_less one_le_numeral order.strict_trans1)
  ultimately show ?thesis by simp
qed

section \<open>The error of one rounding\<close>

lemma round_even_error: "\<bar>of_int (round_even x) - x\<bar> \<le> 1 / 2"
proof -
  have "of_int \<lfloor>x\<rfloor> \<le> x" "x < of_int \<lfloor>x\<rfloor> + 1" by linarith+
  then show ?thesis
    unfolding round_even_def Let_def abs_le_iff by (auto simp: field_simps; linarith)
qed

lemma round_even_of_int [simp]: "round_even (of_int n) = n"
  by (simp add: round_even_def)

lemma ulp_pos: "0 < ulp x"
  by (simp add: ulp_def)

lemma fl_pos_error:
  assumes "0 < x"
  shows "\<bar>fl_pos x - x\<bar> \<le> x / 2 ^ 53"
proof -
  have "fl_pos x - x = (of_int (round_even (x / ulp x)) - x / ulp x) * ulp x"
    using ulp_pos [of x] by (simp add: fl_pos_def left_diff_distrib)
  then have "\<bar>fl_pos x - x\<bar> = \<bar>of_int (round_even (x / ulp x)) - x / ulp x\<bar> * ulp x"
    using ulp_pos [of x] by (simp add: abs_mult)
  also have "\<dots> \<le> 1 / 2 * ulp x"
    using round_even_error ulp_pos [of x] by (intro mult_right_mono) auto
  also have "ulp x = 2 powi exponent x / 2 ^ 52"
    by (simp add: ulp_def power_int_diff)
  also have "1 / 2 * (2 powi exponent x / 2 ^ 52) \<le> x / 2 ^ 53"
    using exponent_bounds(1) [OF assms] by (simp add: field_simps)
  finally show ?thesis .
qed

lemma fl_0 [simp]: "fl 0 = 0"
  by (simp add: fl_def)

text \<open>Rounding is odd, and its relative error is at most \<open>2 ^ -53\<close>.\<close>

lemma fl_minus [simp]: "fl (- x) = - fl x"
  by (simp add: fl_def)

lemma fl_error: "\<bar>fl x - x\<bar> \<le> \<bar>x\<bar> / 2 ^ 53"
proof (cases x "0::rat" rule: linorder_cases)
  case less
  then show ?thesis using fl_pos_error [of "- x"] by (simp add: fl_def abs_minus_commute)
next
  case equal
  then show ?thesis by simp
next
  case greater
  then show ?thesis using fl_pos_error [of x] by (simp add: fl_def)
qed

lemma fl_pos_nonneg: "0 < x \<Longrightarrow> 0 \<le> fl_pos x"
proof -
  assume x: "0 < x"
  have "x - fl_pos x \<le> \<bar>fl_pos x - x\<bar>" by simp
  also have "\<dots> \<le> x / 2 ^ 53" by (rule fl_pos_error [OF x])
  also have "\<dots> \<le> x" using x by (simp add: field_simps)
  finally show ?thesis by simp
qed

lemma fl_nonneg: "0 \<le> x \<Longrightarrow> 0 \<le> fl x"
  by (auto simp: fl_def fl_pos_nonneg)

text \<open>Integers of at most 53 bits are represented exactly.\<close>

lemma fl_pos_of_nat:
  assumes "0 < n" and "n \<le> 2 ^ 53"
  shows "fl_pos (of_nat n) = of_nat n"
proof -
  let ?x = "of_nat n :: rat" and ?e = "exponent (of_nat n)"
  have pos: "0 < ?x" using assms(1) by simp
  have e0: "0 \<le> ?e"
    using floorlog_rat(1) [OF assms(1)] assms(1) by (simp add: exponent_def)
  show ?thesis
  proof (cases "?e \<le> 52")
    case True
    then have "?x / ulp ?x = ?x * 2 powi (52 - ?e)"
      by (simp add: ulp_def power_int_diff)
    also have "\<dots> = ?x * 2 ^ nat (52 - ?e)" using True by (simp add: power_int_def)
    finally have q: "?x / ulp ?x = of_int (int n * 2 ^ nat (52 - ?e))" by simp
    then have "of_int (round_even (?x / ulp ?x)) = ?x / ulp ?x"
      by (simp only: round_even_of_int)
    then show ?thesis using ulp_pos [of ?x] by (simp add: fl_pos_def)
  next
    case False
    then have "(2::rat) ^ 53 \<le> 2 powi ?e"
      using power_int_increasing [of 53 ?e "2::rat"] by simp
    also have "\<dots> \<le> ?x" by (rule exponent_bounds(1) [OF pos])
    finally have "(2::rat) ^ 53 \<le> ?x" .
    moreover have "?x \<le> 2 ^ 53" using assms(2) of_nat_le_iff [of n "2 ^ 53", where 'a = rat] by simp
    ultimately have x: "?x = 2 ^ 53" by simp
    have "exponent ((2::rat) ^ 53) = 53" by (rule exponent_eqI) simp_all
    then show ?thesis using round_even_of_int [of "2 ^ 52"] by (simp add: x fl_pos_def ulp_def)
  qed
qed

lemma fl_of_int:
  assumes "\<bar>n\<bar> \<le> 2 ^ 53"
  shows "fl (of_int n) = of_int n"
proof (cases n "0::int" rule: linorder_cases)
  case less
  then obtain m where m: "n = - int m" "0 < m" by (metis nat_0_le neg_0_less_iff_less
    minus_minus order_less_imp_le zero_less_nat_eq)
  with assms have "m \<le> 2 ^ 53" by simp
  with m show ?thesis using fl_pos_of_nat [of m] by (simp add: fl_def)
next
  case equal
  then show ?thesis by simp
next
  case greater
  then obtain m where m: "n = int m" "0 < m" by (metis nat_0_le order_less_imp_le zero_less_nat_eq)
  with assms have "m \<le> 2 ^ 53" by simp
  with m show ?thesis using fl_pos_of_nat [of m] by (simp add: fl_def)
qed

text \<open>Rounding is monotone.\<close>

lemma round_even_mono: "x \<le> y \<Longrightarrow> round_even x \<le> round_even y"
proof -
  assume xy: "x \<le> y"
  have f: "\<lfloor>x\<rfloor> \<le> \<lfloor>y\<rfloor>" by (rule floor_mono [OF xy])
  show "round_even x \<le> round_even y"
  proof (cases "\<lfloor>x\<rfloor> = \<lfloor>y\<rfloor>")
    case True
    then show ?thesis using xy by (auto simp: round_even_def Let_def)
  next
    case False
    then have "\<lfloor>x\<rfloor> + 1 \<le> \<lfloor>y\<rfloor>" using f by simp
    moreover have "round_even x \<le> \<lfloor>x\<rfloor> + 1" "\<lfloor>y\<rfloor> \<le> round_even y"
      by (auto simp: round_even_def Let_def)
    ultimately show ?thesis by simp
  qed
qed

lemma fl_pos_range:
  assumes "0 < x"
  shows "2 powi exponent x \<le> fl_pos x" and "fl_pos x \<le> 2 powi (exponent x + 1)"
proof -
  have u: "ulp x * 2 ^ 52 = 2 powi exponent x" "ulp x * 2 ^ 53 = 2 powi (exponent x + 1)"
    by (simp_all add: ulp_def power_int_diff power_int_add)
  have "of_int (2 ^ 52) \<le> x / ulp x" "x / ulp x \<le> of_int (2 ^ 53)"
    using exponent_bounds [OF assms] ulp_pos [of x] u by (simp_all add: field_simps)
  then have "2 ^ 52 \<le> round_even (x / ulp x)" "round_even (x / ulp x) \<le> 2 ^ 53"
    by (metis round_even_mono round_even_of_int)+
  then have "(2::rat) ^ 52 \<le> of_int (round_even (x / ulp x))"
      "of_int (round_even (x / ulp x)) \<le> (2::rat) ^ 53"
    by (metis of_int_le_iff of_int_numeral of_int_power)+
  then show "2 powi exponent x \<le> fl_pos x" "fl_pos x \<le> 2 powi (exponent x + 1)"
    using ulp_pos [of x] unfolding fl_pos_def u [symmetric]
    by (simp_all add: mult.commute mult_le_cancel_left)
qed

lemma exponent_mono:
  assumes "0 < x" and "x \<le> y"
  shows "exponent x \<le> exponent y"
proof (rule ccontr)
  assume "\<not> exponent x \<le> exponent y"
  then have "(2::rat) powi (exponent y + 1) \<le> 2 powi exponent x"
    by (intro power_int_increasing) simp_all
  then show False
    using exponent_bounds(1) [OF assms(1)] exponent_bounds(2) [of y] assms by linarith
qed

lemma fl_pos_mono:
  assumes "0 < x" and "x \<le> y"
  shows "fl_pos x \<le> fl_pos y"
proof (cases "exponent x = exponent y")
  case True
  then have u: "ulp y = ulp x" by (simp add: ulp_def)
  have "round_even (x / ulp x) \<le> round_even (y / ulp x)"
    using assms(2) ulp_pos [of x] by (intro round_even_mono divide_right_mono) simp_all
  then show ?thesis
    using ulp_pos [of x] unfolding fl_pos_def u by (intro mult_right_mono) simp_all
next
  case False
  then have "exponent x + 1 \<le> exponent y" using exponent_mono [OF assms] by simp
  then have "(2::rat) powi (exponent x + 1) \<le> 2 powi exponent y"
    by (intro power_int_increasing) simp_all
  then show ?thesis
    using fl_pos_range(2) [OF assms(1)] fl_pos_range(1) [of y] assms by linarith
qed

text \<open>Halving is exact, so half-integers are represented exactly too.\<close>

lemma fl_pos_half: "0 < x \<Longrightarrow> fl_pos (x / 2) = fl_pos x / 2"
proof -
  assume x: "0 < x"
  have "exponent (x / 2) = exponent x - 1"
    using exponent_bounds [OF x] by (intro exponent_eqI) (simp_all add: power_int_diff power_int_add)
  then have u: "ulp (x / 2) = ulp x / 2" by (simp add: ulp_def power_int_diff)
  then have "x / 2 / ulp (x / 2) = x / ulp x" by simp
  then show ?thesis unfolding fl_pos_def u by simp
qed

lemma fl_half_nat:
  assumes "n \<le> 2 ^ 53"
  shows "fl (of_nat n / 2) = of_nat n / 2"
  using fl_pos_half [of "of_nat n"] fl_pos_of_nat [OF _ assms] by (cases "n = 0") (auto simp: fl_def)

lemma fl_mono_nonneg: "0 \<le> x \<Longrightarrow> x \<le> y \<Longrightarrow> fl x \<le> fl y"
  using fl_pos_mono [of x y] fl_nonneg [of y] by (cases "x = 0") (auto simp: fl_def)

text \<open>A concrete rounding, checked from its exponent and its 53-bit integer.\<close>

lemma round_even_eqI:
  assumes "\<bar>x - of_int n\<bar> < 1 / 2"
  shows "round_even x = n"
proof -
  have "\<bar>of_int (round_even x) - of_int n\<bar> < (1::rat)"
    using assms round_even_error [of x] unfolding abs_less_iff abs_le_iff by linarith
  then have "\<bar>round_even x - n\<bar> < 1" by linarith
  then show ?thesis by simp
qed

lemma fl_eval:
  assumes "2 powi e \<le> x" and "x < 2 powi (e + 1)"
    and "\<bar>x * 2 powi (52 - e) - of_int n\<bar> < 1 / 2"
  shows "fl x = of_int n * 2 powi (e - 52)"
proof -
  have e: "exponent x = e" using assms(1,2) by (rule exponent_eqI)
  have pos: "0 < x" using assms(1) zero_less_power_int [of "2::rat" e] by linarith
  have "x / ulp x = x * 2 powi (52 - e)" by (simp add: ulp_def e power_int_diff)
  then have "round_even (x / ulp x) = n" using assms(3) by (simp add: round_even_eqI)
  then show ?thesis using pos by (simp add: fl_def fl_pos_def ulp_def e)
qed

section \<open>The operators and the Math functions\<close>

text \<open>Every operator rounds its exact result once.\<close>

definition nadd :: "rat \<Rightarrow> rat \<Rightarrow> rat" where "nadd x y = fl (x + y)"
definition nsub :: "rat \<Rightarrow> rat \<Rightarrow> rat" where "nsub x y = fl (x - y)"
definition nmul :: "rat \<Rightarrow> rat \<Rightarrow> rat" where "nmul x y = fl (x * y)"
definition ndiv :: "rat \<Rightarrow> rat \<Rightarrow> rat" where "ndiv x y = fl (x / y)"

text \<open>\<open>Math.round\<close>: the nearest integer, halves upwards. \<open>Math.sign\<close> is \<open>sgn\<close>.\<close>

definition math_round :: "rat \<Rightarrow> int" where
  "math_round x = \<lfloor>x + 1 / 2\<rfloor>"

lemma math_round_eqI: "of_int n - 1 / 2 \<le> x \<Longrightarrow> x < of_int n + 1 / 2 \<Longrightarrow> math_round x = n"
  unfolding math_round_def by (simp add: floor_eq_iff field_simps)

lemma math_round_of_int [simp]: "math_round (of_int n) = n"
  by (rule math_round_eqI) simp_all

lemma fl_numeral_bounds: "\<bar>fl x - x\<bar> \<le> d" if "\<bar>x\<bar> \<le> d * 2 ^ 53" for d
proof -
  have "\<bar>fl x - x\<bar> \<le> \<bar>x\<bar> / 2 ^ 53" by (rule fl_error)
  also have "\<dots> \<le> d" using that by (simp add: field_simps)
  finally show ?thesis .
qed

end
