(* ===== verification/Money.thy ===== *)
theory Money imports Binary64 begin

text \<open>
  \<open>apps/api/src/common/money.ts\<close>: amounts in euros are JavaScript numbers, rounded to whole
  cents before they are added or compared. A column \<open>Decimal(12,2)\<close> that holds \<open>n\<close> cents is read
  as the number nearest to \<open>n / 100\<close> (\<open>euros n\<close>); the theorems say that on such numbers the
  helpers compute exactly on the cents, so the other theories keep amounts as whole cents.
\<close>

section \<open>The helpers\<close>

text \<open>The literal \<open>1e-9\<close> is the number nearest to that fraction.\<close>

definition eps :: rat where "eps = fl (1 / 10 ^ 9)"

definition roundHalfAway :: "rat \<Rightarrow> int" where
  "roundHalfAway x =
     (if x = 0 then 0 else if 0 < x then math_round (nadd \<bar>x\<bar> eps)
      else - math_round (nadd \<bar>x\<bar> eps))"

definition toCents :: "rat \<Rightarrow> int" where
  "toCents amount = roundHalfAway (nmul amount 100)"

record line_cents =
  baseCents :: int
  taxCents :: int
  totalCents :: int

definition lineCents :: "rat \<Rightarrow> rat \<Rightarrow> rat \<Rightarrow> line_cents" where
  "lineCents quantity unitPrice taxRate =
     (let b = roundHalfAway (nmul (nmul quantity unitPrice) 100);
          t = roundHalfAway (ndiv (nmul (of_int b) taxRate) 100)
      in \<lparr>baseCents = b, taxCents = t, totalCents = b + t\<rparr>)"

definition addAmounts :: "rat \<Rightarrow> rat \<Rightarrow> rat" where
  "addAmounts a b = ndiv (nadd (of_int (toCents a)) (of_int (toCents b))) 100"

definition subtractAmounts :: "rat \<Rightarrow> rat \<Rightarrow> rat" where
  "subtractAmounts a b = ndiv (nsub (of_int (toCents a)) (of_int (toCents b))) 100"

definition isAtLeast :: "rat \<Rightarrow> rat \<Rightarrow> bool" where
  "isAtLeast a b \<longleftrightarrow> toCents a \<ge> toCents b"

definition isGreaterThan :: "rat \<Rightarrow> rat \<Rightarrow> bool" where
  "isGreaterThan a b \<longleftrightarrow> toCents a > toCents b"

text \<open>The number read from a \<open>Decimal\<close> column that holds \<open>n\<close> cents.\<close>

definition euros :: "int \<Rightarrow> rat" where
  "euros n = ndiv (of_int n) 100"

section \<open>Rounding absorbs the floating-point error\<close>

lemma eps_bounds: "0 \<le> eps" "eps \<le> 2 / 10 ^ 9"
proof -
  show "0 \<le> eps" by (simp add: eps_def fl_nonneg)
  have "\<bar>fl (1 / 10 ^ 9) - 1 / 10 ^ 9\<bar> \<le> 1 / 10 ^ 9"
    by (rule fl_numeral_bounds) simp
  then show "eps \<le> 2 / 10 ^ 9" unfolding eps_def by linarith
qed

lemma roundHalfAway_minus [simp]: "roundHalfAway (- x) = - roundHalfAway x"
  by (simp add: roundHalfAway_def)

lemma fl_near: "\<bar>x\<bar> \<le> 500000000000000 \<Longrightarrow> \<bar>fl x - x\<bar> \<le> 1 / 16"
  by (rule fl_numeral_bounds) simp

text \<open>
  A number close enough to \<open>n\<close> is rounded to \<open>n\<close>, up to a million million euros.
\<close>

lemma math_round_near_eps:
  assumes "\<bar>x - of_int n\<bar> \<le> 1 / 4" and "0 \<le> x" and "x \<le> 200000000000000"
  shows "math_round (nadd \<bar>x\<bar> eps) = n"
proof (rule math_round_eqI)
  have e: "0 \<le> eps" "eps \<le> 1 / 16" using eps_bounds by simp_all
  have "\<bar>x + eps\<bar> \<le> 500000000000000" using assms e by linarith
  then have "\<bar>nadd x eps - (x + eps)\<bar> \<le> 1 / 16" unfolding nadd_def by (rule fl_near)
  moreover have "\<bar>x\<bar> = x" using assms(2) by simp
  ultimately show "of_int n - 1 / 2 \<le> nadd \<bar>x\<bar> eps" "nadd \<bar>x\<bar> eps < of_int n + 1 / 2"
    using assms(1) e by linarith+
qed

lemma roundHalfAway_near:
  assumes "\<bar>x - of_int n\<bar> \<le> 1 / 4" and "\<bar>n\<bar> \<le> 100000000000000"
  shows "roundHalfAway x = n"
proof -
  have n: "\<bar>of_int n\<bar> \<le> (100000000000000 :: rat)"
    using assms(2) of_int_le_iff [of "\<bar>n\<bar>" 100000000000000, where 'a = rat] by simp
  show ?thesis
  proof (cases x "0::rat" rule: linorder_cases)
    case less
    have "\<bar>- x - of_int (- n)\<bar> \<le> 1 / 4" using assms(1) by (simp add: abs_minus_commute)
    then have "math_round (nadd \<bar>- x\<bar> eps) = - n"
      by (rule math_round_near_eps) (use assms(1) n less in linarith)+
    then show ?thesis using less by (simp add: roundHalfAway_def)
  next
    case equal
    then have "n = 0" using assms(1) by simp
    with equal show ?thesis by (simp add: roundHalfAway_def)
  next
    case greater
    have "math_round (nadd \<bar>x\<bar> eps) = n"
      by (rule math_round_near_eps [OF assms(1)]) (use assms(1) n greater in linarith)+
    then show ?thesis using greater by (simp add: roundHalfAway_def)
  qed
qed

lemma of_int_bound:
  assumes "\<bar>n\<bar> \<le> 100000000000000"
  shows "\<bar>of_int n\<bar> \<le> (100000000000000 :: rat)"
  using assms of_int_le_iff [of "\<bar>n\<bar>" 100000000000000, where 'a = rat] by simp

lemma euros_error:
  assumes "\<bar>n\<bar> \<le> 100000000000000"
  shows "\<bar>euros n - of_int n / 100\<bar> \<le> 1 / 1000"
  unfolding euros_def ndiv_def using of_int_bound [OF assms]
  by (intro fl_numeral_bounds) simp

text \<open>Reading a column and counting its cents gives the cents of the column.\<close>

lemma toCents_euros [simp]:
  assumes "\<bar>n\<bar> \<le> 100000000000000"
  shows "toCents (euros n) = n"
proof -
  have e: "\<bar>euros n * 100 - of_int n\<bar> \<le> 1 / 10" using euros_error [OF assms] by linarith
  then have "\<bar>euros n * 100\<bar> \<le> 500000000000000" using of_int_bound [OF assms] by linarith
  then have "\<bar>nmul (euros n) 100 - euros n * 100\<bar> \<le> 1 / 16"
    unfolding nmul_def by (rule fl_near)
  then have "\<bar>nmul (euros n) 100 - of_int n\<bar> \<le> 1 / 4" using e by linarith
  then show ?thesis unfolding toCents_def using assms by (rule roundHalfAway_near)
qed

section \<open>The helpers compute exactly on cents\<close>

lemma of_int_le_2_53: "\<bar>n\<bar> \<le> 200000000000000 \<Longrightarrow> fl (of_int n) = of_int n"
  by (rule fl_of_int) simp

lemma addAmounts_euros:
  assumes "\<bar>a\<bar> \<le> 100000000000000" and "\<bar>b\<bar> \<le> 100000000000000"
  shows "addAmounts (euros a) (euros b) = euros (a + b)"
  using assms of_int_le_2_53 [of "a + b"]
  unfolding addAmounts_def toCents_euros [OF assms(1)] toCents_euros [OF assms(2)]
  by (simp add: nadd_def euros_def)

lemma subtractAmounts_euros:
  assumes "\<bar>a\<bar> \<le> 100000000000000" and "\<bar>b\<bar> \<le> 100000000000000"
  shows "subtractAmounts (euros a) (euros b) = euros (a - b)"
  using assms of_int_le_2_53 [of "a - b"]
  unfolding subtractAmounts_def toCents_euros [OF assms(1)] toCents_euros [OF assms(2)]
  by (simp add: nsub_def euros_def)

lemma comparisons_euros:
  assumes "\<bar>a\<bar> \<le> 100000000000000" and "\<bar>b\<bar> \<le> 100000000000000"
  shows "isAtLeast (euros a) (euros b) \<longleftrightarrow> b \<le> a" and "isGreaterThan (euros a) (euros b) \<longleftrightarrow> b < a"
  using assms by (simp_all add: isAtLeast_def isGreaterThan_def)

lemma lineCents_total: "totalCents (lineCents q p t) = baseCents (lineCents q p t) + taxCents (lineCents q p t)"
  by (simp add: lineCents_def Let_def)

lemma lineCents_minus:
  "lineCents (- q) p t = \<lparr>baseCents = - baseCents (lineCents q p t),
     taxCents = - taxCents (lineCents q p t), totalCents = - totalCents (lineCents q p t)\<rparr>"
  by (simp add: lineCents_def Let_def nmul_def ndiv_def)

text \<open>
  The reference: \<open>a / d\<close> rounded to the nearest integer, halves away from zero, on integers.
\<close>

definition half_away :: "int \<Rightarrow> int \<Rightarrow> int" where
  "half_away a d = sgn a * ((2 * \<bar>a\<bar> + d) div (2 * d))"

lemma half_away_minus: "half_away (- a) d = - half_away a d"
  by (simp add: half_away_def sgn_minus)

lemma half_away_mult [simp]: "0 < d \<Longrightarrow> half_away (a * d) d = a"
proof -
  assume d: "0 < d"
  have "(2 * \<bar>a * d\<bar> + d) div (2 * d) = (d + \<bar>a\<bar> * (2 * d)) div (2 * d)"
    using d by (simp add: abs_mult algebra_simps)
  also have "\<dots> = \<bar>a\<bar>" using d by simp
  finally show ?thesis using d by (simp add: half_away_def sgn_mult sgn_mult_abs)
qed

text \<open>A cent amount over 100, rounded by the floating-point code, is the reference.\<close>

lemma math_round_fraction:
  assumes "\<bar>x - of_int k\<bar> \<le> 99 / 200" and "0 \<le> x" and "x \<le> 2000000000000"
  shows "math_round (nadd \<bar>x\<bar> eps) = k"
proof (rule math_round_eqI)
  have e: "0 \<le> eps" "eps \<le> 1 / 1000" using eps_bounds by simp_all
  have "\<bar>x + eps\<bar> \<le> 3000000000000" using assms e by linarith
  then have "\<bar>nadd x eps - (x + eps)\<bar> \<le> 1 / 1000"
    unfolding nadd_def by (intro fl_numeral_bounds) simp
  moreover have "\<bar>x\<bar> = x" using assms(2) by simp
  ultimately show "of_int k - 1 / 2 \<le> nadd \<bar>x\<bar> eps" "nadd \<bar>x\<bar> eps < of_int k + 1 / 2"
    using assms(1) e by linarith+
qed

lemma math_round_half:
  assumes "0 < k" and "k \<le> 2000000000000"
  shows "math_round (nadd (fl (of_nat (2 * k - 1) / 2)) eps) = int k"
proof (rule math_round_eqI)
  have k: "of_nat (2 * k - 1) / 2 = of_nat k - (1 / 2 :: rat)"
    using assms(1) by (simp add: of_nat_diff field_simps)
  have x: "fl (of_nat (2 * k - 1) / 2) = of_nat k - (1 / 2 :: rat)"
    unfolding k [symmetric] by (rule fl_half_nat) (use assms in simp)
  have kb: "of_nat k \<le> (2000000000000 :: rat)" "1 \<le> (of_nat k :: rat)"
    using assms of_nat_mono [of k 2000000000000, where 'a = rat] by (simp_all add: Suc_leI)
  have e: "0 \<le> eps" "eps \<le> 1 / 1000" using eps_bounds by simp_all
  have "\<bar>of_nat k - 1 / 2 + eps\<bar> \<le> 3000000000000" using kb e by linarith
  then have "\<bar>nadd (of_nat k - 1 / 2) eps - (of_nat k - 1 / 2 + eps)\<bar> \<le> 1 / 1000"
    unfolding nadd_def by (intro fl_numeral_bounds) simp
  then show "nadd (fl (of_nat (2 * k - 1) / 2)) eps < of_int (int k) + 1 / 2"
    using e unfolding x of_int_of_nat_eq by linarith
  have "fl (of_nat k - 1 / 2) \<le> nadd (of_nat k - 1 / 2) eps"
    unfolding nadd_def using kb e by (intro fl_mono_nonneg) linarith+
  moreover have "fl (of_nat k - 1 / 2) = of_nat k - (1 / 2 :: rat)" using x unfolding k .
  ultimately show "of_int (int k) - 1 / 2 \<le> nadd (fl (of_nat (2 * k - 1) / 2)) eps"
    unfolding x by simp
qed

lemma roundHalfAway_percent_nat:
  assumes "m \<le> 100000000000000"
  shows "roundHalfAway (fl (of_nat m / 100)) = int ((2 * m + 100) div 200)"
proof -
  define k where "k = (2 * m + 100) div 200"
  define r where "r = (2 * m + 100) mod 200"
  have mk: "2 * m + 100 = 200 * k + r" "r < 200" by (simp_all add: k_def r_def)
  have mrat: "of_nat m / 100 = of_nat k + (of_nat r - 100) / (200 :: rat)"
    using arg_cong [OF mk(1), of "of_nat :: nat \<Rightarrow> rat"] by (simp add: field_simps)
  have mb: "of_nat m \<le> (100000000000000 :: rat)"
    using assms of_nat_mono [of m 100000000000000, where 'a = rat] by simp
  have er: "\<bar>fl (of_nat m / 100) - of_nat m / 100\<bar> \<le> (1 / 200 :: rat)"
    using mb by (intro fl_numeral_bounds) simp
  have x0: "0 \<le> fl (of_nat m / 100 :: rat)" by (rule fl_nonneg) simp
  have "math_round (nadd \<bar>fl (of_nat m / 100)\<bar> eps) = int k"
  proof (cases "r = 0")
    case False
    moreover have "even r" using arg_cong [OF mk(1), of even] by simp
    ultimately have "2 \<le> r" "r \<le> 198" using mk(2) by presburger+
    then have "2 \<le> (of_nat r :: rat)" "of_nat r \<le> (198 :: rat)"
      using of_nat_mono [of 2 r, where 'a = rat] of_nat_mono [of r 198, where 'a = rat] by simp_all
    then have "\<bar>of_nat m / 100 - of_nat k\<bar> \<le> (98 / 200 :: rat)" unfolding mrat by simp
    then have "\<bar>fl (of_nat m / 100) - of_int (int k)\<bar> \<le> 99 / 200"
      using er unfolding of_int_of_nat_eq by linarith
    then show ?thesis by (rule math_round_fraction [OF _ x0]) (use er mb in linarith)
  next
    case True
    then have k: "0 < k" "k \<le> 2000000000000" using mk assms by auto
    have "of_nat m / 100 = of_nat (2 * k - 1) / (2 :: rat)"
      using k(1) True mrat by (simp add: of_nat_diff field_simps)
    then show ?thesis using math_round_half [OF k] x0 by simp
  qed
  moreover have "fl (of_nat m / 100 :: rat) = 0 \<Longrightarrow> k = 0"
    using er mk by (simp add: k_def)
  ultimately show ?thesis using x0 unfolding roundHalfAway_def k_def [symmetric] by auto
qed

lemma half_away_of_nat: "0 < m \<Longrightarrow> half_away (int m) 100 = int ((2 * m + 100) div 200)"
  by (simp add: half_away_def zdiv_int)

lemma roundHalfAway_percent:
  assumes "\<bar>a\<bar> \<le> 100000000000000"
  shows "roundHalfAway (fl (of_int a / 100)) = half_away a 100"
proof (cases a "0::int" rule: linorder_cases)
  case less
  then obtain m where a: "a = - int m" and m: "0 < m" by (metis int_cases2 less_le_not_le
    nat_int neg_0_less_iff_less of_nat_0_less_iff of_nat_less_0_iff verit_minus_simplify(4))
  have "roundHalfAway (fl (of_int a / 100)) = - roundHalfAway (fl (of_nat m / 100))"
    by (simp add: a)
  also have "\<dots> = - half_away (int m) 100"
    using roundHalfAway_percent_nat [of m] assms half_away_of_nat [OF m] by (simp add: a)
  finally show ?thesis by (simp add: a half_away_minus)
next
  case equal
  then show ?thesis by (simp add: roundHalfAway_def half_away_def)
next
  case greater
  then obtain m where a: "a = int m" and m: "0 < m" by (metis nat_0_le order_less_imp_le zero_less_nat_eq)
  then show ?thesis
    using roundHalfAway_percent_nat [of m] assms half_away_of_nat [OF m] by simp
qed

text \<open>
  The base of a line: an integer quantity times a price in cents, three roundings later, is still
  the exact product.
\<close>

lemma base_cents:
  assumes "\<bar>q * p\<bar> \<le> 10000000000000"
  shows "roundHalfAway (nmul (nmul (of_int q) (euros p)) 100) = q * p"
proof -
  let ?e = "euros p - of_int p / 100" and ?b = "of_int (q * p) / (100 :: rat)"
  have b: "\<bar>?b\<bar> \<le> 100000000000"
    using assms of_int_le_iff [of "\<bar>q * p\<bar>" 10000000000000, where 'a = rat] by simp
  have "\<bar>?e\<bar> \<le> \<bar>of_int p / 100\<bar> / 2 ^ 53" unfolding euros_def ndiv_def by (rule fl_error)
  then have "\<bar>of_int q\<bar> * \<bar>?e\<bar> \<le> \<bar>of_int q\<bar> * (\<bar>of_int p / 100\<bar> / 2 ^ 53)"
    by (rule mult_left_mono) simp
  also have "\<dots> = \<bar>?b\<bar> / 2 ^ 53" by (simp add: abs_mult)
  also have "\<dots> \<le> 1 / 2000" using b by simp
  finally have "\<bar>of_int q * ?e\<bar> \<le> 1 / 2000" by (simp only: abs_mult)
  moreover have "of_int q * ?e = of_int q * euros p - ?b" by (simp add: algebra_simps)
  ultimately have e1: "\<bar>of_int q * euros p - ?b\<bar> \<le> 1 / 2000" by simp
  then have "\<bar>of_int q * euros p\<bar> \<le> 200000000000" using b by linarith
  then have e2: "\<bar>nmul (of_int q) (euros p) - of_int q * euros p\<bar> \<le> 1 / 2000"
    unfolding nmul_def by (intro fl_numeral_bounds) simp
  let ?m = "nmul (of_int q) (euros p)"
  have e3: "\<bar>?m * 100 - of_int (q * p)\<bar> \<le> 1 / 10" using e1 e2 by linarith
  then have "\<bar>?m * 100\<bar> \<le> 500000000000000" using b by linarith
  then have "\<bar>nmul ?m 100 - ?m * 100\<bar> \<le> 1 / 16" unfolding nmul_def by (rule fl_near)
  then have "\<bar>nmul ?m 100 - of_int (q * p)\<bar> \<le> 1 / 4" using e3 by linarith
  then show ?thesis by (rule roundHalfAway_near) (use assms in simp)
qed

text \<open>
  The floating-point line amounts are the exact ones, for a whole quantity, a price in cents and
  a whole VAT rate.
\<close>

lemma lineCents_exact:
  assumes "\<bar>q * p\<bar> \<le> 10000000000000" and "\<bar>q * p * r\<bar> \<le> 100000000000000"
  shows "lineCents (of_int q) (euros p) (of_int r) =
    \<lparr>baseCents = q * p, taxCents = half_away (q * p * r) 100,
     totalCents = q * p + half_away (q * p * r) 100\<rparr>"
proof -
  have "nmul (of_int (q * p)) (of_int r) = of_int (q * p * r)"
    unfolding nmul_def of_int_mult [symmetric] using assms(2) by (intro of_int_le_2_53) simp
  then have "ndiv (nmul (of_int (q * p)) (of_int r)) 100 = fl (of_int (q * p * r) / 100)"
    by (simp only: ndiv_def)
  then show ?thesis
    unfolding lineCents_def Let_def base_cents [OF assms(1)] by (simp only: roundHalfAway_percent [OF assms(2)])
qed

section \<open>The interface the other components rely on\<close>

text \<open>
  A representation of whole cents by numbers whose addition, subtraction and comparison are exact
  up to a bound. The clients fold amounts of either sign; the sum is the sum of the cents.
\<close>

locale exact_money =
  fixes rep :: "int \<Rightarrow> 'n" and add sub :: "'n \<Rightarrow> 'n \<Rightarrow> 'n" and at_least :: "'n \<Rightarrow> 'n \<Rightarrow> bool"
    and M :: int
  assumes add_rep: "\<bar>a\<bar> \<le> M \<Longrightarrow> \<bar>b\<bar> \<le> M \<Longrightarrow> add (rep a) (rep b) = rep (a + b)"
    and sub_rep: "\<bar>a\<bar> \<le> M \<Longrightarrow> \<bar>b\<bar> \<le> M \<Longrightarrow> sub (rep a) (rep b) = rep (a - b)"
    and at_least_rep: "\<bar>a\<bar> \<le> M \<Longrightarrow> \<bar>b\<bar> \<le> M \<Longrightarrow> at_least (rep a) (rep b) \<longleftrightarrow> b \<le> a"
begin

lemma foldl_add:
  "\<bar>a\<bar> + sum_list (map abs xs) \<le> M \<Longrightarrow> foldl add (rep a) (map rep xs) = rep (a + sum_list xs)"
proof (induction xs arbitrary: a)
  case Nil
  then show ?case by simp
next
  case (Cons x xs)
  have "0 \<le> sum_list (map abs xs)" by (induction xs) auto
  with Cons.prems have "\<bar>a\<bar> \<le> M" "\<bar>x\<bar> \<le> M" "\<bar>a + x\<bar> + sum_list (map abs xs) \<le> M" by auto
  with Cons.IH [of "a + x"] show ?case by (simp add: add_rep add.assoc)
qed

lemma add_sub: "\<bar>a\<bar> + \<bar>b\<bar> \<le> M \<Longrightarrow> sub (add (rep a) (rep b)) (rep b) = rep a"
  by (simp add: add_rep sub_rep)

lemma at_least_add: "\<bar>a\<bar> + \<bar>b\<bar> \<le> M \<Longrightarrow> 0 \<le> b \<Longrightarrow> at_least (add (rep a) (rep b)) (rep a)"
  by (simp add: add_rep at_least_rep)

end

interpretation cents: exact_money euros addAmounts subtractAmounts isAtLeast 100000000000000
  by unfold_locales (simp_all add: addAmounts_euros subtractAmounts_euros comparisons_euros)

end
