(* ===== verification/Calendar.thy ===== *)
theory Calendar imports Prelude begin

text \<open>
  Dates. An instant is a number of milliseconds since the epoch and a \<open>DATE\<close> column a number of
  days since the epoch; the calendar fields are the ones ECMAScript defines (\<open>DayFromYear\<close>,
  \<open>YearFromTime\<close>, \<open>MonthFromTime\<close>, \<open>DateFromTime\<close>, \<open>MakeDay\<close>). Months are numbered from 0 as
  in JavaScript. The offset of a time zone at an instant comes from the time-zone database, so it
  is a parameter of the functions that need it.
\<close>

section \<open>Days and years\<close>

definition msPerDay :: int where "msPerDay = 86400000"

definition day_from_year :: "int \<Rightarrow> int" where
  "day_from_year y =
     365 * (y - 1970) + (y - 1969) div 4 - (y - 1901) div 100 + (y - 1601) div 400"

definition leap_year :: "int \<Rightarrow> bool" where
  "leap_year y \<longleftrightarrow> y mod 4 = 0 \<and> (y mod 100 \<noteq> 0 \<or> y mod 400 = 0)"

text \<open>The year of a day: the estimate by the mean year is off by at most one.\<close>

definition year_of :: "int \<Rightarrow> int" where
  "year_of d =
     (let y = 1970 + (400 * d) div 146097
      in if d < day_from_year y then y - 1 else if day_from_year (y + 1) \<le> d then y + 1 else y)"

lemma div_Suc_int:
  fixes x m :: int
  assumes "1 < m"
  shows "(x + 1) div m = x div m + (if (x + 1) mod m = 0 then 1 else 0)"
proof -
  define q r where "q = x div m" and "r = x mod m"
  have x: "x = m * q + r" and r: "0 \<le> r" "r < m" using assms by (simp_all add: q_def r_def)
  show ?thesis
  proof (cases "r + 1 = m")
    case True
    then have e: "x + 1 = m * (q + 1) + 0" using x by (simp add: algebra_simps)
    have "(x + 1) div m = q + 1" by (rule int_div_pos_eq [OF e]) (use assms in auto)
    moreover have "(x + 1) mod m = 0" by (rule int_mod_pos_eq [OF e]) (use assms in auto)
    ultimately show ?thesis by (simp add: q_def)
  next
    case False
    then have e: "x + 1 = m * q + (r + 1)" using x by simp
    have "(x + 1) div m = q" by (rule int_div_pos_eq [OF e]) (use r False in auto)
    moreover have "(x + 1) mod m = r + 1" by (rule int_mod_pos_eq [OF e]) (use r False in auto)
    ultimately show ?thesis using r by (simp add: q_def)
  qed
qed

lemma mod_shift_zero:
  fixes y m :: int
  assumes "m dvd k"
  shows "(y - k) mod m = 0 \<longleftrightarrow> y mod m = 0"
  using assms by (simp add: mod_eq_0_iff_dvd dvd_diff_left_iff)

lemma year_div_Suc:
  "(y - 1968) div 4 = (y - 1969) div 4 + (if y mod 4 = 0 then 1 else 0)"
  "(y - 1900) div 100 = (y - 1901) div 100 + (if y mod 100 = 0 then 1 else 0)"
  "(y - 1600) div 400 = (y - 1601) div 400 + (if y mod 400 = (0::int) then 1 else 0)"
proof -
  have e: "y - 1969 + 1 = y - 1968" "y - 1901 + 1 = y - 1900" "y - 1601 + 1 = y - 1600" by simp_all
  show "(y - 1968) div 4 = (y - 1969) div 4 + (if y mod 4 = 0 then 1 else 0)"
    using div_Suc_int [of 4 "y - 1969"] mod_shift_zero [of 4 1968 y] unfolding e by simp
  show "(y - 1900) div 100 = (y - 1901) div 100 + (if y mod 100 = 0 then 1 else 0)"
    using div_Suc_int [of 100 "y - 1901"] mod_shift_zero [of 100 1900 y] unfolding e by simp
  show "(y - 1600) div 400 = (y - 1601) div 400 + (if y mod 400 = 0 then 1 else 0)"
    using div_Suc_int [of 400 "y - 1601"] mod_shift_zero [of 400 1600 y] unfolding e by simp
qed

lemma day_from_year_Suc:
  "day_from_year (y + 1) = day_from_year y + (if leap_year y then 366 else 365)"
proof -
  have e: "y + 1 - 1970 = (y - 1970) + 1" "y + 1 - 1969 = y - 1968" "y + 1 - 1901 = y - 1900"
    "y + 1 - 1601 = y - 1600" by simp_all
  have "day_from_year (y + 1) - day_from_year y =
      365 + ((y - 1968) div 4 - (y - 1969) div 4) - ((y - 1900) div 100 - (y - 1901) div 100)
      + ((y - 1600) div 400 - (y - 1601) div 400)"
    unfolding day_from_year_def e by (simp only: distrib_left mult_1_right)
  also have "\<dots> = 365 + (if y mod 4 = 0 then 1 else 0) - (if y mod 100 = 0 then 1 else 0)
      + (if y mod 400 = 0 then 1 else 0)"
    unfolding year_div_Suc by simp
  finally have d: "day_from_year (y + 1) - day_from_year y = \<dots>" .
  have "y mod 400 = 0 \<Longrightarrow> y mod 100 = 0" "y mod 100 = 0 \<Longrightarrow> y mod 4 = 0"
    using dvd_trans [of 100 400 y] dvd_trans [of 4 100 y] by (simp_all add: mod_eq_0_iff_dvd)
  then show ?thesis using d unfolding leap_year_def by (simp split: if_splits)
qed

lemma div_bounds:
  fixes x m :: int
  assumes "0 < m"
  shows "m * (x div m) \<le> x" "x < m * (x div m) + m"
  using assms mult_div_mod_eq [of m x] pos_mod_bound [of m x] pos_mod_sign [of m x] by linarith+

lemma day_from_year_bounds:
  "400 * day_from_year y \<le> 146097 * (y - 1970) + 600"
  "146097 * (y - 1970) - 600 \<le> 400 * day_from_year y"
  using div_bounds [of 4 "y - 1969"] div_bounds [of 100 "y - 1901"] div_bounds [of 400 "y - 1601"]
  by (simp_all add: day_from_year_def algebra_simps)

lemma day_from_year_strict_mono: "y < z \<Longrightarrow> day_from_year y < day_from_year z"
proof -
  assume "y < z"
  have "day_from_year y < day_from_year (y + 1 + int n)" for n
  proof (induction n)
    case 0
    then show ?case by (simp add: day_from_year_Suc)
  next
    case (Suc n)
    then show ?case
      using day_from_year_Suc [of "y + 1 + int n"] by (simp add: add.assoc add.commute)
  qed
  from this [of "nat (z - y - 1)"] show ?thesis using \<open>y < z\<close> by simp
qed

lemma day_from_year_mono: "y \<le> z \<Longrightarrow> day_from_year y \<le> day_from_year z"
  using day_from_year_strict_mono [of y z] by (cases "y = z") auto

text \<open>The year of a day is the one whose days contain it.\<close>

lemma year_of_bounds: "day_from_year (year_of d) \<le> d" "d < day_from_year (year_of d + 1)"
proof -
  define y where "y = 1970 + (400 * d) div 146097"
  have y: "146097 * (y - 1970) \<le> 400 * d" "400 * d < 146097 * (y - 1970) + 146097"
    using div_bounds [of 146097 "400 * d"] by (simp_all add: y_def)
  have lo: "day_from_year (y - 1) \<le> d"
    using day_from_year_bounds(1) [of "y - 1"] y by (simp add: algebra_simps)
  have hi: "d < day_from_year (y + 2)"
    using day_from_year_bounds(2) [of "y + 2"] y by (simp add: algebra_simps)
  have "year_of d = (if d < day_from_year y then y - 1
      else if day_from_year (y + 1) \<le> d then y + 1 else y)"
    by (simp add: year_of_def y_def Let_def)
  then show "day_from_year (year_of d) \<le> d" "d < day_from_year (year_of d + 1)"
    using lo hi by (auto simp: add.commute)
qed

lemma year_of_eqI:
  assumes "day_from_year y \<le> d" and "d < day_from_year (y + 1)"
  shows "year_of d = y"
proof -
  have "\<not> year_of d < y"
    using day_from_year_mono [of "year_of d + 1" y] year_of_bounds(2) [of d] assms(1) by linarith
  moreover have "\<not> y < year_of d"
    using day_from_year_mono [of "y + 1" "year_of d"] year_of_bounds(1) [of d] assms(2) by linarith
  ultimately show ?thesis by simp
qed

lemma year_of_day_from_year [simp]: "year_of (day_from_year y) = y"
  by (rule year_of_eqI) (simp_all add: day_from_year_strict_mono)

lemma year_of_mono: "d \<le> e \<Longrightarrow> year_of d \<le> year_of e"
  using year_of_bounds [of d] year_of_bounds [of e] day_from_year_mono [of "year_of e + 1" "year_of d"]
  by (cases "year_of d \<le> year_of e") auto

section \<open>Months\<close>

definition month_start :: "int \<Rightarrow> int \<Rightarrow> int" where
  "month_start y m =
     [0, 31, 59, 90, 120, 151, 181, 212, 243, 273, 304, 334, 365] ! nat m
     + (if 2 \<le> m \<and> leap_year y then 1 else 0)"

definition day_in_year :: "int \<Rightarrow> int" where
  "day_in_year d = d - day_from_year (year_of d)"

definition month_in :: "int \<Rightarrow> int \<Rightarrow> int" where
  "month_in k l =
     (if k < 31 then 0 else if k < 59 + l then 1 else if k < 90 + l then 2
      else if k < 120 + l then 3 else if k < 151 + l then 4 else if k < 181 + l then 5
      else if k < 212 + l then 6 else if k < 243 + l then 7 else if k < 273 + l then 8
      else if k < 304 + l then 9 else if k < 334 + l then 10 else 11)"

definition month_of :: "int \<Rightarrow> int" where
  "month_of d = month_in (day_in_year d) (if leap_year (year_of d) then 1 else 0)"

definition date_of :: "int \<Rightarrow> int" where
  "date_of d = day_in_year d - month_start (year_of d) (month_of d) + 1"

text \<open>\<open>Date.UTC(y, m, k)\<close>: a month outside 0..11 moves the year.\<close>

definition make_date :: "int \<Rightarrow> int \<Rightarrow> int \<Rightarrow> int" where
  "make_date y m k =
     day_from_year (y + m div 12) + month_start (y + m div 12) (m mod 12) + k - 1"

lemma day_in_year_bounds:
  "0 \<le> day_in_year d" "day_in_year d < (if leap_year (year_of d) then 366 else 365)"
  using year_of_bounds [of d] by (simp_all add: day_in_year_def day_from_year_Suc)

lemma month_of_bounds: "0 \<le> month_of d" "month_of d \<le> 11"
  unfolding month_of_def month_in_def by simp_all

lemma make_date_fields [simp]: "make_date (year_of d) (month_of d) (date_of d) = d"
  using month_of_bounds [of d]
  by (simp add: make_date_def date_of_def day_in_year_def div_pos_pos_trivial)

text \<open>The first day of a month, and of the following one.\<close>

definition startOfMonth :: "int \<Rightarrow> int" where
  "startOfMonth d = make_date (year_of d) (month_of d) 1"

lemma startOfMonth_eq: "startOfMonth d = d - date_of d + 1"
  using make_date_fields [of d] unfolding startOfMonth_def make_date_def by linarith

definition firstOfNextMonth :: "int \<Rightarrow> int" where
  "firstOfNextMonth d = make_date (year_of d) (month_of d + 1) 1"

definition month_holds :: "int \<Rightarrow> int \<Rightarrow> int \<Rightarrow> bool" where
  "month_holds y k m \<longleftrightarrow> month_start y m \<le> k \<and> k < month_start y (m + 1)"

lemma month_in_holds:
  assumes "0 \<le> k" and "k < 365 + l" and "l = (if leap_year y then 1 else 0)"
  shows "month_holds y k (month_in k l)"
  unfolding month_in_def if_distrib [of "month_holds y k"] if_bool_eq_conj
  by (intro conjI impI) (use assms in \<open>simp_all add: month_holds_def month_start_def\<close>)

lemma month_of_spec:
  "month_start (year_of d) (month_of d) \<le> day_in_year d"
  "day_in_year d < month_start (year_of d) (month_of d + 1)"
proof -
  have "month_holds (year_of d) (day_in_year d) (month_of d)"
    unfolding month_of_def by (rule month_in_holds)
      (use day_in_year_bounds [of d] in \<open>simp_all split: if_splits\<close>)
  then show "month_start (year_of d) (month_of d) \<le> day_in_year d"
    "day_in_year d < month_start (year_of d) (month_of d + 1)"
    by (simp_all add: month_holds_def)
qed

lemma date_of_pos [simp]: "1 \<le> date_of d"
  using month_of_spec(1) [of d] by (simp add: date_of_def)

lemma startOfMonth_le [simp]: "startOfMonth d \<le> d"
  using date_of_pos [of d] by (simp add: startOfMonth_eq)

lemma make_date_wrap: "make_date y 12 k = make_date (y + 1) 0 k"
  by (simp add: make_date_def)

lemma firstOfNextMonth_gt [simp]: "d < firstOfNextMonth d"
proof (cases "month_of d = 11")
  case True
  then have "firstOfNextMonth d = day_from_year (year_of d + 1)"
    by (simp add: firstOfNextMonth_def make_date_def month_start_def)
  then show ?thesis using year_of_bounds(2) [of d] by simp
next
  case False
  then have "month_of d + 1 < 12" "0 \<le> month_of d + 1" using month_of_bounds [of d] by simp_all
  then have "firstOfNextMonth d = day_from_year (year_of d) + month_start (year_of d) (month_of d + 1)"
    by (simp add: firstOfNextMonth_def make_date_def div_pos_pos_trivial)
  then show ?thesis using month_of_spec(2) [of d] by (simp add: day_in_year_def)
qed

section \<open>Today in a time zone\<close>

text \<open>
  \<open>todayInTimezone\<close> (\<open>common/format.ts\<close>): the civil date of an instant in a zone. The offset of
  the zone at an instant, in milliseconds, is the argument \<open>off\<close>.
\<close>

definition todayInTimezone :: "(int \<Rightarrow> int) \<Rightarrow> int \<Rightarrow> int" where
  "todayInTimezone off now = (now + off now) div msPerDay"

text \<open>The day of an instant in UTC and the instant at which a day starts.\<close>

definition utc_day :: "int \<Rightarrow> int" where
  "utc_day ms = ms div msPerDay"

definition day_ms :: "int \<Rightarrow> int" where
  "day_ms d = d * msPerDay"

lemma utc_day_day_ms [simp]: "utc_day (day_ms d) = d"
  by (simp add: utc_day_def day_ms_def msPerDay_def)

text \<open>\<open>endDateAfterCancellingMoveOut\<close> (\<open>common/move-out.ts\<close>).\<close>

definition endDateAfterCancellingMoveOut :: "(int \<Rightarrow> int) \<Rightarrow> int option \<Rightarrow> int \<Rightarrow> int option" where
  "endDateAfterCancellingMoveOut off before now =
     (case before of None \<Rightarrow> None
      | Some b \<Rightarrow> if todayInTimezone off now \<le> b then Some b else None)"

end
