(* ===== verification/Strings.thy ===== *)
theory Strings imports Money Calendar begin

text \<open>
  The string functions the services use (\<open>trim\<close>, \<open>toUpperCase\<close>, \<open>padStart\<close>, \<open>String(n)\<close>,
  \<open>toFixed(2)\<close>, \<open>startsWith\<close>, \<open>join\<close>) on lists of characters, with round trips for decimal numbers,
  and the check of Spanish tax identifiers (\<open>packages/shared/src/accounting/billing-details.ts\<close>).
  Letters are upper-cased within ASCII.
\<close>

section \<open>Characters and trimming\<close>

definition code :: "char \<Rightarrow> nat" where "code c = of_char c"

definition is_digit :: "char \<Rightarrow> bool" where
  "is_digit c \<longleftrightarrow> 48 \<le> code c \<and> code c \<le> 57"

definition is_upper :: "char \<Rightarrow> bool" where
  "is_upper c \<longleftrightarrow> 65 \<le> code c \<and> code c \<le> 90"

definition is_space :: "char \<Rightarrow> bool" where
  "is_space c \<longleftrightarrow> code c \<in> {9, 10, 11, 12, 13, 32, 160}"

definition trim :: "string \<Rightarrow> string" where
  "trim s = rev (dropWhile is_space (rev (dropWhile is_space s)))"

definition upper_char :: "char \<Rightarrow> char" where
  "upper_char c = (if 97 \<le> code c \<and> code c \<le> 122 then char_of (code c - 32) else c)"

definition toUpperCase :: "string \<Rightarrow> string" where
  "toUpperCase s = map upper_char s"

definition startsWith :: "string \<Rightarrow> string \<Rightarrow> bool" where
  "startsWith s p \<longleftrightarrow> take (length p) s = p"

definition blank :: "string option \<Rightarrow> bool" where
  "blank s \<longleftrightarrow> (case s of None \<Rightarrow> True | Some t \<Rightarrow> trim t = [])"

lemma code_char_of [simp]: "n < 256 \<Longrightarrow> code (char_of n) = n"
  by (simp add: code_def)

lemma upper_char_idem [simp]: "upper_char (upper_char c) = upper_char c"
  by (auto simp: upper_char_def)

lemma toUpperCase_idem [simp]: "toUpperCase (toUpperCase s) = toUpperCase s"
  by (simp add: toUpperCase_def)

lemma dropWhile_idem [simp]: "dropWhile p (dropWhile p xs) = dropWhile p xs"
  by (induction xs) auto

lemma dropWhile_rev_hd:
  "dropWhile p s = s \<Longrightarrow> dropWhile p (rev (dropWhile p (rev s))) = rev (dropWhile p (rev s))"
proof (cases "rev (dropWhile p (rev s))")
  case (Cons c cs)
  assume s: "dropWhile p s = s"
  have "s = rev (dropWhile p (rev s)) @ rev (takeWhile p (rev s))"
    by (metis rev_append rev_rev_ident takeWhile_dropWhile_id)
  then have "s = c # cs @ rev (takeWhile p (rev s))" using Cons by simp
  then have "hd s = c" and "s \<noteq> []" by (metis list.sel(1), auto)
  then have "\<not> p c" using s by (metis hd_dropWhile)
  then show ?thesis using Cons by simp
next
  case Nil
  then show ?thesis by (simp only: Nil dropWhile.simps)
qed

lemma trim_idem [simp]: "trim (trim s) = trim s"
  using dropWhile_rev_hd [of is_space "dropWhile is_space s"] by (simp add: trim_def)

section \<open>Decimal numbers\<close>

definition digit :: "nat \<Rightarrow> char" where "digit d = char_of (48 + d)"

fun show_nat :: "nat \<Rightarrow> string" where
  "show_nat n = (if n < 10 then [digit n] else show_nat (n div 10) @ [digit (n mod 10)])"

declare show_nat.simps [simp del]

definition show_int :: "int \<Rightarrow> string" where
  "show_int n = (if n < 0 then CHR 0x2D # show_nat (nat (- n)) else show_nat (nat n))"

definition read_nat :: "string \<Rightarrow> nat" where
  "read_nat s = foldl (\<lambda>a c. 10 * a + (code c - 48)) 0 s"

definition padStart :: "nat \<Rightarrow> char \<Rightarrow> string \<Rightarrow> string" where
  "padStart n c s = replicate (n - length s) c @ s"

lemma code_digit [simp]: "d < 10 \<Longrightarrow> code (digit d) = 48 + d"
  by (simp add: digit_def)

lemma is_digit_digit [simp]: "d < 10 \<Longrightarrow> is_digit (digit d)"
  by (simp add: is_digit_def)

lemma show_nat_digits: "\<forall>c\<in>set (show_nat n). is_digit c"
  by (induction n rule: show_nat.induct) (subst show_nat.simps, auto)

lemma show_nat_not_Nil [simp]: "show_nat n \<noteq> []"
  by (subst show_nat.simps) auto

lemma read_nat_Nil [simp]: "read_nat [] = 0"
  by (simp add: read_nat_def)

lemma read_nat_snoc [simp]: "read_nat (s @ [c]) = 10 * read_nat s + (code c - 48)"
  by (simp add: read_nat_def)

lemma read_nat_show_nat [simp]: "read_nat (show_nat n) = n"
proof (induction n rule: show_nat.induct)
  case (1 n)
  show ?case
  proof (cases "n < 10")
    case True
    then show ?thesis by (subst show_nat.simps) (simp add: read_nat_def)
  next
    case False
    then have "read_nat (show_nat n) = 10 * (n div 10) + n mod 10"
      using 1 by (subst show_nat.simps) simp
    then show ?thesis by simp
  qed
qed

lemma show_nat_inj: "show_nat m = show_nat n \<longleftrightarrow> m = n"
  using read_nat_show_nat by metis

lemma read_nat_zeros: "read_nat (replicate k (CHR ''0'') @ s) = read_nat s"
  by (induction k) (simp_all add: read_nat_def code_def)

lemma read_nat_padStart [simp]: "read_nat (padStart k (CHR ''0'') (show_nat n)) = n"
  by (simp add: padStart_def read_nat_zeros)

lemma padStart_digits: "\<forall>c\<in>set (padStart k (CHR ''0'') (show_nat n)). is_digit c"
  using show_nat_digits [of n] by (auto simp: padStart_def is_digit_def code_def)

text \<open>A number ends where the first character that is no digit stands.\<close>

lemma digits_split:
  assumes "\<forall>c\<in>set s. is_digit c" and "\<forall>c\<in>set t. is_digit c"
    and "s @ x # xs = t @ x # ys" and "\<not> is_digit x"
  shows "s = t \<and> xs = ys"
proof -
  have "takeWhile is_digit (s @ x # xs) = s" "takeWhile is_digit (t @ x # ys) = t"
    using assms(1,2,4) by (simp_all add: takeWhile_append)
  then show ?thesis using assms(3) by auto
qed

section \<open>Two decimals\<close>

text \<open>\<open>x.toFixed(2)\<close>: the number of hundredths nearest to the exact value of \<open>x\<close>.\<close>

definition hundredths :: "nat \<Rightarrow> string" where
  "hundredths n = show_nat (n div 100) @ ''.'' @ padStart 2 (CHR ''0'') (show_nat (n mod 100))"

definition toFixed2 :: "rat \<Rightarrow> string" where
  "toFixed2 x =
     (if x < 0 then ''-'' @ hundredths (nat \<lfloor>- x * 100 + 1 / 2\<rfloor>)
      else hundredths (nat \<lfloor>x * 100 + 1 / 2\<rfloor>))"

definition show_cents :: "int \<Rightarrow> string" where
  "show_cents n = (if n < 0 then ''-'' @ hundredths (nat (- n)) else hundredths (nat n))"

lemma floor_near:
  fixes x :: rat
  assumes "\<bar>x - of_int n / 100\<bar> \<le> 1 / 1000"
  shows "\<lfloor>x * 100 + 1 / 2\<rfloor> = n"
proof (rule floor_unique)
  have "x - of_int n / 100 \<le> 1 / 1000" "of_int n / 100 - x \<le> 1 / 1000"
    using assms by (simp_all only: abs_le_iff minus_diff_eq)
  then show "of_int n \<le> x * 100 + 1 / 2" "x * 100 + 1 / 2 < of_int n + 1" by linarith+
qed

lemma euros_sign:
  assumes "\<bar>n\<bar> \<le> 100000000000000"
  shows "euros n < 0 \<longleftrightarrow> n < 0"
proof -
  have e: "\<bar>euros n - of_int n / 100\<bar> \<le> 1 / 1000" by (rule euros_error [OF assms])
  consider "n < 0" | "n = 0" | "0 < n" by linarith
  then show ?thesis
  proof cases
    case 1
    then have "of_int n \<le> (- 1 :: rat)" by simp
    then have "euros n < 0" using e unfolding abs_le_iff by linarith
    with 1 show ?thesis by simp
  next
    case 2
    then show ?thesis by (simp add: euros_def ndiv_def)
  next
    case 3
    then have "(1 :: rat) \<le> of_int n" by simp
    then have "\<not> euros n < 0" using e unfolding abs_le_iff by linarith
    with 3 show ?thesis by simp
  qed
qed

text \<open>Printing the number of a column prints its cents.\<close>

lemma toFixed2_euros:
  assumes "\<bar>n\<bar> \<le> 100000000000000"
  shows "toFixed2 (euros n) = show_cents n"
proof -
  have e: "\<bar>euros n - of_int n / 100\<bar> \<le> 1 / 1000" by (rule euros_error [OF assms])
  have "\<bar>- euros n - of_int (- n) / 100\<bar> \<le> 1 / 1000"
    using e by (simp add: abs_minus_commute)
  then have "\<lfloor>- euros n * 100 + 1 / 2\<rfloor> = - n" by (rule floor_near)
  moreover have "\<lfloor>euros n * 100 + 1 / 2\<rfloor> = n" using e by (rule floor_near)
  ultimately show ?thesis
    using euros_sign [OF assms] by (simp add: toFixed2_def show_cents_def)
qed

lemma hundredths_inj: "hundredths m = hundredths n \<longleftrightarrow> m = n"
proof
  assume eq: "hundredths m = hundredths n"
  have "show_nat (m div 100) = show_nat (n div 100) \<and>
      padStart 2 (CHR ''0'') (show_nat (m mod 100)) = padStart 2 (CHR ''0'') (show_nat (n mod 100))"
    by (rule digits_split [of _ _ "CHR ''.''"])
      (use eq show_nat_digits in \<open>auto simp: hundredths_def is_digit_def code_def\<close>)
  then have "m div 100 = n div 100" and "m mod 100 = n mod 100"
    by (metis read_nat_show_nat, metis read_nat_padStart)
  then show "m = n" by (metis mult_div_mod_eq)
qed simp

lemma hundredths_hd: "is_digit (hd (hundredths n))"
  using show_nat_digits [of "n div 100"] by (simp add: hundredths_def hd_append)

lemma show_cents_inj: "show_cents m = show_cents n \<longleftrightarrow> m = n"
proof -
  have "hundredths k \<noteq> ''-'' @ hundredths l" for k l
  proof
    assume "hundredths k = ''-'' @ hundredths l"
    then have "hd (hundredths k) = CHR ''-''" by simp
    then show False using hundredths_hd [of k] by (simp add: is_digit_def code_def)
  qed
  then show ?thesis
    unfolding show_cents_def
    by (auto simp: hundredths_inj split: if_splits) (metis append_Cons append_Nil)+
qed

section \<open>Spanish tax identifiers\<close>

definition CIF_LETTERS :: string where "CIF_LETTERS = ''JABCDEFGHI''"

definition DNI_LETTERS :: string where "DNI_LETTERS = ''TRWAGMYFPDXBNJZSQVHLCKE''"

definition normalizeTaxId :: "string \<Rightarrow> string" where
  "normalizeTaxId value =
     (let v = filter (\<lambda>c. \<not> (is_space c \<or> c = CHR ''.'' \<or> c = CHR ''-'')) (toUpperCase value)
      in if startsWith v ''ES'' \<and> length v = 11 \<and> (\<forall>c\<in>set (drop 2 v). is_digit c \<or> is_upper c)
         then drop 2 v else v)"

definition cif_sum :: "string \<Rightarrow> nat" where
  "cif_sum digits =
     sum_list (map (\<lambda>i. let d = code (digits ! i) - 48
                         in if i mod 2 = 0 then (d * 2) div 10 + (d * 2) mod 10 else d) [0..<7])"

definition isValidSpanishTaxId :: "string \<Rightarrow> bool" where
  "isValidSpanishTaxId value =
     (let v = normalizeTaxId value; body = take 7 (drop 1 v)
      in if length v = 9 \<and> (\<forall>c\<in>set (take 8 v). is_digit c) \<and> is_upper (v ! 8)
         then DNI_LETTERS ! (read_nat (take 8 v) mod 23) = v ! 8
         else if length v = 9 \<and> v ! 0 \<in> set ''XYZ'' \<and> (\<forall>c\<in>set body. is_digit c) \<and> is_upper (v ! 8)
         then DNI_LETTERS ! (read_nat (digit (code (v ! 0) - code (CHR ''X'')) # body) mod 23) = v ! 8
         else if length v = 9 \<and> v ! 0 \<in> set ''ABCDEFGHJNPQRSUVW'' \<and> (\<forall>c\<in>set body. is_digit c)
           \<and> (is_digit (v ! 8) \<or> v ! 8 \<in> set ''ABCDEFGHIJ'')
         then (let control = (10 - cif_sum body mod 10) mod 10
               in v ! 8 = digit control \<or> v ! 8 = CIF_LETTERS ! control)
         else False)"

text \<open>A valid identifier stays valid however it is spaced, dotted or prefixed.\<close>

lemma normalizeTaxId_plain:
  assumes "length v = 9" and "\<forall>c\<in>set v. is_digit c \<or> is_upper c"
  shows "normalizeTaxId v = v"
proof -
  have "upper_char c = c \<and> \<not> (is_space c \<or> c = CHR ''.'' \<or> c = CHR ''-'')"
    if "c \<in> set v" for c
    using assms(2) that by (auto simp: upper_char_def is_space_def is_digit_def is_upper_def code_def)
  then have "toUpperCase v = v"
    and "filter (\<lambda>c. \<not> (is_space c \<or> c = CHR ''.'' \<or> c = CHR ''-'')) v = v"
    by (auto simp: toUpperCase_def map_idI intro!: filter_True)
  then show ?thesis using assms(1) by (simp add: normalizeTaxId_def Let_def)
qed

section \<open>Check characters\<close>

lemma upper_nie: "c \<in> set ''XYZ'' \<Longrightarrow> is_upper c" by (auto simp: is_upper_def code_def)
lemma upper_cif: "c \<in> set ''ABCDEFGHJNPQRSUVW'' \<Longrightarrow> is_upper c" by (auto simp: is_upper_def code_def)
lemma upper_ctl: "c \<in> set ''ABCDEFGHIJ'' \<Longrightarrow> is_upper c" by (auto simp: is_upper_def code_def)

lemma if_chain: "(if a then p else if b then q else if c then r else False) \<Longrightarrow> a \<or> b \<or> c"
  by (simp split: if_splits)

lemma nine_chars:
  assumes "length n = 9"
  obtains a cs b where "n = a # cs @ [b]" and "length cs = 7"
proof -
  obtain a m where n: "n = a # m" and m: "length m = 8" using assms by (cases n) auto
  then obtain cs b where "m = cs @ [b]" by (cases m rule: rev_cases) auto
  then show thesis using that n m by simp
qed

lemma valid_tax_id_chars:
  assumes "isValidSpanishTaxId v"
  shows "length (normalizeTaxId v) = 9" and "\<forall>c\<in>set (normalizeTaxId v). is_digit c \<or> is_upper c"
proof -
  show len: "length (normalizeTaxId v) = 9"
    using assms unfolding isValidSpanishTaxId_def Let_def by (auto split: if_splits)
  then obtain a cs b where n: "normalizeTaxId v = a # cs @ [b]" and cs: "length cs = 7"
    by (rule nine_chars)
  have parts: "(a # cs @ [b]) ! 8 = b" "(a # cs @ [b]) ! 0 = a" "take 8 (a # cs @ [b]) = a # cs"
    "take 7 (drop 1 (a # cs @ [b])) = cs"
    using cs by (simp_all add: nth_append numeral_eq_Suc)
  note some = if_chain [OF assms [unfolded isValidSpanishTaxId_def Let_def n parts]]
  have "(is_digit a \<or> is_upper a) \<and> (\<forall>c\<in>set cs. is_digit c) \<and> (is_digit b \<or> is_upper b)"
    using some
  proof (elim disjE)
    assume "length (a # cs @ [b]) = 9 \<and> (\<forall>c\<in>set (a # cs). is_digit c) \<and> is_upper b"
    then show ?thesis by simp
  next
    assume "length (a # cs @ [b]) = 9 \<and> a \<in> set ''XYZ'' \<and> (\<forall>c\<in>set cs. is_digit c) \<and> is_upper b"
    then show ?thesis using upper_nie by blast
  next
    assume "length (a # cs @ [b]) = 9 \<and> a \<in> set ''ABCDEFGHJNPQRSUVW'' \<and> (\<forall>c\<in>set cs. is_digit c)
      \<and> (is_digit b \<or> b \<in> set ''ABCDEFGHIJ'')"
    then show ?thesis using upper_cif upper_ctl by blast
  qed
  then show "\<forall>c\<in>set (normalizeTaxId v). is_digit c \<or> is_upper c" by (auto simp: n)
qed

lemma read_nat_append: "read_nat (s @ t) = read_nat s * 10 ^ length t + read_nat t"
proof (induction t rule: rev_induct)
  case Nil
  then show ?case by simp
next
  case (snoc c t)
  have "read_nat (s @ t @ [c]) = 10 * read_nat (s @ t) + (code c - 48)"
    using read_nat_snoc [of "s @ t" c] by simp
  then show ?case by (simp add: snoc algebra_simps)
qed

lemma digit_code_eq: "is_digit c \<Longrightarrow> is_digit d \<Longrightarrow> code c - 48 = code d - 48 \<Longrightarrow> c = d"
  by (metis (no_types, lifting) code_def diff_is_0_eq' eq_diff_iff is_digit_def of_char_eq_iff)

lemma dvd_digit_difference:
  assumes "(23::int) dvd x * 10 ^ k" and "\<bar>x\<bar> \<le> 9"
  shows "x = 0"
proof -
  have "coprime (23::int) 10" unfolding coprime_iff_gcd_eq_1 by (simp add: gcd_red_int [of 23 10] gcd_red_int [of 10 3])
  then have "coprime (23::int) (10 ^ k)" by (simp add: coprime_power_right_iff)
  then have "23 dvd x" using assms(1) coprime_dvd_mult_left_iff by blast
  then show ?thesis using assms(2) dvd_imp_le_int zdvd_not_zless by force
qed

lemma dni_letters_distinct: "distinct DNI_LETTERS" by code_simp
lemma dni_letters_length: "length DNI_LETTERS = 23" by code_simp

lemma dni_valid:
  assumes "length ds = 8" and "\<forall>c\<in>set ds. is_digit c" and "is_upper l" and "isValidSpanishTaxId (ds @ [l])"
  shows "DNI_LETTERS ! (read_nat ds mod 23) = l"
proof -
  have n: "normalizeTaxId (ds @ [l]) = ds @ [l]" by (rule normalizeTaxId_plain) (use assms in auto)
  have "take 8 (ds @ [l]) = ds" "(ds @ [l]) ! 8 = l" "length (ds @ [l]) = 9"
    using assms(1) by (simp_all add: nth_append)
  then show ?thesis using assms(2-4) unfolding isValidSpanishTaxId_def Let_def n by simp
qed

lemma dni_same_letter:
  assumes "DNI_LETTERS ! (m mod 23) = DNI_LETTERS ! (n mod 23)"
  shows "(23::int) dvd int m - int n"
proof -
  have "m mod 23 = n mod 23"
    using assms dni_letters_distinct dni_letters_length by (simp add: nth_eq_iff_index_eq)
  then show ?thesis by (metis mod_eq_dvd_iff of_nat_mod of_nat_numeral)
qed


lemma read_nat_at:
  assumes "i < length ds"
  shows "int (read_nat (ds[i := c])) - int (read_nat ds) =
    (int (code c - 48) - int (code (ds ! i) - 48)) * 10 ^ (length ds - Suc i)"
proof -
  have ds: "ds = take i ds @ ds ! i # drop (Suc i) ds" using assms by (rule id_take_nth_drop)
  have up: "ds[i := c] = take i ds @ c # drop (Suc i) ds" using assms by (rule upd_conv_take_nth_drop)
  have at: "int (read_nat (take i ds @ x # drop (Suc i) ds)) =
      (10 * int (read_nat (take i ds)) + int (code x - 48)) * 10 ^ (length ds - Suc i)
      + int (read_nat (drop (Suc i) ds))" for x
    using read_nat_append [of "take i ds @ [x]" "drop (Suc i) ds"] by simp
  show ?thesis unfolding up by (subst (2) ds, unfold at) (simp add: algebra_simps)
qed

lemma read_nat_swap:
  assumes "Suc i < length ds"
  shows "int (read_nat (ds[i := ds ! Suc i, Suc i := ds ! i])) - int (read_nat ds) =
    9 * (int (code (ds ! Suc i) - 48) - int (code (ds ! i) - 48)) * 10 ^ (length ds - Suc (Suc i))"
proof -
  have p: "(10::int) ^ (length ds - Suc i) = 10 * 10 ^ (length ds - Suc (Suc i))"
    using assms by (metis Suc_diff_Suc power_Suc)
  show ?thesis
    using read_nat_at [of "Suc i" "ds[i := ds ! Suc i]" "ds ! i"] read_nat_at [of i ds "ds ! Suc i"] assms
    by (simp add: p algebra_simps)
qed

end
