(* ===== verification/Database.thy ===== *)
theory Database imports Strings begin

text \<open>
  The tables the services read and write (\<open>packages/database/prisma/schema.prisma\<close>), as one
  tenant sees them: row-level security hides the rows of the others. Identifiers are numbers
  drawn from a counter (the generated UUIDs are unique), amounts of money are whole cents, a
  \<open>DATE\<close> is a number of days since the epoch and an instant a number of milliseconds. Rows stand
  in the order of their creation. Domain events, audit entries, queued jobs and notifications
  are appended to logs in the order the code emits them.
\<close>

section \<open>Enumerations\<close>

type_synonym id = nat
type_synonym cents = int
type_synonym date = int
type_synonym instant = int

datatype invoice_status = Draft | Issued | Paid | Overdue | Cancelled | Refunded
  | Partially_refunded | Rectified

datatype invoice_type = F1 | F2 | R1 | R2 | R3 | R4 | R5

datatype invoice_kind = Invoice_kind | Deposit_receipt

datatype correction_method = By_differences | By_substitution

datatype tax_category = S1 | E1 | E2 | E3 | E4 | E5 | E6 | N1 | N2

datatype payment_status = Pay_pending | Pay_processing | Pay_succeeded | Pay_failed
  | Pay_refunded | Pay_partially_refunded

datatype method_type = Card | Sepa_debit | Bank_transfer | Cash | Other_method
  | Credit_note | Withholding

datatype gateway = Stripe | Gocardless | Redsys | Manual

datatype refund_via = Via_gateway | Via_bank | Via_manual

datatype aeat_status = Aeat_pending | Aeat_accepted | Aeat_accepted_with_warnings
  | Aeat_rejected | Aeat_error

datatype issuer = By_app | By_holded

datatype sync_state = Creating | Approving | Awaiting_holded

datatype contract_status = Con_draft | Con_active | Con_ending | Con_ended | Con_cancelled

datatype deposit_status = Dep_none | Dep_held | Dep_returned | Dep_partially_returned

datatype sequence_type = FRST | RCUR

datatype debit_status = Deb_pending | Deb_collected | Deb_failed | Deb_returned | Deb_cancelled

datatype unit_status = Available | Occupied | Reserved | Maintenance | Blocked

section \<open>Rows\<close>

record tenant_row =
  ten_taxId :: "string option"
  ten_billingLegalName :: "string option"
  ten_billingAddress :: "string option"
  ten_billingPostalCode :: "string option"
  ten_billingCity :: "string option"
  ten_invoiceDueDays :: int
  ten_invoicingMode :: issuer
  ten_invoicingModePending :: "issuer option"
  ten_invoicingModePendingFrom :: "date option"
  ten_autoIssueRecurring :: bool

record owner_row =
  own_id :: id
  own_legalName :: string
  own_taxId :: string
  own_address :: "string option"
  own_postalCode :: "string option"
  own_city :: "string option"

record customer_row =
  cus_id :: id
  cus_documentNumber :: "string option"
  cus_country :: "string option"
  cus_depositExempt :: bool
  cus_isTest :: bool
  cus_deleted :: bool

record facility_row =
  fac_id :: id
  fac_name :: string
  fac_ownerId :: "id option"
  fac_timezone :: string
  fac_preOpening :: bool
  fac_openingDate :: "date option"
  fac_preOpeningMaxMonths :: int
  fac_deleted :: bool

text \<open>A unit with the property kind of its type (\<open>housing\<close> or \<open>storage\<close>).\<close>

record unit_row =
  unit_id :: id
  unit_facilityId :: id
  unit_code :: string
  unit_unitTypeId :: id
  unit_housing :: bool
  unit_basePrice :: cents
  unit_status :: unit_status
  unit_outOfServiceReason :: "string option"
  unit_outOfServiceSince :: "instant option"
  unit_maintenanceUntil :: "date option"

text \<open>
  The columns of a contract, grouped: a reservation before the facility opens, the deposit, and
  what is scheduled for a later date.
\<close>

record opening_fields =
  po_preOpening :: bool
  po_dateConfirmed :: bool
  po_deadline :: "date option"
  po_startedAt :: "instant option"

record deposit_fields =
  dep_amount :: cents
  dep_status :: deposit_status
  dep_cash :: bool
  dep_returnedAmount :: cents
  dep_settledAt :: "instant option"
  dep_retentionReason :: "string option"
  dep_returnMethod :: "string option"
  dep_returnedOn :: "date option"
  dep_returnReference :: "string option"
  dep_appliedAmount :: cents

record scheduled_fields =
  sch_price :: "cents option"
  sch_priceDate :: "date option"
  sch_priceReason :: "string option"
  sch_unitId :: "id option"
  sch_unitDate :: "date option"
  sch_unitPrice :: "cents option"
  sch_unitProrate :: bool

record contract_row =
  con_id :: id
  con_contractNumber :: string
  con_customerId :: id
  con_unitId :: id
  con_ownerId :: "id option"
  con_status :: contract_status
  con_startDate :: date
  con_endDate :: "date option"
  con_signedAt :: "instant option"
  con_endingRequestedAt :: "instant option"
  con_endDateBeforeEnding :: "date option"
  con_endedAt :: "instant option"
  con_cancelledAt :: "instant option"
  con_billingStartsOn :: "date option"
  con_billingIntervalMonths :: int
  con_firstPaymentMonths :: int
  con_firstPaymentDeadline :: "instant option"
  con_prepayDiscountPct :: rat
  con_priceMonthly :: cents
  con_discountAmount :: cents
  con_discountReason :: "string option"
  con_promotionId :: "id option"
  con_irpfRetentionPct :: rat
  con_freeMonthsRemaining :: int
  con_pendingCredit :: cents
  con_pendingCreditReason :: "string option"
  con_insurancePlanId :: "id option"
  con_insurancePrice :: "cents option"
  con_autoRenew :: bool
  con_termMonths :: "int option"
  con_cancellationNoticeDays :: int
  con_notes :: "string option"
  con_opening :: opening_fields
  con_deposit :: deposit_fields
  con_scheduled :: scheduled_fields
  con_createdAt :: instant
  con_deleted :: bool

record series_row =
  ser_id :: id
  ser_code :: string
  ser_name :: string
  ser_prefix :: string
  ser_yearScope :: bool
  ser_nextNumber :: int
  ser_numberingYear :: "int option"
  ser_facilityId :: "id option"
  ser_isActive :: bool
  ser_isDefault :: bool
  ser_isRectification :: bool
  ser_ownerId :: "id option"

record consumed_benefits =
  ben_freeMonth :: bool
  ben_creditCents :: int
  ben_creditReason :: "string option"

record verifactu_fields =
  vf_hash :: "string option"
  vf_previousHash :: "string option"
  vf_previousInvoiceId :: "id option"
  vf_chainSeq :: "int option"
  vf_recordTimestamp :: "string option"
  vf_qrCodeUrl :: "string option"
  vf_aeatSentAt :: "instant option"
  vf_aeatStatus :: "aeat_status option"
  vf_aeatCsv :: "string option"

record holded_fields =
  hol_documentId :: "string option"
  hol_syncState :: "sync_state option"
  hol_syncStartedAt :: "instant option"

record invoice_row =
  inv_id :: id
  inv_kind :: invoice_kind
  inv_type :: invoice_type
  inv_status :: invoice_status
  inv_customerId :: "id option"
  inv_contractId :: "id option"
  inv_ownerId :: "id option"
  inv_seriesId :: id
  inv_sequence :: int
  inv_number :: string
  inv_issueDate :: "date option"
  inv_dueDate :: "date option"
  inv_periodStart :: "date option"
  inv_periodEnd :: "date option"
  inv_subtotal :: cents
  inv_taxAmount :: cents
  inv_total :: cents
  inv_amountPaid :: cents
  inv_amountRefunded :: cents
  inv_withholdingPct :: rat
  inv_withholding :: cents
  inv_rectifies :: "id option"
  inv_rectificationReason :: "string option"
  inv_correctionMethod :: "correction_method option"
  inv_lateFeeFor :: "id option"
  inv_bundledWith :: "id option"
  inv_notes :: "string option"
  inv_benefits :: "consumed_benefits option"
  inv_issuedBy :: issuer
  inv_paidAt :: "instant option"
  inv_cancelledAt :: "instant option"
  inv_deleted :: bool
  inv_vf :: verifactu_fields
  inv_holded :: holded_fields

record item_row =
  it_invoiceId :: id
  it_position :: nat
  it_description :: string
  it_quantity :: rat
  it_unitPrice :: rat
  it_taxRate :: rat
  it_taxCategory :: tax_category
  it_taxAmount :: cents
  it_total :: cents
  it_relatedContractId :: "id option"
  it_relatedUnitId :: "id option"
  it_periodStart :: "date option"
  it_periodEnd :: "date option"

record payment_row =
  pay_id :: id
  pay_invoiceId :: "id option"
  pay_customerId :: "id option"
  pay_amount :: cents
  pay_status :: payment_status
  pay_method :: method_type
  pay_gateway :: gateway
  pay_gatewayPaymentId :: "string option"
  pay_paidAt :: "instant option"
  pay_createdAt :: instant
  pay_refundedAmount :: cents
  pay_refundedAt :: "instant option"
  pay_returnedAt :: "instant option"
  pay_failureReason :: "string option"
  pay_notes :: "string option"

record refund_row =
  rfd_id :: id
  rfd_invoiceId :: id
  rfd_paymentId :: "id option"
  rfd_amount :: cents
  rfd_via :: refund_via
  rfd_reason :: "string option"
  rfd_gatewayRefundId :: "string option"
  rfd_createdBy :: "id option"
  rfd_createdAt :: instant

record remittance_item_row =
  rem_id :: id
  rem_remittanceId :: id
  rem_invoiceId :: id
  rem_mandateId :: id
  rem_amount :: cents
  rem_sequence :: sequence_type
  rem_endToEndId :: string
  rem_status :: debit_status
  rem_failureReason :: "string option"

text \<open>
  A recommendation: who made it, whether the newcomer has signed and when, and the reward, a percentage
  of the rent or an amount, both with two decimals.
\<close>

record referral_row =
  rfr_id :: id
  rfr_referrerId :: id
  rfr_converted :: bool
  rfr_convertedAt :: "instant option"
  rfr_percentage :: bool
  rfr_rewardValue :: "cents option"
  rfr_rewardInvoiceId :: "id option"
  rfr_rewardAppliedAt :: "instant option"

record certificate_row =
  cert_ownerId :: "id option"
  cert_revoked :: bool
  cert_validTo :: instant

record dunning_row =
  dun_invoiceId :: id
  dun_scheduled :: bool
  dun_superseded :: bool
  dun_cancelled :: bool
  dun_notes :: "string option"

section \<open>Events, audit entries and the tenant's database\<close>

datatype event =
    Invoice_issued id
  | Invoice_pdf_requested id
  | Invoice_paid id
  | Invoice_cancelled id
  | Invoice_voided id
  | Invoice_rectified id
  | Invoice_refunded id cents
  | Invoice_payment_reverted id

record db =
  next_id :: id
  tenant :: tenant_row
  owners :: "owner_row list"
  customers :: "customer_row list"
  facilities :: "facility_row list"
  units :: "unit_row list"
  contracts :: "contract_row list"
  series :: "series_row list"
  invoices :: "invoice_row list"
  items :: "item_row list"
  payments :: "payment_row list"
  refunds :: "refund_row list"
  remittance_items :: "remittance_item_row list"
  referrals :: "referral_row list"
  certificates :: "certificate_row list"
  dunning_actions :: "dunning_row list"
  verifactu_queue :: "id list"
  notifications :: "string list"
  events :: "event list"
  audits :: "(string \<times> id) list"

text \<open>
  What the services take from outside: the clock, the offset of the default time zone and of a
  named one, whether
  invoices are really sent to the tax agency, SHA-256 of a string in upper-case hexadecimal, the
  timestamp text of the record, the PNG of a QR code for an address and its parameters, the random
  part of a draft's number, the test switch of \<open>tenant-readiness.ts\<close>, and the answers of Holded:
  whether the account can issue, the document id and number it gives an invoice, and the number
  of a credit note (\<open>None\<close> is a failed request).
\<close>

record env =
  now :: instant
  tz_offset :: "instant \<Rightarrow> int"
  zone_offset :: "string \<Rightarrow> instant \<Rightarrow> int"
  realMode :: bool
  sha256 :: "string \<Rightarrow> string"
  madrid_timestamp :: "instant \<Rightarrow> string"
  production :: bool
  qr_png :: "string \<times> string \<times> string \<times> string \<times> string \<Rightarrow> string"
  draft_suffix :: "id \<Rightarrow> string"
  skip_readiness :: bool
  holded_ready :: bool
  holded_issue :: "id \<Rightarrow> (string \<times> string) option"
  holded_credit_number :: "string \<Rightarrow> string option option"

definition today :: "env \<Rightarrow> date" where
  "today e = todayInTimezone (tz_offset e) (now e)"

definition today_in :: "env \<Rightarrow> string \<Rightarrow> date" where
  "today_in e zone = todayInTimezone (zone_offset e zone) (now e)"

text \<open>Appending to the logs.\<close>

definition emit :: "event \<Rightarrow> db \<Rightarrow> db" where
  "emit ev d = d\<lparr>events := events d @ [ev]\<rparr>"

definition audit :: "string \<Rightarrow> id \<Rightarrow> db \<Rightarrow> db" where
  "audit action entity d = d\<lparr>audits := audits d @ [(action, entity)]\<rparr>"

section \<open>Rows with default columns\<close>

definition no_verifactu :: verifactu_fields where
  "no_verifactu =
     \<lparr>vf_hash = None, vf_previousHash = None, vf_previousInvoiceId = None, vf_chainSeq = None,
      vf_recordTimestamp = None, vf_qrCodeUrl = None, vf_aeatSentAt = None, vf_aeatStatus = None,
      vf_aeatCsv = None\<rparr>"

definition no_holded :: holded_fields where
  "no_holded = \<lparr>hol_documentId = None, hol_syncState = None, hol_syncStartedAt = None\<rparr>"

definition default_invoice :: invoice_row where
  "default_invoice =
     \<lparr>inv_id = 0, inv_kind = Invoice_kind, inv_type = F1, inv_status = Draft, inv_customerId = None,
      inv_contractId = None, inv_ownerId = None, inv_seriesId = 0, inv_sequence = 0,
      inv_number = [], inv_issueDate = None, inv_dueDate = None, inv_periodStart = None,
      inv_periodEnd = None, inv_subtotal = 0, inv_taxAmount = 0, inv_total = 0, inv_amountPaid = 0,
      inv_amountRefunded = 0, inv_withholdingPct = 0, inv_withholding = 0, inv_rectifies = None,
      inv_rectificationReason = None, inv_correctionMethod = None, inv_lateFeeFor = None,
      inv_bundledWith = None, inv_notes = None, inv_benefits = None, inv_issuedBy = By_app,
      inv_paidAt = None, inv_cancelledAt = None, inv_deleted = False, inv_vf = no_verifactu,
      inv_holded = no_holded\<rparr>"

definition no_opening :: opening_fields where
  "no_opening =
     \<lparr>po_preOpening = False, po_dateConfirmed = False, po_deadline = None, po_startedAt = None\<rparr>"

definition no_deposit :: deposit_fields where
  "no_deposit =
     \<lparr>dep_amount = 0, dep_status = Dep_none, dep_cash = False, dep_returnedAmount = 0,
      dep_settledAt = None, dep_retentionReason = None, dep_returnMethod = None,
      dep_returnedOn = None, dep_returnReference = None, dep_appliedAmount = 0\<rparr>"

definition nothing_scheduled :: scheduled_fields where
  "nothing_scheduled =
     \<lparr>sch_price = None, sch_priceDate = None, sch_priceReason = None, sch_unitId = None,
      sch_unitDate = None, sch_unitPrice = None, sch_unitProrate = False\<rparr>"

definition default_contract :: contract_row where
  "default_contract =
     \<lparr>con_id = 0, con_contractNumber = [], con_customerId = 0, con_unitId = 0, con_ownerId = None,
      con_status = Con_draft, con_startDate = 0, con_endDate = None, con_signedAt = None,
      con_endingRequestedAt = None, con_endDateBeforeEnding = None, con_endedAt = None,
      con_cancelledAt = None, con_billingStartsOn = None, con_billingIntervalMonths = 1,
      con_firstPaymentMonths = 1, con_firstPaymentDeadline = None, con_prepayDiscountPct = 0,
      con_priceMonthly = 0, con_discountAmount = 0, con_discountReason = None, con_promotionId = None,
      con_irpfRetentionPct = 0, con_freeMonthsRemaining = 0, con_pendingCredit = 0,
      con_pendingCreditReason = None, con_insurancePlanId = None, con_insurancePrice = None,
      con_autoRenew = True, con_termMonths = None, con_cancellationNoticeDays = 15, con_notes = None,
      con_opening = no_opening, con_deposit = no_deposit, con_scheduled = nothing_scheduled,
      con_createdAt = 0, con_deleted = False\<rparr>"

definition default_payment :: payment_row where
  "default_payment =
     \<lparr>pay_id = 0, pay_invoiceId = None, pay_customerId = None, pay_amount = 0,
      pay_status = Pay_pending, pay_method = Card, pay_gateway = Manual,
      pay_gatewayPaymentId = None, pay_paidAt = None, pay_createdAt = 0, pay_refundedAmount = 0,
      pay_refundedAt = None, pay_returnedAt = None, pay_failureReason = None, pay_notes = None\<rparr>"

definition default_series :: series_row where
  "default_series =
     \<lparr>ser_id = 0, ser_code = [], ser_name = [], ser_prefix = [], ser_yearScope = True,
      ser_nextNumber = 1, ser_numberingYear = None, ser_facilityId = None, ser_isActive = True,
      ser_isDefault = False, ser_isRectification = False, ser_ownerId = None\<rparr>"

definition default_tenant :: tenant_row where
  "default_tenant =
     \<lparr>ten_taxId = None, ten_billingLegalName = None, ten_billingAddress = None,
      ten_billingPostalCode = None, ten_billingCity = None, ten_invoiceDueDays = 15,
      ten_invoicingMode = By_app, ten_invoicingModePending = None,
      ten_invoicingModePendingFrom = None, ten_autoIssueRecurring = False\<rparr>"

definition empty_db :: db where
  "empty_db =
     \<lparr>next_id = 1, tenant = default_tenant, owners = [], customers = [], facilities = [], units = [], contracts = [],
      series = [], invoices = [], items = [], payments = [], refunds = [], remittance_items = [],
      referrals = [], certificates = [], dunning_actions = [], verifactu_queue = [],
      notifications = [], events = [], audits = []\<rparr>"

text \<open>Lookups by primary key.\<close>

definition find_invoice :: "db \<Rightarrow> id \<Rightarrow> invoice_row option" where
  "find_invoice d i = find_first (\<lambda>r. inv_id r = i) (invoices d)"

definition find_series :: "db \<Rightarrow> id \<Rightarrow> series_row option" where
  "find_series d i = find_first (\<lambda>r. ser_id r = i) (series d)"

definition find_contract :: "db \<Rightarrow> id \<Rightarrow> contract_row option" where
  "find_contract d i = find_first (\<lambda>r. con_id r = i) (contracts d)"

definition find_owner :: "db \<Rightarrow> id \<Rightarrow> owner_row option" where
  "find_owner d i = find_first (\<lambda>r. own_id r = i) (owners d)"

definition find_customer :: "db \<Rightarrow> id \<Rightarrow> customer_row option" where
  "find_customer d i = find_first (\<lambda>r. cus_id r = i) (customers d)"

definition find_facility :: "db \<Rightarrow> id \<Rightarrow> facility_row option" where
  "find_facility d i = find_first (\<lambda>r. fac_id r = i) (facilities d)"

definition find_unit :: "db \<Rightarrow> id \<Rightarrow> unit_row option" where
  "find_unit d i = find_first (\<lambda>r. unit_id r = i) (units d)"

definition update_invoice :: "id \<Rightarrow> (invoice_row \<Rightarrow> invoice_row) \<Rightarrow> db \<Rightarrow> db" where
  "update_invoice i f d = d\<lparr>invoices := update_many (\<lambda>r. inv_id r = i) f (invoices d)\<rparr>"

definition update_payment :: "id \<Rightarrow> (payment_row \<Rightarrow> payment_row) \<Rightarrow> db \<Rightarrow> db" where
  "update_payment i f d = d\<lparr>payments := update_many (\<lambda>r. pay_id r = i) f (payments d)\<rparr>"

definition update_contract :: "id \<Rightarrow> (contract_row \<Rightarrow> contract_row) \<Rightarrow> db \<Rightarrow> db" where
  "update_contract i f d = d\<lparr>contracts := update_many (\<lambda>r. con_id r = i) f (contracts d)\<rparr>"

definition update_series :: "id \<Rightarrow> (series_row \<Rightarrow> series_row) \<Rightarrow> db \<Rightarrow> db" where
  "update_series i f d = d\<lparr>series := update_many (\<lambda>r. ser_id r = i) f (series d)\<rparr>"

definition create_payment :: "payment_row \<Rightarrow> db \<Rightarrow> db" where
  "create_payment p d =
     d\<lparr>payments := create_row (p\<lparr>pay_id := next_id d\<rparr>) (payments d), next_id := Suc (next_id d)\<rparr>"

lemma find_invoice_SomeD: "find_invoice d i = Some r \<Longrightarrow> r \<in> set (invoices d) \<and> inv_id r = i"
  by (auto simp: find_invoice_def dest: find_first_SomeD)

lemma find_series_SomeD: "find_series d i = Some r \<Longrightarrow> r \<in> set (series d) \<and> ser_id r = i"
  by (auto simp: find_series_def dest: find_first_SomeD)

lemma emit_sel [simp]:
  "facilities (emit ev d) = facilities d" "units (emit ev d) = units d" "customers (emit ev d) = customers d"
  "invoices (emit ev d) = invoices d" "payments (emit ev d) = payments d"
  "series (emit ev d) = series d" "items (emit ev d) = items d" "refunds (emit ev d) = refunds d"
  "contracts (emit ev d) = contracts d" "next_id (emit ev d) = next_id d"
  "tenant (emit ev d) = tenant d" "owners (emit ev d) = owners d"
  "verifactu_queue (emit ev d) = verifactu_queue d" "events (emit ev d) = events d @ [ev]"
  by (simp_all add: emit_def)

lemma audit_sel [simp]:
  "facilities (audit a i d) = facilities d" "units (audit a i d) = units d" "customers (audit a i d) = customers d"
  "invoices (audit a i d) = invoices d" "payments (audit a i d) = payments d"
  "series (audit a i d) = series d" "items (audit a i d) = items d" "refunds (audit a i d) = refunds d"
  "contracts (audit a i d) = contracts d" "next_id (audit a i d) = next_id d"
  "tenant (audit a i d) = tenant d" "owners (audit a i d) = owners d"
  "verifactu_queue (audit a i d) = verifactu_queue d" "events (audit a i d) = events d"
  by (simp_all add: audit_def)

lemma update_invoice_sel [simp]:
  "facilities (update_invoice i f d) = facilities d" "units (update_invoice i f d) = units d" "customers (update_invoice i f d) = customers d"
  "invoices (update_invoice i f d) = update_many (\<lambda>r. inv_id r = i) f (invoices d)"
  "payments (update_invoice i f d) = payments d" "series (update_invoice i f d) = series d"
  "items (update_invoice i f d) = items d" "contracts (update_invoice i f d) = contracts d"
  "refunds (update_invoice i f d) = refunds d" "tenant (update_invoice i f d) = tenant d"
  "next_id (update_invoice i f d) = next_id d" "owners (update_invoice i f d) = owners d"
  "events (update_invoice i f d) = events d" "verifactu_queue (update_invoice i f d) = verifactu_queue d"
  by (simp_all add: update_invoice_def)

lemma create_payment_sel [simp]:
  "facilities (create_payment p d) = facilities d" "units (create_payment p d) = units d" "customers (create_payment p d) = customers d"
  "payments (create_payment p d) = payments d @ [p\<lparr>pay_id := next_id d\<rparr>]"
  "invoices (create_payment p d) = invoices d" "series (create_payment p d) = series d"
  "items (create_payment p d) = items d" "next_id (create_payment p d) = Suc (next_id d)"
  "contracts (create_payment p d) = contracts d" "tenant (create_payment p d) = tenant d"
  "refunds (create_payment p d) = refunds d" "events (create_payment p d) = events d"
  "owners (create_payment p d) = owners d" "verifactu_queue (create_payment p d) = verifactu_queue d"
  by (simp_all add: create_payment_def create_row_def)

lemma update_payment_sel [simp]:
  "facilities (update_payment i g d) = facilities d" "units (update_payment i g d) = units d" "customers (update_payment i g d) = customers d"
  "payments (update_payment i g d) = update_many (\<lambda>r. pay_id r = i) g (payments d)"
  "invoices (update_payment i g d) = invoices d" "series (update_payment i g d) = series d"
  "items (update_payment i g d) = items d" "next_id (update_payment i g d) = next_id d"
  "contracts (update_payment i g d) = contracts d" "tenant (update_payment i g d) = tenant d"
  "refunds (update_payment i g d) = refunds d" "events (update_payment i g d) = events d"
  by (simp_all add: update_payment_def)

lemma update_series_sel [simp]:
  "facilities (update_series i h d) = facilities d" "units (update_series i h d) = units d" "customers (update_series i h d) = customers d"
  "series (update_series i h d) = update_many (\<lambda>r. ser_id r = i) h (series d)"
  "invoices (update_series i h d) = invoices d" "payments (update_series i h d) = payments d"
  "items (update_series i h d) = items d" "next_id (update_series i h d) = next_id d"
  "contracts (update_series i h d) = contracts d" "tenant (update_series i h d) = tenant d"
  "refunds (update_series i h d) = refunds d" "events (update_series i h d) = events d"
  "owners (update_series i h d) = owners d"
  by (simp_all add: update_series_def)

end
