(* ===== verification/InvoiceSeries.thy ===== *)
theory InvoiceSeries imports Database "HOL-Library.List_Lexorder" "HOL-Library.Char_ord" begin

text \<open>
  Invoice series (\<open>apps/api/src/modules/billing/invoice-series.service.ts\<close>): creating and updating a
  series, reserving the next number, the series of credit notes and of property owners, and the
  format of the invoice number. The invariant says that each issuer has at most one default
  series and that a default series is active.
\<close>

section \<open>Operations\<close>

definition getDefault :: "db \<Rightarrow> series_row option" where
  "getDefault d =
     find_first (\<lambda>s. ser_isDefault s \<and> ser_isActive s \<and> \<not> ser_isRectification s \<and> ser_ownerId s = None)
       (sort_key ser_code (series d))"

record create_series_input =
  csi_code :: string
  csi_name :: string
  csi_prefix :: string
  csi_yearScope :: bool
  csi_facilityId :: "id option"
  csi_isDefault :: bool

record update_series_input =
  usi_name :: "string option"
  usi_prefix :: "string option"
  usi_yearScope :: "bool option"
  usi_isActive :: "bool option"
  usi_isDefault :: "bool option"

text \<open>\<open>invoiceSeries.create\<close>: the code is unique within the tenant.\<close>

definition insert_series :: "db \<Rightarrow> series_row \<Rightarrow> (db \<times> series_row) result" where
  "insert_series d s =
     (let row = s\<lparr>ser_id := next_id d\<rparr>
      in if \<exists>r\<in>set (series d). ser_code r = ser_code s then Inl UniqueViolation
         else Inr (d\<lparr>series := create_row row (series d), next_id := Suc (next_id d)\<rparr>, row))"

definition unset_defaults :: "id option \<Rightarrow> db \<Rightarrow> db" where
  "unset_defaults owner d =
     d\<lparr>series := update_many (\<lambda>s. ser_isDefault s \<and> ser_ownerId s = owner)
                   (\<lambda>s. s\<lparr>ser_isDefault := False\<rparr>) (series d)\<rparr>"

definition create_series :: "db \<Rightarrow> create_series_input \<Rightarrow> (db \<times> series_row) result" where
  "create_series d input =
     (let d1 = (if csi_isDefault input then unset_defaults None d else d);
          row = default_series\<lparr>ser_code := toUpperCase (trim (csi_code input)),
                  ser_name := trim (csi_name input),
                  ser_prefix := toUpperCase (trim (csi_prefix input)),
                  ser_yearScope := csi_yearScope input,
                  ser_facilityId := csi_facilityId input,
                  ser_isDefault := csi_isDefault input\<rparr>
      in case insert_series d1 row of
           Inl e \<Rightarrow> (if e = UniqueViolation then Inl (ConflictException ''invoice_series_code_taken'')
                    else Inl e)
         | Inr (d2, s) \<Rightarrow> Inr (audit ''invoice_series.created'' (ser_id s) d2, s))"

definition apply_series_update :: "update_series_input \<Rightarrow> series_row \<Rightarrow> series_row" where
  "apply_series_update input s =
     s\<lparr>ser_name := (case usi_name input of None \<Rightarrow> ser_name s | Some n \<Rightarrow> trim n),
       ser_prefix := (case usi_prefix input of None \<Rightarrow> ser_prefix s
                        | Some p \<Rightarrow> toUpperCase (trim p)),
       ser_yearScope := (case usi_yearScope input of None \<Rightarrow> ser_yearScope s | Some y \<Rightarrow> y),
       ser_isActive := (case usi_isActive input of None \<Rightarrow> ser_isActive s | Some a \<Rightarrow> a),
       ser_isDefault := (case usi_isDefault input of None \<Rightarrow> ser_isDefault s | Some b \<Rightarrow> b)\<rparr>"

definition changes_numbering :: "update_series_input \<Rightarrow> series_row \<Rightarrow> bool" where
  "changes_numbering input s \<longleftrightarrow>
     (case usi_prefix input of None \<Rightarrow> False | Some p \<Rightarrow> toUpperCase (trim p) \<noteq> ser_prefix s) \<or>
     (case usi_yearScope input of None \<Rightarrow> False | Some y \<Rightarrow> y \<noteq> ser_yearScope s)"

definition update_series_row :: "db \<Rightarrow> id \<Rightarrow> update_series_input \<Rightarrow> (db \<times> series_row) result" where
  "update_series_row d seriesId input =
     bindr (found (find_series d seriesId) (NotFoundException ''invoice_series_not_found'')) (\<lambda>existing.
     bindr (guard (\<not> (usi_isDefault input = Some True \<and> ser_isRectification existing))
              (ConflictException ''rectification_series_not_default'')) (\<lambda>_.
     bindr (guard (\<not> (ser_isDefault existing \<and>
                     (usi_isDefault input = Some False \<or> usi_isActive input = Some False)))
              (ConflictException ''default_series_required'')) (\<lambda>_.
     bindr (guard (\<not> (usi_isDefault input = Some True \<and>
                     \<not> (case usi_isActive input of None \<Rightarrow> ser_isActive existing | Some a \<Rightarrow> a)))
              (ConflictException ''inactive_series_not_default'')) (\<lambda>_.
     bindr (guard (\<not> (changes_numbering input existing \<and>
                     0 < count_rows (\<lambda>i. inv_seriesId i = seriesId \<and> 0 < inv_sequence i) (invoices d)))
              (ConflictException ''series_in_use'')) (\<lambda>_.
     let d1 = (if usi_isDefault input = Some True \<and> \<not> ser_isDefault existing
               then unset_defaults (ser_ownerId existing) d else d);
         d2 = update_series seriesId (apply_series_update input) d1
     in Inr (audit ''invoice_series.updated'' seriesId d2, apply_series_update input existing))))))"

text \<open>One statement that locks the row, increments the counter and returns the new value.\<close>

definition take_number :: "int \<Rightarrow> series_row \<Rightarrow> series_row" where
  "take_number year s =
     s\<lparr>ser_nextNumber := (if ser_yearScope s \<and> ser_numberingYear s \<noteq> Some year then 2
                           else ser_nextNumber s + 1),
       ser_numberingYear := (if ser_yearScope s then Some year else ser_numberingYear s)\<rparr>"

definition reserveNextNumber :: "db \<Rightarrow> id \<Rightarrow> int \<Rightarrow> (db \<times> int \<times> series_row) result" where
  "reserveNextNumber d seriesId year =
     bindr (found (find_series d seriesId) RecordNotFound) (\<lambda>s.
     bindr (guard (ser_isActive s) (ConflictException ''invoice_series_inactive'')) (\<lambda>_.
     let updated = take_number year s
     in Inr (update_series seriesId (take_number year) d, ser_nextNumber updated - 1, updated)))"

text \<open>
  \<open>while (taken(`${base}${n}`)) n++\<close>: the loop ends because only finitely many numbers are taken.
\<close>

function next_free :: "string \<Rightarrow> string list \<Rightarrow> nat \<Rightarrow> nat" where
  "next_free base taken n =
     (if base @ show_nat n \<in> set taken then next_free base taken (Suc n) else n)"
  by pat_completeness auto

lemma finite_taken_numbers: "finite {m. base @ show_nat m \<in> set taken}"
proof -
  have "inj (\<lambda>m. base @ show_nat m)" by (auto simp: inj_def show_nat_inj)
  then have "finite ((\<lambda>m. base @ show_nat m) -` set taken)" by (simp add: finite_vimageI)
  then show ?thesis by (simp add: vimage_def)
qed

termination next_free
proof (relation "measure (\<lambda>(base, taken, n). card {m. n \<le> m \<and> base @ show_nat m \<in> set taken})",
    goal_cases)
  case (2 base taken n)
  have "finite {m. n \<le> m \<and> base @ show_nat m \<in> set taken}"
    by (rule finite_subset [OF _ finite_taken_numbers [of base taken]]) auto
  moreover have "{m. Suc n \<le> m \<and> base @ show_nat m \<in> set taken}
      \<subset> {m. n \<le> m \<and> base @ show_nat m \<in> set taken}"
  proof (rule psubsetI)
    have "n \<in> {m. n \<le> m \<and> base @ show_nat m \<in> set taken}" using 2 by simp
    then show "{m. Suc n \<le> m \<and> base @ show_nat m \<in> set taken}
        \<noteq> {m. n \<le> m \<and> base @ show_nat m \<in> set taken}" by (metis (no_types, lifting) mem_Collect_eq not_less_eq_eq order_refl)
  qed auto
  ultimately show ?case by (simp add: psubset_card_mono)
qed simp

declare next_free.simps [simp del]

definition rect_prefix :: "series_row list \<Rightarrow> string" where
  "rect_prefix rows =
     (case find_first (\<lambda>p. p \<notin> set (map (toUpperCase \<circ> ser_prefix) rows)) [''R'', ''RECT'', ''RE''] of
        Some p \<Rightarrow> p
      | None \<Rightarrow> ''R'' @ show_nat (length rows + 1))"

definition rect_code :: "series_row list \<Rightarrow> string" where
  "rect_code rows =
     (let codes = map (toUpperCase \<circ> ser_code) rows
      in if ''RECT'' \<in> set codes then ''RECT'' @ show_nat (next_free ''RECT'' codes 2) else ''RECT'')"

definition ownerSeries :: "db \<Rightarrow> id \<Rightarrow> bool \<Rightarrow> (db \<times> series_row) result" where
  "ownerSeries d owner rectification =
     (let w = (\<lambda>s. ser_ownerId s = Some owner \<and> ser_isRectification s = rectification \<and> ser_isActive s)
      in case find_first (\<lambda>s. w s \<and> (rectification \<or> ser_isDefault s)) (series d) of
           Some s \<Rightarrow> Inr (d, s)
         | None \<Rightarrow>
             (case find_first w (series d) of
                Some s \<Rightarrow> Inr (d, s)
              | None \<Rightarrow>
                  bindr (found (find_owner d owner) RecordNotFound) (\<lambda>o1.
                  let taken = map (toUpperCase \<circ> ser_prefix) (series d)
                              @ map (toUpperCase \<circ> ser_code) (series d);
                      base = (if rectification then ''RP'' else ''P'');
                      key = base @ show_nat (next_free base taken 1);
                      name = (if rectification then ''Rectificativas'' else ''Facturas'') @ '' de ''
                             @ own_legalName o1
                  in insert_series d (default_series\<lparr>ser_ownerId := Some owner, ser_code := key,
                       ser_name := take 120 name, ser_prefix := key, ser_yearScope := True,
                       ser_isDefault := (\<not> rectification),
                       ser_isRectification := rectification\<rparr>))))"

definition rectificationSeries :: "db \<Rightarrow> id option \<Rightarrow> (db \<times> series_row) result" where
  "rectificationSeries d owner =
     (case owner of
        Some o1 \<Rightarrow> ownerSeries d o1 True
      | None \<Rightarrow>
          (case find_first (\<lambda>s. ser_isRectification s \<and> ser_isActive s \<and> ser_ownerId s = None) (series d) of
             Some s \<Rightarrow> Inr (d, s)
           | None \<Rightarrow> insert_series d (default_series\<lparr>ser_code := rect_code (series d),
               ser_name := ''Rectificativas'', ser_prefix := rect_prefix (series d),
               ser_yearScope := True, ser_isDefault := False, ser_isRectification := True\<rparr>)))"

definition formatInvoiceNumber :: "series_row \<Rightarrow> int \<Rightarrow> date \<Rightarrow> string" where
  "formatInvoiceNumber s sequence issueDate =
     (let seq = padStart 5 (CHR ''0'') (show_int sequence)
      in if ser_yearScope s
         then ser_prefix s @ ''/'' @ show_int (year_of issueDate) @ ''/'' @ seq
         else ser_prefix s @ ''/'' @ seq)"

section \<open>Free names\<close>

lemma next_free_not_taken: "base @ show_nat (next_free base taken n) \<notin> set taken"
  by (induction base taken n rule: next_free.induct) (subst next_free.simps, simp)

lemma next_free_ge: "n \<le> next_free base taken n"
proof (induction base taken n rule: next_free.induct)
  case (1 base taken n)
  show ?case
  proof (cases "base @ show_nat n \<in> set taken")
    case True
    then show ?thesis using 1 by (subst next_free.simps) simp
  next
    case False
    then show ?thesis by (subst next_free.simps) simp
  qed
qed

lemma rect_code_free: "rect_code rows \<notin> set (map (toUpperCase \<circ> ser_code) rows)"
  using next_free_not_taken [of "''RECT''" "map (toUpperCase \<circ> ser_code) rows" 2]
  by (auto simp: rect_code_def Let_def)

text \<open>The names the code generates are upper case already.\<close>

lemma upper_show_nat [simp]: "toUpperCase (show_nat n) = show_nat n"
proof -
  have "upper_char c = c" if "is_digit c" for c
    using that by (auto simp: upper_char_def is_digit_def)
  then show ?thesis using show_nat_digits [of n] by (auto simp: toUpperCase_def map_idI)
qed

section \<open>Numbers\<close>

lemma padded_number_eq:
  assumes "0 \<le> m" and "0 \<le> n"
    and "padStart 5 (CHR ''0'') (show_int m) = padStart 5 (CHR ''0'') (show_int n)"
  shows "m = n"
proof -
  have "read_nat (padStart 5 (CHR ''0'') (show_int m)) = nat m"
    "read_nat (padStart 5 (CHR ''0'') (show_int n)) = nat n"
    using assms(1,2) by (simp_all add: show_int_def)
  then show ?thesis using assms by simp
qed

lemma show_int_digits: "0 \<le> n \<Longrightarrow> \<forall>c\<in>set (show_int n). is_digit c"
  using show_nat_digits by (simp add: show_int_def)

lemma show_int_inj: "0 \<le> m \<Longrightarrow> 0 \<le> n \<Longrightarrow> show_int m = show_int n \<longleftrightarrow> m = n"
  by (auto simp: show_int_def show_nat_inj)

lemma format_inj_aux:
  assumes "0 \<le> m" and "0 \<le> n" and "0 \<le> year_of a" and "0 \<le> year_of b"
    and "formatInvoiceNumber s m a = formatInvoiceNumber s n b"
  shows "m = n \<and> (ser_yearScope s \<longrightarrow> year_of a = year_of b)"
proof (cases "ser_yearScope s")
  case False
  then have "padStart 5 (CHR ''0'') (show_int m) = padStart 5 (CHR ''0'') (show_int n)"
    using assms(5) by (simp add: formatInvoiceNumber_def)
  then show ?thesis using padded_number_eq assms(1,2) False by simp
next
  case True
  then have "show_int (year_of a) @ CHR ''/'' # padStart 5 (CHR ''0'') (show_int m) =
      show_int (year_of b) @ CHR ''/'' # padStart 5 (CHR ''0'') (show_int n)"
    using assms(5) by (simp add: formatInvoiceNumber_def)
  then have "show_int (year_of a) = show_int (year_of b) \<and>
      padStart 5 (CHR ''0'') (show_int m) = padStart 5 (CHR ''0'') (show_int n)"
    by (rule digits_split [rotated 2])
      (use show_int_digits assms in \<open>auto simp: is_digit_def code_def\<close>)
  then show ?thesis using show_int_inj padded_number_eq assms by simp
qed

section \<open>The invariant of the default series\<close>

definition series_ok :: "series_row list \<Rightarrow> bool" where
  "series_ok rows \<longleftrightarrow>
     distinct (map ser_id rows) \<and> distinct (map ser_code rows) \<and>
     (\<forall>s\<in>set rows. ser_isDefault s \<longrightarrow> ser_isActive s \<and> \<not> ser_isRectification s) \<and>
     (\<forall>s\<in>set rows. \<forall>t\<in>set rows. ser_isDefault s \<longrightarrow> ser_isDefault t \<longrightarrow>
        ser_ownerId s = ser_ownerId t \<longrightarrow> s = t)"

definition fresh_series_ids :: "db \<Rightarrow> bool" where
  "fresh_series_ids d \<longleftrightarrow> (\<forall>s\<in>set (series d). ser_id s < next_id d)"

lemma insert_series_ok:
  assumes ok: "series_ok (series d)" and fresh: "fresh_series_ids d"
    and ins: "insert_series d s = Inr (d', row)"
    and act: "ser_isDefault s \<longrightarrow> ser_isActive s \<and> \<not> ser_isRectification s"
    and solo: "ser_isDefault s \<longrightarrow>
      (\<forall>t\<in>set (series d). ser_ownerId t = ser_ownerId s \<longrightarrow> \<not> ser_isDefault t)"
  shows "series_ok (series d') \<and> fresh_series_ids d' \<and> row \<in> set (series d')"
proof -
  have d': "series d' = series d @ [row]" "next_id d' = Suc (next_id d)"
    and row: "row = s\<lparr>ser_id := next_id d\<rparr>" and new: "ser_code s \<notin> ser_code ` set (series d)"
    using ins by (auto simp: insert_series_def Let_def create_row_def split: if_splits)
  have "next_id d \<notin> ser_id ` set (series d)" using fresh by (auto simp: fresh_series_ids_def)
  then have "distinct (map ser_id (series d'))" "distinct (map ser_code (series d'))"
    using ok new by (simp_all add: d' row series_ok_def)
  moreover have "\<forall>t\<in>set (series d'). ser_isDefault t \<longrightarrow> ser_isActive t \<and> \<not> ser_isRectification t"
    using ok act by (auto simp: d' row series_ok_def)
  moreover have "\<forall>t\<in>set (series d'). \<forall>u\<in>set (series d'). ser_isDefault t \<longrightarrow> ser_isDefault u \<longrightarrow>
      ser_ownerId t = ser_ownerId u \<longrightarrow> t = u"
    using ok solo unfolding d' row series_ok_def by auto
  moreover have "fresh_series_ids d'"
    using fresh by (auto simp: fresh_series_ids_def d' row less_Suc_eq)
  ultimately show ?thesis unfolding series_ok_def using d' by auto
qed

lemma map_key_unset_defaults [simp]:
  "map ser_id (series (unset_defaults ow d)) = map ser_id (series d)"
  "map ser_code (series (unset_defaults ow d)) = map ser_code (series d)"
  by (simp_all add: unset_defaults_def map_update_many_inv)

lemma unset_defaults_sel [simp]:
  "invoices (unset_defaults ow d) = invoices d" "next_id (unset_defaults ow d) = next_id d"
  by (simp_all add: unset_defaults_def)

lemma unset_defaults_ok:
  assumes "series_ok (series d)"
  shows "series_ok (series (unset_defaults ow d))"
    and "\<forall>t\<in>set (series (unset_defaults ow d)). ser_ownerId t = ow \<longrightarrow> \<not> ser_isDefault t"
proof -
  let ?p = "\<lambda>s. ser_isDefault s \<and> ser_ownerId s = ow"
  have default: "t \<in> set (series d) \<and> ser_ownerId t \<noteq> ow"
    if "t \<in> set (series (unset_defaults ow d))" and "ser_isDefault t" for t
    using that by (auto simp: unset_defaults_def set_update_many)
  show "\<forall>t\<in>set (series (unset_defaults ow d)). ser_ownerId t = ow \<longrightarrow> \<not> ser_isDefault t"
    using default by blast
  show "series_ok (series (unset_defaults ow d))"
    using assms default unfolding series_ok_def map_key_unset_defaults by blast
qed

lemma fresh_unset_defaults: "fresh_series_ids d \<Longrightarrow> fresh_series_ids (unset_defaults ow d)"
  unfolding fresh_series_ids_def by (auto simp: unset_defaults_def set_update_many)

lemma create_series_ok:
  assumes "series_ok (series d)" and "fresh_series_ids d" and "create_series d input = Inr (d', row)"
  shows "series_ok (series d') \<and> fresh_series_ids d'"
proof -
  let ?d1 = "if csi_isDefault input then unset_defaults None d else d"
  obtain s d2 where ins: "insert_series ?d1 s = Inr (d2, row)"
    and s: "s = default_series\<lparr>ser_code := toUpperCase (trim (csi_code input)),
                  ser_name := trim (csi_name input),
                  ser_prefix := toUpperCase (trim (csi_prefix input)),
                  ser_yearScope := csi_yearScope input,
                  ser_facilityId := csi_facilityId input,
                  ser_isDefault := csi_isDefault input\<rparr>"
    and d': "d' = audit ''invoice_series.created'' (ser_id row) d2"
    using assms(3) unfolding create_series_def Let_def by (auto split: sum.splits if_splits)
  have "series_ok (series ?d1)" "fresh_series_ids ?d1"
    using assms(1,2) unset_defaults_ok(1) fresh_unset_defaults by auto
  then have "series_ok (series d2) \<and> fresh_series_ids d2 \<and> row \<in> set (series d2)"
    using ins
  proof (rule insert_series_ok)
    show "ser_isDefault s \<longrightarrow> ser_isActive s \<and> \<not> ser_isRectification s"
      by (simp add: s default_series_def)
    show "ser_isDefault s \<longrightarrow>
        (\<forall>t\<in>set (series ?d1). ser_ownerId t = ser_ownerId s \<longrightarrow> \<not> ser_isDefault t)"
      using unset_defaults_ok(2) [OF assms(1), of None] by (auto simp: s default_series_def)
  qed
  then show ?thesis by (simp add: d' fresh_series_ids_def)
qed

text \<open>A change of one row keeps the invariant when it does not make a second default.\<close>

lemma update_one_series_ok:
  assumes ok: "series_ok (series d)"
    and keys: "\<And>s. ser_id (f s) = ser_id s \<and> ser_code (f s) = ser_code s \<and> ser_ownerId (f s) = ser_ownerId s"
    and act: "\<And>s. s \<in> set (series d) \<Longrightarrow> ser_id s = i \<Longrightarrow> ser_isDefault (f s) \<Longrightarrow>
      ser_isActive (f s) \<and> \<not> ser_isRectification (f s)"
    and solo: "\<And>s t. s \<in> set (series d) \<Longrightarrow> t \<in> set (series d) \<Longrightarrow> ser_id s = i \<Longrightarrow> ser_id t \<noteq> i \<Longrightarrow>
      ser_isDefault (f s) \<Longrightarrow> ser_isDefault t \<Longrightarrow> ser_ownerId t \<noteq> ser_ownerId s"
  shows "series_ok (series (update_series i f d))"
proof -
  let ?rows = "update_many (\<lambda>r. ser_id r = i) f (series d)"
  have ids: "map ser_id ?rows = map ser_id (series d)" "map ser_code ?rows = map ser_code (series d)"
    using keys by (auto intro!: map_update_many_inv)
  have uniq: "s = t" if "s \<in> set (series d)" "t \<in> set (series d)" "ser_id s = ser_id t" for s t
    using that ok unfolding series_ok_def by (auto simp: distinct_map inj_on_def)
  have single: "t = u" if t: "t \<in> set ?rows" "ser_isDefault t" and u: "u \<in> set ?rows" "ser_isDefault u"
    and tu: "ser_ownerId t = ser_ownerId u" for t u
  proof -
    obtain a where a: "a \<in> set (series d)" "t = (if ser_id a = i then f a else a)"
      using t(1) by (rule in_update_manyE)
    obtain b where b: "b \<in> set (series d)" "u = (if ser_id b = i then f b else b)"
      using u(1) by (rule in_update_manyE)
    consider "ser_id a = i" "ser_id b = i" | "ser_id a = i" "ser_id b \<noteq> i"
      | "ser_id a \<noteq> i" "ser_id b = i" | "ser_id a \<noteq> i" "ser_id b \<noteq> i" by blast
    then show ?thesis
    proof cases
      case 1
      then have "a = b" using uniq a(1) b(1) by simp
      then show ?thesis using a(2) b(2) by simp
    next
      case 2
      then show ?thesis using solo [of a b] a b t u tu keys by auto
    next
      case 3
      then show ?thesis using solo [of b a] a b t u tu keys by auto
    next
      case 4
      then show ?thesis using ok a b t u tu unfolding series_ok_def by auto
    qed
  qed
  have active: "ser_isActive t \<and> \<not> ser_isRectification t"
    if t: "t \<in> set ?rows" "ser_isDefault t" for t
  proof -
    obtain a where a: "a \<in> set (series d)" "t = (if ser_id a = i then f a else a)"
      using t(1) by (rule in_update_manyE)
    show ?thesis
    proof (cases "ser_id a = i")
      case True
      then show ?thesis using act [of a] a t(2) by simp
    next
      case False
      then show ?thesis using ok a t(2) by (simp add: series_ok_def)
    qed
  qed
  have "distinct (map ser_id ?rows)" "distinct (map ser_code ?rows)"
    using ok unfolding ids by (simp_all only: series_ok_def)
  with single active show ?thesis unfolding series_ok_def update_series_sel by metis
qed

lemma reserveNextNumber_series_ok:
  assumes "series_ok (series d)" and "reserveNextNumber d i y = Inr (d', n, s)"
  shows "series_ok (series d')"
proof -
  have "d' = update_series i (take_number y) d"
    using assms(2) by (auto simp: reserveNextNumber_def Let_def elim!: bindrE)
  moreover have "series_ok (series (update_series i (take_number y) d))"
  proof (rule update_one_series_ok [OF assms(1)])
    show "ser_id (take_number y s) = ser_id s \<and> ser_code (take_number y s) = ser_code s \<and>
        ser_ownerId (take_number y s) = ser_ownerId s" for s
      by (simp add: take_number_def)
    show "ser_isActive (take_number y s) \<and> \<not> ser_isRectification (take_number y s)"
      if "s \<in> set (series d)" "ser_isDefault (take_number y s)" for s
      using assms(1) that by (simp add: series_ok_def take_number_def)
    show "ser_ownerId t \<noteq> ser_ownerId s"
      if "s \<in> set (series d)" "t \<in> set (series d)" "ser_id s = i" "ser_id t \<noteq> i"
        "ser_isDefault (take_number y s)" "ser_isDefault t" for s t
      using assms(1) that by (auto simp: series_ok_def take_number_def)
  qed
  ultimately show ?thesis by simp
qed

text \<open>
  Updating a series: the checks before the transaction make the new row a legal default, and
  the other default of the same issuer is unset in the transaction.
\<close>

lemma update_series_row_ok:
  assumes ok: "series_ok (series d)" and upd: "update_series_row d i input = Inr (d', row)"
  shows "series_ok (series d')"
proof -
  obtain e where e: "find_series d i = Some e"
    and c1: "\<not> (usi_isDefault input = Some True \<and> ser_isRectification e)"
    and c2: "\<not> (ser_isDefault e \<and> (usi_isDefault input = Some False \<or> usi_isActive input = Some False))"
    and c3: "\<not> (usi_isDefault input = Some True \<and>
               \<not> (case usi_isActive input of None \<Rightarrow> ser_isActive e | Some a \<Rightarrow> a))"
    and d': "d' = audit ''invoice_series.updated'' i (update_series i (apply_series_update input)
      (if usi_isDefault input = Some True \<and> \<not> ser_isDefault e then unset_defaults (ser_ownerId e) d else d))"
    using upd by (auto simp: update_series_row_def Let_def elim!: bindrE)
  define d1 where "d1 = (if usi_isDefault input = Some True \<and> \<not> ser_isDefault e
    then unset_defaults (ser_ownerId e) d else d)"
  have ok1: "series_ok (series d1)" using ok unset_defaults_ok(1) by (simp add: d1_def)
  have e_in: "e \<in> set (series d)" "ser_id e = i" using find_series_SomeD [OF e] by simp_all
  have eq: "s = e" if "s \<in> set (series d)" "ser_id s = i" for s
    using that e_in ok by (auto simp: series_ok_def distinct_map inj_on_def)
  have same: "ser_ownerId s = ser_ownerId e \<and> ser_isRectification s = ser_isRectification e \<and>
      ser_isActive s = ser_isActive e \<and> (ser_isDefault s \<longrightarrow> ser_isDefault e)"
    if s: "s \<in> set (series d1)" "ser_id s = i" for s
  proof (cases "usi_isDefault input = Some True \<and> \<not> ser_isDefault e")
    case True
    then obtain r where "r \<in> set (series d)" and
      "s = (if ser_isDefault r \<and> ser_ownerId r = ser_ownerId e then r\<lparr>ser_isDefault := False\<rparr> else r)"
      using s(1) unfolding d1_def unset_defaults_def by (auto elim: in_update_manyE)
    then show ?thesis using eq [of r] s(2) by (auto split: if_splits)
  next
    case False
    then show ?thesis using eq [of s] s by (auto simp: d1_def)
  qed
  have "series_ok (series (update_series i (apply_series_update input) d1))"
  proof (rule update_one_series_ok [OF ok1])
    show "ser_id (apply_series_update input s) = ser_id s \<and>
        ser_code (apply_series_update input s) = ser_code s \<and>
        ser_ownerId (apply_series_update input s) = ser_ownerId s" for s
      by (simp add: apply_series_update_def)
    show "ser_isActive (apply_series_update input s) \<and> \<not> ser_isRectification (apply_series_update input s)"
      if s: "s \<in> set (series d1)" "ser_id s = i" "ser_isDefault (apply_series_update input s)" for s
    proof -
      have "ser_isActive e \<and> \<not> ser_isRectification e" if "ser_isDefault e"
        using ok e_in that by (simp add: series_ok_def)
      then show ?thesis using same [OF s(1,2)] s(3) c1 c2 c3
        by (auto simp: apply_series_update_def split: option.splits)
    qed
    show "ser_ownerId t \<noteq> ser_ownerId s"
      if t: "s \<in> set (series d1)" "t \<in> set (series d1)" "ser_id s = i" "ser_id t \<noteq> i"
        "ser_isDefault (apply_series_update input s)" "ser_isDefault t" for s t
    proof (cases "usi_isDefault input = Some True \<and> \<not> ser_isDefault e")
      case True
      then have "ser_ownerId t \<noteq> ser_ownerId e"
        using unset_defaults_ok(2) [OF ok, of "ser_ownerId e"] t(2,6) by (auto simp: d1_def)
      then show ?thesis using same [OF t(1,3)] by simp
    next
      case False
      then have "d1 = d" by (auto simp: d1_def)
      moreover have "ser_isDefault e"
        using False t(5) eq [of s] t(1,3) \<open>d1 = d\<close>
        by (auto simp: apply_series_update_def split: option.splits)
      ultimately show ?thesis using ok t e_in eq [of s] unfolding series_ok_def by metis
    qed
  qed
  then show ?thesis by (simp add: d' d1_def)
qed

lemma ownerSeries_ok:
  assumes ok: "series_ok (series d)" and fresh: "fresh_series_ids d"
    and own: "ownerSeries d ow rect = Inr (d', row)"
  shows "series_ok (series d') \<and> fresh_series_ids d' \<and> row \<in> set (series d')"
proof (cases "find_first (\<lambda>s. (ser_ownerId s = Some ow \<and> ser_isRectification s = rect \<and>
    ser_isActive s) \<and> (rect \<or> ser_isDefault s)) (series d)")
  case (Some s)
  then show ?thesis using own ok fresh
    by (auto simp: ownerSeries_def Let_def dest: find_first_SomeD)
next
  case first: None
  show ?thesis
  proof (cases "find_first (\<lambda>s. ser_ownerId s = Some ow \<and> ser_isRectification s = rect \<and>
      ser_isActive s) (series d)")
    case (Some s)
    then show ?thesis using own ok fresh first
      by (auto simp: ownerSeries_def Let_def dest: find_first_SomeD)
  next
    case None
    then obtain k nm where ins: "insert_series d (default_series\<lparr>ser_ownerId := Some ow, ser_code := k,
          ser_name := nm, ser_prefix := k, ser_yearScope := True,
          ser_isDefault := (\<not> rect), ser_isRectification := rect\<rparr>) = Inr (d', row)"
      using own first unfolding ownerSeries_def Let_def
      by (auto simp: bindr_eq_Inr)
    show ?thesis
      by (rule insert_series_ok [OF ok fresh ins])
        (use first ok in \<open>auto simp: default_series_def find_first_None_iff series_ok_def\<close>)
  qed
qed

lemma rectificationSeries_ok:
  assumes "series_ok (series d)" and "fresh_series_ids d"
    and "rectificationSeries d ow = Inr (d', row)"
  shows "series_ok (series d') \<and> fresh_series_ids d' \<and> row \<in> set (series d')"
proof (cases ow)
  case (Some o1)
  then have "ownerSeries d o1 True = Inr (d', row)" using assms(3) by (simp add: rectificationSeries_def)
  then show ?thesis by (rule ownerSeries_ok [OF assms(1,2)])
next
  case None
  show ?thesis
  proof (cases "find_first (\<lambda>s. ser_isRectification s \<and> ser_isActive s \<and> ser_ownerId s = None) (series d)")
    case (Some s)
    then show ?thesis using None assms
      by (auto simp: rectificationSeries_def dest: find_first_SomeD)
  next
    case no: None
    then have "insert_series d (default_series\<lparr>ser_code := rect_code (series d),
          ser_name := ''Rectificativas'', ser_prefix := rect_prefix (series d),
          ser_yearScope := True, ser_isDefault := False, ser_isRectification := True\<rparr>) = Inr (d', row)"
      using assms(3) None by (simp add: rectificationSeries_def)
    then show ?thesis by (rule insert_series_ok [OF assms(1,2)]) (simp_all add: default_series_def)
  qed
qed

text \<open>A new owner series has a prefix no other series of the tenant uses, in either case.\<close>

lemma insert_series_row: "insert_series d s = Inr (d', row) \<Longrightarrow> row = s\<lparr>ser_id := next_id d\<rparr>"
  by (auto simp: insert_series_def Let_def split: if_splits)

lemma ownerSeries_made:
  assumes own: "ownerSeries d ow rect = Inr (d', row)" and new: "row \<notin> set (series d)"
  obtains key where "ser_prefix row = key" and "ser_code row = key" and "ser_ownerId row = Some ow"
    and "ser_isRectification row = rect" and "ser_isDefault row = (\<not> rect)" and "series d' = series d @ [row]"
    and "key \<notin> set (map (toUpperCase \<circ> ser_prefix) (series d))"
    and "key \<notin> set (map (toUpperCase \<circ> ser_code) (series d))"
proof -
  define taken where "taken = map (toUpperCase \<circ> ser_prefix) (series d)
    @ map (toUpperCase \<circ> ser_code) (series d)"
  define base where "base = (if rect then ''RP'' else ''P'')"
  define key where "key = base @ show_nat (next_free base taken 1)"
  have none: "find_first p (series d) = Some s \<Longrightarrow> Inr (d, s) = (Inr (d', row) :: (db \<times> series_row) result)
      \<Longrightarrow> False" for p s
    using new by (auto dest: find_first_SomeD)
  obtain s where ins: "insert_series d s = Inr (d', row)" and s: "ser_prefix s = key" "ser_code s = key"
    "ser_ownerId s = Some ow" "ser_isRectification s = rect" "ser_isDefault s = (\<not> rect)"
    using own none unfolding ownerSeries_def Let_def taken_def [symmetric] base_def [symmetric]
      key_def [symmetric]
    by (simp split: option.splits) (auto simp: bindr_eq_Inr)
  have "row = s\<lparr>ser_id := next_id d\<rparr>" using ins by (rule insert_series_row)
  moreover have "series d' = series d @ [row]"
    using ins by (auto simp: insert_series_def Let_def create_row_def split: if_splits)
  moreover have "key \<notin> set taken" unfolding key_def by (rule next_free_not_taken)
  ultimately show ?thesis using that s by (simp add: taken_def)
qed

section \<open>The contract of a yearly counter\<close>

text \<open>
  What issuing relies on: a counter shows the number it would give for a year; taking it moves to
  the following number; a counter by year shows 1 for any other year, and one that is not by
  year shows the same number for all.
\<close>

definition consecutive :: "int multiset \<Rightarrow> int \<Rightarrow> bool" where
  "consecutive M n \<longleftrightarrow> 1 \<le> n \<and> M = mset [1..n - 1]"

lemma consecutive_add:
  assumes "consecutive M n"
  shows "consecutive (add_mset n M) (n + 1)"
proof -
  have "1 \<le> n" and M: "M = mset [1..n - 1]" using assms by (simp_all add: consecutive_def)
  have "[1..n] = [1..n - 1] @ [n]" using upto_rec2 [OF \<open>1 \<le> n\<close>] .
  then show ?thesis using \<open>1 \<le> n\<close> by (simp add: consecutive_def M)
qed

lemma consecutive_empty [simp]: "consecutive {#} n \<longleftrightarrow> n = 1"
  by (auto simp: consecutive_def)

locale yearly_counter =
  fixes shown :: "int \<Rightarrow> 'c \<Rightarrow> int" and take_it :: "int \<Rightarrow> 'c \<Rightarrow> 'c"
    and by_year :: "'c \<Rightarrow> bool" and year :: "'c \<Rightarrow> int option"
  assumes shown_take: "shown y (take_it y c) = shown y c + 1"
    and by_year_take: "by_year (take_it y c) = by_year c"
    and year_take: "by_year c \<Longrightarrow> year (take_it y c) = Some y"
    and shown_new: "by_year c \<Longrightarrow> year c \<noteq> Some y \<Longrightarrow> shown y c = 1"
    and shown_same: "\<not> by_year c \<Longrightarrow> shown y c = shown z c"
begin

definition numbers_of :: "'c \<Rightarrow> int \<Rightarrow> (int \<times> int) multiset \<Rightarrow> int multiset" where
  "numbers_of c y L = image_mset snd (filter_mset (\<lambda>p. by_year c \<longrightarrow> fst p = y) L)"

text \<open>
  The numbers given so far, with their years: in every year they are 1, 2, 3, and so on with no
  gap and no repetition, and the counter shows the next one for the last year and later ones.
\<close>

definition gapless :: "'c \<Rightarrow> (int \<times> int) multiset \<Rightarrow> bool" where
  "gapless c L \<longleftrightarrow>
     (\<forall>y. \<exists>n. consecutive (numbers_of c y L) n) \<and>
     (\<forall>y. (\<forall>p\<in>#L. fst p \<le> y) \<longrightarrow> consecutive (numbers_of c y L) (shown y c))"

lemma numbers_of_add:
  "numbers_of (take_it x c) y (add_mset (x, n) L) =
     (if by_year c \<and> x \<noteq> y then numbers_of c y L else add_mset n (numbers_of c y L))"
  by (auto simp: numbers_of_def by_year_take)

lemma same_numbers:
  assumes "\<not> (by_year c \<and> y \<noteq> z)"
  shows "numbers_of (take_it y c) z (add_mset (y, n) L) = add_mset n (numbers_of c y L)"
proof -
  have "numbers_of c z L = numbers_of c y L"
    using assms by (cases "by_year c") (simp_all add: numbers_of_def)
  then show ?thesis unfolding numbers_of_add using assms by (simp only: if_False)
qed

lemma gapless_take:
  assumes "gapless c L" and last: "\<forall>p\<in>#L. fst p \<le> y"
  shows "gapless (take_it y c) (add_mset (y, shown y c) L)"
proof -
  have now: "consecutive (add_mset (shown y c) (numbers_of c y L)) (shown y (take_it y c))"
    using assms(1) last unfolding gapless_def shown_take by (simp add: consecutive_add)
  have "\<exists>n. consecutive (numbers_of (take_it y c) z (add_mset (y, shown y c) L)) n" for z
  proof (cases "by_year c \<and> y \<noteq> z")
    case True
    obtain n where "consecutive (numbers_of c z L) n" using assms(1) unfolding gapless_def by blast
    then show ?thesis using True by (intro exI [of _ n]) (simp add: numbers_of_add)
  next
    case False
    then show ?thesis using now unfolding same_numbers [OF False] by blast
  qed
  moreover have "consecutive (numbers_of (take_it y c) z (add_mset (y, shown y c) L))
      (shown z (take_it y c))" if z: "y \<le> z" for z
  proof (cases "by_year c \<and> y \<noteq> z")
    case True
    then have "numbers_of c z L = {#}" using last z
      by (force simp: numbers_of_def multiset_eq_iff count_eq_zero_iff)
    moreover have "shown z (take_it y c) = 1"
      using True by (intro shown_new) (simp_all add: by_year_take year_take)
    ultimately show ?thesis using True by (simp add: numbers_of_add)
  next
    case False
    have "shown z (take_it y c) = shown y (take_it y c)"
      using False shown_same [of "take_it y c" z y] by (auto simp: by_year_take)
    then show ?thesis using now unfolding same_numbers [OF False] by simp
  qed
  ultimately show ?thesis unfolding gapless_def by simp
qed

lemma gapless_unique:
  assumes "gapless c L" and "by_year c \<or> x = y"
  shows "count L (y, n) \<le> 1"
proof -
  obtain k where k: "consecutive (numbers_of c y L) k" using assms(1) unfolding gapless_def by blast
  have "count L (y, n) \<le> count (numbers_of c y L) n"
  proof -
    have "replicate_mset (count L (y, n)) (y, n) \<subseteq># filter_mset (\<lambda>p. by_year c \<longrightarrow> fst p = y) L"
      by (simp add: subseteq_mset_def)
    then have "image_mset snd (replicate_mset (count L (y, n)) (y, n)) \<subseteq># numbers_of c y L"
      unfolding numbers_of_def by (rule image_mset_subseteq_mono)
    then have "replicate_mset (count L (y, n)) n \<subseteq># numbers_of c y L" by simp
    then show ?thesis by (metis count_replicate_mset subseteq_mset_def)
  qed
  also have "\<dots> \<le> 1"
    using k by (simp add: consecutive_def count_mset_0_iff distinct_count_atmost_1 [THEN iffD1])
  finally show ?thesis .
qed

end

text \<open>A series is such a counter.\<close>

definition shown_number :: "int \<Rightarrow> series_row \<Rightarrow> int" where
  "shown_number y s =
     (if ser_yearScope s \<and> ser_numberingYear s \<noteq> Some y then 1 else ser_nextNumber s)"

lemma take_number_shown: "ser_nextNumber (take_number y s) - 1 = shown_number y s"
  by (simp add: take_number_def shown_number_def)

interpretation numbering: yearly_counter shown_number take_number ser_yearScope ser_numberingYear
  by unfold_locales (auto simp: shown_number_def take_number_def)

end
