(* ===== verification/Verifactu.thy ===== *)
theory Verifactu imports InvoiceSeries begin

text \<open>
  The Veri*Factu record of an invoice (\<open>verifactu-hash.ts\<close>, \<open>verifactu.service.ts\<close>, the date
  format of \<open>aeat-client/verifactu-xml-builder.ts\<close>): the text that is hashed, the chain of records
  of an issuer, sending a record to the tax agency in the order of the chain, and refreshing its
  status. SHA-256, the time-stamp text and the agency's client are parameters.
\<close>

section \<open>The hashed text\<close>

record alta_hash_input =
  ahi_emitterTaxId :: string
  ahi_invoiceNumber :: string
  ahi_issueDate :: string
  ahi_invoiceType :: string
  ahi_cuotaTotal :: rat
  ahi_importeTotal :: rat
  ahi_previousHash :: "string option"
  ahi_recordTimestamp :: string

text \<open>\<open>parts.join('&')\<close>\<close>

fun join_amp :: "string list \<Rightarrow> string" where
  "join_amp [] = []"
| "join_amp [s] = s"
| "join_amp (s # t # ss) = s @ CHR ''&'' # join_amp (t # ss)"

definition altaHashInput :: "alta_hash_input \<Rightarrow> string" where
  "altaHashInput i =
     join_amp
      [''IDEmisorFactura='' @ trim (ahi_emitterTaxId i),
       ''NumSerieFactura='' @ trim (ahi_invoiceNumber i),
       ''FechaExpedicionFactura='' @ trim (ahi_issueDate i),
       ''TipoFactura='' @ trim (ahi_invoiceType i),
       ''CuotaTotal='' @ toFixed2 (ahi_cuotaTotal i),
       ''ImporteTotal='' @ toFixed2 (ahi_importeTotal i),
       ''Huella='' @ toUpperCase (trim (case ahi_previousHash i of None \<Rightarrow> [] | Some h \<Rightarrow> h)),
       ''FechaHoraHusoGenRegistro='' @ trim (ahi_recordTimestamp i)]"

definition computeAltaHash :: "env \<Rightarrow> alta_hash_input \<Rightarrow> string" where
  "computeAltaHash e i = sha256 e (altaHashInput i)"

definition formatSpanishDate :: "date \<Rightarrow> string" where
  "formatSpanishDate d =
     padStart 2 (CHR ''0'') (show_int (date_of d)) @ ''-''
     @ padStart 2 (CHR ''0'') (show_int (month_of d + 1)) @ ''-''
     @ padStart 4 (CHR ''0'') (show_int (year_of d))"

fun show_type :: "invoice_type \<Rightarrow> string" where
  "show_type F1 = ''F1''"
| "show_type F2 = ''F2''"
| "show_type R1 = ''R1''"
| "show_type R2 = ''R2''"
| "show_type R3 = ''R3''"
| "show_type R4 = ''R4''"
| "show_type R5 = ''R5''"

section \<open>The chain of an issuer\<close>

record chain_link =
  cl_hash :: string
  cl_previousHash :: "string option"
  cl_previousInvoiceId :: "id option"
  cl_chainSeq :: int
  cl_recordTimestamp :: string

text \<open>\<open>findFirst\<close> with \<open>orderBy: { chainSeq: 'desc' }\<close>\<close>

definition chain_seq :: "invoice_row \<Rightarrow> int option" where
  "chain_seq i = vf_chainSeq (inv_vf i)"

fun last_by_chain :: "invoice_row list \<Rightarrow> invoice_row option" where
  "last_by_chain [] = None"
| "last_by_chain (i # is) =
     (case last_by_chain is of
        None \<Rightarrow> Some i
      | Some j \<Rightarrow> (if the (chain_seq i) \<ge> the (chain_seq j) then Some i else Some j))"

definition chain_of :: "db \<Rightarrow> id option \<Rightarrow> invoice_row list" where
  "chain_of d owner = filter (\<lambda>i. inv_ownerId i = owner \<and> chain_seq i \<noteq> None) (invoices d)"

definition link_after ::
  "env \<Rightarrow> invoice_row option \<Rightarrow> string \<Rightarrow> string \<Rightarrow> date \<Rightarrow> invoice_type \<Rightarrow> rat \<Rightarrow> rat \<Rightarrow> chain_link" where
  "link_after e previous taxId number issueDate type taxAmount importe =
     (let timestamp = madrid_timestamp e (now e);
          previousHash = (case previous of None \<Rightarrow> None | Some p \<Rightarrow> vf_hash (inv_vf p))
      in \<lparr>cl_hash = computeAltaHash e
            \<lparr>ahi_emitterTaxId = taxId, ahi_invoiceNumber = number,
             ahi_issueDate = formatSpanishDate issueDate, ahi_invoiceType = show_type type,
             ahi_cuotaTotal = taxAmount, ahi_importeTotal = importe,
             ahi_previousHash = previousHash, ahi_recordTimestamp = timestamp\<rparr>,
          cl_previousHash = previousHash,
          cl_previousInvoiceId = map_option inv_id previous,
          cl_chainSeq = (case previous of None \<Rightarrow> 0 | Some p \<Rightarrow> the (chain_seq p)) + 1,
          cl_recordTimestamp = timestamp\<rparr>)"

definition computeChainedHash ::
  "env \<Rightarrow> db \<Rightarrow> id option \<Rightarrow> string \<Rightarrow> string \<Rightarrow> date \<Rightarrow> invoice_type \<Rightarrow> rat \<Rightarrow> rat \<Rightarrow> chain_link" where
  "computeChainedHash e d owner taxId number issueDate type taxAmount importe =
     link_after e (last_by_chain (chain_of d owner)) taxId number issueDate type taxAmount importe"

definition verifyHash :: "env \<Rightarrow> string \<Rightarrow> invoice_row \<Rightarrow> bool" where
  "verifyHash e taxId i =
     (case (vf_hash (inv_vf i), inv_issueDate i, vf_recordTimestamp (inv_vf i)) of
        (Some h, Some dt, Some ts) \<Rightarrow>
          h \<noteq> [] \<and> ts \<noteq> [] \<and> computeAltaHash e
            \<lparr>ahi_emitterTaxId = taxId, ahi_invoiceNumber = inv_number i,
             ahi_issueDate = formatSpanishDate dt, ahi_invoiceType = show_type (inv_type i),
             ahi_cuotaTotal = euros (inv_taxAmount i), ahi_importeTotal = euros (inv_total i),
             ahi_previousHash = vf_previousHash (inv_vf i), ahi_recordTimestamp = ts\<rparr>
          = toUpperCase h
      | _ \<Rightarrow> False)"

section \<open>Sending to the agency\<close>

record aeat_result =
  res_status :: aeat_status
  res_csv :: "string option"
  res_message :: string

record aeat_client =
  getStatus :: "id \<Rightarrow> aeat_result"
  sendInvoice :: "id \<Rightarrow> string \<Rightarrow> aeat_result"

text \<open>The calls a run makes, in order.\<close>

datatype aeat_call = Get_status id | Send_invoice id

definition accepted :: "aeat_status \<Rightarrow> bool" where
  "accepted s \<longleftrightarrow> s = Aeat_accepted \<or> s = Aeat_accepted_with_warnings"

text \<open>\<open>/\b3000\b/\<close>\<close>

definition is_word :: "char \<Rightarrow> bool" where
  "is_word c \<longleftrightarrow> is_digit c \<or> is_upper c \<or> is_upper (upper_char c) \<or> c = CHR ''_''"

fun word_3000 :: "bool \<Rightarrow> string \<Rightarrow> bool" where
  "word_3000 after_word [] = False"
| "word_3000 after_word (c # cs) =
     ((\<not> after_word \<and> take 4 (c # cs) = ''3000'' \<and>
        (case drop 4 (c # cs) of [] \<Rightarrow> True | k # _ \<Rightarrow> \<not> is_word k))
      \<or> word_3000 (is_word c) cs)"

text \<open>What a known status becomes in the column: anything else is an error.\<close>

definition stored_status :: "aeat_status \<Rightarrow> aeat_status" where
  "stored_status s =
     (case s of Aeat_accepted \<Rightarrow> Aeat_accepted
      | Aeat_accepted_with_warnings \<Rightarrow> Aeat_accepted_with_warnings
      | Aeat_rejected \<Rightarrow> Aeat_rejected
      | _ \<Rightarrow> Aeat_error)"

definition set_aeat :: "aeat_status \<Rightarrow> string option \<Rightarrow> invoice_row \<Rightarrow> invoice_row" where
  "set_aeat s csv i =
     i\<lparr>inv_vf := (inv_vf i)\<lparr>vf_aeatStatus := Some s,
         vf_aeatCsv := (if csv = None \<or> csv = Some [] then vf_aeatCsv (inv_vf i) else csv)\<rparr>\<rparr>"

definition set_sent :: "instant \<Rightarrow> aeat_status \<Rightarrow> string option \<Rightarrow> invoice_row \<Rightarrow> invoice_row" where
  "set_sent t s csv i =
     i\<lparr>inv_vf := (inv_vf i)\<lparr>vf_aeatSentAt := Some t, vf_aeatStatus := Some s, vf_aeatCsv := csv\<rparr>\<rparr>"

definition saveStatus :: "id \<Rightarrow> aeat_result \<Rightarrow> db \<Rightarrow> db" where
  "saveStatus i r d =
     (if res_status r = Aeat_pending then d
      else update_invoice i (set_aeat (stored_status (res_status r)) (res_csv r)) d)"

definition previous_unresolved :: "db \<Rightarrow> invoice_row \<Rightarrow> bool" where
  "previous_unresolved d i =
     (case vf_previousInvoiceId (inv_vf i) of
        None \<Rightarrow> False
      | Some p \<Rightarrow>
          (case find_invoice d p of
             None \<Rightarrow> False
           | Some q \<Rightarrow> vf_aeatStatus (inv_vf q) \<in> {None, Some Aeat_pending, Some Aeat_error}))"

definition send_now ::
  "env \<Rightarrow> aeat_client \<Rightarrow> db \<Rightarrow> id \<Rightarrow> string \<Rightarrow> db \<times> aeat_result option \<times> aeat_call list" where
  "send_now e cl d i h =
     (let sent = sendInvoice cl i h;
          known = getStatus cl i;
          duplicate = (res_status sent = Aeat_rejected \<and> word_3000 False (res_message sent));
          result = (if duplicate \<and> accepted (res_status known)
                    then \<lparr>res_status = res_status known, res_csv = res_csv known,
                          res_message = ''duplicate_already_registered''\<rparr>
                    else sent)
      in (update_invoice i (set_sent (now e) (stored_status (res_status result)) (res_csv result)) d,
          Some result,
          Send_invoice i # (if duplicate then [Get_status i] else [])))"

definition send_unaccepted ::
  "env \<Rightarrow> aeat_client \<Rightarrow> db \<Rightarrow> id \<Rightarrow> invoice_row \<Rightarrow> string \<Rightarrow> db \<times> aeat_result option \<times> aeat_call list"
where
  "send_unaccepted e cl d i row h =
     (if previous_unresolved d row
      then (d, Some \<lparr>res_status = Aeat_error, res_csv = None, res_message = ''previous_record_pending''\<rparr>, [])
      else if realMode e \<and> vf_aeatSentAt (inv_vf row) \<noteq> None
      then (let known = getStatus cl i
            in if accepted (res_status known)
               then (saveStatus i known d,
                     Some \<lparr>res_status = res_status known, res_csv = res_csv known,
                           res_message = ''already_registered''\<rparr>,
                     [Get_status i])
               else (case send_now e cl d i h of (d', r, calls) \<Rightarrow> (d', r, Get_status i # calls)))
      else send_now e cl d i h)"

definition sendToAeat ::
  "env \<Rightarrow> aeat_client \<Rightarrow> db \<Rightarrow> id \<Rightarrow> db \<times> aeat_result option \<times> aeat_call list" where
  "sendToAeat e cl d i =
     (case find_invoice d i of
        None \<Rightarrow> (d, None, [])
      | Some row \<Rightarrow>
          (case (inv_number row, inv_issueDate row, vf_hash (inv_vf row)) of
             (_ # _, Some _, Some (hc # hs)) \<Rightarrow>
               (let h = hc # hs in case vf_aeatStatus (inv_vf row) of
                  Some st \<Rightarrow>
                    if accepted st
                    then (d, Some \<lparr>res_status = st, res_csv = vf_aeatCsv (inv_vf row),
                                   res_message = ''already_accepted''\<rparr>, [])
                    else send_unaccepted e cl d i row h
                | None \<Rightarrow> send_unaccepted e cl d i row h)
           | _ \<Rightarrow> (d, None, [])))"

definition refreshStatus :: "aeat_client \<Rightarrow> db \<Rightarrow> id \<Rightarrow> db \<times> aeat_result" where
  "refreshStatus cl d i =
     (case find_invoice d i of
        None \<Rightarrow> (d, \<lparr>res_status = Aeat_error, res_csv = None, res_message = ''invoice_not_found''\<rparr>)
      | Some row \<Rightarrow>
          (if inv_issuedBy row = By_holded
           then (d, \<lparr>res_status = Aeat_error, res_csv = None, res_message = ''issued_by_holded''\<rparr>)
           else (let result = getStatus cl i in (saveStatus i result d, result))))"

section \<open>The hashed text determines the record\<close>

definition no_amp :: "string \<Rightarrow> bool" where
  "no_amp s \<longleftrightarrow> CHR ''&'' \<notin> set s"

lemma split_at_char:
  assumes "c \<notin> set s" and "c \<notin> set t" and "s @ c # xs = t @ c # ys"
  shows "s = t \<and> xs = ys"
proof -
  have "takeWhile (\<lambda>x. x \<noteq> c) (s @ c # xs) = s" "takeWhile (\<lambda>x. x \<noteq> c) (t @ c # ys) = t"
    using assms(1,2) by (auto simp: takeWhile_append)
  then show ?thesis using assms(3) by auto
qed

lemma join_amp_inj:
  assumes "length ss = length ts" and "\<forall>s\<in>set ss. no_amp s" and "\<forall>t\<in>set ts. no_amp t"
    and "join_amp ss = join_amp ts"
  shows "ss = ts"
  using assms
proof (induction ss arbitrary: ts rule: join_amp.induct)
  case 1
  then show ?case by simp
next
  case (2 s)
  then obtain t where "ts = [t]" by (cases ts) auto
  then show ?case using 2 by simp
next
  case (3 s s' ss)
  then obtain t t' us where ts: "ts = t # t' # us"
    by (metis length_Suc_conv)
  then have "s @ CHR ''&'' # join_amp (s' # ss) = t @ CHR ''&'' # join_amp (t' # us)"
    using 3 by simp
  then have "s = t \<and> join_amp (s' # ss) = join_amp (t' # us)"
    by (rule split_at_char [rotated 2]) (use 3 ts in \<open>auto simp: no_amp_def\<close>)
  moreover have "s' # ss = t' # us"
    by (rule "3.IH") (use 3 ts calculation in auto)
  ultimately show ?case using ts by simp
qed

lemma digits_no_amp: "\<forall>c\<in>set s. is_digit c \<Longrightarrow> CHR ''&'' \<notin> set s"
  by (auto simp: is_digit_def code_def)

lemma toFixed2_no_amp: "CHR ''&'' \<notin> set (toFixed2 x)"
  using digits_no_amp [OF show_nat_digits] digits_no_amp [OF padStart_digits]
  by (auto simp: toFixed2_def hundredths_def)

lemma set_trim: "set (trim s) \<subseteq> set s"
  unfolding trim_def by (auto dest!: set_dropWhileD)

lemma upper_char_amp:
  assumes "upper_char c = CHR ''&''"
  shows "c = CHR ''&''"
proof (cases "97 \<le> code c \<and> code c \<le> 122")
  case True
  moreover have "code c - 32 < 256" using True by linarith
  ultimately have "code (upper_char c) = code c - 32" by (simp add: upper_char_def)
  moreover have "code (upper_char c) = 38" using assms by (simp add: code_def)
  ultimately have "code c - 32 = 38" by simp
  then show ?thesis using True by linarith
next
  case False
  then have "upper_char c = c" unfolding upper_char_def by (rule if_not_P)
  then show ?thesis using assms by simp
qed

lemma no_amp_upper: "CHR ''&'' \<notin> set s \<Longrightarrow> CHR ''&'' \<notin> set (toUpperCase s)"
  by (auto simp: toUpperCase_def dest!: upper_char_amp [OF sym])

definition clean_input :: "alta_hash_input \<Rightarrow> bool" where
  "clean_input i \<longleftrightarrow> no_amp (ahi_emitterTaxId i) \<and> no_amp (ahi_invoiceNumber i) \<and>
     no_amp (ahi_issueDate i) \<and> no_amp (ahi_invoiceType i) \<and>
     no_amp (case ahi_previousHash i of None \<Rightarrow> [] | Some h \<Rightarrow> h) \<and> no_amp (ahi_recordTimestamp i)"

lemma no_amp_trim: "no_amp s \<Longrightarrow> no_amp (trim s)"
  using set_trim [of s] by (auto simp: no_amp_def)

lemma altaHashInput_parts:
  assumes "clean_input i" and "clean_input j" and "altaHashInput i = altaHashInput j"
  shows "trim (ahi_emitterTaxId i) = trim (ahi_emitterTaxId j) \<and>
     trim (ahi_invoiceNumber i) = trim (ahi_invoiceNumber j) \<and>
     trim (ahi_issueDate i) = trim (ahi_issueDate j) \<and>
     trim (ahi_invoiceType i) = trim (ahi_invoiceType j) \<and>
     toFixed2 (ahi_cuotaTotal i) = toFixed2 (ahi_cuotaTotal j) \<and>
     toFixed2 (ahi_importeTotal i) = toFixed2 (ahi_importeTotal j) \<and>
     toUpperCase (trim (case ahi_previousHash i of None \<Rightarrow> [] | Some h \<Rightarrow> h)) =
       toUpperCase (trim (case ahi_previousHash j of None \<Rightarrow> [] | Some h \<Rightarrow> h)) \<and>
     trim (ahi_recordTimestamp i) = trim (ahi_recordTimestamp j)"
proof -
  define parts where "parts (i :: alta_hash_input) =
      [''IDEmisorFactura='' @ trim (ahi_emitterTaxId i),
       ''NumSerieFactura='' @ trim (ahi_invoiceNumber i),
       ''FechaExpedicionFactura='' @ trim (ahi_issueDate i),
       ''TipoFactura='' @ trim (ahi_invoiceType i),
       ''CuotaTotal='' @ toFixed2 (ahi_cuotaTotal i),
       ''ImporteTotal='' @ toFixed2 (ahi_importeTotal i),
       ''Huella='' @ toUpperCase (trim (case ahi_previousHash i of None \<Rightarrow> [] | Some h \<Rightarrow> h)),
       ''FechaHoraHusoGenRegistro='' @ trim (ahi_recordTimestamp i)]" for i
  have amp: "\<forall>s\<in>set (parts i). no_amp s" if "clean_input i" for i
    using that toFixed2_no_amp no_amp_trim no_amp_upper
    unfolding parts_def clean_input_def no_amp_def by simp
  have "parts i = parts j"
    by (rule join_amp_inj) (use assms amp in \<open>auto simp: altaHashInput_def parts_def\<close>)
  then show ?thesis by (simp add: parts_def)
qed

section \<open>Linked records\<close>

text \<open>
  The contract of a chain: a record made after the last one takes the following position and
  points to the last one. Then the records are always numbered 1, 2, 3, and so on, each pointing
  to the one before.
\<close>

locale record_chain =
  fixes seq :: "'r \<Rightarrow> int" and prev :: "'r \<Rightarrow> 'k option" and key :: "'r \<Rightarrow> 'k"
    and follow :: "'r option \<Rightarrow> 'x \<Rightarrow> 'r"
  assumes first_seq: "seq (follow None x) = 1"
    and first_prev: "prev (follow None x) = None"
    and next_seq: "seq (follow (Some p) x) = seq p + 1"
    and next_prev: "prev (follow (Some p) x) = Some (key p)"
begin

definition linked :: "'r set \<Rightarrow> bool" where
  "linked K \<longleftrightarrow> finite K \<and> inj_on seq K \<and> seq ` K = {1..int (card K)} \<and>
     (\<forall>r\<in>K. if seq r = 1 then prev r = None
            else \<exists>p\<in>K. seq p = seq r - 1 \<and> prev r = Some (key p))"

definition is_last :: "'r set \<Rightarrow> 'r option \<Rightarrow> bool" where
  "is_last K l \<longleftrightarrow>
     (case l of None \<Rightarrow> K = {} | Some p \<Rightarrow> p \<in> K \<and> (\<forall>r\<in>K. seq r \<le> seq p))"

lemma linked_empty: "linked {}"
  by (simp add: linked_def)

lemma last_seq:
  assumes "linked K" and "p \<in> K" and "\<forall>r\<in>K. seq r \<le> seq p"
  shows "seq p = int (card K)"
proof -
  have "int (card K) \<in> seq ` K"
    using assms by (auto simp: linked_def card_gt_0_iff Suc_le_eq)
  then obtain r where "r \<in> K" "seq r = int (card K)" by auto
  moreover have "seq p \<in> {1..int (card K)}" using assms unfolding linked_def by blast
  ultimately show ?thesis using assms(3) by force
qed

lemma linked_follow:
  assumes K: "linked K" and l: "is_last K l"
  shows "linked (insert (follow l x) K)"
proof -
  let ?r = "follow l x"
  have seq_r: "seq ?r = int (card K) + 1"
    using l last_seq [OF K] by (cases l) (auto simp: is_last_def first_seq next_seq)
  have bound: "seq k \<in> {1..int (card K)}" if "k \<in> K" for k
    using K that unfolding linked_def by blast
  then have new: "?r \<notin> K" and distinct_seq: "seq ?r \<notin> seq ` K" using seq_r by force+
  have fin: "finite K" using K by (simp add: linked_def)
  have "inj_on seq (insert ?r K)" using K distinct_seq by (auto simp: linked_def)
  moreover have "seq ` insert ?r K = {1..int (card (insert ?r K))}"
    using K fin new seq_r by (auto simp: linked_def)
  moreover have "if seq k = 1 then prev k = None
      else \<exists>p\<in>insert ?r K. seq p = seq k - 1 \<and> prev k = Some (key p)"
    if k: "k \<in> insert ?r K" for k
  proof (cases "k = ?r")
    case False
    then have "if seq k = 1 then prev k = None
        else \<exists>p\<in>K. seq p = seq k - 1 \<and> prev k = Some (key p)"
      using K k unfolding linked_def by blast
    then show ?thesis by (auto split: if_splits)
  next
    case True
    show ?thesis
    proof (cases l)
      case None
      then show ?thesis using True by (simp add: first_seq first_prev)
    next
      case (Some p)
      then have "p \<in> K" using l by (simp add: is_last_def)
      then have "seq k \<noteq> 1" using bound [of p] True Some by (simp add: next_seq)
      then show ?thesis using \<open>p \<in> K\<close> True Some by (auto simp: next_seq next_prev)
    qed
  qed
  moreover have "finite (insert ?r K)" using fin by simp
  ultimately show ?thesis unfolding linked_def by blast
qed

end

text \<open>The records of the program: an invoice's id with its link.\<close>

type_synonym chained = "id \<times> chain_link"

definition row_link :: "invoice_row \<Rightarrow> chain_link option" where
  "row_link i =
     (case (chain_seq i, vf_hash (inv_vf i), vf_recordTimestamp (inv_vf i)) of
        (Some n, Some h, Some ts) \<Rightarrow>
          Some \<lparr>cl_hash = h, cl_previousHash = vf_previousHash (inv_vf i),
                cl_previousInvoiceId = vf_previousInvoiceId (inv_vf i), cl_chainSeq = n,
                cl_recordTimestamp = ts\<rparr>
      | _ \<Rightarrow> None)"

definition row_of_chained :: "chained \<Rightarrow> invoice_row" where
  "row_of_chained c =
     default_invoice\<lparr>inv_id := fst c, inv_vf := no_verifactu\<lparr>vf_hash := Some (cl_hash (snd c)),
       vf_chainSeq := Some (cl_chainSeq (snd c))\<rparr>\<rparr>"

type_synonym link_args = "id \<times> env \<times> string \<times> string \<times> date \<times> invoice_type \<times> rat \<times> rat"

definition follow_link :: "chained option \<Rightarrow> link_args \<Rightarrow> chained" where
  "follow_link l a =
     (case a of (i, e, taxId, number, dt, type, tax, importe) \<Rightarrow>
        (i, link_after e (map_option row_of_chained l) taxId number dt type tax importe))"

definition link_prev :: "chained \<Rightarrow> (id \<times> string option) option" where
  "link_prev c = map_option (\<lambda>p. (p, cl_previousHash (snd c))) (cl_previousInvoiceId (snd c))"

definition link_key :: "chained \<Rightarrow> id \<times> string option" where
  "link_key c = (fst c, Some (cl_hash (snd c)))"

interpretation chain: record_chain "cl_chainSeq \<circ> snd" link_prev link_key follow_link
  by unfold_locales
    (auto simp: follow_link_def link_prev_def link_key_def link_after_def row_of_chained_def
      chain_seq_def Let_def split: prod.splits)

end
