(* ===== verification/FacilityScope.thy ===== *)
theory FacilityScope imports Verifactu begin

text \<open>
  Permissions by facility (\<open>apps/api/src/common/facility-scope.ts\<close>, \<open>common/customer-scope.ts\<close>)
  and the fiscal data an issuer needs (\<open>common/tenant-readiness.ts\<close>). A \<open>where\<close> clause is the
  predicate it stands for; \<open>None\<close> is the answer \<open>null\<close> (out of scope, no results).
\<close>

section \<open>Facilities a user may see\<close>

text \<open>\<open>null\<close> or \<open>undefined\<close> is no restriction.\<close>

type_synonym facility_scope = "id list option"

definition isFacilityAllowed :: "facility_scope \<Rightarrow> id \<Rightarrow> bool" where
  "isFacilityAllowed scope facilityId =
     (case scope of None \<Rightarrow> True | Some fs \<Rightarrow> facilityId \<in> set fs)"

definition assertFacilityAllowed :: "facility_scope \<Rightarrow> id \<Rightarrow> unit result" where
  "assertFacilityAllowed scope facilityId =
     guard (isFacilityAllowed scope facilityId) (ForbiddenException ''facility_not_in_scope'')"

datatype facility_filter = All_facilities | Out_of_scope | Only_facilities "id list"

definition resolveFacilityFilter :: "facility_scope \<Rightarrow> id option \<Rightarrow> facility_filter" where
  "resolveFacilityFilter scope requested =
     (case requested of
        Some f \<Rightarrow> if isFacilityAllowed scope f then Only_facilities [f] else Out_of_scope
      | None \<Rightarrow> (case scope of Some fs \<Rightarrow> Only_facilities fs | None \<Rightarrow> All_facilities))"

definition filter_admits :: "facility_filter \<Rightarrow> id \<Rightarrow> bool" where
  "filter_admits flt f =
     (case flt of All_facilities \<Rightarrow> True | Out_of_scope \<Rightarrow> False | Only_facilities fs \<Rightarrow> f \<in> set fs)"

definition optionalFacilityWhere :: "facility_scope \<Rightarrow> id option \<Rightarrow> (id option \<Rightarrow> bool) option" where
  "optionalFacilityWhere scope requested =
     (case requested of
        Some f \<Rightarrow> if isFacilityAllowed scope f then Some (\<lambda>fac. fac = Some f) else None
      | None \<Rightarrow>
          (case scope of
             Some fs \<Rightarrow> Some (\<lambda>fac. fac = None \<or> (\<exists>f\<in>set fs. fac = Some f))
           | None \<Rightarrow> Some (\<lambda>fac. True)))"

text \<open>The facilities an invoice touches: its contract's, its own and its product sale's.\<close>

record invoice_places =
  pl_contract :: "id option"
  pl_own :: "id option"
  pl_sale :: "id option"
  pl_has_contract :: bool

definition invoiceFacilityWhere :: "facility_scope \<Rightarrow> id option \<Rightarrow> (invoice_places \<Rightarrow> bool) option" where
  "invoiceFacilityWhere scope requested =
     (case requested of
        Some f \<Rightarrow>
          if isFacilityAllowed scope f
          then Some (\<lambda>p. pl_contract p = Some f \<or> pl_own p = Some f \<or> pl_sale p = Some f)
          else None
      | None \<Rightarrow>
          (case scope of
             Some fs \<Rightarrow> Some (\<lambda>p. (\<exists>f\<in>set fs. pl_contract p = Some f) \<or> \<not> pl_has_contract p)
           | None \<Rightarrow> Some (\<lambda>p. True)))"

lemma assertFacilityAllowed_Inr [simp]:
  "assertFacilityAllowed scope f = Inr u \<longleftrightarrow> isFacilityAllowed scope f"
  by (simp add: assertFacilityAllowed_def)

lemma resolved_filter_within_scope:
  "filter_admits (resolveFacilityFilter scope requested) f \<Longrightarrow> isFacilityAllowed scope f"
  by (auto simp: resolveFacilityFilter_def filter_admits_def isFacilityAllowed_def
      split: option.splits if_splits)

section \<open>Customers a user may see\<close>

definition customer_in_scope :: "db \<Rightarrow> facility_scope \<Rightarrow> id \<Rightarrow> bool" where
  "customer_in_scope d scope customer =
     (case scope of
        None \<Rightarrow> True
      | Some fs \<Rightarrow>
          (let mine = filter (\<lambda>c. con_customerId c = customer \<and> \<not> con_deleted c) (contracts d)
           in (\<exists>c\<in>set mine. con_status c \<in> {Con_draft, Con_active, Con_ending} \<and>
                 (case find_unit d (con_unitId c) of None \<Rightarrow> False
                    | Some u \<Rightarrow> unit_facilityId u \<in> set fs))
            \<or> (\<forall>c\<in>set mine. con_status c \<notin> {Con_active, Con_ending})))"

section \<open>Fiscal data of an issuer\<close>

definition tenantFiscalDataMissing ::
  "env \<Rightarrow> string option \<Rightarrow> string option \<Rightarrow> string option \<Rightarrow> string option \<Rightarrow> string option \<Rightarrow> string list"
where
  "tenantFiscalDataMissing e taxId legalName address postalCode city =
     (if skip_readiness e then []
      else (if blank taxId then [''NIF''] else [])
         @ (if blank legalName then [''razon social''] else [])
         @ (if blank address then [''domicilio fiscal''] else [])
         @ (if blank postalCode then [''codigo postal''] else [])
         @ (if blank city then [''municipio''] else []))"

definition assertIssuerFiscalData :: "env \<Rightarrow> db \<Rightarrow> id option \<Rightarrow> unit result" where
  "assertIssuerFiscalData e d owner =
     (case owner of
        Some oid \<Rightarrow>
          (case find_owner d oid of
             None \<Rightarrow> Inr ()
           | Some o1 \<Rightarrow>
               guard (tenantFiscalDataMissing e (Some (own_taxId o1)) (Some (own_legalName o1))
                        (own_address o1) (own_postalCode o1) (own_city o1) = [])
                 (BadRequestException ''issuer_fiscal_data_required''))
      | None \<Rightarrow>
          guard (tenantFiscalDataMissing e (ten_taxId (tenant d)) (ten_billingLegalName (tenant d))
                   (ten_billingAddress (tenant d)) (ten_billingPostalCode (tenant d))
                   (ten_billingCity (tenant d)) = [])
            (BadRequestException ''issuer_fiscal_data_required''))"

end
