(* ===== verification/InvoiceLines.thy ===== *)
theory InvoiceLines imports FacilityScope begin

text \<open>
  Lines of an invoice (\<open>invoices.service.ts\<close>, \<open>packages/shared/src/billing/tax-category.ts\<close>): the
  tax category of a line, the totals of the header and the rows of the lines. The header is the
  exact sum of the lines, each rounded to cents.
\<close>

section \<open>Tax categories\<close>

definition defaultTaxCategory :: "rat \<Rightarrow> tax_category" where
  "defaultTaxCategory taxRate = (if taxRate > 0 then S1 else N1)"

definition isExemptCategory :: "tax_category \<Rightarrow> bool" where
  "isExemptCategory c \<longleftrightarrow> c \<in> {E1, E2, E3, E4, E5, E6}"

definition taxCategoryAllowsRate :: "tax_category \<Rightarrow> rat \<Rightarrow> bool" where
  "taxCategoryAllowsRate c taxRate \<longleftrightarrow> c = S1 \<or> taxRate = 0"

definition rentTax :: "bool \<Rightarrow> rat \<times> tax_category" where
  "rentTax housing = (if housing then (0, E1) else (21, S1))"

definition lineTaxCategory :: "rat \<Rightarrow> tax_category option \<Rightarrow> tax_category result" where
  "lineTaxCategory taxRate category =
     (let c = (case category of None \<Rightarrow> defaultTaxCategory taxRate | Some k \<Rightarrow> k)
      in if taxCategoryAllowsRate c taxRate then Inr c
         else Inl (BadRequestException ''exempt_line_with_vat''))"

section \<open>Lines and totals\<close>

record item_input =
  ii_description :: string
  ii_quantity :: rat
  ii_unitPrice :: rat
  ii_taxRate :: rat
  ii_taxCategory :: "tax_category option"
  ii_relatedContractId :: "id option"
  ii_relatedUnitId :: "id option"
  ii_periodStart :: "date option"
  ii_periodEnd :: "date option"

record totals =
  tot_subtotal :: cents
  tot_taxAmount :: cents
  tot_total :: cents

definition MAX_INVOICE_TOTAL_CENTS :: int where
  "MAX_INVOICE_TOTAL_CENTS = 99999999900"

definition assertTotalInRange :: "int \<Rightarrow> unit result" where
  "assertTotalInRange c =
     guard (\<bar>c\<bar> \<le> MAX_INVOICE_TOTAL_CENTS) (BadRequestException ''amount_too_large'')"

definition input_line :: "item_input \<Rightarrow> line_cents" where
  "input_line it = lineCents (ii_quantity it) (ii_unitPrice it) (ii_taxRate it)"

fun sum_lines :: "item_input list \<Rightarrow> int \<Rightarrow> int \<Rightarrow> int \<times> int" where
  "sum_lines [] tax tot = (tax, tot)"
| "sum_lines (it # its) tax tot =
     sum_lines its (tax + taxCents (input_line it)) (tot + totalCents (input_line it))"

definition computeTotals :: "item_input list \<Rightarrow> totals result" where
  "computeTotals its =
     (case sum_lines its 0 0 of (tax, tot) \<Rightarrow>
        bindr (assertTotalInRange tot) (\<lambda>_.
        Inr \<lparr>tot_subtotal = tot - tax, tot_taxAmount = tax, tot_total = tot\<rparr>))"

text \<open>The variant for credit notes has the same body; its prices may be negative.\<close>

definition computeTotalsRectify :: "item_input list \<Rightarrow> totals result" where
  "computeTotalsRectify its =
     (case sum_lines its 0 0 of (tax, tot) \<Rightarrow>
        bindr (assertTotalInRange tot) (\<lambda>_.
        Inr \<lparr>tot_subtotal = tot - tax, tot_taxAmount = tax, tot_total = tot\<rparr>))"

definition toItemCreateData :: "id \<Rightarrow> item_input \<Rightarrow> nat \<Rightarrow> item_row result" where
  "toItemCreateData invoiceId it pos =
     bindr (lineTaxCategory (ii_taxRate it) (ii_taxCategory it)) (\<lambda>c.
     Inr \<lparr>it_invoiceId = invoiceId, it_position = pos, it_description = ii_description it,
          it_quantity = ii_quantity it, it_unitPrice = ii_unitPrice it,
          it_taxRate = ii_taxRate it, it_taxCategory = c,
          it_taxAmount = taxCents (input_line it), it_total = totalCents (input_line it),
          it_relatedContractId = ii_relatedContractId it, it_relatedUnitId = ii_relatedUnitId it,
          it_periodStart = ii_periodStart it, it_periodEnd = ii_periodEnd it\<rparr>)"

definition toRectifyItemCreateData :: "id \<Rightarrow> item_input \<Rightarrow> nat \<Rightarrow> item_row result" where
  "toRectifyItemCreateData invoiceId it pos =
     bindr (lineTaxCategory (ii_taxRate it) (ii_taxCategory it)) (\<lambda>c.
     Inr \<lparr>it_invoiceId = invoiceId, it_position = pos, it_description = ii_description it,
          it_quantity = ii_quantity it, it_unitPrice = ii_unitPrice it,
          it_taxRate = ii_taxRate it, it_taxCategory = c,
          it_taxAmount = taxCents (input_line it), it_total = totalCents (input_line it),
          it_relatedContractId = ii_relatedContractId it, it_relatedUnitId = ii_relatedUnitId it,
          it_periodStart = ii_periodStart it, it_periodEnd = ii_periodEnd it\<rparr>)"

text \<open>\<open>items.map((item, idx) => this.toItemCreateData(item, tenantId, idx))\<close>\<close>

fun item_rows :: "(item_input \<Rightarrow> nat \<Rightarrow> item_row result) \<Rightarrow> item_input list \<Rightarrow> nat \<Rightarrow> item_row list result"
where
  "item_rows mk [] pos = Inr []"
| "item_rows mk (it # its) pos =
     bindr (mk it pos) (\<lambda>r. bindr (item_rows mk its (Suc pos)) (\<lambda>rs. Inr (r # rs)))"

section \<open>The header is the sum of the lines\<close>

lemma sum_lines_eq:
  "sum_lines its tax tot =
     (tax + sum_list (map (taxCents \<circ> input_line) its),
      tot + sum_list (map (totalCents \<circ> input_line) its))"
  by (induction its arbitrary: tax tot) (simp_all add: algebra_simps)

lemma computeTotalsRectify_eq: "computeTotalsRectify = computeTotals"
  by (simp add: fun_eq_iff computeTotalsRectify_def computeTotals_def)

lemma toRectifyItemCreateData_eq: "toRectifyItemCreateData = toItemCreateData"
  by (simp add: fun_eq_iff toRectifyItemCreateData_def toItemCreateData_def)

lemma item_rows_sums:
  assumes "item_rows (toItemCreateData i) its pos = Inr rows"
  shows "map it_taxAmount rows = map (taxCents \<circ> input_line) its"
    and "map it_total rows = map (totalCents \<circ> input_line) its"
    and "\<forall>r\<in>set rows. it_invoiceId r = i"
  using assms
  by (induction its arbitrary: pos rows)
    (auto simp: toItemCreateData_def elim!: bindrE)

lemma item_rows_category:
  assumes "item_rows (toItemCreateData i) its pos = Inr rows"
  shows "\<forall>r\<in>set rows. taxCategoryAllowsRate (it_taxCategory r) (it_taxRate r)"
  using assms
  by (induction its arbitrary: pos rows)
    (auto simp: toItemCreateData_def lineTaxCategory_def Let_def elim!: bindrE split: if_splits)

lemma header_is_sum:
  assumes "computeTotals its = Inr t" and "item_rows (toItemCreateData i) its pos = Inr rows"
  shows "tot_total t = sum_list (map it_total rows)"
    and "tot_taxAmount t = sum_list (map it_taxAmount rows)"
    and "tot_subtotal t + tot_taxAmount t = tot_total t"
    and "\<bar>tot_total t\<bar> \<le> MAX_INVOICE_TOTAL_CENTS"
  using assms item_rows_sums [OF assms(2)]
  by (auto simp: computeTotals_def sum_lines_eq assertTotalInRange_def elim!: bindrE)

end
