(* ===== verification/Invoices.thy ===== *)
theory Invoices imports InvoiceLines begin

text \<open>
  Draft invoices and the helpers of \<open>apps/api/src/modules/billing/invoices.service.ts\<close> that other
  operations share: finding an invoice within the caller's scope, the table of allowed status
  changes, creating and updating an invoice, the deposit receipt, the limits of credit notes, the
  compensation of a pending amount with a credit note and the withholding of income tax.
\<close>

section \<open>Finding an invoice; status changes\<close>

definition invoice_facility :: "db \<Rightarrow> invoice_row \<Rightarrow> id option" where
  "invoice_facility d i =
     (case inv_contractId i of
        None \<Rightarrow> None
      | Some c \<Rightarrow>
          (case find_contract d c of
             None \<Rightarrow> None
           | Some k \<Rightarrow> map_option unit_facilityId (find_unit d (con_unitId k))))"

definition findOrThrow :: "db \<Rightarrow> facility_scope \<Rightarrow> id \<Rightarrow> invoice_row result" where
  "findOrThrow d scope i =
     bindr (found (find_first (\<lambda>r. inv_id r = i \<and> \<not> inv_deleted r) (invoices d))
              (NotFoundException ''invoice_not_found'')) (\<lambda>r.
     bindr (case invoice_facility d r of None \<Rightarrow> Inr () | Some f \<Rightarrow> assertFacilityAllowed scope f) (\<lambda>_.
     Inr r))"

fun ALLOWED_TRANSITIONS :: "invoice_status \<Rightarrow> invoice_status list" where
  "ALLOWED_TRANSITIONS Draft = [Issued, Cancelled]"
| "ALLOWED_TRANSITIONS Issued = [Paid, Overdue, Rectified, Refunded, Partially_refunded]"
| "ALLOWED_TRANSITIONS Overdue = [Paid, Rectified, Refunded, Partially_refunded]"
| "ALLOWED_TRANSITIONS Paid = [Refunded, Partially_refunded]"
| "ALLOWED_TRANSITIONS Partially_refunded = [Refunded]"
| "ALLOWED_TRANSITIONS Refunded = []"
| "ALLOWED_TRANSITIONS Cancelled = []"
| "ALLOWED_TRANSITIONS Rectified = []"

definition assertTransition :: "invoice_status \<Rightarrow> invoice_status \<Rightarrow> unit result" where
  "assertTransition a b =
     guard (b \<in> set (ALLOWED_TRANSITIONS a)) (BadRequestException ''invalid_invoice_transition'')"

definition computeDefaultDueDate :: "date \<Rightarrow> int \<Rightarrow> date" where
  "computeDefaultDueDate issueDate days = issueDate + days"

definition draftPlaceholderNumber :: "env \<Rightarrow> id \<Rightarrow> string" where
  "draftPlaceholderNumber e i = ''DRAFT-'' @ draft_suffix e i"

text \<open>
  The unique indexes on invoices: the number, and one living F1 per contract and period start.
\<close>

definition recurring_key :: "invoice_row \<Rightarrow> (id \<times> date) option" where
  "recurring_key i =
     (if inv_type i = F1 \<and> inv_status i \<noteq> Cancelled \<and> \<not> inv_deleted i
      then (case (inv_contractId i, inv_periodStart i) of (Some c, Some p) \<Rightarrow> Some (c, p) | _ \<Rightarrow> None)
      else None)"

definition violates_unique :: "invoice_row list \<Rightarrow> invoice_row \<Rightarrow> bool" where
  "violates_unique rows i \<longleftrightarrow>
     (\<exists>r\<in>set rows. inv_id r \<noteq> inv_id i \<and>
        (inv_number r = inv_number i \<or> (recurring_key i \<noteq> None \<and> recurring_key r = recurring_key i)))"

definition insert_invoice ::
  "db \<Rightarrow> invoice_row \<Rightarrow> (id \<Rightarrow> item_row list result) \<Rightarrow> (db \<times> invoice_row) result" where
  "insert_invoice d row lines =
     (let r = row\<lparr>inv_id := next_id d\<rparr>
      in bindr (lines (inv_id r)) (\<lambda>ls.
         if violates_unique (invoices d) r then Inl UniqueViolation
         else Inr (d\<lparr>invoices := create_row r (invoices d), items := items d @ ls,
                     next_id := Suc (next_id d)\<rparr>, r)))"

section \<open>Creating a draft\<close>

record create_input =
  ci_customerId :: "id option"
  ci_contractId :: "id option"
  ci_seriesId :: "id option"
  ci_invoiceType :: "invoice_type option"
  ci_justification :: "string option"
  ci_issueDate :: "date option"
  ci_dueDate :: "date option"
  ci_periodStart :: "date option"
  ci_periodEnd :: "date option"
  ci_notes :: "string option"
  ci_items :: "item_input list"

definition f2_limit :: "create_input \<Rightarrow> cents" where
  "f2_limit input = (if ci_justification input \<noteq> None then 300000 else 40000)"

definition create_notes :: "invoice_type \<Rightarrow> create_input \<Rightarrow> string option" where
  "create_notes ty input =
     (let base = (case ci_notes input of None \<Rightarrow> [] | Some n \<Rightarrow> trim n)
      in case (ty, ci_justification input) of
           (F2, Some (j # js)) \<Rightarrow>
             Some (''[F2:'' @ (j # js) @ '']'' @ (if base = [] then [] else CHR '' '' # base))
         | _ \<Rightarrow> (if base = [] then None else Some base))"

text \<open>
  The issuer: the one given, or that of the contract. \<open>given\<close> is \<open>None\<close> when the argument is
  undefined.
\<close>

definition create_owner ::
  "db \<Rightarrow> facility_scope \<Rightarrow> id option option \<Rightarrow> create_input \<Rightarrow> id option result" where
  "create_owner d scope given input =
     (case ci_contractId input of
        None \<Rightarrow> Inr (case given of None \<Rightarrow> None | Some ow \<Rightarrow> ow)
      | Some cid \<Rightarrow>
          bindr (found (find_first (\<lambda>c. con_id c = cid \<and> \<not> con_deleted c) (contracts d))
                   (NotFoundException ''contract_not_found'')) (\<lambda>c.
          bindr (guard (\<not> (\<exists>cu. ci_customerId input = Some cu \<and> con_customerId c \<noteq> cu))
                   (BadRequestException ''contract_customer_mismatch'')) (\<lambda>_.
          bindr (case (scope, find_unit d (con_unitId c)) of
                   (Some fs, Some u) \<Rightarrow> assertFacilityAllowed (Some fs) (unit_facilityId u)
                 | _ \<Rightarrow> Inr ()) (\<lambda>_.
          Inr (case given of None \<Rightarrow> con_ownerId c | Some ow \<Rightarrow> ow)))))"

definition create_series_for ::
  "db \<Rightarrow> id option \<Rightarrow> id option \<Rightarrow> (db \<times> series_row option) result" where
  "create_series_for d owner seriesId =
     (case seriesId of
        Some sid \<Rightarrow> bindr (found (find_series d sid) RecordNotFound) (\<lambda>s. Inr (d, Some s))
      | None \<Rightarrow>
          (case owner of
             Some ow \<Rightarrow> bindr (ownerSeries d ow False) (\<lambda>(d', s). Inr (d', Some s))
           | None \<Rightarrow> Inr (d, find_first (\<lambda>s. ser_isDefault s \<and> ser_isActive s \<and> ser_ownerId s = None)
                               (series d))))"

definition owner_default_series ::
  "db \<times> series_row option \<Rightarrow> id option \<Rightarrow> (db \<times> series_row option) result" where
  "owner_default_series ds owner =
     (case (ds, owner) of
        ((d, Some s), Some ow) \<Rightarrow>
          (if ser_ownerId s = None \<and> ser_isDefault s
           then bindr (ownerSeries d ow False) (\<lambda>(d', s'). Inr (d', Some s'))
           else Inr ds)
      | _ \<Rightarrow> Inr ds)"

definition create_tx ::
  "env \<Rightarrow> db \<Rightarrow> facility_scope \<Rightarrow> id option option \<Rightarrow> consumed_benefits option \<Rightarrow> create_input
    \<Rightarrow> invoice_type \<Rightarrow> totals \<Rightarrow> (db \<times> invoice_row) result" where
  "create_tx e d scope given benefits input ty t =
     bindr (case ci_customerId input of
              None \<Rightarrow> Inr ()
            | Some cu \<Rightarrow>
                guard (\<exists>c\<in>set (customers d). cus_id c = cu \<and> \<not> cus_deleted c \<and> customer_in_scope d scope cu)
                  (NotFoundException ''customer_not_found'')) (\<lambda>_.
     bindr (create_owner d scope given input) (\<lambda>owner.
     bindr (create_series_for d owner (ci_seriesId input)) (\<lambda>ds0.
     bindr (owner_default_series ds0 owner) (\<lambda>(d1, so).
     bindr (guard (\<not> (\<exists>s. so = Some s \<and> ser_ownerId s \<noteq> owner))
              (BadRequestException ''series_owner_mismatch'')) (\<lambda>_.
     bindr (found so (BadRequestException ''no_default_series'')) (\<lambda>s.
     insert_invoice d1
       (default_invoice\<lparr>inv_type := ty, inv_status := Draft, inv_customerId := ci_customerId input,
          inv_contractId := ci_contractId input, inv_ownerId := owner, inv_seriesId := ser_id s,
          inv_sequence := 0, inv_number := draftPlaceholderNumber e (next_id d1),
          inv_issueDate := ci_issueDate input, inv_dueDate := ci_dueDate input,
          inv_periodStart := ci_periodStart input, inv_periodEnd := ci_periodEnd input,
          inv_subtotal := tot_subtotal t, inv_taxAmount := tot_taxAmount t, inv_total := tot_total t,
          inv_notes := create_notes ty input, inv_benefits := benefits\<rparr>)
       (\<lambda>i. item_rows (toItemCreateData i) (ci_items input) 0)))))))"

definition create_invoice ::
  "env \<Rightarrow> db \<Rightarrow> facility_scope \<Rightarrow> id option option \<Rightarrow> consumed_benefits option \<Rightarrow> create_input
    \<Rightarrow> (db \<times> invoice_row) result" where
  "create_invoice e d scope given benefits input =
     (let ty = (case ci_invoiceType input of None \<Rightarrow> F1 | Some ty \<Rightarrow> ty)
      in bindr (computeTotals (ci_items input)) (\<lambda>t.
         bindr (if ty = F1
                then guard (ci_customerId input \<noteq> None) (BadRequestException ''customer_required'')
                else guard (\<not> f2_limit input < tot_total t)
                       (BadRequestException ''f2_amount_limit_exceeded'')) (\<lambda>_.
         case create_tx e d scope given benefits input ty t of
           Inl err \<Rightarrow> (if err = UniqueViolation then Inl (ConflictException ''duplicate_period_invoice'')
                     else Inl err)
         | Inr (d', r) \<Rightarrow> Inr (audit ''invoice.created'' (inv_id r) d', r))))"

section \<open>Updating an invoice\<close>

text \<open>
  The outer \<open>option\<close> of a field says whether the request carries it; a due date may be cleared.
  The invoice is read before the transaction; \<open>update_tx\<close> is the transaction over the state it
  finds when it runs.
\<close>

record update_input =
  ui_dueDate :: "date option option"
  ui_dueDateReason :: "string option"
  ui_notes :: "string option option"
  ui_items :: "item_input list option"

definition due_change :: "invoice_row \<Rightarrow> update_input \<Rightarrow> bool" where
  "due_change existing input \<longleftrightarrow> inv_status existing \<noteq> Draft \<and> ui_dueDate input \<noteq> None"

definition update_checks :: "invoice_row \<Rightarrow> update_input \<Rightarrow> unit result" where
  "update_checks existing input =
     bindr (guard (\<not> (inv_status existing \<noteq> Draft \<and> ui_items input \<noteq> None))
              (BadRequestException ''invoice_not_editable'')) (\<lambda>_.
     if due_change existing input
     then bindr (guard (inv_status existing = Issued \<or> inv_status existing = Overdue)
                   (BadRequestException ''invoice_not_editable'')) (\<lambda>_.
          bindr (found (case ui_dueDate input of None \<Rightarrow> None | Some x \<Rightarrow> x)
                   (BadRequestException ''due_date_required'')) (\<lambda>due.
          bindr (guard (\<not> blank (ui_dueDateReason input))
                   (BadRequestException ''due_date_reason_required'')) (\<lambda>_.
          guard (\<not> (\<exists>dt. inv_issueDate existing = Some dt \<and> due < dt))
            (BadRequestException ''due_date_before_issue''))))
     else Inr ())"

definition postponed :: "env \<Rightarrow> invoice_row \<Rightarrow> update_input \<Rightarrow> bool" where
  "postponed e existing input \<longleftrightarrow>
     due_change existing input \<and> inv_status existing = Overdue \<and>
     (case ui_dueDate input of Some (Some due) \<Rightarrow> today e \<le> due | _ \<Rightarrow> False)"

definition cancel_scheduled_dunning :: "id \<Rightarrow> db \<Rightarrow> db" where
  "cancel_scheduled_dunning i d =
     d\<lparr>dunning_actions := update_many
         (\<lambda>a. dun_invoiceId a = i \<and> dun_scheduled a \<and> \<not> dun_superseded a)
         (\<lambda>a. a\<lparr>dun_scheduled := False, dun_cancelled := True,
                dun_notes := Some ''Vencimiento aplazado''\<rparr>) (dunning_actions d)\<rparr>"

definition update_fields :: "env \<Rightarrow> invoice_row \<Rightarrow> update_input \<Rightarrow> invoice_row \<Rightarrow> invoice_row" where
  "update_fields e existing input r =
     r\<lparr>inv_dueDate := (case ui_dueDate input of None \<Rightarrow> inv_dueDate r | Some x \<Rightarrow> x),
       inv_status := (if postponed e existing input then Issued else inv_status r),
       inv_notes := (case ui_notes input of None \<Rightarrow> inv_notes r
          | Some n \<Rightarrow> (case n of None \<Rightarrow> None
                       | Some t \<Rightarrow> if trim t = [] then None else Some (trim t)))\<rparr>"

definition set_totals :: "totals \<Rightarrow> invoice_row \<Rightarrow> invoice_row" where
  "set_totals t r =
     r\<lparr>inv_subtotal := tot_subtotal t, inv_taxAmount := tot_taxAmount t, inv_total := tot_total t\<rparr>"

definition update_tx :: "env \<Rightarrow> invoice_row \<Rightarrow> update_input \<Rightarrow> db \<Rightarrow> db result" where
  "update_tx e existing input d =
     (let i = inv_id existing;
          d1 = (if postponed e existing input then cancel_scheduled_dunning i d else d)
      in case ui_items input of
           None \<Rightarrow> Inr (update_invoice i (update_fields e existing input) d1)
         | Some its \<Rightarrow>
             bindr (computeTotals its) (\<lambda>t.
             bindr (item_rows (toItemCreateData i) its 0) (\<lambda>rows.
             Inr (update_invoice i (set_totals t \<circ> update_fields e existing input)
                    (d1\<lparr>items := filter (\<lambda>r. it_invoiceId r \<noteq> i) (items d1) @ rows\<rparr>)))))"

definition update_from :: "env \<Rightarrow> invoice_row \<Rightarrow> update_input \<Rightarrow> db \<Rightarrow> db result" where
  "update_from e existing input d =
     bindr (update_checks existing input) (\<lambda>_.
     bindr (update_tx e existing input d) (\<lambda>d'.
     Inr (audit (if due_change existing input then ''invoice.due_date_changed'' else ''invoice.updated'')
            (inv_id existing) d')))"

definition update_draft :: "env \<Rightarrow> facility_scope \<Rightarrow> id \<Rightarrow> update_input \<Rightarrow> db \<Rightarrow> db result" where
  "update_draft e scope i input d =
     bindr (findOrThrow d scope i) (\<lambda>existing. update_from e existing input d)"

section \<open>Deposit receipts\<close>

record receipt_input =
  ri_contractId :: id
  ri_customerId :: id
  ri_contractNumber :: string
  ri_amount :: cents
  ri_dueDate :: "date option"
  ri_bundledWith :: "id option"

definition receipt_number :: "db \<Rightarrow> string \<Rightarrow> string" where
  "receipt_number d contractNumber =
     (let base = ''FZ-'' @ contractNumber;
          taken = count_rows (\<lambda>r. startsWith (inv_number r) base) (invoices d)
      in if taken = 0 then base else base @ ''-'' @ show_nat (taken + 1))"

definition createDepositReceipt :: "env \<Rightarrow> db \<Rightarrow> receipt_input \<Rightarrow> (db \<times> invoice_row) result" where
  "createDepositReceipt e d a =
     bindr (found (getDefault d) (BadRequestException ''invoice_series_required'')) (\<lambda>s.
     bindr (insert_invoice d
        (default_invoice\<lparr>inv_customerId := Some (ri_customerId a),
           inv_contractId := Some (ri_contractId a),
           inv_ownerId := (case find_contract d (ri_contractId a) of None \<Rightarrow> None | Some c \<Rightarrow> con_ownerId c),
           inv_seriesId := ser_id s, inv_sequence := 0,
           inv_number := receipt_number d (ri_contractNumber a),
           inv_kind := Deposit_receipt, inv_status := Issued, inv_type := F1,
           inv_issueDate := Some (utc_day (now e)), inv_dueDate := ri_dueDate a,
           inv_bundledWith := ri_bundledWith a,
           inv_subtotal := ri_amount a, inv_taxAmount := 0, inv_total := ri_amount a\<rparr>)
        (\<lambda>i. Inr [\<lparr>it_invoiceId = i, it_position = 0,
            it_description = ''Fianza del contrato '' @ ri_contractNumber a,
            it_quantity = 1, it_unitPrice = euros (ri_amount a), it_taxRate = 0,
            it_taxCategory = S1, it_taxAmount = 0, it_total = ri_amount a,
            it_relatedContractId = Some (ri_contractId a), it_relatedUnitId = None,
            it_periodStart = None, it_periodEnd = None\<rparr>])) (\<lambda>(d', r).
     Inr (emit (Invoice_pdf_requested (inv_id r))
            (audit ''invoice.deposit_receipt_created'' (inv_id r) d'), r)))"

section \<open>Credit notes: limits and compensation\<close>

definition others_of :: "db \<Rightarrow> id \<Rightarrow> id option \<Rightarrow> invoice_row list" where
  "others_of d original self =
     filter (\<lambda>o1. inv_rectifies o1 = Some original \<and> inv_status o1 \<noteq> Cancelled \<and> \<not> inv_deleted o1 \<and>
                 Some (inv_id o1) \<noteq> self) (invoices d)"

definition assertRectificationLimits ::
  "db \<Rightarrow> id \<Rightarrow> id option \<Rightarrow> cents \<Rightarrow> correction_method \<Rightarrow> unit result" where
  "assertRectificationLimits d originalId selfId amount method =
     bindr (found (find_invoice d originalId) RecordNotFound) (\<lambda>original.
     let others = others_of d originalId selfId
     in if method = By_substitution
        then bindr (guard (\<not> 0 < inv_amountPaid original - inv_withholding original)
                      (BadRequestException ''substitution_original_paid'')) (\<lambda>_.
             guard (others = []) (ConflictException ''rectification_already_exists''))
        else bindr (guard (\<not> (\<exists>o1\<in>set others. inv_correctionMethod o1 = Some By_substitution))
                      (ConflictException ''invoice_substituted'')) (\<lambda>_.
             guard (\<not> inv_total original + sum_list (map inv_total others) + amount < 0)
               (BadRequestException ''rectification_exceeds_original'')))"

record compensation =
  cmp_id :: id
  cmp_fullyPaid :: bool

definition compensateWithCredit :: "env \<Rightarrow> db \<Rightarrow> id \<Rightarrow> cents \<Rightarrow> (db \<times> compensation option) result" where
  "compensateWithCredit e d originalId creditCents =
     bindr (found (find_invoice d originalId) RecordNotFound) (\<lambda>orig.
     if inv_status orig \<noteq> Issued \<and> inv_status orig \<noteq> Overdue then Inr (d, None)
     else (let pendingCents = inv_total orig - inv_amountPaid orig;
               comp = min pendingCents creditCents
           in if comp \<le> 0 then Inr (d, None)
              else (let newPaid = inv_amountPaid orig + comp;
                        full = newPaid \<ge> inv_total orig;
                        d1 = create_payment (default_payment\<lparr>pay_invoiceId := Some originalId,
                               pay_customerId := inv_customerId orig, pay_amount := comp,
                               pay_method := Credit_note, pay_gateway := Manual,
                               pay_status := Pay_succeeded, pay_paidAt := Some (now e),
                               pay_createdAt := now e\<rparr>) d
                    in Inr (update_invoice originalId
                              (\<lambda>r. r\<lparr>inv_amountPaid := newPaid,
                                     inv_status := (if full then Paid else inv_status r),
                                     inv_paidAt := (if full then Some (now e) else inv_paidAt r)\<rparr>) d1,
                            Some \<lparr>cmp_id = originalId, cmp_fullyPaid = full\<rparr>))))"

section \<open>Withholding of income tax\<close>

definition withholding_base :: "db \<Rightarrow> id \<Rightarrow> cents" where
  "withholding_base d i =
     sum_list (map (\<lambda>it. it_total it - it_taxAmount it)
       (filter (\<lambda>it. it_invoiceId it = i \<and>
                     (it_taxCategory it = S1 \<or> isExemptCategory (it_taxCategory it))) (items d)))"

definition withholding_cents :: "db \<Rightarrow> id \<Rightarrow> rat \<Rightarrow> cents" where
  "withholding_cents d i pct = math_round (ndiv (nmul (of_int (withholding_base d i)) pct) 100)"

definition withholding_applies :: "invoice_row \<Rightarrow> bool" where
  "withholding_applies r \<longleftrightarrow>
     inv_contractId r \<noteq> None \<and> inv_kind r = Invoice_kind \<and>
     (inv_type r = F1 \<or> inv_type r = F2 \<or> inv_correctionMethod r = Some By_substitution)"

definition applyWithholding :: "env \<Rightarrow> db \<Rightarrow> invoice_row \<Rightarrow> db" where
  "applyWithholding e d r =
     (if \<not> withholding_applies r then d
      else (let pct = (case inv_contractId r of None \<Rightarrow> 0
                       | Some c \<Rightarrow> (case find_contract d c of None \<Rightarrow> 0
                                    | Some k \<Rightarrow> con_irpfRetentionPct k));
                amount = withholding_cents d (inv_id r) pct
            in if pct \<le> 0 \<or> amount \<le> 0 then d
               else update_invoice (inv_id r)
                      (\<lambda>i. i\<lparr>inv_withholdingPct := pct, inv_withholding := amount,
                             inv_amountPaid := inv_amountPaid i + amount\<rparr>)
                      (create_payment (default_payment\<lparr>pay_invoiceId := Some (inv_id r),
                         pay_customerId := inv_customerId r, pay_amount := amount,
                         pay_status := Pay_succeeded, pay_method := Withholding,
                         pay_gateway := Manual, pay_paidAt := Some (now e),
                         pay_createdAt := now e\<rparr>) d)))"

section \<open>Drafting a credit note\<close>

record rectify_input =
  rc_type :: invoice_type
  rc_reason :: string
  rc_method :: "correction_method option"
  rc_issueDate :: "date option"
  rc_items :: "item_input list"

definition rectify_checks :: "invoice_row \<Rightarrow> bool \<Rightarrow> unit result" where
  "rectify_checks original allowRectified =
     bindr (guard (inv_kind original \<noteq> Deposit_receipt)
              (BadRequestException ''invoice_not_rectifiable'')) (\<lambda>_.
     bindr (guard (inv_status original \<noteq> Draft \<and> inv_status original \<noteq> Cancelled)
              (BadRequestException ''invoice_not_rectifiable'')) (\<lambda>_.
     bindr (guard (\<not> (inv_status original = Rectified \<and> \<not> allowRectified))
              (BadRequestException ''invoice_not_rectifiable'')) (\<lambda>_.
     guard (inv_type original = F1 \<or> inv_type original = F2)
       (BadRequestException ''invoice_not_rectifiable''))))"

definition rectify_tx ::
  "env \<Rightarrow> invoice_row \<Rightarrow> rectify_input \<Rightarrow> totals \<Rightarrow> db \<Rightarrow> (db \<times> invoice_row) result" where
  "rectify_tx e original input t d =
     (let method = (case rc_method input of None \<Rightarrow> By_differences | Some m \<Rightarrow> m)
      in bindr (assertRectificationLimits d (inv_id original) None (tot_total t) method) (\<lambda>_.
         bindr (rectificationSeries d (inv_ownerId original)) (\<lambda>(d1, s).
         insert_invoice d1
           (default_invoice\<lparr>inv_ownerId := inv_ownerId original,
              inv_customerId := inv_customerId original, inv_contractId := inv_contractId original,
              inv_seriesId := ser_id s, inv_sequence := 0,
              inv_number := draftPlaceholderNumber e (next_id d1), inv_status := Draft,
              inv_type := rc_type input, inv_rectifies := Some (inv_id original),
              inv_rectificationReason := Some (trim (rc_reason input)),
              inv_correctionMethod := Some method, inv_issueDate := rc_issueDate input,
              inv_subtotal := tot_subtotal t, inv_taxAmount := tot_taxAmount t,
              inv_total := tot_total t\<rparr>)
           (\<lambda>i. item_rows (toRectifyItemCreateData i) (rc_items input) 0))))"

definition rectify ::
  "env \<Rightarrow> facility_scope \<Rightarrow> bool \<Rightarrow> id \<Rightarrow> rectify_input \<Rightarrow> db \<Rightarrow> (db \<times> invoice_row) result" where
  "rectify e scope allowRectified originalId input d =
     bindr (findOrThrow d scope originalId) (\<lambda>original.
     bindr (rectify_checks original allowRectified) (\<lambda>_.
     bindr (computeTotalsRectify (rc_items input)) (\<lambda>t.
     bindr (rectify_tx e original input t d) (\<lambda>(d', r).
     Inr (emit (Invoice_rectified (inv_id r)) (audit ''invoice.rectified'' (inv_id r) d'), r)))))"

end
