(* ===== verification/Issue.thy ===== *)
theory Issue imports Invoices begin

text \<open>
  Issuing an invoice (\<open>InvoicesService.issue\<close> and its Holded variants). The invoice is read first;
  \<open>issue_tx\<close> is the transaction that locks the row, checks that it is still a draft, reserves the
  number, links the record into the issuer's chain and writes the issued row. A failed transaction
  leaves the tables as they were. The calls to Holded come before the transaction.
\<close>

section \<open>Who bills, and the checks of the real mode\<close>

definition current_mode :: "env \<Rightarrow> db \<Rightarrow> db \<times> issuer" where
  "current_mode e d =
     (let t = tenant d
      in case (ten_invoicingModePending t, ten_invoicingModePendingFrom t) of
           (Some m, Some from) \<Rightarrow>
             (if from \<le> today e
              then (d\<lparr>tenant := t\<lparr>ten_invoicingMode := m, ten_invoicingModePending := None,
                       ten_invoicingModePendingFrom := None\<rparr>\<rparr>, m)
              else (d, ten_invoicingMode t))
         | _ \<Rightarrow> (d, ten_invoicingMode t))"

definition assertRecipientIdentifiable :: "db \<Rightarrow> invoice_row \<Rightarrow> unit result" where
  "assertRecipientIdentifiable d i =
     (case inv_customerId i of
        None \<Rightarrow> guard (inv_type i = F2) (BadRequestException ''customer_required'')
      | Some cu \<Rightarrow>
          (let c = find_customer d cu;
               doc = (case c of None \<Rightarrow> [] | Some k \<Rightarrow>
                        (case cus_documentNumber k of None \<Rightarrow> [] | Some n \<Rightarrow> trim n));
               country = (case c of None \<Rightarrow> ''ES'' | Some k \<Rightarrow>
                            (case cus_country k of None \<Rightarrow> ''ES'' | Some n \<Rightarrow> n));
               spanish = (toUpperCase country = ''ES'')
           in guard (\<not> (doc = [] \<or> (spanish \<and> \<not> isValidSpanishTaxId doc)) \<or> inv_type i = F2)
                (BadRequestException ''customer_tax_id_required'')))"

definition emitter_tax_id :: "db \<Rightarrow> id option \<Rightarrow> string" where
  "emitter_tax_id d owner =
     (let t = (case owner of
                 None \<Rightarrow> ten_taxId (tenant d)
               | Some o1 \<Rightarrow> (case find_owner d o1 of
                                None \<Rightarrow> ten_taxId (tenant d) | Some r \<Rightarrow> Some (own_taxId r)))
      in case t of None \<Rightarrow> [] | Some s \<Rightarrow> (if s = [] then [] else normalizeTaxId s))"

definition real_mode_checks :: "env \<Rightarrow> db \<Rightarrow> invoice_row \<Rightarrow> unit result" where
  "real_mode_checks e d existing =
     (if \<not> realMode e then Inr ()
      else (let taxId = emitter_tax_id d (inv_ownerId existing);
                has_owner = (case inv_ownerId existing of None \<Rightarrow> False
                             | Some o1 \<Rightarrow> find_owner d o1 \<noteq> None)
            in bindr (guard (taxId \<noteq> [] \<and> isValidSpanishTaxId taxId)
                        (BadRequestException (if has_owner then ''owner_tax_id_required''
                                              else ''tenant_tax_id_required''))) (\<lambda>_.
               bindr (assertRecipientIdentifiable d existing) (\<lambda>_.
               guard (\<exists>c\<in>set (certificates d). \<not> cert_revoked c \<and> now e < cert_validTo c \<and>
                        (cert_ownerId c = None \<or> (inv_ownerId existing \<noteq> None \<and>
                                                  cert_ownerId c = inv_ownerId existing)))
                 (BadRequestException ''aeat_certificate_required'')))))"

definition pending_tax_id :: "string \<Rightarrow> string" where
  "pending_tax_id t = (if t = [] then ''PENDIENTE'' else t)"

definition buildQrDataUrl :: "env \<Rightarrow> string \<Rightarrow> string \<Rightarrow> date \<Rightarrow> rat \<Rightarrow> string" where
  "buildQrDataUrl e taxId number issueDate importe =
     qr_png e (if production e
               then ''https://www2.agenciatributaria.gob.es/wlpl/TIKE-CONT/ValidarQR''
               else ''https://prewww2.aeat.es/wlpl/TIKE-CONT/ValidarQR'',
               pending_tax_id taxId, number, formatSpanishDate issueDate, toFixed2 importe)"

section \<open>The transaction\<close>

text \<open>
  The latest issue date of the series, over its numbered invoices.
\<close>

definition last_issue_date :: "db \<Rightarrow> id \<Rightarrow> date option" where
  "last_issue_date d seriesId =
     (let dates = map (the \<circ> inv_issueDate)
            (filter (\<lambda>i. inv_seriesId i = seriesId \<and> 0 < inv_sequence i \<and> inv_issueDate i \<noteq> None)
              (invoices d))
      in if dates = [] then None else Some (foldr max dates (hd dates)))"

definition issue_date_of :: "env \<Rightarrow> invoice_row \<Rightarrow> date" where
  "issue_date_of e existing =
     (case inv_issueDate existing of None \<Rightarrow> today e | Some dt \<Rightarrow> dt)"

definition settles :: "invoice_row \<Rightarrow> bool \<Rightarrow> bool" where
  "settles existing settledZero \<longleftrightarrow> inv_total existing < 0 \<or> settledZero"

definition mark_settled :: "env \<Rightarrow> invoice_row \<Rightarrow> bool \<Rightarrow> int \<Rightarrow> invoice_row \<Rightarrow> invoice_row" where
  "mark_settled e existing settledZero dueDays r =
     (if settles existing settledZero
      then r\<lparr>inv_status := Paid, inv_dueDate := None, inv_amountPaid := inv_total existing,
             inv_paidAt := Some (now e)\<rparr>
      else r\<lparr>inv_status := Issued,
             inv_dueDate := Some (case inv_dueDate existing of
                None \<Rightarrow> computeDefaultDueDate (issue_date_of e existing) dueDays
              | Some x \<Rightarrow> x)\<rparr>)"

definition issued_fields ::
  "env \<Rightarrow> invoice_row \<Rightarrow> bool \<Rightarrow> int \<Rightarrow> int \<Rightarrow> string \<Rightarrow> chain_link \<Rightarrow> string \<Rightarrow> invoice_row \<Rightarrow> invoice_row"
where
  "issued_fields e existing settledZero dueDays n number l qr r =
     (mark_settled e existing settledZero dueDays r)
       \<lparr>inv_number := number, inv_sequence := n, inv_issueDate := Some (issue_date_of e existing),
        inv_vf := (inv_vf r)\<lparr>vf_hash := Some (cl_hash l), vf_previousHash := cl_previousHash l,
          vf_previousInvoiceId := cl_previousInvoiceId l, vf_chainSeq := Some (cl_chainSeq l),
          vf_recordTimestamp := Some (cl_recordTimestamp l), vf_qrCodeUrl := Some qr,
          vf_aeatStatus := Some Aeat_pending\<rparr>\<rparr>"

text \<open>Writing a row under the unique indexes.\<close>

definition write_invoice :: "id \<Rightarrow> (invoice_row \<Rightarrow> invoice_row) \<Rightarrow> db \<Rightarrow> (db \<times> invoice_row) result" where
  "write_invoice i f d =
     bindr (found (find_invoice d i) RecordNotFound) (\<lambda>r.
     if violates_unique (invoices d) (f r) then Inl UniqueViolation
     else Inr (update_invoice i f d, f r))"

definition rectification_before_issue :: "env \<Rightarrow> invoice_row \<Rightarrow> db \<Rightarrow> db result" where
  "rectification_before_issue e existing d =
     (case inv_rectifies existing of
        None \<Rightarrow> Inr d
      | Some orig \<Rightarrow>
          (let method = (case inv_correctionMethod existing of None \<Rightarrow> By_differences | Some m \<Rightarrow> m)
           in bindr (assertRectificationLimits d orig (Some (inv_id existing)) (inv_total existing) method)
                (\<lambda>_. Inr (if method = By_substitution
                          then d\<lparr>invoices := update_many
                                 (\<lambda>r. inv_id r = orig \<and> inv_status r \<in> {Issued, Overdue})
                                 (\<lambda>r. r\<lparr>inv_status := Rectified, inv_cancelledAt := Some (now e)\<rparr>)
                                 (invoices d)\<rparr>
                          else d))))"

definition compensate_original ::
  "env \<Rightarrow> invoice_row \<Rightarrow> bool \<Rightarrow> db \<Rightarrow> (db \<times> compensation option) result" where
  "compensate_original e existing differences_only d =
     (case inv_rectifies existing of
        None \<Rightarrow> Inr (d, None)
      | Some orig \<Rightarrow>
          (if inv_total existing < 0 \<and>
              (\<not> differences_only \<or>
               (case inv_correctionMethod existing of None \<Rightarrow> By_differences | Some m \<Rightarrow> m) = By_differences)
           then compensateWithCredit e d orig (- inv_total existing)
           else Inr (d, None)))"

definition issue_app ::
  "env \<Rightarrow> invoice_row \<Rightarrow> bool \<Rightarrow> db \<Rightarrow> (db \<times> compensation option) result" where
  "issue_app e existing settledZero d =
     (let issueDate = issue_date_of e existing; i = inv_id existing
      in bindr (reserveNextNumber d (inv_seriesId existing) (year_of issueDate)) (\<lambda>(d1, n, s).
         bindr (guard (\<not> (\<exists>l. last_issue_date d1 (inv_seriesId existing) = Some l \<and> issueDate < l))
                  (BadRequestException ''issue_date_before_last'')) (\<lambda>_.
         let number = formatInvoiceNumber s n issueDate;
             taxId = emitter_tax_id d1 (inv_ownerId existing)
         in bindr (assertIssuerFiscalData e d1 (inv_ownerId existing)) (\<lambda>_.
            bindr (real_mode_checks e d1 existing) (\<lambda>_.
            let link = computeChainedHash e d1 (inv_ownerId existing) (pending_tax_id taxId) number
                         issueDate (inv_type existing) (euros (inv_taxAmount existing))
                         (euros (inv_total existing));
                qr = buildQrDataUrl e taxId number issueDate (euros (inv_total existing))
            in bindr (write_invoice i
                       (issued_fields e existing settledZero (ten_invoiceDueDays (tenant d)) n number link qr)
                       d1) (\<lambda>(d2, r).
               compensate_original e existing True
                 (if settles existing settledZero then d2 else applyWithholding e d2 r)))))))"

definition holded_written ::
  "env \<Rightarrow> invoice_row \<Rightarrow> bool \<Rightarrow> int \<Rightarrow> string \<times> string \<Rightarrow> invoice_row \<Rightarrow> invoice_row" where
  "holded_written e existing settledZero dueDays doc r =
     (mark_settled e existing settledZero dueDays r)
       \<lparr>inv_number := snd doc, inv_issueDate := Some (issue_date_of e existing),
        inv_issuedBy := By_holded,
        inv_holded := \<lparr>hol_documentId = Some (fst doc), hol_syncState = None,
                       hol_syncStartedAt = None\<rparr>\<rparr>"

definition issue_holded ::
  "env \<Rightarrow> invoice_row \<Rightarrow> bool \<Rightarrow> string \<times> string \<Rightarrow> db \<Rightarrow> (db \<times> compensation option) result" where
  "issue_holded e existing settledZero doc d =
     bindr (write_invoice (inv_id existing)
              (holded_written e existing settledZero (ten_invoiceDueDays (tenant d)) doc) d) (\<lambda>(d1, r).
     compensate_original e existing False
       (if settles existing settledZero then d1 else applyWithholding e d1 r))"

definition issue_tx ::
  "env \<Rightarrow> invoice_row \<Rightarrow> bool \<Rightarrow> (string \<times> string) option \<Rightarrow> db
    \<Rightarrow> (db \<times> compensation option) result" where
  "issue_tx e existing settledZero fromHolded d =
     bindr (guard (map_option inv_status (find_invoice d (inv_id existing)) = Some Draft)
              (ConflictException ''invoice_already_issued'')) (\<lambda>_.
     bindr (rectification_before_issue e existing d) (\<lambda>d1.
     case fromHolded of
       Some doc \<Rightarrow> issue_holded e existing settledZero doc d1
     | None \<Rightarrow> issue_app e existing settledZero d1))"

section \<open>Issuing in Holded\<close>

definition set_holded :: "sync_state option \<Rightarrow> instant option \<Rightarrow> invoice_row \<Rightarrow> invoice_row" where
  "set_holded st t r =
     r\<lparr>inv_holded := (inv_holded r)\<lparr>hol_syncState := st, hol_syncStartedAt := t\<rparr>\<rparr>"

definition awaitHoldedCreditNote :: "invoice_row \<Rightarrow> db \<Rightarrow> db result" where
  "awaitHoldedCreditNote existing d =
     bindr (guard (inv_correctionMethod existing \<noteq> Some By_substitution)
              (BadRequestException ''holded_substitution_not_supported'')) (\<lambda>_.
     bindr (case inv_rectifies existing of
              None \<Rightarrow> Inr ()
            | Some orig \<Rightarrow> assertRectificationLimits d orig (Some (inv_id existing))
                             (inv_total existing) By_differences) (\<lambda>_.
     Inr (d\<lparr>invoices := update_many (\<lambda>r. inv_id r = inv_id existing \<and> inv_status r = Draft)
            (\<lambda>r. r\<lparr>inv_issuedBy := By_holded,
                   inv_holded := (inv_holded r)\<lparr>hol_syncState := Some Awaiting_holded\<rparr>\<rparr>)
            (invoices d)\<rparr>)))"

definition claim_holded :: "env \<Rightarrow> invoice_row \<Rightarrow> db \<Rightarrow> db result" where
  "claim_holded e existing d =
     bindr (found (find_invoice d (inv_id existing)) RecordNotFound) (\<lambda>fresh.
     bindr (guard (inv_status fresh = Draft) (ConflictException ''invoice_already_issued'')) (\<lambda>_.
     bindr (guard (hol_syncState (inv_holded fresh) \<noteq> Some Creating)
              (ConflictException ''invoice_issue_in_progress'')) (\<lambda>_.
     bindr (case inv_rectifies existing of
              None \<Rightarrow> Inr ()
            | Some orig \<Rightarrow> assertRectificationLimits d orig (Some (inv_id existing))
                             (inv_total existing) By_differences) (\<lambda>_.
     if hol_documentId (inv_holded fresh) \<noteq> None then Inr d
     else (let dt = (case inv_issueDate fresh of None \<Rightarrow> today e | Some x \<Rightarrow> x)
           in Inr (update_invoice (inv_id existing)
                     (\<lambda>r. (set_holded (Some Creating) (Some (now e)) r)
                          \<lparr>inv_issueDate := Some dt,
                           inv_dueDate := (if inv_dueDate existing \<noteq> None \<or> inv_total existing \<le> 0
                             then inv_dueDate r
                             else Some (computeDefaultDueDate dt (ten_invoiceDueDays (tenant d))))\<rparr>)
                     d))))))"

definition issueInHolded :: "env \<Rightarrow> invoice_row \<Rightarrow> db \<Rightarrow> db \<times> (string \<times> string) result" where
  "issueInHolded e existing d =
     (if inv_rectifies existing \<noteq> None \<and> inv_correctionMethod existing = Some By_substitution
      then (d, Inl (BadRequestException ''holded_substitution_not_supported''))
      else if \<not> holded_ready e then (d, Inl (BadRequestException ''holded_issuing_not_ready''))
      else (case claim_holded e existing d of
              Inl err \<Rightarrow> (d, Inl err)
            | Inr d1 \<Rightarrow> (d1, found (holded_issue e (inv_id existing))
                               (BadGatewayException ''holded_issue_failed''))))"

section \<open>The handler\<close>

definition after_issue :: "invoice_row \<Rightarrow> bool \<Rightarrow> bool \<Rightarrow> compensation option \<Rightarrow> db \<Rightarrow> db" where
  "after_issue existing settledZero holded cmp d =
     (let i = inv_id existing;
          d1 = (if settledZero \<and> map_option inv_status (find_invoice d i) = Some Paid
                then emit (Invoice_paid i) d else d);
          d2 = (case cmp of
                  Some c \<Rightarrow> if cmp_fullyPaid c then emit (Invoice_paid (cmp_id c)) d1 else d1
                | None \<Rightarrow> d1);
          d3 = (if holded then d2 else d2\<lparr>verifactu_queue := verifactu_queue d2 @ [i]\<rparr>);
          d4 = emit (Invoice_pdf_requested i) (emit (Invoice_issued i) (audit ''invoice.issued'' i d3))
      in case inv_rectifies existing of
           Some orig \<Rightarrow>
             (if inv_correctionMethod existing = Some By_substitution
              then emit (Invoice_voided orig) (emit (Invoice_cancelled orig) d4) else d4)
         | None \<Rightarrow> d4)"

definition issue_from ::
  "env \<Rightarrow> invoice_row \<Rightarrow> (string \<times> string) option \<Rightarrow> bool \<Rightarrow> db \<Rightarrow> db \<times> unit result" where
  "issue_from e existing holdedDocument settleZero d =
     (if inv_kind existing = Deposit_receipt
      then (d, Inl (BadRequestException ''invoice_already_issued''))
      else case assertTransition (inv_status existing) Issued of
        Inl err \<Rightarrow> (d, Inl err)
      | Inr _ \<Rightarrow>
          (case (if inv_ownerId existing \<noteq> None then (d, By_app) else current_mode e d) of (d0, mode) \<Rightarrow>
             if mode = By_holded \<and> inv_rectifies existing \<noteq> None \<and> holdedDocument = None
             then (case awaitHoldedCreditNote existing d0 of
                     Inl err \<Rightarrow> (d0, Inl err) | Inr d1 \<Rightarrow> (d1, Inr ()))
             else (case (if mode = By_holded
                         then (case holdedDocument of
                                 Some doc \<Rightarrow> (d0, Inr (Some doc))
                               | None \<Rightarrow> (case issueInHolded e existing d0 of
                                            (d1, Inl err) \<Rightarrow> (d1, Inl err)
                                          | (d1, Inr doc) \<Rightarrow> (d1, Inr (Some doc))))
                         else (d0, Inr None)) of
                     (d1, Inl err) \<Rightarrow> (d1, Inl err)
                   | (d1, Inr fromHolded) \<Rightarrow>
                       (let settledZero = (inv_total existing = 0 \<and> settleZero)
                        in case issue_tx e existing settledZero fromHolded d1 of
                             Inl err \<Rightarrow> (d1, Inl err)
                           | Inr (d2, cmp) \<Rightarrow>
                               (after_issue existing settledZero (fromHolded \<noteq> None) cmp d2, Inr ())))))"

definition issue ::
  "env \<Rightarrow> facility_scope \<Rightarrow> (string \<times> string) option \<Rightarrow> bool \<Rightarrow> id \<Rightarrow> db \<Rightarrow> db \<times> unit result" where
  "issue e scope holdedDocument settleZero i d =
     (case findOrThrow d scope i of
        Inl err \<Rightarrow> (d, Inl err)
      | Inr existing \<Rightarrow> issue_from e existing holdedDocument settleZero d)"

definition linkHoldedCreditNote ::
  "env \<Rightarrow> facility_scope \<Rightarrow> id \<Rightarrow> string \<Rightarrow> db \<Rightarrow> db \<times> unit result" where
  "linkHoldedCreditNote e scope i holdedDocumentId d =
     (case findOrThrow d scope i of
        Inl err \<Rightarrow> (d, Inl err)
      | Inr existing \<Rightarrow>
          (if inv_status existing \<noteq> Draft \<or> hol_syncState (inv_holded existing) \<noteq> Some Awaiting_holded
           then (d, Inl (ConflictException ''not_awaiting_holded''))
           else case holded_credit_number e holdedDocumentId of
                  None \<Rightarrow> (d, Inl (BadGatewayException ''holded_request_failed''))
                | Some None \<Rightarrow> (d, Inl (BadRequestException ''holded_document_not_issued''))
                | Some (Some number) \<Rightarrow> issue e scope (Some (holdedDocumentId, number)) True i d))"

end
