(* ===== verification/Books.thy ===== *)
theory Books imports Issue begin

text \<open>
  The invariant of the books and its preservation by drafting and issuing: the numbers of every
  series are gapless within the year, the records of every issuer form one chain, a draft has
  neither number nor record, and the default series are unique.
\<close>

section \<open>What the invariant looks at\<close>

text \<open>
  The numbering reads four columns (the date only of numbered rows), the chain three. An update
  that keeps them keeps the invariant.
\<close>

type_synonym number_view = "id \<times> id \<times> int \<times> date option"

definition number_view :: "invoice_row \<Rightarrow> number_view" where
  "number_view i =
     (inv_id i, inv_seriesId i, inv_sequence i, if 0 < inv_sequence i then inv_issueDate i else None)"

definition numbers_in :: "number_view list \<Rightarrow> id \<Rightarrow> (int \<times> int) multiset" where
  "numbers_in vs sid =
     mset (map (\<lambda>(_, _, n, dt). (year_of (the dt), n)) (filter (\<lambda>(_, s, n, _). s = sid \<and> 0 < n) vs))"

text \<open>A counter by year that has given no number yet stands at one.\<close>

definition counter_ok :: "series_row \<Rightarrow> bool" where
  "counter_ok s \<longleftrightarrow> (ser_yearScope s \<and> ser_numberingYear s = None \<longrightarrow> ser_nextNumber s = 1)"

text \<open>The numbers of a series with their dates; within the year later numbers have later dates.\<close>

definition dated :: "number_view list \<Rightarrow> id \<Rightarrow> (int \<times> date) set" where
  "dated vs sid = {(n, the dt) | i n dt. (i, sid, n, dt) \<in> set vs \<and> 0 < n}"

definition dates_ordered :: "series_row \<Rightarrow> (int \<times> date) set \<Rightarrow> bool" where
  "dates_ordered s D \<longleftrightarrow>
     (\<forall>(m, a)\<in>D. \<forall>(n, b)\<in>D. m < n \<and> (ser_yearScope s \<longrightarrow> year_of a = year_of b) \<longrightarrow> a \<le> b)"

definition numbering_ok :: "db \<Rightarrow> bool" where
  "numbering_ok d \<longleftrightarrow>
     (\<forall>s\<in>set (series d). numbering.gapless s (numbers_in (map number_view (invoices d)) (ser_id s))) \<and>
     (\<forall>i\<in>set (invoices d). 0 < inv_sequence i \<longrightarrow> inv_issueDate i \<noteq> None) \<and>
     (\<forall>s\<in>set (series d). counter_ok s) \<and>
     (\<forall>s\<in>set (series d). dates_ordered s (dated (map number_view (invoices d)) (ser_id s)))"

type_synonym chain_view = "id \<times> id option \<times> int option \<times> chain_link option"

definition chain_view :: "invoice_row \<Rightarrow> chain_view" where
  "chain_view i = (inv_id i, inv_ownerId i, chain_seq i, row_link i)"

definition records_of :: "chain_view list \<Rightarrow> id option \<Rightarrow> chained set" where
  "records_of vs owner = {(i, l). \<exists>n. (i, owner, n, Some l) \<in> set vs}"

definition chain_ok :: "db \<Rightarrow> bool" where
  "chain_ok d \<longleftrightarrow>
     (\<forall>owner. chain.linked (records_of (map chain_view (invoices d)) owner)) \<and>
     (\<forall>i\<in>set (invoices d). chain_seq i \<noteq> None \<longrightarrow> row_link i \<noteq> None)"

definition ids_ok :: "db \<Rightarrow> bool" where
  "ids_ok d \<longleftrightarrow>
     distinct (map inv_id (invoices d)) \<and> (\<forall>i\<in>set (invoices d). inv_id i < next_id d) \<and>
     fresh_series_ids d \<and> (\<forall>i\<in>set (invoices d). \<exists>s\<in>set (series d). ser_id s = inv_seriesId i)"

definition drafts_clean :: "db \<Rightarrow> bool" where
  "drafts_clean d \<longleftrightarrow>
     (\<forall>i\<in>set (invoices d). inv_status i = Draft \<longrightarrow> inv_sequence i = 0 \<and> chain_seq i = None)"

definition books_ok :: "db \<Rightarrow> bool" where
  "books_ok d \<longleftrightarrow>
     series_ok (series d) \<and> ids_ok d \<and> drafts_clean d \<and> numbering_ok d \<and> chain_ok d"

section \<open>Updates that keep the view\<close>

definition fixed_part ::
  "invoice_row \<Rightarrow> string \<times> invoice_kind \<times> invoice_type \<times> id option \<times> date option" where
  "fixed_part i = (inv_number i, inv_kind i, inv_type i, inv_rectifies i, inv_issueDate i)"

definition same_view :: "invoice_row \<Rightarrow> invoice_row \<Rightarrow> bool" where
  "same_view i j \<longleftrightarrow>
     (inv_status j \<noteq> Draft \<longrightarrow> fixed_part i = fixed_part j) \<and>
     number_view i = number_view j \<and> chain_view i = chain_view j \<and>
     (0 < inv_sequence i \<longrightarrow> inv_issueDate i = inv_issueDate j) \<and>
     (inv_status i = Draft \<longrightarrow> inv_status j = Draft)"

text \<open>The new state has the old rows, each with the same view, and the old series.\<close>

definition keeps_books :: "db \<Rightarrow> db \<Rightarrow> bool" where
  "keeps_books d d' \<longleftrightarrow>
     list_all2 same_view (invoices d') (invoices d) \<and> series d' = series d \<and> next_id d \<le> next_id d'"

lemma same_view_refl [simp]: "same_view i i"
  by (simp add: same_view_def)

lemma same_view_trans: "same_view i j \<Longrightarrow> same_view j k \<Longrightarrow> same_view i k"
  by (auto simp: same_view_def number_view_def)

lemma keeps_books_refl [simp]: "keeps_books d d"
  by (simp add: keeps_books_def list.rel_refl)

lemma keeps_books_trans: "keeps_books a b \<Longrightarrow> keeps_books b c \<Longrightarrow> keeps_books a c"
  unfolding keeps_books_def
  by (auto intro: list_all2_trans [OF same_view_trans])

lemma keeps_booksI:
  assumes "invoices d' = update_many p f (invoices d)" and "series d' = series d"
    and "next_id d \<le> next_id d'" and "\<And>i. i \<in> set (invoices d) \<Longrightarrow> p i \<Longrightarrow> same_view (f i) i"
  shows "keeps_books d d'"
  using assms unfolding keeps_books_def
  by (auto simp: update_many_def list_all2_conv_all_nth)

lemma keeps_books_map:
  assumes "keeps_books d d'"
  shows "map number_view (invoices d') = map number_view (invoices d)"
    and "map chain_view (invoices d') = map chain_view (invoices d)"
  using assms unfolding keeps_books_def same_view_def
  by (auto simp: list_all2_conv_all_nth intro!: nth_equalityI)

lemma keeps_books_row:
  assumes "keeps_books d d'" and "i \<in> set (invoices d')"
  obtains j where "j \<in> set (invoices d)" and "same_view i j"
  using assms unfolding keeps_books_def
  by (metis list_all2_conv_all_nth in_set_conv_nth)

lemma map_inv_id_number_view:
  "map number_view xs = map number_view ys \<Longrightarrow> map inv_id xs = map inv_id ys"
  using map_map [of fst number_view] by (metis (no_types, lifting) comp_apply fst_conv list.map_cong0
      number_view_def)

lemma keeps_books_ok:
  assumes ok: "books_ok d" and k: "keeps_books d d'"
  shows "books_ok d'"
proof -
  note views = keeps_books_map [OF k]
  have s: "series d' = series d" "next_id d \<le> next_id d'" using k by (simp_all add: keeps_books_def)
  have ids: "map inv_id (invoices d') = map inv_id (invoices d)"
    by (rule map_inv_id_number_view [OF views(1)])
  have row: "(inv_id i < next_id d') \<and> (\<exists>s\<in>set (series d'). ser_id s = inv_seriesId i) \<and>
      (inv_status i = Draft \<longrightarrow> inv_sequence i = 0 \<and> chain_seq i = None) \<and>
      (0 < inv_sequence i \<longrightarrow> inv_issueDate i \<noteq> None) \<and>
      (chain_seq i \<noteq> None \<longrightarrow> row_link i \<noteq> None)" if "i \<in> set (invoices d')" for i
  proof -
    obtain j where j: "j \<in> set (invoices d)" and v: "same_view i j"
      using k \<open>i \<in> set (invoices d')\<close> by (rule keeps_books_row)
    have "inv_id j < next_id d" "\<exists>s\<in>set (series d). ser_id s = inv_seriesId j"
      "inv_status j = Draft \<longrightarrow> inv_sequence j = 0 \<and> chain_seq j = None"
      "0 < inv_sequence j \<longrightarrow> inv_issueDate j \<noteq> None"
      "chain_seq j \<noteq> None \<longrightarrow> row_link j \<noteq> None"
      using ok j unfolding books_ok_def ids_ok_def drafts_clean_def numbering_ok_def chain_ok_def
      by blast+
    then show ?thesis using v s by (auto simp: same_view_def number_view_def chain_view_def)
  qed
  have "ids_ok d'"
    using ok row unfolding books_ok_def ids_ok_def fresh_series_ids_def ids s(1)
    using s(2) by (meson less_le_trans)
  moreover have "drafts_clean d'" using row unfolding drafts_clean_def by blast
  moreover have "numbering_ok d'"
    using ok row unfolding books_ok_def numbering_ok_def views s(1) by blast
  moreover have "chain_ok d'" using ok row unfolding books_ok_def chain_ok_def views by blast
  ultimately show ?thesis using ok unfolding books_ok_def s(1) by blast
qed

section \<open>Issued invoices stay\<close>

text \<open>
  What never changes once an invoice is no longer a draft: its number, series, issue date, kind,
  type, the invoice it rectifies and its record in the chain.
\<close>

definition extends_books :: "db \<Rightarrow> db \<Rightarrow> bool" where
  "extends_books d d' \<longleftrightarrow>
     (\<forall>i\<in>set (invoices d). inv_status i \<noteq> Draft \<longrightarrow>
        (\<exists>j\<in>set (invoices d'). inv_status j \<noteq> Draft \<and> number_view j = number_view i \<and>
           chain_view j = chain_view i \<and> fixed_part j = fixed_part i))"

lemma extends_books_refl [simp]: "extends_books d d"
  by (auto simp: extends_books_def)

lemma extends_books_trans:
  assumes "extends_books a b" and "extends_books b c"
  shows "extends_books a c"
  unfolding extends_books_def
proof (intro ballI impI)
  fix i assume "i \<in> set (invoices a)" and "inv_status i \<noteq> Draft"
  then obtain j where "j \<in> set (invoices b)" "inv_status j \<noteq> Draft" and
    j: "number_view j = number_view i" "chain_view j = chain_view i" "fixed_part j = fixed_part i"
    using assms(1) unfolding extends_books_def by blast
  then obtain k where "k \<in> set (invoices c)" "inv_status k \<noteq> Draft" "number_view k = number_view j"
    "chain_view k = chain_view j" "fixed_part k = fixed_part j"
    using assms(2) unfolding extends_books_def by blast
  then show "\<exists>k\<in>set (invoices c). inv_status k \<noteq> Draft \<and> number_view k = number_view i \<and>
      chain_view k = chain_view i \<and> fixed_part k = fixed_part i"
    using j by auto
qed

lemma keeps_extends:
  assumes "keeps_books d d'"
  shows "extends_books d d'"
  unfolding extends_books_def
proof (intro ballI impI)
  fix i assume "i \<in> set (invoices d)" and i: "inv_status i \<noteq> Draft"
  then obtain j where j: "j \<in> set (invoices d')" and v: "same_view j i"
    using assms unfolding keeps_books_def by (metis in_set_conv_nth list_all2_conv_all_nth)
  show "\<exists>j\<in>set (invoices d'). inv_status j \<noteq> Draft \<and> number_view j = number_view i \<and>
      chain_view j = chain_view i \<and> fixed_part j = fixed_part i"
    by (rule bexI [OF _ j]) (use v i in \<open>auto simp: same_view_def\<close>)
qed

lemma extends_incl: "set (invoices d) \<subseteq> set (invoices d') \<Longrightarrow> extends_books d d'"
  unfolding extends_books_def by blast

text \<open>A step keeps the books and the issued invoices.\<close>

definition grows :: "db \<Rightarrow> db \<Rightarrow> bool" where
  "grows d d' \<longleftrightarrow> (books_ok d \<longrightarrow> books_ok d' \<and> extends_books d d')"

lemma grows_refl [simp]: "grows d d"
  by (simp add: grows_def)

lemma grows_trans [trans]: "grows a b \<Longrightarrow> grows b c \<Longrightarrow> grows a c"
  using extends_books_trans by (auto simp: grows_def)

lemma keeps_grows: "keeps_books d d' \<Longrightarrow> grows d d'"
  using keeps_books_ok keeps_extends by (auto simp: grows_def)

section \<open>Numbering and chaining one invoice\<close>

lemma numbers_in_append:
  "numbers_in (xs @ v # ys) sid =
     (case v of (_, s, n, dt) \<Rightarrow> if s = sid \<and> 0 < n then {#(year_of (the dt), n)#} else {#})
     + numbers_in (xs @ ys) sid"
  by (cases v) (simp add: numbers_in_def)

lemma records_of_append:
  "records_of (xs @ v # ys) ow =
     (case v of (i, o1, n, l) \<Rightarrow> if o1 = ow \<and> l \<noteq> None then {(i, the l)} else {})
     \<union> records_of (xs @ ys) ow"
  by (cases v) (auto simp: records_of_def)

lemma foldr_max_ge: "x \<in> set xs \<or> x = a \<Longrightarrow> (x :: int) \<le> foldr max xs a"
  by (induction xs) auto

lemma last_issue_date_ge:
  assumes "\<not> (\<exists>l. last_issue_date d sid = Some l \<and> dt < l)"
    and "i \<in> set (invoices d)" and "inv_seriesId i = sid" and "0 < inv_sequence i"
    and "inv_issueDate i = Some x"
  shows "x \<le> dt"
proof -
  define ds where "ds = map (the \<circ> inv_issueDate)
    (filter (\<lambda>i. inv_seriesId i = sid \<and> 0 < inv_sequence i \<and> inv_issueDate i \<noteq> None) (invoices d))"
  have x: "x \<in> set ds" using assms(2-5) by (force simp: ds_def)
  then have "ds \<noteq> []" by auto
  then have "last_issue_date d sid = Some (foldr max ds (hd ds))"
    unfolding last_issue_date_def Let_def ds_def [symmetric] by simp
  then have "foldr max ds (hd ds) \<le> dt" using assms(1) by auto
  then show ?thesis using foldr_max_ge [of x ds "hd ds"] x by simp
qed

lemma dated_append:
  "dated (xs @ v # ys) sid =
     (case v of (_, s, n, dt) \<Rightarrow> if s = sid \<and> 0 < n then {(n, the dt)} else {}) \<union> dated (xs @ ys) sid"
  by (cases v) (auto simp: dated_def)

lemma dated_in_numbers: "(n, a) \<in> dated vs sid \<Longrightarrow> (year_of a, n) \<in># numbers_in vs sid"
  by (force simp: dated_def numbers_in_def)

lemma dates_ordered_insert:
  assumes "dates_ordered s D" and "\<forall>(m, a)\<in>D. a \<le> dt"
    and "\<forall>(m, a)\<in>D. (ser_yearScope s \<longrightarrow> year_of a = year_of dt) \<longrightarrow> m < n"
  shows "dates_ordered s (insert (n, dt) D)"
  using assms unfolding dates_ordered_def by (auto split: prod.splits) fastforce+

lemma numbers_in_years:
  assumes "numbering_ok d" and "\<not> (\<exists>l. last_issue_date d sid = Some l \<and> dt < l)"
    and "p \<in># numbers_in (map number_view (invoices d)) sid"
  shows "fst p \<le> year_of dt"
proof -
  obtain i where i: "i \<in> set (invoices d)" "inv_seriesId i = sid" "0 < inv_sequence i"
    and p: "fst p = year_of (the (inv_issueDate i))"
    using assms(3) by (auto simp: numbers_in_def number_view_def)
  obtain x where x: "inv_issueDate i = Some x" using assms(1) i unfolding numbering_ok_def by blast
  then have "x \<le> dt" using last_issue_date_ge [OF assms(2) i] by simp
  then show ?thesis using p x year_of_mono by simp
qed

lemma dated_le:
  assumes "numbering_ok d" and "\<not> (\<exists>l. last_issue_date d sid = Some l \<and> dt < l)"
    and "(n, a) \<in> dated (map number_view (invoices d)) sid"
  shows "a \<le> dt"
proof -
  obtain i where i: "i \<in> set (invoices d)" "inv_seriesId i = sid" "0 < inv_sequence i"
    and a: "a = the (inv_issueDate i)"
    using assms(3) by (auto simp: dated_def number_view_def split: if_splits)
  obtain x where "inv_issueDate i = Some x" using assms(1) i unfolding numbering_ok_def by blast
  then show ?thesis using last_issue_date_ge [OF assms(2) i] a by simp
qed

lemma numbers_before:
  assumes "consecutive (numbering.numbers_of s y L) k" and "(x, n) \<in># L" and "ser_yearScope s \<longrightarrow> x = y"
  shows "n < k"
proof -
  have "n \<in># numbering.numbers_of s y L" using assms(2,3) by (force simp: numbering.numbers_of_def)
  then have "n \<in># mset [1..k - 1]" using assms(1) by (simp add: consecutive_def)
  then show ?thesis by simp
qed

lemma last_by_chain_None: "last_by_chain xs = None \<longleftrightarrow> xs = []"
  by (cases xs) (auto split: option.splits)

lemma last_by_chain_Some:
  assumes "last_by_chain xs = Some p"
  shows "p \<in> set xs \<and> (\<forall>r\<in>set xs. the (chain_seq r) \<le> the (chain_seq p))"
  using assms
proof (induction xs arbitrary: p)
  case Nil
  then show ?case by simp
next
  case (Cons x xs)
  show ?case
  proof (cases "last_by_chain xs")
    case None
    then show ?thesis using Cons by (auto simp: last_by_chain_None)
  next
    case (Some q)
    then show ?thesis using Cons.IH [OF Some] Cons.prems by (auto split: if_splits)
  qed
qed

definition chained_of :: "invoice_row \<Rightarrow> chained" where
  "chained_of i = (inv_id i, the (row_link i))"

lemma row_link_fields:
  "row_link i = Some l \<Longrightarrow> chain_seq i = Some (cl_chainSeq l) \<and> vf_hash (inv_vf i) = Some (cl_hash l)"
  by (auto simp: row_link_def split: option.splits)

lemma link_after_chained:
  "row_link p = Some l \<Longrightarrow>
   link_after e (Some (row_of_chained (inv_id p, l))) = link_after e (Some p)"
  using row_link_fields [of p l]
  by (auto simp: link_after_def row_of_chained_def chain_seq_def default_invoice_def fun_eq_iff Let_def)

lemma records_of_rows:
  assumes "chain_ok d"
  shows "records_of (map chain_view (invoices d)) ow = chained_of ` set (chain_of d ow)"
    and "i \<in> set (chain_of d ow) \<Longrightarrow> row_link i \<noteq> None"
proof -
  show link: "row_link i \<noteq> None" if "i \<in> set (chain_of d ow)" for i
    using assms that by (auto simp: chain_ok_def chain_of_def)
  show "records_of (map chain_view (invoices d)) ow = chained_of ` set (chain_of d ow)"
  proof (intro equalityI subsetI)
    fix c assume "c \<in> records_of (map chain_view (invoices d)) ow"
    then obtain i where i: "i \<in> set (invoices d)" "inv_ownerId i = ow" "row_link i = Some (snd c)"
      "inv_id i = fst c"
      by (auto simp: records_of_def chain_view_def)
    then have "i \<in> set (chain_of d ow)" using row_link_fields [OF i(3)] by (simp add: chain_of_def)
    moreover have "chained_of i = c" using i by (simp add: chained_of_def)
    ultimately show "c \<in> chained_of ` set (chain_of d ow)" by blast
  next
    fix c assume "c \<in> chained_of ` set (chain_of d ow)"
    then obtain i where "i \<in> set (chain_of d ow)" "c = chained_of i" by auto
    then show "c \<in> records_of (map chain_view (invoices d)) ow"
      using link [of i] by (force simp: records_of_def chain_view_def chained_of_def chain_of_def)
  qed
qed

text \<open>The record of the program is the successor of the last one of the chain.\<close>

lemma computeChainedHash_follow:
  assumes ok: "chain_ok d"
  shows "\<exists>l. chain.is_last (records_of (map chain_view (invoices d)) ow) l \<and>
    (i, computeChainedHash e d ow taxId number dt ty tax imp) =
    follow_link l (i, e, taxId, number, dt, ty, tax, imp)"
proof (cases "last_by_chain (chain_of d ow)")
  case None
  then have "records_of (map chain_view (invoices d)) ow = {}"
    by (simp add: records_of_rows(1) [OF ok] last_by_chain_None)
  then show ?thesis using None
    by (intro exI [of _ None]) (simp add: chain.is_last_def computeChainedHash_def follow_link_def)
next
  case (Some p)
  have p: "p \<in> set (chain_of d ow)" "\<forall>r\<in>set (chain_of d ow). the (chain_seq r) \<le> the (chain_seq p)"
    using last_by_chain_Some [OF Some] by simp_all
  obtain l where l: "row_link p = Some l" using records_of_rows(2) [OF ok p(1)] by blast
  have seq: "cl_chainSeq (the (row_link r)) = the (chain_seq r)" if "r \<in> set (chain_of d ow)" for r
    using records_of_rows(2) [OF ok that] row_link_fields [of r] by auto
  have "chain.is_last (records_of (map chain_view (invoices d)) ow) (Some (inv_id p, l))"
    unfolding records_of_rows(1) [OF ok] chain.is_last_def
    using p seq l by (auto simp: chained_of_def intro!: image_eqI [of _ _ p]) (metis option.sel)
  moreover have "(i, computeChainedHash e d ow taxId number dt ty tax imp) =
      follow_link (Some (inv_id p, l)) (i, e, taxId, number, dt, ty, tax, imp)"
    using link_after_chained [OF l, of e] Some by (simp add: computeChainedHash_def follow_link_def)
  ultimately show ?thesis by blast
qed

lemma number_and_chain:
  assumes ok: "books_ok d" and r: "r \<in> set (invoices d)" "inv_status r = Draft"
    and s: "s \<in> set (series d)" "ser_id s = inv_seriesId r"
    and late: "\<not> (\<exists>l. last_issue_date d (inv_seriesId r) = Some l \<and> dt < l)"
    and f: "inv_id (f r) = inv_id r" "inv_seriesId (f r) = inv_seriesId r"
      "inv_ownerId (f r) = inv_ownerId r" "inv_status (f r) \<noteq> Draft"
      "inv_sequence (f r) = shown_number (year_of dt) s" "inv_issueDate (f r) = Some dt"
      "row_link (f r) = Some l" "chain_seq (f r) \<noteq> None"
    and l: "l = computeChainedHash e d (inv_ownerId r) taxId number dt2 ty tax imp"
    and inv': "invoices d' = update_many (\<lambda>i. inv_id i = inv_id r) f (invoices d)"
    and ser': "series d' = update_many (\<lambda>t. ser_id t = ser_id s) (take_number (year_of dt)) (series d)"
    and sok: "series_ok (series d')" and nx: "next_id d' = next_id d"
  shows "books_ok d'"
proof -
  have oks: "ids_ok d" "drafts_clean d" "numbering_ok d" "chain_ok d" "series_ok (series d)"
    using ok by (simp_all add: books_ok_def)
  have clean: "inv_sequence r = 0" "chain_seq r = None"
    using oks(2) r by (simp_all add: drafts_clean_def)
  have no_link: "row_link r = None" using clean(2) by (simp add: row_link_def)
  obtain xs ys where rows: "invoices d = xs @ r # ys" and rows': "invoices d' = xs @ f r # ys"
    using update_many_split [of inv_id "invoices d" r f] oks(1) r(1) unfolding inv' ids_ok_def by metis
  have shown: "1 \<le> shown_number (year_of dt) s"
  proof -
    have "numbering.gapless s (numbers_in (map number_view (invoices d)) (inv_seriesId r))"
      using oks(3) s unfolding numbering_ok_def by metis
    then have "consecutive (numbering.numbers_of s (year_of dt)
        (numbers_in (map number_view (invoices d)) (inv_seriesId r))) (shown_number (year_of dt) s)"
      using numbers_in_years [OF oks(3) late] unfolding numbering.gapless_def by blast
    then show ?thesis by (simp add: consecutive_def)
  qed
  have nums: "numbers_in (map number_view (invoices d')) sid =
      (if sid = inv_seriesId r
       then add_mset (year_of dt, shown_number (year_of dt) s) (numbers_in (map number_view (invoices d)) sid)
       else numbers_in (map number_view (invoices d)) sid)" for sid
    using f clean shown by (simp add: rows rows' numbers_in_append number_view_def)
  have dts: "dated (map number_view (invoices d')) sid =
      (if sid = inv_seriesId r
       then insert (shown_number (year_of dt) s, dt) (dated (map number_view (invoices d)) sid)
       else dated (map number_view (invoices d)) sid)" for sid
    using f clean shown by (simp add: rows rows' dated_append number_view_def)
  have recs: "records_of (map chain_view (invoices d')) ow =
      (if ow = inv_ownerId r
       then insert (inv_id r, l) (records_of (map chain_view (invoices d)) ow)
       else records_of (map chain_view (invoices d)) ow)" for ow
    using f no_link by (auto simp: rows rows' records_of_append chain_view_def)
  have "numbering_ok d'"
    unfolding numbering_ok_def
  proof (intro conjI ballI impI)
    fix t assume "t \<in> set (series d')"
    then obtain t0 where t0: "t0 \<in> set (series d)"
      and t: "t = (if ser_id t0 = ser_id s then take_number (year_of dt) t0 else t0)"
      unfolding ser' by (rule in_update_manyE)
    have g: "numbering.gapless t0 (numbers_in (map number_view (invoices d)) (ser_id t0))"
      using oks(3) t0 unfolding numbering_ok_def by blast
    show "numbering.gapless t (numbers_in (map number_view (invoices d')) (ser_id t))"
    proof (cases "ser_id t0 = ser_id s")
      case True
      then have "t0 = s" using oks(5) t0 s(1) by (auto simp: series_ok_def distinct_map inj_on_def)
      moreover have "numbering.gapless (take_number (year_of dt) s)
          (add_mset (year_of dt, shown_number (year_of dt) s)
             (numbers_in (map number_view (invoices d)) (inv_seriesId r)))"
        using numbering.gapless_take g numbers_in_years [OF oks(3) late] s(2) \<open>t0 = s\<close> by metis
      ultimately show ?thesis using t True s(2) by (simp add: nums take_number_def)
    next
      case False
      then show ?thesis using t g s(2) by (simp add: nums)
    qed
  next
    fix i assume "i \<in> set (invoices d')" and "0 < inv_sequence i"
    then show "inv_issueDate i \<noteq> None"
      using oks(3) f(6) unfolding rows rows' numbering_ok_def by auto
  next
    fix t assume "t \<in> set (series d')"
    then show "counter_ok t"
      using oks(3) unfolding ser' numbering_ok_def
      by (auto elim!: in_update_manyE simp: counter_ok_def take_number_def)
  next
    fix t assume "t \<in> set (series d')"
    then obtain t0 where t0: "t0 \<in> set (series d)"
      and t: "t = (if ser_id t0 = ser_id s then take_number (year_of dt) t0 else t0)"
      unfolding ser' by (rule in_update_manyE)
    have keys: "ser_id t = ser_id t0" "ser_yearScope t = ser_yearScope t0"
      by (simp_all add: t take_number_def)
    have old: "dates_ordered t0 (dated (map number_view (invoices d)) (ser_id t0))"
      using oks(3) t0 unfolding numbering_ok_def by blast
    have "dates_ordered t0 (dated (map number_view (invoices d')) (ser_id t0))"
    proof (cases "ser_id t0 = inv_seriesId r")
      case True
      then have "t0 = s" using oks(5) t0 s by (auto simp: series_ok_def distinct_map inj_on_def)
      have "numbering.gapless s (numbers_in (map number_view (invoices d)) (ser_id s))"
        using oks(3) s(1) unfolding numbering_ok_def by blast
      then have "consecutive (numbering.numbers_of s (year_of dt)
          (numbers_in (map number_view (invoices d)) (inv_seriesId r))) (shown_number (year_of dt) s)"
        using numbers_in_years [OF oks(3) late] s(2) unfolding numbering.gapless_def by metis
      then have before: "n < shown_number (year_of dt) s"
        if "(n, a) \<in> dated (map number_view (invoices d)) (inv_seriesId r)"
          "ser_yearScope s \<longrightarrow> year_of a = year_of dt" for n a
        using numbers_before [OF _ dated_in_numbers] that by blast
      have "a \<le> dt" if "(n, a) \<in> dated (map number_view (invoices d)) (inv_seriesId r)" for n a
        using that dated_le [OF oks(3) late] by blast
      then show ?thesis
        unfolding dts True using old before \<open>t0 = s\<close> True by (auto intro!: dates_ordered_insert)
    next
      case False
      then show ?thesis using old by (simp add: dts)
    qed
    then show "dates_ordered t (dated (map number_view (invoices d')) (ser_id t))"
      by (simp add: dates_ordered_def keys)
  qed
  moreover have "chain_ok d'"
    unfolding chain_ok_def
  proof (intro conjI allI ballI impI)
    fix ow
    have lk: "chain.linked (records_of (map chain_view (invoices d)) o2)" for o2
      using oks(4) by (simp add: chain_ok_def)
    show "chain.linked (records_of (map chain_view (invoices d')) ow)"
    proof (cases "ow = inv_ownerId r")
      case True
      obtain l0 where "chain.is_last (records_of (map chain_view (invoices d)) (inv_ownerId r)) l0"
        and "(inv_id r, l) = follow_link l0 (inv_id r, e, taxId, number, dt2, ty, tax, imp)"
        using computeChainedHash_follow [OF oks(4)] unfolding l by metis
      then show ?thesis using chain.linked_follow [OF lk] True by (simp add: recs)
    next
      case False
      then show ?thesis using lk by (simp add: recs)
    qed
  next
    fix i assume "i \<in> set (invoices d')" and "chain_seq i \<noteq> None"
    then show "row_link i \<noteq> None"
      using oks(4) f(7) unfolding rows rows' chain_ok_def by auto
  qed
  moreover have "ids_ok d'"
  proof -
    have "map ser_id (series d') = map ser_id (series d)"
      unfolding ser' by (rule map_update_many_inv) (simp add: take_number_def)
    then have sids: "ser_id ` set (series d') = ser_id ` set (series d)" by (metis list.set_map)
    have old: "\<exists>j\<in>set (invoices d). inv_id i = inv_id j \<and> inv_seriesId i = inv_seriesId j"
      if "i \<in> set (invoices d')" for i
      using that f(1,2) unfolding rows rows' by auto
    show ?thesis
      unfolding ids_ok_def fresh_series_ids_def nx
    proof (intro conjI ballI)
      show "distinct (map inv_id (invoices d'))"
        using oks(1) f(1) unfolding ids_ok_def rows rows' by simp
    next
      fix i assume "i \<in> set (invoices d')"
      then obtain j where j: "j \<in> set (invoices d)" "inv_id i = inv_id j" "inv_seriesId i = inv_seriesId j"
        using old by blast
      then show "inv_id i < next_id d" using oks(1) by (simp add: ids_ok_def)
      have "inv_seriesId i \<in> ser_id ` set (series d)" using oks(1) j unfolding ids_ok_def by force
      then show "\<exists>t\<in>set (series d'). ser_id t = inv_seriesId i"
        using sids by (metis imageE)
    next
      fix t assume "t \<in> set (series d')"
      then have "ser_id t \<in> ser_id ` set (series d)" using sids by blast
      then show "ser_id t < next_id d"
        using oks(1) by (auto simp: ids_ok_def fresh_series_ids_def)
    qed
  qed
  moreover have "drafts_clean d'"
    using oks(2) f(4) unfolding drafts_clean_def rows rows' by auto
  ultimately show ?thesis using sok by (simp add: books_ok_def)
qed

section \<open>Issuing keeps the books\<close>

lemma keeps_books_create_payment [simp]: "keeps_books d (create_payment p d)"
  by (simp add: keeps_books_def list.rel_refl)

lemma keeps_books_update_invoice:
  "(\<And>i. same_view (f i) i) \<Longrightarrow> keeps_books d (update_invoice k f d)"
  by (rule keeps_booksI [where p = "\<lambda>r. inv_id r = k" and f = f]) simp_all

lemma same_viewI:
  assumes "inv_vf i = inv_vf j" and "inv_id i = inv_id j" and "inv_seriesId i = inv_seriesId j"
    and "inv_ownerId i = inv_ownerId j" and "inv_sequence i = inv_sequence j"
    and "0 < inv_sequence j \<Longrightarrow> inv_issueDate i = inv_issueDate j"
    and "inv_status i = Draft \<Longrightarrow> inv_status j = Draft"
    and "inv_status j \<noteq> Draft \<Longrightarrow> inv_number i = inv_number j \<and> inv_kind i = inv_kind j \<and>
      inv_type i = inv_type j \<and> inv_rectifies i = inv_rectifies j \<and> inv_issueDate i = inv_issueDate j"
  shows "same_view i j"
proof -
  have "chain_seq i = chain_seq j" "row_link i = row_link j"
    using assms(1) unfolding row_link_def chain_seq_def by (simp_all only:)
  then show ?thesis using assms by (simp add: same_view_def number_view_def chain_view_def fixed_part_def)
qed

text \<open>Columns that neither view reads.\<close>

lemma same_view_money:
  "same_view (i\<lparr>inv_amountPaid := a\<rparr>) i" "same_view (i\<lparr>inv_amountRefunded := a\<rparr>) i"
  "same_view (i\<lparr>inv_paidAt := t\<rparr>) i" "same_view (i\<lparr>inv_cancelledAt := t\<rparr>) i"
  "same_view (i\<lparr>inv_dueDate := dd\<rparr>) i" "same_view (i\<lparr>inv_notes := n\<rparr>) i"
  "same_view (i\<lparr>inv_withholdingPct := pct\<rparr>) i" "same_view (i\<lparr>inv_withholding := a\<rparr>) i"
  "same_view (i\<lparr>inv_benefits := b\<rparr>) i" "same_view (i\<lparr>inv_holded := h\<rparr>) i"
  "same_view (i\<lparr>inv_issuedBy := ib\<rparr>) i" "same_view (i\<lparr>inv_total := a\<rparr>) i"
  "same_view (i\<lparr>inv_subtotal := a\<rparr>) i" "same_view (i\<lparr>inv_taxAmount := a\<rparr>) i"
  by (rule same_viewI; simp)+

lemma same_view_status:
  "(st = Draft \<longrightarrow> inv_status i = Draft) \<Longrightarrow> same_view (i\<lparr>inv_status := st\<rparr>) i"
  by (rule same_viewI; simp)

lemma applyWithholding_keeps: "keeps_books d (applyWithholding e d r)"
proof -
  have "keeps_books d (update_invoice k (\<lambda>i. i\<lparr>inv_withholdingPct := a, inv_withholding := b,
      inv_amountPaid := inv_amountPaid i + c\<rparr>) (create_payment p d))" for k a b c p
    by (rule keeps_books_trans [OF keeps_books_create_payment keeps_books_update_invoice])
      (rule same_viewI; simp)
  then show ?thesis by (simp add: applyWithholding_def Let_def)
qed

lemma compensateWithCredit_keeps:
  assumes "compensateWithCredit e d i c = Inr (d', cmp)"
  shows "keeps_books d d'"
proof -
  have "keeps_books d (update_invoice k (\<lambda>r. r\<lparr>inv_amountPaid := a,
      inv_status := (if b then Paid else inv_status r),
      inv_paidAt := (if b then Some t else inv_paidAt r)\<rparr>) (create_payment p d))" for k a b t p
    by (rule keeps_books_trans [OF keeps_books_create_payment keeps_books_update_invoice])
      (rule same_viewI; simp split: if_splits)
  then show ?thesis
    using assms by (auto simp: compensateWithCredit_def Let_def elim!: bindrE split: if_splits)
qed

lemma compensate_original_keeps:
  "compensate_original e ex b d = Inr (d', cmp) \<Longrightarrow> keeps_books d d'"
  by (auto simp: compensate_original_def dest: compensateWithCredit_keeps
      split: option.splits if_splits)

lemma rectification_before_issue_keeps:
  assumes "rectification_before_issue e ex d = Inr d'"
  shows "keeps_books d d'"
proof -
  have "keeps_books d (d\<lparr>invoices := update_many
      (\<lambda>r. inv_id r = orig \<and> inv_status r \<in> {Issued, Overdue})
      (\<lambda>r. r\<lparr>inv_status := Rectified, inv_cancelledAt := Some t\<rparr>) (invoices d)\<rparr>)" for orig t
    by (rule keeps_booksI [where p = "\<lambda>r. inv_id r = orig \<and> inv_status r \<in> {Issued, Overdue}" and
          f = "\<lambda>r. r\<lparr>inv_status := Rectified, inv_cancelledAt := Some t\<rparr>"])
      (simp_all, rule same_viewI, simp_all)
  then show ?thesis
    using assms by (auto simp: rectification_before_issue_def Let_def elim!: bindrE split: option.splits if_splits)
qed

text \<open>A row read before, whose series and issuer are still those of the table.\<close>

definition current_snapshot :: "invoice_row \<Rightarrow> db \<Rightarrow> bool" where
  "current_snapshot ex d \<longleftrightarrow>
     (\<exists>r\<in>set (invoices d). inv_id r = inv_id ex \<and> inv_seriesId r = inv_seriesId ex \<and>
        inv_ownerId r = inv_ownerId ex)"

lemma mark_settled_view:
  "inv_id (mark_settled e ex z n r) = inv_id r" "inv_seriesId (mark_settled e ex z n r) = inv_seriesId r"
  "inv_ownerId (mark_settled e ex z n r) = inv_ownerId r"
  "inv_status (mark_settled e ex z n r) \<noteq> Draft"
  "inv_sequence (mark_settled e ex z n r) = inv_sequence r"
  "inv_vf (mark_settled e ex z n r) = inv_vf r"
  by (simp_all add: mark_settled_def)

lemma write_invoice_Inr:
  assumes "write_invoice i f d = Inr (d', r')"
  obtains r where "r \<in> set (invoices d)" and "inv_id r = i" and "r' = f r"
    and "d' = update_invoice i f d" and "\<not> violates_unique (invoices d) (f r)"
proof -
  obtain r where r: "find_invoice d i = Some r"
    and "r' = f r" "d' = update_invoice i f d" "\<not> violates_unique (invoices d) (f r)"
    using assms by (auto simp: write_invoice_def elim!: bindrE split: if_splits)
  then show thesis using that find_invoice_SomeD [OF r] by blast
qed

lemma emitter_tax_id_update_series [simp]:
  "emitter_tax_id (update_series i h d) ow = emitter_tax_id d ow"
  by (simp add: emitter_tax_id_def find_owner_def split: option.split)

text \<open>What a successful \<open>issue_app\<close> has read and written.\<close>

lemma issue_app_Inr:
  assumes run: "issue_app e ex z d = Inr (d', cmp)"
  obtains t r qr link d1 d2
  where "find_series d (inv_seriesId ex) = Some t" and "ser_isActive t"
    and "r \<in> set (invoices d)" and "inv_id r = inv_id ex"
    and "\<not> (\<exists>l. last_issue_date d (inv_seriesId ex) = Some l \<and> issue_date_of e ex < l)"
    and "d1 = update_series (inv_seriesId ex) (take_number (year_of (issue_date_of e ex))) d"
    and "link = computeChainedHash e d (inv_ownerId ex) (pending_tax_id (emitter_tax_id d (inv_ownerId ex)))
           (formatInvoiceNumber (take_number (year_of (issue_date_of e ex)) t)
              (shown_number (year_of (issue_date_of e ex)) t) (issue_date_of e ex))
           (issue_date_of e ex) (inv_type ex) (euros (inv_taxAmount ex)) (euros (inv_total ex))"
    and "d2 = update_invoice (inv_id ex) (issued_fields e ex z (ten_invoiceDueDays (tenant d))
           (shown_number (year_of (issue_date_of e ex)) t)
           (formatInvoiceNumber (take_number (year_of (issue_date_of e ex)) t)
              (shown_number (year_of (issue_date_of e ex)) t) (issue_date_of e ex)) link qr) d1"
    and "compensate_original e ex True (if settles ex z then d2 else
           applyWithholding e d2 (issued_fields e ex z (ten_invoiceDueDays (tenant d))
           (shown_number (year_of (issue_date_of e ex)) t)
           (formatInvoiceNumber (take_number (year_of (issue_date_of e ex)) t)
              (shown_number (year_of (issue_date_of e ex)) t) (issue_date_of e ex)) link qr r)) = Inr (d', cmp)"
proof -
  define dt where "dt = issue_date_of e ex"
  obtain d1 n s where res: "reserveNextNumber d (inv_seriesId ex) (year_of dt) = Inr (d1, n, s)"
    and late: "\<not> (\<exists>l. last_issue_date d1 (inv_seriesId ex) = Some l \<and> dt < l)"
    and rest: "bindr (assertIssuerFiscalData e d1 (inv_ownerId ex)) (\<lambda>_.
      bindr (real_mode_checks e d1 ex) (\<lambda>_.
      let link = computeChainedHash e d1 (inv_ownerId ex)
                   (pending_tax_id (emitter_tax_id d1 (inv_ownerId ex))) (formatInvoiceNumber s n dt)
                   dt (inv_type ex) (euros (inv_taxAmount ex)) (euros (inv_total ex));
          qr = buildQrDataUrl e (emitter_tax_id d1 (inv_ownerId ex)) (formatInvoiceNumber s n dt) dt
                 (euros (inv_total ex))
      in bindr (write_invoice (inv_id ex)
                 (issued_fields e ex z (ten_invoiceDueDays (tenant d)) n (formatInvoiceNumber s n dt) link qr)
                 d1) (\<lambda>(d2, r).
         compensate_original e ex True (if settles ex z then d2 else applyWithholding e d2 r))))
      = Inr (d', cmp)"
    using run unfolding issue_app_def Let_def dt_def [symmetric]
    by (auto simp: bindr_eq_Inr split: prod.splits)
  obtain t where t: "find_series d (inv_seriesId ex) = Some t" "ser_isActive t"
    and d1: "d1 = update_series (inv_seriesId ex) (take_number (year_of dt)) d"
    and n: "n = shown_number (year_of dt) t" and s: "s = take_number (year_of dt) t"
    using res by (auto simp: reserveNextNumber_def Let_def take_number_shown elim!: bindrE)
  define number where "number = formatInvoiceNumber s n dt"
  define link where "link = computeChainedHash e d (inv_ownerId ex)
    (pending_tax_id (emitter_tax_id d (inv_ownerId ex))) number dt (inv_type ex)
    (euros (inv_taxAmount ex)) (euros (inv_total ex))"
  have same: "computeChainedHash e d1 (inv_ownerId ex)
    (pending_tax_id (emitter_tax_id d1 (inv_ownerId ex))) number dt (inv_type ex)
    (euros (inv_taxAmount ex)) (euros (inv_total ex)) = link"
    by (simp add: link_def d1 computeChainedHash_def chain_of_def emitter_tax_id_update_series)
  obtain qr where "\<exists>d2 r. write_invoice (inv_id ex)
      (issued_fields e ex z (ten_invoiceDueDays (tenant d)) n number link qr) d1 = Inr (d2, r) \<and>
      compensate_original e ex True (if settles ex z then d2 else applyWithholding e d2 r) = Inr (d', cmp)"
    using rest unfolding Let_def number_def [symmetric] same
    by (auto simp: bindr_eq_Inr split: prod.splits)
  then obtain d2 r' where w: "write_invoice (inv_id ex)
      (issued_fields e ex z (ten_invoiceDueDays (tenant d)) n number link qr) d1 = Inr (d2, r')"
    and c: "compensate_original e ex True (if settles ex z then d2 else applyWithholding e d2 r')
      = Inr (d', cmp)" by blast
  obtain r where "r \<in> set (invoices d1)" "inv_id r = inv_id ex"
    and "d2 = update_invoice (inv_id ex)
      (issued_fields e ex z (ten_invoiceDueDays (tenant d)) n number link qr) d1"
    and "r' = issued_fields e ex z (ten_invoiceDueDays (tenant d)) n number link qr r"
    using w by (rule write_invoice_Inr)
  then show thesis
    using that [OF t] late d1 c unfolding link_def number_def n s dt_def
    by (auto simp: last_issue_date_def)
qed

lemma issue_app_books:
  assumes ok: "books_ok d" and snap: "current_snapshot ex d"
    and draft: "map_option inv_status (find_invoice d (inv_id ex)) = Some Draft"
    and run: "issue_app e ex z d = Inr (d', cmp)"
  shows "books_ok d'"
  using run
proof (rule issue_app_Inr)
  fix t r qr link d1 d2
  let ?dt = "issue_date_of e ex"
  let ?n = "shown_number (year_of ?dt) t"
  let ?number = "formatInvoiceNumber (take_number (year_of ?dt) t) ?n ?dt"
  let ?f = "issued_fields e ex z (ten_invoiceDueDays (tenant d)) ?n ?number link qr"
  assume t: "find_series d (inv_seriesId ex) = Some t" and rin: "r \<in> set (invoices d)"
    and ri: "inv_id r = inv_id ex" and act: "ser_isActive t"
    and late: "\<not> (\<exists>l. last_issue_date d (inv_seriesId ex) = Some l \<and> ?dt < l)"
    and d1: "d1 = update_series (inv_seriesId ex) (take_number (year_of ?dt)) d"
    and link: "link = computeChainedHash e d (inv_ownerId ex)
      (pending_tax_id (emitter_tax_id d (inv_ownerId ex))) ?number ?dt (inv_type ex)
      (euros (inv_taxAmount ex)) (euros (inv_total ex))"
    and d2: "d2 = update_invoice (inv_id ex) ?f d1"
    and c: "compensate_original e ex True (if settles ex z then d2 else applyWithholding e d2 (?f r))
      = Inr (d', cmp)"
  have tin: "t \<in> set (series d)" "ser_id t = inv_seriesId ex" using find_series_SomeD [OF t] by simp_all
  have dist: "distinct (map inv_id (invoices d))" using ok by (simp add: books_ok_def ids_ok_def)
  have "find_invoice d (inv_id ex) = Some r"
    unfolding find_invoice_def using find_first_key_unique [OF dist rin] ri by simp
  then have rd: "inv_status r = Draft" using draft by simp
  obtain r0 where r0: "r0 \<in> set (invoices d)" "inv_id r0 = inv_id ex"
    "inv_seriesId r0 = inv_seriesId ex" "inv_ownerId r0 = inv_ownerId ex"
    using snap by (auto simp: current_snapshot_def)
  have "r0 = r" using dist r0 rin ri by (auto simp: distinct_map inj_on_def)
  then have sr: "inv_seriesId r = inv_seriesId ex" "inv_ownerId r = inv_ownerId ex" using r0 by simp_all
  have res: "reserveNextNumber d (inv_seriesId ex) (year_of ?dt) = Inr (d1, ?n, take_number (year_of ?dt) t)"
    using t act by (simp add: reserveNextNumber_def Let_def d1 take_number_shown)
  have "books_ok d2"
  proof (rule number_and_chain [where f = ?f and r = r and s = t and dt = ?dt and d = d])
    show "books_ok d" by (rule ok)
    show "r \<in> set (invoices d)" "inv_status r = Draft" by (rule rin, rule rd)
    show "t \<in> set (series d)" "ser_id t = inv_seriesId r" using tin sr by simp_all
    show "\<not> (\<exists>l. last_issue_date d (inv_seriesId r) = Some l \<and> ?dt < l)"
      using late sr by simp
    show "inv_id (?f r) = inv_id r" "inv_seriesId (?f r) = inv_seriesId r"
      "inv_ownerId (?f r) = inv_ownerId r" "inv_status (?f r) \<noteq> Draft"
      "inv_sequence (?f r) = shown_number (year_of ?dt) t" "inv_issueDate (?f r) = Some ?dt"
      "chain_seq (?f r) \<noteq> None"
      by (simp_all add: issued_fields_def mark_settled_view chain_seq_def)
    show "row_link (?f r) = Some link" by (simp add: issued_fields_def row_link_def chain_seq_def)
    show "link = computeChainedHash e d (inv_ownerId r)
        (pending_tax_id (emitter_tax_id d (inv_ownerId ex))) ?number ?dt (inv_type ex)
        (euros (inv_taxAmount ex)) (euros (inv_total ex))"
      by (simp add: link sr)
    show "invoices d2 = update_many (\<lambda>i. inv_id i = inv_id r) ?f (invoices d)"
      by (simp add: d2 d1 ri)
    show "series d2 = update_many (\<lambda>u. ser_id u = ser_id t) (take_number (year_of ?dt)) (series d)"
      by (simp add: d2 d1 tin(2))
    show "series_ok (series d2)"
      using reserveNextNumber_series_ok [OF _ res] ok by (simp add: d2 books_ok_def)
    show "next_id d2 = next_id d" by (simp add: d2 d1)
  qed
  moreover have "keeps_books d2 (if settles ex z then d2 else applyWithholding e d2 (?f r))"
    using applyWithholding_keeps by simp
  ultimately show ?thesis
    using compensate_original_keeps [OF c] keeps_books_ok by blast
qed

lemma draft_row:
  assumes ok: "books_ok d" and draft: "map_option inv_status (find_invoice d i) = Some Draft"
    and r: "r \<in> set (invoices d)" "inv_id r = i"
  shows "inv_status r = Draft" and "inv_sequence r = 0"
proof -
  have "distinct (map inv_id (invoices d))" using ok by (simp add: books_ok_def ids_ok_def)
  then have "find_invoice d i = Some r"
    unfolding find_invoice_def using find_first_key_unique [of inv_id "invoices d" r] r by simp
  then show "inv_status r = Draft" using draft by simp
  then show "inv_sequence r = 0" using ok r by (simp add: books_ok_def drafts_clean_def)
qed

lemma issue_holded_keeps:
  assumes ok: "books_ok d"
    and draft: "map_option inv_status (find_invoice d (inv_id ex)) = Some Draft"
    and run: "issue_holded e ex z doc d = Inr (d', cmp)"
  shows "keeps_books d d'"
proof -
  let ?f = "holded_written e ex z (ten_invoiceDueDays (tenant d)) doc"
  obtain d1 r' where w: "write_invoice (inv_id ex) ?f d = Inr (d1, r')"
    and c: "compensate_original e ex False (if settles ex z then d1 else applyWithholding e d1 r')
      = Inr (d', cmp)"
    using run unfolding issue_holded_def by (auto simp: bindr_eq_Inr split: prod.splits)
  have d1: "d1 = update_invoice (inv_id ex) ?f d" using w by (rule write_invoice_Inr)
  have "keeps_books d d1"
  proof (rule keeps_booksI)
    show "invoices d1 = update_many (\<lambda>r. inv_id r = inv_id ex) ?f (invoices d)" by (simp add: d1)
    show "same_view (?f i) i" if "i \<in> set (invoices d)" "inv_id i = inv_id ex" for i
      using draft_row [OF ok draft that]
      by (intro same_viewI) (simp_all add: holded_written_def mark_settled_view)
  qed (simp_all add: d1)
  moreover have "keeps_books d1 (if settles ex z then d1 else applyWithholding e d1 r')"
    using applyWithholding_keeps by simp
  ultimately show ?thesis
    using compensate_original_keeps [OF c] keeps_books_trans by blast
qed

lemma keeps_books_snapshot:
  assumes "keeps_books d d'" and "current_snapshot ex d"
  shows "current_snapshot ex d'"
proof -
  obtain r where "r \<in> set (invoices d)" and r: "inv_id r = inv_id ex" "inv_seriesId r = inv_seriesId ex"
    "inv_ownerId r = inv_ownerId ex" using assms(2) by (auto simp: current_snapshot_def)
  then obtain q where "q \<in> set (invoices d')" and "same_view q r"
    using assms(1) unfolding keeps_books_def by (metis in_set_conv_nth list_all2_conv_all_nth)
  then show ?thesis using r
    by (auto simp: current_snapshot_def same_view_def number_view_def chain_view_def)
qed

lemma find_invoice_update_many:
  assumes "\<And>r. inv_id (f r) = inv_id r"
  shows "find_first (\<lambda>r. inv_id r = i) (update_many p f rows) =
    map_option (\<lambda>r. if p r then f r else r) (find_first (\<lambda>r. inv_id r = i) rows)"
  by (induction rows) (auto simp: assms)

lemma rectification_before_issue_draft:
  assumes "rectification_before_issue e ex d = Inr d1"
    and "map_option inv_status (find_invoice d i) = Some Draft"
  shows "map_option inv_status (find_invoice d1 i) = Some Draft"
  using assms
  by (auto simp: rectification_before_issue_def Let_def find_invoice_def find_invoice_update_many
      elim!: bindrE split: option.splits if_splits)

lemma issue_tx_books:
  assumes ok: "books_ok d" and snap: "current_snapshot ex d"
    and run: "issue_tx e ex z fh d = Inr (d', cmp)"
  shows "books_ok d'"
proof -
  obtain d1 where draft: "map_option inv_status (find_invoice d (inv_id ex)) = Some Draft"
    and rb: "rectification_before_issue e ex d = Inr d1"
    and rest: "(case fh of Some doc \<Rightarrow> issue_holded e ex z doc d1 | None \<Rightarrow> issue_app e ex z d1)
      = Inr (d', cmp)"
    using run unfolding issue_tx_def by (auto simp: bindr_eq_Inr)
  have k: "keeps_books d d1" using rb by (rule rectification_before_issue_keeps)
  have ok1: "books_ok d1" using ok k by (rule keeps_books_ok)
  have draft1: "map_option inv_status (find_invoice d1 (inv_id ex)) = Some Draft"
    using rb draft by (rule rectification_before_issue_draft)
  show ?thesis
  proof (cases fh)
    case None
    then show ?thesis using issue_app_books [OF ok1 keeps_books_snapshot [OF k snap] draft1] rest by simp
  next
    case (Some doc)
    then show ?thesis using issue_holded_keeps [OF ok1 draft1] keeps_books_ok [OF ok1] rest by simp
  qed
qed

section \<open>The handler and the operations on drafts\<close>

lemma keeps_books_logs [simp]:
  "keeps_books d (emit ev d)" "keeps_books d (audit a i d)"
  "keeps_books d (d\<lparr>verifactu_queue := q\<rparr>)" "keeps_books d (d\<lparr>tenant := t\<rparr>)"
  "keeps_books d (d\<lparr>notifications := ns\<rparr>)" "keeps_books d (d\<lparr>contracts := cs\<rparr>)"
  "keeps_books d (d\<lparr>dunning_actions := das\<rparr>)" "keeps_books d (d\<lparr>items := its\<rparr>)"
  "keeps_books d (d\<lparr>refunds := rs\<rparr>)" "keeps_books d (d\<lparr>referrals := rfs\<rparr>)"
  "keeps_books d (update_payment i g d)"
  by (simp_all add: keeps_books_def emit_def audit_def update_payment_def list.rel_refl)

lemma keeps_books_emit_audit [simp]:
  "keeps_books d (emit ev d') \<longleftrightarrow> keeps_books d d'" "keeps_books d (audit a i d') \<longleftrightarrow> keeps_books d d'"
  by (simp_all add: keeps_books_def emit_def audit_def)

lemma after_issue_keeps: "keeps_books d (after_issue ex z hd1 cmp d)"
  unfolding after_issue_def Let_def
  by (simp add: keeps_books_def list.rel_refl emit_def audit_def split: option.splits)

lemma current_mode_keeps: "current_mode e d = (d', m) \<Longrightarrow> keeps_books d d'"
  by (auto simp: current_mode_def Let_def split: option.splits if_splits)

lemma awaitHolded_keeps:
  assumes "awaitHoldedCreditNote ex d = Inr d'"
  shows "keeps_books d d'"
proof -
  have "d' = d\<lparr>invoices := update_many (\<lambda>r. inv_id r = inv_id ex \<and> inv_status r = Draft)
            (\<lambda>r. r\<lparr>inv_issuedBy := By_holded,
                   inv_holded := (inv_holded r)\<lparr>hol_syncState := Some Awaiting_holded\<rparr>\<rparr>)
            (invoices d)\<rparr>"
    using assms by (auto simp: awaitHoldedCreditNote_def elim!: bindrE)
  then show ?thesis
    by (intro keeps_booksI [where p = "\<lambda>r. inv_id r = inv_id ex \<and> inv_status r = Draft" and
          f = "\<lambda>r. r\<lparr>inv_issuedBy := By_holded,
                   inv_holded := (inv_holded r)\<lparr>hol_syncState := Some Awaiting_holded\<rparr>\<rparr>"])
      (simp_all, rule same_viewI, simp_all)
qed

lemma claim_holded_keeps:
  assumes ok: "books_ok d" and run: "claim_holded e ex d = Inr d'"
  shows "keeps_books d d'"
proof -
  obtain fresh where fresh: "find_invoice d (inv_id ex) = Some fresh" and dr: "inv_status fresh = Draft"
    and rest: "d' = d \<or> (\<exists>dt. d' = update_invoice (inv_id ex)
       (\<lambda>r. (set_holded (Some Creating) (Some (now e)) r)
            \<lparr>inv_issueDate := Some dt,
             inv_dueDate := (if inv_dueDate ex \<noteq> None \<or> inv_total ex \<le> 0
               then inv_dueDate r
               else Some (computeDefaultDueDate dt (ten_invoiceDueDays (tenant d))))\<rparr>) d)"
    using run unfolding claim_holded_def
    by (auto simp: bindr_eq_Inr Let_def split: if_splits)
  have draft: "map_option inv_status (find_invoice d (inv_id ex)) = Some Draft" using fresh dr by simp
  have "keeps_books d (update_invoice (inv_id ex) (\<lambda>r. (set_holded (Some Creating) (Some t) r)
      \<lparr>inv_issueDate := Some dt, inv_dueDate := (if b then inv_dueDate r else x)\<rparr>) d)" for t dt b x
  proof (rule keeps_booksI)
    show "invoices (update_invoice (inv_id ex) (\<lambda>r. (set_holded (Some Creating) (Some t) r)
        \<lparr>inv_issueDate := Some dt, inv_dueDate := (if b then inv_dueDate r else x)\<rparr>) d)
      = update_many (\<lambda>r. inv_id r = inv_id ex) (\<lambda>r. (set_holded (Some Creating) (Some t) r)
        \<lparr>inv_issueDate := Some dt, inv_dueDate := (if b then inv_dueDate r else x)\<rparr>) (invoices d)"
      by simp
    show "same_view ((set_holded (Some Creating) (Some t) i)
        \<lparr>inv_issueDate := Some dt, inv_dueDate := (if b then inv_dueDate i else x)\<rparr>) i"
      if "i \<in> set (invoices d)" "inv_id i = inv_id ex" for i
      using draft_row [OF ok draft that] by (intro same_viewI) (simp_all add: set_holded_def)
  qed simp_all
  then show ?thesis using rest by auto
qed

lemma issueInHolded_keeps:
  assumes "books_ok d" and "issueInHolded e ex d = (d', r)"
  shows "keeps_books d d'"
  using assms claim_holded_keeps [OF assms(1)]
  by (auto simp: issueInHolded_def split: if_splits sum.splits)

lemma issue_from_books:
  assumes ok: "books_ok d" and snap: "current_snapshot ex d"
    and run: "issue_from e ex hd1 z d = (d', r)"
  shows "books_ok d'"
proof -
  obtain d0 m where mode: "(if inv_ownerId ex \<noteq> None then (d, By_app) else current_mode e d) = (d0, m)"
    by fastforce
  have k0: "keeps_books d d0" using mode current_mode_keeps by (auto split: if_splits)
  have ok0: "books_ok d0" using ok k0 by (rule keeps_books_ok)
  have tx: "books_ok d2" if "books_ok d1" "current_snapshot ex d1"
    "issue_tx e ex zz fh d1 = Inr (d3, cmp)" "d2 = after_issue ex zz hh cmp d3" for d1 zz fh d3 cmp d2 hh
    using issue_tx_books [OF that(1,2,3)] keeps_books_ok after_issue_keeps that(4) by blast
  have await: "books_ok d1" if "awaitHoldedCreditNote ex d0 = Inr d1" for d1
    using keeps_books_ok [OF ok0 awaitHolded_keeps [OF that]] .
  have claim: "books_ok d1 \<and> current_snapshot ex d1" if "issueInHolded e ex d0 = (d1, x)" for d1 x
    using issueInHolded_keeps [OF ok0 that] keeps_books_ok [OF ok0]
      keeps_books_snapshot [OF keeps_books_trans [OF k0] snap] by blast
  have snap0: "current_snapshot ex d0" using keeps_books_snapshot [OF k0 snap] .
  show ?thesis
    using run mode ok ok0 snap0 unfolding issue_from_def Let_def
    by (auto split: if_splits sum.splits option.splits prod.splits dest: await claim intro: tx)
qed

lemma findOrThrow_in:
  assumes "findOrThrow d scope i = Inr r"
  shows "r \<in> set (invoices d)" and "inv_id r = i" and "current_snapshot r d"
proof -
  have "find_first (\<lambda>r. inv_id r = i \<and> \<not> inv_deleted r) (invoices d) = Some r"
    using assms by (auto simp: findOrThrow_def elim!: bindrE split: option.splits)
  then show "r \<in> set (invoices d)" "inv_id r = i" by (auto dest: find_first_SomeD)
  then show "current_snapshot r d" by (auto simp: current_snapshot_def)
qed

lemma issue_books:
  "books_ok d \<Longrightarrow> issue e scope hd1 z i d = (d', r) \<Longrightarrow> books_ok d'"
  by (auto simp: issue_def intro: issue_from_books findOrThrow_in(3) split: sum.splits)

lemma linkHolded_books:
  "books_ok d \<Longrightarrow> linkHoldedCreditNote e scope i doc d = (d', r) \<Longrightarrow> books_ok d'"
  by (auto simp: linkHoldedCreditNote_def intro: issue_books split: sum.splits if_splits option.splits)

text \<open>A new row without number and record.\<close>

lemma insert_invoice_books:
  assumes ok: "books_ok d" and run: "insert_invoice d row lines = Inr (d', r)"
    and new: "inv_sequence row = 0" "inv_vf row = no_verifactu"
    and ser: "\<exists>s\<in>set (series d). ser_id s = inv_seriesId row"
  shows "books_ok d'" and "r = row\<lparr>inv_id := next_id d\<rparr>" and "r \<in> set (invoices d')"
proof -
  obtain ls where "(if violates_unique (invoices d) (row\<lparr>inv_id := next_id d\<rparr>) then Inl UniqueViolation
      else Inr (d\<lparr>invoices := create_row (row\<lparr>inv_id := next_id d\<rparr>) (invoices d), items := items d @ ls,
                  next_id := Suc (next_id d)\<rparr>, row\<lparr>inv_id := next_id d\<rparr>)) = Inr (d', r)"
    using run unfolding insert_invoice_def Let_def bindr_eq_Inr by blast
  then have d': "d' = d\<lparr>invoices := create_row r (invoices d), items := items d @ ls,
                     next_id := Suc (next_id d)\<rparr>" and r: "r = row\<lparr>inv_id := next_id d\<rparr>"
    by (auto split: if_splits)
  show "r = row\<lparr>inv_id := next_id d\<rparr>" "r \<in> set (invoices d')" using r by (simp_all add: d')
  have rows: "invoices d' = invoices d @ [r]" "series d' = series d" "next_id d' = Suc (next_id d)"
    by (simp_all add: d' create_row_def)
  have nolink: "chain_seq r = None" "row_link r = None"
    by (simp_all add: r chain_seq_def new no_verifactu_def row_link_def)
  have nums: "numbers_in (map number_view (invoices d')) sid = numbers_in (map number_view (invoices d)) sid" for sid
    by (simp add: rows numbers_in_def number_view_def r new)
  have dts: "dated (map number_view (invoices d')) sid = dated (map number_view (invoices d)) sid" for sid
    by (auto simp: rows dated_def number_view_def r new)
  have recs: "records_of (map chain_view (invoices d')) ow = records_of (map chain_view (invoices d)) ow" for ow
    by (auto simp: rows records_of_def chain_view_def nolink)
  have "numbering_ok d'"
    using ok new unfolding books_ok_def numbering_ok_def nums dts rows(2) by (auto simp: rows r)
  moreover have "chain_ok d'"
    using ok nolink unfolding books_ok_def chain_ok_def recs by (auto simp: rows)
  moreover have "ids_ok d'"
    using ok ser unfolding books_ok_def ids_ok_def fresh_series_ids_def rows
    by (auto simp: r less_Suc_eq)
  moreover have "drafts_clean d'"
    using ok nolink unfolding books_ok_def drafts_clean_def rows by (auto simp: r new)
  ultimately show "books_ok d'" using ok by (simp add: books_ok_def rows)
qed

text \<open>Adding a series keeps the books: it has no invoices yet.\<close>

lemma insert_series_books:
  assumes ok: "books_ok d" and ins: "insert_series d s = Inr (d', row)"
    and sok: "series_ok (series d')" "fresh_series_ids d'" and next_number: "ser_nextNumber s = 1"
  shows "books_ok d'"
proof -
  have d': "series d' = series d @ [row]" "next_id d' = Suc (next_id d)" "invoices d' = invoices d"
    and row: "row = s\<lparr>ser_id := next_id d\<rparr>"
    using ins by (auto simp: insert_series_def Let_def create_row_def split: if_splits)
  have none: "numbers_in (map number_view (invoices d)) (ser_id row) = {#}"
  proof -
    have "inv_seriesId i \<noteq> next_id d" if i: "i \<in> set (invoices d)" for i
    proof -
      obtain t where "t \<in> set (series d)" "ser_id t = inv_seriesId i"
        using ok i unfolding books_ok_def ids_ok_def by blast
      then show ?thesis using ok unfolding books_ok_def ids_ok_def fresh_series_ids_def by force
    qed
    then show ?thesis by (auto simp: numbers_in_def number_view_def row)
  qed
  have "dated (map number_view (invoices d)) (ser_id row) = {}"
    using none dated_in_numbers by fastforce
  then have "dates_ordered row (dated (map number_view (invoices d)) (ser_id row))"
    by (simp add: dates_ordered_def)
  moreover have "numbering.gapless row {#}"
    by (auto simp: numbering.gapless_def numbering.numbers_of_def shown_number_def row next_number)
  ultimately have "numbering_ok d'"
    using ok none next_number by (auto simp: books_ok_def numbering_ok_def d' counter_ok_def row)
  moreover have "chain_ok d'" "drafts_clean d'"
    using ok by (simp_all add: books_ok_def chain_ok_def drafts_clean_def d')
  moreover have "ids_ok d'"
    using ok sok(2) by (auto simp: books_ok_def ids_ok_def d' less_Suc_eq)
  ultimately show ?thesis using sok(1) by (simp add: books_ok_def)
qed

lemma ownerSeries_books:
  assumes ok: "books_ok d" and own: "ownerSeries d ow rect = Inr (d', row)"
  shows "books_ok d' \<and> row \<in> set (series d')"
proof -
  have s: "series_ok (series d') \<and> fresh_series_ids d' \<and> row \<in> set (series d')"
    using ownerSeries_ok [OF _ _ own] ok by (simp add: books_ok_def ids_ok_def)
  have "d' = d \<or> (\<exists>k nm. insert_series d (default_series\<lparr>ser_ownerId := Some ow, ser_code := k,
          ser_name := nm, ser_prefix := k, ser_yearScope := True,
          ser_isDefault := (\<not> rect), ser_isRectification := rect\<rparr>) = Inr (d', row))"
    using own unfolding ownerSeries_def Let_def
    by (simp split: option.splits) (auto simp: bindr_eq_Inr)
  then show ?thesis
    using s ok insert_series_books [OF ok] by (auto simp: default_series_def)
qed

lemma rectificationSeries_books:
  assumes ok: "books_ok d" and run: "rectificationSeries d ow = Inr (d', row)"
  shows "books_ok d' \<and> row \<in> set (series d')"
proof (cases ow)
  case (Some o1)
  then show ?thesis using ownerSeries_books [OF ok] run by (simp add: rectificationSeries_def)
next
  case None
  have s: "series_ok (series d') \<and> fresh_series_ids d' \<and> row \<in> set (series d')"
    using rectificationSeries_ok [OF _ _ run] ok by (simp add: books_ok_def ids_ok_def)
  have "d' = d \<or> (\<exists>s0. insert_series d s0 = Inr (d', row) \<and> ser_nextNumber s0 = 1)"
    using run None by (auto simp: rectificationSeries_def default_series_def split: option.splits)
  then show ?thesis using s ok insert_series_books [OF ok] by blast
qed

lemma create_series_for_books:
  assumes ok: "books_ok d" and run: "create_series_for d ow sid = Inr (d', so)"
  shows "books_ok d' \<and> (\<forall>s. so = Some s \<longrightarrow> s \<in> set (series d'))"
  using run ok ownerSeries_books [OF ok]
  by (auto simp: create_series_for_def dest: find_series_SomeD find_first_SomeD
      elim!: bindrE split: option.splits prod.splits)

lemma owner_default_series_books:
  assumes ok: "books_ok d" and mem: "\<forall>s. so = Some s \<longrightarrow> s \<in> set (series d)"
    and run: "owner_default_series (d, so) ow = Inr (d', so')"
  shows "books_ok d' \<and> (\<forall>s. so' = Some s \<longrightarrow> s \<in> set (series d'))"
  using run ok mem ownerSeries_books [OF ok]
  by (auto simp: owner_default_series_def elim!: bindrE split: option.splits prod.splits if_splits)

lemma create_tx_books:
  assumes ok: "books_ok d" and run: "create_tx e d scope given ben input ty t = Inr (d', r)"
  shows "books_ok d' \<and> r \<in> set (invoices d') \<and> inv_status r = Draft"
proof -
  obtain ow d0 so0 d1 s where s0: "create_series_for d ow (ci_seriesId input) = Inr (d0, so0)"
    and s1: "owner_default_series (d0, so0) ow = Inr (d1, Some s)"
    and ins: "insert_invoice d1
       (default_invoice\<lparr>inv_type := ty, inv_status := Draft, inv_customerId := ci_customerId input,
          inv_contractId := ci_contractId input, inv_ownerId := ow, inv_seriesId := ser_id s,
          inv_sequence := 0, inv_number := draftPlaceholderNumber e (next_id d1),
          inv_issueDate := ci_issueDate input, inv_dueDate := ci_dueDate input,
          inv_periodStart := ci_periodStart input, inv_periodEnd := ci_periodEnd input,
          inv_subtotal := tot_subtotal t, inv_taxAmount := tot_taxAmount t, inv_total := tot_total t,
          inv_notes := create_notes ty input, inv_benefits := ben\<rparr>)
       (\<lambda>i. item_rows (toItemCreateData i) (ci_items input) 0) = Inr (d', r)"
    using run unfolding create_tx_def by (auto simp: bindr_eq_Inr split: prod.splits)
  have b0: "books_ok d0 \<and> (\<forall>s. so0 = Some s \<longrightarrow> s \<in> set (series d0))"
    by (rule create_series_for_books [OF ok s0])
  have b1: "books_ok d1 \<and> (\<forall>s'. Some s = Some s' \<longrightarrow> s' \<in> set (series d1))"
    by (rule owner_default_series_books [OF _ _ s1]) (use b0 in blast)+
  then have mem: "s \<in> set (series d1)" by blast
  have "books_ok d'" "r \<in> set (invoices d')"
    by (rule insert_invoice_books [OF _ ins]; use b1 mem in \<open>auto simp: default_invoice_def\<close>)+
  moreover have "inv_status r = Draft"
    using ins by (auto simp: insert_invoice_def Let_def elim!: bindrE split: if_splits)
  ultimately show ?thesis by blast
qed

lemma create_invoice_books:
  assumes ok: "books_ok d" and run: "create_invoice e d scope given ben input = Inr (d', r)"
  shows "books_ok d'"
proof -
  define ty where "ty = (case ci_invoiceType input of None \<Rightarrow> F1 | Some ty \<Rightarrow> ty)"
  obtain t where c: "(case create_tx e d scope given ben input ty t of
      Inl err \<Rightarrow> if err = UniqueViolation then Inl (ConflictException ''duplicate_period_invoice'')
                 else Inl err
    | Inr (d', r) \<Rightarrow> Inr (audit ''invoice.created'' (inv_id r) d', r)) = Inr (d', r)"
    using run unfolding create_invoice_def Let_def ty_def [symmetric] by (auto simp only: bindr_eq_Inr)
  obtain d1 where tx: "create_tx e d scope given ben input ty t = Inr (d1, r)"
    and d': "d' = audit ''invoice.created'' (inv_id r) d1"
    using c by (cases "create_tx e d scope given ben input ty t") (auto split: if_splits)
  have "books_ok d1" using create_tx_books [OF ok tx] by blast
  then show ?thesis unfolding d' by (rule keeps_books_ok) simp
qed

lemma rectify_tx_books:
  assumes ok: "books_ok d" and run: "rectify_tx e orig input t d = Inr (d', r)"
  shows "books_ok d' \<and> r \<in> set (invoices d')"
proof -
  obtain m d1 s where s: "rectificationSeries d (inv_ownerId orig) = Inr (d1, s)"
    and ins: "insert_invoice d1
           (default_invoice\<lparr>inv_ownerId := inv_ownerId orig,
              inv_customerId := inv_customerId orig, inv_contractId := inv_contractId orig,
              inv_seriesId := ser_id s, inv_sequence := 0,
              inv_number := draftPlaceholderNumber e (next_id d1), inv_status := Draft,
              inv_type := rc_type input, inv_rectifies := Some (inv_id orig),
              inv_rectificationReason := Some (trim (rc_reason input)),
              inv_correctionMethod := Some m, inv_issueDate := rc_issueDate input,
              inv_subtotal := tot_subtotal t, inv_taxAmount := tot_taxAmount t,
              inv_total := tot_total t\<rparr>)
           (\<lambda>i. item_rows (toRectifyItemCreateData i) (rc_items input) 0) = Inr (d', r)"
    using run unfolding rectify_tx_def Let_def by (auto simp: bindr_eq_Inr split: prod.splits)
  have b: "books_ok d1 \<and> s \<in> set (series d1)" by (rule rectificationSeries_books [OF ok s])
  have "books_ok d'" "r \<in> set (invoices d')"
    by (rule insert_invoice_books [OF _ ins]; use b in \<open>auto simp: default_invoice_def\<close>)+
  then show ?thesis by blast
qed

lemma rectify_books:
  assumes ok: "books_ok d" and run: "rectify e scope al i input d = Inr (d', r)"
  shows "books_ok d'"
proof -
  obtain orig t d1 where "rectify_tx e orig input t d = Inr (d1, r)"
    and d': "d' = emit (Invoice_rectified (inv_id r)) (audit ''invoice.rectified'' (inv_id r) d1)"
    using run unfolding rectify_def by (auto simp: bindr_eq_Inr split: prod.splits)
  then have "books_ok d1" using rectify_tx_books [OF ok] by blast
  then show ?thesis unfolding d' by (rule keeps_books_ok) simp
qed

lemma createDepositReceipt_books:
  assumes ok: "books_ok d" and run: "createDepositReceipt e d a = Inr (d', r)"
  shows "books_ok d'"
proof -
  obtain s row lines d1 where s: "getDefault d = Some s" and ins: "insert_invoice d row lines = Inr (d1, r)"
    and row: "inv_sequence row = 0" "inv_vf row = no_verifactu" "inv_seriesId row = ser_id s"
    and d': "d' = emit (Invoice_pdf_requested (inv_id r)) (audit ''invoice.deposit_receipt_created'' (inv_id r) d1)"
    using run unfolding createDepositReceipt_def
    by (auto simp: bindr_eq_Inr default_invoice_def split: prod.splits)
  have "s \<in> set (series d)" using s by (auto simp: getDefault_def dest!: find_first_SomeD)
  then have "books_ok d1" using row by (intro insert_invoice_books(1) [OF ok ins]) auto
  then show ?thesis unfolding d' by (rule keeps_books_ok) simp
qed

lemma update_from_keeps:
  assumes run: "update_from e ex input d = Inr d'"
  shows "keeps_books d d'"
proof -
  obtain d1 where tx: "update_tx e ex input d = Inr d1"
    and d': "keeps_books d1 d'"
    using run unfolding update_from_def by (auto simp: bindr_eq_Inr)
  have f: "same_view (update_fields e ex input i) i" for i
    by (rule same_viewI) (auto simp: update_fields_def split: if_splits)
  have g: "same_view (set_totals t i) i" for t i
    by (rule same_viewI) (simp_all add: set_totals_def)
  have "keeps_books d d1"
  proof -
    let ?d0 = "if postponed e ex input then cancel_scheduled_dunning (inv_id ex) d else d"
    have k0: "keeps_books d ?d0" by (simp add: cancel_scheduled_dunning_def)
    consider "d1 = update_invoice (inv_id ex) (update_fields e ex input) ?d0"
      | t rows where "d1 = update_invoice (inv_id ex) (set_totals t \<circ> update_fields e ex input)
                    (?d0\<lparr>items := rows\<rparr>)"
      using tx unfolding update_tx_def Let_def by (auto simp: bindr_eq_Inr split: option.splits)
    then show ?thesis
    proof cases
      case 1
      then show ?thesis
        using keeps_books_trans [OF k0 keeps_books_update_invoice [OF f]] by simp
    next
      case 2
      have "keeps_books (?d0\<lparr>items := rows\<rparr>) d1"
        unfolding 2 by (rule keeps_books_update_invoice) (use same_view_trans [OF g f] in simp)
      then show ?thesis using keeps_books_trans [OF k0] keeps_books_trans keeps_books_logs(8) by blast
    qed
  qed
  then show ?thesis using keeps_books_trans d' by blast
qed

lemma update_from_books: "books_ok d \<Longrightarrow> update_from e ex input d = Inr d' \<Longrightarrow> books_ok d'"
  using update_from_keeps keeps_books_ok by blast

lemma update_draft_books:
  "books_ok d \<Longrightarrow> update_draft e scope i input d = Inr d' \<Longrightarrow> books_ok d'"
  by (auto simp: update_draft_def intro: update_from_books elim!: bindrE)

end
