(* ===== verification/Payments.thy ===== *)
theory Payments imports Books "HOL-Library.Product_Lexorder" begin

text \<open>
  Collecting and returning money by hand (\<open>markPaidManually\<close>, \<open>revertPayment\<close> and \<open>refund\<close> of
  \<open>invoices.service.ts\<close>, with \<open>common/sepa-remittance-guard.ts\<close>). Each is one transaction over the
  locked invoice row. Amounts are whole cents. The payment gateway answers a refund request,
  identified by its idempotency key, with the id of the refund or with a failure (\<open>None\<close>).
\<close>

section \<open>Payments of an invoice\<close>

definition NON_CASH_PAYMENT_METHODS :: "method_type set" where
  "NON_CASH_PAYMENT_METHODS = {Credit_note, Withholding}"

definition payments_of :: "db \<Rightarrow> id \<Rightarrow> payment_row list" where
  "payments_of d i = filter (\<lambda>p. pay_invoiceId p = Some i) (payments d)"

definition assertNotInSepaRemittance :: "db \<Rightarrow> id \<Rightarrow> unit result" where
  "assertNotInSepaRemittance d i =
     guard (\<not> (\<exists>r\<in>set (remittance_items d). rem_invoiceId r = i \<and> rem_status r = Deb_pending))
       (ConflictException ''invoice_in_sepa_remittance'')"

definition hasPaymentInFlight :: "db \<Rightarrow> id \<Rightarrow> bool" where
  "hasPaymentInFlight d i \<longleftrightarrow>
     (\<exists>p\<in>set (payments_of d i). pay_status p \<in> {Pay_pending, Pay_processing}) \<or>
     (\<exists>r\<in>set (remittance_items d). rem_invoiceId r = i \<and> rem_status r = Deb_pending)"

section \<open>Registering a payment\<close>

record mark_paid_input =
  mp_amount :: cents
  mp_method :: method_type
  mp_paidAt :: "instant option"
  mp_notes :: "string option"
  mp_override :: bool
  mp_allowInRemittance :: bool
  mp_allowPartialNonCash :: bool
  mp_rejectDuplicate :: bool

definition DUPLICATE_WINDOW_MS :: int where "DUPLICATE_WINDOW_MS = 30000"

definition twin_payment :: "env \<Rightarrow> db \<Rightarrow> id \<Rightarrow> mark_paid_input \<Rightarrow> bool" where
  "twin_payment e d i a \<longleftrightarrow>
     (\<exists>p\<in>set (payments_of d i). pay_gateway p = Manual \<and> pay_status p = Pay_succeeded \<and>
        pay_amount p = mp_amount a \<and> pay_method p = mp_method a \<and>
        now e - DUPLICATE_WINDOW_MS \<le> pay_createdAt p)"

definition gateway_in_flight :: "db \<Rightarrow> id \<Rightarrow> nat" where
  "gateway_in_flight d i =
     count_rows (\<lambda>p. pay_gateway p \<in> {Stripe, Gocardless, Redsys} \<and>
                     pay_status p \<in> {Pay_pending, Pay_processing}) (payments_of d i)"

definition paid_at :: "env \<Rightarrow> mark_paid_input \<Rightarrow> instant" where
  "paid_at e a = (case mp_paidAt a of None \<Rightarrow> now e | Some t \<Rightarrow> t)"

definition manual_payment_row :: "env \<Rightarrow> id \<Rightarrow> mark_paid_input \<Rightarrow> invoice_row \<Rightarrow> payment_row" where
  "manual_payment_row e i a fresh =
     default_payment\<lparr>pay_invoiceId := Some i, pay_customerId := inv_customerId fresh,
       pay_amount := mp_amount a, pay_method := mp_method a, pay_gateway := Manual,
       pay_status := Pay_succeeded, pay_paidAt := Some (paid_at e a), pay_createdAt := now e,
       pay_notes := (case mp_notes a of None \<Rightarrow> None
         | Some n \<Rightarrow> if trim n = [] then None else Some (trim n))\<rparr>"

definition paid_fields ::
  "env \<Rightarrow> mark_paid_input \<Rightarrow> cents \<Rightarrow> bool \<Rightarrow> invoice_row \<Rightarrow> invoice_row" where
  "paid_fields e a newPaid fullyPaid r =
     r\<lparr>inv_amountPaid := newPaid, inv_status := (if fullyPaid then Paid else inv_status r),
       inv_paidAt := (if fullyPaid then Some (paid_at e a) else inv_paidAt r)\<rparr>"

definition mark_paid_tx :: "env \<Rightarrow> id \<Rightarrow> mark_paid_input \<Rightarrow> db \<Rightarrow> (db \<times> bool) result" where
  "mark_paid_tx e i a d =
     bindr (found (find_invoice d i) RecordNotFound) (\<lambda>fresh.
     bindr (guard (inv_status fresh = Issued \<or> inv_status fresh = Overdue)
              (BadRequestException ''invoice_not_payable'')) (\<lambda>_.
     let newPaid = inv_amountPaid fresh + mp_amount a; fullyPaid = newPaid \<ge> inv_total fresh
     in bindr (guard (\<not> inv_total fresh < newPaid) (BadRequestException ''overpayment'')) (\<lambda>_.
        bindr (guard (\<not> (mp_rejectDuplicate a \<and> twin_payment e d i a))
                 (ConflictException ''duplicate_payment'')) (\<lambda>_.
        bindr (guard (mp_override a \<or> gateway_in_flight d i = 0)
                 (ConflictException ''gateway_payment_in_progress'')) (\<lambda>_.
        bindr (if mp_allowInRemittance a then Inr () else assertNotInSepaRemittance d i) (\<lambda>_.
        bindr (guard (\<not> (newPaid < inv_total fresh \<and> mp_method a \<noteq> Cash \<and> \<not> mp_allowPartialNonCash a))
                 (BadRequestException ''partial_only_cash'')) (\<lambda>_.
        Inr (update_invoice i (paid_fields e a newPaid fullyPaid)
               (create_payment (manual_payment_row e i a fresh) d),
             fullyPaid))))))))"

definition markPaidManually ::
  "env \<Rightarrow> facility_scope \<Rightarrow> id \<Rightarrow> mark_paid_input \<Rightarrow> db \<Rightarrow> db result" where
  "markPaidManually e scope i a d =
     bindr (findOrThrow d scope i) (\<lambda>_.
     bindr (guard (\<not> now e + 10 * 60000 < paid_at e a) (BadRequestException ''paid_at_in_future'')) (\<lambda>_.
     bindr (mark_paid_tx e i a d) (\<lambda>(d1, fullyPaid).
     let d2 = audit (if fullyPaid then ''invoice.paid'' else ''invoice.partial_payment'') i d1
     in Inr (if fullyPaid then emit (Invoice_paid i) d2 else d2))))"

section \<open>Reverting a payment\<close>

record revert_input =
  rv_amount :: cents
  rv_reason :: string
  rv_paymentId :: "id option"
  rv_undo :: bool

text \<open>The live money payments, latest first (\<open>null\<close> stands before every date).\<close>

definition payment_order :: "payment_row \<Rightarrow> int \<times> int \<times> int" where
  "payment_order p =
     (case pay_paidAt p of None \<Rightarrow> (0, 0, - pay_createdAt p) | Some t \<Rightarrow> (1, - t, - pay_createdAt p))"

definition live_payments :: "db \<Rightarrow> id \<Rightarrow> payment_row list" where
  "live_payments d i =
     sort_key payment_order
       (filter (\<lambda>p. pay_status p = Pay_succeeded \<and> pay_method p \<notin> NON_CASH_PAYMENT_METHODS)
         (payments_of d i))"

fun fitting :: "cents \<Rightarrow> payment_row list \<Rightarrow> id list" where
  "fitting left [] = []"
| "fitting left (p # ps) =
     (if left < pay_amount p then fitting left ps
      else pay_id p # (if left - pay_amount p \<le> 0 then [] else fitting (left - pay_amount p) ps))"

definition exact_payment :: "revert_input \<Rightarrow> payment_row list \<Rightarrow> payment_row option" where
  "exact_payment a live =
     (case rv_paymentId a of
        Some pid \<Rightarrow> find_first (\<lambda>p. pay_id p = pid) live
      | None \<Rightarrow> find_first (\<lambda>p. pay_amount p = rv_amount a) live)"

definition reverted_payments :: "revert_input \<Rightarrow> payment_row list \<Rightarrow> id list" where
  "reverted_payments a live =
     (case exact_payment a live of Some p \<Rightarrow> [pay_id p] | None \<Rightarrow> fitting (rv_amount a) live)"

definition reverted_status :: "env \<Rightarrow> invoice_row \<Rightarrow> invoice_status" where
  "reverted_status e existing =
     (if inv_status existing = Paid
      then (case inv_dueDate existing of
              None \<Rightarrow> Issued | Some due \<Rightarrow> if day_ms due < now e then Overdue else Issued)
      else inv_status existing)"

definition fail_payments :: "env \<Rightarrow> revert_input \<Rightarrow> id list \<Rightarrow> db \<Rightarrow> db" where
  "fail_payments e a pids d =
     d\<lparr>payments := update_many (\<lambda>p. pay_id p \<in> set pids)
         (\<lambda>p. p\<lparr>pay_status := Pay_failed, pay_failureReason := Some (rv_reason a),
                pay_returnedAt := (if rv_undo a then pay_returnedAt p else Some (now e))\<rparr>)
         (payments d)\<rparr>"

definition reverted_fields :: "cents \<Rightarrow> invoice_status \<Rightarrow> bool \<Rightarrow> invoice_row \<Rightarrow> invoice_row" where
  "reverted_fields newPaid st wasPaid r =
     r\<lparr>inv_amountPaid := newPaid, inv_status := st,
       inv_paidAt := (if wasPaid then None else inv_paidAt r)\<rparr>"

definition revert_tx :: "env \<Rightarrow> id \<Rightarrow> revert_input \<Rightarrow> db \<Rightarrow> (db \<times> bool) result" where
  "revert_tx e i a d =
     bindr (found (find_invoice d i) RecordNotFound) (\<lambda>existing.
     bindr (guard (0 < inv_amountPaid existing) (BadRequestException ''nothing_to_revert'')) (\<lambda>_.
     let live = live_payments d i;
         newPaid = max 0 (inv_amountPaid existing - rv_amount a);
         wasPaid = (inv_status existing = Paid);
         st = reverted_status e existing
     in bindr (guard (\<not> (rv_paymentId a \<noteq> None \<and> exact_payment a live = None))
                 (BadRequestException ''payment_not_found'')) (\<lambda>_.
        Inr (update_invoice i (reverted_fields newPaid st wasPaid)
               (fail_payments e a (reverted_payments a live) d),
             wasPaid \<and> st = Overdue \<and> \<not> rv_undo a))))"

definition revertPayment :: "env \<Rightarrow> facility_scope \<Rightarrow> id \<Rightarrow> revert_input \<Rightarrow> db \<Rightarrow> db result" where
  "revertPayment e scope i a d =
     bindr (findOrThrow d scope i) (\<lambda>_.
     bindr (revert_tx e i a d) (\<lambda>(d1, backToOverdue).
     let d2 = audit (if rv_undo a then ''invoice.payment_undone'' else ''invoice.payment_reverted'') i d1
     in Inr (if backToOverdue then emit (Invoice_payment_reverted i) d2 else d2)))"

section \<open>Refunding\<close>

record refund_input =
  rf_amount :: cents
  rf_reason :: "string option"
  rf_registeredExternally :: bool
  rf_allowDepositReceipt :: bool
  rf_rejectDuplicate :: bool
  rf_userId :: "id option"

text \<open>A request to a gateway: payment, amount and idempotency key.\<close>

record refund_request =
  rq_paymentId :: id
  rq_amount :: cents
  rq_key :: string

type_synonym gateway_answer = "refund_request \<Rightarrow> string option"

definition collected_cents :: "db \<Rightarrow> id \<Rightarrow> cents" where
  "collected_cents d i =
     sum_list (map pay_amount
       (filter (\<lambda>p. pay_status p \<in> {Pay_succeeded, Pay_partially_refunded, Pay_refunded} \<and>
                    pay_method p \<notin> NON_CASH_PAYMENT_METHODS) (payments_of d i)))"

definition twin_refund :: "env \<Rightarrow> db \<Rightarrow> id \<Rightarrow> cents \<Rightarrow> bool" where
  "twin_refund e d i amount \<longleftrightarrow>
     (\<exists>r\<in>set (refunds d). rfd_invoiceId r = i \<and> rfd_amount r = amount \<and>
        now e - DUPLICATE_WINDOW_MS \<le> rfd_createdAt r)"

text \<open>\<open>findFirst\<close> ordered by \<open>createdAt\<close>, newest first: the last matching row.\<close>

definition find_latest :: "('r \<Rightarrow> bool) \<Rightarrow> 'r list \<Rightarrow> 'r option" where
  "find_latest p rows = find_first p (rev rows)"

definition refundable_status :: "payment_row \<Rightarrow> bool" where
  "refundable_status p \<longleftrightarrow> pay_status p \<in> {Pay_succeeded, Pay_partially_refunded}"

definition gateway_payment :: "db \<Rightarrow> id \<Rightarrow> payment_row option" where
  "gateway_payment d i =
     find_latest (\<lambda>p. pay_gatewayPaymentId p \<noteq> None \<and> refundable_status p) (payments_of d i)"

definition manual_payment :: "db \<Rightarrow> id \<Rightarrow> payment_row option" where
  "manual_payment d i =
     find_latest (\<lambda>p. pay_gatewayPaymentId p = None \<and> refundable_status p \<and>
                      pay_method p \<notin> NON_CASH_PAYMENT_METHODS) (payments_of d i)"

definition add_refund :: "env \<Rightarrow> cents \<Rightarrow> payment_row \<Rightarrow> payment_row" where
  "add_refund e amount p =
     p\<lparr>pay_refundedAmount := pay_refundedAmount p + amount, pay_refundedAt := Some (now e),
       pay_status := (if pay_amount p \<le> pay_refundedAmount p + amount then Pay_refunded
                      else Pay_partially_refunded)\<rparr>"

definition refund_request_of :: "payment_row \<Rightarrow> cents \<Rightarrow> refund_request" where
  "refund_request_of p amount =
     \<lparr>rq_paymentId = pay_id p, rq_amount = amount,
      rq_key = ''refund-'' @ show_nat (pay_id p) @ ''-'' @ show_int (pay_refundedAmount p + amount)\<rparr>"

text \<open>How the money goes back: updated tables, the way, the payment and the gateway's id.\<close>

definition return_money ::
  "env \<Rightarrow> gateway_answer \<Rightarrow> id \<Rightarrow> refund_input \<Rightarrow> db
    \<Rightarrow> (db \<times> refund_via \<times> id option \<times> string option) result" where
  "return_money e gw i a d =
     (case gateway_payment d i of
        Some p \<Rightarrow>
          (if pay_gateway p \<noteq> Stripe \<and> pay_gateway p \<noteq> Gocardless
           then bindr (guard (rf_registeredExternally a) (BadRequestException ''refund_needs_bank'')) (\<lambda>_.
                bindr (guard (\<not> pay_amount p - pay_refundedAmount p < rf_amount a)
                         (BadRequestException ''over_refund_gateway'')) (\<lambda>_.
                Inr (update_payment (pay_id p) (add_refund e (rf_amount a)) d, Via_bank, Some (pay_id p), None)))
           else bindr (guard (\<not> pay_amount p - pay_refundedAmount p < rf_amount a)
                         (BadRequestException ''over_refund_gateway'')) (\<lambda>_.
                bindr (found (gw (refund_request_of p (rf_amount a)))
                         (BadRequestException ''gateway_refund_failed'')) (\<lambda>rid.
                Inr (update_payment (pay_id p) (add_refund e (rf_amount a)) d, Via_gateway,
                     Some (pay_id p), Some rid))))
      | None \<Rightarrow>
          (case manual_payment d i of
             Some p \<Rightarrow> Inr (update_payment (pay_id p) (add_refund e (rf_amount a)) d, Via_manual,
                            Some (pay_id p), None)
           | None \<Rightarrow> Inr (d, Via_manual, None, None)))"

definition refund_row_of ::
  "env \<Rightarrow> id \<Rightarrow> refund_input \<Rightarrow> refund_via \<Rightarrow> id option \<Rightarrow> string option \<Rightarrow> refund_row" where
  "refund_row_of e i a via pid rid =
     \<lparr>rfd_id = 0, rfd_invoiceId = i, rfd_paymentId = pid, rfd_amount = rf_amount a, rfd_via = via,
      rfd_reason = (case rf_reason a of None \<Rightarrow> None
        | Some n \<Rightarrow> if trim n = [] then None else Some (trim n)),
      rfd_gatewayRefundId = rid, rfd_createdBy = rf_userId a, rfd_createdAt = now e\<rparr>"

definition create_refund :: "refund_row \<Rightarrow> db \<Rightarrow> db" where
  "create_refund r d =
     d\<lparr>refunds := create_row (r\<lparr>rfd_id := next_id d\<rparr>) (refunds d), next_id := Suc (next_id d)\<rparr>"

definition refunded_fields :: "cents \<Rightarrow> bool \<Rightarrow> invoice_row \<Rightarrow> invoice_row" where
  "refunded_fields newRefunded fullyRefunded r =
     r\<lparr>inv_amountRefunded := newRefunded,
       inv_status := (if fullyRefunded then Refunded else Partially_refunded)\<rparr>"

definition refund_tx ::
  "env \<Rightarrow> gateway_answer \<Rightarrow> id \<Rightarrow> refund_input \<Rightarrow> db \<Rightarrow> db result" where
  "refund_tx e gw i a d =
     bindr (found (find_invoice d i) RecordNotFound) (\<lambda>existing.
     bindr (guard (\<not> (inv_kind existing = Deposit_receipt \<and> \<not> rf_allowDepositReceipt a))
              (BadRequestException ''invoice_not_refundable'')) (\<lambda>_.
     bindr (guard (inv_status existing = Paid \<or> inv_status existing = Partially_refunded)
              (BadRequestException ''invoice_not_refundable'')) (\<lambda>_.
     let newRefunded = inv_amountRefunded existing + rf_amount a;
         fullyRefunded = newRefunded \<ge> inv_total existing
     in bindr (guard (\<not> (inv_total existing < newRefunded \<or> collected_cents d i < newRefunded))
                 (BadRequestException ''over_refund'')) (\<lambda>_.
        bindr (guard (\<not> (rf_rejectDuplicate a \<and> twin_refund e d i (rf_amount a)))
                 (ConflictException ''duplicate_refund'')) (\<lambda>_.
        bindr (return_money e gw i a d) (\<lambda>(d1, via, pid, rid).
        Inr (update_invoice i (refunded_fields newRefunded fullyRefunded)
               (create_refund (refund_row_of e i a via pid rid) d1))))))))"

definition refund ::
  "env \<Rightarrow> gateway_answer \<Rightarrow> facility_scope \<Rightarrow> id \<Rightarrow> refund_input \<Rightarrow> db \<Rightarrow> db result" where
  "refund e gw scope i a d =
     bindr (findOrThrow d scope i) (\<lambda>_.
     bindr (refund_tx e gw i a d) (\<lambda>d1.
     Inr (emit (Invoice_refunded i (rf_amount a)) (audit ''invoice.refunded'' i d1))))"

end
