(* ===== verification/Cancel.thy ===== *)
theory Cancel imports Payments begin

text \<open>
  Annulling an invoice (\<open>cancel\<close>, \<open>cancelIssued\<close>, \<open>cancelDepositReceipt\<close>), the late fee
  (\<open>createLateFee\<close>), the credit note of a refund (\<open>issueRefundCreditNote\<close>) and resending a record
  (\<open>resendAeat\<close>) of \<open>invoices.service.ts\<close>. These run several transactions: what was committed stays
  when a later one fails, so an operation returns the tables and the answer.
\<close>

section \<open>Giving back what an invoice consumed\<close>

definition releaseConsumedBenefits :: "id \<Rightarrow> db \<Rightarrow> db" where
  "releaseConsumedBenefits i d =
     (case find_invoice d i of
        None \<Rightarrow> d
      | Some row \<Rightarrow>
          (let d1 = (case (inv_contractId row, inv_benefits row) of
                 (Some c, Some b) \<Rightarrow> update_contract c
                   (\<lambda>k. k\<lparr>con_freeMonthsRemaining :=
                            con_freeMonthsRemaining k + (if ben_freeMonth b then 1 else 0),
                          con_pendingCredit := (if 0 < ben_creditCents b
                            then con_pendingCredit k + ben_creditCents b else con_pendingCredit k),
                          con_pendingCreditReason :=
                            (if 0 < ben_creditCents b \<and> ben_creditReason b \<notin> {None, Some []}
                             then ben_creditReason b else con_pendingCreditReason k)\<rparr>) d
               | _ \<Rightarrow> d);
               d2 = (if inv_benefits row = None then d1
                     else update_invoice i (\<lambda>r. r\<lparr>inv_benefits := None\<rparr>) d1)
           in d2\<lparr>referrals := update_many (\<lambda>r. rfr_rewardInvoiceId r = Some i)
                   (\<lambda>r. r\<lparr>rfr_rewardAppliedAt := None, rfr_rewardInvoiceId := None\<rparr>)
                   (referrals d2)\<rparr>))"

section \<open>Annulling an issued invoice\<close>

definition issuer_ready_for_credit :: "env \<Rightarrow> id \<Rightarrow> db \<Rightarrow> unit result" where
  "issuer_ready_for_credit e i d =
     bindr (found (find_invoice d i) RecordNotFound) (\<lambda>row.
     if inv_issuedBy row = By_holded then Inr () else assertIssuerFiscalData e d (inv_ownerId row))"

definition cancel_reserve :: "env \<Rightarrow> id \<Rightarrow> db \<Rightarrow> (db \<times> invoice_row) result" where
  "cancel_reserve e i d =
     bindr (found (find_invoice d i) RecordNotFound) (\<lambda>fresh.
     bindr (guard (inv_status fresh = Issued \<or> inv_status fresh = Overdue)
              (BadRequestException ''invoice_not_cancellable'')) (\<lambda>_.
     bindr (guard (inv_type fresh = F1 \<or> inv_type fresh = F2)
              (BadRequestException ''invoice_not_cancellable'')) (\<lambda>_.
     bindr (guard (\<not> 0 < inv_amountPaid fresh - inv_withholding fresh)
              (BadRequestException ''invoice_has_payments'')) (\<lambda>_.
     bindr (guard (count_rows (\<lambda>p. pay_status p \<in> {Pay_pending, Pay_processing}) (payments_of d i) = 0)
              (ConflictException ''payment_in_progress'')) (\<lambda>_.
     bindr (assertNotInSepaRemittance d i) (\<lambda>_.
     Inr (update_invoice i (\<lambda>r. r\<lparr>inv_status := Rectified, inv_cancelledAt := Some (now e)\<rparr>) d,
          fresh)))))))"

definition items_of :: "db \<Rightarrow> id \<Rightarrow> item_row list" where
  "items_of d i = sort_key it_position (filter (\<lambda>it. it_invoiceId it = i) (items d))"

definition negative_line :: "item_row \<Rightarrow> item_input" where
  "negative_line it =
     (let qty = it_quantity it; whole = (qty = of_int \<lfloor>qty\<rfloor> \<and> 0 < qty)
      in \<lparr>ii_description = it_description it,
          ii_quantity = (if whole then qty else 1),
          ii_unitPrice = - (if whole then it_unitPrice it
                            else ndiv (of_int (math_round (nmul (nmul qty (it_unitPrice it)) 100))) 100),
          ii_taxRate = it_taxRate it, ii_taxCategory = Some (it_taxCategory it),
          ii_relatedContractId = it_relatedContractId it, ii_relatedUnitId = it_relatedUnitId it,
          ii_periodStart = it_periodStart it, ii_periodEnd = it_periodEnd it\<rparr>)"

definition credit_type :: "invoice_row \<Rightarrow> invoice_type" where
  "credit_type original = (if inv_type original = F2 then R5 else R4)"

definition unreserve :: "invoice_row \<Rightarrow> db \<Rightarrow> db" where
  "unreserve original d =
     d\<lparr>invoices := update_many (\<lambda>r. inv_id r = inv_id original \<and> inv_status r = Rectified)
         (\<lambda>r. r\<lparr>inv_status := inv_status original, inv_cancelledAt := None\<rparr>) (invoices d)\<rparr>"

text \<open>A credit note still open after issuing is settled: nothing is left to collect.\<close>

definition settle_credit :: "env \<Rightarrow> id \<Rightarrow> db \<Rightarrow> db" where
  "settle_credit e i d =
     d\<lparr>invoices := update_many (\<lambda>r. inv_id r = i \<and> inv_status r = Issued)
         (\<lambda>r. r\<lparr>inv_status := Paid, inv_amountPaid := inv_total r, inv_paidAt := Some (now e),
                inv_dueDate := None\<rparr>) (invoices d)\<rparr>"

definition cancel_lines :: "db \<Rightarrow> invoice_row \<Rightarrow> string \<Rightarrow> rectify_input" where
  "cancel_lines d original reason =
     \<lparr>rc_type = credit_type original, rc_reason = reason, rc_method = Some By_differences,
      rc_issueDate = None, rc_items = map negative_line (items_of d (inv_id original))\<rparr>"

definition issue_and_settle :: "env \<Rightarrow> id \<Rightarrow> db \<Rightarrow> db \<times> unit result" where
  "issue_and_settle e i d =
     (case issue e None None True i d of
        (d1, Inl err) \<Rightarrow> (d1, Inl err)
      | (d1, Inr _) \<Rightarrow> (settle_credit e i d1, Inr ()))"

definition cancelIssued ::
  "env \<Rightarrow> (id \<Rightarrow> string \<Rightarrow> db \<Rightarrow> db) \<Rightarrow> id \<Rightarrow> string option \<Rightarrow> db \<Rightarrow> db \<times> unit result" where
  "cancelIssued e orphan i reason d =
     (let why = (case reason of None \<Rightarrow> ''Anulacion de la factura''
                 | Some r \<Rightarrow> if trim r = [] then ''Anulacion de la factura'' else trim r)
      in case issuer_ready_for_credit e i d of
           Inl err \<Rightarrow> (d, Inl err)
         | Inr _ \<Rightarrow>
             (case cancel_reserve e i d of
                Inl err \<Rightarrow> (d, Inl err)
              | Inr (d1, original) \<Rightarrow>
                  (case rectify e None True i (cancel_lines d original why) d1 of
                     Inl err \<Rightarrow> (unreserve original d1, Inl err)
                   | Inr (d2, credit) \<Rightarrow>
                       (let d3 = fst (issue_and_settle e (inv_id credit) d2);
                            d4 = releaseConsumedBenefits i
                                   (audit ''invoice.cancelled_with_rectification'' i d3)
                        in (emit (Invoice_voided i) (orphan i (inv_number original) d4), Inr ())))))"

definition cancelDepositReceipt :: "env \<Rightarrow> id \<Rightarrow> db \<Rightarrow> db result" where
  "cancelDepositReceipt e i d =
     bindr (found (find_invoice d i) RecordNotFound) (\<lambda>fresh.
     bindr (guard (inv_status fresh = Issued \<or> inv_status fresh = Overdue)
              (BadRequestException ''invoice_not_cancellable'')) (\<lambda>_.
     bindr (guard (\<not> 0 < inv_amountPaid fresh) (BadRequestException ''invoice_has_payments'')) (\<lambda>_.
     bindr (assertNotInSepaRemittance d i) (\<lambda>_.
     Inr (audit ''invoice.deposit_receipt_cancelled'' i
            (update_invoice i (\<lambda>r. r\<lparr>inv_status := Cancelled, inv_cancelledAt := Some (now e)\<rparr>) d))))))"

text \<open>
  Annulling, given what to do with the late fee of the annulled invoice. The draft is read before
  the conditional update; when it was issued meanwhile, it is annulled as an issued one.
\<close>

definition cancel_from ::
  "env \<Rightarrow> (id \<Rightarrow> string \<Rightarrow> db \<Rightarrow> db) \<Rightarrow> invoice_row \<Rightarrow> string option \<Rightarrow> db \<Rightarrow> db \<times> unit result" where
  "cancel_from e orphan existing reason d =
     (let i = inv_id existing
      in if inv_kind existing = Deposit_receipt
         then (case cancelDepositReceipt e i d of Inl err \<Rightarrow> (d, Inl err) | Inr d1 \<Rightarrow> (d1, Inr ()))
         else if inv_status existing \<noteq> Draft then cancelIssued e orphan i reason d
         else if count_rows (\<lambda>r. inv_id r = i \<and> inv_status r = Draft) (invoices d) = 0
         then cancelIssued e orphan i reason d
         else (let d1 = d\<lparr>invoices := update_many (\<lambda>r. inv_id r = i \<and> inv_status r = Draft)
                     (\<lambda>r. r\<lparr>inv_status := Cancelled, inv_cancelledAt := Some (now e)\<rparr>) (invoices d)\<rparr>;
                   d2 = releaseConsumedBenefits i d1
               in (emit (Invoice_cancelled i) (audit ''invoice.cancelled'' i d2), Inr ())))"

definition cancel_with ::
  "env \<Rightarrow> (id \<Rightarrow> string \<Rightarrow> db \<Rightarrow> db) \<Rightarrow> facility_scope \<Rightarrow> id \<Rightarrow> string option \<Rightarrow> db \<Rightarrow> db \<times> unit result"
where
  "cancel_with e orphan scope i reason d =
     (case findOrThrow d scope i of
        Inl err \<Rightarrow> (d, Inl err)
      | Inr existing \<Rightarrow> cancel_from e orphan existing reason d)"

text \<open>
  The late fee without payments of an annulled invoice is annulled too; a failure is only logged.
  A late fee never has a late fee of its own (\<open>late_fee_on_late_fee\<close>), so the step is not repeated
  for it.
\<close>

definition cancelOrphanLateFee :: "env \<Rightarrow> id \<Rightarrow> string \<Rightarrow> db \<Rightarrow> db" where
  "cancelOrphanLateFee e originalId originalNumber d =
     (case find_first (\<lambda>r. inv_lateFeeFor r = Some originalId \<and>
                           inv_status r \<in> {Draft, Issued, Overdue} \<and> \<not> inv_deleted r) (invoices d) of
        None \<Rightarrow> d
      | Some fee \<Rightarrow>
          (if 0 < inv_amountPaid fee then d
           else fst (cancel_with e (\<lambda>_ _ d. d) None (inv_id fee)
                       (Some (''Anulada la factura '' @ originalNumber)) d)))"

definition cancel :: "env \<Rightarrow> facility_scope \<Rightarrow> id \<Rightarrow> string option \<Rightarrow> db \<Rightarrow> db \<times> unit result" where
  "cancel e scope i reason d = cancel_with e (cancelOrphanLateFee e) scope i reason d"

section \<open>Late fee\<close>

record late_fee_config =
  lf_enabled :: bool
  lf_fixed :: bool
  lf_value :: rat

record late_fee =
  fee_customerId :: id
  fee_contractId :: "id option"
  fee_ownerId :: "id option"
  fee_label :: string
  fee_amount :: cents

definition late_fee_cents :: "late_fee_config \<Rightarrow> invoice_row \<Rightarrow> cents" where
  "late_fee_cents c original =
     (if lf_fixed c then toCents (lf_value c)
      else math_round (nmul (of_int (max 0 (inv_total original - inv_amountPaid original)))
                            (ndiv (lf_value c) 100)))"

definition is_overdue :: "env \<Rightarrow> invoice_row \<Rightarrow> bool" where
  "is_overdue e i \<longleftrightarrow>
     inv_status i = Overdue \<or>
     (inv_status i = Issued \<and> (case inv_dueDate i of None \<Rightarrow> False | Some due \<Rightarrow> due < today e))"

definition lateFeeFor :: "env \<Rightarrow> late_fee_config \<Rightarrow> db \<Rightarrow> id \<Rightarrow> late_fee result" where
  "lateFeeFor e c d i =
     bindr (found (find_invoice d i) (NotFoundException ''invoice_not_found'')) (\<lambda>original.
     bindr (guard (inv_kind original \<noteq> Deposit_receipt) (BadRequestException ''invoice_not_chargeable'')) (\<lambda>_.
     bindr (guard (inv_lateFeeFor original = None) (BadRequestException ''late_fee_on_late_fee'')) (\<lambda>_.
     bindr (guard (\<not> (\<exists>r\<in>set (invoices d). inv_lateFeeFor r = Some i))
              (ConflictException ''late_fee_already_applied'')) (\<lambda>_.
     bindr (found (inv_customerId original) (BadRequestException ''customer_required'')) (\<lambda>cu.
     bindr (guard (is_overdue e original) (BadRequestException ''invoice_not_overdue'')) (\<lambda>_.
     bindr (guard (lf_enabled c) (BadRequestException ''late_fee_disabled'')) (\<lambda>_.
     bindr (guard (\<not> late_fee_cents c original \<le> 0) (BadRequestException ''late_fee_zero'')) (\<lambda>_.
     Inr \<lparr>fee_customerId = cu, fee_contractId = inv_contractId original,
          fee_ownerId = inv_ownerId original, fee_label = inv_number original,
          fee_amount = late_fee_cents c original\<rparr>))))))))"

definition fee_line :: "late_fee \<Rightarrow> item_input" where
  "fee_line f =
     \<lparr>ii_description = ''Recargo por mora - factura '' @ fee_label f, ii_quantity = 1,
      ii_unitPrice = euros (fee_amount f), ii_taxRate = 0, ii_taxCategory = None,
      ii_relatedContractId = None, ii_relatedUnitId = None, ii_periodStart = None,
      ii_periodEnd = None\<rparr>"

text \<open>
  \<open>createLateFee\<close> after the checks: a draft of the same issuer, linked to the overdue invoice under
  the unique index of \<open>late_fee_for_invoice_id\<close>, and issued. When another request has linked its
  own fee meanwhile, the draft is cancelled.
\<close>

definition createLateFee_from ::
  "env \<Rightarrow> facility_scope \<Rightarrow> late_fee \<Rightarrow> id \<Rightarrow> db \<Rightarrow> db \<times> unit result" where
  "createLateFee_from e scope f i d =
     (case (if fee_ownerId f = None
            then found (getDefault d) (BadRequestException ''no_default_series'') else Inr default_series) of
        Inl err \<Rightarrow> (d, Inl err)
      | Inr s \<Rightarrow>
          (case create_invoice e d None (Some (fee_ownerId f)) None
                  \<lparr>ci_customerId = Some (fee_customerId f), ci_contractId = fee_contractId f,
                   ci_seriesId = (if fee_ownerId f = None then Some (ser_id s) else None),
                   ci_invoiceType = Some F1, ci_justification = None, ci_issueDate = None,
                   ci_dueDate = None, ci_periodStart = None, ci_periodEnd = None, ci_notes = None,
                   ci_items = [fee_line f]\<rparr> of
             Inl err \<Rightarrow> (d, Inl err)
           | Inr (d1, created) \<Rightarrow>
               (if \<exists>r\<in>set (invoices d1). inv_lateFeeFor r = Some i
                then (fst (cancel e scope (inv_id created)
                             (Some ''Recargo duplicado (carrera con otra peticion)'') d1),
                      Inl (ConflictException ''late_fee_already_applied''))
                else issue e None None True (inv_id created)
                       (update_invoice (inv_id created) (\<lambda>r. r\<lparr>inv_lateFeeFor := Some i\<rparr>) d1))))"

definition createLateFee ::
  "env \<Rightarrow> late_fee_config \<Rightarrow> facility_scope \<Rightarrow> id \<Rightarrow> db \<Rightarrow> db \<times> unit result" where
  "createLateFee e c scope i d =
     (case findOrThrow d scope i of
        Inl err \<Rightarrow> (d, Inl err)
      | Inr _ \<Rightarrow> (case lateFeeFor e c d i of
                    Inl err \<Rightarrow> (d, Inl err)
                  | Inr f \<Rightarrow> createLateFee_from e scope f i d))"

text \<open>\<open>detail\<close>, and the late fee that would be charged, without issuing anything.\<close>

definition invoiceDetail :: "facility_scope \<Rightarrow> id \<Rightarrow> db \<Rightarrow> invoice_row result" where
  "invoiceDetail scope i d = findOrThrow d scope i"

definition lateFeePreview ::
  "env \<Rightarrow> late_fee_config \<Rightarrow> facility_scope \<Rightarrow> id \<Rightarrow> db \<Rightarrow> (cents \<times> bool \<times> rat) result" where
  "lateFeePreview e c scope i d =
     bindr (findOrThrow d scope i) (\<lambda>_.
     bindr (lateFeeFor e c d i) (\<lambda>f.
     Inr (fee_amount f, lf_fixed c, lf_value c)))"

section \<open>Credit note of a refund\<close>

definition REFUND_CREDIT_REASON :: string where
  "REFUND_CREDIT_REASON = ''Reembolso de lo cobrado''"

definition refund_to_credit :: "db \<Rightarrow> invoice_row \<Rightarrow> cents" where
  "refund_to_credit d original =
     (let i = inv_id original;
          credited = sum_list (map (\<lambda>c. - min 0 (inv_total c))
            (filter (\<lambda>c. inv_rectifies c = Some i \<and> inv_correctionMethod c = Some By_differences \<and>
                         0 < inv_sequence c \<and> \<not> inv_deleted c) (invoices d)));
          compensated = sum_list (map pay_amount
            (filter (\<lambda>p. pay_method p = Credit_note \<and> pay_status p = Pay_succeeded) (payments_of d i)));
          covered = max 0 (credited - compensated)
      in min (inv_amountRefunded original) (inv_total original) - covered)"

text \<open>The gross amount of every tax rate and category, in the order they first appear.\<close>

fun add_gross :: "rat \<times> tax_category \<Rightarrow> cents \<Rightarrow> ((rat \<times> tax_category) \<times> cents) list
    \<Rightarrow> ((rat \<times> tax_category) \<times> cents) list" where
  "add_gross k c [] = [(k, c)]"
| "add_gross k c ((k', c') # gs) = (if k = k' then (k', c' + c) # gs else (k', c') # add_gross k c gs)"

definition gross_by_rate :: "item_row list \<Rightarrow> ((rat \<times> tax_category) \<times> cents) list" where
  "gross_by_rate its =
     foldl (\<lambda>gs it. add_gross (it_taxRate it, it_taxCategory it) (it_total it) gs) [] its"

definition credit_line :: "string \<Rightarrow> rat \<Rightarrow> tax_category \<Rightarrow> cents \<Rightarrow> item_input" where
  "credit_line number rate category share =
     (let net0 = math_round (ndiv (of_int share) (nadd 1 (ndiv rate 100)));
          tax = math_round (ndiv (nmul (of_int net0) rate) 100);
          net = net0 + (share - (net0 + tax))
      in \<lparr>ii_description = ''Abono por reembolso de la factura '' @ number, ii_quantity = 1,
          ii_unitPrice = ndiv (of_int (- net)) 100, ii_taxRate = rate,
          ii_taxCategory = Some category, ii_relatedContractId = None, ii_relatedUnitId = None,
          ii_periodStart = None, ii_periodEnd = None\<rparr>)"

fun credit_lines ::
  "string \<Rightarrow> cents \<Rightarrow> cents \<Rightarrow> cents \<Rightarrow> ((rat \<times> tax_category) \<times> cents) list \<Rightarrow> item_input list" where
  "credit_lines number refundCents gross_total assigned [] = []"
| "credit_lines number refundCents gross_total assigned (((rate, cat), gross) # gs) =
     (let share = (if gs = [] then refundCents - assigned
                   else math_round (ndiv (of_int (refundCents * gross)) (of_int gross_total)))
      in credit_line number rate cat share
         # credit_lines number refundCents gross_total (assigned + share) gs)"

definition refund_rates :: "item_row list \<Rightarrow> ((rat \<times> tax_category) \<times> cents) list" where
  "refund_rates its = sort_key (\<lambda>g. - fst (fst g)) (filter (\<lambda>g. 0 < snd g) (gross_by_rate its))"

definition cancel_stale_credits :: "id \<Rightarrow> db \<Rightarrow> db" where
  "cancel_stale_credits i d =
     d\<lparr>invoices := update_many
         (\<lambda>r. inv_rectifies r = Some i \<and> inv_status r = Draft \<and>
              inv_rectificationReason r = Some REFUND_CREDIT_REASON \<and> \<not> inv_deleted r)
         (\<lambda>r. r\<lparr>inv_status := Cancelled\<rparr>) (invoices d)\<rparr>"

definition issueRefundCreditNote :: "env \<Rightarrow> id \<Rightarrow> db \<Rightarrow> db \<times> unit result" where
  "issueRefundCreditNote e i d =
     (case find_first (\<lambda>r. inv_id r = i \<and> \<not> inv_deleted r) (invoices d) of
        None \<Rightarrow> (d, Inr ())
      | Some original \<Rightarrow>
          (if inv_kind original \<noteq> Invoice_kind \<or> (inv_type original \<noteq> F1 \<and> inv_type original \<noteq> F2)
           then (d, Inr ())
           else (let refundCents = refund_to_credit d original
                 in if refundCents \<le> 0 \<or> inv_total original \<le> 0 then (d, Inr ())
                    else (let lines = credit_lines (inv_number original) refundCents
                                        (inv_total original) 0
                                        (refund_rates (filter (\<lambda>it. it_invoiceId it = i) (items d)));
                              d1 = cancel_stale_credits i d
                          in case rectify e None True i
                                    \<lparr>rc_type = credit_type original, rc_reason = REFUND_CREDIT_REASON,
                                     rc_method = Some By_differences, rc_issueDate = None,
                                     rc_items = lines\<rparr> d1 of
                               Inl err \<Rightarrow> (d1, Inl err)
                             | Inr (d2, draft) \<Rightarrow> issue_and_settle e (inv_id draft) d2))))"

definition onInvoiceRefunded :: "env \<Rightarrow> id \<Rightarrow> db \<Rightarrow> db" where
  "onInvoiceRefunded e i d =
     (case issueRefundCreditNote e i d of
        (d1, Inr _) \<Rightarrow> d1
      | (d1, Inl _) \<Rightarrow>
          d1\<lparr>notifications := notifications d1 @ [''invoice.refund_credit_note_failed'']\<rparr>)"

section \<open>Resending a record; several invoices at once\<close>

definition resendAeat :: "facility_scope \<Rightarrow> id \<Rightarrow> db \<Rightarrow> db result" where
  "resendAeat scope i d =
     bindr (findOrThrow d scope i) (\<lambda>existing.
     bindr (guard (inv_status existing \<noteq> Draft \<and> inv_status existing \<noteq> Cancelled)
              (BadRequestException ''invoice_draft_not_sendable'')) (\<lambda>_.
     bindr (guard (inv_kind existing \<noteq> Deposit_receipt) (BadRequestException ''not_an_invoice'')) (\<lambda>_.
     bindr (guard (inv_issuedBy existing \<noteq> By_holded) (BadRequestException ''issued_by_holded'')) (\<lambda>_.
     bindr (guard (\<not> (\<exists>st. vf_aeatStatus (inv_vf existing) = Some st \<and> accepted st))
              (BadRequestException ''already_accepted'')) (\<lambda>_.
     let d1 = update_invoice i
           (\<lambda>r. r\<lparr>inv_vf := (inv_vf r)\<lparr>vf_aeatStatus := Some Aeat_pending, vf_aeatCsv := None\<rparr>\<rparr>) d
     in Inr (d1\<lparr>verifactu_queue := verifactu_queue d1 @ [i]\<rparr>))))))"

text \<open>Asking the tax agency what became of a record that was sent.\<close>

definition refreshAeatStatus :: "aeat_client \<Rightarrow> facility_scope \<Rightarrow> id \<Rightarrow> db \<Rightarrow> db \<times> invoice_row result" where
  "refreshAeatStatus cl scope i d =
     (case bindr (findOrThrow d scope i) (\<lambda>existing.
           bindr (guard (inv_kind existing \<noteq> Deposit_receipt) (BadRequestException ''not_an_invoice'')) (\<lambda>_.
           guard (inv_status existing \<noteq> Draft) (BadRequestException ''invoice_draft_not_sendable''))) of
        Inl err \<Rightarrow> (d, Inl err)
      | Inr _ \<Rightarrow> (case refreshStatus cl d i of (d', answer) \<Rightarrow> (d', findOrThrow d' None i)))"

fun bulkIssue :: "env \<Rightarrow> facility_scope \<Rightarrow> id list \<Rightarrow> db \<Rightarrow> db \<times> id list \<times> (id \<times> exn) list" where
  "bulkIssue e scope [] d = (d, [], [])"
| "bulkIssue e scope (i # is) d =
     (case issue e scope None True i d of
        (d1, Inr _) \<Rightarrow> (case bulkIssue e scope is d1 of (d2, ok, failed) \<Rightarrow> (d2, i # ok, failed))
      | (d1, Inl err) \<Rightarrow>
          (case bulkIssue e scope is d1 of (d2, ok, failed) \<Rightarrow> (d2, ok, (i, err) # failed)))"

end
