(* ===== verification/Stock.thy ===== *)
theory Stock imports Cancel begin

text \<open>
  Product stock (\<open>apps/api/src/modules/products/product-stock.service.ts\<close>): stock per product and
  facility, changed by adjustments, absolute counts, sales and cancelled sales, each with its
  movement. The invariant is that the stock on hand is the sum of its movements and never
  negative.
\<close>

section \<open>Tables of the shop\<close>

datatype movement_kind = Mv_adjust | Mv_set | Mv_sale | Mv_sale_cancelled

datatype sale_status = Sale_pending | Sale_paid | Sale_cancelled

record product_row =
  prd_id :: id
  prd_name :: string
  prd_price :: cents
  prd_taxRate :: rat
  prd_isActive :: bool
  prd_deleted :: bool

record stock_row =
  st_productId :: id
  st_facilityId :: id
  st_quantity :: int

record movement_row =
  mv_productId :: id
  mv_facilityId :: id
  mv_delta :: int
  mv_quantityAfter :: "int option"
  mv_kind :: movement_kind
  mv_reason :: "string option"
  mv_saleId :: "id option"
  mv_userId :: "id option"
  mv_createdAt :: instant

record sale_row =
  sal_id :: id
  sal_facilityId :: id
  sal_customerId :: "id option"
  sal_invoiceId :: "id option"
  sal_status :: sale_status
  sal_total :: rat
  sal_notes :: "string option"
  sal_soldBy :: "id option"
  sal_cancelledAt :: "instant option"

record sale_item_row =
  si_saleId :: id
  si_productId :: id
  si_unitPrice :: rat
  si_quantity :: int
  si_taxRate :: rat
  si_lineSubtotal :: rat
  si_lineTotal :: rat

record shop =
  books :: db
  products :: "product_row list"
  stocks :: "stock_row list"
  movements :: "movement_row list"
  sales :: "sale_row list"
  sale_items :: "sale_item_row list"
  next_sale :: id

definition at_place :: "id \<Rightarrow> id \<Rightarrow> stock_row \<Rightarrow> bool" where
  "at_place p f s \<longleftrightarrow> st_productId s = p \<and> st_facilityId s = f"

section \<open>Operations on stock\<close>

definition decrementInTx :: "id \<Rightarrow> id \<Rightarrow> int \<Rightarrow> shop \<Rightarrow> shop result" where
  "decrementInTx p f q sh =
     (let hit = (\<lambda>s. at_place p f s \<and> q \<le> st_quantity s)
      in bindr (guard (count_rows hit (stocks sh) = 1) (ConflictException ''insufficient_stock'')) (\<lambda>_.
         Inr (sh\<lparr>stocks := update_many hit (\<lambda>s. s\<lparr>st_quantity := st_quantity s - q\<rparr>) (stocks sh)\<rparr>)))"

definition upsert_stock :: "id \<Rightarrow> id \<Rightarrow> int \<Rightarrow> (int \<Rightarrow> int) \<Rightarrow> shop \<Rightarrow> shop" where
  "upsert_stock p f initial change sh =
     sh\<lparr>stocks := (if \<exists>s\<in>set (stocks sh). at_place p f s
        then update_many (at_place p f) (\<lambda>s. s\<lparr>st_quantity := change (st_quantity s)\<rparr>) (stocks sh)
        else create_row \<lparr>st_productId = p, st_facilityId = f, st_quantity = initial\<rparr> (stocks sh))\<rparr>"

definition restoreInTx :: "id \<Rightarrow> id \<Rightarrow> int \<Rightarrow> shop \<Rightarrow> shop" where
  "restoreInTx p f q sh = upsert_stock p f q (\<lambda>k. k + q) sh"

definition recordMovement :: "movement_row \<Rightarrow> shop \<Rightarrow> shop" where
  "recordMovement m sh = sh\<lparr>movements := create_row m (movements sh)\<rparr>"

definition assertFacility :: "shop \<Rightarrow> id \<Rightarrow> unit result" where
  "assertFacility sh f =
     guard (\<exists>r\<in>set (facilities (books sh)). fac_id r = f \<and> \<not> fac_deleted r) (NotFoundException ''facility_not_found'')"

definition assertProductExists :: "shop \<Rightarrow> id \<Rightarrow> product_row result" where
  "assertProductExists sh p =
     found (find_first (\<lambda>r. prd_id r = p \<and> \<not> prd_deleted r) (products sh)) (NotFoundException ''product_not_found'')"

definition find_stock :: "shop \<Rightarrow> id \<Rightarrow> id \<Rightarrow> stock_row option" where
  "find_stock sh p f = find_first (at_place p f) (stocks sh)"

record stock_input =
  sk_facilityId :: id
  sk_amount :: int
  sk_notes :: "string option"

definition stock_movement ::
  "env \<Rightarrow> id \<Rightarrow> id \<Rightarrow> int \<Rightarrow> int option \<Rightarrow> movement_kind \<Rightarrow> string option \<Rightarrow> id option \<Rightarrow> id option
    \<Rightarrow> movement_row" where
  "stock_movement e p f delta after kind reason sale user =
     \<lparr>mv_productId = p, mv_facilityId = f, mv_delta = delta, mv_quantityAfter = after,
      mv_kind = kind, mv_reason = reason, mv_saleId = sale, mv_userId = user,
      mv_createdAt = now e\<rparr>"

definition adjust :: "env \<Rightarrow> id \<Rightarrow> id \<Rightarrow> stock_input \<Rightarrow> shop \<Rightarrow> (shop \<times> stock_row) result" where
  "adjust e user p a sh =
     (let f = sk_facilityId a; delta = sk_amount a
      in bindr (assertProductExists sh p) (\<lambda>_.
         bindr (assertFacility sh f) (\<lambda>_.
         bindr (if delta < 0 then decrementInTx p f (- delta) sh
                else Inr (upsert_stock p f delta (\<lambda>k. k + delta) sh)) (\<lambda>sh1.
         bindr (found (find_stock sh1 p f) RecordNotFound) (\<lambda>row.
         let sh2 = recordMovement (stock_movement e p f delta (Some (st_quantity row)) Mv_adjust
                     (sk_notes a) None (Some user)) sh1
         in Inr (sh2\<lparr>books := audit ''product_stock.adjusted'' p (books sh2)\<rparr>, row))))))"

definition set_stock :: "env \<Rightarrow> id \<Rightarrow> id \<Rightarrow> stock_input \<Rightarrow> shop \<Rightarrow> (shop \<times> stock_row) result" where
  "set_stock e user p a sh =
     (let f = sk_facilityId a; q = sk_amount a
      in bindr (assertProductExists sh p) (\<lambda>_.
         bindr (assertFacility sh f) (\<lambda>_.
         let before = (case find_stock sh p f of None \<Rightarrow> 0 | Some s \<Rightarrow> st_quantity s);
             sh1 = upsert_stock p f q (\<lambda>_. q) sh
         in bindr (found (find_stock sh1 p f) RecordNotFound) (\<lambda>row.
            let delta = q - before;
                sh2 = (if delta \<noteq> 0
                       then recordMovement (stock_movement e p f delta (Some (st_quantity row)) Mv_set
                              (sk_notes a) None (Some user)) sh1
                       else sh1)
            in Inr (sh2\<lparr>books := audit ''product_stock.set'' p (books sh2)\<rparr>, row)))))"

definition facility_name :: "shop \<Rightarrow> id \<Rightarrow> string" where
  "facility_name sh f =
     (case find_first (\<lambda>r. fac_id r = f) (facilities (books sh)) of None \<Rightarrow> [] | Some r \<Rightarrow> fac_name r)"

definition listByProduct :: "shop \<Rightarrow> facility_scope \<Rightarrow> id \<Rightarrow> stock_row list result" where
  "listByProduct sh scope p =
     bindr (assertProductExists sh p) (\<lambda>_.
     Inr (sort_key (\<lambda>s. facility_name sh (st_facilityId s))
       (filter (\<lambda>s. st_productId s = p \<and>
                      filter_admits (resolveFacilityFilter scope None) (st_facilityId s) \<and>
                      (\<exists>r\<in>set (facilities (books sh)). fac_id r = st_facilityId s \<and> \<not> fac_deleted r))
         (stocks sh))))"

definition listMovements :: "shop \<Rightarrow> facility_scope \<Rightarrow> id \<Rightarrow> movement_row list result" where
  "listMovements sh scope p =
     bindr (assertProductExists sh p) (\<lambda>_.
     Inr (take 200 (rev (filter (\<lambda>m. mv_productId m = p \<and>
            filter_admits (resolveFacilityFilter scope None) (mv_facilityId m)) (movements sh)))))"

section \<open>The stock on hand and its movements\<close>

definition quantity :: "shop \<Rightarrow> id \<Rightarrow> id \<Rightarrow> int" where
  "quantity sh p f = (case find_stock sh p f of None \<Rightarrow> 0 | Some s \<Rightarrow> st_quantity s)"

definition moved :: "shop \<Rightarrow> id \<Rightarrow> id \<Rightarrow> int" where
  "moved sh p f =
     sum_list (map mv_delta (filter (\<lambda>m. mv_productId m = p \<and> mv_facilityId m = f) (movements sh)))"

definition stock_key :: "stock_row \<Rightarrow> id \<times> id" where
  "stock_key s = (st_productId s, st_facilityId s)"

definition stock_wf :: "shop \<Rightarrow> bool" where
  "stock_wf sh \<longleftrightarrow> distinct (map stock_key (stocks sh)) \<and> (\<forall>s\<in>set (stocks sh). 0 \<le> st_quantity s)"

lemma at_place_key: "at_place p f s \<longleftrightarrow> stock_key s = (p, f)"
  by (auto simp: at_place_def stock_key_def)

lemma quantity_cases:
  assumes "stock_wf sh"
  obtains (absent) "\<forall>s\<in>set (stocks sh). \<not> at_place p f s" and "quantity sh p f = 0"
  | (present) xs s ys where "stocks sh = xs @ s # ys" and "at_place p f s"
    and "quantity sh p f = st_quantity s"
    and "\<forall>t\<in>set xs \<union> set ys. \<not> at_place p f t"
proof (cases "find_stock sh p f")
  case None
  then have "\<forall>s\<in>set (stocks sh). \<not> at_place p f s" by (simp add: find_stock_def find_first_None_iff)
  moreover have "quantity sh p f = 0" using None by (simp add: quantity_def)
  ultimately show ?thesis by (rule absent)
next
  case (Some s)
  then have "s \<in> set (stocks sh)" and at: "at_place p f s"
    by (auto simp: find_stock_def dest: find_first_SomeD)
  then obtain xs ys where rows: "stocks sh = xs @ s # ys" by (meson split_list)
  moreover have "\<forall>t\<in>set xs \<union> set ys. \<not> at_place p f t"
    using assms at rows by (auto simp: stock_wf_def at_place_key image_iff)
  ultimately show ?thesis using present Some at by (simp add: quantity_def)
qed

text \<open>Changing the quantity of one place.\<close>

lemma change_one_place:
  assumes wf: "stock_wf sh" and rows: "stocks sh = xs @ s # ys" and at: "at_place p f s"
    and rows': "stocks sh' = xs @ s\<lparr>st_quantity := q\<rparr> # ys" and q: "0 \<le> q"
  shows "stock_wf sh'" and "quantity sh' p' f' = (if p' = p \<and> f' = f then q else quantity sh p' f')"
proof -
  have keys: "map stock_key (stocks sh') = map stock_key (stocks sh)"
    by (simp add: rows rows' stock_key_def)
  show wf': "stock_wf sh'" using wf q unfolding stock_wf_def keys by (auto simp: rows rows')
  have find: "find_first (at_place a b) (us @ t # vs) =
      (case find_first (at_place a b) us of None \<Rightarrow>
         (if at_place a b t then Some t else find_first (at_place a b) vs) | Some r \<Rightarrow> Some r)" for a b us t vs
    by (simp add: find_first_append split: option.splits)
  have xs: "\<not> at_place p f t" if "t \<in> set xs" for t
    using wf at that rows by (auto simp: stock_wf_def at_place_key) (metis image_eqI)
  have none: "find_first (at_place p f) xs = None" using xs by (simp add: find_first_None_iff)
  have same: "at_place a b (s\<lparr>st_quantity := q\<rparr>) = at_place a b s" for a b
    by (simp add: at_place_def)
  show "quantity sh' p' f' = (if p' = p \<and> f' = f then q else quantity sh p' f')"
  proof (cases "p' = p \<and> f' = f")
    case True
    then show ?thesis using none at by (simp add: quantity_def find_stock_def rows' find same)
  next
    case False
    then have "\<not> at_place p' f' s" using at by (auto simp: at_place_def)
    then show ?thesis unfolding if_not_P [OF False]
      by (simp add: quantity_def find_stock_def rows rows' find same)
  qed
qed

lemma decrementInTx_spec:
  assumes wf: "stock_wf sh" and run: "decrementInTx p f q sh = Inr sh'"
  shows "stock_wf sh'" and "movements sh' = movements sh" and "q \<le> quantity sh p f"
    and "quantity sh' p' f' = quantity sh p' f' - (if p' = p \<and> f' = f then q else 0)"
proof -
  let ?hit = "\<lambda>s. at_place p f s \<and> q \<le> st_quantity s"
  have one: "count_rows ?hit (stocks sh) = 1"
    and sh': "sh' = sh\<lparr>stocks := update_many ?hit (\<lambda>s. s\<lparr>st_quantity := st_quantity s - q\<rparr>) (stocks sh)\<rparr>"
    using run by (auto simp: decrementInTx_def Let_def elim!: bindrE)
  show "movements sh' = movements sh" by (simp add: sh')
  have hit: "\<exists>s\<in>set (stocks sh). ?hit s" using one count_rows_pos [of ?hit "stocks sh"] by simp
  obtain xs s ys where rows: "stocks sh = xs @ s # ys" "at_place p f s" "quantity sh p f = st_quantity s"
    and others: "\<forall>t\<in>set xs \<union> set ys. \<not> at_place p f t"
    using quantity_cases [OF wf, of p f] hit by metis
  have le: "q \<le> st_quantity s" using hit rows others by auto
  have "update_many ?hit (\<lambda>s. s\<lparr>st_quantity := st_quantity s - q\<rparr>) zs = zs"
    if "\<forall>t\<in>set zs. \<not> at_place p f t" for zs
    using that by (intro update_many_no_match) blast
  then have rows': "stocks sh' = xs @ s\<lparr>st_quantity := st_quantity s - q\<rparr> # ys"
    using rows others le by (simp add: sh' update_many_def)
  show "q \<le> quantity sh p f" using le rows(3) by simp
  show "stock_wf sh'" "quantity sh' p' f' = quantity sh p' f' - (if p' = p \<and> f' = f then q else 0)"
    using change_one_place [OF wf rows(1,2) rows'] le rows(3) by simp_all
qed

lemma upsert_stock_spec:
  assumes wf: "stock_wf sh" and q: "0 \<le> q" and ch: "change (quantity sh p f) = q"
    and init: "(\<forall>s\<in>set (stocks sh). \<not> at_place p f s) \<Longrightarrow> initial = q"
  shows "stock_wf (upsert_stock p f initial change sh)"
    and "movements (upsert_stock p f initial change sh) = movements sh"
    and "quantity (upsert_stock p f initial change sh) p' f' =
      (if p' = p \<and> f' = f then q else quantity sh p' f')"
proof -
  let ?sh' = "upsert_stock p f initial change sh"
  show "movements ?sh' = movements sh" by (simp add: upsert_stock_def)
  show "stock_wf ?sh'" "quantity ?sh' p' f' = (if p' = p \<and> f' = f then q else quantity sh p' f')"
  proof (atomize (full), cases "\<forall>s\<in>set (stocks sh). \<not> at_place p f s")
    case True
    have rows': "stocks ?sh' = stocks sh @ [\<lparr>st_productId = p, st_facilityId = f, st_quantity = q\<rparr>]"
      using True init by (auto simp: upsert_stock_def create_row_def)
    have "(p, f) \<notin> stock_key ` set (stocks sh)" using True by (auto simp: at_place_key)
    then have "stock_wf ?sh'" using wf q unfolding stock_wf_def rows' by (auto simp: stock_key_def)
    moreover have "find_first (at_place p f) (stocks sh) = None" using True by (simp add: find_first_None_iff)
    ultimately show "stock_wf ?sh' \<and> quantity ?sh' p' f' = (if p' = p \<and> f' = f then q else quantity sh p' f')"
      by (auto simp: quantity_def find_stock_def rows' find_first_append at_place_def split: option.splits)
  next
    case False
    obtain xs s ys where rows: "stocks sh = xs @ s # ys" "at_place p f s" "quantity sh p f = st_quantity s"
      and others: "\<forall>t\<in>set xs \<union> set ys. \<not> at_place p f t"
      using quantity_cases [OF wf, of p f] False by metis
    have "update_many (at_place p f) (\<lambda>s. s\<lparr>st_quantity := change (st_quantity s)\<rparr>) zs = zs"
      if "\<forall>t\<in>set zs. \<not> at_place p f t" for zs
      using that by (rule update_many_no_match)
    then have rows': "stocks ?sh' = xs @ s\<lparr>st_quantity := q\<rparr> # ys"
      using rows others False ch by (auto simp: upsert_stock_def update_many_def)
    show "stock_wf ?sh' \<and> quantity ?sh' p' f' = (if p' = p \<and> f' = f then q else quantity sh p' f')"
      using change_one_place [OF wf rows(1,2) rows' q] by simp
  qed
qed

lemma recordMovement_spec [simp]:
  "stocks (recordMovement m sh) = stocks sh" "quantity (recordMovement m sh) p f = quantity sh p f"
  "stock_wf (recordMovement m sh) = stock_wf sh"
  "moved (recordMovement m sh) p f =
     moved sh p f + (if mv_productId m = p \<and> mv_facilityId m = f then mv_delta m else 0)"
  by (simp_all add: recordMovement_def quantity_def find_stock_def stock_wf_def moved_def create_row_def)

lemma shop_books_sel [simp]:
  "quantity (sh\<lparr>books := b\<rparr>) p f = quantity sh p f" "moved (sh\<lparr>books := b\<rparr>) p f = moved sh p f"
  "stock_wf (sh\<lparr>books := b\<rparr>) = stock_wf sh"
  by (simp_all add: quantity_def find_stock_def moved_def stock_wf_def)

lemma moved_cong: "movements sh' = movements sh \<Longrightarrow> moved sh' p f = moved sh p f"
  by (simp add: moved_def)

lemma quantity_nonneg: "stock_wf sh \<Longrightarrow> 0 \<le> quantity sh p f"
  by (auto simp: quantity_def find_stock_def stock_wf_def split: option.splits dest!: find_first_SomeD)

lemma adjust_spec:
  assumes wf: "stock_wf sh" and run: "adjust e u p a sh = Inr (sh', row)"
  shows "stock_wf sh'"
    and "quantity sh' p' f' = quantity sh p' f' + (if p' = p \<and> f' = sk_facilityId a then sk_amount a else 0)"
    and "moved sh' p' f' = moved sh p' f' + (if p' = p \<and> f' = sk_facilityId a then sk_amount a else 0)"
proof -
  let ?f = "sk_facilityId a" and ?x = "sk_amount a"
  obtain sh1 q where change: "(if ?x < 0 then decrementInTx p ?f (- ?x) sh
        else Inr (upsert_stock p ?f ?x (\<lambda>k. k + ?x) sh)) = Inr sh1"
    and sh': "sh' = (recordMovement (stock_movement e p ?f ?x q Mv_adjust (sk_notes a) None (Some u)) sh1)
      \<lparr>books := audit ''product_stock.adjusted'' p
         (books (recordMovement (stock_movement e p ?f ?x q Mv_adjust (sk_notes a) None (Some u)) sh1))\<rparr>"
    using run unfolding adjust_def Let_def by (auto simp: bindr_eq_Inr)
  have "stock_wf sh1 \<and> movements sh1 = movements sh \<and>
    quantity sh1 p' f' = quantity sh p' f' + (if p' = p \<and> f' = ?f then ?x else 0)"
  proof (cases "?x < 0")
    case True
    then have "decrementInTx p ?f (- ?x) sh = Inr sh1" using change by simp
    from decrementInTx_spec(1,2) [OF wf this] decrementInTx_spec(4) [OF wf this, of p' f']
    show ?thesis by simp
  next
    case False
    then have sh1: "sh1 = upsert_stock p ?f ?x (\<lambda>k. k + ?x) sh" using change by simp
    have nn: "0 \<le> quantity sh p ?f + ?x" using False quantity_nonneg [OF wf, of p ?f] by simp
    have zero: "?x = quantity sh p ?f + ?x" if "\<forall>s\<in>set (stocks sh). \<not> at_place p ?f s"
      using that by (simp add: quantity_def find_stock_def find_first_None_iff [THEN iffD2])
    show ?thesis
      using upsert_stock_spec [where p = p and f = ?f and change = "\<lambda>k. k + ?x" and initial = ?x,
          OF wf nn refl zero] by (simp add: sh1)
  qed
  then show "stock_wf sh'"
    "quantity sh' p' f' = quantity sh p' f' + (if p' = p \<and> f' = ?f then ?x else 0)"
    "moved sh' p' f' = moved sh p' f' + (if p' = p \<and> f' = ?f then ?x else 0)"
    by (auto simp: sh' stock_movement_def dest: moved_cong)
qed

definition adjust_post ::
  "env \<Rightarrow> id \<Rightarrow> string option \<Rightarrow> id \<times> id \<Rightarrow> int \<Rightarrow> shop \<Rightarrow> shop result" where
  "adjust_post e u nts k x sh =
     bindr (adjust e u (fst k) \<lparr>sk_facilityId = snd k, sk_amount = x, sk_notes = nts\<rparr> sh)
       (\<lambda>(sh', row). Inr sh')"

lemma adjust_post_spec:
  assumes "stock_wf sh" and "adjust_post e u nts k x sh = Inr sh'"
  shows "stock_wf sh'"
    and "quantity sh' p f = quantity sh p f + (if (p, f) = k then x else 0)"
    and "moved sh' p f = moved sh p f + (if (p, f) = k then x else 0)"
proof -
  obtain row where run: "adjust e u (fst k) \<lparr>sk_facilityId = snd k, sk_amount = x, sk_notes = nts\<rparr> sh
      = Inr (sh', row)"
    using assms(2) by (auto simp: adjust_post_def bindr_eq_Inr)
  show "stock_wf sh'" by (rule adjust_spec(1) [OF assms(1) run])
  show "quantity sh' p f = quantity sh p f + (if (p, f) = k then x else 0)"
    "moved sh' p f = moved sh p f + (if (p, f) = k then x else 0)"
    using adjust_spec(2,3) [OF assms(1) run, of p f] by (cases k; simp)+
qed

interpretation stock: ledger "\<lambda>k sh. quantity sh (fst k) (snd k)" "\<lambda>k sh. moved sh (fst k) (snd k)"
    "adjust_post e u nts" stock_wf for e u nts
  by unfold_locales (simp_all add: adjust_post_spec)

text \<open>Every balance is the sum of its movements.\<close>

definition stock_balanced :: "shop \<Rightarrow> bool" where
  "stock_balanced sh \<longleftrightarrow> (\<forall>p f. quantity sh p f = moved sh p f)"

lemma set_stock_spec:
  assumes wf: "stock_wf sh" and q: "0 \<le> sk_amount a" and run: "set_stock e u p a sh = Inr (sh', row)"
  shows "stock_wf sh'"
    and "quantity sh' p' f' = (if p' = p \<and> f' = sk_facilityId a then sk_amount a else quantity sh p' f')"
    and "moved sh' p' f' = moved sh p' f' + (quantity sh' p' f' - quantity sh p' f')"
proof -
  let ?f = "sk_facilityId a" and ?q = "sk_amount a"
  let ?sh1 = "upsert_stock p ?f ?q (\<lambda>_. ?q) sh"
  let ?delta = "?q - quantity sh p ?f"
  obtain k where sh': "sh' = (if ?delta \<noteq> 0
       then recordMovement (stock_movement e p ?f ?delta k Mv_set (sk_notes a) None (Some u)) ?sh1
       else ?sh1) \<lparr>books := audit ''product_stock.set'' p (books (if ?delta \<noteq> 0
       then recordMovement (stock_movement e p ?f ?delta k Mv_set (sk_notes a) None (Some u)) ?sh1
       else ?sh1))\<rparr>"
    using run unfolding set_stock_def Let_def quantity_def [symmetric] by (auto simp: bindr_eq_Inr)
  note sp = upsert_stock_spec [where p = p and f = ?f and change = "\<lambda>_. ?q" and initial = ?q,
      OF wf q refl refl]
  show "stock_wf sh'" using sp(1) unfolding sh' by (cases "?delta = 0") simp_all
  show q': "quantity sh' p' f' = (if p' = p \<and> f' = ?f then ?q else quantity sh p' f')"
    using sp(3) [of p' f'] unfolding sh' by (cases "?delta = 0") simp_all
  have "moved ?sh1 p' f' = moved sh p' f'" using sp(2) by (rule moved_cong)
  then have "moved sh' p' f' = moved sh p' f' + (if p' = p \<and> f' = ?f then ?delta else 0)"
    unfolding sh' by (cases "?delta = 0") (auto simp: stock_movement_def)
  then show "moved sh' p' f' = moved sh p' f' + (quantity sh' p' f' - quantity sh p' f')"
    unfolding q' by auto
qed

end
