(* ===== verification/Billing.thy ===== *)
theory Billing imports Cancel begin

text \<open>
  Every operation on invoices keeps the books: the gapless numbering of every series and the
  linked chain of records of every issuer (\<open>books_ok\<close>). \<open>grows\<close> says that an operation may add rows
  and issue drafts, \<open>keeps_books\<close> that it changes neither numbers nor records. \<open>Journal\<close> puts the
  operations together in one step relation.
\<close>

section \<open>Creating and issuing\<close>

lemma insert_invoice_extends: "insert_invoice d row lines = Inr (d', r) \<Longrightarrow> extends_books d d'"
  by (rule extends_incl) (auto simp: insert_invoice_def Let_def bindr_eq_Inr split: if_splits)

lemma insert_series_extends: "insert_series d s = Inr (d', row) \<Longrightarrow> extends_books d d'"
  by (rule extends_incl) (auto simp: insert_series_def Let_def split: if_splits)

lemma ownerSeries_extends:
  assumes "ownerSeries d ow rect = Inr (d', row)"
  shows "extends_books d d'"
proof -
  have "d' = d \<or> (\<exists>s. insert_series d s = Inr (d', row))"
    using assms unfolding ownerSeries_def Let_def
    by (simp split: option.splits) (auto simp: bindr_eq_Inr)
  then show ?thesis using insert_series_extends by auto
qed

lemma rectificationSeries_extends:
  assumes "rectificationSeries d ow = Inr (d', row)"
  shows "extends_books d d'"
proof -
  have "d' = d \<or> (\<exists>s. insert_series d s = Inr (d', row)) \<or> (\<exists>o1. ownerSeries d o1 True = Inr (d', row))"
    using assms by (auto simp: rectificationSeries_def split: option.splits)
  then show ?thesis using insert_series_extends ownerSeries_extends by auto
qed

lemma create_tx_extends:
  assumes run: "create_tx e d scope given ben input ty t = Inr (d', r)"
  shows "extends_books d d'"
proof -
  obtain ow d0 so0 d1 so row lines where s0: "create_series_for d ow (ci_seriesId input) = Inr (d0, so0)"
    and s1: "owner_default_series (d0, so0) ow = Inr (d1, so)"
    and ins: "insert_invoice d1 row lines = Inr (d', r)"
    using run unfolding create_tx_def by (auto simp: bindr_eq_Inr split: prod.splits)
  have "extends_books d d0"
    using s0 ownerSeries_extends
    by (auto simp: create_series_for_def bindr_eq_Inr split: option.splits)
  moreover have "extends_books d0 d1"
    using s1 ownerSeries_extends
    by (auto simp: owner_default_series_def bindr_eq_Inr split: option.splits if_splits)
  ultimately show ?thesis using insert_invoice_extends [OF ins] extends_books_trans by blast
qed

lemma create_invoice_grows:
  assumes run: "create_invoice e d scope given ben input = Inr (d', r)"
  shows "grows d d'"
proof -
  define ty where "ty = (case ci_invoiceType input of None \<Rightarrow> F1 | Some ty \<Rightarrow> ty)"
  obtain t where c: "(case create_tx e d scope given ben input ty t of
      Inl err \<Rightarrow> if err = UniqueViolation then Inl (ConflictException ''duplicate_period_invoice'')
                 else Inl err
    | Inr (d', r) \<Rightarrow> Inr (audit ''invoice.created'' (inv_id r) d', r)) = Inr (d', r)"
    using run unfolding create_invoice_def Let_def ty_def [symmetric] by (auto simp only: bindr_eq_Inr)
  obtain d1 where tx: "create_tx e d scope given ben input ty t = Inr (d1, r)"
    and d': "keeps_books d1 d'"
    using c by (cases "create_tx e d scope given ben input ty t") (auto split: if_splits)
  then show ?thesis
    using create_invoice_books [OF _ run] create_tx_extends [OF tx] keeps_extends [OF d']
      extends_books_trans by (auto simp: grows_def)
qed

lemma rectify_grows:
  assumes run: "rectify e scope al i input d = Inr (d', r)"
  shows "grows d d'"
proof -
  obtain orig t d1 where tx: "rectify_tx e orig input t d = Inr (d1, r)"
    and d': "d' = emit (Invoice_rectified (inv_id r)) (audit ''invoice.rectified'' (inv_id r) d1)"
    using run unfolding rectify_def by (auto simp: bindr_eq_Inr split: prod.splits)
  obtain d2 s row lines where s: "rectificationSeries d (inv_ownerId orig) = Inr (d2, s)"
    and ins: "insert_invoice d2 row lines = Inr (d1, r)"
    using tx unfolding rectify_tx_def Let_def by (auto simp: bindr_eq_Inr split: prod.splits)
  have "extends_books d d1"
    using rectificationSeries_extends [OF s] insert_invoice_extends [OF ins] extends_books_trans by blast
  moreover have "extends_books d1 d'" unfolding d' by (rule keeps_extends) simp
  ultimately show ?thesis
    using rectify_books [OF _ run] extends_books_trans by (auto simp: grows_def)
qed

lemma createDepositReceipt_grows:
  assumes run: "createDepositReceipt e d a = Inr (d', r)"
  shows "grows d d'"
proof -
  obtain row lines d1 where ins: "insert_invoice d row lines = Inr (d1, r)"
    and d': "keeps_books d1 d'"
    using run unfolding createDepositReceipt_def by (auto simp: bindr_eq_Inr)
  then show ?thesis
    using createDepositReceipt_books [OF _ run] insert_invoice_extends [OF ins] keeps_extends [OF d']
      extends_books_trans by (auto simp: grows_def)
qed

text \<open>Issuing writes a draft only.\<close>

lemma update_draft_extends:
  assumes ok: "books_ok d" and draft: "map_option inv_status (find_invoice d i) = Some Draft"
    and rows: "invoices d' = update_many (\<lambda>r. inv_id r = i) f (invoices d)"
  shows "extends_books d d'"
  unfolding extends_books_def
proof (intro ballI impI)
  fix r assume r: "r \<in> set (invoices d)" and st: "inv_status r \<noteq> Draft"
  then have "inv_id r \<noteq> i" using draft_row(1) [OF ok draft r] by blast
  then have "r \<in> set (invoices d')" using r by (auto simp: rows set_update_many)
  then show "\<exists>j\<in>set (invoices d'). inv_status j \<noteq> Draft \<and> number_view j = number_view r \<and>
      chain_view j = chain_view r \<and> fixed_part j = fixed_part r" using st by blast
qed

lemma issue_app_extends:
  assumes ok: "books_ok d" and draft: "map_option inv_status (find_invoice d (inv_id ex)) = Some Draft"
    and run: "issue_app e ex z d = Inr (d', cmp)"
  shows "extends_books d d'"
  using run
proof (rule issue_app_Inr, goal_cases)
  case (1 t r qr link d1 d2)
  have "extends_books d d2"
    by (rule update_draft_extends [OF ok draft]) (simp add: 1(6,8))
  moreover have "keeps_books d2 (if settles ex z then d2 else applyWithholding e d2 q)" for q
    using applyWithholding_keeps by simp
  then have "keeps_books d2 d'" using keeps_books_trans compensate_original_keeps [OF 1(9)] by blast
  ultimately show ?case using keeps_extends extends_books_trans by blast
qed

lemma issue_tx_grows:
  assumes snap: "current_snapshot ex d" and run: "issue_tx e ex z fh d = Inr (d', cmp)"
  shows "grows d d'"
  unfolding grows_def
proof (intro impI conjI)
  assume ok: "books_ok d"
  show "books_ok d'" by (rule issue_tx_books [OF ok snap run])
  obtain d1 where draft: "map_option inv_status (find_invoice d (inv_id ex)) = Some Draft"
    and rb: "rectification_before_issue e ex d = Inr d1"
    and rest: "(case fh of Some doc \<Rightarrow> issue_holded e ex z doc d1 | None \<Rightarrow> issue_app e ex z d1)
      = Inr (d', cmp)"
    using run unfolding issue_tx_def by (auto simp: bindr_eq_Inr)
  have k: "keeps_books d d1" using rb by (rule rectification_before_issue_keeps)
  have ok1: "books_ok d1" using ok k by (rule keeps_books_ok)
  have draft1: "map_option inv_status (find_invoice d1 (inv_id ex)) = Some Draft"
    using rb draft by (rule rectification_before_issue_draft)
  have "extends_books d1 d'"
  proof (cases fh)
    case None
    then show ?thesis using issue_app_extends [OF ok1 draft1] rest by simp
  next
    case (Some doc)
    then have "issue_holded e ex z doc d1 = Inr (d', cmp)" using rest by simp
    then show ?thesis using keeps_extends issue_holded_keeps [OF ok1 draft1] by blast
  qed
  then show "extends_books d d'" using keeps_extends [OF k] extends_books_trans by blast
qed

lemma issue_from_grows:
  assumes snap: "current_snapshot ex d" and run: "issue_from e ex hd1 z d = (d', r)"
  shows "grows d d'"
  unfolding grows_def
proof (intro impI conjI)
  assume ok: "books_ok d"
  show "books_ok d'" by (rule issue_from_books [OF ok snap run])
  obtain d0 m where mode: "(if inv_ownerId ex \<noteq> None then (d, By_app) else current_mode e d) = (d0, m)"
    by fastforce
  have k0: "keeps_books d d0" using mode current_mode_keeps by (auto split: if_splits)
  have ok0: "books_ok d0" using ok k0 by (rule keeps_books_ok)
  have snap0: "current_snapshot ex d0" using keeps_books_snapshot [OF k0 snap] .
  have tx: "extends_books d0 (after_issue ex zz hh cmp d3)"
    if "issue_tx e ex zz fh d1 = Inr (d3, cmp)" "keeps_books d0 d1" for d1 zz fh d3 cmp hh
  proof -
    have "grows d1 d3" using issue_tx_grows [OF keeps_books_snapshot [OF that(2) snap0] that(1)] .
    then have "extends_books d1 d3" using keeps_books_ok [OF ok0 that(2)] by (simp add: grows_def)
    then show ?thesis
      using keeps_extends [OF that(2)] keeps_extends [OF after_issue_keeps] extends_books_trans
      by blast
  qed
  have await: "extends_books d0 d1" if "awaitHoldedCreditNote ex d0 = Inr d1" for d1
    using keeps_extends awaitHolded_keeps [OF that] by blast
  have claim: "keeps_books d0 d1 \<and> extends_books d0 d1" if "issueInHolded e ex d0 = (d1, x)" for d1 x
    using issueInHolded_keeps [OF ok0 that] keeps_extends by blast
  have "extends_books d0 d'" if "d' \<noteq> d"
    using that run mode unfolding issue_from_def Let_def
    by (auto split: if_splits sum.splits option.splits prod.splits
        dest: await claim intro: tx keeps_extends)
  then show "extends_books d d'"
    using keeps_extends [OF k0] by (metis extends_books_refl extends_books_trans)
qed

lemma issue_grows: "issue e scope hd1 z i d = (d', r) \<Longrightarrow> grows d d'"
  by (auto simp: issue_def intro: issue_from_grows findOrThrow_in(3) split: sum.splits)

lemma linkHolded_grows: "linkHoldedCreditNote e scope i doc d = (d', r) \<Longrightarrow> grows d d'"
  by (auto simp: linkHoldedCreditNote_def intro: issue_grows split: sum.splits if_splits option.splits)

section \<open>Collecting and returning money\<close>

lemma row_is_found:
  assumes "books_ok d" and "find_invoice d i = Some x" and "r \<in> set (invoices d)" and "inv_id r = i"
  shows "r = x"
proof -
  have "distinct (map inv_id (invoices d))" using assms(1) by (simp add: books_ok_def ids_ok_def)
  then have "find_invoice d i = Some r"
    unfolding find_invoice_def using find_first_key_unique [of inv_id "invoices d" r] assms(3,4) by simp
  then show ?thesis using assms(2) by simp
qed

lemma keeps_books_update_status:
  assumes "keeps_books d d1" and "\<And>i. same_view (f i) i"
  shows "keeps_books d (update_invoice k f d1)"
  by (rule keeps_books_trans [OF assms(1) keeps_books_update_invoice [OF assms(2)]])

lemma mark_paid_tx_Inr:
  assumes "mark_paid_tx e i a d = Inr (d', full)"
  obtains fresh where "find_invoice d i = Some fresh"
    and "inv_status fresh = Issued \<or> inv_status fresh = Overdue"
    and "inv_amountPaid fresh + mp_amount a \<le> inv_total fresh"
    and "full \<longleftrightarrow> inv_total fresh \<le> inv_amountPaid fresh + mp_amount a"
    and "d' = update_invoice i (paid_fields e a (inv_amountPaid fresh + mp_amount a) full)
           (create_payment (manual_payment_row e i a fresh) d)"
  using assms unfolding mark_paid_tx_def Let_def bindr_eq_Inr guard_Inr found_eq_Inr
  by (metis (no_types, lifting) Pair_inject linorder_not_less sum.inject(2))

lemma mark_paid_tx_keeps:
  assumes "mark_paid_tx e i a d = Inr (d', full)"
  shows "keeps_books d d'"
  using assms
  by (auto elim!: mark_paid_tx_Inr intro!: keeps_books_update_status same_viewI
      simp: paid_fields_def split: if_splits)

lemma markPaid_keeps:
  assumes "markPaidManually e scope i a d = Inr d'"
  shows "keeps_books d d'"
proof -
  obtain d1 full where "mark_paid_tx e i a d = Inr (d1, full)" and "keeps_books d1 d'"
    using assms unfolding markPaidManually_def Let_def
    by (auto simp: bindr_eq_Inr split: prod.splits)
  then show ?thesis using mark_paid_tx_keeps keeps_books_trans by blast
qed

lemma revert_tx_Inr:
  assumes "revert_tx e i a d = Inr (d', due)"
  obtains ex where "find_invoice d i = Some ex" and "0 < inv_amountPaid ex"
    and "d' = update_invoice i
           (reverted_fields (max 0 (inv_amountPaid ex - rv_amount a)) (reverted_status e ex)
              (inv_status ex = Paid))
           (fail_payments e a (reverted_payments a (live_payments d i)) d)"
  using assms unfolding revert_tx_def Let_def bindr_eq_Inr guard_Inr found_eq_Inr
  by (metis (no_types, lifting) Pair_inject sum.inject(2))

lemma revert_tx_keeps:
  assumes ok: "books_ok d" and run: "revert_tx e i a d = Inr (d', due)"
  shows "keeps_books d d'"
  using run
proof (rule revert_tx_Inr)
  fix ex
  assume ex: "find_invoice d i = Some ex" and d': "d' = update_invoice i
      (reverted_fields (max 0 (inv_amountPaid ex - rv_amount a)) (reverted_status e ex)
        (inv_status ex = Paid))
      (fail_payments e a (reverted_payments a (live_payments d i)) d)"
  have "same_view (reverted_fields np (reverted_status e ex) b r) r"
    if "r \<in> set (invoices d)" "inv_id r = i" for r np b
    using row_is_found [OF ok ex that]
    by (intro same_viewI) (auto simp: reverted_fields_def reverted_status_def split: if_splits option.splits)
  then show ?thesis
    by (intro keeps_booksI [where p = "\<lambda>r. inv_id r = i"]) (simp_all add: d' fail_payments_def)
qed

lemma revertPayment_keeps:
  assumes "books_ok d" and "revertPayment e scope i a d = Inr d'"
  shows "keeps_books d d'"
proof -
  obtain d1 due where "revert_tx e i a d = Inr (d1, due)" and "keeps_books d1 d'"
    using assms(2) unfolding revertPayment_def Let_def by (auto simp: bindr_eq_Inr)
  then show ?thesis using revert_tx_keeps [OF assms(1)] keeps_books_trans by blast
qed

lemma return_money_keeps:
  "return_money e gw i a d = Inr (d', via, pid, rid) \<Longrightarrow> keeps_books d d'"
  by (auto simp: return_money_def bindr_eq_Inr split: option.splits if_splits)

lemma refund_tx_Inr:
  assumes "refund_tx e gw i a d = Inr d'"
  obtains ex d1 via pid rid where "find_invoice d i = Some ex"
    and "inv_status ex = Paid \<or> inv_status ex = Partially_refunded"
    and "inv_amountRefunded ex + rf_amount a \<le> inv_total ex"
    and "inv_amountRefunded ex + rf_amount a \<le> collected_cents d i"
    and "return_money e gw i a d = Inr (d1, via, pid, rid)"
    and "d' = update_invoice i
           (refunded_fields (inv_amountRefunded ex + rf_amount a)
              (inv_total ex \<le> inv_amountRefunded ex + rf_amount a))
           (create_refund (refund_row_of e i a via pid rid) d1)"
  using assms unfolding refund_tx_def Let_def bindr_eq_Inr guard_Inr found_eq_Inr
  by (auto simp: not_less)

lemma refund_tx_keeps:
  assumes "refund_tx e gw i a d = Inr d'"
  shows "keeps_books d d'"
  using assms
proof (rule refund_tx_Inr)
  fix ex d1 via pid rid
  assume m: "return_money e gw i a d = Inr (d1, via, pid, rid)"
    and d': "d' = update_invoice i
           (refunded_fields (inv_amountRefunded ex + rf_amount a)
              (inv_total ex \<le> inv_amountRefunded ex + rf_amount a))
           (create_refund (refund_row_of e i a via pid rid) d1)"
  have "keeps_books d1 (create_refund r d1)" for r
    by (simp add: keeps_books_def create_refund_def list.rel_refl)
  then show ?thesis
    unfolding d' using keeps_books_trans [OF return_money_keeps [OF m]]
    by (intro keeps_books_update_status same_viewI) (auto simp: refunded_fields_def split: if_splits)
qed

lemma refund_keeps:
  assumes "refund e gw scope i a d = Inr d'"
  shows "keeps_books d d'"
  using assms unfolding refund_def by (auto simp: bindr_eq_Inr dest: refund_tx_keeps)

section \<open>Annulling, late fees and credit notes\<close>

lemma keeps_books_invoices_update:
  "(\<And>i. i \<in> set (invoices d) \<Longrightarrow> p i \<Longrightarrow> same_view (f i) i) \<Longrightarrow>
   keeps_books d (d\<lparr>invoices := update_many p f (invoices d)\<rparr>)"
  by (rule keeps_booksI [where p = p and f = f]) simp_all

lemma keeps_books_other_tables [simp]:
  "keeps_books d (d1\<lparr>referrals := rs\<rparr>) \<longleftrightarrow> keeps_books d d1"
  "keeps_books d (update_contract c g d1) \<longleftrightarrow> keeps_books d d1"
  "keeps_books d (d1\<lparr>verifactu_queue := q\<rparr>) \<longleftrightarrow> keeps_books d d1"
  "keeps_books d (d1\<lparr>notifications := ns\<rparr>) \<longleftrightarrow> keeps_books d d1"
  by (simp_all add: keeps_books_def update_contract_def)

lemma releaseConsumedBenefits_keeps: "keeps_books d (releaseConsumedBenefits i d)"
  by (simp add: releaseConsumedBenefits_def Let_def keeps_books_update_status same_view_money
      split: option.split)

lemma cancel_reserve_keeps:
  assumes "cancel_reserve e i d = Inr (d', r)"
  shows "keeps_books d d'" and "inv_status r = Issued \<or> inv_status r = Overdue"
    and "find_invoice d i = Some r"
proof -
  have "d' = update_invoice i (\<lambda>r. r\<lparr>inv_status := Rectified, inv_cancelledAt := Some (now e)\<rparr>) d"
    and "inv_status r = Issued \<or> inv_status r = Overdue" and "find_invoice d i = Some r"
    using assms unfolding cancel_reserve_def by (auto simp: bindr_eq_Inr)
  then show "keeps_books d d'" "inv_status r = Issued \<or> inv_status r = Overdue"
    "find_invoice d i = Some r"
    by (auto intro!: keeps_books_update_invoice same_viewI)
qed

lemma unreserve_keeps: "inv_status r \<noteq> Draft \<Longrightarrow> keeps_books d (unreserve r d)"
  unfolding unreserve_def by (rule keeps_books_invoices_update) (rule same_viewI; simp)

lemma settle_credit_keeps: "keeps_books d (settle_credit e i d)"
  unfolding settle_credit_def by (rule keeps_books_invoices_update) (rule same_viewI; simp)

lemma issue_and_settle_grows: "issue_and_settle e i d = (d', r) \<Longrightarrow> grows d d'"
  by (auto simp: issue_and_settle_def split: prod.splits sum.splits
      intro: issue_grows grows_trans [OF issue_grows keeps_grows [OF settle_credit_keeps]])

definition keeps_ok :: "(id \<Rightarrow> string \<Rightarrow> db \<Rightarrow> db) \<Rightarrow> bool" where
  "keeps_ok orphan \<longleftrightarrow> (\<forall>i n d. grows d (orphan i n d))"

lemma cancelIssued_grows:
  assumes orphan: "keeps_ok orphan" and run: "cancelIssued e orphan i reason d = (d', r)"
  shows "grows d d'"
proof (cases "issuer_ready_for_credit e i d = Inr () \<and> (\<exists>p. cancel_reserve e i d = Inr p)")
  case False
  then show ?thesis using run by (auto simp: cancelIssued_def Let_def split: sum.splits)
next
  case True
  then obtain d1 orig where ready: "issuer_ready_for_credit e i d = Inr ()"
    and res: "cancel_reserve e i d = Inr (d1, orig)" by auto
  have g1: "grows d d1" using keeps_grows [OF cancel_reserve_keeps(1) [OF res]] .
  define why where "why = (case reason of None \<Rightarrow> ''Anulacion de la factura''
      | Some r \<Rightarrow> if trim r = [] then ''Anulacion de la factura'' else trim r)"
  show ?thesis
  proof (cases "rectify e None True i (cancel_lines d orig why) d1")
    case (Inl err)
    then have "d' = unreserve orig d1"
      using run ready res unfolding cancelIssued_def Let_def why_def [symmetric] by simp
    then show ?thesis
      using grows_trans [OF g1 keeps_grows [OF unreserve_keeps]] cancel_reserve_keeps(2) [OF res]
      by fastforce
  next
    case (Inr p)
    then obtain d2 credit where p: "p = (d2, credit)" by (cases p)
    let ?d3 = "fst (issue_and_settle e (inv_id credit) d2)"
    let ?d4 = "releaseConsumedBenefits i (audit ''invoice.cancelled_with_rectification'' i ?d3)"
    let ?d5 = "orphan i (inv_number orig) ?d4"
    have d': "d' = emit (Invoice_voided i) ?d5"
      using run ready res Inr p unfolding cancelIssued_def Let_def why_def [symmetric] by simp
    note g1
    also have "grows d1 d2" using rectify_grows Inr p by blast
    also have "grows d2 ?d3" by (rule issue_and_settle_grows [OF surjective_pairing])
    also have "grows ?d3 ?d4"
      by (rule keeps_grows [OF keeps_books_trans [OF keeps_books_logs(2) releaseConsumedBenefits_keeps]])
    also have "grows ?d4 ?d5" using orphan by (simp add: keeps_ok_def)
    also have "grows ?d5 d'" unfolding d' by (rule keeps_grows [OF keeps_books_logs(1)])
    finally show ?thesis .
  qed
qed

lemma cancelDepositReceipt_keeps:
  assumes "cancelDepositReceipt e i d = Inr d'"
  shows "keeps_books d d'"
proof -
  have "d' = audit ''invoice.deposit_receipt_cancelled'' i (update_invoice i
      (\<lambda>r. r\<lparr>inv_status := Cancelled, inv_cancelledAt := Some (now e)\<rparr>) d)"
    using assms unfolding cancelDepositReceipt_def by (auto simp: bindr_eq_Inr)
  then show ?thesis by (auto intro!: keeps_books_update_invoice same_viewI)
qed

lemma cancel_from_grows:
  assumes orphan: "keeps_ok orphan" and run: "cancel_from e orphan ex reason d = (d', r)"
  shows "grows d d'"
proof -
  consider (receipt) d1 where "cancelDepositReceipt e (inv_id ex) d = Inr d1" "d' = d1"
    | (none) "d' = d" | (issued) "cancelIssued e orphan (inv_id ex) reason d = (d', r)"
    | (draft) "d' = emit (Invoice_cancelled (inv_id ex)) (audit ''invoice.cancelled'' (inv_id ex)
        (releaseConsumedBenefits (inv_id ex) (d\<lparr>invoices := update_many
           (\<lambda>r. inv_id r = inv_id ex \<and> inv_status r = Draft)
           (\<lambda>r. r\<lparr>inv_status := Cancelled, inv_cancelledAt := Some (now e)\<rparr>) (invoices d)\<rparr>)))"
    using run unfolding cancel_from_def Let_def by (auto split: if_splits sum.splits)
  then show ?thesis
  proof cases
    case receipt
    then show ?thesis using keeps_grows [OF cancelDepositReceipt_keeps] by blast
  next
    case none
    then show ?thesis by simp
  next
    case issued
    then show ?thesis by (rule cancelIssued_grows [OF orphan])
  next
    case draft
    have "keeps_books d d'"
      unfolding draft keeps_books_emit_audit
      by (rule keeps_books_trans [OF keeps_books_invoices_update releaseConsumedBenefits_keeps])
        (rule same_viewI; simp)
    then show ?thesis by (rule keeps_grows)
  qed
qed

lemma cancel_with_grows:
  "keeps_ok orphan \<Longrightarrow> cancel_with e orphan scope i reason d = (d', r) \<Longrightarrow> grows d d'"
  by (auto simp: cancel_with_def intro: cancel_from_grows split: sum.splits)

lemma cancelOrphanLateFee_keeps: "keeps_ok (cancelOrphanLateFee e)"
proof -
  have "keeps_ok (\<lambda>_ _ d. d)" by (simp add: keeps_ok_def)
  then have "grows d (fst (cancel_with e (\<lambda>_ _ d. d) None i r d))" for i r d
    using cancel_with_grows [OF _ surjective_pairing] by blast
  then show ?thesis by (auto simp: keeps_ok_def cancelOrphanLateFee_def split: option.splits)
qed

lemma cancel_grows: "cancel e scope i reason d = (d', r) \<Longrightarrow> grows d d'"
  unfolding cancel_def using cancel_with_grows cancelOrphanLateFee_keeps by blast

lemma createLateFee_from_grows:
  assumes run: "createLateFee_from e scope f i d = (d', r)"
  shows "grows d d'"
proof -
  consider (none) "d' = d"
    | (lost) given ben input d1 created where "create_invoice e d None given ben input = Inr (d1, created)"
        "d' = fst (cancel e scope (inv_id created)
          (Some ''Recargo duplicado (carrera con otra peticion)'') d1)"
    | (won) given ben input d1 created where "create_invoice e d None given ben input = Inr (d1, created)"
        "issue e None None True (inv_id created)
          (update_invoice (inv_id created) (\<lambda>r. r\<lparr>inv_lateFeeFor := Some i\<rparr>) d1) = (d', r)"
    using run unfolding createLateFee_from_def
    by (auto split: sum.splits if_splits prod.splits)
  then show ?thesis
  proof cases
    case none
    then show ?thesis by simp
  next
    case lost
    have "grows d1 d'" unfolding lost(2) by (rule cancel_grows [OF surjective_pairing])
    then show ?thesis using grows_trans [OF create_invoice_grows [OF lost(1)]] by blast
  next
    case won
    have "keeps_books d1 (update_invoice (inv_id created) (\<lambda>r. r\<lparr>inv_lateFeeFor := Some i\<rparr>) d1)"
      by (rule keeps_books_update_invoice) (rule same_viewI; simp)
    then show ?thesis
      using grows_trans [OF create_invoice_grows [OF won(1)]] keeps_grows issue_grows [OF won(2)]
        grows_trans by blast
  qed
qed

lemma createLateFee_grows: "createLateFee e c scope i d = (d', r) \<Longrightarrow> grows d d'"
  by (auto simp: createLateFee_def intro: createLateFee_from_grows split: sum.splits)

lemma issueRefundCreditNote_grows:
  assumes run: "issueRefundCreditNote e i d = (d', r)"
  shows "grows d d'"
proof -
  have k: "grows d (cancel_stale_credits i d)"
    unfolding cancel_stale_credits_def
    by (rule keeps_grows [OF keeps_books_invoices_update]) (rule same_viewI; simp)
  consider (none) "d' = d" | (failed) "d' = cancel_stale_credits i d"
    | (credit) input d2 draft where "rectify e None True i input (cancel_stale_credits i d) = Inr (d2, draft)"
        "issue_and_settle e (inv_id draft) d2 = (d', r)"
    using run unfolding issueRefundCreditNote_def Let_def
    by (auto split: option.splits if_splits sum.splits prod.splits)
  then show ?thesis
  proof cases
    case none
    then show ?thesis by simp
  next
    case failed
    then show ?thesis using k by simp
  next
    case credit
    then show ?thesis using grows_trans [OF k] grows_trans rectify_grows issue_and_settle_grows by blast
  qed
qed

lemma onInvoiceRefunded_grows: "grows d (onInvoiceRefunded e i d)"
proof -
  obtain d1 r where c: "issueRefundCreditNote e i d = (d1, r)" by fastforce
  have "grows d1 (d1\<lparr>notifications := ns\<rparr>)" for ns by (rule keeps_grows) simp
  then show ?thesis
    using issueRefundCreditNote_grows [OF c] grows_trans by (auto simp: onInvoiceRefunded_def c split: sum.splits)
qed

lemma bulkIssue_grows: "bulkIssue e scope is d = (d', ok, failed) \<Longrightarrow> grows d d'"
proof (induction "is" arbitrary: d d' ok failed)
  case Nil
  then show ?case by simp
next
  case (Cons i "is")
  obtain d1 r d2 o1 f1 where "issue e scope None True i d = (d1, r)"
    and "bulkIssue e scope is d1 = (d2, o1, f1)" and "d' = d2"
    using Cons.prems by (auto split: prod.splits sum.splits)
  then show ?case using Cons.IH issue_grows grows_trans by metis
qed

end
