(* ===== verification/Journal.thy ===== *)
theory Journal imports Billing begin

text \<open>
  The billing module as a transition system. A label-free step relation \<open>billing_step\<close> holds one
  rule per request, job and separately committed transaction of the module; \<open>reachable\<close> is its
  reflexive and transitive closure from a tenant without series and invoices. Every reachable state
  keeps the books, and an invoice that has been issued keeps its number and its record for ever.
\<close>

section \<open>Series and records of the tax agency\<close>

lemma series_update_books:
  assumes ok: "books_ok d" and ser: "series d' = update_many p f (series d)"
    and rows: "invoices d' = invoices d" and nx: "next_id d' = next_id d" and sok: "series_ok (series d')"
    and f: "\<And>s. s \<in> set (series d) \<Longrightarrow> p s \<Longrightarrow> ser_id (f s) = ser_id s \<and>
      ser_nextNumber (f s) = ser_nextNumber s \<and> ser_numberingYear (f s) = ser_numberingYear s \<and>
      (ser_yearScope (f s) = ser_yearScope s \<or>
       (\<forall>i\<in>set (invoices d). inv_seriesId i = ser_id s \<longrightarrow> \<not> 0 < inv_sequence i))"
  shows "books_ok d'"
proof -
  have num: "numbering.gapless t (numbers_in (map number_view (invoices d)) (ser_id t)) \<and> counter_ok t \<and>
      dates_ordered t (dated (map number_view (invoices d)) (ser_id t))"
    if t: "t \<in> set (series d')" for t
  proof -
    obtain s where s: "s \<in> set (series d)" and ts: "t = (if p s then f s else s)"
      using t unfolding ser by (rule in_update_manyE)
    let ?L = "numbers_in (map number_view (invoices d)) (ser_id s)"
    have g: "numbering.gapless s ?L" "counter_ok s" "dates_ordered s (dated (map number_view (invoices d)) (ser_id s))"
      using ok s by (simp_all add: books_ok_def numbering_ok_def)
    show ?thesis
    proof (cases "p s \<and> ser_yearScope (f s) \<noteq> ser_yearScope s")
      case False
      then have t: "ser_yearScope t = ser_yearScope s" "ser_nextNumber t = ser_nextNumber s"
        "ser_numberingYear t = ser_numberingYear s" "ser_id t = ser_id s"
        using f [OF s] ts by auto
      then have "shown_number y t = shown_number y s"
        "numbering.numbers_of t y L = numbering.numbers_of s y L" for y L
        by (simp_all add: shown_number_def numbering.numbers_of_def)
      then show ?thesis using g t by (simp add: numbering.gapless_def counter_ok_def dates_ordered_def)
    next
      case True
      then have fs: "ser_id t = ser_id s" "ser_nextNumber t = ser_nextNumber s"
        and unused: "\<forall>i\<in>set (invoices d). inv_seriesId i = ser_id s \<longrightarrow> \<not> 0 < inv_sequence i"
        using f [OF s] ts by auto
      have L: "?L = {#}" using unused by (auto simp: numbers_in_def number_view_def filter_empty_conv)
      have "dated (map number_view (invoices d)) (ser_id s) = {}" using L dated_in_numbers by fastforce
      then have ordered: "dates_ordered t (dated (map number_view (invoices d)) (ser_id t))"
        using fs by (simp add: dates_ordered_def)
      have shown: "shown_number y s = 1" for y
        using g(1) unfolding L numbering.gapless_def numbering.numbers_of_def by simp
      have "ser_nextNumber s = 1"
        using shown [of "the (ser_numberingYear s)"] g(2)
        by (cases "ser_numberingYear s") (auto simp: shown_number_def counter_ok_def split: if_splits)
      then show ?thesis
        using fs ordered by (simp add: L numbering.gapless_def numbering.numbers_of_def shown_number_def counter_ok_def)
    qed
  qed
  have ids: "ser_id ` set (series d') = ser_id ` set (series d)"
  proof -
    have "ser_id (if p s then f s else s) = ser_id s" if "s \<in> set (series d)" for s
      using f [OF that] by simp
    then have "map ser_id (series d') = map ser_id (series d)"
      unfolding ser update_many_def map_map by (intro map_cong) simp_all
    then show ?thesis by (metis list.set_map)
  qed
  have "\<forall>s\<in>set (series d'). ser_id s < next_id d"
  proof
    fix s assume "s \<in> set (series d')"
    then have "ser_id s \<in> ser_id ` set (series d)" using ids by blast
    then show "ser_id s < next_id d" using ok by (auto simp: books_ok_def ids_ok_def fresh_series_ids_def)
  qed
  moreover have "\<exists>s\<in>set (series d'). ser_id s = inv_seriesId i" if "i \<in> set (invoices d)" for i
  proof -
    have "inv_seriesId i \<in> ser_id ` set (series d)"
      using ok that by (force simp: books_ok_def ids_ok_def)
    then show ?thesis unfolding ids [symmetric] by force
  qed
  ultimately have "ids_ok d'"
    using ok by (simp add: books_ok_def ids_ok_def fresh_series_ids_def rows nx)
  then show ?thesis
    using ok num sok unfolding books_ok_def numbering_ok_def chain_ok_def drafts_clean_def rows by blast
qed

lemma unset_defaults_books: "books_ok d \<Longrightarrow> books_ok (unset_defaults ow d)"
proof (rule series_update_books [where d = d])
  assume ok: "books_ok d"
  show "series_ok (series (unset_defaults ow d))"
    by (rule unset_defaults_ok) (use ok in \<open>simp add: books_ok_def\<close>)
  show "series (unset_defaults ow d) = update_many (\<lambda>s. ser_isDefault s \<and> ser_ownerId s = ow)
      (\<lambda>s. s\<lparr>ser_isDefault := False\<rparr>) (series d)"
    by (simp add: unset_defaults_def)
qed (simp_all add: unset_defaults_def)

lemma create_series_grows:
  assumes run: "create_series d input = Inr (d', row)"
  shows "grows d d'"
  unfolding grows_def
proof (intro impI conjI)
  assume ok: "books_ok d"
  let ?d1 = "if csi_isDefault input then unset_defaults None d else d"
  obtain s d2 where ins: "insert_series ?d1 s = Inr (d2, row)" and s: "ser_nextNumber s = 1"
    and d': "d' = audit ''invoice_series.created'' (ser_id row) d2"
    using run unfolding create_series_def Let_def
    by (auto simp: default_series_def split: sum.splits if_splits)
  have ok1: "books_ok ?d1" using ok unset_defaults_books by simp
  have "series_ok (series d') \<and> fresh_series_ids d'"
    by (rule create_series_ok [OF _ _ run]) (use ok in \<open>simp_all add: books_ok_def ids_ok_def\<close>)
  then have "books_ok d2"
    by (intro insert_series_books [OF ok1 ins _ _ s]) (simp_all add: d' fresh_series_ids_def)
  then show "books_ok d'" unfolding d' by (rule keeps_books_ok) simp
  have "invoices d' = invoices d"
    using ins by (auto simp: d' insert_series_def Let_def unset_defaults_def split: if_splits)
  then show "extends_books d d'" by (intro extends_incl) simp
qed

lemma apply_series_update_fixed:
  "ser_id (apply_series_update input s) = ser_id s"
  "ser_nextNumber (apply_series_update input s) = ser_nextNumber s"
  "ser_numberingYear (apply_series_update input s) = ser_numberingYear s"
  by (simp_all add: apply_series_update_def)

lemma update_series_grows:
  assumes run: "update_series_row d i input = Inr (d', row)"
  shows "grows d d'"
  unfolding grows_def
proof (intro impI conjI)
  assume ok: "books_ok d"
  obtain e d1 where e: "find_series d i = Some e"
    and used: "\<not> (changes_numbering input e \<and>
      0 < count_rows (\<lambda>r. inv_seriesId r = i \<and> 0 < inv_sequence r) (invoices d))"
    and d1: "d1 = (if usi_isDefault input = Some True \<and> \<not> ser_isDefault e
      then unset_defaults (ser_ownerId e) d else d)"
    and d': "d' = audit ''invoice_series.updated'' i (update_series i (apply_series_update input) d1)"
    using run unfolding update_series_row_def Let_def by (auto simp: bindr_eq_Inr)
  have ok1: "books_ok d1" using ok unset_defaults_books by (simp add: d1)
  have rows: "invoices d1 = invoices d" by (simp add: d1 unset_defaults_def)
  have "books_ok (update_series i (apply_series_update input) d1)"
  proof (rule series_update_books [OF ok1, where p = "\<lambda>s. ser_id s = i" and f = "apply_series_update input"])
    show "series_ok (series (update_series i (apply_series_update input) d1))"
      using update_series_row_ok [OF _ run] ok by (simp add: d' books_ok_def)
    fix s assume s: "s \<in> set (series d1)" "ser_id s = i"
    have scope: "ser_yearScope s = ser_yearScope e"
    proof -
      obtain s0 where "s0 \<in> set (series d)" "ser_id s0 = ser_id s" "ser_yearScope s0 = ser_yearScope s"
        using s(1) unfolding d1 unset_defaults_def by (auto elim: in_update_manyE split: if_splits)
      moreover have "e \<in> set (series d)" "ser_id e = i" using find_series_SomeD [OF e] by simp_all
      ultimately show ?thesis
        using ok s(2) by (auto simp: books_ok_def series_ok_def distinct_map inj_on_def)
    qed
    have "ser_yearScope (apply_series_update input s) = ser_yearScope s" if "\<not> changes_numbering input e"
      using that by (auto simp: changes_numbering_def apply_series_update_def scope split: option.splits)
    then show "ser_id (apply_series_update input s) = ser_id s \<and>
        ser_nextNumber (apply_series_update input s) = ser_nextNumber s \<and>
        ser_numberingYear (apply_series_update input s) = ser_numberingYear s \<and>
        (ser_yearScope (apply_series_update input s) = ser_yearScope s \<or>
         (\<forall>r\<in>set (invoices d1). inv_seriesId r = ser_id s \<longrightarrow> \<not> 0 < inv_sequence r))"
      using used s(2) by (auto simp: apply_series_update_fixed rows count_rows_pos)
  qed simp_all
  then show "books_ok d'" unfolding d' by (rule keeps_books_ok) simp
  show "extends_books d d'" by (rule extends_incl) (simp add: d' rows)
qed

text \<open>The status columns of a record are outside the chain.\<close>

lemma same_view_aeat:
  "same_view (set_aeat st csv i) i" "same_view (set_sent t st csv i) i"
  by (simp_all add: same_view_def number_view_def chain_view_def fixed_part_def chain_seq_def
      row_link_def set_aeat_def set_sent_def Let_def split: option.split)

lemma saveStatus_keeps: "keeps_books d (saveStatus i r d)"
  by (simp add: saveStatus_def keeps_books_update_invoice same_view_aeat)

lemma send_now_keeps: "send_now e cl d i h = (d', r, calls) \<Longrightarrow> keeps_books d d'"
  by (auto simp: send_now_def Let_def intro!: keeps_books_update_invoice same_view_aeat)

lemma sendToAeat_keeps: "sendToAeat e cl d i = (d', r, calls) \<Longrightarrow> keeps_books d d'"
  by (auto simp: sendToAeat_def send_unaccepted_def Let_def dest: send_now_keeps
      intro: saveStatus_keeps split: option.splits list.splits if_splits prod.splits)

lemma refreshStatus_keeps: "refreshStatus cl d i = (d', r) \<Longrightarrow> keeps_books d d'"
  by (auto simp: refreshStatus_def Let_def intro: saveStatus_keeps split: option.splits if_splits)

lemma resendAeat_keeps:
  assumes "resendAeat scope i d = Inr d'"
  shows "keeps_books d d'"
proof -
  have "keeps_books d (update_invoice i
      (\<lambda>r. r\<lparr>inv_vf := (inv_vf r)\<lparr>vf_aeatStatus := Some Aeat_pending, vf_aeatCsv := None\<rparr>\<rparr>) d)"
    by (rule keeps_books_update_invoice)
      (simp add: same_view_def number_view_def chain_view_def fixed_part_def chain_seq_def row_link_def
        split: option.split)
  then show ?thesis using assms unfolding resendAeat_def Let_def by (auto simp: bindr_eq_Inr)
qed

section \<open>The transition system\<close>

text \<open>
  The first group of rules are the requests and jobs; those that read an invoice before their
  transaction (\<open>update\<close>, \<open>issue\<close>, \<open>cancel\<close>) are stated over the row they read, which may be
  stale. The second group are transactions that a longer operation commits on its own, so that
  steps of others may come between them. The last rule is a change of the tables this module only
  reads.
\<close>

inductive billing_step :: "db \<Rightarrow> db \<Rightarrow> bool" where
  create: "create_invoice e d scope given ben input = Inr (d', r) \<Longrightarrow> billing_step d d'"
| update: "update_from e ex input d = Inr d' \<Longrightarrow> billing_step d d'"
| issue: "current_snapshot ex d \<Longrightarrow> issue_from e ex doc z d = (d', res) \<Longrightarrow> billing_step d d'"
| bulk_issue: "bulkIssue e scope ids d = (d', ok, failed) \<Longrightarrow> billing_step d d'"
| link_holded: "linkHoldedCreditNote e scope i doc d = (d', res) \<Longrightarrow> billing_step d d'"
| receipt: "createDepositReceipt e d a = Inr (d', r) \<Longrightarrow> billing_step d d'"
| rectify: "rectify e scope al i rc d = Inr (d', r) \<Longrightarrow> billing_step d d'"
| pay: "markPaidManually e scope i mp d = Inr d' \<Longrightarrow> billing_step d d'"
| revert: "revertPayment e scope i rv d = Inr d' \<Longrightarrow> billing_step d d'"
| refund: "refund e gw scope i rf d = Inr d' \<Longrightarrow> billing_step d d'"
| refund_credit: "billing_step d (onInvoiceRefunded e i d)"
| cancel: "cancel_from e (cancelOrphanLateFee e) ex reason d = (d', res) \<Longrightarrow> billing_step d d'"
| late_fee: "createLateFee e c scope i d = (d', res) \<Longrightarrow> billing_step d d'"
| resend: "resendAeat scope i d = Inr d' \<Longrightarrow> billing_step d d'"
| send: "sendToAeat e cl d i = (d', ares, calls) \<Longrightarrow> billing_step d d'"
| refresh: "refreshStatus cl d i = (d', astat) \<Longrightarrow> billing_step d d'"
| new_series: "create_series d cs = Inr (d', row) \<Longrightarrow> billing_step d d'"
| edit_series: "update_series_row d i us = Inr (d', row) \<Longrightarrow> billing_step d d'"
| claim: "claim_holded e ex d = Inr d' \<Longrightarrow> billing_step d d'"
| issue_locked: "current_snapshot ex d \<Longrightarrow> issue_tx e ex z doc d = Inr (d', cmp) \<Longrightarrow> billing_step d d'"
| reserve: "cancel_reserve e i d = Inr (d', r) \<Longrightarrow> billing_step d d'"
| unreserve: "inv_status ex = Issued \<or> inv_status ex = Overdue \<Longrightarrow> billing_step d (unreserve ex d)"
| settle: "billing_step d (settle_credit e i d)"
| release: "billing_step d (releaseConsumedBenefits i d)"
| other_tables: "billing_step d (d\<lparr>tenant := t, owners := ows, customers := cus, facilities := facs, units := us,
     contracts := cons, certificates := certs, referrals := refs, notifications := ns,
     remittance_items := rems, dunning_actions := duns\<rparr>)"

definition start_db :: "db \<Rightarrow> bool" where
  "start_db d \<longleftrightarrow> invoices d = [] \<and> series d = []"

inductive reachable :: "db \<Rightarrow> bool" where
  start: "start_db d \<Longrightarrow> reachable d"
| step: "reachable d \<Longrightarrow> billing_step d d' \<Longrightarrow> reachable d'"

lemma billing_step_grows:
  assumes "billing_step d d'"
  shows "grows d d'"
  using assms
proof cases
  case create then show ?thesis by (rule create_invoice_grows)
next
  case (update e ex input)
  then show ?thesis using update_from_keeps keeps_grows by blast
next
  case issue then show ?thesis using issue_from_grows by blast
next
  case bulk_issue then show ?thesis by (rule bulkIssue_grows)
next
  case link_holded then show ?thesis by (rule linkHolded_grows)
next
  case receipt then show ?thesis by (rule createDepositReceipt_grows)
next
  case rectify then show ?thesis by (rule rectify_grows)
next
  case pay then show ?thesis using markPaid_keeps keeps_grows by blast
next
  case revert then show ?thesis using revertPayment_keeps keeps_grows unfolding grows_def by blast
next
  case refund then show ?thesis using refund_keeps keeps_grows by blast
next
  case refund_credit then show ?thesis using onInvoiceRefunded_grows by simp
next
  case cancel then show ?thesis using cancel_from_grows [OF cancelOrphanLateFee_keeps] by blast
next
  case late_fee then show ?thesis by (rule createLateFee_grows)
next
  case resend then show ?thesis using resendAeat_keeps keeps_grows by blast
next
  case send then show ?thesis using sendToAeat_keeps keeps_grows by blast
next
  case refresh then show ?thesis using refreshStatus_keeps keeps_grows by blast
next
  case new_series then show ?thesis by (rule create_series_grows)
next
  case edit_series then show ?thesis by (rule update_series_grows)
next
  case claim then show ?thesis using claim_holded_keeps keeps_grows unfolding grows_def by blast
next
  case issue_locked then show ?thesis using issue_tx_grows by blast
next
  case reserve then show ?thesis using cancel_reserve_keeps(1) keeps_grows by blast
next
  case unreserve then show ?thesis using unreserve_keeps keeps_grows by fastforce
next
  case settle then show ?thesis using settle_credit_keeps keeps_grows by simp
next
  case release then show ?thesis using releaseConsumedBenefits_keeps keeps_grows by simp
next
  case other_tables then show ?thesis by (simp add: keeps_grows keeps_books_def list.rel_refl)
qed

lemma start_books: "start_db d \<Longrightarrow> books_ok d"
  by (simp add: start_db_def books_ok_def series_ok_def ids_ok_def fresh_series_ids_def drafts_clean_def
      numbering_ok_def chain_ok_def records_of_def chain.linked_def)

lemma reachable_books: "reachable d \<Longrightarrow> books_ok d"
proof (induction rule: reachable.induct)
  case (start d)
  then show ?case by (rule start_books)
next
  case (step d d')
  then show ?case using billing_step_grows by (auto simp: grows_def)
qed

lemma steps_extend:
  assumes "billing_step\<^sup>*\<^sup>* d d'" and "books_ok d"
  shows "books_ok d' \<and> extends_books d d'"
  using assms
proof (induction rule: rtranclp_induct)
  case base
  then show ?case by simp
next
  case (step d1 d2)
  then show ?case using billing_step_grows [OF step.hyps(2)] extends_books_trans by (auto simp: grows_def)
qed

end
