(* ===== verification/Sales.thy ===== *)
theory Sales imports Stock Journal begin

text \<open>
  Counter sales (\<open>apps/api/src/modules/products/product-sales.service.ts\<close>). A sale takes stock,
  records its lines and movements in one transaction, then is invoiced, and its invoice is issued
  and collected, each in its own transaction. Cancelling puts the stock back and refunds or annuls
  the invoice; its failure is only logged. The sale read before cancelling is an argument.
\<close>

section \<open>Amounts of a sale\<close>

definition F2_LIMIT :: rat where "F2_LIMIT = 400"

text \<open>\<open>Math.round(n * 100) / 100\<close>, in floating point.\<close>

definition round2 :: "rat \<Rightarrow> rat" where
  "round2 n = ndiv (of_int (math_round (nmul n 100))) 100"

record sale_line =
  sli_productId :: id
  sli_quantity :: int

record sale_input =
  sin_facilityId :: id
  sin_customerId :: "id option"
  sin_invoiceSeriesId :: "id option"
  sin_paymentMethod :: "method_type option option"
  sin_notes :: "string option"
  sin_items :: "sale_line list"

text \<open>The method: \<open>Some None\<close> is \<open>pending\<close>, \<open>None\<close> the default \<open>cash\<close>.\<close>

definition pay_method_of :: "sale_input \<Rightarrow> method_type option" where
  "pay_method_of input = (case sin_paymentMethod input of None \<Rightarrow> Some Cash | Some m \<Rightarrow> m)"

definition line_subtotal :: "product_row \<Rightarrow> int \<Rightarrow> rat" where
  "line_subtotal p q = round2 (nmul (euros (prd_price p)) (of_int q))"

definition line_total :: "product_row \<Rightarrow> int \<Rightarrow> rat" where
  "line_total p q = round2 (nmul (line_subtotal p q) (nadd 1 (ndiv (prd_taxRate p) 100)))"

definition sale_total :: "(product_row \<times> int) list \<Rightarrow> rat" where
  "sale_total ls = foldl (\<lambda>t (p, q). round2 (nadd t (line_total p q))) 0 ls"

section \<open>Selling\<close>

definition find_product :: "shop \<Rightarrow> id \<Rightarrow> product_row option" where
  "find_product sh p = find_first (\<lambda>r. prd_id r = p \<and> \<not> prd_deleted r) (products sh)"

fun sale_products :: "shop \<Rightarrow> sale_line list \<Rightarrow> (product_row \<times> int) list result" where
  "sale_products sh [] = Inr []"
| "sale_products sh (l # ls) =
     bindr (found (find_product sh (sli_productId l)) (NotFoundException ''product_not_found'')) (\<lambda>p.
     bindr (guard (prd_isActive p) (ConflictException ''product_inactive'')) (\<lambda>_.
     bindr (sale_products sh ls) (\<lambda>ps. Inr ((p, sli_quantity l) # ps))))"

definition sale_lines :: "id \<Rightarrow> (product_row \<times> int) list \<Rightarrow> sale_item_row list" where
  "sale_lines sale ls =
     map (\<lambda>(p, q). \<lparr>si_saleId = sale, si_productId = prd_id p, si_unitPrice = euros (prd_price p),
            si_quantity = q, si_taxRate = prd_taxRate p, si_lineSubtotal = line_subtotal p q,
            si_lineTotal = line_total p q\<rparr>) ls"

definition trimmed :: "string option \<Rightarrow> string option" where
  "trimmed s = (case s of None \<Rightarrow> None | Some n \<Rightarrow> if trim n = [] then None else Some (trim n))"

definition take_stock :: "id \<Rightarrow> (product_row \<times> int) list \<Rightarrow> shop \<Rightarrow> shop result" where
  "take_stock f ls sh = foldr_res (\<lambda>(p, q). decrementInTx (prd_id p) f q) ls sh"

definition record_sales ::
  "env \<Rightarrow> id \<Rightarrow> id option \<Rightarrow> id \<Rightarrow> (product_row \<times> int) list \<Rightarrow> shop \<Rightarrow> shop" where
  "record_sales e f user sale ls sh =
     foldl (\<lambda>s (p, q). recordMovement (stock_movement e (prd_id p) f (- q) None Mv_sale None (Some sale) user) s)
       sh ls"

definition sale_tx :: "env \<Rightarrow> id option \<Rightarrow> sale_input \<Rightarrow> shop \<Rightarrow> (shop \<times> id) result" where
  "sale_tx e user input sh =
     bindr (assertFacility sh (sin_facilityId input)) (\<lambda>_.
     bindr (sale_products sh (sin_items input)) (\<lambda>ls.
     let tot = sale_total ls
     in bindr (guard (\<not> (sin_customerId input = None \<and> F2_LIMIT < tot))
                (BadRequestException ''customer_required'')) (\<lambda>_.
        bindr (take_stock (sin_facilityId input) ls sh) (\<lambda>sh1.
        let i = next_sale sh1;
            sale = \<lparr>sal_id = i, sal_facilityId = sin_facilityId input, sal_customerId = sin_customerId input,
                    sal_invoiceId = None, sal_status = Sale_pending, sal_total = tot,
                    sal_notes = trimmed (sin_notes input), sal_soldBy = user, sal_cancelledAt = None\<rparr>;
            sh2 = sh1\<lparr>sales := create_row sale (sales sh1), sale_items := sale_items sh1 @ sale_lines i ls,
                      next_sale := Suc i\<rparr>
        in Inr (record_sales e (sin_facilityId input) user i ls sh2, i)))))"

definition find_sale :: "shop \<Rightarrow> id \<Rightarrow> sale_row option" where
  "find_sale sh i = find_first (\<lambda>s. sal_id s = i) (sales sh)"

definition update_sale :: "id \<Rightarrow> (sale_row \<Rightarrow> sale_row) \<Rightarrow> shop \<Rightarrow> shop" where
  "update_sale i f sh = sh\<lparr>sales := update_many (\<lambda>s. sal_id s = i) f (sales sh)\<rparr>"

definition items_of_sale :: "shop \<Rightarrow> id \<Rightarrow> sale_item_row list" where
  "items_of_sale sh i = filter (\<lambda>it. si_saleId it = i) (sale_items sh)"

definition product_name :: "shop \<Rightarrow> id \<Rightarrow> string" where
  "product_name sh p = (case find_first (\<lambda>r. prd_id r = p) (products sh) of None \<Rightarrow> [] | Some r \<Rightarrow> prd_name r)"

definition invoice_line :: "shop \<Rightarrow> sale_item_row \<Rightarrow> item_input" where
  "invoice_line sh it =
     \<lparr>ii_description = product_name sh (si_productId it), ii_quantity = of_int (si_quantity it),
      ii_unitPrice = si_unitPrice it, ii_taxRate = si_taxRate it, ii_taxCategory = None,
      ii_relatedContractId = None, ii_relatedUnitId = None, ii_periodStart = None, ii_periodEnd = None\<rparr>"

definition sale_invoice :: "shop \<Rightarrow> id \<Rightarrow> sale_input \<Rightarrow> id \<Rightarrow> create_input" where
  "sale_invoice sh sid input i =
     \<lparr>ci_customerId = sin_customerId input, ci_contractId = None, ci_seriesId = Some sid,
      ci_invoiceType = Some (if sin_customerId input = None then F2 else F1), ci_justification = None,
      ci_issueDate = None, ci_dueDate = None, ci_periodStart = None, ci_periodEnd = None,
      ci_notes = trimmed (sin_notes input), ci_items = map (invoice_line sh) (items_of_sale sh i)\<rparr>"

definition counter_payment :: "rat \<Rightarrow> method_type \<Rightarrow> mark_paid_input" where
  "counter_payment amount m =
     \<lparr>mp_amount = toCents amount, mp_method = m, mp_paidAt = None, mp_notes = Some ''Venta en el mostrador'',
      mp_override = False, mp_allowInRemittance = False, mp_allowPartialNonCash = False,
      mp_rejectDuplicate = False\<rparr>"

definition resolveInvoiceSeriesId :: "db \<Rightarrow> id option \<Rightarrow> id result" where
  "resolveInvoiceSeriesId d explicit =
     (case explicit of
        Some i \<Rightarrow> Inr i
      | None \<Rightarrow> bindr (found (getDefault d) (BadRequestException ''default_series_required''))
                  (\<lambda>s. Inr (ser_id s)))"

text \<open>After the sale is stored: invoice it, issue, link and collect; each stage is committed.\<close>

definition collect_sale ::
  "env \<Rightarrow> sale_input \<Rightarrow> id \<Rightarrow> id \<Rightarrow> rat \<Rightarrow> shop \<Rightarrow> shop \<times> unit result" where
  "collect_sale e input i bill amount sh =
     (case pay_method_of input of
        None \<Rightarrow> (sh, Inr ())
      | Some m \<Rightarrow>
          (case markPaidManually e None bill (counter_payment amount m) (books sh) of
             Inl err \<Rightarrow> (sh, Inl err)
           | Inr d \<Rightarrow> (update_sale i (\<lambda>s. s\<lparr>sal_status := Sale_paid\<rparr>) (sh\<lparr>books := d\<rparr>), Inr ())))"

definition invoice_sale :: "env \<Rightarrow> id \<Rightarrow> sale_input \<Rightarrow> id \<Rightarrow> shop \<Rightarrow> shop \<times> unit result" where
  "invoice_sale e sid input i sh =
     (case create_invoice e (books sh) None None None (sale_invoice sh sid input i) of
        Inl err \<Rightarrow> (sh, Inl err)
      | Inr (d1, draft) \<Rightarrow>
          (case issue e None None True (inv_id draft) d1 of
             (d2, Inl err) \<Rightarrow> (sh\<lparr>books := d2\<rparr>, Inl err)
           | (d2, Inr _) \<Rightarrow>
               (let sh1 = update_sale i (\<lambda>s. s\<lparr>sal_invoiceId := Some (inv_id draft)\<rparr>) (sh\<lparr>books := d2\<rparr>);
                    amount = (case find_sale sh i of None \<Rightarrow> 0 | Some s \<Rightarrow> sal_total s)
                in collect_sale e input i (inv_id draft) amount sh1)))"

definition create_sale :: "env \<Rightarrow> id option \<Rightarrow> sale_input \<Rightarrow> shop \<Rightarrow> shop \<times> id result" where
  "create_sale e user input sh =
     (if pay_method_of input = None \<and> sin_customerId input = None
      then (sh, Inl (BadRequestException ''customer_required''))
      else case resolveInvoiceSeriesId (books sh) (sin_invoiceSeriesId input) of
        Inl err \<Rightarrow> (sh, Inl err)
      | Inr sid \<Rightarrow>
          (case sale_tx e user input sh of
             Inl err \<Rightarrow> (sh, Inl err)
           | Inr (sh1, i) \<Rightarrow>
               (case invoice_sale e sid input i sh1 of
                  (sh2, Inl err) \<Rightarrow> (sh2, Inl err)
                | (sh2, Inr _) \<Rightarrow> (sh2\<lparr>books := audit ''product_sale.created'' i (books sh2)\<rparr>, Inr i))))"

definition onInvoicePaid :: "id \<Rightarrow> shop \<Rightarrow> shop" where
  "onInvoicePaid bill sh =
     sh\<lparr>sales := update_many (\<lambda>s. sal_invoiceId s = Some bill \<and> sal_status s = Sale_pending)
                   (\<lambda>s. s\<lparr>sal_status := Sale_paid\<rparr>) (sales sh)\<rparr>"

section \<open>Cancelling a sale\<close>

definition return_line ::
  "env \<Rightarrow> id option \<Rightarrow> sale_row \<Rightarrow> string option \<Rightarrow> sale_item_row \<Rightarrow> shop \<Rightarrow> shop" where
  "return_line e user sale reason it sh =
     recordMovement (stock_movement e (si_productId it) (sal_facilityId sale) (si_quantity it) None
         Mv_sale_cancelled reason (Some (sal_id sale)) user)
       (restoreInTx (si_productId it) (sal_facilityId sale) (si_quantity it) sh)"

definition return_tx ::
  "env \<Rightarrow> id option \<Rightarrow> sale_row \<Rightarrow> sale_item_row list \<Rightarrow> string option \<Rightarrow> shop \<Rightarrow> shop" where
  "return_tx e user sale its reason sh =
     update_sale (sal_id sale) (\<lambda>s. s\<lparr>sal_status := Sale_cancelled, sal_cancelledAt := Some (now e)\<rparr>)
       (foldl (\<lambda>s it. return_line e user sale reason it s) sh its)"

definition refundable :: "db \<Rightarrow> id \<Rightarrow> rat" where
  "refundable d bill =
     (case find_invoice d bill of
        None \<Rightarrow> round2 (nsub 0 0)
      | Some r \<Rightarrow> round2 (nsub (euros (inv_amountPaid r)) (euros (inv_amountRefunded r))))"

definition sale_refund :: "rat \<Rightarrow> string option \<Rightarrow> refund_input" where
  "sale_refund amount reason =
     \<lparr>rf_amount = toCents amount,
      rf_reason = Some (case reason of None \<Rightarrow> ''Venta cancelada'' | Some r \<Rightarrow> r),
      rf_registeredExternally = False, rf_allowDepositReceipt = False, rf_rejectDuplicate = False,
      rf_userId = None\<rparr>"

definition undo_invoice ::
  "env \<Rightarrow> gateway_answer \<Rightarrow> id option \<Rightarrow> id \<Rightarrow> string option \<Rightarrow> db \<Rightarrow> db \<times> unit result" where
  "undo_invoice e gw user bill reason d =
     (if 0 < refundable d bill
      then (case refund e gw None bill ((sale_refund (refundable d bill) reason)\<lparr>rf_userId := user\<rparr>) d of
              Inl err \<Rightarrow> (d, Inl err) | Inr d' \<Rightarrow> (d', Inr ()))
      else cancel e None bill (Some (case reason of None \<Rightarrow> ''Venta cancelada'' | Some r \<Rightarrow> r)) d)"

definition cancel_sale_from ::
  "env \<Rightarrow> gateway_answer \<Rightarrow> id option \<Rightarrow> sale_row \<Rightarrow> sale_item_row list \<Rightarrow> string option \<Rightarrow> shop \<Rightarrow> shop" where
  "cancel_sale_from e gw user sale its reason sh =
     (let sh1 = return_tx e user sale its reason sh;
          d2 = (case sal_invoiceId sale of
                  None \<Rightarrow> books sh1
                | Some bill \<Rightarrow>
                    (case undo_invoice e gw user bill reason (books sh1) of
                       (d, Inr _) \<Rightarrow> d
                     | (d, Inl _) \<Rightarrow> audit ''product_sale.invoice_cancel_failed'' (sal_id sale) d))
      in sh1\<lparr>books := audit ''product_sale.cancelled'' (sal_id sale) d2\<rparr>)"

definition cancel_sale ::
  "env \<Rightarrow> gateway_answer \<Rightarrow> facility_scope \<Rightarrow> id option \<Rightarrow> id \<Rightarrow> string option \<Rightarrow> shop \<Rightarrow> shop result" where
  "cancel_sale e gw scope user i reason sh =
     bindr (found (find_sale sh i) (NotFoundException ''product_sale_not_found'')) (\<lambda>sale.
     bindr (assertFacilityAllowed scope (sal_facilityId sale)) (\<lambda>_.
     bindr (guard (sal_status sale = Sale_pending \<or> sal_status sale = Sale_paid)
              (BadRequestException ''product_sale_not_cancellable'')) (\<lambda>_.
     Inr (cancel_sale_from e gw user sale (items_of_sale sh i) reason sh))))"

definition list_sales ::
  "shop \<Rightarrow> facility_scope \<Rightarrow> id option \<Rightarrow> id option \<Rightarrow> sale_status option \<Rightarrow> sale_row list" where
  "list_sales sh scope fac customer status =
     (case resolveFacilityFilter scope fac of
        Out_of_scope \<Rightarrow> []
      | flt \<Rightarrow> take 500 (rev (filter (\<lambda>s. filter_admits flt (sal_facilityId s) \<and>
          (customer = None \<or> sal_customerId s = customer) \<and>
          (status = None \<or> Some (sal_status s) = status)) (sales sh))))"

definition sale_detail :: "shop \<Rightarrow> facility_scope \<Rightarrow> id \<Rightarrow> sale_row result" where
  "sale_detail sh scope i =
     bindr (found (find_sale sh i) (NotFoundException ''product_sale_not_found'')) (\<lambda>sale.
     bindr (assertFacilityAllowed scope (sal_facilityId sale)) (\<lambda>_. Inr sale))"

end
