(* ===== verification/Demo.thy ===== *)
theory Demo imports Journal begin

text \<open>
  A worked example, used to show that the hypotheses of the properties can hold: a tenant opens a
  series, drafts a simplified invoice of 121 euros, issues it, collects it and refunds a part.
\<close>

lemma digit_chars [simp]:
  "digit 0 = CHR ''0''" "digit 1 = CHR ''1''" "digit (Suc 0) = CHR ''1''" "digit 2 = CHR ''2''"
  "digit 3 = CHR ''3''" "digit 4 = CHR ''4''" "digit 5 = CHR ''5''" "digit 6 = CHR ''6''"
  "digit 7 = CHR ''7''" "digit 8 = CHR ''8''" "digit 9 = CHR ''9''"
  by code_simp+

lemma euros_whole: "\<bar>n\<bar> \<le> 1000000 \<Longrightarrow> euros (100 * n) = of_int n"
  by (simp add: euros_def ndiv_def of_int_le_2_53)

definition demo_env :: env where
  "demo_env = \<lparr>now = 1768000000000, tz_offset = (\<lambda>_. 3600000), zone_offset = (\<lambda>_ _. 3600000),
     realMode = False, sha256 = (\<lambda>s. CHR ''0'' # toUpperCase s),
     madrid_timestamp = (\<lambda>_. ''2026-01-10T00:06:40+01:00''), production = False,
     qr_png = (\<lambda>_. ''png''), draft_suffix = show_nat, skip_readiness = False,
     holded_ready = False, holded_issue = (\<lambda>_. None), holded_credit_number = (\<lambda>_. None)\<rparr>"

definition demo_tenant :: tenant_row where
  "demo_tenant = default_tenant\<lparr>ten_taxId := Some ''B12345674'', ten_billingLegalName := Some ''Trasteros SL'',
     ten_billingAddress := Some ''Calle Mayor 1'', ten_billingPostalCode := Some ''28001'',
     ten_billingCity := Some ''Madrid''\<rparr>"

definition demo_facility :: facility_row where
  "demo_facility = \<lparr>fac_id = 1, fac_name = ''Centro'', fac_ownerId = None, fac_timezone = ''Europe/Madrid'',
     fac_preOpening = False, fac_openingDate = None, fac_preOpeningMaxMonths = 6, fac_deleted = False\<rparr>"

definition demo_db0 :: db where
  "demo_db0 = empty_db\<lparr>tenant := demo_tenant, facilities := [demo_facility]\<rparr>"

definition demo_series :: create_series_input where
  "demo_series = \<lparr>csi_code = ''FA'', csi_name = ''Facturas'', csi_prefix = ''FA'', csi_yearScope = True,
     csi_facilityId = None, csi_isDefault = True\<rparr>"

definition demo_row :: series_row where
  "demo_row = default_series\<lparr>ser_id := 1, ser_code := ''FA'', ser_name := ''Facturas'', ser_prefix := ''FA'',
     ser_isDefault := True\<rparr>"

definition demo_db1 :: db where
  "demo_db1 = demo_db0\<lparr>next_id := 2, series := [demo_row], audits := [(''invoice_series.created'', 1)]\<rparr>"

lemma demo_facilities [simp]:
  "facilities demo_db0 = [demo_facility]" "facilities demo_db1 = [demo_facility]"
  "fac_id demo_facility = 1" "\<not> fac_deleted demo_facility"
  by (simp_all add: demo_db0_def demo_db1_def demo_facility_def)

lemma demo_new_series: "create_series demo_db0 demo_series = Inr (demo_db1, demo_row)"
  by (simp add: create_series_def demo_series_def unset_defaults_def demo_db0_def demo_db1_def demo_row_def
      empty_db_def default_series_def insert_series_def Let_def create_row_def trim_def is_space_def code_def
      toUpperCase_def upper_char_def audit_def)

definition demo_item :: item_input where
  "demo_item = \<lparr>ii_description = ''Trastero'', ii_quantity = 1, ii_unitPrice = 100, ii_taxRate = 21,
     ii_taxCategory = None, ii_relatedContractId = None, ii_relatedUnitId = None, ii_periodStart = None,
     ii_periodEnd = None\<rparr>"

definition demo_input :: create_input where
  "demo_input = \<lparr>ci_customerId = None, ci_contractId = None, ci_seriesId = None, ci_invoiceType = Some F2,
     ci_justification = None, ci_issueDate = Some 20463, ci_dueDate = None, ci_periodStart = None,
     ci_periodEnd = None, ci_notes = None, ci_items = [demo_item]\<rparr>"

lemma demo_line: "input_line demo_item = \<lparr>baseCents = 10000, taxCents = 2100, totalCents = 12100\<rparr>"
  using lineCents_exact [of 1 10000 21] euros_whole [of 100]
  by (simp add: input_line_def demo_item_def half_away_def)

lemma demo_totals:
  "computeTotals [demo_item] = Inr \<lparr>tot_subtotal = 10000, tot_taxAmount = 2100, tot_total = 12100\<rparr>"
  by (simp add: computeTotals_def demo_line assertTotalInRange_def MAX_INVOICE_TOTAL_CENTS_def)

definition demo_draft :: invoice_row where
  "demo_draft = default_invoice\<lparr>inv_id := 2, inv_type := F2, inv_seriesId := 1, inv_number := ''DRAFT-2'',
     inv_issueDate := Some 20463, inv_subtotal := 10000, inv_taxAmount := 2100, inv_total := 12100\<rparr>"

definition demo_item_row :: item_row where
  "demo_item_row = \<lparr>it_invoiceId = 2, it_position = 0, it_description = ''Trastero'', it_quantity = 1,
     it_unitPrice = 100, it_taxRate = 21, it_taxCategory = S1, it_taxAmount = 2100, it_total = 12100,
     it_relatedContractId = None, it_relatedUnitId = None, it_periodStart = None, it_periodEnd = None\<rparr>"

definition demo_db2 :: db where
  "demo_db2 = demo_db1\<lparr>next_id := 3, invoices := [demo_draft], items := [demo_item_row],
     audits := [(''invoice_series.created'', 1), (''invoice.created'', 2)]\<rparr>"

lemma demo_item_create: "item_rows (toItemCreateData 2) [demo_item] 0 = Inr [demo_item_row]"
  by (simp add: toItemCreateData_def demo_line lineTaxCategory_def demo_item_row_def)
    (simp add: demo_item_def defaultTaxCategory_def taxCategoryAllowsRate_def Let_def)

lemma demo_suffix: "draft_suffix demo_env 2 = ''2''"
  by (simp add: demo_env_def show_nat.simps)

lemma demo_create: "create_invoice demo_env demo_db1 None None None demo_input = Inr (demo_db2, demo_draft)"
  by (simp add: create_invoice_def demo_input_def demo_totals f2_limit_def create_tx_def create_owner_def
      create_series_for_def owner_default_series_def insert_invoice_def Let_def demo_db1_def demo_db0_def
      empty_db_def demo_row_def default_series_def violates_unique_def create_notes_def
      draftPlaceholderNumber_def demo_suffix demo_item_create demo_db2_def demo_draft_def
      default_invoice_def create_row_def audit_def del: item_rows.simps)

section \<open>Issuing\<close>

definition demo_number :: string where "demo_number = ''FA/2026/00001''"

definition demo_link :: chain_link where
  "demo_link = link_after demo_env None ''B12345674'' demo_number 20463 F2 (euros 2100) (euros 12100)"

definition demo_issued :: invoice_row where
  "demo_issued = issued_fields demo_env demo_draft False 15 1 demo_number demo_link ''png'' demo_draft"

definition demo_db3 :: db where
  "demo_db3 = demo_db2\<lparr>series := [take_number 2026 demo_row], invoices := [demo_issued],
     verifactu_queue := [2], events := [Invoice_issued 2, Invoice_pdf_requested 2],
     audits := [(''invoice_series.created'', 1), (''invoice.created'', 2), (''invoice.issued'', 2)]\<rparr>"

lemma demo_year: "year_of 20463 = 2026"
  by (simp add: year_of_def day_from_year_def)

lemma replicate_4: "replicate 4 c = [c, c, c, c]"
  by (simp add: numeral_eq_Suc)

lemma demo_format: "formatInvoiceNumber (take_number 2026 demo_row) 1 20463 = demo_number"
  by (simp add: formatInvoiceNumber_def take_number_def demo_row_def default_series_def demo_year
      demo_number_def padStart_def show_int_def show_nat.simps replicate_4)

lemma demo_ids: "inv_id demo_draft = 2" "inv_ownerId demo_draft = None" "inv_kind demo_draft = Invoice_kind"
  "inv_status demo_draft = Draft" "inv_rectifies demo_draft = None" "inv_total demo_draft = 12100"
  "inv_taxAmount demo_draft = 2100" "inv_seriesId demo_draft = 1" "inv_issueDate demo_draft = Some 20463"
  "inv_type demo_draft = F2" "inv_contractId demo_draft = None" "inv_deleted demo_draft = False"
  "inv_sequence demo_draft = 0" "inv_vf demo_draft = no_verifactu"
  by (simp_all add: demo_draft_def default_invoice_def)

lemma demo_db2_sel: "invoices demo_db2 = [demo_draft]" "series demo_db2 = [demo_row]"
  "tenant demo_db2 = demo_tenant" "owners demo_db2 = []" "certificates demo_db2 = []" "contracts demo_db2 = []"
  by (simp_all add: demo_db2_def demo_db1_def demo_db0_def empty_db_def)

lemma demo_tax_id: "emitter_tax_id demo_db2 None = ''B12345674''"
  by (simp add: emitter_tax_id_def demo_db2_sel demo_tenant_def normalizeTaxId_def toUpperCase_def
      upper_char_def code_def is_space_def)

lemma demo_link_eq:
  "computeChainedHash demo_env demo_db2 None ''B12345674'' demo_number 20463 F2 (euros 2100) (euros 12100)
   = demo_link"
  by (simp add: computeChainedHash_def demo_link_def chain_of_def demo_db2_sel demo_ids chain_seq_def
      no_verifactu_def)

lemma demo_sha: "toUpperCase (sha256 demo_env s) = sha256 demo_env s \<and> sha256 demo_env s \<noteq> []"
  by (simp add: demo_env_def toUpperCase_def upper_char_idem) (simp add: upper_char_def code_def)

lemma demo_timestamp: "madrid_timestamp demo_env (now demo_env) \<noteq> []"
  by (simp add: demo_env_def)

lemma demo_issue_app: "issue_app demo_env demo_draft False demo_db2 =
  Inr (update_invoice 2 (\<lambda>_. demo_issued) (demo_db2\<lparr>series := [take_number 2026 demo_row]\<rparr>), None)"
proof -
  have find: "find_invoice demo_db2 2 = Some demo_draft" "find_series demo_db2 1 = Some demo_row"
    "ser_isActive demo_row"
    by (simp_all add: find_invoice_def find_series_def demo_db2_sel demo_ids demo_row_def default_series_def)
  let ?d1 = "update_series 1 (take_number 2026) demo_db2"
  have d1: "?d1 = demo_db2\<lparr>series := [take_number 2026 demo_row]\<rparr>"
    by (simp add: update_series_def demo_db2_sel demo_row_def)
  have res: "reserveNextNumber demo_db2 1 2026 = Inr (?d1, 1, take_number 2026 demo_row)"
    using find by (simp add: reserveNextNumber_def take_number_def demo_row_def default_series_def Let_def)
  have fiscal: "assertIssuerFiscalData demo_env ?d1 None = Inr ()"
    by (simp add: assertIssuerFiscalData_def demo_db2_sel demo_tenant_def tenantFiscalDataMissing_def
        blank_def trim_def is_space_def code_def demo_env_def)
  have real: "real_mode_checks demo_env ?d1 demo_draft = Inr ()"
    by (simp add: real_mode_checks_def demo_env_def)
  have qr: "qr_png demo_env x = ''png''" for x by (simp add: demo_env_def)
  have chain: "computeChainedHash demo_env ?d1 ow t n dt ty a b =
      computeChainedHash demo_env demo_db2 ow t n dt ty a b" for ow t n dt ty a b
    by (simp add: computeChainedHash_def chain_of_def)
  have last: "last_issue_date ?d1 1 = None"
    by (simp add: last_issue_date_def demo_db2_sel demo_ids)
  have written: "write_invoice 2 (issued_fields demo_env demo_draft False 15 1 demo_number demo_link ''png'') ?d1
      = Inr (update_invoice 2 (\<lambda>_. demo_issued) ?d1, demo_issued)"
    using find by (simp add: write_invoice_def find_invoice_def demo_db2_sel violates_unique_def demo_ids
        demo_issued_def issued_fields_def mark_settled_view update_invoice_def)
  have withholding: "applyWithholding demo_env d demo_issued = d" for d
    by (simp add: applyWithholding_def withholding_applies_def demo_issued_def issued_fields_def
        mark_settled_def demo_ids settles_def)
  show ?thesis
    unfolding d1 [symmetric] using written
    by (simp add: issue_app_def issue_date_of_def demo_ids demo_year res last demo_format demo_tax_id Let_def
        fiscal real pending_tax_id_def chain demo_link_eq buildQrDataUrl_def qr demo_db2_sel demo_tenant_def
        default_tenant_def settles_def compensate_original_def withholding del: One_nat_def)
qed

lemma demo_found: "find_invoice demo_db2 2 = Some demo_draft"
  by (simp add: find_invoice_def demo_db2_sel demo_ids)

lemma demo_issue_tx: "issue_tx demo_env demo_draft False None demo_db2 =
  Inr (update_invoice 2 (\<lambda>_. demo_issued) (demo_db2\<lparr>series := [take_number 2026 demo_row]\<rparr>), None)"
  by (simp add: issue_tx_def demo_ids demo_found rectification_before_issue_def demo_issue_app
      del: One_nat_def)

lemma demo_issue: "issue demo_env None None True 2 demo_db2 = (demo_db3, Inr ())"
proof -
  have find: "findOrThrow demo_db2 None 2 = Inr demo_draft"
    by (simp add: findOrThrow_def demo_db2_sel demo_ids invoice_facility_def)
  have mode: "current_mode demo_env demo_db2 = (demo_db2, By_app)"
    by (simp add: current_mode_def demo_db2_sel demo_tenant_def default_tenant_def Let_def)
  have "after_issue demo_draft False False None
      (update_invoice 2 (\<lambda>_. demo_issued) (demo_db2\<lparr>series := [take_number 2026 demo_row]\<rparr>)) = demo_db3"
    by (simp add: after_issue_def demo_ids demo_db3_def demo_db2_def demo_db1_def demo_db0_def empty_db_def
        update_invoice_def emit_def audit_def Let_def)
  then show ?thesis
    by (simp add: issue_def find issue_from_def demo_ids assertTransition_def mode demo_issue_tx)
qed

section \<open>The issued invoice of the example\<close>

lemma demo_issued_sel [simp]:
  "inv_id demo_issued = 2" "inv_status demo_issued = Issued" "inv_total demo_issued = 12100"
  "inv_amountPaid demo_issued = 0" "inv_amountRefunded demo_issued = 0" "inv_kind demo_issued = Invoice_kind"
  "inv_dueDate demo_issued = Some 20478"
  by (simp_all add: demo_issued_def issued_fields_def mark_settled_def demo_ids settles_def)
    (simp_all add: demo_draft_def default_invoice_def computeDefaultDueDate_def issue_date_of_def)

lemma demo_db3_sel [simp]:
  "invoices demo_db3 = [demo_issued]" "payments demo_db3 = []" "remittance_items demo_db3 = []"
  "refunds demo_db3 = []" "find_invoice demo_db3 2 = Some demo_issued" "next_id demo_db3 = 3"
  by (simp_all add: demo_db3_def demo_db2_def demo_db1_def demo_db0_def empty_db_def find_invoice_def)

lemma demo_link_hash: "\<exists>hs. cl_hash demo_link = CHR ''0'' # hs"
  by (auto simp: demo_link_def link_after_def computeAltaHash_def demo_env_def Let_def)

lemma demo_issued_record:
  "inv_number demo_issued = demo_number" "inv_issueDate demo_issued = Some 20463"
  "vf_hash (inv_vf demo_issued) = Some (cl_hash demo_link)" "vf_aeatStatus (inv_vf demo_issued) = Some Aeat_pending"
  "vf_previousInvoiceId (inv_vf demo_issued) = None" "vf_aeatSentAt (inv_vf demo_issued) = None"
  by (simp_all add: demo_issued_def issued_fields_def mark_settled_view issue_date_of_def demo_ids demo_link_def
      link_after_def Let_def no_verifactu_def)

section \<open>The states of the example are reachable\<close>

lemma demo_reachable1: "reachable demo_db1"
  by (rule reachable.step [OF reachable.start billing_step.new_series [OF demo_new_series]])
    (simp add: start_db_def demo_db0_def empty_db_def)

lemma demo_reachable2: "reachable demo_db2"
  by (rule reachable.step [OF demo_reachable1 billing_step.create [OF demo_create]])

lemma demo_snapshot: "current_snapshot demo_draft demo_db2"
  by (simp add: current_snapshot_def demo_db2_sel)

lemma demo_step3: "billing_step demo_db2 demo_db3"
proof -
  have "findOrThrow demo_db2 None 2 = Inr demo_draft"
    by (simp add: findOrThrow_def demo_db2_sel demo_ids invoice_facility_def)
  then show ?thesis
    using demo_issue demo_snapshot by (auto simp: issue_def intro: billing_step.issue)
qed

lemma demo_reachable3: "reachable demo_db3"
  by (rule reachable.step [OF demo_reachable2 demo_step3])

end
