(* ===== verification/Ledger.thy ===== *)
theory Ledger imports Demo begin

text \<open>
  What the invariant of the books says about the rows: the numbers of a series, the chain of
  records of an issuer, and what an issued invoice keeps.
\<close>

section \<open>Numbers of a series\<close>

text \<open>The numbers a series has given: all of them, or those of a year when it counts by year.\<close>

definition numbers_given :: "db \<Rightarrow> series_row \<Rightarrow> int \<Rightarrow> int list" where
  "numbers_given d s y =
     map inv_sequence (filter (\<lambda>i. inv_seriesId i = ser_id s \<and> 0 < inv_sequence i \<and>
       (ser_yearScope s \<longrightarrow> year_of (the (inv_issueDate i)) = y)) (invoices d))"

lemma numbers_of_rows:
  "numbering.numbers_of s y (numbers_in (map number_view (invoices d)) (ser_id s)) =
     mset (numbers_given d s y)"
proof -
  have "image_mset snd (filter_mset (\<lambda>p. ser_yearScope s \<longrightarrow> fst p = y)
      (numbers_in (map number_view rows) (ser_id s))) =
    mset (map inv_sequence (filter (\<lambda>i. inv_seriesId i = ser_id s \<and> 0 < inv_sequence i \<and>
       (ser_yearScope s \<longrightarrow> year_of (the (inv_issueDate i)) = y)) rows))" for rows
    by (induction rows) (auto simp: numbers_in_def number_view_def)
  then show ?thesis by (simp add: numbering.numbers_of_def numbers_given_def)
qed

lemma numbers_given_consecutive:
  assumes "books_ok d" and "s \<in> set (series d)"
  shows "\<exists>n. mset (numbers_given d s y) = mset [1..n]"
proof -
  have "numbering.gapless s (numbers_in (map number_view (invoices d)) (ser_id s))"
    using assms by (simp add: books_ok_def numbering_ok_def)
  then obtain n where "consecutive (mset (numbers_given d s y)) n"
    unfolding numbering.gapless_def numbers_of_rows by blast
  then show ?thesis by (auto simp: consecutive_def)
qed

text \<open>Two numbered invoices of a series, in the same year when it counts by year.\<close>

definition same_counting :: "series_row \<Rightarrow> invoice_row \<Rightarrow> invoice_row \<Rightarrow> bool" where
  "same_counting s i j \<longleftrightarrow>
     inv_seriesId i = ser_id s \<and> inv_seriesId j = ser_id s \<and> 0 < inv_sequence i \<and> 0 < inv_sequence j \<and>
     (ser_yearScope s \<longrightarrow> year_of (the (inv_issueDate i)) = year_of (the (inv_issueDate j)))"

lemma same_number_same_invoice:
  assumes "books_ok d" and "s \<in> set (series d)" and "i \<in> set (invoices d)" and "j \<in> set (invoices d)"
    and "same_counting s i j" and "inv_sequence i = inv_sequence j"
  shows "i = j"
proof -
  let ?y = "year_of (the (inv_issueDate i))"
  let ?p = "\<lambda>r. inv_seriesId r = ser_id s \<and> 0 < inv_sequence r \<and>
    (ser_yearScope s \<longrightarrow> year_of (the (inv_issueDate r)) = ?y)"
  obtain n where "mset (numbers_given d s ?y) = mset [1..n]"
    using numbers_given_consecutive [OF assms(1,2)] by blast
  then have "distinct (numbers_given d s ?y)" using mset_eq_imp_distinct_iff distinct_upto by blast
  then have "inj_on inv_sequence {r \<in> set (invoices d). ?p r}"
    by (simp add: numbers_given_def distinct_map)
  moreover have "i \<in> {r \<in> set (invoices d). ?p r}" "j \<in> {r \<in> set (invoices d). ?p r}"
    using assms(3-5) by (auto simp: same_counting_def)
  ultimately show ?thesis using assms(6) unfolding inj_on_def by blast
qed

lemma dates_follow:
  assumes "books_ok d" and "s \<in> set (series d)" and "i \<in> set (invoices d)" and "j \<in> set (invoices d)"
    and "same_counting s i j" and "inv_sequence i < inv_sequence j"
  shows "the (inv_issueDate i) \<le> the (inv_issueDate j)"
proof -
  have "dates_ordered s (dated (map number_view (invoices d)) (ser_id s))"
    using assms(1,2) by (simp add: books_ok_def numbering_ok_def)
  moreover have "(inv_sequence r, the (inv_issueDate r)) \<in> dated (map number_view (invoices d)) (ser_id s)"
    if "r \<in> set (invoices d)" "inv_seriesId r = ser_id s" "0 < inv_sequence r" for r
    using that by (force simp: dated_def number_view_def)
  then have "(inv_sequence i, the (inv_issueDate i)) \<in> dated (map number_view (invoices d)) (ser_id s)"
    "(inv_sequence j, the (inv_issueDate j)) \<in> dated (map number_view (invoices d)) (ser_id s)"
    using assms(3-5) by (simp_all add: same_counting_def)
  ultimately show ?thesis using assms(5,6) unfolding dates_ordered_def same_counting_def by blast
qed

section \<open>The chain of an issuer\<close>

lemma chain_of_linked:
  assumes ok: "books_ok d"
  shows "mset (map (the \<circ> chain_seq) (chain_of d ow)) = mset [1..int (length (chain_of d ow))]"
    and "i \<in> set (chain_of d ow) \<Longrightarrow> chain_seq i = Some 1 \<Longrightarrow> vf_previousInvoiceId (inv_vf i) = None"
    and "i \<in> set (chain_of d ow) \<Longrightarrow> chain_seq i = Some k \<Longrightarrow> k \<noteq> 1 \<Longrightarrow>
      \<exists>p\<in>set (chain_of d ow). chain_seq p = Some (k - 1) \<and>
        vf_previousInvoiceId (inv_vf i) = Some (inv_id p) \<and>
        vf_previousHash (inv_vf i) = vf_hash (inv_vf p)"
proof -
  have co: "chain_ok d" using ok by (simp add: books_ok_def)
  let ?C = "chain_of d ow"
  let ?K = "chained_of ` set ?C"
  have lk: "chain.linked ?K" using co records_of_rows(1) [OF co] by (metis chain_ok_def)
  have link: "\<exists>l. row_link j = Some l" if "j \<in> set ?C" for j
    using records_of_rows(2) [OF co that] by simp
  have fields: "chain_seq j = Some (cl_chainSeq (snd (chained_of j))) \<and>
      vf_hash (inv_vf j) = Some (cl_hash (snd (chained_of j))) \<and>
      vf_previousInvoiceId (inv_vf j) = cl_previousInvoiceId (snd (chained_of j)) \<and>
      vf_previousHash (inv_vf j) = cl_previousHash (snd (chained_of j))" if j: "j \<in> set ?C" for j
  proof -
    obtain l where l: "row_link j = Some l" using link [OF j] by blast
    then have "cl_previousInvoiceId l = vf_previousInvoiceId (inv_vf j) \<and>
        cl_previousHash l = vf_previousHash (inv_vf j)"
      by (fastforce simp: row_link_def split: option.splits)
    then show ?thesis using row_link_fields [OF l] l by (simp add: chained_of_def)
  qed
  have dist: "distinct ?C" "inj_on chained_of (set ?C)"
  proof -
    have "distinct (map inv_id (invoices d))" using ok by (simp add: books_ok_def ids_ok_def)
    then have ids: "distinct (map inv_id ?C)" unfolding chain_of_def by (rule distinct_map_filter)
    then show "distinct ?C" by (simp add: distinct_map)
    show "inj_on chained_of (set ?C)"
      using ids by (auto simp: distinct_map inj_on_def chained_of_def)
  qed
  have card: "card ?K = length ?C" by (simp add: card_image dist distinct_card)
  have seqs: "(the \<circ> chain_seq) j = (cl_chainSeq \<circ> snd) (chained_of j)" if "j \<in> set ?C" for j
    using fields [OF that] by simp
  have "inj_on (the \<circ> chain_seq) (set ?C)"
    using comp_inj_on [OF dist(2), of "cl_chainSeq \<circ> snd"] lk inj_on_cong [of "set ?C"] seqs
    unfolding chain.linked_def by (smt (verit) comp_apply inj_on_def)
  moreover have "(the \<circ> chain_seq) ` set ?C = {1..int (length ?C)}"
    using lk seqs card unfolding chain.linked_def image_comp by (metis (no_types, lifting) comp_apply image_cong)
  ultimately show "mset (map (the \<circ> chain_seq) ?C) = mset [1..int (length ?C)]"
    by (intro set_eq_iff_mset_eq_distinct [THEN iffD1]) (simp_all add: distinct_map dist)
  show "chain_seq i = Some 1 \<Longrightarrow> vf_previousInvoiceId (inv_vf i) = None" if i: "i \<in> set ?C"
  proof -
    assume "chain_seq i = Some 1"
    then have "link_prev (chained_of i) = None"
      using lk i fields [OF i] unfolding chain.linked_def by fastforce
    then show ?thesis using fields [OF i] by (simp add: link_prev_def)
  qed
  show "\<exists>p\<in>set ?C. chain_seq p = Some (k - 1) \<and> vf_previousInvoiceId (inv_vf i) = Some (inv_id p) \<and>
      vf_previousHash (inv_vf i) = vf_hash (inv_vf p)"
    if i: "i \<in> set ?C" and k: "chain_seq i = Some k" "k \<noteq> 1"
  proof -
    have "\<exists>q\<in>?K. (cl_chainSeq \<circ> snd) q = (cl_chainSeq \<circ> snd) (chained_of i) - 1 \<and>
        link_prev (chained_of i) = Some (link_key q)"
      using lk i k fields [OF i] unfolding chain.linked_def by fastforce
    then obtain p where p: "p \<in> set ?C"
      and seq: "cl_chainSeq (snd (chained_of p)) = k - 1" and prev: "link_prev (chained_of i) = Some (link_key (chained_of p))"
      using fields [OF i] k by auto
    have "chain_seq p = Some (k - 1)" using fields [OF p] seq by simp
    moreover have "vf_previousInvoiceId (inv_vf i) = Some (inv_id p)"
      "vf_previousHash (inv_vf i) = vf_hash (inv_vf p)"
      using prev fields [OF i] fields [OF p]
      by (auto simp: link_prev_def link_key_def chained_of_def)
    ultimately show ?thesis using p by blast
  qed
qed

section \<open>The row that issuing writes\<close>

text \<open>What the hash of a record is computed from, and the record itself.\<close>

definition hashed_part :: "invoice_row \<Rightarrow> id \<times> id option \<times> string \<times> invoice_type \<times> cents \<times> cents
    \<times> int \<times> date option \<times> verifactu_fields" where
  "hashed_part i = (inv_id i, inv_ownerId i, inv_number i, inv_type i, inv_taxAmount i, inv_total i,
     inv_sequence i, inv_issueDate i, inv_vf i)"

lemma hashed_part_money [simp]:
  "hashed_part (i\<lparr>inv_withholdingPct := p, inv_withholding := w, inv_amountPaid := a\<rparr>) = hashed_part i"
  "hashed_part (i\<lparr>inv_amountPaid := a, inv_status := st, inv_paidAt := t\<rparr>) = hashed_part i"
  by (simp_all add: hashed_part_def)

lemma applyWithholding_hashed:
  "map hashed_part (invoices (applyWithholding e d r)) = map hashed_part (invoices d)"
  by (simp add: applyWithholding_def Let_def map_update_many_inv)

lemma compensate_original_hashed:
  assumes "compensate_original e ex b d = Inr (d', cmp)"
  shows "map hashed_part (invoices d') = map hashed_part (invoices d)"
  using assms
  by (auto simp: compensate_original_def compensateWithCredit_def Let_def bindr_eq_Inr map_update_many_inv
      split: option.splits if_splits)

lemma issue_app_row:
  assumes run: "issue_app e ex z d = Inr (d', cmp)" and ex: "find_invoice d (inv_id ex) = Some ex"
  obtains t j where "find_series d (inv_seriesId ex) = Some t" and "j \<in> set (invoices d')"
    and "inv_id j = inv_id ex" and "inv_ownerId j = inv_ownerId ex"
    and "inv_sequence j = shown_number (year_of (issue_date_of e ex)) t"
    and "inv_number j = formatInvoiceNumber (take_number (year_of (issue_date_of e ex)) t)
           (shown_number (year_of (issue_date_of e ex)) t) (issue_date_of e ex)"
    and "inv_issueDate j = Some (issue_date_of e ex)"
    and "toUpperCase (the (vf_hash (inv_vf j))) = the (vf_hash (inv_vf j)) \<Longrightarrow>
         the (vf_hash (inv_vf j)) \<noteq> [] \<Longrightarrow> madrid_timestamp e (now e) \<noteq> [] \<Longrightarrow>
         verifyHash e (pending_tax_id (emitter_tax_id d (inv_ownerId ex))) j"
    and "\<exists>s. the (vf_hash (inv_vf j)) = sha256 e s"
  using run
proof (rule issue_app_Inr, goal_cases)
  case (1 t r qr link d1 d2)
  let ?dt = "issue_date_of e ex"
  let ?n = "shown_number (year_of ?dt) t"
  let ?number = "formatInvoiceNumber (take_number (year_of ?dt) t) ?n ?dt"
  let ?f = "issued_fields e ex z (ten_invoiceDueDays (tenant d)) ?n ?number link qr"
  have "ex \<in> set (invoices d1)" using find_invoice_SomeD [OF ex] 1(7) by simp
  then have "?f ex \<in> set (invoices d2)" unfolding 1(9) by (auto simp: update_many_def)
  moreover have "map hashed_part (invoices d') = map hashed_part (invoices d2)"
    using compensate_original_hashed [OF 1(10)] applyWithholding_hashed by (simp split: if_splits)
  ultimately have "hashed_part (?f ex) \<in> set (map hashed_part (invoices d'))" by simp
  then obtain j where j: "j \<in> set (invoices d')" and h: "hashed_part j = hashed_part (?f ex)"
    by (metis in_set_conv_nth length_map nth_map)
  have f: "inv_id (?f ex) = inv_id ex" "inv_ownerId (?f ex) = inv_ownerId ex" "inv_number (?f ex) = ?number"
    "inv_sequence (?f ex) = ?n" "inv_issueDate (?f ex) = Some ?dt" "inv_type (?f ex) = inv_type ex"
    "inv_taxAmount (?f ex) = inv_taxAmount ex" "inv_total (?f ex) = inv_total ex"
    "vf_hash (inv_vf (?f ex)) = Some (cl_hash link)"
    "vf_previousHash (inv_vf (?f ex)) = cl_previousHash link"
    "vf_recordTimestamp (inv_vf (?f ex)) = Some (cl_recordTimestamp link)"
    by (simp_all add: issued_fields_def mark_settled_def)
  have link: "cl_hash link = computeAltaHash e
      \<lparr>ahi_emitterTaxId = pending_tax_id (emitter_tax_id d (inv_ownerId ex)), ahi_invoiceNumber = ?number,
       ahi_issueDate = formatSpanishDate ?dt, ahi_invoiceType = show_type (inv_type ex),
       ahi_cuotaTotal = euros (inv_taxAmount ex), ahi_importeTotal = euros (inv_total ex),
       ahi_previousHash = cl_previousHash link, ahi_recordTimestamp = cl_recordTimestamp link\<rparr>"
    unfolding 1(8) computeChainedHash_def link_after_def Let_def by simp
  have ts: "cl_recordTimestamp link = madrid_timestamp e (now e)"
    unfolding 1(8) computeChainedHash_def link_after_def Let_def by simp
  have "verifyHash e (pending_tax_id (emitter_tax_id d (inv_ownerId ex))) j"
    if "toUpperCase (the (vf_hash (inv_vf j))) = the (vf_hash (inv_vf j))"
      "the (vf_hash (inv_vf j)) \<noteq> []" "madrid_timestamp e (now e) \<noteq> []"
    using that h link by (auto simp: hashed_part_def f verifyHash_def ts)
  moreover have "\<exists>s. the (vf_hash (inv_vf j)) = sha256 e s"
    using h link by (auto simp: hashed_part_def f computeAltaHash_def)
  ultimately show ?case using 1(1) [OF 1(2) j] h by (simp add: hashed_part_def f)
qed

section \<open>An invoice is issued once\<close>

lemma extends_not_draft:
  assumes ext: "extends_books d d'" and ok: "books_ok d'" and i: "i \<in> set (invoices d)"
    "inv_status i \<noteq> Draft"
  shows "\<exists>j. find_invoice d' (inv_id i) = Some j \<and> inv_status j \<noteq> Draft"
proof -
  obtain j where j: "j \<in> set (invoices d')" "inv_status j \<noteq> Draft" "number_view j = number_view i"
    using ext i unfolding extends_books_def by blast
  have "inv_id j = inv_id i" using j(3) by (simp add: number_view_def)
  moreover have "distinct (map inv_id (invoices d'))" using ok by (simp add: books_ok_def ids_ok_def)
  ultimately have "find_invoice d' (inv_id i) = Some j"
    unfolding find_invoice_def using find_first_key_unique [of inv_id "invoices d'" j] j(1) by simp
  then show ?thesis using j(2) by blast
qed

lemma extends_row:
  assumes "extends_books d d'" and "i \<in> set (invoices d)" and "inv_status i \<noteq> Draft"
  shows "\<exists>j\<in>set (invoices d'). inv_id j = inv_id i \<and> inv_status j \<noteq> Draft"
  using assms unfolding extends_books_def by (auto simp: number_view_def)

lemma after_write_extends:
  assumes "compensate_original e ex b (if s then d1 else applyWithholding e d1 r) = Inr (d', cmp)"
  shows "extends_books d1 d'"
proof (cases s)
  case True
  then show ?thesis using keeps_extends [OF compensate_original_keeps] assms by simp
next
  case False
  then show ?thesis
    using keeps_extends [OF keeps_books_trans [OF applyWithholding_keeps compensate_original_keeps]] assms
    by simp
qed

lemma issue_app_not_draft:
  assumes run: "issue_app e ex z d = Inr (d', cmp)"
  shows "\<exists>i\<in>set (invoices d'). inv_id i = inv_id ex \<and> inv_status i \<noteq> Draft"
  using run
proof (rule issue_app_Inr, goal_cases)
  case (1 t r qr link d1 d2)
  define f where "f = issued_fields e ex z (ten_invoiceDueDays (tenant d))
    (shown_number (year_of (issue_date_of e ex)) t)
    (formatInvoiceNumber (take_number (year_of (issue_date_of e ex)) t)
       (shown_number (year_of (issue_date_of e ex)) t) (issue_date_of e ex)) link qr"
  have d2: "d2 = update_invoice (inv_id ex) f d1" using 1(8) by (simp only: f_def)
  have f: "inv_id (f r) = inv_id ex" "inv_status (f r) \<noteq> Draft"
    using 1(4) by (simp_all add: f_def issued_fields_def mark_settled_view)
  have "r \<in> set (invoices d1)" using 1(3,6) by simp
  then have "f r \<in> set (invoices d2)" using 1(4) by (auto simp: d2 set_update_many)
  then show ?case using extends_row [OF after_write_extends [OF 1(9)] _ f(2)] f(1) by simp
qed

lemma issue_holded_not_draft:
  assumes run: "issue_holded e ex z doc d = Inr (d', cmp)"
  shows "\<exists>i\<in>set (invoices d'). inv_id i = inv_id ex \<and> inv_status i \<noteq> Draft"
proof -
  let ?f = "holded_written e ex z (ten_invoiceDueDays (tenant d)) doc"
  obtain d1 r' where w: "write_invoice (inv_id ex) ?f d = Inr (d1, r')"
    and c: "compensate_original e ex False (if settles ex z then d1 else applyWithholding e d1 r')
      = Inr (d', cmp)"
    using run unfolding issue_holded_def by (auto simp: bindr_eq_Inr split: prod.splits)
  obtain r where r: "r \<in> set (invoices d)" "inv_id r = inv_id ex" "d1 = update_invoice (inv_id ex) ?f d"
    using w by (rule write_invoice_Inr)
  then have mem: "?f r \<in> set (invoices d1)" by (auto simp: set_update_many)
  have f: "inv_id (?f r) = inv_id ex" "inv_status (?f r) \<noteq> Draft"
    using r(2) by (simp_all add: holded_written_def mark_settled_view)
  show ?thesis using extends_row [OF after_write_extends [OF c] mem f(2)] f(1) by simp
qed

lemma issue_tx_not_draft:
  assumes run: "issue_tx e ex z doc d = Inr (d', cmp)"
  shows "\<exists>i\<in>set (invoices d'). inv_id i = inv_id ex \<and> inv_status i \<noteq> Draft"
proof -
  obtain d1 where rest: "(case doc of Some dc \<Rightarrow> issue_holded e ex z dc d1 | None \<Rightarrow> issue_app e ex z d1)
      = Inr (d', cmp)"
    using run unfolding issue_tx_def by (auto simp: bindr_eq_Inr)
  then show ?thesis
    using issue_app_not_draft [of e ex z d1] issue_holded_not_draft [of e ex z _ d1]
    by (simp split: option.splits)
qed

lemma issue_tx_refused:
  assumes ok: "books_ok d" and i: "i \<in> set (invoices d)" "inv_id i = inv_id ex" "inv_status i \<noteq> Draft"
  shows "issue_tx e ex z doc d = Inl (ConflictException ''invoice_already_issued'')"
proof -
  have "find_invoice d (inv_id ex) = Some i"
    unfolding find_invoice_def
    using find_first_key_unique [of inv_id "invoices d" i] ok i by (simp add: books_ok_def ids_ok_def)
  then show ?thesis using i(3) by (simp add: issue_tx_def guard_def)
qed

end
