(* ===== verification/SalesProperties.thy ===== *)
theory SalesProperties imports Sales Ledger begin

text \<open>
  Properties of counter sales: the stock a sale takes and gives back, the rows it writes, the books, and the
  amounts of a sale against those of its invoice.
\<close>

section \<open>Stock of a sale\<close>

definition sold :: "id \<Rightarrow> (product_row \<times> int) list \<Rightarrow> int" where
  "sold p ls = sum_list (map snd (filter (\<lambda>l. prd_id (fst l) = p) ls))"

lemma sold_simps [simp]:
  "sold p [] = 0" "sold p ((r, q) # ls) = (if prd_id r = p then q else 0) + sold p ls"
  by (simp_all add: sold_def)

lemma decrement_books: "decrementInTx p f q sh = Inr sh' \<Longrightarrow>
    sh' = sh\<lparr>stocks := stocks sh'\<rparr>"
  by (auto simp: decrementInTx_def Let_def bindr_eq_Inr)

lemma take_stock_spec:
  assumes "stock_wf sh" and "take_stock f ls sh = Inr sh'"
  shows "stock_wf sh' \<and> sh' = sh\<lparr>stocks := stocks sh'\<rparr> \<and>
    (\<forall>p g. quantity sh' p g = quantity sh p g - (if g = f then sold p ls else 0))"
  using assms
proof (induction ls arbitrary: sh)
  case Nil
  then show ?case by (simp add: take_stock_def)
next
  case (Cons l ls)
  obtain r q where l: "l = (r, q)" by (cases l)
  obtain sh1 where dec: "decrementInTx (prd_id r) f q sh = Inr sh1" and rest: "take_stock f ls sh1 = Inr sh'"
    using Cons.prems(2) unfolding take_stock_def l by (auto simp: bindr_eq_Inr)
  note d = decrementInTx_spec [OF Cons.prems(1) dec]
  have ih: "stock_wf sh' \<and> sh' = sh1\<lparr>stocks := stocks sh'\<rparr> \<and>
      (\<forall>p g. quantity sh' p g = quantity sh1 p g - (if g = f then sold p ls else 0))"
    by (rule Cons.IH [OF d(1) rest])
  have "sh' = sh\<lparr>stocks := stocks sh'\<rparr>"
    using ih decrement_books [OF dec] by (metis shop.surjective shop.update_convs(3))
  moreover have "quantity sh' p g = quantity sh p g - (if g = f then sold p (l # ls) else 0)" for p g
    using ih d(4) [of p g] by (auto simp: l)
  ultimately show ?case using ih by blast
qed

lemma record_sales_spec:
  "moved (record_sales e f u s ls sh) p g = moved sh p g - (if g = f then sold p ls else 0)"
  "quantity (record_sales e f u s ls sh) p g = quantity sh p g"
  "stock_wf (record_sales e f u s ls sh) = stock_wf sh"
  "sales (record_sales e f u s ls sh) = sales sh" "sale_items (record_sales e f u s ls sh) = sale_items sh"
  "books (record_sales e f u s ls sh) = books sh"
  by (induction ls arbitrary: sh) (auto simp: record_sales_def stock_movement_def, auto simp: recordMovement_def)

lemma sale_tx_Inr:
  assumes "sale_tx e u a sh = Inr (sh', i)"
  obtains ls sh1 where "sale_products sh (sin_items a) = Inr ls" and "take_stock (sin_facilityId a) ls sh = Inr sh1"
    and "i = next_sale sh1" and "\<not> (sin_customerId a = None \<and> F2_LIMIT < sale_total ls)"
    and "sh' = record_sales e (sin_facilityId a) u i ls (sh1\<lparr>sales := create_row
        \<lparr>sal_id = i, sal_facilityId = sin_facilityId a, sal_customerId = sin_customerId a,
         sal_invoiceId = None, sal_status = Sale_pending, sal_total = sale_total ls,
         sal_notes = trimmed (sin_notes a), sal_soldBy = u, sal_cancelledAt = None\<rparr> (sales sh1),
       sale_items := sale_items sh1 @ sale_lines i ls, next_sale := Suc i\<rparr>)"
  using assms unfolding sale_tx_def Let_def by (auto simp: bindr_eq_Inr)

lemma shop_rows_sel [simp]:
  "quantity (sh\<lparr>sales := a, sale_items := b, next_sale := c\<rparr>) p f = quantity sh p f"
  "moved (sh\<lparr>sales := a, sale_items := b, next_sale := c\<rparr>) p f = moved sh p f"
  "stock_wf (sh\<lparr>sales := a, sale_items := b, next_sale := c\<rparr>) = stock_wf sh"
  by (simp_all add: quantity_def find_stock_def moved_def stock_wf_def)

lemma sale_products_lines:
  "sale_products sh ls = Inr ps \<Longrightarrow> map snd ps = map sli_quantity ls \<and> map (prd_id \<circ> fst) ps = map sli_productId ls"
  by (induction ls arbitrary: ps)
    (auto simp: bindr_eq_Inr find_product_def dest: find_first_SomeD)

lemma sold_lines:
  "sale_products sh ls = Inr ps \<Longrightarrow>
   sold p ps = sum_list (map sli_quantity (filter (\<lambda>l. sli_productId l = p) ls))"
  by (induction ls arbitrary: ps)
    (auto simp: bindr_eq_Inr find_product_def dest: find_first_SomeD)

lemma sale_tx_spec:
  assumes "sale_tx e u a sh = Inr (sh', i)" and "stock_wf sh" and "stock_balanced sh"
  obtains ls where "sale_products sh (sin_items a) = Inr ls" and "stock_wf sh'" and "stock_balanced sh'"
    and "\<And>p f. quantity sh' p f = quantity sh p f - (if f = sin_facilityId a then sold p ls else 0)"
    and "sale_items sh' = sale_items sh @ sale_lines i ls" and "i = next_sale sh" and "books sh' = books sh"
  using assms(1)
proof (rule sale_tx_Inr)
  fix ls sh1 assume ls: "sale_products sh (sin_items a) = Inr ls"
    and take: "take_stock (sin_facilityId a) ls sh = Inr sh1" and i: "i = next_sale sh1"
    and sh': "sh' = record_sales e (sin_facilityId a) u i ls (sh1\<lparr>sales := create_row
        \<lparr>sal_id = i, sal_facilityId = sin_facilityId a, sal_customerId = sin_customerId a,
         sal_invoiceId = None, sal_status = Sale_pending, sal_total = sale_total ls,
         sal_notes = trimmed (sin_notes a), sal_soldBy = u, sal_cancelledAt = None\<rparr> (sales sh1),
       sale_items := sale_items sh1 @ sale_lines i ls, next_sale := Suc i\<rparr>)"
  have t: "stock_wf sh1" "sh1 = sh\<lparr>stocks := stocks sh1\<rparr>"
    "\<And>p g. quantity sh1 p g = quantity sh p g - (if g = sin_facilityId a then sold p ls else 0)"
    using take_stock_spec [OF assms(2) take] by blast+
  have same: "movements sh1 = movements sh" "sale_items sh1 = sale_items sh" "next_sale sh1 = next_sale sh"
    "books sh1 = books sh"
    by (subst t(2), simp)+
  have q: "quantity sh' p f = quantity sh p f - (if f = sin_facilityId a then sold p ls else 0)" for p f
    by (simp add: sh' record_sales_spec t(3))
  show thesis
  proof (rule that [OF ls _ _ q])
    show "stock_wf sh'" using t(1) by (simp add: sh' record_sales_spec)
    show "stock_balanced sh'"
      using assms(3) q moved_cong [OF same(1)] by (simp add: stock_balanced_def sh' record_sales_spec)
  qed (simp_all add: sh' record_sales_spec same i)
qed

text \<open>The rows a sale writes.\<close>

lemma take_stock_rows:
  "take_stock f ls sh = Inr sh' \<Longrightarrow> sales sh' = sales sh \<and> sale_items sh' = sale_items sh \<and> next_sale sh' = next_sale sh"
  unfolding take_stock_def
  by (erule foldr_res_invariant [where P = "\<lambda>s. sales s = sales sh \<and> sale_items s = sale_items sh \<and> next_sale s = next_sale sh"])
    (auto simp: decrementInTx_def Let_def bindr_eq_Inr split: prod.splits)

lemma sale_tx_rows:
  assumes "sale_tx e u a sh = Inr (sh', i)"
  obtains ls row where "sale_products sh (sin_items a) = Inr ls" and "i = next_sale sh"
    and "sales sh' = sales sh @ [row]" and "sale_items sh' = sale_items sh @ sale_lines i ls"
    and "sal_id row = i" and "sal_facilityId row = sin_facilityId a" and "sal_customerId row = sin_customerId a"
    and "sal_status row = Sale_pending" and "sal_invoiceId row = None" and "sal_total row = sale_total ls"
  using assms
proof (rule sale_tx_Inr)
  fix ls sh1 assume ls: "sale_products sh (sin_items a) = Inr ls" and i: "i = next_sale sh1"
    and take: "take_stock (sin_facilityId a) ls sh = Inr sh1"
    and sh': "sh' = record_sales e (sin_facilityId a) u i ls (sh1\<lparr>sales := create_row
        \<lparr>sal_id = i, sal_facilityId = sin_facilityId a, sal_customerId = sin_customerId a,
         sal_invoiceId = None, sal_status = Sale_pending, sal_total = sale_total ls,
         sal_notes = trimmed (sin_notes a), sal_soldBy = u, sal_cancelledAt = None\<rparr> (sales sh1),
       sale_items := sale_items sh1 @ sale_lines i ls, next_sale := Suc i\<rparr>)"
  note same = take_stock_rows [OF take]
  show thesis
    by (rule that [OF ls, where row = "\<lparr>sal_id = i, sal_facilityId = sin_facilityId a, sal_customerId = sin_customerId a,
         sal_invoiceId = None, sal_status = Sale_pending, sal_total = sale_total ls,
         sal_notes = trimmed (sin_notes a), sal_soldBy = u, sal_cancelledAt = None\<rparr>"]) (use same in \<open>simp_all add: sh' record_sales_spec i create_row_def\<close>)
qed

lemma sale_products_found:
  "sale_products sh ls = Inr ps \<Longrightarrow> \<forall>x\<in>set ps. fst x \<in> set (products sh) \<and> prd_isActive (fst x) \<and> \<not> prd_deleted (fst x)"
proof (induction ls arbitrary: ps)
  case (Cons l ls)
  then obtain p qs where p: "find_product sh (sli_productId l) = Some p" "prd_isActive p" and qs: "sale_products sh ls = Inr qs"
    and ps: "ps = (p, sli_quantity l) # qs" by (auto simp: bindr_eq_Inr)
  show ?case using Cons.IH [OF qs] find_first_SomeD [OF p(1) [unfolded find_product_def]] p(2) by (simp add: ps)
qed simp

text \<open>
  C30: The transaction that stores a sale goes through only when every product has the stock it takes
  at its facility: it takes exactly the quantities sold there and leaves every other place alone, no
  stock becomes negative, and the stock stays the sum of its movements. It adds one sale, pending and
  not invoiced yet, of that facility and customer, and one line for each line asked for, with its
  product, on sale and not deleted, at its price and rate, and its quantity; the total of the sale is
  the sum of the totals of its lines, as JavaScript adds and rounds them. (Its invoice is made in later
  transactions.)
\<close>

theorem sale_takes_stock:
  assumes "sale_tx e u a sh = Inr (sh', i)" and "stock_wf sh" and "stock_balanced sh"
  shows "stock_wf sh' \<and> stock_balanced sh' \<and>
    (\<forall>p f. 0 \<le> quantity sh' p f \<and> quantity sh' p f = quantity sh p f -
       (if f = sin_facilityId a then sum_list (map sli_quantity (filter (\<lambda>l. sli_productId l = p) (sin_items a)))
        else 0)) \<and>
    (\<exists>row ls. sales sh' = sales sh @ [row] \<and> sal_id row = next_sale sh \<and> i = next_sale sh \<and>
       sal_facilityId row = sin_facilityId a \<and> sal_customerId row = sin_customerId a \<and>
       sal_status row = Sale_pending \<and> sal_invoiceId row = None \<and>
       sale_items sh' = sale_items sh @ ls \<and> (\<forall>l\<in>set ls. si_saleId l = i) \<and>
       map si_productId ls = map sli_productId (sin_items a) \<and>
       map si_quantity ls = map sli_quantity (sin_items a) \<and>
       (\<forall>l\<in>set ls. \<exists>p\<in>set (products sh). prd_id p = si_productId l \<and> prd_isActive p \<and> \<not> prd_deleted p \<and>
          si_unitPrice l = euros (prd_price p) \<and> si_taxRate l = prd_taxRate p) \<and>
       sal_total row = foldl (\<lambda>acc l. round2 (nadd acc (si_lineTotal l))) 0 ls)"
proof -
  obtain ls where ls: "sale_products sh (sin_items a) = Inr ls" and wf: "stock_wf sh'" and bal: "stock_balanced sh'"
    and q: "\<And>p f. quantity sh' p f = quantity sh p f - (if f = sin_facilityId a then sold p ls else 0)"
    using sale_tx_spec [OF assms] by metis
  have nn: "0 \<le> quantity sh' p f" for p f using wf by (rule quantity_nonneg)
  obtain ls' row where rows: "sale_products sh (sin_items a) = Inr ls'" "i = next_sale sh"
      "sales sh' = sales sh @ [row]" "sale_items sh' = sale_items sh @ sale_lines i ls'"
      "sal_id row = i" "sal_facilityId row = sin_facilityId a" "sal_customerId row = sin_customerId a"
      "sal_status row = Sale_pending" "sal_invoiceId row = None" "sal_total row = sale_total ls'"
    by (rule sale_tx_rows [OF assms(1)])
  have "ls' = ls" using rows(1) ls by simp
  note rows = rows [unfolded this]
  have asked: "map si_productId (sale_lines i ls) = map sli_productId (sin_items a)"
      "map si_quantity (sale_lines i ls) = map sli_quantity (sin_items a)"
    using sale_products_lines [OF ls] by (simp_all add: sale_lines_def comp_def case_prod_beta)
  have lines: "\<forall>l\<in>set (sale_lines i ls). si_saleId l = i \<and> (\<exists>p\<in>set (products sh). prd_id p = si_productId l \<and>
      prd_isActive p \<and> \<not> prd_deleted p \<and> si_unitPrice l = euros (prd_price p) \<and> si_taxRate l = prd_taxRate p)"
    using sale_products_found [OF ls] by (fastforce simp: sale_lines_def)
  have total: "sale_total ls = foldl (\<lambda>acc l. round2 (nadd acc (si_lineTotal l))) 0 (sale_lines i ls)"
    by (simp add: sale_total_def sale_lines_def foldl_map case_prod_unfold)
  show ?thesis
    using wf bal nn q [unfolded sold_lines [OF ls]] rows asked lines total
    by (intro conjI exI [of _ row] exI [of _ "sale_lines i ls"]) auto
qed

definition demo_sale :: sale_input where
  "demo_sale = \<lparr>sin_facilityId = 1, sin_customerId = None, sin_invoiceSeriesId = None,
     sin_paymentMethod = Some (Some Card), sin_notes = None, sin_items = [\<lparr>sli_productId = 1, sli_quantity = 2\<rparr>]\<rparr>"

definition demo_store :: shop where
  "demo_store = \<lparr>books = demo_db1, products = [\<lparr>prd_id = 1, prd_name = ''Candado'', prd_price = 350, prd_taxRate = 0,
     prd_isActive = True, prd_deleted = False\<rparr>],
     stocks = [\<lparr>st_productId = 1, st_facilityId = 1, st_quantity = 5\<rparr>],
     movements = [stock_movement demo_env 1 1 5 (Some 5) Mv_adjust None None (Some 9)],
     sales = [], sale_items = [], next_sale = 1\<rparr>"

lemma demo_store_ok: "stock_wf demo_store" "stock_balanced demo_store"
  by (auto simp: demo_store_def stock_wf_def stock_balanced_def quantity_def moved_def find_stock_def
      at_place_def stock_movement_def)

lemma fl_small [simp]: "fl 0 = 0" "fl 1 = 1" "fl 7 = 7" "fl 100 = 100" "fl 200 = 200" "fl 350 = 350" "fl 700 = 700"
  using fl_of_int [of 0] fl_of_int [of 1] fl_of_int [of 7] fl_of_int [of 100] fl_of_int [of 350] fl_of_int [of 700]
    fl_of_int [of 200] by simp_all

lemma euros_350: "euros 350 = 7 / 2"
  using fl_half_nat [of 7] by (simp add: euros_def ndiv_def)

lemma fl_seven_halves [simp]: "fl (7 / 2) = 7 / 2"
  using fl_half_nat [of 7] by simp

lemma math_round_numeral [simp]: "math_round 0 = 0" "math_round 350 = 350" "math_round 700 = 700"
  using math_round_of_int [of 0] math_round_of_int [of 350] math_round_of_int [of 700] by simp_all

lemma demo_total:
  assumes "prd_price p = 350" and "prd_taxRate p = 0"
  shows "sale_total [(p, 2)] = 7"
  by (simp add: sale_total_def line_total_def line_subtotal_def round2_def nmul_def ndiv_def nadd_def euros_350
      [unfolded euros_def ndiv_def] euros_350 assms)

lemma demo_sale_tx: "\<exists>sh. sale_tx demo_env None demo_sale demo_store = Inr (sh, 1)"
  by (simp add: sale_tx_def demo_sale_def demo_store_def assertFacility_def find_product_def take_stock_def
      decrementInTx_def at_place_def Let_def demo_total F2_LIMIT_def)

theorem sale_takes_stock_witness:
  "\<exists>sh. sale_tx demo_env None demo_sale demo_store = Inr (sh, 1) \<and> quantity sh 1 1 = 3 \<and> stock_balanced sh"
proof -
  obtain sh where run: "sale_tx demo_env None demo_sale demo_store = Inr (sh, 1)" using demo_sale_tx by blast
  have "quantity demo_store 1 1 = 5" by (simp add: demo_store_def quantity_def find_stock_def at_place_def)
  then show ?thesis using sale_takes_stock [OF run demo_store_ok] run by (auto simp: demo_sale_def)
qed

section \<open>Cancelling gives the stock back\<close>

lemma return_lines_spec:
  assumes "stock_wf sh" and "\<forall>it\<in>set its. 0 \<le> si_quantity it"
  shows "stock_wf (foldl (\<lambda>s it. return_line e u sale r it s) sh its) \<and>
    (\<forall>p f. quantity (foldl (\<lambda>s it. return_line e u sale r it s) sh its) p f = quantity sh p f +
       (if f = sal_facilityId sale then sum_list (map si_quantity (filter (\<lambda>it. si_productId it = p) its)) else 0)) \<and>
    (\<forall>p f. moved (foldl (\<lambda>s it. return_line e u sale r it s) sh its) p f = moved sh p f +
       (if f = sal_facilityId sale then sum_list (map si_quantity (filter (\<lambda>it. si_productId it = p) its)) else 0))"
  using assms
proof (induction its arbitrary: sh)
  case Nil
  then show ?case by simp
next
  case (Cons it its)
  let ?p = "si_productId it" and ?f = "sal_facilityId sale" and ?q = "si_quantity it"
  let ?sh = "return_line e u sale r it sh"
  have nn: "0 \<le> quantity sh ?p ?f + ?q" using Cons.prems quantity_nonneg [of sh] by simp
  have absent: "?q = quantity sh ?p ?f + ?q" if "\<forall>s\<in>set (stocks sh). \<not> at_place ?p ?f s"
    using that by (simp add: quantity_def find_stock_def find_first_None_iff [THEN iffD2])
  note up = upsert_stock_spec [where p = ?p and f = ?f and change = "\<lambda>k. k + ?q" and initial = ?q,
      OF Cons.prems(1) nn refl absent]
  have step: "stock_wf ?sh" "\<And>p f. quantity ?sh p f = quantity sh p f + (if p = ?p \<and> f = ?f then ?q else 0)"
    "\<And>p f. moved ?sh p f = moved sh p f + (if p = ?p \<and> f = ?f then ?q else 0)"
    using up moved_cong [OF up(2)] by (auto simp: return_line_def restoreInTx_def stock_movement_def)
  show ?case using Cons.IH [OF step(1)] Cons.prems(2) step(2,3) by auto
qed

lemma sale_lines_sold:
  "sum_list (map si_quantity (filter (\<lambda>it. si_productId it = p) (sale_lines i ls))) = sold p ls"
  by (induction ls) (auto simp: sale_lines_def)

lemma sale_lines_quantities: "si_quantity ` set (sale_lines i ls) = snd ` set ls"
  by (force simp: sale_lines_def)

lemma update_sale_sel [simp]:
  "quantity (update_sale i f sh) p g = quantity sh p g" "moved (update_sale i f sh) p g = moved sh p g"
  "stock_wf (update_sale i f sh) = stock_wf sh"
  by (simp_all add: update_sale_def quantity_def find_stock_def moved_def stock_wf_def)

lemma cancel_sale_stock:
  assumes "stock_wf sh" and "\<forall>it\<in>set its. 0 \<le> si_quantity it"
  shows "stock_wf (cancel_sale_from e gw u sale its r sh)"
    and "quantity (cancel_sale_from e gw u sale its r sh) p f = quantity sh p f +
       (if f = sal_facilityId sale then sum_list (map si_quantity (filter (\<lambda>it. si_productId it = p) its)) else 0)"
    and "moved (cancel_sale_from e gw u sale its r sh) p f = moved sh p f +
       (if f = sal_facilityId sale then sum_list (map si_quantity (filter (\<lambda>it. si_productId it = p) its)) else 0)"
  using return_lines_spec [OF assms] by (simp_all add: cancel_sale_from_def return_tx_def Let_def)

text \<open>
  cancelling a sale gives back what it took, at every place, and the stock stays the sum of its
  movements; whatever happens to the invoice.
\<close>

theorem cancelled_sale_restores_stock:
  assumes "sale_tx e u a sh = Inr (sh1, i)" and "stock_wf sh" and "stock_balanced sh"
    and "\<forall>l\<in>set (sin_items a). 0 < sli_quantity l" and "\<forall>it\<in>set (sale_items sh). si_saleId it < next_sale sh"
    and "sal_facilityId sale = sin_facilityId a"
  shows "let sh2 = cancel_sale_from e2 gw u2 sale (items_of_sale sh1 i) reason sh1
    in stock_wf sh2 \<and> stock_balanced sh2 \<and> (\<forall>p f. quantity sh2 p f = quantity sh p f)"
proof -
  obtain ls where ls: "sale_products sh (sin_items a) = Inr ls" and wf: "stock_wf sh1" and bal: "stock_balanced sh1"
    and q: "\<And>p f. quantity sh1 p f = quantity sh p f - (if f = sin_facilityId a then sold p ls else 0)"
    and its: "sale_items sh1 = sale_items sh @ sale_lines i ls" and i: "i = next_sale sh"
    using sale_tx_spec [OF assms(1-3)] by metis
  have old: "\<forall>it\<in>set (sale_items sh). si_saleId it \<noteq> i" using assms(5) by (auto simp: i)
  have new: "\<forall>it\<in>set (sale_lines i ls). si_saleId it = i" by (auto simp: sale_lines_def)
  have items: "items_of_sale sh1 i = sale_lines i ls"
    using old new by (simp add: items_of_sale_def its filter_empty_conv filter_id_conv)
  have "map snd ls = map sli_quantity (sin_items a)" using sale_products_lines [OF ls] by blast
  then have "snd ` set ls = sli_quantity ` set (sin_items a)" by (metis list.set_map)
  then have nn: "\<forall>it\<in>set (sale_lines i ls). 0 \<le> si_quantity it"
    using sale_lines_quantities [of i ls] assms(4) by (metis (no_types, lifting) imageE image_eqI less_imp_le)
  let ?sh2 = "cancel_sale_from e2 gw u2 sale (sale_lines i ls) reason sh1"
  have given: "quantity ?sh2 p f = quantity sh p f" "moved ?sh2 p f = quantity ?sh2 p f" for p f
    using cancel_sale_stock(2,3) [OF wf nn, of e2 gw u2 sale reason p f] q [of p f] bal assms(6)
    by (simp_all add: sale_lines_sold stock_balanced_def)
  have "stock_balanced ?sh2" by (simp only: stock_balanced_def given(2)) simp
  then show ?thesis
    using cancel_sale_stock(1) [OF wf nn] given(1) unfolding Let_def items by blast
qed


theorem cancelled_sale_restores_stock_witness:
  "\<exists>sh sale. sale_tx demo_env None demo_sale demo_store = Inr (sh, 1) \<and> sal_facilityId sale = 1 \<and>
     quantity (cancel_sale_from demo_env (\<lambda>_. None) None sale (items_of_sale sh 1) None sh) 1 1 = 5"
proof -
  obtain sh where run: "sale_tx demo_env None demo_sale demo_store = Inr (sh, 1)" using demo_sale_tx by blast
  let ?sale = "\<lparr>sal_id = 1, sal_facilityId = 1, sal_customerId = None, sal_invoiceId = None,
     sal_status = Sale_pending, sal_total = 7, sal_notes = None, sal_soldBy = None, sal_cancelledAt = None\<rparr>"
  have "quantity demo_store 1 1 = 5" by (simp add: demo_store_def quantity_def find_stock_def at_place_def)
  moreover have "quantity (cancel_sale_from demo_env (\<lambda>_. None) None ?sale (items_of_sale sh 1) None sh) 1 1
      = quantity demo_store 1 1"
    using cancelled_sale_restores_stock [OF run demo_store_ok, of ?sale demo_env "\<lambda>_. None" None None]
    by (simp add: demo_sale_def demo_store_def Let_def)
  ultimately show ?thesis using run by (intro exI [of _ sh] exI [of _ ?sale]) simp
qed

section \<open>The books\<close>

lemma grows_audit: "grows d d' \<Longrightarrow> grows d (audit a i d')"
  using grows_trans keeps_grows [OF keeps_books_logs(2)] by blast

lemma invoice_sale_grows:
  assumes "invoice_sale e sid a i sh = (sh', r)"
  shows "grows (books sh) (books sh')"
proof (cases "create_invoice e (books sh) None None None (sale_invoice sh sid a i)")
  case (Inl err)
  then show ?thesis using assms by (simp add: invoice_sale_def)
next
  case (Inr dr)
  obtain d1 draft where dr: "dr = (d1, draft)" by (cases dr)
  obtain d2 r2 where iss: "issue e None None True (inv_id draft) d1 = (d2, r2)" by (meson surj_pair)
  have g: "grows (books sh) d2"
    using grows_trans [OF create_invoice_grows issue_grows [OF iss]] Inr dr by blast
  have paid: "grows d2 d3" if "markPaidManually e None j m d2 = Inr d3" for j m d3
    using markPaid_keeps [OF that] by (rule keeps_grows)
  have "books sh' = d2 \<or> (\<exists>j m. markPaidManually e None j m d2 = Inr (books sh'))"
    using assms Inr dr iss
    by (auto simp: invoice_sale_def collect_sale_def update_sale_def Let_def split: sum.splits option.splits)
  then show ?thesis using g grows_trans paid by blast
qed

lemma take_stock_books: "take_stock f ls sh = Inr sh' \<Longrightarrow> books sh' = books sh"
  unfolding take_stock_def
  by (erule foldr_res_invariant [where P = "\<lambda>s. books s = books sh"])
    (auto simp: decrementInTx_def Let_def bindr_eq_Inr split: prod.splits)

lemma sale_tx_books: "sale_tx e u a sh = Inr (sh', i) \<Longrightarrow> books sh' = books sh"
  by (erule sale_tx_Inr) (simp add: record_sales_spec take_stock_books)

lemma create_sale_grows:
  assumes "create_sale e u a sh = (sh', r)"
  shows "grows (books sh) (books sh')"
proof (cases "books sh' = books sh")
  case True
  then show ?thesis by simp
next
  case False
  then obtain sid sh1 i sh2 r2 where tx: "sale_tx e u a sh = Inr (sh1, i)"
    and bill: "invoice_sale e sid a i sh1 = (sh2, r2)"
    and out: "books sh' = books sh2 \<or> books sh' = audit ''product_sale.created'' i (books sh2)"
    using assms unfolding create_sale_def by (auto split: if_splits sum.splits prod.splits)
  have "books sh1 = books sh" using tx by (rule sale_tx_books)
  then show ?thesis using invoice_sale_grows [OF bill] out grows_audit by auto
qed

lemma undo_invoice_grows: "undo_invoice e gw u bill reason d = (d', r) \<Longrightarrow> grows d d'"
  by (auto simp: undo_invoice_def intro: cancel_grows keeps_grows [OF refund_keeps] split: if_splits sum.splits)

lemma return_lines_books: "books (foldl (\<lambda>s it. return_line e u sale reason it s) sh its) = books sh"
  by (induction its arbitrary: sh) (simp_all add: return_line_def recordMovement_def restoreInTx_def upsert_stock_def)

lemma cancel_sale_grows: "grows (books sh) (books (cancel_sale_from e gw u sale its reason sh))"
proof -
  have same: "books (return_tx e u sale its reason sh) = books sh"
    by (simp add: return_tx_def update_sale_def return_lines_books)
  show ?thesis
  proof (cases "sal_invoiceId sale")
    case None
    then show ?thesis by (simp add: cancel_sale_from_def Let_def same grows_audit)
  next
    case (Some bill)
    obtain d r where un: "undo_invoice e gw u bill reason (books sh) = (d, r)" by (meson surj_pair)
    then show ?thesis
      using undo_invoice_grows [OF un] Some
      by (cases r) (auto simp: cancel_sale_from_def Let_def same grows_audit)
  qed
qed

text \<open>
  selling and cancelling sales respects the books of the billing module: from a reachable state,
  numbers stay gapless, records stay chained, and an invoice that was issued keeps its number, its
  record and its fixed data, whether the sale succeeds or stops half-way.
\<close>

theorem sales_respect_books:
  assumes "reachable (books sh)"
  shows "books_ok (books (fst (create_sale e u a sh))) \<and>
    extends_books (books sh) (books (fst (create_sale e u a sh))) \<and>
    books_ok (books (cancel_sale_from e gw u sale its reason sh)) \<and>
    extends_books (books sh) (books (cancel_sale_from e gw u sale its reason sh))"
  using create_sale_grows [of e u a sh] cancel_sale_grows [of sh e gw u sale its reason]
    reachable_books [OF assms] unfolding grows_def by (metis prod.collapse)

theorem sales_respect_books_witness: "books_ok (books (fst (create_sale demo_env None demo_sale demo_store)))"
  using sales_respect_books [of demo_store] demo_reachable1 by (simp add: demo_store_def)

section \<open>Amounts\<close>

text \<open>The lines of a sale and of its invoice are rounded differently.\<close>

lemma fl_eval_tie:
  assumes "2 powi e \<le> x" and "x < 2 powi (e + 1)" and "x * 2 powi (52 - e) = of_int n + 1 / 2" and "even n"
  shows "fl x = of_int n * 2 powi (e - 52)"
proof -
  have e: "exponent x = e" using assms(1,2) by (rule exponent_eqI)
  have pos: "0 < x" using assms(1) zero_less_power_int [of "2::rat" e] by linarith
  have "\<lfloor>of_int n + 1 / 2 :: rat\<rfloor> = n" by (simp add: floor_eq_iff)
  then have "round_even (of_int n + 1 / 2) = n" using assms(4) by (simp add: round_even_def Let_def)
  moreover have "x / ulp x = x * 2 powi (52 - e)" by (simp add: ulp_def e power_int_diff)
  ultimately show ?thesis using pos assms(3) by (simp add: fl_def fl_pos_def ulp_def e)
qed

lemma sale_line_off_by_a_cent:
  assumes "prd_price p = 350" and "prd_taxRate p = 21"
  shows "toCents (line_total p 1) = 423 \<and> totalCents (lineCents 1 (euros 350) 21) = 424"
proof -
  have rate: "fl (21 / 100) = 7566047373982433 * 2 powi (-55)"
    using fl_eval [of "-3" "21/100" 7566047373982433] by (simp add: power_int_minus)
  have factor: "nadd 1 (ndiv 21 100) = 5449355549118300 * 2 powi (-52)"
    unfolding ndiv_def rate nadd_def
    using fl_eval [of 0 "1 + 7566047373982433 * 2 powi (-55)" 5449355549118300] by (simp add: power_int_minus)
  have product: "nmul (7 / 2) (5449355549118300 * 2 powi (-52)) = 4768186105478512 * 2 powi (-50)"
    unfolding nmul_def
    using fl_eval_tie [of 2 "7 / 2 * (5449355549118300 * 2 powi (-52))" 4768186105478512] by (simp add: power_int_minus)
  have hundred: "nmul (4768186105478512 * 2 powi (-50)) 100 = 7450290789810175 * 2 powi (-44)"
    unfolding nmul_def
    using fl_eval [of 8 "4768186105478512 * 2 powi (-50) * 100" 7450290789810175] by (simp add: power_int_minus)
  have cents: "math_round (7450290789810175 * 2 powi (-44)) = 423"
    by (rule math_round_eqI) (simp_all add: power_int_minus)
  have sub: "line_subtotal p 1 = 7 / 2"
    by (simp add: line_subtotal_def assms euros_350 round2_def nmul_def ndiv_def
        euros_350 [unfolded euros_def ndiv_def])
  have "line_total p 1 = euros 423"
    unfolding line_total_def assms sub round2_def of_int_numeral of_int_1 factor product hundred cents euros_def
    by simp
  moreover have "totalCents (lineCents (of_int 1) (euros 350) (of_int 21)) = 424"
    by (simp only: lineCents_exact) (simp add: half_away_def)
  ultimately show ?thesis by simp
qed

end
