(* ===== verification/CoreProperties.thy ===== *)
theory CoreProperties imports Ledger Stock begin

text \<open>
  Properties of the parts the billing module is built from: amounts in cents, the totals of an
  invoice, printed amounts and numbers, series, the hashed record, sending it to the tax agency,
  tax identifiers, facility filters and product stock.
\<close>

section \<open>Amounts\<close>

text \<open>A request line with a whole quantity, a price in cents and a whole VAT rate.\<close>

definition whole_line :: "int \<times> int \<times> int \<Rightarrow> item_input \<Rightarrow> bool" where
  "whole_line l it \<longleftrightarrow> (case l of (q, p, r) \<Rightarrow>
     ii_quantity it = of_int q \<and> ii_unitPrice it = euros p \<and> ii_taxRate it = of_int r \<and>
     \<bar>q * p\<bar> \<le> 10000000000000 \<and> \<bar>q * p * r\<bar> \<le> 100000000000000)"

lemma whole_line_amounts:
  assumes "whole_line (q, p, r) it"
  shows "taxCents (input_line it) = half_away (q * p * r) 100"
    and "totalCents (input_line it) = q * p + half_away (q * p * r) 100"
  using assms lineCents_exact [of q p r] by (simp_all add: whole_line_def input_line_def)

lemma whole_lines_sums:
  assumes "list_all2 whole_line ls its"
  shows "map (taxCents \<circ> input_line) its = map (\<lambda>(q, p, r). half_away (q * p * r) 100) ls"
    and "map (totalCents \<circ> input_line) its = map (\<lambda>(q, p, r). q * p + half_away (q * p * r) 100) ls"
  using assms by (induction rule: list_all2_induct) (auto simp: whole_line_amounts)

text \<open>
  C34: the header of an invoice computed in floating point is the exact one: for whole quantities,
  prices in cents and whole VAT rates the tax is the sum of the lines' taxes, each rounded half
  away from zero to the cent, the base is the sum of the bases, and the total their sum.
\<close>

theorem invoice_totals_exact:
  assumes "list_all2 whole_line ls its" and "computeTotals its = Inr t"
  shows "tot_taxAmount t = sum_list (map (\<lambda>(q, p, r). half_away (q * p * r) 100) ls) \<and>
    tot_subtotal t = sum_list (map (\<lambda>(q, p, r). q * p) ls) \<and>
    tot_total t = tot_subtotal t + tot_taxAmount t"
proof -
  let ?b = "sum_list (map (\<lambda>(q, p, r). q * p) ls)" and ?x = "sum_list (map (\<lambda>(q, p, r). half_away (q * p * r) 100) ls)"
  have "sum_list (map (\<lambda>(q, p, r). q * p + half_away (q * p * r) 100) ls) = ?b + ?x"
    by (induction ls) auto
  then have "sum_lines its 0 0 = (?x, ?b + ?x)"
    unfolding sum_lines_eq whole_lines_sums [OF assms(1)] by simp
  then show ?thesis using assms(2) by (auto simp: computeTotals_def elim!: bindrE)
qed

theorem invoice_totals_exact_witness:
  "\<exists>t. computeTotals [demo_item] = Inr t \<and> tot_taxAmount t = 2100 \<and> tot_subtotal t = 10000"
proof -
  have "list_all2 whole_line [(1, 10000, 21)] [demo_item]"
    using euros_whole [of 100] by (simp add: whole_line_def demo_item_def)
  then show ?thesis using invoice_totals_exact [OF _ demo_totals] demo_totals by (simp add: half_away_def)
qed

text \<open>
  the header stored with an invoice is the sum of its stored lines, and every stored line
  carries a tax category that admits its rate.
\<close>

theorem header_matches_lines:
  assumes "computeTotals its = Inr t" and "item_rows (toItemCreateData i) its 0 = Inr rows"
  shows "tot_total t = sum_list (map it_total rows) \<and> tot_taxAmount t = sum_list (map it_taxAmount rows) \<and>
    tot_subtotal t + tot_taxAmount t = tot_total t \<and> \<bar>tot_total t\<bar> \<le> MAX_INVOICE_TOTAL_CENTS \<and>
    (\<forall>r\<in>set rows. it_invoiceId r = i \<and> (it_taxCategory r = S1 \<or> it_taxRate r = 0))"
  using header_is_sum [OF assms] item_rows_sums(3) [OF assms(2)] item_rows_category [OF assms(2)]
  by (auto simp: taxCategoryAllowsRate_def)

theorem header_matches_lines_witness: "12100 = sum_list (map it_total [demo_item_row])"
  using header_matches_lines [OF demo_totals demo_item_create] by simp

text \<open>
  an amount of a column, read as a number, gives back its cents, prints its cents with two
  decimals, and prints like no other amount.
\<close>

theorem cents_round_trip:
  assumes "\<bar>m\<bar> \<le> 100000000000000" and "\<bar>n\<bar> \<le> 100000000000000"
  shows "toCents (euros n) = n \<and> toFixed2 (euros n) = show_cents n \<and>
    (toFixed2 (euros m) = toFixed2 (euros n) \<longleftrightarrow> m = n)"
  using assms by (simp add: toCents_euros toFixed2_euros show_cents_inj)

theorem cents_round_trip_witness: "toCents (euros (- 1005)) = - 1005"
  using cents_round_trip [of "- 1005" "- 1005"] by simp

text \<open>
  folding amounts of either sign with \<open>addAmounts\<close> gives the sum of their cents: no rounding
  error accumulates as long as the sum of the absolute values stays below a billion euros.
\<close>

theorem no_drift:
  assumes "sum_list (map abs xs) \<le> 100000000000"
  shows "foldl addAmounts (euros 0) (map euros xs) = euros (sum_list xs)"
  using cents.foldl_add [of 0 xs] assms by simp

theorem no_drift_witness: "addAmounts (addAmounts (euros 0) (euros 10)) (euros 20) = euros 30"
  using no_drift [of "[10, 20]"] by simp

section \<open>Series\<close>

text \<open>
  two numbers of a series printed alike are the same number, and of the same year when the
  series counts by year.
\<close>

theorem invoice_number_identifies:
  assumes "0 \<le> m" and "0 \<le> n" and "0 \<le> year_of a" and "0 \<le> year_of b"
    and "formatInvoiceNumber s m a = formatInvoiceNumber s n b"
  shows "m = n \<and> (ser_yearScope s \<longrightarrow> year_of a = year_of b)"
  using assms by (rule format_inj_aux)

theorem invoice_number_identifies_witness:
  "formatInvoiceNumber demo_row 1 20463 \<noteq> formatInvoiceNumber demo_row 2 20463"
  using invoice_number_identifies [of 1 2 20463 20463 demo_row] by (auto simp: demo_year)

text \<open>
  in every reachable state series have distinct codes, a default series is active and not for
  credit notes, and an issuer has at most one default series.
\<close>

theorem default_series_unique:
  assumes "reachable d"
  shows "distinct (map ser_code (series d)) \<and>
    (\<forall>s\<in>set (series d). ser_isDefault s \<longrightarrow> ser_isActive s \<and> \<not> ser_isRectification s) \<and>
    (\<forall>s\<in>set (series d). \<forall>t\<in>set (series d). ser_isDefault s \<and> ser_isDefault t \<and>
       ser_ownerId s = ser_ownerId t \<longrightarrow> s = t)"
  using reachable_books [OF assms] unfolding books_ok_def series_ok_def by blast

theorem default_series_unique_witness: "distinct (map ser_code (series demo_db3))"
  using default_series_unique [OF demo_reachable3] by blast

text \<open>
  when an owner's series has to be created, its prefix and its code are not those of any series
  of the tenant.
\<close>

theorem owner_series_new:
  assumes "ownerSeries d ow rect = Inr (d', s)" and "s \<notin> set (series d)"
  shows "ser_prefix s \<notin> set (map (toUpperCase \<circ> ser_prefix) (series d)) \<and>
    ser_code s \<notin> set (map (toUpperCase \<circ> ser_code) (series d)) \<and> ser_ownerId s = Some ow \<and>
    ser_isRectification s = rect \<and> series d' = series d @ [s]"
  using assms by (rule ownerSeries_made) simp

theorem owner_series_new_witness:
  "ser_prefix (default_series\<lparr>ser_id := 2, ser_code := ''P1'', ser_name := ''Facturas de Ana'', ser_prefix := ''P1'',
     ser_isDefault := True, ser_ownerId := Some 9\<rparr>) \<notin> set (map (toUpperCase \<circ> ser_prefix) (series demo_db1))"
proof -
  let ?s = "default_series\<lparr>ser_id := 2, ser_code := ''P1'', ser_name := ''Facturas de Ana'', ser_prefix := ''P1'',
     ser_isDefault := True, ser_ownerId := Some 9\<rparr>"
  let ?o = "\<lparr>own_id = 9, own_legalName = ''Ana'', own_taxId = [], own_address = None, own_postalCode = None,
     own_city = None\<rparr>"
  have p1: "''P'' @ show_nat (next_free ''P'' [''FA'', ''FA''] (Suc 0)) = ''P1''"
    by (subst next_free.simps) (simp add: show_nat.simps)
  have "\<exists>d'. ownerSeries (demo_db1\<lparr>owners := [?o]\<rparr>) 9 False = Inr (d', ?s)"
    by (simp add: ownerSeries_def demo_db1_def demo_db0_def empty_db_def demo_row_def default_series_def
        find_owner_def Let_def toUpperCase_def upper_char_def code_def p1 [simplified] insert_series_def)
  moreover have "?s \<notin> set (series (demo_db1\<lparr>owners := [?o]\<rparr>))"
    by (simp add: demo_db1_def demo_row_def default_series_def)
  ultimately show ?thesis using owner_series_new by fastforce
qed


section \<open>Records\<close>

text \<open>
  the hashed text of a record determines the invoice: two records of a chain whose texts are
  free of \<open>&\<close> and equal have the same number, date text, type, tax and total, the same previous
  hash and the same time stamp, up to the surrounding blanks and the case of the hash.
\<close>

theorem hashed_text_identifies:
  assumes "clean_input i" and "clean_input j" and "altaHashInput i = altaHashInput j"
    and "ahi_cuotaTotal i = euros a" and "ahi_cuotaTotal j = euros b"
    and "ahi_importeTotal i = euros m" and "ahi_importeTotal j = euros n"
    and "list_all (\<lambda>k. \<bar>k\<bar> \<le> 100000000000000) [a, b, m, n]"
  shows "trim (ahi_emitterTaxId i) = trim (ahi_emitterTaxId j) \<and>
     trim (ahi_invoiceNumber i) = trim (ahi_invoiceNumber j) \<and> trim (ahi_issueDate i) = trim (ahi_issueDate j) \<and>
     trim (ahi_invoiceType i) = trim (ahi_invoiceType j) \<and> a = b \<and> m = n \<and>
     toUpperCase (trim (case ahi_previousHash i of None \<Rightarrow> [] | Some h \<Rightarrow> h)) =
       toUpperCase (trim (case ahi_previousHash j of None \<Rightarrow> [] | Some h \<Rightarrow> h)) \<and>
     trim (ahi_recordTimestamp i) = trim (ahi_recordTimestamp j)"
  using altaHashInput_parts [OF assms(1-3)] assms(4-8) by (simp add: toFixed2_euros show_cents_inj)

definition demo_hash_input :: "int \<Rightarrow> alta_hash_input" where
  "demo_hash_input n = \<lparr>ahi_emitterTaxId = ''B12345674'', ahi_invoiceNumber = ''FA/2026/00001'',
     ahi_issueDate = ''10-01-2026'', ahi_invoiceType = ''F1'', ahi_cuotaTotal = euros 2100,
     ahi_importeTotal = euros n, ahi_previousHash = None, ahi_recordTimestamp = ''2026''\<rparr>"

theorem hashed_text_identifies_witness:
  "altaHashInput (demo_hash_input 12100) \<noteq> altaHashInput (demo_hash_input 12101)"
  using hashed_text_identifies [of "demo_hash_input 12100" "demo_hash_input 12101" 2100 2100 12100 12101]
  by (auto simp: demo_hash_input_def clean_input_def no_amp_def)

text \<open>
  C36: a record is sent at most once per run, only when it carries a hash, has not been accepted and
  the record before it in the chain is settled; in real mode a record sent before is looked up
  first and sent again only when the agency does not have it as accepted.
\<close>

theorem send_discipline:
  assumes "sendToAeat e cl d i = (d', res, calls)" and "Send_invoice k \<in> set calls"
  shows "k = i \<and> count_rows (\<lambda>c. c = Send_invoice i) calls = 1 \<and>
    (\<exists>row. find_invoice d i = Some row \<and> vf_hash (inv_vf row) \<notin> {None, Some []} \<and>
      \<not> (\<exists>st. vf_aeatStatus (inv_vf row) = Some st \<and> accepted st) \<and> \<not> previous_unresolved d row \<and>
      (realMode e \<and> vf_aeatSentAt (inv_vf row) \<noteq> None \<longrightarrow>
        hd calls = Get_status i \<and> \<not> accepted (res_status (getStatus cl i))))"
proof -
  have now: "k = i \<and> count_rows (\<lambda>c. c = Send_invoice i) cs = 1"
    if "send_now e cl d i h = (d1, r, cs)" "Send_invoice k \<in> set cs" for h d1 r cs
    using that by (auto simp: send_now_def Let_def split: if_splits)
  have unaccepted: "k = i \<and> count_rows (\<lambda>c. c = Send_invoice i) calls = 1 \<and> \<not> previous_unresolved d row \<and>
      (realMode e \<and> vf_aeatSentAt (inv_vf row) \<noteq> None \<longrightarrow>
        hd calls = Get_status i \<and> \<not> accepted (res_status (getStatus cl i)))"
    if "send_unaccepted e cl d i row h = (d', res, calls)" for row h
    using that assms(2) now
    by (fastforce simp: send_unaccepted_def Let_def split: if_splits prod.splits)
  obtain row where row: "find_invoice d i = Some row" using assms by (auto simp: sendToAeat_def split: option.splits)
  obtain h where "vf_hash (inv_vf row) = Some h" "h \<noteq> []"
    "\<not> (\<exists>st. vf_aeatStatus (inv_vf row) = Some st \<and> accepted st)" "send_unaccepted e cl d i row h = (d', res, calls)"
    using assms row by (auto simp: sendToAeat_def Let_def split: option.splits list.splits if_splits)
  then show ?thesis using row unaccepted by auto
qed

definition demo_client :: aeat_client where
  "demo_client = \<lparr>getStatus = (\<lambda>_. \<lparr>res_status = Aeat_pending, res_csv = None, res_message = []\<rparr>),
     sendInvoice = (\<lambda>_ _. \<lparr>res_status = Aeat_accepted, res_csv = Some ''X'', res_message = []\<rparr>)\<rparr>"

theorem send_discipline_witness: "\<exists>row. find_invoice demo_db3 2 = Some row \<and> \<not> previous_unresolved demo_db3 row"
proof -
  obtain hs where hs: "cl_hash demo_link = CHR ''0'' # hs" using demo_link_hash by blast
  have "previous_unresolved demo_db3 demo_issued = False"
    by (simp add: previous_unresolved_def demo_issued_record)
  then have "\<exists>d' res. sendToAeat demo_env demo_client demo_db3 2 = (d', res, [Send_invoice 2])"
    by (simp add: sendToAeat_def demo_issued_record hs demo_number_def accepted_def send_unaccepted_def
        send_now_def demo_client_def demo_env_def Let_def)
  then show ?thesis using send_discipline by fastforce
qed

section \<open>Tax identifiers\<close>

text \<open>
  a valid Spanish tax identifier, written with whatever spaces, dots, dashes and prefix, has a
  normal form of nine digits and upper-case letters that is valid itself, and normalising it again
  changes nothing.
\<close>

theorem valid_tax_id_normal:
  assumes "isValidSpanishTaxId v"
  shows "length (normalizeTaxId v) = 9 \<and> (\<forall>c\<in>set (normalizeTaxId v). is_digit c \<or> is_upper c) \<and>
    normalizeTaxId (normalizeTaxId v) = normalizeTaxId v \<and> isValidSpanishTaxId (normalizeTaxId v)"
  using assms valid_tax_id_chars [OF assms] normalizeTaxId_plain
  by (simp add: isValidSpanishTaxId_def [of "normalizeTaxId v"] isValidSpanishTaxId_def [of v])

lemma letter_chars: "(char_of (69::nat) :: char) = CHR ''E''" "(char_of (83::nat) :: char) = CHR ''S''" "(char_of (90::nat) :: char) = CHR ''Z''"
  by code_simp+
lemma demo_digits: "read_nat ''12345678'' = 12345678"
  by (simp add: read_nat_def code_def)
lemma demo_normal: "normalizeTaxId ''es12.345.678-z'' = ''12345678Z''"
  by (simp add: normalizeTaxId_def toUpperCase_def upper_char_def code_def is_space_def startsWith_def is_digit_def is_upper_def letter_chars)
lemma demo_dni: "isValidSpanishTaxId ''es12.345.678-z''" 
  by (simp add: isValidSpanishTaxId_def demo_normal demo_digits DNI_LETTERS_def is_digit_def is_upper_def code_def)
lemma demo_dni_plain: "isValidSpanishTaxId ''12345678Z''" 
  using demo_dni by (simp add: isValidSpanishTaxId_def demo_normal normalizeTaxId_plain is_digit_def is_upper_def code_def)

theorem valid_tax_id_normal_witness: "length (normalizeTaxId ''es12.345.678-z'') = 9"
  using valid_tax_id_normal [OF demo_dni] by blast

text \<open>
  the check letter of a DNI detects every single wrong digit and every transposition of two
  neighbouring digits.
\<close>

theorem dni_detects_errors:
  assumes "length ds = 8" and "\<forall>c\<in>set ds. is_digit c" and "is_upper l" and "isValidSpanishTaxId (ds @ [l])"
    and "(\<exists>i<8. \<exists>c. is_digit c \<and> es = ds[i := c]) \<or> (\<exists>i<7. es = ds[i := ds ! Suc i, Suc i := ds ! i])"
    and "es \<noteq> ds"
  shows "\<not> isValidSpanishTaxId (es @ [l])"
proof
  assume valid: "isValidSpanishTaxId (es @ [l])"
  have es: "length es = 8" "\<forall>c\<in>set es. is_digit c"
    using assms(1,2,5) by (auto dest!: set_update_subset_insert [THEN subsetD])
  have dvd: "(23::int) dvd int (read_nat es) - int (read_nat ds)"
    by (rule dni_same_letter) (use dni_valid assms(1-4) valid es in simp)
  have dig: "\<bar>int (code c - 48) - int (code d - 48)\<bar> \<le> 9" if "is_digit c" "is_digit d" for c d
    using that by (auto simp: is_digit_def)
  have "es = ds"
    using assms(5)
  proof (elim disjE exE conjE)
    fix i c assume i: "i < 8" "is_digit c" "es = ds[i := c]"
    then have di: "is_digit (ds ! i)" using assms(1,2) by simp
    have "int (code c - 48) - int (code (ds ! i) - 48) = 0"
      by (rule dvd_digit_difference) (use dvd read_nat_at [of i ds c] i assms(1) dig [OF i(2) di] in auto)
    then have "c = ds ! i" using digit_code_eq i(2) di by simp
    then show ?thesis using i(3) by simp
  next
    fix i assume i: "i < 7" "es = ds[i := ds ! Suc i, Suc i := ds ! i]"
    then have di: "is_digit (ds ! i)" "is_digit (ds ! Suc i)" using assms(1,2) by simp_all
    have "23 dvd 9 * (int (code (ds ! Suc i) - 48) - int (code (ds ! i) - 48)) * 10 ^ (8 - Suc (Suc i))"
      using dvd read_nat_swap [of i ds] i assms(1) by auto
    then have "23 dvd 9 * ((int (code (ds ! Suc i) - 48) - int (code (ds ! i) - 48)) * 10 ^ (8 - Suc (Suc i)))"
      by (simp only: mult.assoc)
    moreover have "coprime (23::int) 9"
      unfolding coprime_iff_gcd_eq_1 by (simp add: gcd_red_int [of 23 9] gcd_red_int [of 9 5] gcd_red_int [of 5 4])
    ultimately have "23 dvd (int (code (ds ! Suc i) - 48) - int (code (ds ! i) - 48)) * 10 ^ (8 - Suc (Suc i))"
      using coprime_dvd_mult_right_iff by blast
    then have "int (code (ds ! Suc i) - 48) - int (code (ds ! i) - 48) = 0"
      by (rule dvd_digit_difference) (use dig di in auto)
    then have "ds ! Suc i = ds ! i" using digit_code_eq di by simp
    then show ?thesis using i(2) by (metis list_update_id)
  qed
  then show False using assms(6) by simp
qed

theorem dni_detects_errors_witness: "\<not> isValidSpanishTaxId (''12345687'' @ ''Z'')"
proof (rule dni_detects_errors)
  show "(\<exists>i<8. \<exists>c. is_digit c \<and> ''12345687'' = ''12345678''[i := c]) \<or>
    (\<exists>i<7. ''12345687'' = ''12345678''[i := ''12345678'' ! Suc i, Suc i := ''12345678'' ! i])"
    by (rule disjI2, rule exI [of _ 6]) simp
qed (use demo_dni_plain in \<open>simp_all add: is_digit_def is_upper_def code_def\<close>)

section \<open>Facilities\<close>

text \<open>
  a query of a user restricted to some facilities never reaches outside them: neither by
  facility, nor by optional facility, nor by the facility of an invoice's contract; asking for a
  facility outside gives no results.
\<close>

theorem facility_filters_confine:
  "(filter_admits (resolveFacilityFilter (Some fs) req) f \<longrightarrow> f \<in> set fs) \<and>
   (\<forall>w. optionalFacilityWhere (Some fs) req = Some w \<and> w (Some f) \<longrightarrow> f \<in> set fs) \<and>
   (\<forall>w p. invoiceFacilityWhere (Some fs) req = Some w \<and> w p \<and> req = None \<and> pl_has_contract p \<longrightarrow>
      (\<exists>g\<in>set fs. pl_contract p = Some g)) \<and>
   (\<forall>g w p. req = Some g \<and> invoiceFacilityWhere (Some fs) req = Some w \<and> w p \<longrightarrow>
      g \<in> set fs \<and> Some g \<in> {pl_contract p, pl_own p, pl_sale p})"
  by (auto simp: isFacilityAllowed_def optionalFacilityWhere_def invoiceFacilityWhere_def
      dest!: resolved_filter_within_scope split: option.splits if_splits)

theorem facility_filters_confine_witness:
  "\<not> filter_admits (resolveFacilityFilter (Some [1, 2]) None) 3"
  using facility_filters_confine [of "[1, 2]" None 3] by auto

text \<open>
  C35: a request on an invoice whose contract is at a facility outside the caller's scope is refused
  with \<open>facility_not_in_scope\<close> and changes nothing: reading it, editing it, issuing it, linking the
  document Holded issued for it, registering, reverting or refunding a payment, rectifying it, annulling
  it, its late fee and the preview of the fee, and sending its record again or asking for its state.
\<close>

theorem out_of_scope_refused:
  assumes "find_first (\<lambda>r. inv_id r = i \<and> \<not> inv_deleted r) (invoices d) = Some r"
    and "invoice_facility d r = Some f" and "f \<notin> set fs"
  shows "markPaidManually e (Some fs) i mp d = Inl (ForbiddenException ''facility_not_in_scope'') \<and>
    revertPayment e (Some fs) i rv d = Inl (ForbiddenException ''facility_not_in_scope'') \<and>
    refund e gw (Some fs) i rf d = Inl (ForbiddenException ''facility_not_in_scope'') \<and>
    update_draft e (Some fs) i ui d = Inl (ForbiddenException ''facility_not_in_scope'') \<and>
    rectify e (Some fs) al i rc d = Inl (ForbiddenException ''facility_not_in_scope'') \<and>
    resendAeat (Some fs) i d = Inl (ForbiddenException ''facility_not_in_scope'') \<and>
    cancel e (Some fs) i reason d = (d, Inl (ForbiddenException ''facility_not_in_scope'')) \<and>
    createLateFee e c (Some fs) i d = (d, Inl (ForbiddenException ''facility_not_in_scope'')) \<and>
    issue e (Some fs) doc z i d = (d, Inl (ForbiddenException ''facility_not_in_scope'')) \<and>
    linkHoldedCreditNote e (Some fs) i doc2 d = (d, Inl (ForbiddenException ''facility_not_in_scope'')) \<and>
    refreshAeatStatus cl (Some fs) i d = (d, Inl (ForbiddenException ''facility_not_in_scope'')) \<and>
    lateFeePreview e c (Some fs) i d = Inl (ForbiddenException ''facility_not_in_scope'') \<and>
    invoiceDetail (Some fs) i d = Inl (ForbiddenException ''facility_not_in_scope'')"
proof -
  have "findOrThrow d (Some fs) i = Inl (ForbiddenException ''facility_not_in_scope'')"
    using assms by (simp add: findOrThrow_def assertFacilityAllowed_def isFacilityAllowed_def guard_def)
  then show ?thesis
    by (simp add: markPaidManually_def revertPayment_def refund_def update_draft_def rectify_def resendAeat_def
        cancel_def cancel_with_def createLateFee_def issue_def linkHoldedCreditNote_def refreshAeatStatus_def
        lateFeePreview_def invoiceDetail_def)
qed

definition demo_contract :: contract_row where
  "demo_contract = default_contract\<lparr>con_id := 7, con_contractNumber := ''C-1'', con_customerId := 1,
     con_unitId := 8, con_status := Con_active\<rparr>"

definition demo_unit :: unit_row where
  "demo_unit = \<lparr>unit_id = 8, unit_facilityId = 5, unit_code = ''T8'', unit_unitTypeId = 1, unit_housing = False,
     unit_basePrice = 5000, unit_status = Occupied,
     unit_outOfServiceReason = None, unit_outOfServiceSince = None, unit_maintenanceUntil = None\<rparr>"

theorem out_of_scope_refused_witness:
  "resendAeat (Some [1]) 2 (demo_db3\<lparr>invoices := [demo_issued\<lparr>inv_contractId := Some 7, inv_deleted := False\<rparr>],
      contracts := [demo_contract], units := [demo_unit]\<rparr>)
   = Inl (ForbiddenException ''facility_not_in_scope'')"
proof -
  let ?r = "demo_issued\<lparr>inv_contractId := Some 7, inv_deleted := False\<rparr>"
  let ?d = "demo_db3\<lparr>invoices := [?r], contracts := [demo_contract],
     units := [demo_unit]\<rparr>"
  have "find_first (\<lambda>r. inv_id r = 2 \<and> \<not> inv_deleted r) (invoices ?d) = Some ?r" by simp
  moreover have "invoice_facility ?d ?r = Some 5"
    by (simp add: invoice_facility_def find_contract_def find_unit_def demo_contract_def demo_unit_def default_contract_def)
  ultimately show ?thesis using out_of_scope_refused [of 2 ?d ?r 5 "[1]"] by simp
qed

section \<open>Product stock\<close>

text \<open>
  C33: whatever adjustments are made, at whatever places, the stock on hand of every product and
  facility stays the sum of its movements, is never negative, and has changed by the adjustments
  made at that place.
\<close>

theorem stock_is_sum_of_movements:
  assumes "foldr_res (\<lambda>(k, x). adjust_post e u nts k x) ops sh = Inr sh'"
    and "stock_wf sh" and "stock_balanced sh"
  shows "stock_wf sh' \<and> stock_balanced sh' \<and>
    (\<forall>p f. 0 \<le> quantity sh' p f \<and>
       quantity sh' p f = quantity sh p f + sum_list (map snd (filter (\<lambda>op1. fst op1 = (p, f)) ops)))"
proof -
  have "stock.balanced sh" using assms(3) by (simp add: stock.balanced_def stock_balanced_def)
  then have "stock_wf sh' \<and> stock.balanced sh'" by (rule stock.run_balanced [OF assms(1,2)])
  moreover have "quantity sh' p f = quantity sh p f + sum_list (map snd (filter (\<lambda>op1. fst op1 = (p, f)) ops))"
    for p f
    using stock.run_balance [OF assms(1,2), of "(p, f)"] by simp
  moreover have "0 \<le> quantity sh' p f" for p f using calculation(1) quantity_nonneg by blast
  ultimately show ?thesis by (simp add: stock.balanced_def stock_balanced_def)
qed

definition demo_shop :: shop where
  "demo_shop = \<lparr>books = demo_db1, products = [\<lparr>prd_id = 1, prd_name = ''Candado'', prd_price = 350, prd_taxRate = 21,
     prd_isActive = True, prd_deleted = False\<rparr>],
     stocks = [], movements = [], sales = [], sale_items = [], next_sale = 1\<rparr>"

definition demo_stocked :: shop where
  "demo_stocked = demo_shop\<lparr>stocks := [\<lparr>st_productId = 1, st_facilityId = 1, st_quantity = 5\<rparr>],
     movements := [stock_movement demo_env 1 1 5 (Some 5) Mv_adjust None None (Some 9)],
     books := audit ''product_stock.adjusted'' 1 demo_db1\<rparr>"

lemma demo_adjust: "adjust_post demo_env 9 None (1, 1) 5 demo_shop = Inr demo_stocked"
  by (simp add: adjust_post_def adjust_def demo_shop_def demo_stocked_def assertProductExists_def assertFacility_def
      upsert_stock_def create_row_def find_stock_def at_place_def recordMovement_def)

theorem stock_is_sum_of_movements_witness: "stock_balanced demo_stocked"
proof -
  have "foldr_res (\<lambda>(k, x). adjust_post demo_env 9 None k x) [((1, 1), 5)] demo_shop = Inr demo_stocked"
    using demo_adjust by (simp del: One_nat_def)
  moreover have "stock_wf demo_shop" "stock_balanced demo_shop"
    by (simp_all add: demo_shop_def stock_wf_def stock_balanced_def quantity_def moved_def find_stock_def)
  ultimately show ?thesis using stock_is_sum_of_movements by blast
qed

text \<open>
  an absolute count leaves exactly the counted quantity at its place and every other place as
  it was, and records the difference, so that the stock stays the sum of its movements.
\<close>

theorem stock_count_exact:
  assumes "set_stock e u p a sh = Inr (sh', row)" and "0 \<le> sk_amount a" and "stock_wf sh" and "stock_balanced sh"
  shows "stock_wf sh' \<and> stock_balanced sh' \<and> quantity sh' p (sk_facilityId a) = sk_amount a \<and>
    (\<forall>p' f'. (p', f') \<noteq> (p, sk_facilityId a) \<longrightarrow> quantity sh' p' f' = quantity sh p' f')"
  using set_stock_spec [OF assms(3,2,1)] assms(4) by (auto simp: stock_balanced_def)

theorem stock_count_exact_witness:
  "\<exists>sh row. set_stock demo_env 9 1 \<lparr>sk_facilityId = 1, sk_amount = 3, sk_notes = None\<rparr> demo_stocked = Inr (sh, row) \<and>
    quantity sh 1 1 = 3 \<and> stock_balanced sh"
proof -
  have "\<exists>sh row. set_stock demo_env 9 1 \<lparr>sk_facilityId = 1, sk_amount = 3, sk_notes = None\<rparr> demo_stocked = Inr (sh, row)"
    by (simp add: set_stock_def demo_stocked_def demo_shop_def assertProductExists_def assertFacility_def
      upsert_stock_def find_stock_def at_place_def recordMovement_def Let_def)
  moreover have "stock_wf demo_stocked" "stock_balanced demo_stocked"
    by (auto simp: demo_stocked_def demo_shop_def stock_wf_def stock_balanced_def quantity_def moved_def
        find_stock_def at_place_def stock_movement_def)
  ultimately show ?thesis
    using stock_count_exact [of demo_env 9 1 "\<lparr>sk_facilityId = 1, sk_amount = 3, sk_notes = None\<rparr>" demo_stocked]
    by fastforce
qed

end
