(* ===== verification/BillingProperties.thy ===== *)
theory BillingProperties imports Ledger begin

text \<open>
  Properties of the billing module that hold in every reachable state or over every run of
  requests: numbering, the chain of records, what an issued invoice keeps, and issuing once.
\<close>

text \<open>
  C1: in every reachable state, the numbers a series has given (in a year, when it counts by year)
  are 1, 2, ..., n, each exactly once: no gaps and no repetitions.
\<close>

theorem numbering_gapless:
  assumes "reachable d" and "s \<in> set (series d)"
  shows "\<exists>n. mset (numbers_given d s y) = mset [1..n]"
  using numbers_given_consecutive [OF reachable_books] assms by blast

theorem numbering_gapless_witness: "\<exists>n. mset (numbers_given demo_db3 (take_number 2026 demo_row) 2026) = mset [1..n]"
  by (rule numbering_gapless [OF demo_reachable3]) (simp add: demo_db3_def)

text \<open>
  C15: in every reachable state the numbers of a series follow the dates: of two invoices it has
  numbered (in the same year, when it counts by year), the one with the lower number does not have
  a later issue date, and two with the same number are the same invoice.
\<close>

theorem dates_follow_numbers:
  assumes "reachable d" and "s \<in> set (series d)" and "i \<in> set (invoices d)" and "j \<in> set (invoices d)"
    and "same_counting s i j" and "inv_sequence i \<le> inv_sequence j"
  shows "the (inv_issueDate i) \<le> the (inv_issueDate j) \<and> (inv_sequence i = inv_sequence j \<longrightarrow> i = j)"
  using same_number_same_invoice [OF reachable_books [OF assms(1)] assms(2-5)]
    dates_follow [OF reachable_books [OF assms(1)] assms(2-5)] assms(6)
  by (cases "inv_sequence i = inv_sequence j") simp_all

theorem dates_follow_numbers_witness: "\<exists>x. inv_issueDate demo_issued = Some x \<and> x \<le> 20463"
proof -
  have "inv_sequence demo_issued = 1" "inv_seriesId demo_issued = 1"
    by (simp_all add: demo_issued_def issued_fields_def mark_settled_def demo_ids)
  then have "same_counting (take_number 2026 demo_row) demo_issued demo_issued"
    by (simp add: same_counting_def take_number_def demo_row_def)
  then have "the (inv_issueDate demo_issued) \<le> the (inv_issueDate demo_issued)"
    using dates_follow_numbers [OF demo_reachable3] by (auto simp: demo_db3_def)
  then show ?thesis by (simp add: demo_issued_record)
qed

text \<open>
  C2: in every reachable state the records of an issuer form one chain: their positions are
  1, ..., n; the first has no predecessor and every other one names the record before it and
  carries that record's hash.
\<close>

theorem records_chained:
  assumes "reachable d"
  shows "mset (map (the \<circ> chain_seq) (chain_of d ow)) = mset [1..int (length (chain_of d ow))] \<and>
    (\<forall>i\<in>set (chain_of d ow). if chain_seq i = Some 1 then vf_previousInvoiceId (inv_vf i) = None
      else (\<exists>p\<in>set (chain_of d ow). chain_seq p = map_option (\<lambda>k. k - 1) (chain_seq i) \<and>
        vf_previousInvoiceId (inv_vf i) = Some (inv_id p) \<and>
        vf_previousHash (inv_vf i) = vf_hash (inv_vf p)))"
proof (intro conjI ballI)
  note ok = reachable_books [OF assms]
  show "mset (map (the \<circ> chain_seq) (chain_of d ow)) = mset [1..int (length (chain_of d ow))]"
    by (rule chain_of_linked(1) [OF ok])
  fix i assume i: "i \<in> set (chain_of d ow)"
  obtain k where k: "chain_seq i = Some k" using i by (auto simp: chain_of_def)
  show "if chain_seq i = Some 1 then vf_previousInvoiceId (inv_vf i) = None
      else (\<exists>p\<in>set (chain_of d ow). chain_seq p = map_option (\<lambda>k. k - 1) (chain_seq i) \<and>
        vf_previousInvoiceId (inv_vf i) = Some (inv_id p) \<and>
        vf_previousHash (inv_vf i) = vf_hash (inv_vf p))"
    using chain_of_linked(2,3) [OF ok i] k by auto
qed

theorem records_chained_witness:
  "mset (map (the \<circ> chain_seq) (chain_of demo_db3 None)) =
   mset [1..int (length (chain_of demo_db3 None))]"
  using records_chained [OF demo_reachable3, of None] by blast

text \<open>
  C14: whatever requests follow, an invoice that is no longer a draft keeps its number, sequence,
  series, issuer, kind, type, the invoice it rectifies, its issue date and its record of the
  chain, and never becomes a draft again.
\<close>

theorem issued_invoice_fixed:
  assumes "reachable d" and "billing_step\<^sup>*\<^sup>* d d'"
    and "i \<in> set (invoices d)" and "inv_status i \<noteq> Draft"
  shows "\<exists>j\<in>set (invoices d'). inv_id j = inv_id i \<and> inv_status j \<noteq> Draft \<and>
    inv_number j = inv_number i \<and> inv_sequence j = inv_sequence i \<and> inv_seriesId j = inv_seriesId i \<and>
    inv_ownerId j = inv_ownerId i \<and> inv_kind j = inv_kind i \<and> inv_type j = inv_type i \<and>
    inv_rectifies j = inv_rectifies i \<and> row_link j = row_link i \<and> inv_issueDate j = inv_issueDate i"
proof -
  have "extends_books d d'" using steps_extend [OF assms(2) reachable_books [OF assms(1)]] by blast
  then obtain j where "j \<in> set (invoices d')" "inv_status j \<noteq> Draft" "number_view j = number_view i"
    "chain_view j = chain_view i" "fixed_part j = fixed_part i"
    using assms(3,4) unfolding extends_books_def by blast
  then show ?thesis
    by (intro bexI [of _ j])
      (auto simp: number_view_def chain_view_def fixed_part_def split: if_splits)
qed

theorem issued_invoice_fixed_witness: "\<exists>j\<in>set (invoices demo_db3). inv_number j = demo_number"
proof -
  have "inv_status demo_issued \<noteq> Draft" "inv_number demo_issued = demo_number"
    by (simp_all add: demo_issued_def issued_fields_def mark_settled_view)
  then show ?thesis
    using issued_invoice_fixed [OF demo_reachable3 rtranclp.rtrancl_refl, of demo_issued]
    by (auto simp: demo_db3_def)
qed

text \<open>
  when the invoice was read in the state in which the transaction runs, the issued row carries
  the number the series shows for the year, formatted from the series, and a hash that
  \<open>verifyHash\<close> accepts (a SHA-256 in hexadecimal is a non-empty upper-case text, and the time stamp
  is not empty).
\<close>

theorem issued_record_verifies:
  assumes "\<And>s. toUpperCase (sha256 e s) = sha256 e s \<and> sha256 e s \<noteq> []"
    and "madrid_timestamp e (now e) \<noteq> []"
    and "find_invoice d (inv_id ex) = Some ex" and "issue_app e ex z d = Inr (d', cmp)"
  shows "\<exists>t j. find_series d (inv_seriesId ex) = Some t \<and> j \<in> set (invoices d') \<and> inv_id j = inv_id ex \<and>
    inv_sequence j = shown_number (year_of (issue_date_of e ex)) t \<and>
    inv_number j = formatInvoiceNumber (take_number (year_of (issue_date_of e ex)) t) (inv_sequence j)
      (issue_date_of e ex) \<and>
    verifyHash e (pending_tax_id (emitter_tax_id d (inv_ownerId ex))) j"
  using assms(4,3)
proof (rule issue_app_row)
  fix t j
  assume t: "find_series d (inv_seriesId ex) = Some t" and j: "j \<in> set (invoices d')" "inv_id j = inv_id ex"
    "inv_sequence j = shown_number (year_of (issue_date_of e ex)) t"
    "inv_number j = formatInvoiceNumber (take_number (year_of (issue_date_of e ex)) t)
      (shown_number (year_of (issue_date_of e ex)) t) (issue_date_of e ex)"
    and v: "toUpperCase (the (vf_hash (inv_vf j))) = the (vf_hash (inv_vf j)) \<Longrightarrow>
      the (vf_hash (inv_vf j)) \<noteq> [] \<Longrightarrow> madrid_timestamp e (now e) \<noteq> [] \<Longrightarrow>
      verifyHash e (pending_tax_id (emitter_tax_id d (inv_ownerId ex))) j"
    and h: "\<exists>s. the (vf_hash (inv_vf j)) = sha256 e s"
  have "verifyHash e (pending_tax_id (emitter_tax_id d (inv_ownerId ex))) j"
    using v h assms(1,2) by auto
  then show ?thesis using t j by auto
qed

theorem issued_record_verifies_witness:
  "\<exists>j. inv_number j = demo_number \<and> verifyHash demo_env ''B12345674'' j"
proof -
  have find: "find_series demo_db2 1 = Some demo_row"
    by (simp add: find_series_def demo_db2_sel demo_row_def)
  obtain t j where "find_series demo_db2 (inv_seriesId demo_draft) = Some t"
    "inv_sequence j = shown_number (year_of (issue_date_of demo_env demo_draft)) t"
    "inv_number j = formatInvoiceNumber (take_number (year_of (issue_date_of demo_env demo_draft)) t)
      (inv_sequence j) (issue_date_of demo_env demo_draft)"
    "verifyHash demo_env (pending_tax_id (emitter_tax_id demo_db2 (inv_ownerId demo_draft))) j"
    using issued_record_verifies [OF demo_sha demo_timestamp _ demo_issue_app] by (auto simp: demo_ids demo_found)
  moreover have "shown_number 2026 demo_row = 1"
    by (simp add: shown_number_def demo_row_def default_series_def)
  ultimately show ?thesis
    using find by (auto simp: demo_ids issue_date_of_def demo_year demo_tax_id pending_tax_id_def demo_format)
qed

text \<open>
  C16: an invoice is issued at most once: after an issuing transaction has committed and whatever
  happened then, every other issuing transaction of the invoice, whichever snapshot it started
  from, is refused with \<open>invoice_already_issued\<close>.
\<close>

theorem issued_at_most_once:
  assumes "reachable d" and "current_snapshot ex d" and "issue_tx e ex z doc d = Inr (d1, cmp)"
    and "billing_step\<^sup>*\<^sup>* d1 d2" and "inv_id ex2 = inv_id ex"
  shows "issue_tx e2 ex2 z2 doc2 d2 = Inl (ConflictException ''invoice_already_issued'')"
proof -
  have ok: "books_ok d1" using issue_tx_books [OF reachable_books [OF assms(1)] assms(2,3)] .
  obtain i where "i \<in> set (invoices d1)" "inv_id i = inv_id ex" "inv_status i \<noteq> Draft"
    using issue_tx_not_draft [OF assms(3)] by blast
  then obtain j where "j \<in> set (invoices d2)" "inv_id j = inv_id ex" "inv_status j \<noteq> Draft"
    using steps_extend [OF assms(4) ok] extends_row by metis
  then show ?thesis using issue_tx_refused steps_extend [OF assms(4) ok] assms(5) by simp
qed

theorem issued_at_most_once_witness:
  "issue_tx demo_env demo_draft True (Some (''x'', ''y''))
     (update_invoice 2 (\<lambda>_. demo_issued) (demo_db2\<lparr>series := [take_number 2026 demo_row]\<rparr>))
   = Inl (ConflictException ''invoice_already_issued'')"
  by (rule issued_at_most_once [OF demo_reachable2 demo_snapshot demo_issue_tx rtranclp.rtrancl_refl]) simp

end
