(* ===== verification/PaymentLedger.thy ===== *)
theory PaymentLedger imports Journal begin

text \<open>
  The payments of an invoice as the entries of an account whose balance is the column
  \<open>amountPaid\<close>: registering a payment moves both by the same amount. Also the effect of the
  operations on money: registering, reverting, refunding, compensating with a credit note.
\<close>

section \<open>The account of an invoice\<close>

definition paid :: "id \<Rightarrow> db \<Rightarrow> cents" where
  "paid i d = (case find_invoice d i of None \<Rightarrow> 0 | Some r \<Rightarrow> inv_amountPaid r)"

definition counted :: "payment_row \<Rightarrow> bool" where
  "counted p \<longleftrightarrow> pay_status p \<in> {Pay_succeeded, Pay_partially_refunded, Pay_refunded}"

definition received :: "id \<Rightarrow> db \<Rightarrow> cents" where
  "received i d = sum_list (map pay_amount (filter counted (payments_of d i)))"

lemma received_create_payment:
  "received j (create_payment p d) =
     received j d + (if pay_invoiceId p = Some j \<and> counted p then pay_amount p else 0)"
  by (simp add: received_def payments_of_def counted_def)

lemma received_update_invoice [simp]: "received j (update_invoice i f d) = received j d"
  by (simp add: received_def payments_of_def)

lemma find_update_invoice:
  assumes "\<And>r. inv_id (f r) = inv_id r"
  shows "find_invoice (update_invoice i f d) j =
    (if j = i then map_option f (find_invoice d j) else find_invoice d j)"
  using find_first_update_many_key [of inv_id f, OF assms]
    find_first_update_many_other [of inv_id f, OF assms]
  by (auto simp: find_invoice_def)

lemma find_invoice_create_payment [simp]: "find_invoice (create_payment p d) j = find_invoice d j"
  by (simp add: find_invoice_def)

lemma paid_update_invoice:
  assumes "\<And>r. inv_id (f r) = inv_id r" and "find_invoice d i = Some r"
  shows "paid j (update_invoice i f d) = (if j = i then inv_amountPaid (f r) else paid j d)"
  by (auto simp: paid_def find_update_invoice [OF assms(1)] assms(2))

text \<open>One posting: a payment registered by hand for an amount, with the other fields fixed.\<close>

definition post_payment :: "env \<Rightarrow> mark_paid_input \<Rightarrow> id \<Rightarrow> cents \<Rightarrow> db \<Rightarrow> db result" where
  "post_payment e a i x d = bindr (mark_paid_tx e i (a\<lparr>mp_amount := x\<rparr>) d) (\<lambda>(d', full). Inr d')"

lemma mark_paid_tx_accounts:
  assumes "mark_paid_tx e i a d = Inr (d', full)"
  shows "paid j d' = paid j d + (if j = i then mp_amount a else 0)"
    and "received j d' = received j d + (if j = i then mp_amount a else 0)"
  using assms
  by (auto elim!: mark_paid_tx_Inr simp: received_create_payment manual_payment_row_def counted_def
      default_payment_def paid_update_invoice paid_fields_def, simp_all add: paid_def find_update_invoice paid_fields_def)

interpretation payments: ledger paid received "post_payment e a" "\<lambda>_. True" for e a
  by unfold_locales (auto simp: post_payment_def bindr_eq_Inr mark_paid_tx_accounts)

section \<open>Undoing a payment\<close>

lemma received_fail:
  assumes "distinct (map pay_id (payments d))" and "p \<in> set (payments d)" and "pay_invoiceId p = Some j"
    and "counted p"
  shows "received j (fail_payments e a [pay_id p] d) = received j d - pay_amount p"
proof -
  let ?f = "\<lambda>p. p\<lparr>pay_status := Pay_failed, pay_failureReason := Some (rv_reason a),
    pay_returnedAt := (if rv_undo a then pay_returnedAt p else Some (now e))\<rparr>"
  obtain xs ys where rows: "payments d = xs @ p # ys"
    and "update_many (\<lambda>x. pay_id x = pay_id p) ?f (payments d) = xs @ ?f p # ys"
    using assms(1,2) by (rule update_many_split)
  then show ?thesis using assms(3,4) by (simp add: received_def payments_of_def fail_payments_def counted_def)
qed

lemma exact_payment_by_id:
  assumes "distinct (map pay_id (payments d))" and "p \<in> set (live_payments d i)"
    and "rv_paymentId a = Some (pay_id p)"
  shows "exact_payment a (live_payments d i) = Some p"
proof -
  have sub: "set (live_payments d i) \<subseteq> set (payments d)" by (auto simp: live_payments_def payments_of_def)
  have "find_first (\<lambda>x. pay_id x = pay_id p) (live_payments d i) \<noteq> None"
    using assms(2) by (auto simp: find_first_None_iff)
  then obtain q where q: "find_first (\<lambda>x. pay_id x = pay_id p) (live_payments d i) = Some q" by blast
  then have "q \<in> set (payments d)" "pay_id q = pay_id p" using find_first_SomeD [OF q] sub by auto
  moreover have "p \<in> set (payments d)" using assms(2) sub by blast
  ultimately have "q = p" using assms(1) by (auto simp: distinct_map inj_on_def)
  then show ?thesis using q assms(3) by (simp add: exact_payment_def)
qed

lemma find_invoice_fail_payments [simp]: "find_invoice (fail_payments e a ps d) i = find_invoice d i"
  by (simp add: find_invoice_def fail_payments_def)

lemma payment_fields_id [simp]:
  "inv_id (paid_fields e a n g s) = inv_id s" "inv_id (reverted_fields n u v s) = inv_id s"
  "inv_id (refunded_fields n g s) = inv_id s"
  by (simp_all add: paid_fields_def reverted_fields_def refunded_fields_def)

text \<open>Reverting one payment of the invoice for its whole amount.\<close>

lemma revert_one:
  assumes "find_invoice d i = Some q" and "0 < inv_amountPaid q"
    and "distinct (map pay_id (payments d))" and "p \<in> set (live_payments d i)"
    and "rv_paymentId b = Some (pay_id p)" and "rv_amount b = pay_amount p"
  obtains d2 due where "revert_tx e i b d = Inr (d2, due)"
    and "find_invoice d2 i = Some (reverted_fields (max 0 (inv_amountPaid q - pay_amount p))
      (reverted_status e q) (inv_status q = Paid) q)"
    and "received i d2 = received i d - pay_amount p"
    and "\<exists>r\<in>set (payments d2). pay_id r = pay_id p \<and> pay_status r = Pay_failed"
proof -
  have exact: "exact_payment b (live_payments d i) = Some p"
    using assms(3,4,5) by (rule exact_payment_by_id)
  have p: "p \<in> set (payments d)" "pay_invoiceId p = Some i" "counted p"
    using assms(4) by (auto simp: live_payments_def payments_of_def counted_def)
  let ?d2 = "update_invoice i (reverted_fields (max 0 (inv_amountPaid q - pay_amount p)) (reverted_status e q)
    (inv_status q = Paid)) (fail_payments e b [pay_id p] d)"
  have run: "\<exists>due. revert_tx e i b d = Inr (?d2, due)"
    using assms(1,2,5,6) by (simp add: revert_tx_def Let_def exact reverted_payments_def)
  have "received i ?d2 = received i d - pay_amount p"
    using received_fail [OF assms(3) p] by simp
  moreover have "\<exists>r\<in>set (payments ?d2). pay_id r = pay_id p \<and> pay_status r = Pay_failed"
    by (rule bexI [of _ "p\<lparr>pay_status := Pay_failed, pay_failureReason := Some (rv_reason b),
        pay_returnedAt := (if rv_undo b then pay_returnedAt p else Some (now e))\<rparr>"])
      (use p(1) in \<open>auto simp: fail_payments_def set_update_many\<close>)
  moreover have "find_invoice ?d2 i = Some (reverted_fields (max 0 (inv_amountPaid q - pay_amount p))
      (reverted_status e q) (inv_status q = Paid) q)"
    using assms(1) by (simp add: find_update_invoice)
  ultimately show ?thesis using that run by blast
qed

section \<open>Refunds\<close>

definition refunded :: "id \<Rightarrow> db \<Rightarrow> cents" where
  "refunded i d = (case find_invoice d i of None \<Rightarrow> 0 | Some r \<Rightarrow> inv_amountRefunded r)"

definition given_back :: "id \<Rightarrow> db \<Rightarrow> cents" where
  "given_back i d = sum_list (map rfd_amount (filter (\<lambda>r. rfd_invoiceId r = i) (refunds d)))"

definition post_refund :: "env \<Rightarrow> gateway_answer \<Rightarrow> refund_input \<Rightarrow> id \<Rightarrow> cents \<Rightarrow> db \<Rightarrow> db result" where
  "post_refund e gw a i x d = refund_tx e gw i (a\<lparr>rf_amount := x\<rparr>) d"

lemma create_refund_sel [simp]:
  "invoices (create_refund r d) = invoices d" "payments (create_refund r d) = payments d"
  "refunds (create_refund r d) = refunds d @ [r\<lparr>rfd_id := next_id d\<rparr>]"
  by (simp_all add: create_refund_def create_row_def)

lemma return_money_rows:
  assumes "return_money e gw i a d = Inr (d', via, pid, rid)"
  shows "invoices d' = invoices d" and "refunds d' = refunds d"
  using assms by (auto simp: return_money_def bindr_eq_Inr update_payment_def split: option.splits if_splits)

lemma refund_tx_accounts:
  assumes "refund_tx e gw i a d = Inr d'"
  shows "refunded j d' = refunded j d + (if j = i then rf_amount a else 0)"
    and "given_back j d' = given_back j d + (if j = i then rf_amount a else 0)"
proof -
  obtain ex d1 via pid rid where ex: "find_invoice d i = Some ex"
    and m: "return_money e gw i a d = Inr (d1, via, pid, rid)"
    and d': "d' = update_invoice i (refunded_fields (inv_amountRefunded ex + rf_amount a)
      (inv_total ex \<le> inv_amountRefunded ex + rf_amount a)) (create_refund (refund_row_of e i a via pid rid) d1)"
    using assms by (rule refund_tx_Inr) blast
  have f: "find_invoice (create_refund r d1) k = find_invoice d k" for r k
    using return_money_rows(1) [OF m] by (simp add: find_invoice_def)
  have id: "inv_id (refunded_fields x b r) = inv_id r" for x b r by (simp add: refunded_fields_def)
  show "refunded j d' = refunded j d + (if j = i then rf_amount a else 0)"
    using ex by (simp add: refunded_def d' find_update_invoice [OF id] f refunded_fields_def)
  show "given_back j d' = given_back j d + (if j = i then rf_amount a else 0)"
    using return_money_rows(2) [OF m] by (simp add: given_back_def d' refund_row_of_def)
qed

interpretation refunds: ledger refunded given_back "post_refund e gw a" "\<lambda>_. True" for e gw a
  by unfold_locales (auto simp: post_refund_def refund_tx_accounts)

end
