(* ===== verification/PaymentProperties.thy ===== *)
theory PaymentProperties imports PaymentLedger Demo begin

text \<open>
  Properties of the operations on money: registering, reverting and refunding payments.
\<close>

section \<open>A payment of the example invoice\<close>

definition demo_pay :: mark_paid_input where
  "demo_pay = \<lparr>mp_amount = 12100, mp_method = Cash, mp_paidAt = None, mp_notes = None, mp_override = False,
     mp_allowInRemittance = False, mp_allowPartialNonCash = False, mp_rejectDuplicate = True\<rparr>"

definition demo_payment :: payment_row where
  "demo_payment = manual_payment_row demo_env 2 demo_pay demo_issued\<lparr>pay_id := 3\<rparr>"

definition demo_paid_invoice :: invoice_row where
  "demo_paid_invoice = paid_fields demo_env demo_pay 12100 True demo_issued"

definition demo_db4 :: db where
  "demo_db4 = demo_db3\<lparr>next_id := 4, payments := [demo_payment], invoices := [demo_paid_invoice]\<rparr>"

lemma demo_pay_tx: "mark_paid_tx demo_env 2 demo_pay demo_db3 = Inr (demo_db4, True)"
  by (simp add: mark_paid_tx_def demo_pay_def twin_payment_def gateway_in_flight_def payments_of_def
      assertNotInSepaRemittance_def create_payment_def create_row_def update_invoice_def demo_db4_def
      demo_payment_def demo_paid_invoice_def)

section \<open>Properties of registering a payment\<close>

text \<open>
  a payment that is registered leaves the invoice with what was paid before plus its amount,
  never more than the total; the invoice becomes paid exactly when the total is reached; one
  succeeded payment row is added and no other invoice changes.
\<close>

theorem payment_registered:
  assumes "mark_paid_tx e i a d = Inr (d', full)"
  shows "\<exists>r. find_invoice d i = Some r \<and> (inv_status r = Issued \<or> inv_status r = Overdue) \<and>
    inv_amountPaid r + mp_amount a \<le> inv_total r \<and>
    (full \<longleftrightarrow> inv_amountPaid r + mp_amount a = inv_total r) \<and>
    find_invoice d' i = Some (paid_fields e a (inv_amountPaid r + mp_amount a) full r) \<and>
    payments d' = payments d @ [(manual_payment_row e i a r)\<lparr>pay_id := next_id d\<rparr>] \<and>
    (\<forall>j. j \<noteq> i \<longrightarrow> find_invoice d' j = find_invoice d j)"
  using assms
proof (rule mark_paid_tx_Inr)
  fix r
  assume r: "find_invoice d i = Some r" "inv_status r = Issued \<or> inv_status r = Overdue"
    "inv_amountPaid r + mp_amount a \<le> inv_total r"
    "full \<longleftrightarrow> inv_total r \<le> inv_amountPaid r + mp_amount a"
    and d': "d' = update_invoice i (paid_fields e a (inv_amountPaid r + mp_amount a) full)
      (create_payment (manual_payment_row e i a r) d)"
  have "inv_id (paid_fields e a n full q) = inv_id q" for n q by (simp add: paid_fields_def)
  then have "find_invoice d' j =
      (if j = i then map_option (paid_fields e a (inv_amountPaid r + mp_amount a) full) (find_invoice d j)
       else find_invoice d j)" for j
    unfolding d' by (simp add: find_update_invoice)
  then show ?thesis using r by (auto simp: d')
qed

theorem payment_registered_witness:
  "find_invoice demo_db4 2 = Some (paid_fields demo_env demo_pay 12100 True demo_issued)"
  using payment_registered [OF demo_pay_tx] by (simp add: demo_pay_def)

text \<open>A payment registered by hand: who asks, with which permissions, on which invoice, and for what.\<close>

type_synonym registration = "env \<times> facility_scope \<times> id \<times> mark_paid_input"

definition register :: "registration \<Rightarrow> db \<Rightarrow> db result" where
  "register p d = (case p of (e, scope, i, a) \<Rightarrow> markPaidManually e scope i a d)"

definition registered :: "id \<Rightarrow> registration list \<Rightarrow> cents" where
  "registered k ps = sum_list (map (\<lambda>(e, scope, i, a). if i = k then mp_amount a else 0) ps)"

lemma log_sel [simp]:
  "paid k (audit x y d) = paid k d" "received k (audit x y d) = received k d"
  "paid k (emit ev d) = paid k d" "received k (emit ev d) = received k d"
  by (simp_all add: paid_def received_def payments_of_def find_invoice_def audit_def emit_def)

lemma markPaidManually_accounts:
  assumes "markPaidManually e scope i a d = Inr d'"
  shows "paid k d' = paid k d + (if i = k then mp_amount a else 0) \<and>
    received k d' = received k d + (if i = k then mp_amount a else 0)"
proof -
  obtain d1 full where tx: "mark_paid_tx e i a d = Inr (d1, full)"
    and d': "d' = (if full then emit (Invoice_paid i) (audit ''invoice.paid'' i d1)
      else audit ''invoice.partial_payment'' i d1)"
    using assms by (auto simp: markPaidManually_def bindr_eq_Inr Let_def split: if_splits)
  show ?thesis using mark_paid_tx_accounts [OF tx, of k] by (auto simp: d')
qed

text \<open>
  C17: whatever payments are registered by hand one after the other, by whoever, at whatever time, with
  whatever means, notes and permissions and on whatever invoices, what each invoice shows as paid and
  the sum of its payment rows both grow by exactly the payments registered for it. So an invoice that
  showed the sum of its rows still does, and a difference left by something else stays the same.
\<close>

theorem paid_is_sum_of_payments:
  assumes "foldr_res register ps d = Inr d'"
  shows "\<forall>k. paid k d' = paid k d + registered k ps \<and> received k d' = received k d + registered k ps \<and>
    (paid k d' = received k d' \<longleftrightarrow> paid k d = received k d)"
proof -
  have "paid k d' = paid k d + registered k ps \<and> received k d' = received k d + registered k ps" for k
    using assms
  proof (induction ps arbitrary: d)
    case Nil then show ?case by (simp add: registered_def)
  next
    case (Cons p ps)
    obtain e scope i a where p: "p = (e, scope, i, a)" by (cases p)
    from Cons.prems obtain d1 where step: "register p d = Inr d1" and rest: "foldr_res register ps d1 = Inr d'"
      by (auto simp: bindr_eq_Inr)
    then have one: "markPaidManually e scope i a d = Inr d1" by (simp add: p register_def)
    show ?case using Cons.IH [OF rest] markPaidManually_accounts [OF one, of k] by (simp add: p registered_def)
  qed
  then show ?thesis by auto
qed

lemma demo_issued_stands [simp]: "\<not> inv_deleted demo_issued"
  by (simp add: demo_issued_def issued_fields_def mark_settled_def demo_ids settles_def)

theorem paid_is_sum_of_payments_witness:
  "\<exists>d. register (demo_env, None, 2, demo_pay) demo_db3 = Inr d \<and> paid 2 d = 12100 \<and> received 2 d = 12100"
proof -
  have "findOrThrow demo_db3 None 2 = Inr demo_issued"
    by (simp add: findOrThrow_def assertFacilityAllowed_def isFacilityAllowed_def split: option.split)
  then obtain d where d: "register (demo_env, None, 2, demo_pay) demo_db3 = Inr d"
    using demo_pay_tx by (simp add: register_def markPaidManually_def paid_at_def demo_pay_def Let_def)
  moreover have "paid 2 demo_db3 = 0" "received 2 demo_db3 = 0"
    by (simp_all add: paid_def received_def payments_of_def)
  ultimately show ?thesis
    using paid_is_sum_of_payments [of "[(demo_env, None, 2, demo_pay)]" demo_db3 d]
    by (simp add: registered_def demo_pay_def)
qed

text \<open>
  registering is refused with the code of the first condition that fails, in this order: the
  invoice is not open, the payment exceeds what is pending, it repeats one of the last thirty
  seconds, a gateway payment is in progress, the invoice is in a SEPA remittance, or it is a
  partial payment that is not cash. Otherwise it is accepted.
\<close>

theorem payment_refusals:
  assumes "find_invoice d i = Some r"
  shows "\<exists>d'. mark_paid_tx e i a d =
    (if inv_status r \<noteq> Issued \<and> inv_status r \<noteq> Overdue then Inl (BadRequestException ''invoice_not_payable'')
     else if inv_total r < inv_amountPaid r + mp_amount a then Inl (BadRequestException ''overpayment'')
     else if mp_rejectDuplicate a \<and> twin_payment e d i a then Inl (ConflictException ''duplicate_payment'')
     else if \<not> mp_override a \<and> gateway_in_flight d i \<noteq> 0
       then Inl (ConflictException ''gateway_payment_in_progress'')
     else if \<not> mp_allowInRemittance a \<and> (\<exists>q\<in>set (remittance_items d). rem_invoiceId q = i \<and> rem_status q = Deb_pending)
       then Inl (ConflictException ''invoice_in_sepa_remittance'')
     else if inv_amountPaid r + mp_amount a < inv_total r \<and> mp_method a \<noteq> Cash \<and> \<not> mp_allowPartialNonCash a
       then Inl (BadRequestException ''partial_only_cash'')
     else Inr (d', inv_amountPaid r + mp_amount a = inv_total r))"
  using assms by (auto simp: mark_paid_tx_def assertNotInSepaRemittance_def guard_def Let_def)

theorem payment_refusals_witness:
  "mark_paid_tx demo_env 2 demo_pay demo_db4 = Inl (BadRequestException ''invoice_not_payable'')"
proof -
  have "find_invoice demo_db4 2 = Some demo_paid_invoice" "inv_status demo_paid_invoice = Paid"
    by (simp_all add: find_invoice_def demo_db4_def demo_paid_invoice_def paid_fields_def)
  then show ?thesis using payment_refusals [of demo_db4 2 demo_paid_invoice demo_env demo_pay] by simp
qed

section \<open>Properties of reverting and refunding\<close>

text \<open>
  C37: undoing the payment just registered, named by its id and with its amount, gives back the
  amount paid and the sum of the payment rows the invoice had before; the payment stays as a failed
  row, and an invoice it had completed is open again (overdue once its due date has passed).
\<close>

theorem payment_undone:
  assumes "mark_paid_tx e i a d = Inr (d1, full)" and "find_invoice d i = Some r"
    and "distinct (map pay_id (payments d)) \<and> (\<forall>p\<in>set (payments d). pay_id p < next_id d)"
    and "0 \<le> inv_amountPaid r \<and> 0 < mp_amount a \<and> mp_method a \<notin> NON_CASH_PAYMENT_METHODS"
    and "rv_amount b = mp_amount a \<and> rv_paymentId b = Some (next_id d)"
  shows "\<exists>d2 due j. revert_tx e2 i b d1 = Inr (d2, due) \<and> find_invoice d2 i = Some j \<and>
    paid i d2 = paid i d \<and> received i d2 = received i d \<and>
    inv_status j = (if \<not> full then inv_status r else if (\<exists>due. inv_dueDate r = Some due \<and> day_ms due < now e2)
      then Overdue else Issued) \<and>
    (\<exists>p\<in>set (payments d2). pay_id p = next_id d \<and> pay_status p = Pay_failed)"
proof -
  let ?p = "manual_payment_row e i a r\<lparr>pay_id := next_id d\<rparr>"
  let ?n = "inv_amountPaid r + mp_amount a" and ?q = "paid_fields e a (inv_amountPaid r + mp_amount a) full r"
  obtain f where f: "find_invoice d i = Some f" "inv_status f = Issued \<or> inv_status f = Overdue"
    and d1: "d1 = update_invoice i (paid_fields e a (inv_amountPaid f + mp_amount a) full)
      (create_payment (manual_payment_row e i a f) d)"
    using assms(1) by (rule mark_paid_tx_Inr)
  have fr: "f = r" using f(1) assms(2) by simp
  have row: "find_invoice d1 i = Some ?q"
    using assms(2) by (simp add: d1 fr find_update_invoice)
  have pays: "payments d1 = payments d @ [?p]" by (simp add: d1 fr)
  have dist: "distinct (map pay_id (payments d1))" using assms(3) by (auto simp: pays)
  have p: "pay_amount ?p = mp_amount a" "pay_id ?p = next_id d" by (simp_all add: manual_payment_row_def)
  have live: "?p \<in> set (live_payments d1 i)"
    using assms(4) by (simp add: live_payments_def payments_of_def pays manual_payment_row_def)
  obtain d2 due where d2: "revert_tx e2 i b d1 = Inr (d2, due)"
    "find_invoice d2 i = Some (reverted_fields (max 0 (inv_amountPaid ?q - pay_amount ?p)) (reverted_status e2 ?q)
      (inv_status ?q = Paid) ?q)" "received i d2 = received i d1 - pay_amount ?p"
    "\<exists>s\<in>set (payments d2). pay_id s = pay_id ?p \<and> pay_status s = Pay_failed"
    by (rule revert_one [OF row _ dist live, of b e2]) (use assms(4,5) p in \<open>simp_all add: paid_fields_def\<close>)
  have "received i d2 = received i d"
    using d2(3) p(1) mark_paid_tx_accounts(2) [OF assms(1), of i] by simp
  moreover have "paid i d2 = paid i d"
    using d2(2) assms(2,4) p(1) by (simp add: paid_def reverted_fields_def paid_fields_def)
  moreover have "inv_status (reverted_fields n (reverted_status e2 ?q) v ?q) =
      (if \<not> full then inv_status r else if (\<exists>due. inv_dueDate r = Some due \<and> day_ms due < now e2)
      then Overdue else Issued)" for n v
    using f(2) by (auto simp: fr reverted_fields_def reverted_status_def paid_fields_def split: option.splits)
  ultimately show ?thesis using d2(1,2,4) p(2) by auto
qed

definition demo_undo :: revert_input where
  "demo_undo = \<lparr>rv_amount = 12100, rv_reason = ''error'', rv_paymentId = Some 3, rv_undo = True\<rparr>"

theorem payment_undone_witness:
  "\<exists>d2 due. revert_tx demo_env 2 demo_undo demo_db4 = Inr (d2, due) \<and> received 2 d2 = 0"
proof -
  have "received 2 demo_db3 = 0" by (simp add: received_def payments_of_def)
  then show ?thesis
    using payment_undone [OF demo_pay_tx, of demo_issued demo_undo demo_env]
    by (auto simp: demo_pay_def demo_undo_def NON_CASH_PAYMENT_METHODS_def)
qed


text \<open>
  C18: a refund leaves as refunded what was refunded before plus its amount, at most the total of
  the invoice and at most the money really collected; the invoice is fully refunded exactly when
  the total is reached, and the refund is entered once with the amount and its invoice.
\<close>

theorem refund_bounded:
  assumes "refund_tx e gw i a d = Inr d'"
  shows "\<exists>r. find_invoice d i = Some r \<and> (inv_status r = Paid \<or> inv_status r = Partially_refunded) \<and>
    refunded i d' = inv_amountRefunded r + rf_amount a \<and>
    refunded i d' \<le> inv_total r \<and> refunded i d' \<le> collected_cents d i \<and>
    (\<exists>j. find_invoice d' i = Some j \<and>
      inv_status j = (if refunded i d' = inv_total r then Refunded else Partially_refunded)) \<and>
    (\<exists>n. refunds d' = refunds d @ [n] \<and> rfd_amount n = rf_amount a \<and> rfd_invoiceId n = i)"
  using assms
proof (rule refund_tx_Inr)
  fix r d1 via pid rid
  assume r: "find_invoice d i = Some r" "inv_status r = Paid \<or> inv_status r = Partially_refunded"
    "inv_amountRefunded r + rf_amount a \<le> inv_total r" "inv_amountRefunded r + rf_amount a \<le> collected_cents d i"
    and m: "return_money e gw i a d = Inr (d1, via, pid, rid)"
    and d': "d' = update_invoice i (refunded_fields (inv_amountRefunded r + rf_amount a)
      (inv_total r \<le> inv_amountRefunded r + rf_amount a)) (create_refund (refund_row_of e i a via pid rid) d1)"
  have now: "refunded i d' = inv_amountRefunded r + rf_amount a"
    using refund_tx_accounts(1) [OF assms, of i] r(1) by (simp add: refunded_def)
  have "find_invoice d' i = Some (refunded_fields (inv_amountRefunded r + rf_amount a)
      (inv_total r \<le> inv_amountRefunded r + rf_amount a) r)"
    using r(1) return_money_rows(1) [OF m] by (simp add: d' find_update_invoice) (simp add: find_invoice_def)
  moreover have "refunds d' = refunds d @ [refund_row_of e i a via pid rid\<lparr>rfd_id := next_id d1\<rparr>]"
    using return_money_rows(2) [OF m] by (simp add: d')
  ultimately show ?thesis using r now by (auto simp: refunded_fields_def refund_row_of_def)
qed

definition demo_refund :: refund_input where
  "demo_refund = \<lparr>rf_amount = 2100, rf_reason = None, rf_registeredExternally = False,
     rf_allowDepositReceipt = False, rf_rejectDuplicate = False, rf_userId = None\<rparr>"

definition demo_db5 :: db where
  "demo_db5 = update_invoice 2 (refunded_fields 2100 False)
     (create_refund (refund_row_of demo_env 2 demo_refund Via_manual (Some 3) None)
       (update_payment 3 (add_refund demo_env 2100) demo_db4))"

lemma demo_paid_sel [simp]:
  "inv_id demo_paid_invoice = 2" "inv_status demo_paid_invoice = Paid" "inv_total demo_paid_invoice = 12100"
  "inv_amountRefunded demo_paid_invoice = 0" "inv_kind demo_paid_invoice = Invoice_kind"
  "pay_id demo_payment = 3" "pay_invoiceId demo_payment = Some 2" "pay_amount demo_payment = 12100"
  "pay_status demo_payment = Pay_succeeded" "pay_method demo_payment = Cash"
  "pay_gatewayPaymentId demo_payment = None" "payments demo_db4 = [demo_payment]"
  "find_invoice demo_db4 2 = Some demo_paid_invoice" "refunds demo_db4 = []"
  by (simp_all add: demo_paid_invoice_def paid_fields_def demo_payment_def manual_payment_row_def demo_pay_def
      default_payment_def demo_db4_def find_invoice_def)

lemma demo_refund_tx: "refund_tx demo_env gw 2 demo_refund demo_db4 = Inr demo_db5"
  by (simp add: refund_tx_def demo_refund_def collected_cents_def payments_of_def NON_CASH_PAYMENT_METHODS_def
      return_money_def gateway_payment_def manual_payment_def find_latest_def refundable_status_def demo_db5_def)

theorem refund_bounded_witness: "\<exists>n. refunds demo_db5 = [n] \<and> rfd_amount n = 2100"
  using refund_bounded [OF demo_refund_tx] by (auto simp: demo_refund_def)

text \<open>
  whatever refunds are made one after the other, what every invoice shows as refunded stays
  the sum of its refund entries, and grows by the refunds made for it.
\<close>

theorem refunded_is_sum_of_refunds:
  assumes "foldr_res (\<lambda>(k, x). post_refund e gw a k x) rs d = Inr d'"
    and "\<forall>k. refunded k d = given_back k d"
  shows "(\<forall>k. refunded k d' = given_back k d') \<and>
    (\<forall>k. refunded k d' = refunded k d + sum_list (map snd (filter (\<lambda>p. fst p = k) rs)))"
  using refunds.run_balanced [OF assms(1)] refunds.run_balance [OF assms(1)] assms(2)
  by (simp add: refunds.balanced_def)

theorem refunded_is_sum_of_refunds_witness: "\<forall>k. refunded k demo_db5 = given_back k demo_db5"
proof -
  have "foldr_res (\<lambda>(k, x). post_refund demo_env (\<lambda>_. None) demo_refund k x) [(2, 2100)] demo_db4 = Inr demo_db5"
    using demo_refund_tx by (simp add: post_refund_def demo_refund_def)
  moreover have "\<forall>k. refunded k demo_db4 = given_back k demo_db4"
    by (auto simp: refunded_def given_back_def find_invoice_def demo_db4_def)
  ultimately show ?thesis using refunded_is_sum_of_refunds by blast
qed

text \<open>
  two requests to a gateway carry the same idempotency key only when they refund the same
  payment up to the same cumulative amount: a retry is recognised, a second refund is not taken
  for one.
\<close>

theorem refund_key_identifies:
  assumes "0 \<le> pay_refundedAmount p + x" and "0 \<le> pay_refundedAmount q + y"
    and "rq_key (refund_request_of p x) = rq_key (refund_request_of q y)"
  shows "pay_id p = pay_id q \<and> pay_refundedAmount p + x = pay_refundedAmount q + y"
proof -
  have "show_nat (pay_id p) = show_nat (pay_id q) \<and>
      show_int (pay_refundedAmount p + x) = show_int (pay_refundedAmount q + y)"
    by (rule digits_split [where x = "CHR ''-''"])
      (use assms show_nat_digits show_int_digits in \<open>auto simp: refund_request_of_def is_digit_def code_def\<close>)
  then show ?thesis using assms(1,2) by (simp add: show_nat_inj show_int_inj)
qed

theorem refund_key_identifies_witness:
  "pay_refundedAmount (demo_payment\<lparr>pay_notes := Some ''x''\<rparr>) + 5 = pay_refundedAmount demo_payment + 5"
  by (rule refund_key_identifies [THEN conjunct2])
    (simp_all add: refund_request_of_def demo_payment_def manual_payment_row_def default_payment_def)

end
