(* ===== verification/CreditProperties.thy ===== *)
theory CreditProperties imports Ledger PaymentLedger begin

text \<open>
  Properties of credit notes, compensations, late fees and annulled invoices.
\<close>

section \<open>What a drafted credit note adds\<close>

lemma insert_series_invoices: "insert_series d s = Inr (d', row) \<Longrightarrow> invoices d' = invoices d"
  by (auto simp: insert_series_def Let_def split: if_splits)

lemma rectificationSeries_invoices:
  assumes "rectificationSeries d ow = Inr (d', s)"
  shows "invoices d' = invoices d"
  using assms
  by (auto simp: rectificationSeries_def ownerSeries_def Let_def bindr_eq_Inr dest: insert_series_invoices
      split: option.splits)

lemma insert_invoice_rows:
  assumes "insert_invoice d row lines = Inr (d', r)"
  shows "invoices d' = invoices d @ [r]" and "r = row\<lparr>inv_id := next_id d\<rparr>"
  using assms by (auto simp: insert_invoice_def Let_def create_row_def bindr_eq_Inr split: if_splits)

definition method_of :: "rectify_input \<Rightarrow> correction_method" where
  "method_of rc = (case rc_method rc of None \<Rightarrow> By_differences | Some m \<Rightarrow> m)"

lemma rectify_tx_Inr:
  assumes "rectify_tx e orig rc t d = Inr (d', r)"
  shows "assertRectificationLimits d (inv_id orig) None (tot_total t) (method_of rc) = Inr ()"
    and "invoices d' = invoices d @ [r]" and "inv_total r = tot_total t" and "inv_rectifies r = Some (inv_id orig)"
    and "inv_status r = Draft" and "\<not> inv_deleted r" and "inv_correctionMethod r = Some (method_of rc)"
proof -
  obtain d1 s row lines where lim: "assertRectificationLimits d (inv_id orig) None (tot_total t) (method_of rc) = Inr ()"
    and ser: "rectificationSeries d (inv_ownerId orig) = Inr (d1, s)" and ins: "insert_invoice d1 row lines = Inr (d', r)"
    and row: "inv_total row = tot_total t" "inv_rectifies row = Some (inv_id orig)" "inv_status row = Draft"
      "\<not> inv_deleted row" "inv_correctionMethod row = Some (method_of rc)"
    using assms unfolding rectify_tx_def Let_def method_of_def [symmetric]
    by (auto simp: bindr_eq_Inr default_invoice_def)
  show "assertRectificationLimits d (inv_id orig) None (tot_total t) (method_of rc) = Inr ()" by (rule lim)
  show "invoices d' = invoices d @ [r]"
    using insert_invoice_rows(1) [OF ins] rectificationSeries_invoices [OF ser] by simp
  show "inv_total r = tot_total t" "inv_rectifies r = Some (inv_id orig)" "inv_status r = Draft"
    "\<not> inv_deleted r" "inv_correctionMethod r = Some (method_of rc)"
    using row by (simp_all add: insert_invoice_rows(2) [OF ins])
qed

text \<open>
  C19: after a credit note is drafted, what is left of the rectified invoice (its total plus its
  living credit notes by differences) is not negative, and none of them is a substitution; a
  substitution is the only living credit note of an invoice on which no money was collected.
\<close>

theorem credit_notes_within_invoice:
  assumes "rectify e scope al i rc d = Inr (d', r)"
  shows "\<exists>orig. find_invoice d' i = Some orig \<and> inv_rectifies r = Some i \<and> inv_status r = Draft \<and>
    (if method_of rc = By_substitution
     then others_of d' i None = [r] \<and> inv_amountPaid orig \<le> inv_withholding orig
     else 0 \<le> inv_total orig + sum_list (map inv_total (others_of d' i None)) \<and>
       (\<forall>o1\<in>set (others_of d' i None). inv_correctionMethod o1 \<noteq> Some By_substitution))"
proof -
  obtain orig t d1 where fnd: "findOrThrow d scope i = Inr orig" and run: "rectify_tx e orig rc t d = Inr (d1, r)"
    and d': "invoices d' = invoices d1"
    using assms unfolding rectify_def by (auto simp: bindr_eq_Inr)
  note new = rectify_tx_Inr [OF run]
  have id: "inv_id orig = i"
    using fnd by (auto simp: findOrThrow_def bindr_eq_Inr dest!: find_first_SomeD)
  obtain row where row: "find_invoice d i = Some row"
    using new(1) by (auto simp: assertRectificationLimits_def bindr_eq_Inr id)
  then have found: "find_invoice d' i = Some row"
    by (simp add: find_invoice_def d' new(2) find_first_append)
  have others: "others_of d' i None = others_of d i None @ [r]"
    by (simp add: others_of_def d' new id)
  show ?thesis
    using new row by (intro exI [of _ row] conjI found)
      (auto simp: others id assertRectificationLimits_def Let_def bindr_eq_Inr)
qed

definition demo_credit :: rectify_input where
  "demo_credit = \<lparr>rc_type = R5, rc_reason = ''Error'', rc_method = None, rc_issueDate = None, rc_items = []\<rparr>"

lemma demo_credit_drafted: "\<exists>d r. rectify demo_env None False 2 demo_credit demo_db3 = Inr (d, r)"
proof -
  have d: "series demo_db3 = [take_number 2026 demo_row]" "inv_withholding demo_issued = 0"
    "inv_rectifies demo_issued = None" "inv_type demo_issued = F2" "inv_ownerId demo_issued = None"
    "inv_contractId demo_issued = None" "inv_number demo_issued = demo_number" "inv_deleted demo_issued = False"
    "inv_periodStart demo_issued = None"
    by (simp_all add: demo_db3_def demo_issued_def issued_fields_def mark_settled_def demo_ids demo_draft_def
        default_invoice_def)
  have "findOrThrow demo_db3 None 2 = Inr demo_issued"
    by (simp add: findOrThrow_def d invoice_facility_def)
  moreover have "assertRectificationLimits demo_db3 2 None 0 By_differences = Inr ()"
    by (simp add: assertRectificationLimits_def others_of_def d)
  moreover have "rect_prefix [take_number 2026 demo_row] = ''R''" "rect_code [take_number 2026 demo_row] = ''RECT''"
    by (simp_all add: rect_prefix_def rect_code_def take_number_def demo_row_def default_series_def toUpperCase_def
        upper_char_def code_def)
  ultimately show ?thesis
    by (simp add: rectify_def rectify_checks_def d demo_credit_def computeTotalsRectify_def assertTotalInRange_def
        MAX_INVOICE_TOTAL_CENTS_def rectify_tx_def rectificationSeries_def insert_series_def Let_def
        take_number_def demo_row_def default_series_def insert_invoice_def create_row_def
        violates_unique_def recurring_key_def default_invoice_def draftPlaceholderNumber_def demo_number_def)
qed

theorem credit_notes_within_invoice_witness:
  "\<exists>d r. rectify demo_env None False 2 demo_credit demo_db3 = Inr (d, r) \<and> inv_rectifies r = Some 2 \<and>
     inv_status r = Draft"
  using demo_credit_drafted credit_notes_within_invoice by blast

section \<open>Compensating a pending amount\<close>

text \<open>
  compensating with a credit note takes the smaller of the credit and what is pending, never
  more than the total of the invoice; it enters one payment of that amount, marks the invoice paid
  exactly when nothing is left, and leaves the other invoices alone. An invoice that is not open or
  has nothing pending stays as it is.
\<close>

theorem compensation_bounded:
  assumes "compensateWithCredit e d i c = Inr (d', cmp)" and "find_invoice d i = Some r"
  shows "if (inv_status r = Issued \<or> inv_status r = Overdue) \<and> 0 < min (inv_total r - inv_amountPaid r) c
    then \<exists>j p. find_invoice d' i = Some j \<and> payments d' = payments d @ [p] \<and>
      pay_amount p = min (inv_total r - inv_amountPaid r) c \<and> pay_method p = Credit_note \<and>
      inv_amountPaid j = inv_amountPaid r + pay_amount p \<and> inv_amountPaid j \<le> inv_total r \<and>
      (inv_status j = Paid \<longleftrightarrow> inv_amountPaid j = inv_total r) \<and>
      cmp = Some \<lparr>cmp_id = i, cmp_fullyPaid = (inv_amountPaid j = inv_total r)\<rparr> \<and>
      (\<forall>k. k \<noteq> i \<longrightarrow> find_invoice d' k = find_invoice d k)
    else d' = d \<and> cmp = None"
proof (cases "(inv_status r = Issued \<or> inv_status r = Overdue) \<and> 0 < min (inv_total r - inv_amountPaid r) c")
  case False
  then show ?thesis using assms by (auto simp: compensateWithCredit_def Let_def min_def split: if_splits)
next
  case True
  define x where "x = min (inv_total r - inv_amountPaid r) c"
  have x: "\<not> x \<le> 0" "x \<le> inv_total r - inv_amountPaid r" and open_: "inv_status r = Issued \<or> inv_status r = Overdue"
    using True by (auto simp: x_def)
  have xd: "min (inv_total r - inv_amountPaid r) c = x" by (simp add: x_def)
  let ?f = "\<lambda>q. q\<lparr>inv_amountPaid := inv_amountPaid r + x,
    inv_status := (if inv_total r \<le> inv_amountPaid r + x then Paid else inv_status q),
    inv_paidAt := (if inv_total r \<le> inv_amountPaid r + x then Some (now e) else inv_paidAt q)\<rparr>"
  let ?p = "default_payment\<lparr>pay_invoiceId := Some i, pay_customerId := inv_customerId r, pay_amount := x,
    pay_method := Credit_note, pay_gateway := Manual, pay_status := Pay_succeeded, pay_paidAt := Some (now e),
    pay_createdAt := now e\<rparr>"
  have d': "d' = update_invoice i ?f (create_payment ?p d)"
    and cmp: "cmp = Some \<lparr>cmp_id = i, cmp_fullyPaid = (inv_total r \<le> inv_amountPaid r + x)\<rparr>"
    using assms open_ x(1) by (auto simp: compensateWithCredit_def Let_def xd)
  have found: "find_invoice d' k = (if k = i then map_option ?f (find_invoice d k) else find_invoice d k)" for k
    unfolding d' by (subst find_update_invoice) simp_all
  have pays: "payments d' = payments d @ [?p\<lparr>pay_id := next_id d\<rparr>]" by (simp add: d')
  have cond: "(inv_status r = Issued \<or> inv_status r = Overdue) \<and> 0 < x" using True by (simp add: x_def)
  show ?thesis
    unfolding xd if_P [OF cond]
    by (intro exI [of _ "?f r"] exI [of _ "?p\<lparr>pay_id := next_id d\<rparr>"] conjI)
      (use x open_ assms(2) in \<open>auto simp: found pays cmp\<close>)
qed

theorem compensation_bounded_witness:
  "\<exists>d cmp j. compensateWithCredit demo_env demo_db3 2 20000 = Inr (d, cmp) \<and> find_invoice d 2 = Some j \<and>
     inv_amountPaid j = 12100"
proof -
  obtain d cmp where run: "compensateWithCredit demo_env demo_db3 2 20000 = Inr (d, cmp)"
    by (simp add: compensateWithCredit_def Let_def)
  have "min (12100 - 0) (20000::int) = 12100" by simp
  then show ?thesis using compensation_bounded [OF run demo_db3_sel(5)] run by auto
qed

section \<open>Giving back what an invoice consumed\<close>

definition unlink_rewards :: "id \<Rightarrow> db \<Rightarrow> db" where
  "unlink_rewards i d = d\<lparr>referrals := update_many (\<lambda>r. rfr_rewardInvoiceId r = Some i)
     (\<lambda>r. r\<lparr>rfr_rewardAppliedAt := None, rfr_rewardInvoiceId := None\<rparr>) (referrals d)\<rparr>"

definition clear_benefits :: "id \<Rightarrow> invoice_row \<Rightarrow> db \<Rightarrow> db" where
  "clear_benefits i row d =
     (if inv_benefits row = None then d else update_invoice i (\<lambda>r. r\<lparr>inv_benefits := None\<rparr>) d)"

lemma update_many_once: "(\<And>r. \<not> p (f r)) \<Longrightarrow> update_many p g (update_many p f rows) = update_many p f rows"
  by (induction rows) auto

lemma unlink_rewards_twice [simp]: "unlink_rewards i (unlink_rewards i d) = unlink_rewards i d"
  by (simp add: unlink_rewards_def update_many_once)

lemma release_shape:
  assumes "find_invoice d i = Some row"
  obtains c where
    "releaseConsumedBenefits i d = unlink_rewards i (clear_benefits i row (d\<lparr>contracts := c\<rparr>))"
proof -
  let ?u = "case (inv_contractId row, inv_benefits row) of
      (Some j, Some b) \<Rightarrow> update_contract j (\<lambda>k. k\<lparr>con_freeMonthsRemaining :=
                            con_freeMonthsRemaining k + (if ben_freeMonth b then 1 else 0),
                          con_pendingCredit := (if 0 < ben_creditCents b
                            then con_pendingCredit k + ben_creditCents b else con_pendingCredit k),
                          con_pendingCreditReason :=
                            (if 0 < ben_creditCents b \<and> ben_creditReason b \<notin> {None, Some []}
                             then ben_creditReason b else con_pendingCreditReason k)\<rparr>) d | _ \<Rightarrow> d"
  have u: "?u = d\<lparr>contracts := contracts ?u\<rparr>"
    by (cases "inv_contractId row"; cases "inv_benefits row") (simp_all add: update_contract_def)
  show ?thesis
    by (rule that [of "contracts ?u"], subst u [symmetric])
      (simp add: releaseConsumedBenefits_def assms Let_def unlink_rewards_def clear_benefits_def)
qed

text \<open>
  what an invoice consumed is given back once: releasing it again changes nothing.
\<close>

theorem release_once:
  "releaseConsumedBenefits i (releaseConsumedBenefits i d) = releaseConsumedBenefits i d"
proof (cases "find_invoice d i")
  case None
  then show ?thesis by (simp add: releaseConsumedBenefits_def)
next
  case (Some row)
  obtain c where c: "releaseConsumedBenefits i d = unlink_rewards i (clear_benefits i row (d\<lparr>contracts := c\<rparr>))"
    using Some by (rule release_shape)
  let ?d = "releaseConsumedBenefits i d"
  have "find_invoice ?d i = Some (row\<lparr>inv_benefits := None\<rparr>)"
    using Some by (simp add: c clear_benefits_def unlink_rewards_def find_invoice_def find_first_update_many_key)
  moreover have "unlink_rewards i ?d = ?d" unfolding c by (rule unlink_rewards_twice)
  ultimately show ?thesis
    by (subst releaseConsumedBenefits_def) (simp add: Let_def unlink_rewards_def split: option.split)
qed

definition whole_item :: "item_row \<Rightarrow> bool" where
  "whole_item it \<longleftrightarrow> it_quantity it = of_int \<lfloor>it_quantity it\<rfloor> \<and> 0 < it_quantity it \<and>
     it_taxAmount it = taxCents (lineCents (it_quantity it) (it_unitPrice it) (it_taxRate it)) \<and>
     it_total it = totalCents (lineCents (it_quantity it) (it_unitPrice it) (it_taxRate it))"

section \<open>Annulling\<close>

lemma lineCents_negative_price:
  "lineCents q (- p) r = \<lparr>baseCents = - baseCents (lineCents q p r), taxCents = - taxCents (lineCents q p r),
     totalCents = - totalCents (lineCents q p r)\<rparr>"
proof -
  have "lineCents q (- p) r = lineCents (- q) p r" by (simp add: lineCents_def Let_def nmul_def)
  then show ?thesis by (simp add: lineCents_minus)
qed

lemma sum_list_minus:
  fixes f g :: "'a \<Rightarrow> int"
  shows "(\<And>x. x \<in> set xs \<Longrightarrow> f x = - g x) \<Longrightarrow> sum_list (map f xs) = - sum_list (map g xs)"
  by (induction xs) auto

text \<open>
  C29: The credit note that annuls an issued invoice reverses it to the cent: when the lines of the
  invoice have whole positive quantities and hold the amounts their quantity, price and rate give, the
  tax and the total the code computes, in floating point, for the lines of the credit note are those of
  the lines of the invoice with the sign changed.
\<close>

theorem annulling_credit_reverses:
  assumes "\<forall>it\<in>set (items_of d (inv_id original)). whole_item it"
    and "computeTotalsRectify (rc_items (cancel_lines d original reason)) = Inr t"
  shows "tot_total t = - sum_list (map it_total (items_of d (inv_id original))) \<and>
    tot_taxAmount t = - sum_list (map it_taxAmount (items_of d (inv_id original)))"
proof -
  let ?its = "items_of d (inv_id original)"
  have line: "taxCents (input_line (negative_line it)) = - it_taxAmount it \<and>
      totalCents (input_line (negative_line it)) = - it_total it" if "it \<in> set ?its" for it
  proof -
    have w: "whole_item it" using assms(1) that by blast
    then have "input_line (negative_line it) = lineCents (it_quantity it) (- it_unitPrice it) (it_taxRate it)"
      by (simp add: whole_item_def input_line_def negative_line_def Let_def)
    then show ?thesis using w by (simp add: lineCents_negative_price whole_item_def)
  qed
  have "sum_list (map (taxCents \<circ> input_line \<circ> negative_line) ?its) = - sum_list (map it_taxAmount ?its)"
    "sum_list (map (totalCents \<circ> input_line \<circ> negative_line) ?its) = - sum_list (map it_total ?its)"
    by (rule sum_list_minus, simp add: line)+
  then show ?thesis
    using assms(2) by (auto simp: computeTotalsRectify_eq computeTotals_def sum_lines_eq cancel_lines_def elim!: bindrE)
qed

lemma demo_items: "items_of demo_db3 2 = [demo_item_row]"
  by (simp add: items_of_def demo_db3_def demo_db2_def demo_item_row_def)

theorem annulling_credit_reverses_witness:
  "\<exists>t. computeTotalsRectify (rc_items (cancel_lines demo_db3 demo_issued ''x'')) = Inr t \<and> tot_total t = - 12100"
proof -
  have whole: "whole_item demo_item_row"
    using lineCents_exact [of 1 10000 21] euros_whole [of 100]
    by (simp add: whole_item_def demo_item_row_def half_away_def)
  have "\<exists>t. computeTotalsRectify (rc_items (cancel_lines demo_db3 demo_issued ''x'')) = Inr t"
    using lineCents_exact [of 1 10000 21] euros_whole [of 100] lineCents_negative_price [of 1 "euros 10000" 21]
    by (simp add: cancel_lines_def demo_items computeTotalsRectify_def negative_line_def demo_item_row_def
        input_line_def half_away_def Let_def assertTotalInRange_def MAX_INVOICE_TOTAL_CENTS_def)
  then show ?thesis
    using annulling_credit_reverses [of demo_db3 demo_issued] whole by (auto simp: demo_items)
      (simp add: demo_item_row_def)
qed

text \<open>
  issuing several invoices reports every one of them exactly once, as issued or with its error,
  and a failure does not stop the others.
\<close>

theorem bulk_issue_reports_all:
  assumes "bulkIssue e scope ids d = (d', ok, failed)"
  shows "mset ok + mset (map fst failed) = mset ids"
  using assms
  by (induction e scope ids d arbitrary: d' ok failed rule: bulkIssue.induct)
    (fastforce split: prod.splits sum.splits)+

theorem bulk_issue_reports_all_witness:
  "\<exists>d' ok failed. bulkIssue demo_env None [2, 7] demo_db2 = (d', ok, failed) \<and> length ok + length failed = 2"
proof -
  obtain d' ok failed where run: "bulkIssue demo_env None [2, 7] demo_db2 = (d', ok, failed)"
    by (cases "bulkIssue demo_env None [2, 7] demo_db2")
  then have "size (mset ok + mset (map fst failed)) = size (mset [2, 7::nat])"
    using bulk_issue_reports_all by metis
  then show ?thesis using run by simp
qed

section \<open>Late fees\<close>

text \<open>
  a late fee is granted only for an overdue invoice with a customer that is not itself a late
  fee nor a deposit receipt and has none yet, with late fees enabled; its amount is positive, and
  when it is a percentage and not a fixed amount it is taken on what is still to be paid.
\<close>

theorem late_fee_granted:
  assumes "lateFeeFor e c d i = Inr f"
  shows "\<exists>r. find_invoice d i = Some r \<and> inv_kind r = Invoice_kind \<and> inv_lateFeeFor r = None \<and>
    (\<forall>s\<in>set (invoices d). inv_lateFeeFor s \<noteq> Some i) \<and> inv_customerId r = Some (fee_customerId f) \<and>
    is_overdue e r \<and> lf_enabled c \<and> 0 < fee_amount f \<and>
    (\<not> lf_fixed c \<longrightarrow> inv_amountPaid r < inv_total r)"
proof -
  obtain r where r: "find_invoice d i = Some r" "inv_kind r \<noteq> Deposit_receipt" "inv_lateFeeFor r = None"
    "\<not> (\<exists>s\<in>set (invoices d). inv_lateFeeFor s = Some i)" "inv_customerId r = Some (fee_customerId f)"
    "is_overdue e r" "lf_enabled c" and f: "0 < late_fee_cents c r" "fee_amount f = late_fee_cents c r"
    using assms unfolding lateFeeFor_def by (auto simp: bindr_eq_Inr)
  have "inv_kind r = Invoice_kind" using r(2) by (cases "inv_kind r") simp_all
  moreover have "inv_amountPaid r < inv_total r" if "\<not> lf_fixed c"
  proof (rule ccontr)
    assume "\<not> inv_amountPaid r < inv_total r"
    then have "late_fee_cents c r = 0" using that math_round_of_int [of 0] by (simp add: late_fee_cents_def nmul_def)
    then show False using f by simp
  qed
  ultimately show ?thesis using r f by auto
qed


definition demo_fee_config :: late_fee_config where
  "demo_fee_config = \<lparr>lf_enabled = True, lf_fixed = True, lf_value = euros 500\<rparr>"

theorem late_fee_granted_witness:
  "\<exists>f. lateFeeFor (demo_env\<lparr>now := 1790000000000\<rparr>) demo_fee_config
      (demo_db3\<lparr>invoices := [demo_issued\<lparr>inv_customerId := Some 4\<rparr>]\<rparr>) 2 = Inr f \<and> 0 < fee_amount f"
proof -
  let ?d = "demo_db3\<lparr>invoices := [demo_issued\<lparr>inv_customerId := Some 4\<rparr>]\<rparr>"
  have "inv_lateFeeFor demo_issued = None"
    by (simp add: demo_issued_def issued_fields_def mark_settled_def demo_ids demo_draft_def default_invoice_def)
  then have "\<exists>f. lateFeeFor (demo_env\<lparr>now := 1790000000000\<rparr>) demo_fee_config ?d 2 = Inr f"
    by (simp add: lateFeeFor_def find_invoice_def is_overdue_def today_def todayInTimezone_def demo_env_def msPerDay_def
        demo_fee_config_def late_fee_cents_def toCents_euros)
  then show ?thesis using late_fee_granted by blast
qed

end
