(* ===== verification/Periods.thy ===== *)
theory Periods imports Database begin

text \<open>
  Periods of a contract in months and days: adding months with the last day of the month kept
  (\<open>contracts.service.ts\<close>, \<open>first-invoice.service.ts\<close>, \<open>prepay-credit.ts\<close> and
  \<open>shared/contracts/pre-opening.ts\<close> each have their own copy), the term of a contract and its
  renewals, the first month's payment (\<open>shared/billing/first-month.ts\<close>), and the unused months of
  a prepaid period (\<open>contracts/prepay-credit.ts\<close>). A \<open>Date\<close> at midnight UTC is its day number.
\<close>

section \<open>Days of a month\<close>

text \<open>\<open>new Date(Date.UTC(y, m + 1, 0)).getUTCDate()\<close>.\<close>

definition days_in_month :: "int \<Rightarrow> int \<Rightarrow> int" where
  "days_in_month y m = date_of (make_date y (m + 1) 0)"

definition month_index :: "int \<Rightarrow> int" where
  "month_index d = 12 * year_of d + month_of d"

lemma month_cases:
  fixes m :: int
  assumes "0 \<le> m" and "m \<le> 11"
  obtains "m = 0" | "m = 1" | "m = 2" | "m = 3" | "m = 4" | "m = 5" | "m = 6" | "m = 7"
    | "m = 8" | "m = 9" | "m = 10" | "m = 11"
proof -
  have "m = 0 \<or> m = 1 \<or> m = 2 \<or> m = 3 \<or> m = 4 \<or> m = 5 \<or> m = 6 \<or> m = 7 \<or> m = 8 \<or> m = 9
      \<or> m = 10 \<or> m = 11" using assms by arith
  then show thesis using that by blast
qed

lemma month_in_start:
  assumes "0 \<le> m" and "m \<le> 11" and "month_start y m \<le> k" and "k < month_start y (m + 1)"
  shows "month_in k (if leap_year y then 1 else 0) = m"
  using assms(3,4) by (cases "leap_year y"; rule_tac month_cases [OF assms(1,2)])
    (simp_all add: month_start_def month_in_def)

lemma month_start_bounds:
  assumes "0 \<le> m" and "m \<le> 11"
  shows "0 \<le> month_start y m" and "month_start y m + 28 \<le> month_start y (m + 1)"
    and "month_start y (m + 1) \<le> month_start y m + 31"
    and "month_start y (m + 1) \<le> (if leap_year y then 366 else 365)"
  by (rule_tac [!] month_cases [OF assms]) (auto simp: month_start_def)

lemma make_date_norm:
  assumes "0 \<le> m" and "m \<le> 11"
  shows "make_date y m k = day_from_year y + month_start y m + k - 1"
  using assms by (simp add: make_date_def div_pos_pos_trivial)

text \<open>The fields of a date made from them.\<close>

lemma make_date_inverse:
  assumes "0 \<le> m" and "m \<le> 11" and "1 \<le> k" and "k \<le> month_start y (m + 1) - month_start y m"
  shows "year_of (make_date y m k) = y" and "month_of (make_date y m k) = m"
    and "date_of (make_date y m k) = k"
proof -
  note b = month_start_bounds [OF assms(1,2), of y]
  have d: "make_date y m k = day_from_year y + (month_start y m + k - 1)"
    using make_date_norm [OF assms(1,2)] by simp
  show y: "year_of (make_date y m k) = y"
    unfolding d by (rule year_of_eqI) (use assms(3,4) b in \<open>auto simp: day_from_year_Suc\<close>)
  have k: "day_in_year (make_date y m k) = month_start y m + k - 1"
    by (simp only: day_in_year_def y) (simp add: d)
  show m: "month_of (make_date y m k) = m"
    unfolding month_of_def y k by (rule month_in_start [OF assms(1,2)]) (use assms(3,4) in auto)
  show "date_of (make_date y m k) = k" unfolding date_of_def y m k by simp
qed

lemma make_date_zero: "make_date y m 0 = make_date y m 1 - 1"
  by (simp add: make_date_def)

lemma first_of_next:
  assumes "0 \<le> m" and "m \<le> 11"
  shows "make_date y (m + 1) 1 = day_from_year y + month_start y (m + 1)"
proof (cases "m = 11")
  case True
  then show ?thesis by (simp add: make_date_def month_start_def day_from_year_Suc)
next
  case False
  then show ?thesis using make_date_norm [of "m + 1" y 1] assms by simp
qed

lemma days_in_month_eq:
  assumes "0 \<le> m" and "m \<le> 11"
  shows "days_in_month y m = month_start y (m + 1) - month_start y m"
proof -
  let ?k = "month_start y (m + 1) - month_start y m"
  have "make_date y (m + 1) 0 = make_date y m ?k"
    unfolding make_date_zero first_of_next [OF assms] make_date_norm [OF assms] by simp
  then show ?thesis
    unfolding days_in_month_def
    using make_date_inverse(3) [OF assms, of ?k y] month_start_bounds(2) [OF assms, of y] by simp
qed

lemma days_in_month_bounds:
  assumes "0 \<le> m" and "m \<le> 11"
  shows "28 \<le> days_in_month y m" and "days_in_month y m \<le> 31"
  using month_start_bounds(2,3) [OF assms, of y] by (simp_all add: days_in_month_eq [OF assms])

lemma make_date_carry: "make_date y m k = make_date (y + m div 12) (m mod 12) k"
  by (simp add: make_date_def)

lemma make_date_shift: "make_date (y + a) b k = make_date y (b + 12 * a) k"
proof -
  have "(b + 12 * a) div 12 = b div 12 + a" "(b + 12 * a) mod 12 = b mod 12" by simp_all
  then show ?thesis unfolding make_date_def by (simp only: add.assoc add.commute [of a])
qed

lemma days_in_month_carry: "days_in_month y m = days_in_month (y + m div 12) (m mod 12)"
proof -
  have "m mod 12 + 1 + 12 * (m div 12) = m + 1" by simp
  then show ?thesis unfolding days_in_month_def make_date_shift by (simp only:)
qed

lemma days_in_any_month: "28 \<le> days_in_month y m" "days_in_month y m \<le> 31"
  unfolding days_in_month_carry [of y m] by (rule days_in_month_bounds; simp)+

lemma date_of_le: "date_of d \<le> days_in_month (year_of d) (month_of d)"
  using month_of_spec(2) [of d] month_of_bounds [of d] by (simp add: days_in_month_eq date_of_def)

text \<open>Dates are ordered by month and day of the month.\<close>

lemma month_index_start: "make_date (year_of d) (month_of d) 1 = d - date_of d + 1"
  using startOfMonth_eq [of d] by (simp add: startOfMonth_def)

lemma month_start_mono:
  assumes "m \<le> n" and "0 \<le> m" and "n \<le> 12"
  shows "month_start y m \<le> month_start y n"
  using assms(1,3)
proof (induction n rule: int_ge_induct)
  case base
  then show ?case by simp
next
  case (step i)
  then show ?case using month_start_bounds(2) [of i y] assms(2) by simp
qed

lemma month_index_less: "month_index d < month_index e \<Longrightarrow> d < e"
proof -
  assume less: "month_index d < month_index e"
  show "d < e"
  proof (cases "year_of d = year_of e")
    case True
    then have m: "month_of d + 1 \<le> month_of e" using less by (simp add: month_index_def)
    have "month_start (year_of d) (month_of d + 1) \<le> month_start (year_of d) (month_of e)"
      by (rule month_start_mono) (use m month_of_bounds [of d] month_of_bounds [of e] in auto)
    then show ?thesis
      using month_of_spec [of d] month_of_spec [of e] True by (simp add: day_in_year_def)
  next
    case False
    then have "year_of d < year_of e"
      using less month_of_bounds [of d] month_of_bounds [of e] by (simp add: month_index_def)
    then show ?thesis using year_of_mono [of e d] by linarith
  qed
qed

lemma same_month:
  assumes "month_index d = month_index e"
  shows "year_of d = year_of e" and "month_of d = month_of e" and "d - e = date_of d - date_of e"
proof -
  show y: "year_of d = year_of e"
    using assms month_of_bounds [of d] month_of_bounds [of e] by (simp add: month_index_def)
  then show m: "month_of d = month_of e" using assms by (simp add: month_index_def)
  show "d - e = date_of d - date_of e"
    using month_index_start [of d] month_index_start [of e] y m by simp
qed

lemma month_index_mono: "d \<le> e \<Longrightarrow> month_index d \<le> month_index e"
  using month_index_less [of e d] by linarith

section \<open>Adding months\<close>

definition addMonths :: "int \<Rightarrow> int \<Rightarrow> int" where
  "addMonths d n =
     (let first = make_date (year_of d) (month_of d + n) 1;
          last = date_of (make_date (year_of first) (month_of first + 1) 0)
      in first + min (date_of d) last - 1)"

text \<open>The copy that works on the text of a date: the last day is taken before the month is made.\<close>

definition addMonthsYmd :: "int \<Rightarrow> int \<Rightarrow> int" where
  "addMonthsYmd d n =
     (let lastDay = date_of (make_date (year_of d) (month_of d + n + 1) 0)
      in make_date (year_of d) (month_of d + n) (min (date_of d) lastDay))"

lemma addMonths_split:
  fixes d n :: int
  defines "m \<equiv> month_of d + n"
  defines "k \<equiv> min (date_of d) (days_in_month (year_of d) m)"
  shows "addMonths d n = make_date (year_of d + m div 12) (m mod 12) k"
    and "1 \<le> k" and "k \<le> days_in_month (year_of d + m div 12) (m mod 12)"
proof -
  let ?y = "year_of d + m div 12" and ?m = "m mod 12"
  have m: "0 \<le> ?m" "?m \<le> 11" by simp_all
  note b = days_in_month_bounds [OF m, of ?y]
  have first: "year_of (make_date ?y ?m 1) = ?y" "month_of (make_date ?y ?m 1) = ?m"
    using make_date_inverse(1,2) [OF m, of 1 ?y] b by (simp_all add: days_in_month_eq [OF m])
  have "addMonths d n = make_date ?y ?m 1 + min (date_of d) (days_in_month ?y ?m) - 1"
    unfolding addMonths_def Let_def m_def [symmetric] make_date_carry [of "year_of d" m 1] first
    by (simp add: days_in_month_def)
  then show "addMonths d n = make_date ?y ?m k"
    unfolding k_def days_in_month_carry [of "year_of d" m] by (simp add: make_date_def)
  show "1 \<le> k" "k \<le> days_in_month ?y ?m"
    using b date_of_pos [of d] by (simp_all add: k_def days_in_month_carry [of "year_of d" m])
qed

lemma addMonths_fields:
  shows "month_index (addMonths d n) = month_index d + n"
    and "date_of (addMonths d n) = min (date_of d) (days_in_month (year_of d) (month_of d + n))"
proof -
  let ?m = "month_of d + n"
  have m: "0 \<le> ?m mod 12" "?m mod 12 \<le> 11" by simp_all
  note s = addMonths_split [of d n]
  note f = make_date_inverse [OF m s(2) s(3) [unfolded days_in_month_eq [OF m]]]
  show "month_index (addMonths d n) = month_index d + n"
    unfolding month_index_def s(1) f(1,2) by simp
  show "date_of (addMonths d n) = min (date_of d) (days_in_month (year_of d) ?m)"
    unfolding s(1) f(3) ..
qed

lemma addMonthsYmd_eq: "addMonthsYmd d n = addMonths d n"
  unfolding addMonthsYmd_def addMonths_split(1) Let_def days_in_month_def
  by (subst make_date_carry) simp

lemma addMonths_0 [simp]: "addMonths d 0 = d"
proof -
  have "date_of (addMonths d 0) = date_of d" using addMonths_fields(2) [of d 0] date_of_le [of d] by simp
  then show ?thesis using same_month(3) [of "addMonths d 0" d] addMonths_fields(1) [of d 0] by simp
qed

lemma addMonths_strict_mono: "n < k \<Longrightarrow> addMonths d n < addMonths d k"
  by (rule month_index_less) (simp add: addMonths_fields)

lemma addMonths_mono:
  assumes "d \<le> e"
  shows "addMonths d n \<le> addMonths e n"
proof (cases "month_index d = month_index e")
  case True
  note sm = same_month [OF True]
  have "date_of d \<le> date_of e" using sm(3) assms by simp
  then have "date_of (addMonths d n) \<le> date_of (addMonths e n)"
    by (simp add: addMonths_fields(2) sm(1,2) min_le_iff_disj)
  moreover have "month_index (addMonths d n) = month_index (addMonths e n)"
    by (simp add: addMonths_fields(1) True)
  ultimately show ?thesis using same_month(3) [of "addMonths d n" "addMonths e n"] by simp
next
  case False
  then have "month_index d < month_index e" using month_index_mono [OF assms] by simp
  then show ?thesis
    using month_index_less [of "addMonths d n" "addMonths e n"] by (simp add: addMonths_fields(1))
qed

lemma addMonths_gt: "0 < n \<Longrightarrow> d < addMonths d n"
  using addMonths_strict_mono [of 0 n d] by simp


section \<open>The term of a contract and its renewals\<close>

text \<open>\<open>termMonths\<close>: the day after the end closes the term (1 January to 31 December is 12 months).\<close>

definition termMonths :: "date \<Rightarrow> date \<Rightarrow> int" where
  "termMonths start end =
     (let e = end + 1;
          months = (year_of e - year_of start) * 12 + (month_of e - month_of start)
            - (if date_of e < date_of start then 1 else 0)
      in min 120 (max 1 months))"

text \<open>
  The loop of \<open>autoRenewDue\<close>: further terms are added until today is covered, at most \<open>n\<close> times
  (the code counts \<open>guard\<close> up to 120).
\<close>

fun renew_until :: "nat \<Rightarrow> date \<Rightarrow> int \<Rightarrow> date \<Rightarrow> date" where
  "renew_until 0 tod months newEnd = newEnd"
| "renew_until (Suc n) tod months newEnd =
     (if newEnd < tod then renew_until n tod months (addMonths newEnd months) else newEnd)"

definition renewed_end :: "date \<Rightarrow> int \<Rightarrow> date \<Rightarrow> date" where
  "renewed_end tod months end = renew_until 120 tod months (addMonths end months)"

lemma addMonths_ge_28:
  assumes "0 < n"
  shows "d + 28 \<le> addMonths d n"
proof -
  note s = addMonths_split [of d 1] and f = addMonths_fields [of d 1]
  let ?y = "year_of d" and ?m = "month_of d"
  note m = month_of_bounds [of d]
  have next_month: "28 \<le> days_in_month ?y (?m + 1)" by (rule days_in_any_month)
  have "make_date (?y + (?m + 1) div 12) ((?m + 1) mod 12) (date_of (addMonths d 1)) =
      make_date ?y (?m + 1) 1 + date_of (addMonths d 1) - 1"
    unfolding make_date_carry [of ?y "?m + 1" 1] by (simp add: make_date_def)
  moreover have "make_date ?y (?m + 1) 1 = make_date ?y ?m 1 + days_in_month ?y ?m"
    unfolding first_of_next [OF m] make_date_norm [OF m] days_in_month_eq [OF m] by simp
  ultimately have "addMonths d 1 = d - date_of d + days_in_month ?y ?m + date_of (addMonths d 1)"
    using s(1) f(2) month_index_start [of d] by simp
  then have "d + 28 \<le> addMonths d 1"
    using f(2) next_month date_of_le [of d] days_in_month_bounds(1) [OF m, of ?y] by (simp add: min_def split: if_splits)
  moreover have "addMonths d 1 \<le> addMonths d n"
    using addMonths_strict_mono [of 1 n d] assms by (cases "n = 1") auto
  ultimately show ?thesis by simp
qed

lemma renew_until_reaches:
  assumes "0 < months" and "tod \<le> newEnd + 28 * int n"
  shows "tod \<le> renew_until n tod months newEnd"
  using assms(2)
proof (induction n arbitrary: newEnd)
  case 0
  then show ?case by simp
next
  case (Suc n)
  have "tod \<le> addMonths newEnd months + 28 * int n"
    using addMonths_ge_28 [OF assms(1), of newEnd] Suc.prems by simp
  then show ?case using Suc.IH by simp
qed

text \<open>The end found is the first of the ends reached by whole terms that covers today.\<close>

lemma renew_until_first:
  obtains k where "k \<le> n" and "renew_until n tod months newEnd = ((\<lambda>e. addMonths e months) ^^ k) newEnd"
    and "\<forall>j<k. ((\<lambda>e. addMonths e months) ^^ j) newEnd < tod"
proof -
  have "\<exists>k\<le>n. renew_until n tod months newEnd = ((\<lambda>e. addMonths e months) ^^ k) newEnd \<and>
      (\<forall>j<k. ((\<lambda>e. addMonths e months) ^^ j) newEnd < tod)"
  proof (induction n arbitrary: newEnd)
    case 0
    then show ?case by simp
  next
    case (Suc n)
    show ?case
    proof (cases "newEnd < tod")
      case False
      then show ?thesis by (intro exI [of _ 0]) simp
    next
      case True
      obtain k where k: "k \<le> n" "renew_until n tod months (addMonths newEnd months) =
          ((\<lambda>e. addMonths e months) ^^ k) (addMonths newEnd months)"
        "\<forall>j<k. ((\<lambda>e. addMonths e months) ^^ j) (addMonths newEnd months) < tod"
        using Suc.IH [of "addMonths newEnd months"] by blast
      show ?thesis
        by (rule exI [of _ "Suc k"])
          (use k True in \<open>auto simp: funpow_Suc_right less_Suc_eq_0_disj simp del: funpow.simps(2)\<close>)
    qed
  qed
  then show thesis using that by blast
qed

text \<open>A term read back from the dates it gave.\<close>

lemma termMonths_addMonths:
  assumes "date_of d \<le> 28" and "1 \<le> n" and "n \<le> 120"
  shows "termMonths d (addMonths d n - 1) = n"
proof -
  have k: "date_of (addMonths d n) = date_of d"
    using assms(1) days_in_any_month(1) [of "year_of d" "month_of d + n"] unfolding addMonths_fields(2) by simp
  have "(year_of (addMonths d n) - year_of d) * 12 + (month_of (addMonths d n) - month_of d) = n"
    using addMonths_fields(1) [of d n] by (simp add: month_index_def)
  then show ?thesis using assms(2,3) k by (simp add: termMonths_def Let_def)
qed

section \<open>Rounded shares\<close>

text \<open>
  \<open>Math.round(a / b)\<close> of two integers, computed in floating point, is the exact quotient rounded
  half up: the error of the division is smaller than the distance to the next half.
\<close>

lemma math_round_ratio:
  assumes "0 \<le> a" and "a \<le> 1000000000000" and "1 \<le> b" and "b \<le> 100"
  shows "math_round (ndiv (of_int a) (of_int b)) = (2 * a + b) div (2 * b)"
proof -
  define k where "k = (2 * a + b) div (2 * b)"
  let ?x = "of_int a / of_int b :: rat"
  have k: "2 * b * k \<le> 2 * a + b" "2 * a + b < 2 * b * k + 2 * b" "0 \<le> k"
    using div_bounds [of "2 * b" "2 * a + b"] pos_imp_zdiv_nonneg_iff [of "2 * b" "2 * a + b"] assms
    by (simp_all add: k_def)
  have b: "0 < (of_int b :: rat)" "(of_int b :: rat) \<le> 100" "1 \<le> (of_int b :: rat)" using assms by simp_all
  have rk: "2 * of_int b * of_int k \<le> 2 * of_int a + (of_int b :: rat)"
    using k(1) of_int_le_iff [of "2 * b * k" "2 * a + b", where 'a = rat] by simp
  have rk': "2 * of_int a + of_int b + 1 \<le> 2 * of_int b * of_int k + 2 * (of_int b :: rat)"
    using k(2) of_int_le_iff [of "2 * a + b + 1" "2 * b * k + 2 * b", where 'a = rat] by simp
  have lo: "of_int k - 1 / 2 \<le> ?x" using rk b by (simp add: field_simps)
  have hi: "?x \<le> of_int k + 1 / 2 - 1 / 200"
  proof -
    have "of_int a \<le> (of_int k + 1 / 2 - 1 / 200) * (of_int b :: rat)"
      using rk' b by (simp add: field_simps)
    then show ?thesis using b(1) by (simp only: pos_divide_le_eq)
  qed
  have x: "0 \<le> ?x" "?x \<le> 1000000000000"
  proof -
    show "0 \<le> ?x" using assms b by simp
    have "of_int a \<le> (1000000000000 :: rat)" using assms(2) of_int_le_iff [of a 1000000000000, where 'a = rat] by simp
    then show "?x \<le> 1000000000000" using b by (simp add: divide_le_eq)
  qed
  have "\<bar>?x\<bar> \<le> 1 / 1000 * 2 ^ 53" unfolding abs_of_nonneg [OF x(1)]
    by (rule order_trans [OF x(2)]) simp
  then have "\<bar>fl ?x - ?x\<bar> \<le> 1 / 1000" by (rule fl_numeral_bounds)
  then have "fl ?x < of_int k + 1 / 2" using hi unfolding abs_le_iff by linarith
  moreover have "of_int k - 1 / 2 \<le> fl ?x"
  proof (cases "k = 0")
    case True
    then show ?thesis using fl_nonneg [OF x(1)] by simp
  next
    case False
    define n where "n = nat (2 * k - 1)"
    have n: "of_nat n / 2 = of_int k - (1 / 2 :: rat)" using False k(3) by (simp add: n_def field_simps)
    have "k \<le> 2 * b * k" using mult_right_mono [of 1 "2 * b" k] k(3) assms(3) by simp
    then have "k \<le> 2000000000100" using k(1) assms by linarith
    then have "fl (of_nat n / 2) = of_nat n / 2" by (intro fl_half_nat) (simp add: n_def)
    moreover have "fl (of_nat n / 2) \<le> fl ?x" by (rule fl_mono_nonneg) (simp, simp only: n lo)
    ultimately show ?thesis using n by simp
  qed
  ultimately show ?thesis unfolding ndiv_def k_def [symmetric] by (intro math_round_eqI)
qed

section \<open>Prepaid periods\<close>

text \<open>The loop of \<open>unusedPrepaidMonths\<close> from \<open>consumed\<close> on.\<close>

function consumed_months :: "date \<Rightarrow> int \<Rightarrow> date \<Rightarrow> int \<Rightarrow> int" where
  "consumed_months start interval end consumed =
     (if consumed < interval \<and> addMonths start consumed \<le> end
      then consumed_months start interval end (consumed + 1) else consumed)"
  by pat_completeness auto
termination by (relation "measure (\<lambda>(start, interval, end, consumed). nat (interval - consumed))") auto

declare consumed_months.simps [simp del]

definition unusedPrepaidMonths :: "date \<Rightarrow> int \<Rightarrow> date \<Rightarrow> int" where
  "unusedPrepaidMonths start interval end =
     (if interval \<le> 1 then 0 else max 0 (interval - consumed_months start interval end 0))"

definition creditForLine :: "rat \<Rightarrow> int \<Rightarrow> int \<Rightarrow> rat" where
  "creditForLine lineAmount interval unused =
     (if unused \<le> 0 \<or> interval \<le> 0 then 0
      else ndiv (of_int (math_round (ndiv (nmul (of_int (math_round (nmul lineAmount 100))) (of_int unused))
             (of_int interval)))) 100)"

text \<open>Month \<open>k\<close> of the period starts \<open>k\<close> months after it; a started month is consumed.\<close>

lemma consumed_months_spec:
  assumes "consumed \<le> interval"
  shows "consumed \<le> consumed_months start interval end consumed"
    and "consumed_months start interval end consumed \<le> interval"
    and "\<forall>k. consumed \<le> k \<and> k < consumed_months start interval end consumed \<longrightarrow> addMonths start k \<le> end"
    and "consumed_months start interval end consumed = interval \<or>
      end < addMonths start (consumed_months start interval end consumed)"
proof -
  let ?P = "\<lambda>c. consumed \<le> c \<and> c \<le> interval \<and>
      (\<forall>k. consumed \<le> k \<and> k < c \<longrightarrow> addMonths start k \<le> end) \<and> (c = interval \<or> end < addMonths start c)"
  have "?P (consumed_months start interval end consumed)"
    using assms
  proof (induction start interval "end" consumed rule: consumed_months.induct)
    case (1 start interval "end" consumed)
    show ?case
    proof (cases "consumed < interval \<and> addMonths start consumed \<le> end")
      case True
      have "addMonths start k \<le> end"
        if "consumed \<le> k" "k < consumed_months start interval end (consumed + 1)" for k
        using "1.IH" [OF True] True that by (cases "k = consumed") auto
      then show ?thesis
        using "1.IH" [OF True] True consumed_months.simps [of start interval "end" consumed] by auto
    next
      case False
      then show ?thesis using "1.prems" consumed_months.simps [of start interval "end" consumed] by auto
    qed
  qed
  then show "consumed \<le> consumed_months start interval end consumed"
    "consumed_months start interval end consumed \<le> interval"
    "\<forall>k. consumed \<le> k \<and> k < consumed_months start interval end consumed \<longrightarrow> addMonths start k \<le> end"
    "consumed_months start interval end consumed = interval \<or>
      end < addMonths start (consumed_months start interval end consumed)"
    by blast+
qed

lemma unused_months_iff:
  assumes "1 < interval" and "0 \<le> k" and "k < interval"
  shows "interval - unusedPrepaidMonths start interval end \<le> k \<longleftrightarrow> end < addMonths start k"
proof -
  let ?c = "consumed_months start interval end 0"
  note s = consumed_months_spec [of 0 interval start "end"]
  have u: "unusedPrepaidMonths start interval end = interval - ?c"
    using s(2) assms by (simp add: unusedPrepaidMonths_def)
  show ?thesis
  proof (cases "?c \<le> k")
    case True
    have "addMonths start ?c \<le> addMonths start k"
      using addMonths_strict_mono [of ?c k start] True by (cases "?c = k") auto
    then show ?thesis using s(4) True u assms by auto
  next
    case False
    then show ?thesis using s(3) u assms by force
  qed
qed

lemma unused_months_bounds:
  assumes "1 < interval"
  shows "0 \<le> unusedPrepaidMonths start interval end" and "unusedPrepaidMonths start interval end \<le> interval"
    and "start \<le> end \<Longrightarrow> unusedPrepaidMonths start interval end < interval"
  using consumed_months_spec [of 0 interval start "end"] assms
    consumed_months.simps [of start interval "end" 0] consumed_months_spec [of 1 interval start "end"]
  by (auto simp: unusedPrepaidMonths_def)


text \<open>Crediting the unused months never gives back more than the line.\<close>

lemma creditForLine_bounds:
  assumes "0 \<le> c" and "c \<le> 10000000000" and "0 \<le> unused" and "unused \<le> interval" and "interval \<le> 12"
  shows "\<exists>k. creditForLine (euros c) interval unused = euros k \<and> 0 \<le> k \<and> k \<le> c"
proof (cases "unused \<le> 0 \<or> interval \<le> 0")
  case True
  then show ?thesis using assms(1) by (intro exI [of _ 0]) (auto simp: creditForLine_def euros_def ndiv_def)
next
  case False
  have "\<bar>euros c - of_int c / 100\<bar> \<le> 1 / 1000" using assms(1,2) by (intro euros_error) simp
  then have "euros c * 100 - of_int c \<le> 1 / 10" "of_int c - euros c * 100 \<le> 1 / 10"
    unfolding abs_le_iff by linarith+
  moreover have c: "0 \<le> (of_int c :: rat)" "of_int c \<le> (10000000000 :: rat)" using assms(1,2) by simp_all
  ultimately have "\<bar>fl (euros c * 100) - euros c * 100\<bar> \<le> 1 / 16" by (intro fl_near) linarith
  then have "of_int c - 1 / 2 \<le> fl (euros c * 100)" "fl (euros c * 100) < of_int c + 1 / 2"
    using \<open>euros c * 100 - of_int c \<le> 1 / 10\<close> \<open>of_int c - euros c * 100 \<le> 1 / 10\<close>
    unfolding abs_le_iff by linarith+
  then have cents: "math_round (nmul (euros c) 100) = c" unfolding nmul_def by (rule math_round_eqI)
  have u: "0 < unused" "0 < interval" "unused \<le> interval" using False assms(4) by auto
  have "c * unused \<le> 10000000000 * 12" using assms u by (intro mult_mono) auto
  then have prod: "nmul (of_int c) (of_int unused) = of_int (c * unused)"
    using fl_of_int [of "c * unused"] assms(1) u by (simp add: nmul_def abs_mult)
  let ?q = "of_int (c * unused) / of_int interval :: rat"
  have q: "0 \<le> ?q" "?q \<le> of_int c"
    using assms(1) u by (simp_all add: field_simps mult_left_mono)
  have "0 \<le> fl ?q" "fl ?q \<le> fl (of_int c)"
    using fl_nonneg fl_mono_nonneg q by blast+
  moreover have "fl (of_int c) = of_int c" using assms(1,2) by (intro fl_of_int) simp
  ultimately have "0 \<le> math_round (fl ?q)" "math_round (fl ?q) \<le> c"
    using q by (simp_all add: math_round_def le_floor_iff floor_le_iff)
  moreover have "creditForLine (euros c) interval unused = euros (math_round (fl ?q))"
    unfolding creditForLine_def cents prod using False by (simp add: euros_def ndiv_def)
  ultimately show ?thesis by blast
qed

section \<open>The first month\<close>

record first_month_plan =
  fmp_periodStart :: date
  fmp_periodEnd :: date
  fmp_days :: int
  fmp_daysInMonth :: int
  fmp_fullFirstMonth :: bool
  fmp_includesNextMonth :: bool
  fmp_nextMonthStart :: "date option"
  fmp_billingStartsOn :: date

text \<open>\<open>!!nextMonthFromDay\<close> is false for 0 as well as for \<open>null\<close>.\<close>

definition firstMonthPlan :: "date \<Rightarrow> int option \<Rightarrow> first_month_plan" where
  "firstMonthPlan startDate nextMonthFromDay =
     (let y = year_of startDate; month = month_of startDate; d = date_of startDate;
          daysInMonth = date_of (make_date y (month + 1) 0);
          full = (d = 1);
          more = (\<not> full \<and> (case nextMonthFromDay of None \<Rightarrow> False | Some n \<Rightarrow> n \<noteq> 0 \<and> n \<le> d))
      in \<lparr>fmp_periodStart = make_date y month d,
          fmp_periodEnd = (if more then make_date y (month + 2) 0 else make_date y (month + 1) 0),
          fmp_days = daysInMonth - d + 1, fmp_daysInMonth = daysInMonth, fmp_fullFirstMonth = full,
          fmp_includesNextMonth = more,
          fmp_nextMonthStart = (if more then Some (make_date y (month + 1) 1) else None),
          fmp_billingStartsOn = (if more then make_date y (month + 2) 1 else make_date y (month + 1) 1)\<rparr>)"

record first_month_cents =
  fmc_firstMonth :: int
  fmc_nextMonth :: int
  fmc_total :: int

definition firstMonthCents :: "int \<Rightarrow> first_month_plan \<Rightarrow> first_month_cents" where
  "firstMonthCents monthCents plan =
     (let first = (if fmp_fullFirstMonth plan then monthCents
            else math_round (ndiv (nmul (of_int monthCents) (of_int (fmp_days plan)))
                   (of_int (fmp_daysInMonth plan))));
          nxt = (if fmp_includesNextMonth plan then monthCents else 0)
      in \<lparr>fmc_firstMonth = first, fmc_nextMonth = nxt, fmc_total = first + nxt\<rparr>)"

lemma first_day_fields:
  "date_of (make_date y k 1) = 1" "month_index (make_date y k 1) = 12 * y + k"
proof -
  have m: "0 \<le> k mod 12" "k mod 12 \<le> 11" by simp_all
  have "1 \<le> month_start (y + k div 12) (k mod 12 + 1) - month_start (y + k div 12) (k mod 12)"
    using month_start_bounds(2) [OF m, of "y + k div 12"] by linarith
  note f = make_date_inverse [OF m order_refl this]
  show "date_of (make_date y k 1) = 1" unfolding make_date_carry [of y k] by (rule f(3))
  show "month_index (make_date y k 1) = 12 * y + k"
    unfolding make_date_carry [of y k] month_index_def f(1,2) by simp
qed

lemma firstOfNextMonth_eq: "make_date (year_of d) (month_of d + 1) 1 = d + (days_in_month (year_of d) (month_of d) - date_of d) + 1"
  unfolding first_of_next [OF month_of_bounds] days_in_month_eq [OF month_of_bounds] date_of_def
    day_in_year_def by simp

lemma firstMonthPlan_covers:
  assumes "plan = firstMonthPlan d n"
  shows "fmp_periodStart plan = d"
    and "fmp_periodEnd plan + 1 = fmp_billingStartsOn plan"
    and "date_of (fmp_billingStartsOn plan) = 1"
    and "1 \<le> fmp_days plan" and "fmp_days plan \<le> fmp_daysInMonth plan" and "fmp_daysInMonth plan \<le> 31"
    and "fmp_fullFirstMonth plan \<longleftrightarrow> fmp_days plan = fmp_daysInMonth plan"
    and "\<not> fmp_includesNextMonth plan \<Longrightarrow> fmp_billingStartsOn plan = d + fmp_days plan"
    and "fmp_includesNextMonth plan \<Longrightarrow>
      fmp_nextMonthStart plan = Some (d + fmp_days plan) \<and>
      fmp_billingStartsOn plan = addMonths (d + fmp_days plan) 1"
proof -
  note m = month_of_bounds [of d]
  note b = days_in_month_bounds [OF m, of "year_of d"] date_of_le [of d] date_of_pos [of d]
  have dim: "date_of (make_date (year_of d) (month_of d + 1) 0) = days_in_month (year_of d) (month_of d)"
    by (simp add: days_in_month_def)
  show "fmp_periodStart plan = d" by (simp add: assms firstMonthPlan_def Let_def)
  show "fmp_periodEnd plan + 1 = fmp_billingStartsOn plan"
    by (simp add: assms firstMonthPlan_def Let_def make_date_def)
  show "date_of (fmp_billingStartsOn plan) = 1" by (simp add: assms firstMonthPlan_def Let_def first_day_fields)
  show "1 \<le> fmp_days plan" "fmp_days plan \<le> fmp_daysInMonth plan" "fmp_daysInMonth plan \<le> 31"
    using b by (simp_all add: assms firstMonthPlan_def Let_def dim)
  show "fmp_fullFirstMonth plan \<longleftrightarrow> fmp_days plan = fmp_daysInMonth plan"
    by (auto simp: assms firstMonthPlan_def Let_def)
  show "fmp_billingStartsOn plan = d + fmp_days plan" if "\<not> fmp_includesNextMonth plan"
    using that firstOfNextMonth_eq [of d] by (auto simp: assms firstMonthPlan_def Let_def dim)
  show "fmp_nextMonthStart plan = Some (d + fmp_days plan) \<and>
      fmp_billingStartsOn plan = addMonths (d + fmp_days plan) 1" if inc: "fmp_includesNextMonth plan"
  proof -
    let ?e = "make_date (year_of d) (month_of d + 1) 1"
    have e: "d + fmp_days plan = ?e"
      using firstOfNextMonth_eq [of d] by (simp add: assms firstMonthPlan_def Let_def dim)
    have idx: "month_index ?e = month_index d + 1"
      "month_index (make_date (year_of d) (month_of d + 2) 1) = month_index d + 2"
      unfolding first_day_fields by (simp_all add: month_index_def)
    then have "month_index (addMonths ?e 1) = month_index (make_date (year_of d) (month_of d + 2) 1)"
      by (simp add: addMonths_fields(1))
    moreover have "date_of (addMonths ?e 1) = 1"
      using days_in_any_month(1) [of "year_of ?e" "month_of ?e + 1"]
      unfolding addMonths_fields(2) first_day_fields by simp
    ultimately have "make_date (year_of d) (month_of d + 2) 1 = addMonths ?e 1"
      using same_month(3) [of "make_date (year_of d) (month_of d + 2) 1" "addMonths ?e 1"] first_day_fields by simp
    then show ?thesis using inc e by (simp add: assms firstMonthPlan_def Let_def)
  qed
qed


text \<open>The rent of the first month is the exact share of its days, rounded half up.\<close>

lemma firstMonthCents_exact:
  assumes "plan = firstMonthPlan d n" and "0 \<le> c" and "c \<le> 10000000000"
  shows "fmc_firstMonth (firstMonthCents c plan) =
      (2 * c * fmp_days plan + fmp_daysInMonth plan) div (2 * fmp_daysInMonth plan)"
    and "0 \<le> fmc_firstMonth (firstMonthCents c plan)" and "fmc_firstMonth (firstMonthCents c plan) \<le> c"
proof -
  let ?k = "fmp_days plan" and ?D = "fmp_daysInMonth plan"
  note cov = firstMonthPlan_covers [OF assms(1)]
  have k: "1 \<le> ?k" "?k \<le> ?D" "?D \<le> 31" using cov(4-6) .
  have "c * ?k \<le> 10000000000 * 31" using assms k by (intro mult_mono) auto
  then have ck: "c * ?k \<le> 1000000000000" "0 \<le> c * ?k" using assms(2) k(1) by simp_all
  then have prod: "nmul (of_int c) (of_int ?k) = of_int (c * ?k)"
    using fl_of_int [of "c * ?k"] by (simp add: nmul_def)
  show e: "fmc_firstMonth (firstMonthCents c plan) = (2 * c * ?k + ?D) div (2 * ?D)"
  proof (cases "fmp_fullFirstMonth plan")
    case True
    then have D: "?k = ?D" using cov(7) by simp
    have "(2 * c * ?D + ?D) div (2 * ?D) = (?D + c * (2 * ?D)) div (2 * ?D)" by (simp add: algebra_simps)
    also have "\<dots> = c" using k by simp
    finally show ?thesis using True D by (simp add: firstMonthCents_def Let_def)
  next
    case False
    then show ?thesis
      using math_round_ratio [of "c * ?k" ?D] ck k by (simp add: firstMonthCents_def Let_def prod mult.assoc)
  qed
  show "0 \<le> fmc_firstMonth (firstMonthCents c plan)" unfolding e
    using assms(2) k by (intro pos_imp_zdiv_nonneg_iff [THEN iffD2]) simp_all
  let ?N = "2 * c * ?k + ?D"
  have "?N < 2 * ?D * (c + 1)"
    using k mult_left_mono [of ?k ?D "2 * c"] assms(2) by (simp add: algebra_simps)
  then have "2 * ?D * (?N div (2 * ?D)) < 2 * ?D * (c + 1)"
    using div_bounds(1) [of "2 * ?D" ?N] k by linarith
  then have "?N div (2 * ?D) < c + 1" using k by (simp add: mult_less_cancel_left_pos)
  then show "fmc_firstMonth (firstMonthCents c plan) \<le> c" unfolding e by simp
qed

end
