(* ===== verification/PeriodProperties.thy ===== *)
theory PeriodProperties imports Periods begin

text \<open>
  What the calculations over the periods of a contract promise: the first payment, the credit for
  prepaid months that are not used, and the renewals of a term.
\<close>

text \<open>
  C38: The first payment of a monthly contract leaves no gap: it covers from the day of entry up to
  the day before the recurring billing starts, which is the first of a month; the month of entry is
  charged for exactly its days, rounded to the nearest cent and never above a whole month, and the
  next month is charged whole exactly when the payment includes it.
\<close>

theorem first_payment_exact:
  assumes "plan = firstMonthPlan d n" and "0 \<le> c" and "c \<le> 10000000000"
  shows "fmp_periodStart plan = d \<and> fmp_periodEnd plan + 1 = fmp_billingStartsOn plan \<and>
    date_of (fmp_billingStartsOn plan) = 1 \<and>
    fmc_firstMonth (firstMonthCents c plan) =
      (2 * c * fmp_days plan + fmp_daysInMonth plan) div (2 * fmp_daysInMonth plan) \<and>
    0 \<le> fmc_firstMonth (firstMonthCents c plan) \<and> fmc_firstMonth (firstMonthCents c plan) \<le> c \<and>
    fmp_billingStartsOn plan = (if fmp_includesNextMonth plan then addMonths (d + fmp_days plan) 1
      else d + fmp_days plan) \<and>
    fmc_total (firstMonthCents c plan) =
      fmc_firstMonth (firstMonthCents c plan) + (if fmp_includesNextMonth plan then c else 0)"
  using firstMonthPlan_covers [OF assms(1)] firstMonthCents_exact [OF assms]
  by (simp add: firstMonthCents_def [of c plan] Let_def)

text \<open>Entry on 25 January 2026 with the next month included from day 20 on, at 50.00 a month.\<close>

lemma first_payment_exact_witness:
  "fmp_billingStartsOn (firstMonthPlan (make_date 2026 0 25) (Some 20)) = make_date 2026 2 1 \<and>
   fmc_firstMonth (firstMonthCents 5000 (firstMonthPlan (make_date 2026 0 25) (Some 20))) = 1129"
proof -
  let ?p = "firstMonthPlan (make_date 2026 0 25) (Some 20)"
  have d: "fmp_days ?p = 7" "fmp_daysInMonth ?p = 31" "fmp_billingStartsOn ?p = make_date 2026 2 1"
    by code_simp+
  show ?thesis using first_payment_exact [of ?p "make_date 2026 0 25" "Some 20" 5000] d by simp
qed

text \<open>
  C39: When a prepaid contract ends early, the months given back are exactly those of the paid
  period that have not started on the day of the end (a started month is consumed, the last months
  are the unused ones), and what a line is credited for them is a whole number of cents between
  zero and the line.
\<close>

theorem prepaid_credit_for_unstarted_months:
  assumes "1 < interval" and "interval \<le> 12" and "0 \<le> c" and "c \<le> 10000000000"
  shows "(\<forall>k\<in>{0..<interval}. interval - unusedPrepaidMonths start interval end \<le> k \<longleftrightarrow> end < addMonths start k) \<and>
    (\<exists>credit. creditForLine (euros c) interval (unusedPrepaidMonths start interval end) = euros credit \<and>
      0 \<le> credit \<and> credit \<le> c)"
proof -
  note b = unused_months_bounds(1,2) [OF assms(1), of start "end"]
  show ?thesis
    using creditForLine_bounds [OF assms(3,4) b assms(2)] unused_months_iff [OF assms(1)] by auto
qed

text \<open>A half-year prepaid from 1 January 2026 and left on 15 March: April, May and June are credited.\<close>

lemma prepaid_credit_for_unstarted_months_witness:
  "make_date 2026 2 15 < addMonths (make_date 2026 0 1) 3 \<and>
   (\<exists>credit. creditForLine (euros 30000) 6 (unusedPrepaidMonths (make_date 2026 0 1) 6 (make_date 2026 2 15)) =
      euros credit \<and> 0 \<le> credit \<and> credit \<le> 30000) \<and>
   unusedPrepaidMonths (make_date 2026 0 1) 6 (make_date 2026 2 15) = 3"
proof -
  have "unusedPrepaidMonths (make_date 2026 0 1) 6 (make_date 2026 2 15) = 3" by code_simp
  then show ?thesis
    using prepaid_credit_for_unstarted_months [of 6 30000 "make_date 2026 0 1" "make_date 2026 2 15"]
    by (auto dest: bspec [where x = 3])
qed

text \<open>
  C40: The renewal of a contract whose end has passed adds whole terms: at least one, as many as it
  takes to reach today and not one more; with terms of at least a month the 120 repetitions the loop allows
  suffice for every contract that ended within the last nine years.
\<close>

theorem renewal_reaches_today:
  assumes "0 < months" and "tod \<le> end + 28 * 120"
  shows "tod \<le> renewed_end tod months end \<and> end < renewed_end tod months end \<and>
    (\<exists>k. renewed_end tod months end = ((\<lambda>e. addMonths e months) ^^ Suc k) end \<and>
      (\<forall>j\<in>{1..k}. ((\<lambda>e. addMonths e months) ^^ j) end < tod))"
proof -
  let ?f = "\<lambda>e. addMonths e months"
  obtain k where k: "renew_until 120 tod months (?f end) = (?f ^^ k) (?f end)"
    and less: "\<forall>j<k. (?f ^^ j) (?f end) < tod"
    using renew_until_first [of 120 tod months "?f end"] by blast
  have shift: "(?f ^^ j) (?f end) = (?f ^^ Suc j) end" for j by (simp add: funpow_Suc_right del: funpow.simps)
  have e: "renewed_end tod months end = (?f ^^ Suc k) end"
    using k unfolding renewed_end_def shift .
  have "x < (?f ^^ Suc j) x" for j x
  proof (induction j)
    case 0
    then show ?case using addMonths_gt [OF assms(1), of x] by simp
  next
    case (Suc j)
    then show ?case using addMonths_gt [OF assms(1), of "(?f ^^ Suc j) x"] by simp
  qed
  then have "end < renewed_end tod months end" unfolding e .
  moreover have "tod \<le> renewed_end tod months end"
    unfolding renewed_end_def using addMonths_ge_28 [OF assms(1), of "end"] assms
    by (intro renew_until_reaches) simp_all
  moreover have "(?f ^^ j) end < tod" if "j \<in> {1..k}" for j
    using less [rule_format, of "j - 1"] that shift [of "j - 1"] by auto
  ultimately show ?thesis using e by blast
qed

lemma renewal_reaches_today_witness:
  "make_date 2026 5 10 \<le> renewed_end (make_date 2026 5 10) 3 (make_date 2025 8 30) \<and>
   renewed_end (make_date 2026 5 10) 3 (make_date 2025 8 30) = make_date 2026 5 30"
proof -
  have "renewed_end (make_date 2026 5 10) 3 (make_date 2025 8 30) = make_date 2026 5 30"
    "make_date 2026 5 10 \<le> make_date 2025 8 30 + 28 * 120" by code_simp+
  then show ?thesis using renewal_reaches_today [of 3 "make_date 2026 5 10" "make_date 2025 8 30"] by simp
qed

text \<open>
  The term of a contract is read back from the dates it gave: a contract of \<open>n\<close> whole months
  that starts on one of the first 28 days of a month has \<open>termMonths\<close> equal to \<open>n\<close>, so its renewals
  repeat the term that was agreed; whatever the dates, a term lies between 1 and 120 months.
\<close>

theorem term_read_back:
  "1 \<le> termMonths d e \<and> termMonths d e \<le> 120 \<and>
   (date_of d \<le> 28 \<and> 1 \<le> n \<and> n \<le> 120 \<longrightarrow> termMonths d (addMonths d n - 1) = n)"
  using termMonths_addMonths [of d n] by (simp add: termMonths_def Let_def)

lemma term_read_back_witness:
  "termMonths (make_date 2026 0 1) (addMonths (make_date 2026 0 1) 12 - 1) = 12"
proof -
  have "date_of (make_date 2026 0 1) = 1" by code_simp
  then show ?thesis using term_read_back [of "make_date 2026 0 1" 0 12] by simp
qed

end
