(* ===== verification/LettingDb.thy ===== *)
theory LettingDb imports Cancel Periods begin

text \<open>
  The tables of the letting side (contracts module of \<open>apps/api/src/modules/contracts\<close>) beside
  the tables of billing: reservations, the waiting list, coupons and their uses, promotions,
  insurance plans, the history of the units and the timeline of the contracts. \<open>base\<close> is the
  database of the billing services, which also holds customers, units and contracts; identifiers
  of the new rows come from its counter.
\<close>

section \<open>Rows\<close>

datatype reservation_status = Res_pending | Res_confirmed | Res_expired | Res_converted
  | Res_cancelled

record reservation_row =
  res_id :: id
  res_unitId :: id
  res_customerId :: "id option"
  res_status :: reservation_status
  res_validFrom :: instant
  res_validUntil :: instant
  res_depositPaid :: bool
  res_depositAmount :: cents
  res_notes :: "string option"
  res_convertedContractId :: "id option"
  res_cancelledAt :: "instant option"
  res_cancelReason :: "string option"
  res_depositInvoiceId :: "id option"
  res_reminderSentAt :: "instant option"
  res_createdAt :: instant

datatype waitlist_status = Wl_waiting | Wl_notified | Wl_converted | Wl_cancelled

record waitlist_row =
  wl_id :: id
  wl_customerId :: "id option"
  wl_contactName :: string
  wl_status :: waitlist_status
  wl_heldUnitId :: "id option"
  wl_convertedContractId :: "id option"
  wl_holdTokenHash :: "string option"
  wl_holdExpiresAt :: "instant option"

record history_row =
  his_unitId :: id
  his_previous :: unit_status
  his_new :: unit_status
  his_changedBy :: "id option"
  his_reason :: string

text \<open>
  The timeline of a contract: its type and, as the payload, what the code writes into the JSON
  column of the entries other code reads back (\<open>migrated\<close>, the amounts of a settled deposit,
  the moves of unit and price); the payload of the others is their text.
\<close>

datatype contract_event_type = Ce_created | Ce_signed | Ce_price_changed | Ce_unit_changed
  | Ce_resumed | Ce_ending_requested | Ce_ended | Ce_cancelled | Ce_note_added

datatype contract_payload = Said string | Migrated date | Price_change cents cents
  | Unit_change id id | End_date "date option" | Deposit_settled cents cents cents
  | Prepay_credit_note id id int | Renewal int date

record contract_event =
  cev_contractId :: id
  cev_type :: contract_event_type
  cev_payload :: contract_payload
  cev_by :: "id option"

datatype discount_type = Percentage | Fixed_amount | Free_months

record coupon_row =
  cou_id :: id
  cou_code :: string
  cou_name :: string
  cou_discountType :: discount_type
  cou_discountValue :: rat
  cou_minMonths :: int
  cou_minAmount :: "cents option"
  cou_unitTypeIds :: "id list"
  cou_facilityIds :: "id list"
  cou_newCustomersOnly :: bool
  cou_oncePerCustomer :: bool
  cou_preOpeningOnly :: bool
  cou_maxUses :: "int option"
  cou_usedCount :: int
  cou_validFrom :: "instant option"
  cou_validUntil :: "instant option"
  cou_isActive :: bool

record redemption_row =
  red_id :: id
  red_couponId :: id
  red_customerId :: "id option"
  red_contractId :: "id option"
  red_invoiceId :: "id option"
  red_months :: int
  red_discountAmount :: cents
  red_freeMonths :: int

text \<open>\<open>applies_to\<close> of a promotion: only its unit is read.\<close>

record promotion_row =
  pro_id :: id
  pro_code :: string
  pro_discountType :: discount_type
  pro_discountValue :: rat
  pro_unitId :: "id option"
  pro_maxUses :: "int option"
  pro_usedCount :: int
  pro_validFrom :: "instant option"
  pro_validUntil :: "instant option"
  pro_isActive :: bool

record insurance_row =
  ins_id :: id
  ins_name :: string
  ins_monthlyPrice :: cents
  ins_taxRate :: rat
  ins_active :: bool

record unit_request_row =
  urq_id :: id
  urq_customerId :: id
  urq_pending :: bool

record change_request_row =
  crq_contractId :: id
  crq_pending :: bool
  crq_rejected :: bool

text \<open>A task of the staff on a unit; \<open>metadata.source\<close> says whether maintenance created it.\<close>

record task_row =
  tsk_unitId :: id
  tsk_facilityId :: id
  tsk_title :: string
  tsk_description :: "string option"
  tsk_dueDate :: "date option"
  tsk_unitMaintenance :: bool
  tsk_open :: bool
  tsk_completedAt :: "instant option"
  tsk_deleted :: bool

section \<open>The state\<close>

datatype letting_event =
    Contract_signed id bool
  | Contract_ended id
  | Contract_renewed id date
  | Contract_unit_changed id id id
  | Contract_price_notice id rat date
  | Contract_deposit_settled id cents cents cents
  | Move_out_requested id
  | Move_out_cancelled id
  | Unit_available id
  | Unit_request_resolved id
  | Reservation_confirmed id
  | Reservation_expiring id
  | Pre_opening_started id

text \<open>
  The settings of the tenant the module reads: whether the plan has the insurance feature, the day
  from which the first payment includes the next month, what happens with the signal of a cancelled
  reservation, and whether contracts end by themselves.
\<close>

record letting_settings =
  set_insuranceFeature :: bool
  set_nextMonthFromDay :: "int option"
  set_keepSignal :: bool
  set_autoEndContracts :: bool

record letting =
  base :: db
  reservations :: "reservation_row list"
  waitlist :: "waitlist_row list"
  unit_history :: "history_row list"
  contract_events :: "contract_event list"
  coupons :: "coupon_row list"
  redemptions :: "redemption_row list"
  promotions :: "promotion_row list"
  insurance_plans :: "insurance_row list"
  unit_requests :: "unit_request_row list"
  change_requests :: "change_request_row list"
  unit_types :: "id list"
  tasks :: "task_row list"
  signed_terms :: "(id \<times> string) list"
  signatures :: "(id \<times> string) list"
  letting_events :: "letting_event list"
  settings :: letting_settings

definition over_base :: "(db \<Rightarrow> db) \<Rightarrow> letting \<Rightarrow> letting" where
  "over_base f s = s\<lparr>base := f (base s)\<rparr>"

definition tell :: "letting_event \<Rightarrow> letting \<Rightarrow> letting" where
  "tell ev s = s\<lparr>letting_events := letting_events s @ [ev]\<rparr>"

definition write_audit :: "string \<Rightarrow> id \<Rightarrow> letting \<Rightarrow> letting" where
  "write_audit action i s = over_base (audit action i) s"

text \<open>\<open>contractEvent.create\<close>.\<close>

definition add_event :: "id \<Rightarrow> contract_event_type \<Rightarrow> contract_payload \<Rightarrow> id option \<Rightarrow> letting \<Rightarrow> letting" where
  "add_event c ty p who s =
     s\<lparr>contract_events := contract_events s @
        [\<lparr>cev_contractId = c, cev_type = ty, cev_payload = p, cev_by = who\<rparr>]\<rparr>"

text \<open>\<open>notification.create\<close>.\<close>

definition notify_staff :: "string \<Rightarrow> letting \<Rightarrow> letting" where
  "notify_staff kind s = over_base (\<lambda>d. d\<lparr>notifications := notifications d @ [kind]\<rparr>) s"

definition change_contract :: "id \<Rightarrow> (contract_row \<Rightarrow> contract_row) \<Rightarrow> letting \<Rightarrow> letting" where
  "change_contract i f s = over_base (update_contract i f) s"

text \<open>\<open>unit.update\<close> of the status with the row of \<open>unit_status_history\<close> that goes with it.\<close>

definition set_unit_status :: "id \<Rightarrow> unit_status \<Rightarrow> db \<Rightarrow> db" where
  "set_unit_status u st d = d\<lparr>units := update_many (\<lambda>r. unit_id r = u) (\<lambda>r. r\<lparr>unit_status := st\<rparr>) (units d)\<rparr>"

definition write_status :: "id \<Rightarrow> unit_status \<Rightarrow> unit_status \<Rightarrow> id option \<Rightarrow> string \<Rightarrow> letting \<Rightarrow> letting" where
  "write_status u old new who why s =
     s\<lparr>base := set_unit_status u new (base s),
       unit_history := unit_history s @
         [\<lparr>his_unitId = u, his_previous = old, his_new = new, his_changedBy = who, his_reason = why\<rparr>]\<rparr>"

section \<open>Contracts in force\<close>

definition is_live :: "contract_row \<Rightarrow> bool" where
  "is_live c \<longleftrightarrow> con_status c \<in> {Con_active, Con_ending} \<and> \<not> con_deleted c"

text \<open>\<open>common/pre-opening.ts\<close>: a reservation signed before its facility opens.\<close>

definition isPendingPreOpening :: "contract_row \<Rightarrow> bool" where
  "isPendingPreOpening c \<longleftrightarrow> po_preOpening (con_opening c) \<and> po_startedAt (con_opening c) = None"

definition is_started :: "contract_row \<Rightarrow> bool" where
  "is_started c \<longleftrightarrow> is_live c \<and> \<not> isPendingPreOpening c"

text \<open>
  The partial unique index \<open>contracts_one_active_per_unit\<close>: a write that would leave a unit with
  two contracts in force is refused.
\<close>

definition one_live_per_unit :: "contract_row list \<Rightarrow> bool" where
  "one_live_per_unit cs \<longleftrightarrow> distinct (map con_unitId (filter is_live cs))"

definition save_contract :: "id \<Rightarrow> (contract_row \<Rightarrow> contract_row) \<Rightarrow> letting \<Rightarrow> letting result" where
  "save_contract i f s =
     (let s' = change_contract i f s
      in if one_live_per_unit (contracts (base s')) then Inr s' else Inl UniqueViolation)"

definition contract_row_of :: "letting \<Rightarrow> id \<Rightarrow> contract_row result" where
  "contract_row_of s i = found (find_contract (base s) i) RecordNotFound"

definition unit_row_of :: "letting \<Rightarrow> id \<Rightarrow> unit_row result" where
  "unit_row_of s u = found (find_unit (base s) u) RecordNotFound"

definition facility_of_unit :: "letting \<Rightarrow> unit_row \<Rightarrow> facility_row option" where
  "facility_of_unit s u = find_facility (base s) (unit_facilityId u)"

text \<open>\<open>todayAtUnit\<close>: the day it is where the unit stands.\<close>

definition todayAtUnit :: "env \<Rightarrow> letting \<Rightarrow> id \<Rightarrow> date" where
  "todayAtUnit e s u =
     (case find_unit (base s) u of
        None \<Rightarrow> today e
      | Some r \<Rightarrow> (case facility_of_unit s r of None \<Rightarrow> today e | Some f \<Rightarrow> today_in e (fac_timezone f)))"

text \<open>Selectors of a state after the small writes.\<close>

lemma over_base_sel [simp]:
  "base (over_base f s) = f (base s)" "reservations (over_base f s) = reservations s"
  "waitlist (over_base f s) = waitlist s" "unit_history (over_base f s) = unit_history s"
  "contract_events (over_base f s) = contract_events s" "coupons (over_base f s) = coupons s"
  "redemptions (over_base f s) = redemptions s" "promotions (over_base f s) = promotions s"
  "insurance_plans (over_base f s) = insurance_plans s" "settings (over_base f s) = settings s"
  "letting_events (over_base f s) = letting_events s"
  by (simp_all add: over_base_def)

lemma tell_sel [simp]:
  "base (tell ev s) = base s" "reservations (tell ev s) = reservations s" "waitlist (tell ev s) = waitlist s"
  "unit_history (tell ev s) = unit_history s" "contract_events (tell ev s) = contract_events s"
  "coupons (tell ev s) = coupons s" "redemptions (tell ev s) = redemptions s"
  "promotions (tell ev s) = promotions s" "letting_events (tell ev s) = letting_events s @ [ev]"
  "settings (tell ev s) = settings s"
  by (simp_all add: tell_def)

lemma add_event_sel [simp]:
  "base (add_event c ty p who s) = base s" "reservations (add_event c ty p who s) = reservations s"
  "waitlist (add_event c ty p who s) = waitlist s" "unit_history (add_event c ty p who s) = unit_history s"
  "coupons (add_event c ty p who s) = coupons s" "redemptions (add_event c ty p who s) = redemptions s"
  "promotions (add_event c ty p who s) = promotions s" "letting_events (add_event c ty p who s) = letting_events s"
  "settings (add_event c ty p who s) = settings s"
  by (simp_all add: add_event_def)

lemma write_status_sel [simp]:
  "base (write_status u old new who why s) = set_unit_status u new (base s)"
  "reservations (write_status u old new who why s) = reservations s"
  "waitlist (write_status u old new who why s) = waitlist s"
  "contract_events (write_status u old new who why s) = contract_events s"
  "coupons (write_status u old new who why s) = coupons s"
  "redemptions (write_status u old new who why s) = redemptions s"
  "promotions (write_status u old new who why s) = promotions s"
  "settings (write_status u old new who why s) = settings s"
  by (simp_all add: write_status_def)

lemma set_unit_status_sel [simp]:
  "contracts (set_unit_status u st d) = contracts d" "customers (set_unit_status u st d) = customers d"
  "facilities (set_unit_status u st d) = facilities d" "invoices (set_unit_status u st d) = invoices d"
  "next_id (set_unit_status u st d) = next_id d" "items (set_unit_status u st d) = items d"
  "units (set_unit_status u st d) = update_many (\<lambda>r. unit_id r = u) (\<lambda>r. r\<lparr>unit_status := st\<rparr>) (units d)"
  by (simp_all add: set_unit_status_def)

lemma update_contract_sel [simp]:
  "contracts (update_contract i f d) = update_many (\<lambda>r. con_id r = i) f (contracts d)"
  "units (update_contract i f d) = units d" "customers (update_contract i f d) = customers d"
  "facilities (update_contract i f d) = facilities d" "invoices (update_contract i f d) = invoices d"
  "next_id (update_contract i f d) = next_id d" "items (update_contract i f d) = items d"
  by (simp_all add: update_contract_def)

lemma notify_staff_sel [simp]:
  "contracts (base (notify_staff k s)) = contracts (base s)" "units (base (notify_staff k s)) = units (base s)"
  "reservations (notify_staff k s) = reservations s" "waitlist (notify_staff k s) = waitlist s"
  "unit_history (notify_staff k s) = unit_history s" "coupons (notify_staff k s) = coupons s"
  "redemptions (notify_staff k s) = redemptions s"
  by (simp_all add: notify_staff_def)

lemma small_writes [simp]:
  "base (write_audit a i s) = audit a i (base s)" "base (change_contract i f s) = update_contract i f (base s)"
  "reservations (write_audit a i s) = reservations s" "reservations (change_contract i f s) = reservations s"
  "waitlist (write_audit a i s) = waitlist s" "waitlist (change_contract i f s) = waitlist s"
  "unit_history (write_audit a i s) = unit_history s" "unit_history (change_contract i f s) = unit_history s"
  "coupons (write_audit a i s) = coupons s" "coupons (change_contract i f s) = coupons s"
  "redemptions (write_audit a i s) = redemptions s" "redemptions (change_contract i f s) = redemptions s"
  "contract_events (write_audit a i s) = contract_events s"
  "contract_events (change_contract i f s) = contract_events s"
  by (simp_all add: write_audit_def change_contract_def)

end
