(* ===== verification/UnitHolds.thy ===== *)
theory UnitHolds imports LettingDb begin

text \<open>
  Who holds a unit (\<open>apps/api/src/common/unit-holds.ts\<close>): live reservations, the drafts of online
  bookings within their deadline, reservations before an opening, scheduled moves, the waiting list
  and the drafts born of one of them. Whatever gives a unit back passes through
  \<open>releaseReservedUnit\<close>, which leaves it reserved while somebody else holds it.
\<close>

section \<open>Who holds a unit\<close>

record hold_args =
  ha_unitId :: id
  ha_contractId :: "id option"
  ha_customerId :: "id option"
  ha_reservationId :: "id option"
  ha_waitlistEntryId :: "id option"
  ha_ignoreReservations :: bool

definition hold_of :: "id \<Rightarrow> hold_args" where
  "hold_of u =
     \<lparr>ha_unitId = u, ha_contractId = None, ha_customerId = None, ha_reservationId = None,
      ha_waitlistEntryId = None, ha_ignoreReservations = False\<rparr>"

text \<open>\<open>{ not: x }\<close> when the argument is given; a row without customer is somebody else's.\<close>

definition differs :: "id option \<Rightarrow> id \<Rightarrow> bool" where
  "differs given x = (case given of None \<Rightarrow> True | Some g \<Rightarrow> x \<noteq> g)"

definition otherOrNobody :: "id option \<Rightarrow> id option \<Rightarrow> bool" where
  "otherOrNobody given x = (case given of None \<Rightarrow> True | Some g \<Rightarrow> x \<noteq> Some g)"

definition live_reservation :: "instant \<Rightarrow> reservation_row \<Rightarrow> bool" where
  "live_reservation t r \<longleftrightarrow> res_status r \<in> {Res_pending, Res_confirmed} \<and> t < res_validUntil r"

definition holding_reservations :: "env \<Rightarrow> letting \<Rightarrow> hold_args \<Rightarrow> nat" where
  "holding_reservations e s a =
     (if ha_ignoreReservations a then 0
      else count_rows (\<lambda>r. res_unitId r = ha_unitId a \<and> live_reservation (now e) r \<and>
             differs (ha_reservationId a) (res_id r) \<and> otherOrNobody (ha_customerId a) (res_customerId r))
           (reservations s))"

definition booking_or_opening :: "instant \<Rightarrow> contract_row \<Rightarrow> bool" where
  "booking_or_opening t c \<longleftrightarrow>
     (con_status c = Con_draft \<and> (\<exists>dl. con_firstPaymentDeadline c = Some dl \<and> t < dl)) \<or>
     (con_status c = Con_active \<and> po_preOpening (con_opening c) \<and> po_startedAt (con_opening c) = None)"

definition holding_contracts :: "env \<Rightarrow> letting \<Rightarrow> hold_args \<Rightarrow> nat" where
  "holding_contracts e s a =
     count_rows (\<lambda>c. con_unitId c = ha_unitId a \<and> \<not> con_deleted c \<and> differs (ha_contractId a) (con_id c) \<and>
       differs (ha_customerId a) (con_customerId c) \<and> booking_or_opening (now e) c) (contracts (base s))"

definition holding_moves :: "letting \<Rightarrow> hold_args \<Rightarrow> nat" where
  "holding_moves s a =
     count_rows (\<lambda>c. sch_unitId (con_scheduled c) = Some (ha_unitId a) \<and> is_live c \<and>
       differs (ha_contractId a) (con_id c)) (contracts (base s))"

definition holding_waitlist :: "letting \<Rightarrow> hold_args \<Rightarrow> nat" where
  "holding_waitlist s a =
     count_rows (\<lambda>w. wl_heldUnitId w = Some (ha_unitId a) \<and> wl_status w = Wl_notified \<and>
       differs (ha_waitlistEntryId a) (wl_id w) \<and> otherOrNobody (ha_customerId a) (wl_customerId w)) (waitlist s)"

definition other_drafts :: "letting \<Rightarrow> hold_args \<Rightarrow> id list" where
  "other_drafts s a =
     map con_id (filter (\<lambda>c. con_unitId c = ha_unitId a \<and> con_status c = Con_draft \<and> \<not> con_deleted c \<and>
       differs (ha_contractId a) (con_id c) \<and> differs (ha_customerId a) (con_customerId c)) (contracts (base s)))"

text \<open>A draft born of a reservation or of a notice of the waiting list.\<close>

definition draft_born_of_hold :: "letting \<Rightarrow> id \<Rightarrow> id list \<Rightarrow> bool" where
  "draft_born_of_hold s u drafts \<longleftrightarrow>
     0 < count_rows (\<lambda>r. res_unitId r = u \<and> res_status r = Res_converted \<and>
           (\<exists>i\<in>set drafts. res_convertedContractId r = Some i)) (reservations s)
       + count_rows (\<lambda>w. wl_heldUnitId w = Some u \<and>
           (\<exists>i\<in>set drafts. wl_convertedContractId w = Some i)) (waitlist s)"

definition unitHeldByOther :: "env \<Rightarrow> letting \<Rightarrow> hold_args \<Rightarrow> bool" where
  "unitHeldByOther e s a \<longleftrightarrow>
     0 < holding_reservations e s a + holding_contracts e s a + holding_moves s a + holding_waitlist s a \<or>
     (other_drafts s a \<noteq> [] \<and> draft_born_of_hold s (ha_unitId a) (other_drafts s a))"

section \<open>Giving a unit back\<close>

definition releaseReservedUnit ::
  "env \<Rightarrow> hold_args \<Rightarrow> id option \<Rightarrow> string \<Rightarrow> letting \<Rightarrow> letting \<times> bool" where
  "releaseReservedUnit e a userId reason s =
     (if unitHeldByOther e s (a\<lparr>ha_customerId := None, ha_ignoreReservations := False\<rparr>) then (s, False)
      else if count_rows (\<lambda>u. unit_id u = ha_unitId a \<and> unit_status u = Reserved) (units (base s)) = 0
      then (s, False)
      else (write_status (ha_unitId a) Reserved Available userId reason s, True))"

text \<open>Who is shown as the holder of a unit, and until when.\<close>

datatype hold_kind = Hold_reservation | Hold_online_booking | Hold_pre_opening | Hold_scheduled_move
  | Hold_waitlist | Hold_contract_draft

record unit_hold =
  uh_kind :: hold_kind
  uh_customerId :: "id option"
  uh_until :: "instant option"

text \<open>\<open>orderBy: validUntil asc\<close>: the first row with the least value.\<close>

fun least_by :: "('r \<Rightarrow> int) \<Rightarrow> 'r list \<Rightarrow> 'r option" where
  "least_by k [] = None"
| "least_by k (r # rows) =
     (case least_by k rows of None \<Rightarrow> Some r | Some m \<Rightarrow> Some (if k m < k r then m else r))"

definition describeUnitHold :: "env \<Rightarrow> letting \<Rightarrow> id \<Rightarrow> unit_hold option" where
  "describeUnitHold e s u =
     (let rows = contracts (base s) in
      case least_by res_validUntil (filter (\<lambda>r. res_unitId r = u \<and> live_reservation (now e) r) (reservations s)) of
        Some r \<Rightarrow> Some \<lparr>uh_kind = Hold_reservation, uh_customerId = res_customerId r,
                       uh_until = Some (res_validUntil r)\<rparr>
      | None \<Rightarrow>
     (case find_first (\<lambda>c. con_unitId c = u \<and> \<not> con_deleted c \<and> booking_or_opening (now e) c) rows of
        Some c \<Rightarrow> Some \<lparr>uh_kind = (if con_status c = Con_draft then Hold_online_booking else Hold_pre_opening),
                       uh_customerId = Some (con_customerId c),
                       uh_until = (if con_status c = Con_draft then con_firstPaymentDeadline c else None)\<rparr>
      | None \<Rightarrow>
     (case find_first (\<lambda>c. sch_unitId (con_scheduled c) = Some u \<and> is_live c) rows of
        Some c \<Rightarrow> Some \<lparr>uh_kind = Hold_scheduled_move, uh_customerId = Some (con_customerId c),
                       uh_until = map_option day_ms (sch_unitDate (con_scheduled c))\<rparr>
      | None \<Rightarrow>
     (case find_first (\<lambda>w. wl_heldUnitId w = Some u \<and> wl_status w = Wl_notified) (waitlist s) of
        Some w \<Rightarrow> Some \<lparr>uh_kind = Hold_waitlist, uh_customerId = wl_customerId w, uh_until = wl_holdExpiresAt w\<rparr>
      | None \<Rightarrow>
     (case find_first (\<lambda>c. con_unitId c = u \<and> con_status c = Con_draft \<and> \<not> con_deleted c) (rev rows) of
        Some c \<Rightarrow> Some \<lparr>uh_kind = Hold_contract_draft, uh_customerId = Some (con_customerId c), uh_until = None\<rparr>
      | None \<Rightarrow> None)))))"

section \<open>Lemmas\<close>

lemma least_by_None_iff: "least_by k rows = None \<longleftrightarrow> rows = []"
  by (cases rows) (auto split: option.splits)

lemma least_by_SomeD: "least_by k rows = Some r \<Longrightarrow> r \<in> set rows \<and> (\<forall>x\<in>set rows. k r \<le> k x)"
proof (induction rows arbitrary: r)
  case Nil
  then show ?case by simp
next
  case (Cons a rows)
  show ?case
  proof (cases "least_by k rows")
    case None
    then show ?thesis using Cons.prems least_by_None_iff [of k rows] by simp
  next
    case (Some m)
    note m = Cons.IH [OF Some]
    have r: "r = (if k m < k a then m else a)" using Cons.prems Some by simp
    show ?thesis using m unfolding r by (cases "k m < k a") force+
  qed
qed

text \<open>A unit is held when it has one of the five holders.\<close>

lemma unitHeldByOther_iff:
  "unitHeldByOther e s (hold_of u) \<longleftrightarrow>
     (\<exists>r\<in>set (reservations s). res_unitId r = u \<and> live_reservation (now e) r) \<or>
     (\<exists>c\<in>set (contracts (base s)). con_unitId c = u \<and> \<not> con_deleted c \<and> booking_or_opening (now e) c) \<or>
     (\<exists>c\<in>set (contracts (base s)). sch_unitId (con_scheduled c) = Some u \<and> is_live c) \<or>
     (\<exists>w\<in>set (waitlist s). wl_heldUnitId w = Some u \<and> wl_status w = Wl_notified) \<or>
     (\<exists>c\<in>set (contracts (base s)). con_unitId c = u \<and> con_status c = Con_draft \<and> \<not> con_deleted c \<and>
        ((\<exists>r\<in>set (reservations s). res_unitId r = u \<and> res_status r = Res_converted \<and>
            res_convertedContractId r = Some (con_id c)) \<or>
         (\<exists>w\<in>set (waitlist s). wl_heldUnitId w = Some u \<and> wl_convertedContractId w = Some (con_id c))))"
proof -
  have "draft_born_of_hold s u (other_drafts s (hold_of u)) \<longleftrightarrow>
      (\<exists>c\<in>set (contracts (base s)). con_unitId c = u \<and> con_status c = Con_draft \<and> \<not> con_deleted c \<and>
        ((\<exists>r\<in>set (reservations s). res_unitId r = u \<and> res_status r = Res_converted \<and>
            res_convertedContractId r = Some (con_id c)) \<or>
         (\<exists>w\<in>set (waitlist s). wl_heldUnitId w = Some u \<and> wl_convertedContractId w = Some (con_id c))))"
    unfolding draft_born_of_hold_def add_gr_0 count_rows_pos
    by (auto simp: other_drafts_def hold_of_def differs_def)
  moreover have "other_drafts s (hold_of u) = [] \<Longrightarrow> \<not> draft_born_of_hold s u (other_drafts s (hold_of u))"
    by (simp add: draft_born_of_hold_def count_rows_def)
  ultimately show ?thesis
    unfolding unitHeldByOther_def add_gr_0
    by (auto simp: holding_reservations_def holding_contracts_def holding_moves_def holding_waitlist_def
        count_rows_pos hold_of_def differs_def otherOrNobody_def)
qed

text \<open>Every unit that is held is shown with a holder.\<close>

lemma held_is_described:
  assumes "unitHeldByOther e s (hold_of u)"
  shows "describeUnitHold e s u \<noteq> None"
proof
  assume "describeUnitHold e s u = None"
  then have none: "least_by res_validUntil (filter (\<lambda>r. res_unitId r = u \<and> live_reservation (now e) r) (reservations s)) = None"
    "find_first (\<lambda>c. con_unitId c = u \<and> \<not> con_deleted c \<and> booking_or_opening (now e) c) (contracts (base s)) = None"
    "find_first (\<lambda>c. sch_unitId (con_scheduled c) = Some u \<and> is_live c) (contracts (base s)) = None"
    "find_first (\<lambda>w. wl_heldUnitId w = Some u \<and> wl_status w = Wl_notified) (waitlist s) = None"
    "find_first (\<lambda>c. con_unitId c = u \<and> con_status c = Con_draft \<and> \<not> con_deleted c) (rev (contracts (base s))) = None"
    by (auto simp: describeUnitHold_def Let_def split: option.splits)
  then show False
    using assms unfolding unitHeldByOther_iff
    by (auto simp: least_by_None_iff find_first_None_iff filter_empty_conv)
qed

lemma releaseReservedUnit_cases:
  "releaseReservedUnit e a who why s = (s, False) \<or>
   releaseReservedUnit e a who why s = (write_status (ha_unitId a) Reserved Available who why s, True) \<and>
     (\<exists>u\<in>set (units (base s)). unit_id u = ha_unitId a \<and> unit_status u = Reserved) \<and>
     \<not> unitHeldByOther e s (a\<lparr>ha_customerId := None, ha_ignoreReservations := False\<rparr>)"
  by (simp add: releaseReservedUnit_def count_rows_eq_0)

end
