(* ===== verification/Coupons.thy ===== *)
theory Coupons imports UnitHolds begin

text \<open>
  Coupons: the discount on the first payment of a contract. The calculation is
  \<open>packages/shared/src/coupons/index.ts\<close> (\<open>quoteCoupon\<close>, also used by the web), the service that
  claims a use, records it and gives it back is \<open>apps/api/src/modules/coupons/coupons.service.ts\<close>;
  the promotions of \<open>promotions/promotions.service.ts\<close> claim their uses the same way.
\<close>

section \<open>Calculation\<close>

definition COUPON_MAX_MONTHS :: int where
  "COUPON_MAX_MONTHS = 12"

datatype reject_reason = Coupon_not_found | Inactive | Not_started | Expired | Max_uses_reached
  | Invalid_months | Min_months | Min_amount | Wrong_unit_type | Wrong_facility | New_customers_only
  | Already_used | Pre_opening_only

record coupon_context =
  cc_monthlyPrice :: rat
  cc_months :: int
  cc_unitTypeId :: "id option"
  cc_facilityId :: "id option"
  cc_isNewCustomer :: "bool option"
  cc_usedByCustomer :: "bool option"
  cc_preOpening :: bool

text \<open>The amounts of an accepted coupon, in euros (Numbers of JavaScript).\<close>

record accepted_quote =
  cq_months :: int
  cq_rentSubtotal :: rat
  cq_discountAmount :: rat
  cq_freeMonths :: int
  cq_rentTotal :: rat

datatype coupon_quote = Accepted accepted_quote | Rejected reject_reason

text \<open>\<open>Math.round(euros * 100)\<close> and \<open>Math.trunc\<close>.\<close>

definition cents_of :: "rat \<Rightarrow> int" where
  "cents_of x = math_round (nmul x 100)"

definition math_trunc :: "rat \<Rightarrow> int" where
  "math_trunc x = (if 0 \<le> x then \<lfloor>x\<rfloor> else \<lceil>x\<rceil>)"

definition is_integer :: "rat \<Rightarrow> bool" where
  "is_integer x \<longleftrightarrow> of_int \<lfloor>x\<rfloor> = x"

definition couponRuleIssues ::
  "discount_type \<Rightarrow> rat \<Rightarrow> int \<Rightarrow> instant option \<Rightarrow> instant option \<Rightarrow> string list" where
  "couponRuleIssues ty v minMonths from until =
     (if ty = Percentage \<and> 100 < v then [''discountValue''] else []) @
     (if ty = Free_months
      then (if \<not> is_integer v then [''discountValue'']
            else if of_int minMonths \<le> v then [''minMonths''] else [])
      else []) @
     (case (from, until) of (Some f, Some u) \<Rightarrow> if u \<le> f then [''validUntil''] else [] | _ \<Rightarrow> [])"

text \<open>The checks of \<open>quoteCoupon\<close> before the amounts, in their order.\<close>

definition coupon_rejects :: "coupon_row \<Rightarrow> coupon_context \<Rightarrow> instant \<Rightarrow> reject_reason option" where
  "coupon_rejects r c t =
     (if \<not> cou_isActive r then Some Inactive
      else if \<exists>f. cou_validFrom r = Some f \<and> t < f then Some Not_started
      else if \<exists>u. cou_validUntil r = Some u \<and> u < t then Some Expired
      else if \<exists>m. cou_maxUses r = Some m \<and> m \<le> cou_usedCount r then Some Max_uses_reached
      else if cc_months c < 1 \<or> COUPON_MAX_MONTHS < cc_months c then Some Invalid_months
      else if cc_months c < cou_minMonths r then Some Min_months
      else if cou_unitTypeIds r \<noteq> [] \<and> \<not> (\<exists>t. cc_unitTypeId c = Some t \<and> t \<in> set (cou_unitTypeIds r))
      then Some Wrong_unit_type
      else if cou_facilityIds r \<noteq> [] \<and> \<not> (\<exists>f. cc_facilityId c = Some f \<and> f \<in> set (cou_facilityIds r))
      then Some Wrong_facility
      else if cou_newCustomersOnly r \<and> cc_isNewCustomer c = Some False then Some New_customers_only
      else if cou_oncePerCustomer r \<and> cc_usedByCustomer c = Some True then Some Already_used
      else if cou_preOpeningOnly r \<and> \<not> cc_preOpening c then Some Pre_opening_only
      else None)"

definition coupon_discount :: "coupon_row \<Rightarrow> int \<Rightarrow> int \<Rightarrow> int \<times> int" where
  "coupon_discount r months monthCents =
     (let subtotal = monthCents * months in
      case cou_discountType r of
        Percentage \<Rightarrow>
          (math_round (ndiv (nmul (of_int subtotal) (min (cou_discountValue r) 100)) 100), 0)
      | Fixed_amount \<Rightarrow> (cents_of (cou_discountValue r), 0)
      | Free_months \<Rightarrow>
          (let free = min (math_trunc (cou_discountValue r)) (months - 1) in (free * monthCents, free)))"

definition quoteCoupon :: "coupon_row \<Rightarrow> coupon_context \<Rightarrow> instant \<Rightarrow> coupon_quote" where
  "quoteCoupon r c t =
     (case coupon_rejects r c t of
        Some why \<Rightarrow> Rejected why
      | None \<Rightarrow>
          (let monthCents = max 0 (cents_of (cc_monthlyPrice c));
               subtotal = monthCents * cc_months c
           in if \<exists>a. cou_minAmount r = Some a \<and> subtotal < cents_of (euros a) then Rejected Min_amount
              else (let (d, free) = coupon_discount r (cc_months c) monthCents;
                        discount = min (max 0 d) subtotal
                    in Accepted \<lparr>cq_months = cc_months c, cq_rentSubtotal = euros subtotal,
                         cq_discountAmount = euros discount, cq_freeMonths = free,
                         cq_rentTotal = euros (subtotal - discount)\<rparr>)))"

section \<open>The first payment\<close>

record first_payment_args =
  fp_monthlyPrice :: rat
  fp_months :: int
  fp_vatRate :: rat
  fp_discountAmount :: rat
  fp_freeMonths :: int
  fp_deposit :: rat
  fp_insuranceWithVat :: rat
  fp_prorated :: bool
  fp_firstMonth :: "first_month_plan option"
  fp_preOpening :: bool

record first_payment_quote =
  fq_months :: int
  fq_rentSubtotal :: int
  fq_discount :: int
  fq_freeMonths :: int
  fq_rentTotal :: int
  fq_rentWithVat :: int
  fq_insurance :: int
  fq_deposit :: int
  fq_totalToPay :: int
  fq_prorated :: bool
  fq_split :: "first_month_cents option"

text \<open>The amounts of \<open>buildFirstPaymentQuote\<close>, which shows each divided by 100.\<close>

definition buildFirstPaymentQuote :: "first_payment_args \<Rightarrow> first_payment_quote" where
  "buildFirstPaymentQuote a =
     (let monthCents = cents_of (fp_monthlyPrice a);
          plan = (if \<not> fp_preOpening a \<and> fp_prorated a \<and> fp_months a = 1 then fp_firstMonth a else None);
          split = map_option (firstMonthCents monthCents) plan;
          subtotal = (case split of Some m \<Rightarrow> fmc_total m | None \<Rightarrow> monthCents * fp_months a);
          discount = min (max 0 (cents_of (fp_discountAmount a))) subtotal;
          rentTotal = subtotal - discount;
          vat = (\<lambda>k. math_round (ndiv (nmul (of_int k) (nadd 100 (fp_vatRate a))) 100));
          withVat = (case split of Some m \<Rightarrow> vat (fmc_firstMonth m) + vat (fmc_nextMonth m)
                      | None \<Rightarrow> vat rentTotal);
          deposit = cents_of (fp_deposit a);
          insurance = cents_of (fp_insuranceWithVat a)
      in \<lparr>fq_months = fp_months a, fq_rentSubtotal = subtotal, fq_discount = discount,
          fq_freeMonths = fp_freeMonths a, fq_rentTotal = rentTotal, fq_rentWithVat = withVat,
          fq_insurance = insurance, fq_deposit = deposit, fq_totalToPay = withVat + insurance + deposit,
          fq_prorated = (if fp_preOpening a then False else fp_prorated a), fq_split = split\<rparr>)"

section \<open>The service\<close>

definition normalizeCode :: "string \<Rightarrow> string" where
  "normalizeCode s = toUpperCase (trim s)"

definition find_coupon :: "letting \<Rightarrow> string \<Rightarrow> coupon_row option" where
  "find_coupon s key = find_first (\<lambda>r. cou_code r = normalizeCode key) (coupons s)"

definition coupon_of :: "letting \<Rightarrow> id \<Rightarrow> coupon_row result" where
  "coupon_of s i = found (find_first (\<lambda>r. cou_id r = i) (coupons s)) (NotFoundException ''coupon_not_found'')"

definition count_distinct :: "id list \<Rightarrow> nat" where
  "count_distinct is = length (remdups is)"

definition assertScopeIds :: "letting \<Rightarrow> id list \<Rightarrow> id list \<Rightarrow> unit result" where
  "assertScopeIds s unitTypeIds facilityIds =
     (if unitTypeIds = [] \<and> facilityIds = [] then Inr ()
      else guard (count_rows (\<lambda>t. t \<in> set unitTypeIds) (unit_types s) = count_distinct unitTypeIds \<and>
                  count_rows (\<lambda>f. fac_id f \<in> set facilityIds \<and> \<not> fac_deleted f) (facilities (base s)) =
                    count_distinct facilityIds)
             (BadRequestException ''invalid_scope''))"

text \<open>A new row: its identifier is the next one, whatever the request says.\<close>

definition create_coupon :: "coupon_row \<Rightarrow> letting \<Rightarrow> (letting \<times> id) result" where
  "create_coupon input s =
     bindr (assertScopeIds s (cou_unitTypeIds input) (cou_facilityIds input)) (\<lambda>_.
     let i = next_id (base s)
     in if \<exists>r\<in>set (coupons s). cou_code r = cou_code input
        then Inl (ConflictException ''coupon_code_taken'')
        else Inr (s\<lparr>coupons := create_row (input\<lparr>cou_id := i, cou_usedCount := 0\<rparr>) (coupons s),
                    base := (base s)\<lparr>next_id := Suc i\<rparr>\<rparr>, i))"

record coupon_update =
  cu_name :: "string option"
  cu_discountType :: "discount_type option"
  cu_discountValue :: "rat option"
  cu_minMonths :: "int option"
  cu_minAmount :: "cents option option"
  cu_unitTypeIds :: "id list option"
  cu_facilityIds :: "id list option"
  cu_newCustomersOnly :: "bool option"
  cu_oncePerCustomer :: "bool option"
  cu_preOpeningOnly :: "bool option"
  cu_maxUses :: "int option option"
  cu_validFrom :: "instant option option"
  cu_validUntil :: "instant option option"
  cu_isActive :: "bool option"

definition given :: "'a option \<Rightarrow> 'a \<Rightarrow> 'a" where
  "given x old = (case x of None \<Rightarrow> old | Some v \<Rightarrow> v)"

definition apply_coupon_update :: "coupon_update \<Rightarrow> coupon_row \<Rightarrow> coupon_row" where
  "apply_coupon_update u r =
     r\<lparr>cou_name := given (cu_name u) (cou_name r), cou_discountType := given (cu_discountType u) (cou_discountType r),
       cou_discountValue := given (cu_discountValue u) (cou_discountValue r),
       cou_minMonths := given (cu_minMonths u) (cou_minMonths r),
       cou_minAmount := given (cu_minAmount u) (cou_minAmount r),
       cou_unitTypeIds := given (cu_unitTypeIds u) (cou_unitTypeIds r),
       cou_facilityIds := given (cu_facilityIds u) (cou_facilityIds r),
       cou_newCustomersOnly := given (cu_newCustomersOnly u) (cou_newCustomersOnly r),
       cou_oncePerCustomer := given (cu_oncePerCustomer u) (cou_oncePerCustomer r),
       cou_preOpeningOnly := given (cu_preOpeningOnly u) (cou_preOpeningOnly r),
       cou_maxUses := given (cu_maxUses u) (cou_maxUses r),
       cou_validFrom := given (cu_validFrom u) (cou_validFrom r),
       cou_validUntil := given (cu_validUntil u) (cou_validUntil r),
       cou_isActive := given (cu_isActive u) (cou_isActive r)\<rparr>"

definition update_coupon :: "id \<Rightarrow> coupon_update \<Rightarrow> letting \<Rightarrow> letting result" where
  "update_coupon i u s =
     bindr (coupon_of s i) (\<lambda>current.
     let r = apply_coupon_update u current
     in bindr (guard (couponRuleIssues (cou_discountType r) (cou_discountValue r) (cou_minMonths r)
                        (cou_validFrom r) (cou_validUntil r) = [])
                 (BadRequestException ''invalid_coupon'')) (\<lambda>_.
        bindr (assertScopeIds s (given (cu_unitTypeIds u) []) (given (cu_facilityIds u) [])) (\<lambda>_.
        Inr (s\<lparr>coupons := update_many (\<lambda>r. cou_id r = i) (apply_coupon_update u) (coupons s)\<rparr>))))"

text \<open>Deleting a coupon takes its uses with it (\<open>onDelete: Cascade\<close>); one already used is not deleted.\<close>

definition remove_coupon :: "id \<Rightarrow> letting \<Rightarrow> letting result" where
  "remove_coupon i s =
     bindr (coupon_of s i) (\<lambda>c.
     bindr (guard (\<not> 0 < cou_usedCount c) (ConflictException ''coupon_in_use'')) (\<lambda>_.
     Inr (s\<lparr>coupons := filter (\<lambda>r. cou_id r \<noteq> i) (coupons s),
            redemptions := filter (\<lambda>r. red_couponId r \<noteq> i) (redemptions s)\<rparr>)))"

definition isNewCustomer :: "letting \<Rightarrow> id \<Rightarrow> bool" where
  "isNewCustomer s cu = (count_rows (\<lambda>c. con_customerId c = cu \<and> con_signedAt c \<noteq> None) (contracts (base s)) = 0)"

definition usedByCustomer :: "letting \<Rightarrow> string \<Rightarrow> id \<Rightarrow> bool" where
  "usedByCustomer s key cu =
     (0 < count_rows (\<lambda>r. red_customerId r = Some cu \<and>
            (\<exists>c\<in>set (coupons s). cou_id c = red_couponId r \<and> cou_code c = normalizeCode key)) (redemptions s))"

definition quote :: "env \<Rightarrow> letting \<Rightarrow> string \<Rightarrow> coupon_context \<Rightarrow> coupon_quote" where
  "quote e s key c =
     (case find_coupon s key of None \<Rightarrow> Rejected Coupon_not_found | Some r \<Rightarrow> quoteCoupon r c (now e))"

definition validateForUnit ::
  "env \<Rightarrow> letting \<Rightarrow> string \<Rightarrow> id \<Rightarrow> int \<Rightarrow> rat option \<Rightarrow> id option \<Rightarrow> coupon_quote result" where
  "validateForUnit e s key u months monthlyPrice customer =
     bindr (found (find_unit (base s) u) (NotFoundException ''unit_not_found'')) (\<lambda>r.
     let opening = (case facility_of_unit s r of None \<Rightarrow> False | Some f \<Rightarrow> fac_preOpening f)
     in Inr (quote e s key
          \<lparr>cc_monthlyPrice = given monthlyPrice (euros (unit_basePrice r)),
           cc_months = (if opening then 1 else months), cc_unitTypeId = Some (unit_unitTypeId r),
           cc_facilityId = Some (unit_facilityId r),
           cc_isNewCustomer = map_option (isNewCustomer s) customer,
           cc_usedByCustomer = map_option (usedByCustomer s key) customer, cc_preOpening = opening\<rparr>))"

text \<open>The summary of the first payment; a coupon that does not hold leaves the rent as it is.\<close>

definition quoteFirstPayment ::
  "env \<Rightarrow> letting \<Rightarrow> rat \<Rightarrow> int \<Rightarrow> id \<Rightarrow> id \<Rightarrow> bool \<Rightarrow> rat \<Rightarrow> string option \<Rightarrow> bool option \<Rightarrow> id option
    \<Rightarrow> date option \<Rightarrow> bool \<Rightarrow> first_payment_quote \<times> coupon_quote option" where
  "quoteFirstPayment e s monthlyPrice months unitType facility housing deposit couponCode isNew customer startDate opening =
     (let key = (case couponCode of None \<Rightarrow> None | Some k \<Rightarrow> if trim k = [] then None else Some (trim k));
          q = map_option (\<lambda>k. quote e s k
                \<lparr>cc_monthlyPrice = monthlyPrice, cc_months = months, cc_unitTypeId = Some unitType,
                 cc_facilityId = Some facility, cc_isNewCustomer = isNew,
                 cc_usedByCustomer = map_option (usedByCustomer s k) customer, cc_preOpening = opening\<rparr>) key;
          valid = (case q of Some (Accepted a) \<Rightarrow> Some a | _ \<Rightarrow> None)
      in (buildFirstPaymentQuote
            \<lparr>fp_monthlyPrice = monthlyPrice, fp_months = months, fp_vatRate = fst (rentTax housing),
             fp_discountAmount = (case valid of None \<Rightarrow> 0 | Some a \<Rightarrow> cq_discountAmount a),
             fp_freeMonths = (case valid of None \<Rightarrow> 0 | Some a \<Rightarrow> cq_freeMonths a),
             fp_deposit = deposit, fp_insuranceWithVat = 0, fp_prorated = (months = 1 \<and> valid = None),
             fp_firstMonth = map_option (\<lambda>d. firstMonthPlan d (set_nextMonthFromDay (settings s))) startDate,
             fp_preOpening = opening\<rparr>, q))"

record redeemed_coupon =
  rdc_couponId :: id
  rdc_code :: string
  rdc_quote :: accepted_quote

definition reason_code :: "reject_reason \<Rightarrow> string" where
  "reason_code r =
     (case r of Coupon_not_found \<Rightarrow> ''coupon_not_found'' | Inactive \<Rightarrow> ''coupon_inactive''
      | Not_started \<Rightarrow> ''coupon_not_started'' | Expired \<Rightarrow> ''coupon_expired''
      | Max_uses_reached \<Rightarrow> ''coupon_max_uses_reached'' | Invalid_months \<Rightarrow> ''coupon_invalid_months''
      | Min_months \<Rightarrow> ''coupon_min_months'' | Min_amount \<Rightarrow> ''coupon_min_amount''
      | Wrong_unit_type \<Rightarrow> ''coupon_unit_type'' | Wrong_facility \<Rightarrow> ''coupon_facility''
      | New_customers_only \<Rightarrow> ''coupon_new_customers_only'' | Already_used \<Rightarrow> ''coupon_already_used''
      | Pre_opening_only \<Rightarrow> ''coupon_pre_opening_only'')"

text \<open>The conditional increment of \<open>redeemInTx\<close>: no row fits when the coupon is off or used up.\<close>

definition claimable :: "coupon_row \<Rightarrow> coupon_row \<Rightarrow> bool" where
  "claimable read r \<longleftrightarrow> cou_id r = cou_id read \<and> cou_isActive r \<and>
     (case cou_maxUses read of None \<Rightarrow> True | Some m \<Rightarrow> cou_usedCount r < m)"

definition redeemInTx ::
  "env \<Rightarrow> string \<Rightarrow> coupon_context \<Rightarrow> id option \<Rightarrow> letting \<Rightarrow> (letting \<times> redeemed_coupon) result" where
  "redeemInTx e key ctx customerId s =
     bindr (found (find_coupon s key) (BadRequestException ''coupon_not_found'')) (\<lambda>c.
     let used = (case customerId of
                   Some cu \<Rightarrow>
                     (if cou_oncePerCustomer c
                      then Some (0 < count_rows (\<lambda>r. red_couponId r = cou_id c \<and> red_customerId r = Some cu)
                                       (redemptions s))
                      else None)
                 | None \<Rightarrow> None)
     in case quoteCoupon c (ctx\<lparr>cc_usedByCustomer := used\<rparr>) (now e) of
          Rejected why \<Rightarrow> Inl (BadRequestException (reason_code why))
        | Accepted q \<Rightarrow>
            (if count_rows (claimable c) (coupons s) = 0
             then Inl (BadRequestException ''coupon_max_uses_reached'')
             else Inr (s\<lparr>coupons := update_many (claimable c) (\<lambda>r. r\<lparr>cou_usedCount := cou_usedCount r + 1\<rparr>) (coupons s)\<rparr>,
                       \<lparr>rdc_couponId = cou_id c, rdc_code = cou_code c, rdc_quote = q\<rparr>)))"

text \<open>
  The use as a row; the index \<open>coupon_redemptions_contract_key\<close> allows one for each contract.
\<close>

definition recordRedemptionInTx ::
  "redeemed_coupon \<Rightarrow> id option \<Rightarrow> id option \<Rightarrow> id option \<Rightarrow> letting \<Rightarrow> letting result" where
  "recordRedemptionInTx rd customerId contractId invoiceId s =
     (let i = next_id (base s)
      in if contractId \<noteq> None \<and> (\<exists>r\<in>set (redemptions s). red_contractId r = contractId) then Inl UniqueViolation
         else Inr (s\<lparr>redemptions := create_row
                \<lparr>red_id = i, red_couponId = rdc_couponId rd, red_customerId = customerId,
                 red_contractId = contractId, red_invoiceId = invoiceId, red_months = cq_months (rdc_quote rd),
                 red_discountAmount = toCents (cq_discountAmount (rdc_quote rd)),
                 red_freeMonths = cq_freeMonths (rdc_quote rd)\<rparr> (redemptions s),
              base := (base s)\<lparr>next_id := Suc i\<rparr>\<rparr>))"

definition first_payment_collected :: "letting \<Rightarrow> redemption_row \<Rightarrow> bool" where
  "first_payment_collected s r =
     (case red_invoiceId r of
        None \<Rightarrow> False
      | Some i \<Rightarrow>
          (case find_invoice (base s) i of
             None \<Rightarrow> False
           | Some iv \<Rightarrow> 0 < inv_amountPaid iv \<or> inv_status iv \<in> {Paid, Refunded, Partially_refunded}))"

definition releaseForContractInTx :: "id \<Rightarrow> letting \<Rightarrow> letting" where
  "releaseForContractInTx c s =
     (case find_first (\<lambda>r. red_contractId r = Some c) (redemptions s) of
        None \<Rightarrow> s
      | Some use \<Rightarrow>
          (if first_payment_collected s use then s
           else s\<lparr>redemptions := filter (\<lambda>r. red_id r \<noteq> red_id use) (redemptions s),
                  coupons := update_many (\<lambda>r. cou_id r = red_couponId use \<and> 0 < cou_usedCount r)
                    (\<lambda>r. r\<lparr>cou_usedCount := cou_usedCount r - 1\<rparr>) (coupons s)\<rparr>))"

section \<open>Promotions\<close>

definition round2 :: "rat \<Rightarrow> rat" where
  "round2 x = ndiv (of_int (math_round (nmul x 100))) 100"

definition checkUsable :: "env \<Rightarrow> promotion_row \<Rightarrow> id option \<Rightarrow> string option" where
  "checkUsable e p u =
     (if \<exists>only. pro_unitId p = Some only \<and> u \<noteq> Some only then Some ''not_for_unit''
      else if \<not> pro_isActive p then Some ''inactive''
      else if \<exists>f. pro_validFrom p = Some f \<and> now e < f then Some ''not_started''
      else if \<exists>t. pro_validUntil p = Some t \<and> t < now e then Some ''expired''
      else if \<exists>m. pro_maxUses p = Some m \<and> m \<le> pro_usedCount p then Some ''max_uses_reached''
      else None)"

definition computeDiscount :: "promotion_row \<Rightarrow> rat \<Rightarrow> rat" where
  "computeDiscount p monthlyPrice =
     (let raw = (if pro_discountType p = Percentage then ndiv (nmul monthlyPrice (pro_discountValue p)) 100
                 else min (pro_discountValue p) monthlyPrice)
      in min (round2 raw) (round2 monthlyPrice))"

record applied_promotion =
  apr_discountAmount :: rat
  apr_reason :: string
  apr_freeMonths :: int
  apr_promotionId :: id

definition free_label :: "int \<Rightarrow> string" where
  "free_label n = (if max 0 n = 1 then '' (1 mes gratis)'' else '' ('' @ show_int (max 0 n) @ '' meses gratis)'')"

definition applyToContractTx ::
  "env \<Rightarrow> string \<Rightarrow> rat \<Rightarrow> id \<Rightarrow> letting \<Rightarrow> (letting \<times> applied_promotion) result" where
  "applyToContractTx e key monthlyPrice u s =
     bindr (found (find_first (\<lambda>p. pro_code p = normalizeCode key) (promotions s))
              (NotFoundException ''promotion_not_found'')) (\<lambda>p.
     case checkUsable e p (Some u) of
       Some why \<Rightarrow> Inl (ConflictException (''promotion_'' @ why))
     | None \<Rightarrow>
         (let fits = (\<lambda>r. pro_id r = pro_id p \<and>
                (case pro_maxUses p of None \<Rightarrow> True | Some m \<Rightarrow> pro_usedCount r < m))
          in if count_rows fits (promotions s) = 0 then Inl (ConflictException ''promotion_max_uses_reached'')
             else Inr (s\<lparr>promotions := update_many fits (\<lambda>r. r\<lparr>pro_usedCount := pro_usedCount r + 1\<rparr>) (promotions s)\<rparr>,
               if pro_discountType p = Free_months
               then \<lparr>apr_discountAmount = 0, apr_reason = ''Promocion '' @ pro_code p @ free_label (math_trunc (pro_discountValue p)),
                     apr_freeMonths = max 0 (math_trunc (pro_discountValue p)), apr_promotionId = pro_id p\<rparr>
               else \<lparr>apr_discountAmount = computeDiscount p monthlyPrice, apr_reason = ''Promocion '' @ pro_code p,
                     apr_freeMonths = 0, apr_promotionId = pro_id p\<rparr>)))"

section \<open>Amounts of a coupon\<close>

lemma quoteCoupon_AcceptedE:
  assumes "quoteCoupon r c t = Accepted q"
  obtains month discount where "month = max 0 (cents_of (cc_monthlyPrice c))"
    and "cq_rentSubtotal q = euros (month * cc_months c)" and "cq_discountAmount q = euros discount"
    and "cq_rentTotal q = euros (month * cc_months c - discount)" and "cq_months q = cc_months c"
    and "discount = min (max 0 (fst (coupon_discount r (cc_months c) month))) (month * cc_months c)"
    and "cq_freeMonths q = snd (coupon_discount r (cc_months c) month)"
    and "coupon_rejects r c t = None"
    and "\<And>a. cou_minAmount r = Some a \<Longrightarrow> cents_of (euros a) \<le> month * cc_months c"
proof -
  let ?m = "max 0 (cents_of (cc_monthlyPrice c))"
  have ok: "coupon_rejects r c t = None"
    using assms by (cases "coupon_rejects r c t") (simp_all add: quoteCoupon_def)
  have least: "\<not> (\<exists>a. cou_minAmount r = Some a \<and> ?m * cc_months c < cents_of (euros a))"
    using assms ok by (auto simp: quoteCoupon_def Let_def)
  obtain d free where d: "coupon_discount r (cc_months c) ?m = (d, free)" by (cases "coupon_discount r (cc_months c) ?m")
  have q: "q = \<lparr>cq_months = cc_months c, cq_rentSubtotal = euros (?m * cc_months c),
      cq_discountAmount = euros (min (max 0 d) (?m * cc_months c)), cq_freeMonths = free,
      cq_rentTotal = euros (?m * cc_months c - min (max 0 d) (?m * cc_months c))\<rparr>"
    using assms ok least d by (simp add: quoteCoupon_def Let_def)
  show thesis
    by (rule that [of ?m "min (max 0 d) (?m * cc_months c)"]) (use q d ok least in auto)
qed

lemma coupon_rejects_None:
  assumes "coupon_rejects r c t = None"
  shows "1 \<le> cc_months c" and "cc_months c \<le> 12" and "cou_minMonths r \<le> cc_months c" and "cou_isActive r"
    and "cou_maxUses r = Some m \<Longrightarrow> cou_usedCount r < m"
    and "cou_oncePerCustomer r \<Longrightarrow> cc_usedByCustomer c \<noteq> Some True"
  using assms by (auto simp: coupon_rejects_def COUPON_MAX_MONTHS_def split: if_splits)

section \<open>Uses of a coupon\<close>

definition uses_of :: "letting \<Rightarrow> id \<Rightarrow> int" where
  "uses_of s i = int (count_rows (\<lambda>r. red_couponId r = i) (redemptions s))"

text \<open>Every coupon counts its uses, and rows have identifiers of their own.\<close>

definition uses_ok :: "letting \<Rightarrow> bool" where
  "uses_ok s \<longleftrightarrow>
     distinct (map cou_id (coupons s)) \<and> distinct (map red_id (redemptions s)) \<and>
     (\<forall>c\<in>set (coupons s). cou_usedCount c = uses_of s (cou_id c) \<and> cou_id c < next_id (base s)) \<and>
     (\<forall>r\<in>set (redemptions s). red_id r < next_id (base s) \<and> red_couponId r < next_id (base s))"

lemma uses_ok_frame:
  assumes "uses_ok s" and "coupons s' = coupons s" and "redemptions s' = redemptions s"
    and "next_id (base s) \<le> next_id (base s')"
  shows "uses_ok s'"
  using assms by (auto simp: uses_ok_def uses_of_def intro: less_le_trans)

lemma create_coupon_uses:
  assumes "uses_ok s" and "create_coupon input s = Inr (s', i)"
  shows "uses_ok s'"
proof -
  have none: "count_rows (\<lambda>r. red_couponId r = next_id (base s)) (redemptions s) = 0"
    using assms(1) by (auto simp: uses_ok_def count_rows_eq_0)
  have "next_id (base s) \<notin> cou_id ` set (coupons s)" using assms(1) by (auto simp: uses_ok_def)
  then show ?thesis
    using assms none unfolding create_coupon_def Let_def
    by (auto simp: bindr_eq_Inr uses_ok_def uses_of_def create_row_def less_Suc_eq split: if_splits)
qed

lemma map_cou_id_update [simp]:
  "map cou_id (update_many p (apply_coupon_update u) rows) = map cou_id rows"
  "map cou_id (update_many p (\<lambda>r. r\<lparr>cou_usedCount := f r\<rparr>) rows) = map cou_id rows"
  by (rule map_update_many_inv, simp add: apply_coupon_update_def)+

lemma update_coupon_uses:
  assumes "uses_ok s" and "update_coupon i u s = Inr s'"
  shows "uses_ok s'"
  using assms unfolding update_coupon_def Let_def
  by (auto simp: bindr_eq_Inr uses_ok_def uses_of_def apply_coupon_update_def elim!: in_update_manyE split: if_splits)

lemma count_rows_filter_other:
  "(\<And>r. p r \<Longrightarrow> q r) \<Longrightarrow> count_rows p (filter q rows) = count_rows p rows"
  by (induction rows) auto

lemma remove_coupon_uses:
  assumes "uses_ok s" and "remove_coupon i s = Inr s'"
  shows "uses_ok s'"
proof -
  have "count_rows (\<lambda>r. red_couponId r = j) (filter (\<lambda>r. red_couponId r \<noteq> i) (redemptions s)) =
      count_rows (\<lambda>r. red_couponId r = j) (redemptions s)" if "j \<noteq> i" for j
    using that by (intro count_rows_filter_other) auto
  then show ?thesis
    using assms unfolding remove_coupon_def
    by (auto simp: bindr_eq_Inr uses_ok_def uses_of_def intro: distinct_map_filter)
qed

text \<open>Taking a use and writing it down.\<close>

lemma redeemInTx_InrE:
  assumes "redeemInTx e key ctx cu s = Inr (s', rd)"
  obtains c where "find_coupon s key = Some c" and "c \<in> set (coupons s)"
    and "rdc_couponId rd = cou_id c" and "rdc_code rd = cou_code c"
    and "\<exists>used. quoteCoupon c (ctx\<lparr>cc_usedByCustomer := used\<rparr>) (now e) = Accepted (rdc_quote rd)"
    and "s' = s\<lparr>coupons := update_many (claimable c) (\<lambda>r. r\<lparr>cou_usedCount := cou_usedCount r + 1\<rparr>) (coupons s)\<rparr>"
    and "cou_isActive c" and "\<And>m. cou_maxUses c = Some m \<Longrightarrow> cou_usedCount c < m"
proof -
  obtain c where c: "find_coupon s key = Some c" using assms by (auto simp: redeemInTx_def bindr_eq_Inr)
  define used where "used = (case cu of Some x \<Rightarrow> (if cou_oncePerCustomer c
      then Some (0 < count_rows (\<lambda>r. red_couponId r = cou_id c \<and> red_customerId r = Some x) (redemptions s))
      else None) | None \<Rightarrow> None)"
  obtain q where q: "quoteCoupon c (ctx\<lparr>cc_usedByCustomer := used\<rparr>) (now e) = Accepted q"
    and s': "s' = s\<lparr>coupons := update_many (claimable c) (\<lambda>r. r\<lparr>cou_usedCount := cou_usedCount r + 1\<rparr>) (coupons s)\<rparr>"
    and rd: "rd = \<lparr>rdc_couponId = cou_id c, rdc_code = cou_code c, rdc_quote = q\<rparr>"
    using assms c unfolding redeemInTx_def used_def
    by (auto simp: Let_def split: coupon_quote.splits if_splits)
  have ok: "coupon_rejects c (ctx\<lparr>cc_usedByCustomer := used\<rparr>) (now e) = None"
    using q by (cases "coupon_rejects c (ctx\<lparr>cc_usedByCustomer := used\<rparr>) (now e)") (simp_all add: quoteCoupon_def)
  show thesis
    by (rule that [OF c]) (use q s' rd coupon_rejects_None [OF ok] find_first_SomeD [OF c [unfolded find_coupon_def]] in auto)
qed

lemma use_coupon_uses:
  assumes ok: "uses_ok s" and redeem: "redeemInTx e key ctx cu s = Inr (s1, rd)"
    and written: "recordRedemptionInTx rd customer contract invoice s2 = Inr s'"
    and same: "coupons s2 = coupons s1" "redemptions s2 = redemptions s1" "next_id (base s1) \<le> next_id (base s2)"
  shows "uses_ok s'"
proof -
  obtain c where c: "c \<in> set (coupons s)" and rd: "rdc_couponId rd = cou_id c"
    and s1: "s1 = s\<lparr>coupons := update_many (claimable c) (\<lambda>r. r\<lparr>cou_usedCount := cou_usedCount r + 1\<rparr>) (coupons s)\<rparr>"
    and active: "cou_isActive c" and room: "\<And>m. cou_maxUses c = Some m \<Longrightarrow> cou_usedCount c < m"
    by (rule redeemInTx_InrE [OF redeem], rule that) assumption+
  have coupons1: "coupons s1 = update_many (claimable c) (\<lambda>r. r\<lparr>cou_usedCount := cou_usedCount r + 1\<rparr>) (coupons s)"
    by (simp add: s1)
  have dist: "distinct (map cou_id (coupons s))" using ok by (simp add: uses_ok_def)
  have fits: "claimable c r \<longleftrightarrow> cou_id r = cou_id c" if "r \<in> set (coupons s)" for r
  proof -
    have "r = c" if "cou_id r = cou_id c" using dist \<open>r \<in> set (coupons s)\<close> c that by (auto simp: distinct_map inj_on_def)
    then show ?thesis using active room by (auto simp: claimable_def split: option.splits)
  qed
  let ?new = "\<lambda>i. \<lparr>red_id = i, red_couponId = cou_id c, red_customerId = customer, red_contractId = contract,
      red_invoiceId = invoice, red_months = cq_months (rdc_quote rd),
      red_discountAmount = toCents (cq_discountAmount (rdc_quote rd)), red_freeMonths = cq_freeMonths (rdc_quote rd)\<rparr>"
  have s': "redemptions s' = redemptions s @ [?new (next_id (base s2))]" "coupons s' = coupons s1"
    "next_id (base s') = Suc (next_id (base s2))"
    using written same s1 rd by (auto simp: recordRedemptionInTx_def create_row_def Let_def split: if_splits)
  have le: "next_id (base s) \<le> next_id (base s2)" using same(3) s1 by simp
  have counts: "cou_usedCount x = uses_of s' (cou_id x) \<and> cou_id x < next_id (base s')"
    if row: "x \<in> set (coupons s')" for x
  proof -
    obtain r where r: "r \<in> set (coupons s)"
      and x: "x = (if claimable c r then r\<lparr>cou_usedCount := cou_usedCount r + 1\<rparr> else r)"
      using row unfolding s'(2) coupons1 by (rule in_update_manyE)
    have "cou_usedCount r = uses_of s (cou_id r)" "cou_id r < next_id (base s)"
      using ok r by (auto simp: uses_ok_def)
    then show ?thesis using x fits [OF r] le by (auto simp: uses_of_def s'(1,3) count_rows_append)
  qed
  have old: "red_id r < Suc (next_id (base s2)) \<and> red_couponId r < Suc (next_id (base s2))"
    if "r \<in> set (redemptions s)" for r
    using ok that le by (auto simp: uses_ok_def intro: less_le_trans less_SucI)
  have "red_id r < next_id (base s)" if "r \<in> set (redemptions s)" for r using ok that by (simp add: uses_ok_def)
  then have fresh: "next_id (base s2) \<notin> red_id ` set (redemptions s)" using le by fastforce
  have "cou_id c < next_id (base s)" using ok c by (simp add: uses_ok_def)
  then have "cou_id c < Suc (next_id (base s2))" using le by simp
  then have rows: "\<forall>r\<in>set (redemptions s'). red_id r < next_id (base s') \<and> red_couponId r < next_id (base s')"
    using old unfolding s'(1,3) by auto
  have "distinct (map red_id (redemptions s'))" using ok fresh by (simp add: s'(1) uses_ok_def)
  moreover have "distinct (map cou_id (coupons s'))" using dist by (simp add: s'(2) s1)
  ultimately show ?thesis using rows counts unfolding uses_ok_def by blast
qed

lemma count_rows_remove_one:
  assumes "distinct (map red_id rows)" and "x \<in> set rows"
  shows "count_rows (\<lambda>r. red_couponId r = j) rows =
    (if red_couponId x = j then 1 else 0) + count_rows (\<lambda>r. red_couponId r = j) (filter (\<lambda>r. red_id r \<noteq> red_id x) rows)"
  using assms
proof (induction rows)
  case Nil
  then show ?case by simp
next
  case (Cons a rows)
  have "filter (\<lambda>r. red_id r \<noteq> red_id a) rows = rows" using Cons.prems(1) by (auto simp: filter_id_conv image_iff)
  then show ?case using Cons by (cases "x = a") auto
qed

lemma release_coupon_uses:
  assumes ok: "uses_ok s"
  shows "uses_ok (releaseForContractInTx c s)"
proof (cases "find_first (\<lambda>r. red_contractId r = Some c) (redemptions s)")
  case None
  then show ?thesis using ok by (simp add: releaseForContractInTx_def)
next
  case (Some x)
  show ?thesis
  proof (cases "first_payment_collected s x")
    case True
    then show ?thesis using ok Some by (simp add: releaseForContractInTx_def)
  next
    case False
    let ?s = "releaseForContractInTx c s"
    let ?p = "\<lambda>r. cou_id r = red_couponId x \<and> 0 < cou_usedCount r"
    have x: "x \<in> set (redemptions s)" using find_first_SomeD [OF Some] by simp
    have s': "redemptions ?s = filter (\<lambda>r. red_id r \<noteq> red_id x) (redemptions s)"
      "coupons ?s = update_many ?p (\<lambda>r. r\<lparr>cou_usedCount := cou_usedCount r - 1\<rparr>) (coupons s)" "base ?s = base s"
      using Some False by (simp_all add: releaseForContractInTx_def)
    have dist: "distinct (map red_id (redemptions s))" using ok by (simp add: uses_ok_def)
    note one = count_rows_remove_one [OF dist x]
    have counts: "cou_usedCount y = uses_of ?s (cou_id y) \<and> cou_id y < next_id (base ?s)"
      if row: "y \<in> set (coupons ?s)" for y
    proof -
      obtain r where r: "r \<in> set (coupons s)" and y: "y = (if ?p r then r\<lparr>cou_usedCount := cou_usedCount r - 1\<rparr> else r)"
        using row unfolding s'(2) by (rule in_update_manyE)
      have "cou_usedCount r = uses_of s (cou_id r)" "cou_id r < next_id (base s)" using ok r by (auto simp: uses_ok_def)
      then show ?thesis using y one [of "cou_id r"] by (auto simp: uses_of_def s'(1,3))
    qed
    have "\<forall>r\<in>set (redemptions ?s). red_id r < next_id (base ?s) \<and> red_couponId r < next_id (base ?s)"
      using ok by (simp add: uses_ok_def s'(1,3))
    moreover have "distinct (map red_id (redemptions ?s))" using dist by (simp add: s'(1) distinct_map_filter)
    moreover have "distinct (map cou_id (coupons ?s))" using ok by (simp add: s'(2) uses_ok_def)
    ultimately show ?thesis using counts unfolding uses_ok_def by blast
  qed
qed

end
