(* ===== verification/CouponProperties.thy ===== *)
theory CouponProperties imports Coupons begin

text \<open>
  What coupons promise: the amounts of an accepted coupon, that a coupon counts its uses in every
  reachable state, and that a contract cancelled before its first payment gives its use back.
\<close>

section \<open>Runs\<close>

text \<open>
  The requests over coupons and what the contracts do with them: a use is claimed and written down
  in one transaction, and released when its contract is cancelled. Everything else leaves the two
  tables alone and only draws new identifiers.
\<close>

inductive coupon_step :: "letting \<Rightarrow> letting \<Rightarrow> bool" where
  coupon_created: "create_coupon input s = Inr (s', i) \<Longrightarrow> coupon_step s s'"
| coupon_updated: "update_coupon i u s = Inr s' \<Longrightarrow> coupon_step s s'"
| coupon_removed: "remove_coupon i s = Inr s' \<Longrightarrow> coupon_step s s'"
| coupon_used: "redeemInTx e key ctx cu s = Inr (s1, rd) \<Longrightarrow> coupons s2 = coupons s1 \<Longrightarrow>
    redemptions s2 = redemptions s1 \<Longrightarrow> next_id (base s1) \<le> next_id (base s2) \<Longrightarrow>
    recordRedemptionInTx rd customer contract invoice s2 = Inr s' \<Longrightarrow> coupon_step s s'"
| coupon_released: "s' = releaseForContractInTx c s \<Longrightarrow> coupon_step s s'"
| other_work: "coupons s' = coupons s \<Longrightarrow> redemptions s' = redemptions s \<Longrightarrow>
    next_id (base s) \<le> next_id (base s') \<Longrightarrow> coupon_step s s'"

inductive coupon_reach :: "letting \<Rightarrow> bool" where
  no_coupons: "coupons s = [] \<Longrightarrow> redemptions s = [] \<Longrightarrow> coupon_reach s"
| coupon_next: "coupon_reach s \<Longrightarrow> coupon_step s s' \<Longrightarrow> coupon_reach s'"

lemma coupon_step_uses:
  assumes "coupon_step s s'" and "uses_ok s"
  shows "uses_ok s'"
  using assms
proof cases
  case coupon_created
  then show ?thesis using assms(2) create_coupon_uses by blast
next
  case coupon_updated
  then show ?thesis using assms(2) update_coupon_uses by blast
next
  case coupon_removed
  then show ?thesis using assms(2) remove_coupon_uses by blast
next
  case (coupon_used e key ctx cu s1 rd s2 customer contract invoice)
  show ?thesis by (rule use_coupon_uses [OF assms(2) coupon_used(1,5,2-4)])
next
  case coupon_released
  then show ?thesis using assms(2) release_coupon_uses by simp
next
  case other_work
  show ?thesis by (rule uses_ok_frame [OF assms(2) other_work])
qed

lemma reach_uses: "coupon_reach s \<Longrightarrow> uses_ok s"
proof (induction rule: coupon_reach.induct)
  case (no_coupons s)
  then show ?case by (simp add: uses_ok_def)
next
  case (coupon_next s s')
  show ?case by (rule coupon_step_uses [OF coupon_next.hyps(2) coupon_next.IH])
qed

lemma claimable_same:
  assumes "distinct (map cou_id (coupons s))" and "c \<in> set (coupons s)" and "cou_isActive c"
    and "\<And>m. cou_maxUses c = Some m \<Longrightarrow> cou_usedCount c < m" and "r \<in> set (coupons s)"
  shows "claimable c r \<longleftrightarrow> cou_id r = cou_id c"
proof -
  have "r = c" if "cou_id r = cou_id c" using assms(1,2,5) that by (auto simp: distinct_map inj_on_def)
  then show ?thesis using assms(3,4) by (auto simp: claimable_def split: option.splits)
qed

section \<open>Properties\<close>

text \<open>
  C32: An accepted coupon takes off a whole number of cents between zero and the rent of the months
  paid, and the rent with the coupon is exactly the rest; a coupon of free months always leaves at
  least one month to pay.
\<close>

theorem coupon_discount_bounded:
  assumes "quoteCoupon r c t = Accepted q"
  shows "\<exists>month discount. cq_rentSubtotal q = euros (month * cc_months c) \<and> 0 \<le> month \<and>
    cq_discountAmount q = euros discount \<and> cq_rentTotal q = euros (month * cc_months c - discount) \<and>
    0 \<le> discount \<and> discount \<le> month * cc_months c \<and> 1 \<le> cq_months q \<and> cq_months q \<le> 12 \<and>
    (cou_discountType r = Free_months \<and> 0 \<le> cou_discountValue r \<longrightarrow>
       0 \<le> cq_freeMonths q \<and> cq_freeMonths q < cq_months q \<and> discount = cq_freeMonths q * month \<and>
       month \<le> month * cc_months c - discount)"
proof -
  obtain month discount where m: "month = max 0 (cents_of (cc_monthlyPrice c))"
    and q: "cq_rentSubtotal q = euros (month * cc_months c)" "cq_discountAmount q = euros discount"
      "cq_rentTotal q = euros (month * cc_months c - discount)" "cq_months q = cc_months c"
    and d: "discount = min (max 0 (fst (coupon_discount r (cc_months c) month))) (month * cc_months c)"
    and f: "cq_freeMonths q = snd (coupon_discount r (cc_months c) month)"
    and ok: "coupon_rejects r c t = None"
    by (rule quoteCoupon_AcceptedE [OF assms], rule that) assumption+
  note n = coupon_rejects_None(1,2) [OF ok]
  have m0: "0 \<le> month" using m by simp
  have sub: "0 \<le> month * cc_months c" using m0 n by simp
  have free: "0 \<le> cq_freeMonths q \<and> cq_freeMonths q < cc_months c \<and> discount = cq_freeMonths q * month \<and>
      month \<le> month * cc_months c - discount"
    if ty: "cou_discountType r = Free_months" and v: "0 \<le> cou_discountValue r"
  proof -
    have k: "cq_freeMonths q = min (math_trunc (cou_discountValue r)) (cc_months c - 1)"
      using f ty by (simp add: coupon_discount_def Let_def)
    have b: "0 \<le> cq_freeMonths q" "cq_freeMonths q + 1 \<le> cc_months c" using k v n by (auto simp: math_trunc_def)
    have le: "(cq_freeMonths q + 1) * month \<le> cc_months c * month" using b m0 by (intro mult_right_mono) auto
    have "discount = min (max 0 (cq_freeMonths q * month)) (month * cc_months c)"
      using d ty k by (simp add: coupon_discount_def Let_def)
    moreover have "0 \<le> cq_freeMonths q * month" using b m0 by simp
    ultimately have "discount = cq_freeMonths q * month" using le m0 by (simp add: algebra_simps)
    then show ?thesis using b le by (simp add: algebra_simps)
  qed
  show ?thesis
    by (rule exI [of _ month], rule exI [of _ discount]) (use q m0 sub d n free in auto)
qed

definition sample_coupon :: coupon_row where
  "sample_coupon =
     \<lparr>cou_id = 1, cou_code = ''VERANO'', cou_name = ''Verano'', cou_discountType = Free_months,
      cou_discountValue = 1, cou_minMonths = 3, cou_minAmount = None, cou_unitTypeIds = [],
      cou_facilityIds = [], cou_newCustomersOnly = False, cou_oncePerCustomer = True,
      cou_preOpeningOnly = False, cou_maxUses = Some 2, cou_usedCount = 0, cou_validFrom = None,
      cou_validUntil = None, cou_isActive = True\<rparr>"

definition sample_context :: coupon_context where
  "sample_context =
     \<lparr>cc_monthlyPrice = euros 5000, cc_months = 3, cc_unitTypeId = None, cc_facilityId = None,
      cc_isNewCustomer = None, cc_usedByCustomer = None, cc_preOpening = False\<rparr>"

lemma sample_quote: "\<exists>q. quoteCoupon sample_coupon sample_context t = Accepted q"
proof -
  have "coupon_rejects sample_coupon sample_context t = None"
    by (simp add: coupon_rejects_def sample_coupon_def sample_context_def COUPON_MAX_MONTHS_def)
  then show ?thesis by (simp add: quoteCoupon_def Let_def sample_coupon_def split: prod.splits)
qed

text \<open>Three months at 50.00 with one month free.\<close>

lemma coupon_discount_bounded_witness:
  "\<exists>q month discount. quoteCoupon sample_coupon sample_context 0 = Accepted q \<and>
     cq_discountAmount q = euros discount \<and> 0 \<le> discount \<and> discount \<le> month * 3"
proof -
  obtain q where q: "quoteCoupon sample_coupon sample_context 0 = Accepted q" using sample_quote by blast
  have "cc_months sample_context = 3" by (simp add: sample_context_def)
  then show ?thesis using coupon_discount_bounded [OF q] q by (metis (no_types, lifting))
qed

text \<open>
  C31: In every state the requests lead to, each coupon counts exactly the uses that are written
  down, and a use that is claimed never takes its coupon beyond its limit.
\<close>

theorem coupon_uses_counted:
  assumes "coupon_reach s"
  shows "(\<forall>c\<in>set (coupons s). cou_usedCount c = uses_of s (cou_id c)) \<and>
    (redeemInTx e key ctx cu s = Inr (s', rd) \<longrightarrow>
      (\<exists>c\<in>set (coupons s'). cou_id c = rdc_couponId rd \<and> (\<forall>m. cou_maxUses c = Some m \<longrightarrow> cou_usedCount c \<le> m)))"
proof (intro conjI impI)
  have ok: "uses_ok s" by (rule reach_uses [OF assms])
  then show "\<forall>c\<in>set (coupons s). cou_usedCount c = uses_of s (cou_id c)" by (simp add: uses_ok_def)
  assume "redeemInTx e key ctx cu s = Inr (s', rd)"
  then show "\<exists>c\<in>set (coupons s'). cou_id c = rdc_couponId rd \<and> (\<forall>m. cou_maxUses c = Some m \<longrightarrow> cou_usedCount c \<le> m)"
  proof (rule redeemInTx_InrE)
    fix c
    assume c: "c \<in> set (coupons s)" and rd: "rdc_couponId rd = cou_id c" and act: "cou_isActive c"
      and s': "s' = s\<lparr>coupons := update_many (claimable c) (\<lambda>r. r\<lparr>cou_usedCount := cou_usedCount r + 1\<rparr>) (coupons s)\<rparr>"
      and room: "\<And>m. cou_maxUses c = Some m \<Longrightarrow> cou_usedCount c < m"
    have "distinct (map cou_id (coupons s))" using ok by (simp add: uses_ok_def)
    then have "claimable c c" using claimable_same [OF _ c act room c] by simp
    then have "c\<lparr>cou_usedCount := cou_usedCount c + 1\<rparr> \<in> set (coupons s')"
      using c by (auto simp: s' set_update_many)
    then show ?thesis
      by (rule bexI [rotated]) (use rd room in force)
  qed
qed

definition no_letting :: letting where
  "no_letting =
     \<lparr>base = empty_db, reservations = [], waitlist = [], unit_history = [], contract_events = [],
      coupons = [], redemptions = [], promotions = [], insurance_plans = [], unit_requests = [],
      change_requests = [], unit_types = [], tasks = [], signed_terms = [], signatures = [], letting_events = [],
      settings = \<lparr>set_insuranceFeature = False, set_nextMonthFromDay = Some 20, set_keepSignal = False,
                  set_autoEndContracts = True\<rparr>\<rparr>"

lemma coupon_uses_counted_witness:
  "\<exists>s. coupon_reach s \<and> map cou_code (coupons s) = [''VERANO''] \<and>
     (cou_usedCount (hd (coupons s)) = uses_of s (cou_id (hd (coupons s))))"
proof -
  obtain s' where s': "create_coupon sample_coupon no_letting = Inr (s', 1)" "map cou_code (coupons s') = [''VERANO'']"
    by (simp add: create_coupon_def assertScopeIds_def no_letting_def sample_coupon_def Let_def create_row_def empty_db_def)
  have "coupon_reach no_letting" by (rule no_coupons) (simp_all add: no_letting_def)
  then have r: "coupon_reach s'" by (rule coupon_next) (rule coupon_created [OF s'(1)])
  then have "\<forall>c\<in>set (coupons s'). cou_usedCount c = uses_of s' (cou_id c)" using coupon_uses_counted by blast
  moreover have "hd (coupons s') \<in> set (coupons s')" using s'(2) by (cases "coupons s'") auto
  ultimately show ?thesis using r s'(2) by (intro exI [of _ s']) simp
qed

text \<open>
  A contract cancelled before its first payment is invoiced gives its coupon back: claiming a
  use, writing it down for the contract and releasing it leaves every coupon and every use as they
  were.
\<close>

theorem coupon_use_undone:
  assumes "uses_ok s" and "redeemInTx e key ctx cu s = Inr (s1, rd)"
    and "recordRedemptionInTx rd customer (Some c) None s1 = Inr s2"
  shows "coupons (releaseForContractInTx c s2) = coupons s \<and> redemptions (releaseForContractInTx c s2) = redemptions s"
proof -
  obtain k where k: "k \<in> set (coupons s)" and rd: "rdc_couponId rd = cou_id k"
    and s1: "s1 = s\<lparr>coupons := update_many (claimable k) (\<lambda>r. r\<lparr>cou_usedCount := cou_usedCount r + 1\<rparr>) (coupons s)\<rparr>"
    and act: "cou_isActive k" and room: "\<And>m. cou_maxUses k = Some m \<Longrightarrow> cou_usedCount k < m"
    by (rule redeemInTx_InrE [OF assms(2)], rule that) assumption+
  obtain x where free: "\<forall>r\<in>set (redemptions s). red_contractId r \<noteq> Some c"
    and s2: "redemptions s2 = redemptions s @ [x]" "coupons s2 = coupons s1"
    and x: "red_id x = next_id (base s)" "red_contractId x = Some c" "red_invoiceId x = None"
      "red_couponId x = cou_id k"
    using assms(3) by (auto simp: recordRedemptionInTx_def create_row_def Let_def s1 rd split: if_splits)
  have "find_first (\<lambda>r. red_contractId r = Some c) (redemptions s) = None" using free by (simp add: find_first_None_iff)
  then have first: "find_first (\<lambda>r. red_contractId r = Some c) (redemptions s2) = Some x"
    using x by (simp add: s2 find_first_append)
  have rel: "redemptions (releaseForContractInTx c s2) = filter (\<lambda>r. red_id r \<noteq> red_id x) (redemptions s2)"
    "coupons (releaseForContractInTx c s2) = update_many (\<lambda>r. cou_id r = red_couponId x \<and> 0 < cou_usedCount r)
      (\<lambda>r. r\<lparr>cou_usedCount := cou_usedCount r - 1\<rparr>) (coupons s2)"
    using first x by (simp_all add: releaseForContractInTx_def first_payment_collected_def)
  have "\<forall>r\<in>set (redemptions s). red_id r \<noteq> red_id x" using assms(1) x by (auto simp: uses_ok_def)
  then have "redemptions (releaseForContractInTx c s2) = redemptions s" by (simp add: rel s2 filter_id_conv)
  moreover have "coupons (releaseForContractInTx c s2) = coupons s"
  proof -
    have dist: "distinct (map cou_id (coupons s))" using assms(1) by (simp add: uses_ok_def)
    have undo: "(if cou_id (f r) = cou_id k \<and> 0 < cou_usedCount (f r)
        then (f r)\<lparr>cou_usedCount := cou_usedCount (f r) - 1\<rparr> else f r) = r"
      if r: "r \<in> set (coupons s)" and f: "f = (\<lambda>r. if claimable k r then r\<lparr>cou_usedCount := cou_usedCount r + 1\<rparr> else r)"
      for r f
    proof -
      have "0 \<le> cou_usedCount r" using assms(1) r by (auto simp: uses_ok_def uses_of_def)
      then show ?thesis using claimable_same [OF dist k act room r] by (simp add: f)
    qed
    have "coupons s1 = update_many (claimable k) (\<lambda>r. r\<lparr>cou_usedCount := cou_usedCount r + 1\<rparr>) (coupons s)"
      by (simp add: s1)
    then show ?thesis unfolding rel(2) s2(2) x(4) update_many_def
      by (simp only: map_map) (rule map_idI, drule undo [OF _ refl], simp only: comp_def)
  qed
  ultimately show ?thesis by blast
qed

lemma coupon_use_undone_witness:
  "\<forall>e. \<exists>s s1 rd s2. uses_ok s \<and> redeemInTx e ''verano'' sample_context None s = Inr (s1, rd) \<and>
     recordRedemptionInTx rd None (Some 7) None s1 = Inr s2 \<and> coupons (releaseForContractInTx 7 s2) = coupons s"
proof
  fix e :: env
  let ?s = "no_letting\<lparr>coupons := [sample_coupon], base := empty_db\<lparr>next_id := 2\<rparr>\<rparr>"
  have ok: "uses_ok ?s" by (simp add: uses_ok_def uses_of_def no_letting_def sample_coupon_def)
  have key: "find_coupon ?s ''verano'' = Some sample_coupon"
    by (simp add: find_coupon_def normalizeCode_def no_letting_def, code_simp)
  have none: "sample_context\<lparr>cc_usedByCustomer := None\<rparr> = sample_context" by (simp add: sample_context_def)
  obtain q where q: "quoteCoupon sample_coupon sample_context (now e) = Accepted q" using sample_quote by blast
  have fits: "claimable sample_coupon sample_coupon" by (simp add: claimable_def sample_coupon_def)
  obtain s1 rd where r: "redeemInTx e ''verano'' sample_context None ?s = Inr (s1, rd)"
    and s1: "redemptions s1 = []"
    using key q none fits by (simp add: redeemInTx_def no_letting_def)
  obtain s2 where w: "recordRedemptionInTx rd None (Some 7) None s1 = Inr s2"
    using s1 by (simp add: recordRedemptionInTx_def Let_def)
  show "\<exists>s s1 rd s2. uses_ok s \<and> redeemInTx e ''verano'' sample_context None s = Inr (s1, rd) \<and>
      recordRedemptionInTx rd None (Some 7) None s1 = Inr s2 \<and> coupons (releaseForContractInTx 7 s2) = coupons s"
    using coupon_use_undone [OF ok r w] ok r w by blast
qed

end
