(* ===== verification/FirstInvoice.thy ===== *)
theory FirstInvoice imports Coupons begin

text \<open>
  The first invoice of a contract (\<open>apps/api/src/modules/billing/first-invoice.service.ts\<close>) and the
  balance in favour of a contract (\<open>billing/contract-credit.ts\<close>): the days of the month of entry or
  the whole months paid in advance, the coupon, the insurance, the signal of the reservation taken
  off the rent, and the deposit in a receipt of its own.
\<close>

section \<open>The balance in favour of a contract\<close>

record claimed_credit =
  clc_cents :: cents
  clc_reason :: "string option"

definition no_credit :: claimed_credit where
  "no_credit = \<lparr>clc_cents = 0, clc_reason = None\<rparr>"

text \<open>
  The balance read decides what is claimed; the update asks for the balance it read, so that two
  processes do not take the same one. Here the row read is the row updated.
\<close>

definition claimContractCredit :: "id \<Rightarrow> cents \<Rightarrow> db \<Rightarrow> db \<times> claimed_credit" where
  "claimContractCredit c maxCents d =
     (if maxCents \<le> 0 then (d, no_credit)
      else case find_contract d c of
             None \<Rightarrow> (d, no_credit)
           | Some r \<Rightarrow>
               (let available = con_pendingCredit r
                in if available \<le> 0 then (d, no_credit)
                   else (let k = min available maxCents; left = available - k
                         in (update_contract c (\<lambda>r. r\<lparr>con_pendingCredit := left,
                               con_pendingCreditReason := (if left = 0 then None else con_pendingCreditReason r)\<rparr>) d,
                             \<lparr>clc_cents = k, clc_reason = con_pendingCreditReason r\<rparr>))))"

definition restore_credit :: "id \<Rightarrow> claimed_credit \<Rightarrow> db \<Rightarrow> db" where
  "restore_credit c k d =
     (if clc_cents k = 0 then d
      else update_contract c (\<lambda>r. r\<lparr>con_pendingCredit := con_pendingCredit r + clc_cents k,
             con_pendingCreditReason := clc_reason k\<rparr>) d)"

section \<open>When the first invoice goes out with the signature\<close>

definition needsOnSign :: "letting \<Rightarrow> id \<Rightarrow> bool" where
  "needsOnSign s c =
     (case find_contract (base s) c of
        None \<Rightarrow> False
      | Some r \<Rightarrow>
          (if po_preOpening (con_opening r) \<or> 1 < con_firstPaymentMonths r \<or>
              0 < count_rows (\<lambda>u. red_contractId u = Some c) (redemptions s)
           then True
           else con_billingIntervalMonths r = 1 \<and>
             fmp_includesNextMonth (firstMonthPlan (con_startDate r) (set_nextMonthFromDay (settings s)))))"

section \<open>Its lines\<close>

definition ymd :: "date \<Rightarrow> string" where
  "ymd d = padStart 4 (CHR ''0'') (show_int (year_of d)) @ ''-'' @
     padStart 2 (CHR ''0'') (show_int (month_of d + 1)) @ ''-'' @ padStart 2 (CHR ''0'') (show_int (date_of d))"

record first_lines =
  fst_items :: "item_input list"
  fst_rentLineCount :: nat
  fst_periodStart :: date
  fst_periodEnd :: date
  fst_billingStartsOn :: "date option"

definition rent_line :: "contract_row \<Rightarrow> bool \<Rightarrow> date \<Rightarrow> date \<Rightarrow> string \<Rightarrow> rat \<Rightarrow> rat \<Rightarrow> item_input" where
  "rent_line c housing from until what quantity price =
     \<lparr>ii_description = what, ii_quantity = quantity, ii_unitPrice = price, ii_taxRate = fst (rentTax housing),
      ii_taxCategory = Some (snd (rentTax housing)), ii_relatedContractId = Some (con_id c),
      ii_relatedUnitId = Some (con_unitId c), ii_periodStart = Some from, ii_periodEnd = Some until\<rparr>"

text \<open>The insurance: nothing when there is no plan or its price is not positive.\<close>

definition insurance_line ::
  "letting \<Rightarrow> contract_row \<Rightarrow> string \<Rightarrow> (cents \<Rightarrow> cents) \<Rightarrow> (date \<times> date) option \<Rightarrow> item_input list" where
  "insurance_line s c what price period =
     (case (con_insurancePlanId c, con_insurancePrice c) of
        (Some plan, Some p) \<Rightarrow>
          (if 0 < p
           then [\<lparr>ii_description = ''Proteccion de contenido'' @
                    (case find_first (\<lambda>r. ins_id r = plan) (insurance_plans s) of
                       None \<Rightarrow> [] | Some r \<Rightarrow> (if ins_name r = [] then [] else '' - '' @ ins_name r)) @ '' '' @ what,
                  ii_quantity = 1,
                  ii_unitPrice = euros (price p),
                  ii_taxRate = (case find_first (\<lambda>r. ins_id r = plan) (insurance_plans s) of
                                  None \<Rightarrow> 21 | Some r \<Rightarrow> ins_taxRate r),
                  ii_taxCategory = None, ii_relatedContractId = Some (con_id c), ii_relatedUnitId = None,
                  ii_periodStart = map_option fst period, ii_periodEnd = map_option snd period\<rparr>]
           else [])
      | _ \<Rightarrow> [])"

text \<open>\<open>toCents(Number(priceMonthly) - Number(discountAmount))\<close>.\<close>

definition month_cents :: "contract_row \<Rightarrow> cents" where
  "month_cents c = toCents (nsub (euros (con_priceMonthly c)) (euros (con_discountAmount c)))"

text \<open>A facility not open yet: the first month's rent, without a period.\<close>

definition opening_lines :: "letting \<Rightarrow> contract_row \<Rightarrow> bool \<Rightarrow> redemption_row option \<Rightarrow> first_lines" where
  "opening_lines s c housing coupon =
     (let discount = (case coupon of None \<Rightarrow> 0 | Some u \<Rightarrow> min (red_discountAmount u) (month_cents c))
      in \<lparr>fst_items =
            (rent_line c housing 0 0
               (''Primera mensualidad '' @ con_contractNumber c @
                '' - cubre el primer mes desde la apertura del local'')
               1 (euros (month_cents c - discount)))\<lparr>ii_periodStart := None, ii_periodEnd := None\<rparr> #
            insurance_line s c ''(primer mes desde la apertura)'' id None,
          fst_rentLineCount = 1, fst_periodStart = con_startDate c, fst_periodEnd = con_startDate c,
          fst_billingStartsOn = None\<rparr>)"

text \<open>Whole months from the day of entry: with a coupon, several months or a prepaid interval.\<close>

definition months_label :: "int \<Rightarrow> string" where
  "months_label n = show_int n @ (if n = 1 then '' mes'' else '' meses'')"

definition months_rent ::
  "contract_row \<Rightarrow> bool \<Rightarrow> redemption_row option \<Rightarrow> int \<Rightarrow> date \<Rightarrow> date \<Rightarrow> item_input list" where
  "months_rent c housing coupon months from until =
     (let subtotal = month_cents c * months;
          what = ''Alquiler '' @ con_contractNumber c @ '' ('' @ ymd from @ '' '' @ ymd until @ '', '' @ months_label months;
          ln = rent_line c housing from until
      in case coupon of
           Some u \<Rightarrow>
             (if 0 < red_freeMonths u
              then (let free = min (red_freeMonths u) (months - 1)
                    in [ln (what @ '')'') 1 (euros (month_cents c * (months - free))),
                        ln (if free = 1 then ''Mes gratis'' else show_int free @ '' meses gratis'') (of_int free) 0])
              else [ln (what @ ''; cupon)'') 1 (euros (subtotal - min (red_discountAmount u) subtotal))])
         | None \<Rightarrow>
             (let pct = (if 1 < con_billingIntervalMonths c then con_prepayDiscountPct c else 0)
              in [ln (what @ '')'') 1
                    (ndiv (of_int (math_round (nmul (of_int subtotal) (nsub 1 (ndiv pct 100))))) 100)]))"

definition months_lines :: "letting \<Rightarrow> contract_row \<Rightarrow> bool \<Rightarrow> redemption_row option \<Rightarrow> int \<Rightarrow> first_lines" where
  "months_lines s c housing coupon months =
     (let from = con_startDate c; until = addMonths from months - 1
      in \<lparr>fst_items = months_rent c housing coupon months from until @
            insurance_line s c (''('' @ months_label months @ '')'') (\<lambda>p. p * months) (Some (from, until)),
          fst_rentLineCount = 1, fst_periodStart = from, fst_periodEnd = until,
          fst_billingStartsOn = (if con_billingIntervalMonths c = 1 then Some (until + 1) else None)\<rparr>)"

text \<open>Monthly: the days of the month of entry and, late in the month, the next one too.\<close>

definition monthly_lines :: "letting \<Rightarrow> contract_row \<Rightarrow> bool \<Rightarrow> first_lines" where
  "monthly_lines s c housing =
     (let plan = firstMonthPlan (con_startDate c) (set_nextMonthFromDay (settings s));
          rent = firstMonthCents (month_cents c) plan;
          from = fmp_periodStart plan; until = fmp_periodEnd plan;
          firstMonthEnd = make_date (year_of from) (month_of from + 1) 0;
          what = ''Alquiler '' @ con_contractNumber c
      in \<lparr>fst_items =
            rent_line c housing from firstMonthEnd
              (if fmp_fullFirstMonth plan then what @ '' ('' @ take 7 (ymd from) @ '')''
               else what @ '' ('' @ ymd from @ '' '' @ ymd firstMonthEnd @ '', prorrateado '' @
                 show_int (fmp_days plan) @ ''/'' @ show_int (fmp_daysInMonth plan) @ '' d)'')
              1 (euros (fmc_firstMonth rent)) #
            (case fmp_nextMonthStart plan of
               Some n \<Rightarrow>
                 (if fmp_includesNextMonth plan
                  then [rent_line c housing n until (what @ '' ('' @ take 7 (ymd n) @ '')'') 1
                          (euros (fmc_nextMonth rent))] else [])
             | None \<Rightarrow> []) @
            insurance_line s c (''('' @ ymd from @ '' '' @ ymd until @ '')'') (\<lambda>p. fmc_total (firstMonthCents p plan))
              (Some (from, until)),
          fst_rentLineCount = (if fmp_includesNextMonth plan then 2 else 1),
          fst_periodStart = from, fst_periodEnd = until,
          fst_billingStartsOn = (if fmp_includesNextMonth plan then Some (fmp_billingStartsOn plan) else None)\<rparr>)"

definition first_payment_months :: "contract_row \<Rightarrow> int" where
  "first_payment_months c =
     (if 1 < con_billingIntervalMonths c then con_billingIntervalMonths c else con_firstPaymentMonths c)"

definition first_invoice_lines :: "letting \<Rightarrow> contract_row \<Rightarrow> bool \<Rightarrow> redemption_row option \<Rightarrow> first_lines" where
  "first_invoice_lines s c housing coupon =
     (if isPendingPreOpening c then opening_lines s c housing coupon
      else if 1 < con_billingIntervalMonths c \<or> 1 < first_payment_months c \<or> coupon \<noteq> None
      then months_lines s c housing coupon (first_payment_months c)
      else monthly_lines s c housing)"

text \<open>
  The balance in favour comes off the rent lines, the first one first. The quantity of a rent line
  is a whole number.
\<close>

definition rent_line_cents :: "item_input \<Rightarrow> cents" where
  "rent_line_cents l = toCents (ii_unitPrice l) * \<lfloor>ii_quantity l\<rfloor>"

fun take_off :: "string option \<Rightarrow> cents \<Rightarrow> item_input list \<Rightarrow> item_input list" where
  "take_off why remaining [] = []"
| "take_off why remaining (l # ls) =
     (if remaining \<le> 0 then l # ls
      else (let applied = min (rent_line_cents l) remaining
            in l\<lparr>ii_unitPrice := euros (rent_line_cents l - applied), ii_quantity := 1,
                 ii_description := ii_description l @ '' - descontados '' @ show_cents applied @ '' ('' @
                   (case why of None \<Rightarrow> ''saldo a favor'' | Some w \<Rightarrow> w) @ '')''\<rparr> #
               take_off why (remaining - applied) ls))"

definition with_credit :: "claimed_credit \<Rightarrow> first_lines \<Rightarrow> item_input list" where
  "with_credit k f =
     take_off (clc_reason k) (clc_cents k) (take (fst_rentLineCount f) (fst_items f)) @
     drop (fst_rentLineCount f) (fst_items f)"

section \<open>Issuing it\<close>

definition settleIfZero :: "env \<Rightarrow> id \<Rightarrow> db \<Rightarrow> db" where
  "settleIfZero e i d =
     (case find_invoice d i of
        None \<Rightarrow> d
      | Some r \<Rightarrow>
          (if inv_total r \<noteq> 0 \<or> inv_status r \<notin> {Issued, Overdue} then d
           else emit (Invoice_paid i) (update_invoice i (\<lambda>r. r\<lparr>inv_status := Paid, inv_paidAt := Some (now e)\<rparr>) d)))"

definition first_due_date :: "env \<Rightarrow> contract_row \<Rightarrow> date option" where
  "first_due_date e c =
     (if isPendingPreOpening c
      then Some (utc_day (now e) + (if con_firstPaymentDeadline c \<noteq> None then 3 else 15)) else None)"

definition first_invoice_input ::
  "env \<Rightarrow> contract_row \<Rightarrow> id \<Rightarrow> id \<Rightarrow> first_lines \<Rightarrow> item_input list \<Rightarrow> create_input" where
  "first_invoice_input e c customer sr f lines =
     \<lparr>ci_customerId = Some customer, ci_contractId = Some (con_id c), ci_seriesId = Some sr,
      ci_invoiceType = Some F1, ci_justification = None, ci_issueDate = None,
      ci_dueDate = first_due_date e c,
      ci_periodStart = (if isPendingPreOpening c then None else Some (fst_periodStart f)),
      ci_periodEnd = (if isPendingPreOpening c then None else Some (fst_periodEnd f)),
      ci_notes = None, ci_items = lines\<rparr>"

text \<open>The receipt of the deposit: paid with the invoice unless it is paid in cash at the facility.\<close>

definition first_deposit :: "env \<Rightarrow> contract_row \<Rightarrow> id \<Rightarrow> id \<Rightarrow> db \<Rightarrow> db result" where
  "first_deposit e c customer i d =
     (if \<not> 0 < dep_amount (con_deposit c) then Inr d
      else bindr (createDepositReceipt e d
             \<lparr>ri_contractId = con_id c, ri_customerId = customer, ri_contractNumber = con_contractNumber c,
              ri_amount = dep_amount (con_deposit c),
              ri_dueDate = (if dep_cash (con_deposit c) then None
                            else case find_invoice d i of
                                   Some r \<Rightarrow> (case inv_dueDate r of Some dd \<Rightarrow> Some dd | None \<Rightarrow> first_due_date e c)
                                 | None \<Rightarrow> first_due_date e c),
              ri_bundledWith = (if dep_cash (con_deposit c) then None else Some i)\<rparr>)
             (\<lambda>(d', r). Inr d'))"

definition contract_housing :: "letting \<Rightarrow> contract_row \<Rightarrow> bool" where
  "contract_housing s c = (case find_unit (base s) (con_unitId c) of None \<Rightarrow> False | Some u \<Rightarrow> unit_housing u)"

definition redemption_of :: "letting \<Rightarrow> id \<Rightarrow> redemption_row option" where
  "redemption_of s c = find_first (\<lambda>u. red_contractId u = Some c) (redemptions s)"

definition set_billing_start :: "id \<Rightarrow> date option \<Rightarrow> db \<Rightarrow> db" where
  "set_billing_start c b d =
     (case b of None \<Rightarrow> d | Some day \<Rightarrow> update_contract c (\<lambda>r. r\<lparr>con_billingStartsOn := Some day\<rparr>) d)"

definition issue_first_invoice :: "env \<Rightarrow> id \<Rightarrow> contract_row \<Rightarrow> id \<Rightarrow> letting \<Rightarrow> letting \<times> unit result" where
  "issue_first_invoice e sr c customer s =
     (let coupon = redemption_of s (con_id c);
          f = first_invoice_lines s c (contract_housing s c) coupon;
          rent = sum_list (map rent_line_cents (take (fst_rentLineCount f) (fst_items f)));
          (d1, credit) = claimContractCredit (con_id c) rent (base s);
          benefits = (if 0 < clc_cents credit
            then Some \<lparr>ben_freeMonth = False, ben_creditCents = clc_cents credit, ben_creditReason = clc_reason credit\<rparr>
            else None)
      in case create_invoice e d1 None None benefits
                (first_invoice_input e c customer sr f (with_credit credit f)) of
           Inl err \<Rightarrow> (s\<lparr>base := restore_credit (con_id c) credit d1\<rparr>, Inl err)
         | Inr (d2, r) \<Rightarrow>
             (case issue e None None False (inv_id r) (set_billing_start (con_id c) (fst_billingStartsOn f) d2) of
                (d3, Inl err) \<Rightarrow> (s\<lparr>base := d3\<rparr>, Inl err)
              | (d3, Inr _) \<Rightarrow>
                  (let s3 = s\<lparr>base := d3, redemptions := (case coupon of
                         None \<Rightarrow> redemptions s
                       | Some u \<Rightarrow> update_many (\<lambda>x. red_id x = red_id u)
                           (\<lambda>x. x\<lparr>red_invoiceId := Some (inv_id r)\<rparr>) (redemptions s))\<rparr>
                   in case first_deposit e c customer (inv_id r) d3 of
                        Inl err \<Rightarrow> (s3, Inl err)
                      | Inr d4 \<Rightarrow> (s3\<lparr>base := settleIfZero e (inv_id r) d4\<rparr>, Inr ()))))"

text \<open>It never throws: a failure leaves a notice for the staff.\<close>

definition issueIfMissing :: "env \<Rightarrow> id \<Rightarrow> id \<Rightarrow> letting \<Rightarrow> letting" where
  "issueIfMissing e c customer s =
     (if \<exists>r\<in>set (invoices (base s)). inv_contractId r = Some c \<and> \<not> inv_deleted r then s
      else case getDefault (base s) of
             None \<Rightarrow> notify_staff ''invoice.first_invoice_missing_series'' s
           | Some sr \<Rightarrow>
               (case find_contract (base s) c of
                  None \<Rightarrow> notify_staff ''invoice.first_invoice_failed'' s
                | Some r \<Rightarrow>
                    (case issue_first_invoice e (ser_id sr) r customer s of
                       (s', Inl err) \<Rightarrow> notify_staff ''invoice.first_invoice_failed'' s'
                     | (s', Inr _) \<Rightarrow> s')))"

end
