(* ===== verification/Contracts.thy ===== *)
theory Contracts imports FirstInvoice begin

text \<open>
  Contracts up to their signature (\<open>apps/api/src/modules/contracts/contracts.service.ts\<close>: \<open>create\<close>,
  \<open>update\<close>, \<open>sign\<close>, \<open>activateImported\<close> and the small changes). A method reads the contract before its
  transaction (\<open>findOrThrow\<close>); the transaction over the state it finds is the definition ending in
  \<open>_from\<close> or \<open>_tx\<close>, with the row read as an argument.
\<close>

section \<open>Lookups and transitions\<close>

definition contract_facility :: "letting \<Rightarrow> contract_row \<Rightarrow> id option" where
  "contract_facility s c = map_option unit_facilityId (find_unit (base s) (con_unitId c))"

text \<open>A contract always has its unit (a foreign key); out of scope is an error.\<close>

definition findContract :: "letting \<Rightarrow> facility_scope \<Rightarrow> id \<Rightarrow> contract_row result" where
  "findContract s scope i =
     bindr (found (find_first (\<lambda>c. con_id c = i \<and> \<not> con_deleted c) (contracts (base s)))
              (NotFoundException ''contract_not_found'')) (\<lambda>c.
     bindr (case contract_facility s c of None \<Rightarrow> Inr () | Some f \<Rightarrow> assertFacilityAllowed scope f) (\<lambda>_.
     Inr c))"

fun CONTRACT_TRANSITIONS :: "contract_status \<Rightarrow> contract_status list" where
  "CONTRACT_TRANSITIONS Con_draft = [Con_active, Con_cancelled]"
| "CONTRACT_TRANSITIONS Con_active = [Con_ending, Con_ended, Con_cancelled]"
| "CONTRACT_TRANSITIONS Con_ending = [Con_ended, Con_cancelled]"
| "CONTRACT_TRANSITIONS Con_ended = []"
| "CONTRACT_TRANSITIONS Con_cancelled = []"

definition assertContractTransition :: "contract_status \<Rightarrow> contract_status \<Rightarrow> unit result" where
  "assertContractTransition from to =
     guard (to \<in> set (CONTRACT_TRANSITIONS from)) (BadRequestException ''invalid_contract_transition'')"

definition syncUnitStatus :: "id \<Rightarrow> unit_status \<Rightarrow> unit_status \<Rightarrow> id option \<Rightarrow> string \<Rightarrow> letting \<Rightarrow> letting" where
  "syncUnitStatus u from to who why s = (if from = to then s else write_status u from to who why s)"

definition assertInsuranceFeature :: "letting \<Rightarrow> unit result" where
  "assertInsuranceFeature s =
     guard (set_insuranceFeature (settings s)) (ForbiddenException ''feature_not_in_plan'')"

text \<open>The plan in force and its price, frozen in the contract.\<close>

definition insurance_of :: "letting \<Rightarrow> id option \<Rightarrow> (id option \<times> cents option) result" where
  "insurance_of s plan =
     (case plan of
        None \<Rightarrow> Inr (None, None)
      | Some p \<Rightarrow>
          bindr (found (find_first (\<lambda>r. ins_id r = p \<and> ins_active r) (insurance_plans s))
                   (NotFoundException ''insurance_plan_not_found'')) (\<lambda>r.
          Inr (Some (ins_id r), Some (ins_monthlyPrice r))))"

section \<open>Numbers\<close>

text \<open>\<open>orderBy: contractNumber desc\<close> compares texts; \<open>parseInt(tail, 10)\<close> reads the leading digits.\<close>

fun text_less :: "string \<Rightarrow> string \<Rightarrow> bool" where
  "text_less xs [] = False"
| "text_less [] (y # ys) = True"
| "text_less (x # xs) (y # ys) = (code x < code y \<or> (code x = code y \<and> text_less xs ys))"

fun greatest_text :: "string list \<Rightarrow> string option" where
  "greatest_text [] = None"
| "greatest_text (t # ts) =
     (case greatest_text ts of None \<Rightarrow> Some t | Some g \<Rightarrow> Some (if text_less t g then g else t))"

definition parse_int :: "string \<Rightarrow> int option" where
  "parse_int t =
     (let body = dropWhile is_space t;
          (sign, rest) = (case body of CHR ''-'' # r \<Rightarrow> (- 1, r) | CHR ''+'' # r \<Rightarrow> (1, r) | _ \<Rightarrow> (1, body));
          ds = takeWhile is_digit rest
      in if ds = [] then None else Some (sign * int (read_nat ds)))"

definition number_prefix :: "env \<Rightarrow> string" where
  "number_prefix e = ''CT-'' @ show_int (year_of (utc_day (now e))) @ ''-''"

definition nextContractNumber :: "env \<Rightarrow> letting \<Rightarrow> string" where
  "nextContractNumber e s =
     (let prefix = number_prefix e;
          last = greatest_text (filter (\<lambda>n. startsWith n prefix) (map con_contractNumber (contracts (base s))));
          nxt = (case last of
                   None \<Rightarrow> 1
                 | Some n \<Rightarrow> (case parse_int (drop (length prefix) n) of None \<Rightarrow> 1 | Some k \<Rightarrow> k + 1))
      in prefix @ padStart 5 (CHR ''0'') (show_int nxt))"

section \<open>Creating a contract\<close>

record create_contract_input =
  cn_customerId :: id
  cn_unitId :: id
  cn_startDate :: date
  cn_endDate :: "date option"
  cn_priceMonthly :: cents
  cn_discountAmount :: cents
  cn_discountReason :: "string option"
  cn_depositAmount :: cents
  cn_depositCash :: bool
  cn_billingIntervalMonths :: int
  cn_prepayDiscountPct :: rat
  cn_firstPaymentMonths :: int
  cn_irpfRetentionPct :: rat
  cn_insurancePlanId :: "id option"
  cn_promotionCode :: "string option"
  cn_couponCode :: "string option"
  cn_autoRenew :: bool
  cn_cancellationNoticeDays :: int
  cn_notes :: "string option"
  cn_reservationId :: "id option"
  cn_waitlistEntryId :: "id option"
  cn_unitRequestId :: "id option"

definition create_checks :: "letting \<Rightarrow> create_contract_input \<Rightarrow> unit result" where
  "create_checks s i =
     bindr (if cn_insurancePlanId i \<noteq> None then assertInsuranceFeature s else Inr ()) (\<lambda>_.
     bindr (guard (\<not> (\<not> blank (cn_couponCode i) \<and> \<not> blank (cn_promotionCode i)))
              (BadRequestException ''coupon_with_promotion'')) (\<lambda>_.
     bindr (guard (\<not> (\<not> blank (cn_couponCode i) \<and> 0 < cn_discountAmount i))
              (BadRequestException ''coupon_with_discount'')) (\<lambda>_.
     bindr (guard (\<not> (\<exists>d. cn_endDate i = Some d \<and> d < cn_startDate i))
              (BadRequestException ''invalid_end_date'')) (\<lambda>_.
     guard (\<not> isGreaterThan (euros (cn_discountAmount i)) (euros (cn_priceMonthly i)))
       (BadRequestException ''discount_too_high'')))))"

text \<open>The reservation that becomes the contract: alive, of this unit, of this customer or of nobody.\<close>

definition reservation_to_convert :: "letting \<Rightarrow> create_contract_input \<Rightarrow> reservation_row option result" where
  "reservation_to_convert s i =
     (case cn_reservationId i of
        None \<Rightarrow> Inr None
      | Some rid \<Rightarrow>
          bindr (found (find_first (\<lambda>r. res_id r = rid \<and> res_status r \<in> {Res_pending, Res_confirmed}) (reservations s))
                   (BadRequestException ''reservation_not_convertible'')) (\<lambda>r.
          bindr (guard (res_unitId r = cn_unitId i \<and>
                   (case res_customerId r of None \<Rightarrow> True | Some cu \<Rightarrow> cu = cn_customerId i))
                   (BadRequestException ''reservation_mismatch'')) (\<lambda>_.
          Inr (Some r))))"

record opening_terms =
  ot_startDate :: date
  ot_dateConfirmed :: bool
  ot_deadline :: date

definition opening_of :: "env \<Rightarrow> facility_row option \<Rightarrow> opening_terms option" where
  "opening_of e fac =
     (case fac of
        None \<Rightarrow> None
      | Some f \<Rightarrow>
          (if \<not> fac_preOpening f then None
           else (let deadline = addMonthsYmd (today_in e (fac_timezone f)) (fac_preOpeningMaxMonths f)
                 in Some \<lparr>ot_startDate = (case fac_openingDate f of Some d \<Rightarrow> d | None \<Rightarrow> deadline),
                          ot_dateConfirmed = (fac_openingDate f \<noteq> None), ot_deadline = deadline\<rparr>)))"

text \<open>The discount of the contract, in euros: the promotion's or the one of the request.\<close>

record agreed_discount =
  agd_amount :: rat
  agd_reason :: "string option"
  agd_promotionId :: "id option"
  agd_freeMonths :: int

definition agreed_discount_of ::
  "env \<Rightarrow> create_contract_input \<Rightarrow> letting \<Rightarrow> (letting \<times> agreed_discount) result" where
  "agreed_discount_of e i s =
     (if blank (cn_promotionCode i)
      then Inr (s, \<lparr>agd_amount = euros (cn_discountAmount i),
             agd_reason = (if blank (cn_discountReason i) then None else map_option trim (cn_discountReason i)),
             agd_promotionId = None, agd_freeMonths = 0\<rparr>)
      else bindr (applyToContractTx e (the (cn_promotionCode i)) (euros (cn_priceMonthly i)) (cn_unitId i) s) (\<lambda>(s1, p).
           Inr (s1, \<lparr>agd_amount = apr_discountAmount p, agd_reason = Some (apr_reason p),
             agd_promotionId = Some (apr_promotionId p), agd_freeMonths = apr_freeMonths p\<rparr>)))"

text \<open>The coupon of the request, and the better of it and the discount for prepaying.\<close>

definition redeem_for_contract ::
  "env \<Rightarrow> create_contract_input \<Rightarrow> unit_row \<Rightarrow> bool \<Rightarrow> int \<Rightarrow> int \<Rightarrow> rat \<Rightarrow> letting
    \<Rightarrow> (letting \<times> redeemed_coupon option) result" where
  "redeem_for_contract e i u opening interval firstMonths discount s =
     (if blank (cn_couponCode i) then Inr (s, None)
      else (let months = (if 1 < interval then interval else firstMonths);
                monthlyPrice = nsub (euros (cn_priceMonthly i)) discount
            in bindr (redeemInTx e (the (cn_couponCode i))
                 \<lparr>cc_monthlyPrice = monthlyPrice, cc_months = months, cc_unitTypeId = Some (unit_unitTypeId u),
                  cc_facilityId = Some (unit_facilityId u),
                  cc_isNewCustomer = Some (isNewCustomer s (cn_customerId i)), cc_usedByCustomer = None,
                  cc_preOpening = opening\<rparr> (Some (cn_customerId i)) s) (\<lambda>(s1, rd).
               let prepayPct = (if 1 < interval then cn_prepayDiscountPct i else 0);
                   prepayCents = math_round (ndiv (nmul (nmul (of_int (toCents monthlyPrice)) (of_int months)) prepayPct) 100)
               in bindr (guard (\<not> (0 < prepayPct \<and> toCents (cq_discountAmount (rdc_quote rd)) \<le> prepayCents))
                           (BadRequestException ''coupon_not_better'')) (\<lambda>_.
                  Inr (s1, Some rd)))))"

text \<open>The signal already collected: the base of its invoice.\<close>

definition signal_base :: "letting \<Rightarrow> id \<Rightarrow> cents" where
  "signal_base s i =
     sum_list (map (\<lambda>l. toCents (nsub (euros (it_total l)) (euros (it_taxAmount l))))
       (filter (\<lambda>l. it_invoiceId l = i) (items (base s))))"

definition signalCredit :: "letting \<Rightarrow> id option \<Rightarrow> (cents \<times> string) option" where
  "signalCredit s invoiceId =
     (case invoiceId of
        None \<Rightarrow> None
      | Some i \<Rightarrow>
          (case find_invoice (base s) i of
             None \<Rightarrow> None
           | Some r \<Rightarrow>
               (if inv_status r \<noteq> Paid \<or> signal_base s i \<le> 0 then None
                else Some (signal_base s i, ''senal '' @ inv_number r))))"

definition new_contract ::
  "env \<Rightarrow> create_contract_input \<Rightarrow> string \<Rightarrow> customer_row \<Rightarrow> facility_row option \<Rightarrow> opening_terms option \<Rightarrow> int \<Rightarrow> int
    \<Rightarrow> agreed_discount \<Rightarrow> id option \<times> cents option \<Rightarrow> id \<Rightarrow> contract_row" where
  "new_contract e i number customer fac opening interval firstMonths disc insurance cid =
     default_contract\<lparr>con_id := cid, con_contractNumber := number, con_createdAt := now e, con_customerId := cn_customerId i,
       con_unitId := cn_unitId i, con_ownerId := (case fac of None \<Rightarrow> None | Some f \<Rightarrow> fac_ownerId f),
       con_status := Con_draft,
       con_startDate := (case opening of Some o1 \<Rightarrow> ot_startDate o1 | None \<Rightarrow> cn_startDate i),
       con_endDate := cn_endDate i, con_billingIntervalMonths := interval, con_firstPaymentMonths := firstMonths,
       con_opening := (case opening of
          Some o1 \<Rightarrow> \<lparr>po_preOpening = True, po_dateConfirmed = ot_dateConfirmed o1,
                      po_deadline = Some (ot_deadline o1), po_startedAt = None\<rparr>
        | None \<Rightarrow> no_opening),
       con_irpfRetentionPct := cn_irpfRetentionPct i,
       con_prepayDiscountPct := (if 1 < interval then cn_prepayDiscountPct i else 0),
       con_priceMonthly := cn_priceMonthly i, con_discountAmount := toCents (agd_amount disc),
       con_discountReason := agd_reason disc, con_promotionId := agd_promotionId disc,
       con_freeMonthsRemaining := agd_freeMonths disc,
       con_deposit := no_deposit\<lparr>dep_amount := (if cus_depositExempt customer then 0 else cn_depositAmount i),
         dep_cash := cn_depositCash i\<rparr>,
       con_insurancePlanId := fst insurance, con_insurancePrice := snd insurance,
       con_autoRenew := cn_autoRenew i, con_cancellationNoticeDays := cn_cancellationNoticeDays i,
       con_notes := (if blank (cn_notes i) then None else map_option trim (cn_notes i))\<rparr>"

text \<open>\<open>contract.create\<close>: the number of a contract is unique.\<close>

definition insert_contract :: "(id \<Rightarrow> contract_row) \<Rightarrow> letting \<Rightarrow> (letting \<times> contract_row) result" where
  "insert_contract row s =
     (let r = row (next_id (base s))
      in if \<exists>c\<in>set (contracts (base s)). con_contractNumber c = con_contractNumber r then Inl UniqueViolation
         else Inr (s\<lparr>base := (base s)\<lparr>contracts := create_row r (contracts (base s)), next_id := Suc (next_id (base s))\<rparr>\<rparr>, r))"

text \<open>The notice of the waiting list that becomes this contract; a unit kept for it elsewhere goes back.\<close>

definition convert_waitlist ::
  "env \<Rightarrow> id option \<Rightarrow> id \<Rightarrow> contract_row \<Rightarrow> id option \<Rightarrow> letting \<Rightarrow> letting \<times> id option" where
  "convert_waitlist e entryId u row who s =
     (case entryId of
        None \<Rightarrow> (s, None)
      | Some w \<Rightarrow>
          (let open_entry = (\<lambda>r. wl_id r = w \<and> wl_status r \<in> {Wl_waiting, Wl_notified});
               held = (case find_first open_entry (waitlist s) of None \<Rightarrow> None | Some r \<Rightarrow> wl_heldUnitId r);
               other = (if held = Some u then None else held);
               s1 = s\<lparr>waitlist := update_many open_entry
                  (\<lambda>r. r\<lparr>wl_status := Wl_converted, wl_convertedContractId := Some (con_id row), wl_holdTokenHash := None,
                         wl_heldUnitId := (if other \<noteq> None then None else wl_heldUnitId r)\<rparr>) (waitlist s)\<rparr>
           in case other of
                None \<Rightarrow> (s1, None)
              | Some ou \<Rightarrow>
                  (let (s2, freed) = releaseReservedUnit e (hold_of ou) who
                         (''Lista de espera: contrato '' @ con_contractNumber row @ '' sobre otro trastero'') s1
                   in (s2, if freed then Some ou else None))))"

definition close_unit_request :: "id option \<Rightarrow> id \<Rightarrow> letting \<Rightarrow> letting \<times> bool" where
  "close_unit_request request customer s =
     (case request of
        None \<Rightarrow> (s, False)
      | Some q \<Rightarrow>
          (let fits = (\<lambda>r. urq_id r = q \<and> urq_customerId r = customer \<and> urq_pending r)
           in (s\<lparr>unit_requests := update_many fits (\<lambda>r. r\<lparr>urq_pending := False\<rparr>) (unit_requests s)\<rparr>,
               0 < count_rows fits (unit_requests s))))"

definition convert_reservation :: "reservation_row option \<Rightarrow> id \<Rightarrow> letting \<Rightarrow> letting" where
  "convert_reservation reservation c s =
     (case reservation of
        None \<Rightarrow> s
      | Some r \<Rightarrow>
          (let s1 = s\<lparr>reservations := update_many (\<lambda>x. res_id x = res_id r)
                 (\<lambda>x. x\<lparr>res_status := Res_converted, res_convertedContractId := Some c\<rparr>) (reservations s)\<rparr>
           in case signalCredit s1 (res_depositInvoiceId r) of
                None \<Rightarrow> s1
              | Some (k, why) \<Rightarrow>
                  change_contract c (\<lambda>x. x\<lparr>con_pendingCredit := k, con_pendingCreditReason := Some why\<rparr>) s1))"

definition record_coupon :: "redeemed_coupon option \<Rightarrow> id \<Rightarrow> id \<Rightarrow> letting \<Rightarrow> letting result" where
  "record_coupon rd customer c s =
     (case rd of None \<Rightarrow> Inr s | Some r \<Rightarrow> recordRedemptionInTx r (Some customer) (Some c) None s)"

definition create_contract_tx ::
  "env \<Rightarrow> facility_scope \<Rightarrow> id option \<Rightarrow> create_contract_input \<Rightarrow> letting
    \<Rightarrow> (letting \<times> contract_row \<times> id option \<times> bool) result" where
  "create_contract_tx e scope who i s =
     bindr (found (find_first (\<lambda>c. cus_id c = cn_customerId i \<and> \<not> cus_deleted c) (customers (base s)))
              (NotFoundException ''customer_not_found'')) (\<lambda>customer.
     bindr (found (find_unit (base s) (cn_unitId i)) (NotFoundException ''unit_not_found'')) (\<lambda>u.
     let fac = facility_of_unit s u in
     bindr (guard (\<not> (\<exists>f. fac = Some f \<and> fac_deleted f)) (NotFoundException ''unit_not_found'')) (\<lambda>_.
     bindr (assertFacilityAllowed scope (unit_facilityId u)) (\<lambda>_.
     bindr (reservation_to_convert s i) (\<lambda>reservation.
     let opening = opening_of e fac;
         interval = (if opening \<noteq> None then 1 else cn_billingIntervalMonths i);
         firstMonths = (if opening \<noteq> None \<or> 1 < interval then 1 else cn_firstPaymentMonths i) in
     bindr (agreed_discount_of e i s) (\<lambda>(s1, disc).
     bindr (insurance_of s1 (cn_insurancePlanId i)) (\<lambda>insurance.
     bindr (redeem_for_contract e i u (opening \<noteq> None) interval firstMonths (agd_amount disc) s1) (\<lambda>(s2, redeemed).
     bindr (insert_contract (new_contract e i (nextContractNumber e s2) customer fac opening interval firstMonths
              disc insurance) s2) (\<lambda>(s3, row).
     bindr (record_coupon redeemed (cn_customerId i) (con_id row)
              (add_event (con_id row) Ce_created (Said (con_contractNumber row)) who s3)) (\<lambda>s4.
     let (s5, freed) = convert_waitlist e (cn_waitlistEntryId i) (cn_unitId i) row who s4;
         (s6, closed) = close_unit_request (cn_unitRequestId i) (cn_customerId i) s5
     in Inr (convert_reservation reservation (con_id row) s6, row, freed, closed)))))))))))"

definition create_contract ::
  "env \<Rightarrow> facility_scope \<Rightarrow> id option \<Rightarrow> create_contract_input \<Rightarrow> letting \<Rightarrow> (letting \<times> id) result" where
  "create_contract e scope who i s =
     bindr (create_checks s i) (\<lambda>_.
     bindr (create_contract_tx e scope who i s) (\<lambda>(s1, row, freed, closed).
     let s2 = (case freed of None \<Rightarrow> s1 | Some u \<Rightarrow> tell (Unit_available u) s1);
         s3 = (if closed then tell (Unit_request_resolved (con_customerId row)) s2 else s2)
     in Inr (write_audit ''contract.created'' (con_id row) s3, con_id row)))"

end
