(* ===== verification/Signing.thy ===== *)
theory Signing imports Contracts begin

text \<open>
  Changing a contract and signing it (\<open>contracts.service.ts\<close>: \<open>update\<close>, \<open>sign\<close>,
  \<open>activateImported\<close>, the insurance, the withholding, the way the deposit is paid and notes).
\<close>

section \<open>Changing a contract\<close>

text \<open>
  The outer \<open>option\<close> of a field says whether the request carries it; the end date may be cleared.
\<close>

record update_contract_input =
  uc_priceMonthly :: "cents option"
  uc_startDate :: "date option"
  uc_depositAmount :: "cents option"
  uc_endDate :: "date option option"
  uc_discountAmount :: "cents option"
  uc_discountReason :: "string option option"
  uc_autoRenew :: "bool option"
  uc_cancellationNoticeDays :: "int option"
  uc_notes :: "string option option"

definition clean_text :: "string option \<Rightarrow> string option" where
  "clean_text t = (if blank t then None else map_option trim t)"

definition has_coupon :: "letting \<Rightarrow> id \<Rightarrow> bool" where
  "has_coupon s c = (0 < count_rows (\<lambda>r. red_contractId r = Some c) (redemptions s))"

definition price_changes :: "contract_row \<Rightarrow> update_contract_input \<Rightarrow> bool" where
  "price_changes existing i = (\<exists>p. uc_priceMonthly i = Some p \<and> p \<noteq> con_priceMonthly existing)"

definition update_contract_checks :: "letting \<Rightarrow> contract_row \<Rightarrow> update_contract_input \<Rightarrow> unit result" where
  "update_contract_checks s existing i =
     bindr (guard (con_status existing \<notin> {Con_ended, Con_cancelled}) (BadRequestException ''contract_closed'')) (\<lambda>_.
     bindr (guard (\<not> (con_status existing = Con_ending \<and> uc_endDate i = Some None))
              (BadRequestException ''ending_requires_date'')) (\<lambda>_.
     bindr (guard (\<not> ((uc_priceMonthly i \<noteq> None \<or> uc_startDate i \<noteq> None \<or> uc_depositAmount i \<noteq> None) \<and>
                     con_status existing \<noteq> Con_draft))
              (BadRequestException ''contract_not_draft'')) (\<lambda>_.
     bindr (if price_changes existing i
            then bindr (guard (\<not> has_coupon s (con_id existing)) (BadRequestException ''coupon_price_locked''))
                   (\<lambda>_. guard (con_promotionId existing = None) (BadRequestException ''promotion_price_locked''))
            else Inr ()) (\<lambda>_.
     bindr (guard (\<not> (\<exists>d. given (uc_endDate i) (con_endDate existing) = Some d \<and>
                     d < given (uc_startDate i) (con_startDate existing)))
              (BadRequestException ''invalid_end_date'')) (\<lambda>_.
     bindr (guard (\<not> ((\<exists>a. uc_discountAmount i = Some a \<and> 0 < a) \<and> con_status existing = Con_draft \<and>
                     has_coupon s (con_id existing)))
              (BadRequestException ''coupon_with_discount'')) (\<lambda>_.
     guard (\<not> isGreaterThan
              (euros (if con_status existing = Con_draft then given (uc_discountAmount i) (con_discountAmount existing)
                      else con_discountAmount existing))
              (euros (given (uc_priceMonthly i) (con_priceMonthly existing))))
       (BadRequestException ''discount_too_high'')))))))"

text \<open>Whether \<open>changes\<close> has any key.\<close>

definition changes_contract :: "contract_row \<Rightarrow> update_contract_input \<Rightarrow> bool" where
  "changes_contract existing i \<longleftrightarrow>
     price_changes existing i \<or> uc_startDate i \<noteq> None \<or> uc_depositAmount i \<noteq> None \<or> uc_endDate i \<noteq> None \<or>
     (con_status existing = Con_draft \<and> (uc_discountAmount i \<noteq> None \<or> uc_discountReason i \<noteq> None)) \<or>
     uc_autoRenew i \<noteq> None \<or> uc_cancellationNoticeDays i \<noteq> None \<or> uc_notes i \<noteq> None"

definition apply_contract_update ::
  "contract_row \<Rightarrow> update_contract_input \<Rightarrow> contract_row \<Rightarrow> contract_row" where
  "apply_contract_update existing i c =
     (let draft = (con_status existing = Con_draft) in
     c\<lparr>con_priceMonthly := (if price_changes existing i then the (uc_priceMonthly i) else con_priceMonthly c),
       con_startDate := given (uc_startDate i) (con_startDate c),
       con_deposit := (con_deposit c)\<lparr>dep_amount := given (uc_depositAmount i) (dep_amount (con_deposit c))\<rparr>,
       con_endDate := given (uc_endDate i) (con_endDate c),
       con_discountAmount := (if draft then given (uc_discountAmount i) (con_discountAmount c) else con_discountAmount c),
       con_discountReason := (if draft then (case uc_discountReason i of None \<Rightarrow> con_discountReason c
           | Some r \<Rightarrow> clean_text r) else con_discountReason c),
       con_autoRenew := given (uc_autoRenew i) (con_autoRenew c),
       con_cancellationNoticeDays := given (uc_cancellationNoticeDays i) (con_cancellationNoticeDays c),
       con_notes := (case uc_notes i of None \<Rightarrow> con_notes c | Some n \<Rightarrow> clean_text n)\<rparr>)"

definition update_contract_from ::
  "contract_row \<Rightarrow> id option \<Rightarrow> update_contract_input \<Rightarrow> letting \<Rightarrow> letting result" where
  "update_contract_from existing who i s =
     bindr (update_contract_checks s existing i) (\<lambda>_.
     let s1 = (if con_status existing \<noteq> Con_draft \<and> changes_contract existing i
               then add_event (con_id existing) Ce_note_added (Said ''conditions_updated'') who s else s)
     in Inr (write_audit ''contract.updated'' (con_id existing)
          (change_contract (con_id existing) (apply_contract_update existing i) s1)))"

definition update_contract_terms ::
  "facility_scope \<Rightarrow> id \<Rightarrow> id option \<Rightarrow> update_contract_input \<Rightarrow> letting \<Rightarrow> letting result" where
  "update_contract_terms scope c who i s =
     bindr (findContract s scope c) (\<lambda>existing. update_contract_from existing who i s)"

section \<open>Signing\<close>

text \<open>
  The text of the terms is composed from the contract, the tenant and a template; the composition
  is a parameter, and so is the digest of the text.
\<close>

record sign_request =
  sg_userId :: "id option"
  sg_signature :: bool
  sg_deferAccessUntilPaid :: bool
  sg_expectedTermsHash :: "string option"

type_synonym composer = "letting \<Rightarrow> id \<Rightarrow> string"

definition live_on :: "letting \<Rightarrow> id \<Rightarrow> reservation_row list" where
  "live_on s u = filter (\<lambda>r. res_unitId r = u \<and> res_status r \<in> {Res_pending, Res_confirmed}) (reservations s)"

definition sign_checks :: "env \<Rightarrow> contract_row \<Rightarrow> letting \<Rightarrow> unit_row result" where
  "sign_checks e existing s =
     bindr (found (find_unit (base s) (con_unitId existing)) (NotFoundException ''unit_not_found'')) (\<lambda>u.
     bindr (guard (\<not> (\<exists>f. facility_of_unit s u = Some f \<and> fac_deleted f)) (ConflictException ''facility_deleted'')) (\<lambda>_.
     bindr (guard (unit_status u \<in> {Available, Reserved}) (ConflictException ''unit_not_available'')) (\<lambda>_.
     bindr (guard (\<forall>r\<in>set (live_on s (con_unitId existing)). res_customerId r = Some (con_customerId existing))
              (ConflictException ''unit_reserved_for_other'')) (\<lambda>_.
     bindr (guard (\<not> (unit_status u = Reserved \<and>
                     unitHeldByOther e s ((hold_of (con_unitId existing))\<lparr>ha_contractId := Some (con_id existing),
                       ha_customerId := Some (con_customerId existing)\<rparr>)))
              (ConflictException ''unit_reserved_for_other'')) (\<lambda>_.
     Inr u)))))"

definition convert_own :: "contract_row \<Rightarrow> letting \<Rightarrow> letting" where
  "convert_own existing s =
     s\<lparr>reservations := update_many
        (\<lambda>r. r \<in> set (live_on s (con_unitId existing)) \<and> res_customerId r = Some (con_customerId existing))
        (\<lambda>r. r\<lparr>res_status := Res_converted, res_convertedContractId := Some (con_id existing)\<rparr>) (reservations s)\<rparr>"

text \<open>The columns the signature writes; \<open>opening\<close> is the opening date of a facility still to open.\<close>

definition signed_fields ::
  "env \<Rightarrow> contract_row \<Rightarrow> date option option \<Rightarrow> contract_row \<Rightarrow> contract_row" where
  "signed_fields e existing opening c =
     (let c1 = (case opening of
                  None \<Rightarrow> c
                | Some day \<Rightarrow>
                    c\<lparr>con_opening := (con_opening c)\<lparr>po_dateConfirmed := (day \<noteq> None)\<rparr>,
                      con_startDate := (case day of Some d \<Rightarrow> d
                        | None \<Rightarrow> (case po_deadline (con_opening existing) of Some d \<Rightarrow> d
                                   | None \<Rightarrow> con_startDate existing))\<rparr>)
      in c1\<lparr>con_status := Con_active, con_signedAt := Some (now e),
            con_deposit := (con_deposit c1)\<lparr>dep_status :=
              (if 0 < dep_amount (con_deposit existing) \<and> dep_status (con_deposit existing) = Dep_none
               then Dep_held else dep_status (con_deposit c1))\<rparr>\<rparr>)"

definition opening_day :: "contract_row \<Rightarrow> unit_row \<Rightarrow> letting \<Rightarrow> date option option result" where
  "opening_day existing u s =
     (if isPendingPreOpening existing
      then bindr (found (facility_of_unit s u) RecordNotFound) (\<lambda>f. Inr (Some (fac_openingDate f)))
      else Inr None)"

text \<open>A second contract in force on the unit is the answer of the index, shown as a conflict.\<close>

definition as_conflict :: "'a result \<Rightarrow> 'a result" where
  "as_conflict r = (case r of Inl UniqueViolation \<Rightarrow> Inl (ConflictException ''unit_not_available'') | _ \<Rightarrow> r)"

definition sign_tx ::
  "env \<Rightarrow> composer \<Rightarrow> (string \<Rightarrow> string) \<Rightarrow> contract_row \<Rightarrow> sign_request \<Rightarrow> letting \<Rightarrow> letting result" where
  "sign_tx e compose digest existing a s =
     as_conflict (
     bindr (sign_checks e existing s) (\<lambda>u.
     bindr (opening_day existing u s) (\<lambda>opening.
     bindr (save_contract (con_id existing) (signed_fields e existing opening) (convert_own existing s)) (\<lambda>s1.
     let s2 = add_event (con_id existing) Ce_signed (Said ''signed'') (sg_userId a) s1;
         s3 = syncUnitStatus (con_unitId existing) (unit_status u)
                (if isPendingPreOpening existing then Reserved else Occupied) (sg_userId a)
                (''Contrato '' @ con_contractNumber existing @ '' firmado'') s2;
         text = compose s3 (con_id existing)
     in bindr (guard (\<not> (\<exists>h. sg_expectedTermsHash a = Some h \<and> h \<noteq> [] \<and> h \<noteq> digest text))
                 (ConflictException ''terms_changed'')) (\<lambda>_.
        Inr (s3\<lparr>signed_terms := signed_terms s3 @ [(con_id existing, text)],
               signatures := (if sg_signature a then signatures s3 @ [(con_id existing, digest text)]
                              else signatures s3)\<rparr>))))))"

definition sign_from ::
  "env \<Rightarrow> composer \<Rightarrow> (string \<Rightarrow> string) \<Rightarrow> contract_row \<Rightarrow> sign_request \<Rightarrow> letting \<Rightarrow> letting result" where
  "sign_from e compose digest existing a s =
     bindr (assertContractTransition (con_status existing) Con_active) (\<lambda>_.
     bindr (sign_tx e compose digest existing a s) (\<lambda>s1.
     let s2 = tell (Contract_signed (con_id existing)
                (sg_deferAccessUntilPaid a \<or> isPendingPreOpening existing))
                (write_audit ''contract.signed'' (con_id existing) s1)
     in Inr (if needsOnSign s2 (con_id existing)
             then issueIfMissing e (con_id existing) (con_customerId existing) s2 else s2)))"

definition sign ::
  "env \<Rightarrow> composer \<Rightarrow> (string \<Rightarrow> string) \<Rightarrow> facility_scope \<Rightarrow> id \<Rightarrow> sign_request \<Rightarrow> letting \<Rightarrow> letting result" where
  "sign e compose digest scope c a s =
     bindr (findContract s scope c) (\<lambda>existing. sign_from e compose digest existing a s)"

section \<open>Contracts brought from another system\<close>

definition activate_tx :: "id option \<Rightarrow> date \<Rightarrow> bool \<Rightarrow> contract_row \<Rightarrow> letting \<Rightarrow> letting result" where
  "activate_tx who billingStartsOn depositCollected existing s =
     bindr (found (find_first (\<lambda>u. unit_id u = con_unitId existing \<and> unit_status u \<in> {Available, Reserved}) (units (base s)))
              (ConflictException ''unit_not_available'')) (\<lambda>u.
     bindr (save_contract (con_id existing) (\<lambda>c. c\<lparr>con_status := Con_active,
              con_signedAt := Some (day_ms (con_startDate existing)), con_billingStartsOn := Some billingStartsOn,
              con_deposit := (con_deposit c)\<lparr>dep_status :=
                (if 0 < dep_amount (con_deposit existing) \<and> depositCollected \<and> dep_status (con_deposit existing) = Dep_none
                 then Dep_held else dep_status (con_deposit c))\<rparr>\<rparr>) s) (\<lambda>s1.
     Inr (syncUnitStatus (con_unitId existing) (unit_status u) Occupied who
            (''Contrato '' @ con_contractNumber existing @ '' migrado'')
            (add_event (con_id existing) Ce_signed (Migrated billingStartsOn) who s1))))"

definition activate_one ::
  "facility_scope \<Rightarrow> id option \<Rightarrow> date \<Rightarrow> bool \<Rightarrow> id \<Rightarrow> letting \<Rightarrow> letting result" where
  "activate_one scope who billingStartsOn depositCollected c s =
     bindr (findContract s scope c) (\<lambda>existing.
     bindr (guard (con_status existing = Con_draft) (BadRequestException ''contract_not_draft'')) (\<lambda>_.
     activate_tx who billingStartsOn depositCollected existing s))"

text \<open>One contract after another; one that fails does not stop the rest.\<close>

fun activate_each ::
  "facility_scope \<Rightarrow> id option \<Rightarrow> date \<Rightarrow> bool \<Rightarrow> id list \<Rightarrow> letting \<Rightarrow> letting \<times> nat \<times> (id \<times> exn) list" where
  "activate_each scope who day collected [] s = (s, 0, [])"
| "activate_each scope who day collected (c # cs) s =
     (case activate_one scope who day collected c s of
        Inr s1 \<Rightarrow> (let (s2, n, failed) = activate_each scope who day collected cs s1 in (s2, Suc n, failed))
      | Inl err \<Rightarrow> (let (s2, n, failed) = activate_each scope who day collected cs s in (s2, n, (c, err) # failed)))"

definition activateImported ::
  "facility_scope \<Rightarrow> id option \<Rightarrow> date \<Rightarrow> bool \<Rightarrow> id list \<Rightarrow> letting \<Rightarrow> letting \<times> nat \<times> (id \<times> exn) list" where
  "activateImported scope who billingStartsOn depositCollected cs s =
     (let (s1, n, failed) = activate_each scope who billingStartsOn depositCollected (rev (remdups (rev cs))) s
      in (write_audit ''contract.imported_activated'' 0 s1, n, failed))"

section \<open>Small changes\<close>

definition setInsurance :: "facility_scope \<Rightarrow> id \<Rightarrow> id option \<Rightarrow> letting \<Rightarrow> letting result" where
  "setInsurance scope c plan s =
     bindr (findContract s scope c) (\<lambda>_.
     bindr (if plan \<noteq> None then assertInsuranceFeature s else Inr ()) (\<lambda>_.
     bindr (insurance_of s plan) (\<lambda>(p, price).
     Inr (change_contract c (\<lambda>r. r\<lparr>con_insurancePlanId := p, con_insurancePrice := price\<rparr>) s))))"

definition setIrpfRetention :: "facility_scope \<Rightarrow> id \<Rightarrow> rat \<Rightarrow> letting \<Rightarrow> letting result" where
  "setIrpfRetention scope c pct s =
     bindr (findContract s scope c) (\<lambda>_.
     Inr (write_audit ''contract.irpf_retention_changed'' c
            (change_contract c (\<lambda>r. r\<lparr>con_irpfRetentionPct := pct\<rparr>) s)))"

definition setDepositPaymentMethod :: "facility_scope \<Rightarrow> id \<Rightarrow> bool \<Rightarrow> letting \<Rightarrow> letting result" where
  "setDepositPaymentMethod scope c cash s =
     bindr (findContract s scope c) (\<lambda>existing.
     bindr (guard (con_status existing = Con_draft) (BadRequestException ''contract_already_signed'')) (\<lambda>_.
     Inr (write_audit ''contract.deposit_payment_method_changed'' c
            (change_contract c (\<lambda>r. r\<lparr>con_deposit := (con_deposit r)\<lparr>dep_cash := cash\<rparr>\<rparr>) s))))"

definition addNote :: "facility_scope \<Rightarrow> id \<Rightarrow> id option \<Rightarrow> string \<Rightarrow> letting \<Rightarrow> letting result" where
  "addNote scope c who note s =
     bindr (findContract s scope c) (\<lambda>_.
     Inr (write_audit ''contract.note_added'' c (add_event c Ce_note_added (Said (trim note)) who s)))"

end
