(* ===== verification/MoveOut.thy ===== *)
theory MoveOut imports Signing begin

text \<open>
  The end of a contract (\<open>contracts.service.ts\<close>): asking for it, from the panel or the portal,
  changing the day, calling it off; ending and cancelling, which free the unit, give back what was
  reserved for a move, stop the reminders and credit the prepaid months; the daily jobs that renew
  and end the contracts whose day has passed.
\<close>

section \<open>Asking for the end\<close>

definition requestEnd_from ::
  "env \<Rightarrow> contract_row \<Rightarrow> id option \<Rightarrow> date option \<Rightarrow> letting \<Rightarrow> letting result" where
  "requestEnd_from e existing who asked s =
     bindr (assertContractTransition (con_status existing) Con_ending) (\<lambda>_.
     bindr (guard (\<not> isPendingPreOpening existing) (BadRequestException ''pre_opening_not_started'')) (\<lambda>_.
     let endDate = (case asked of Some d \<Rightarrow> d
           | None \<Rightarrow> todayAtUnit e s (con_unitId existing) + con_cancellationNoticeDays existing) in
     bindr (guard (\<not> endDate < con_startDate existing) (BadRequestException ''invalid_end_date'')) (\<lambda>_.
     Inr (write_audit ''contract.ending_requested'' (con_id existing)
       (add_event (con_id existing) Ce_ending_requested (End_date (Some endDate)) who
         (change_contract (con_id existing) (\<lambda>c. c\<lparr>con_status := Con_ending, con_endingRequestedAt := Some (now e),
            con_endDate := Some endDate, con_endDateBeforeEnding := con_endDate existing\<rparr>) s))))))"

definition requestEnd ::
  "env \<Rightarrow> facility_scope \<Rightarrow> id \<Rightarrow> id option \<Rightarrow> date option \<Rightarrow> letting \<Rightarrow> letting result" where
  "requestEnd e scope c who asked s = bindr (findContract s scope c) (\<lambda>existing. requestEnd_from e existing who asked s)"

text \<open>The portal finds the contract among those of its customer.\<close>

definition contract_of_customer :: "letting \<Rightarrow> id \<Rightarrow> id \<Rightarrow> contract_row result" where
  "contract_of_customer s customer i =
     found (find_first (\<lambda>c. con_id c = i \<and> con_customerId c = customer \<and> \<not> con_deleted c) (contracts (base s)))
       (NotFoundException ''contract_not_found'')"

definition requestEndByCustomer :: "env \<Rightarrow> id \<Rightarrow> id \<Rightarrow> date \<Rightarrow> letting \<Rightarrow> letting result" where
  "requestEndByCustomer e customer i requested s =
     bindr (contract_of_customer s customer i) (\<lambda>existing.
     bindr (guard (con_status existing = Con_active) (BadRequestException ''contract_not_active'')) (\<lambda>_.
     bindr (guard (\<not> isPendingPreOpening existing) (BadRequestException ''pre_opening_not_started'')) (\<lambda>_.
     bindr (guard (\<not> requested < todayAtUnit e s (con_unitId existing) + con_cancellationNoticeDays existing)
              (BadRequestException ''notice_period_not_met'')) (\<lambda>_.
     Inr (tell (Move_out_requested i)
       (add_event i Ce_ending_requested (End_date (Some requested)) None
         (change_contract i (\<lambda>c. c\<lparr>con_status := Con_ending, con_endDate := Some requested,
            con_endingRequestedAt := Some (now e), con_endDateBeforeEnding := con_endDate existing\<rparr>) s)))))))"

definition changeMoveOutDateByCustomer :: "env \<Rightarrow> id \<Rightarrow> id \<Rightarrow> date \<Rightarrow> letting \<Rightarrow> letting result" where
  "changeMoveOutDateByCustomer e customer i requested s =
     bindr (contract_of_customer s customer i) (\<lambda>existing.
     bindr (guard (con_status existing = Con_ending) (BadRequestException ''contract_not_ending'')) (\<lambda>_.
     bindr (guard (\<not> requested < today e + con_cancellationNoticeDays existing)
              (BadRequestException ''notice_period_not_met'')) (\<lambda>_.
     Inr (add_event i Ce_ending_requested (End_date (Some requested)) None
            (change_contract i (\<lambda>c. c\<lparr>con_endDate := Some requested\<rparr>) s)))))"

definition cancelMoveOutByCustomer :: "env \<Rightarrow> id \<Rightarrow> id \<Rightarrow> letting \<Rightarrow> letting result" where
  "cancelMoveOutByCustomer e customer i s =
     bindr (contract_of_customer s customer i) (\<lambda>existing.
     bindr (guard (con_status existing = Con_ending) (BadRequestException ''contract_not_ending'')) (\<lambda>_.
     Inr (tell (Move_out_cancelled i)
       (add_event i Ce_resumed (Said ''move_out_cancelled'') None
         (change_contract i (\<lambda>c. c\<lparr>con_status := Con_active,
            con_endDate := endDateAfterCancellingMoveOut (tz_offset e) (con_endDateBeforeEnding existing) (now e),
            con_endDateBeforeEnding := None, con_endingRequestedAt := None\<rparr>) s)))))"

section \<open>What the end of a contract does besides\<close>

definition releaseScheduledUnit :: "env \<Rightarrow> contract_row \<Rightarrow> id option \<Rightarrow> string \<Rightarrow> letting \<Rightarrow> letting" where
  "releaseScheduledUnit e c who why s =
     (case sch_unitId (con_scheduled c) of
        None \<Rightarrow> s
      | Some u \<Rightarrow> fst (releaseReservedUnit e ((hold_of u)\<lparr>ha_contractId := Some (con_id c)\<rparr>) who why s))"

definition emitScheduledUnitFreed :: "contract_row \<Rightarrow> letting \<Rightarrow> letting" where
  "emitScheduledUnitFreed c s =
     (case sch_unitId (con_scheduled c) of None \<Rightarrow> s | Some u \<Rightarrow> tell (Unit_available u) s)"

definition cancelScheduledDunning :: "id \<Rightarrow> string \<Rightarrow> letting \<Rightarrow> letting" where
  "cancelScheduledDunning c notes s =
     over_base (\<lambda>d. d\<lparr>dunning_actions := update_many
        (\<lambda>a. dun_scheduled a \<and> (\<exists>r\<in>set (invoices d). inv_id r = dun_invoiceId a \<and> inv_contractId r = Some c \<and> \<not> inv_deleted r))
        (\<lambda>a. a\<lparr>dun_scheduled := False, dun_cancelled := True, dun_notes := Some notes\<rparr>) (dunning_actions d)\<rparr>) s"

definition emitContractEnded :: "id \<Rightarrow> id \<Rightarrow> letting \<Rightarrow> letting" where
  "emitContractEnded c u s =
     tell (Unit_available u)
       ((tell (Contract_ended c) s)\<lparr>change_requests := update_many (\<lambda>r. crq_contractId r = c \<and> crq_pending r)
          (\<lambda>r. r\<lparr>crq_pending := False, crq_rejected := True\<rparr>) (change_requests s)\<rparr>)"

text \<open>The invoice of the prepaid period the day falls in, the latest one.\<close>

definition prepaid_invoice :: "letting \<Rightarrow> id \<Rightarrow> date \<Rightarrow> invoice_row option" where
  "prepaid_invoice s c day =
     least_by (\<lambda>r. - (case inv_periodStart r of None \<Rightarrow> 0 | Some p \<Rightarrow> p))
       (filter (\<lambda>r. inv_contractId r = Some c \<and> inv_type r = F1 \<and> inv_status r \<in> {Paid, Partially_refunded} \<and>
          (\<exists>p. inv_periodStart r = Some p \<and> p \<le> day) \<and> (\<exists>q. inv_periodEnd r = Some q \<and> day \<le> q))
        (invoices (base s)))"

definition prepay_credit_items :: "letting \<Rightarrow> id \<Rightarrow> id \<Rightarrow> int \<Rightarrow> int \<Rightarrow> item_input list" where
  "prepay_credit_items s c i interval unused =
     filter (\<lambda>l. ii_unitPrice l < 0)
       (map (\<lambda>l. \<lparr>ii_description = ''Abono baja anticipada ('' @ show_int unused @ '' de '' @ show_int interval @
               '' meses no consumidos) '' @ it_description l,
            ii_quantity = 1, ii_unitPrice = - creditForLine (nmul (it_unitPrice l) (it_quantity l)) interval unused,
            ii_taxRate = it_taxRate l, ii_taxCategory = Some (it_taxCategory l), ii_relatedContractId = Some c,
            ii_relatedUnitId = None, ii_periodStart = None, ii_periodEnd = None\<rparr>)
          (filter (\<lambda>l. it_invoiceId l = i \<and> it_periodStart l \<noteq> None \<and> it_periodEnd l \<noteq> None) (items (base s))))"

definition createPrepayCreditNote ::
  "env \<Rightarrow> id \<Rightarrow> id option \<Rightarrow> int \<Rightarrow> date \<Rightarrow> letting \<Rightarrow> letting result" where
  "createPrepayCreditNote e c who interval day s =
     (case prepaid_invoice s c day of
        None \<Rightarrow> Inr s
      | Some r \<Rightarrow>
          (if 0 < count_rows (\<lambda>x. inv_rectifies x = Some (inv_id r) \<and> inv_status x \<noteq> Cancelled) (invoices (base s))
           then Inr s
           else (let unused = unusedPrepaidMonths (the (inv_periodStart r)) interval day;
                     lines = prepay_credit_items s c (inv_id r) interval unused
                 in if unused = 0 \<or> lines = [] then Inr s
                    else bindr (rectify e None False (inv_id r)
                       \<lparr>rc_type = R1, rc_reason = ''Baja anticipada de contrato prepagado: abono de '' @ show_int unused @
                          '' meses no consumidos'', rc_method = Some By_differences, rc_issueDate = None,
                        rc_items = lines\<rparr> (base s)) (\<lambda>(d, credit).
                    Inr (add_event c Ce_note_added (Prepay_credit_note (inv_id credit) (inv_id r) unused) who
                           (s\<lparr>base := d\<rparr>))))))"

text \<open>Best effort: it never stops the end of the contract.\<close>

definition creditPrepaidMonths ::
  "env \<Rightarrow> id \<Rightarrow> id option \<Rightarrow> int \<Rightarrow> date \<Rightarrow> letting \<Rightarrow> letting" where
  "creditPrepaidMonths e c who interval day s =
     (if interval \<le> 1 then s
      else case createPrepayCreditNote e c who interval day s of Inl _ \<Rightarrow> s | Inr s' \<Rightarrow> s')"

section \<open>Ending\<close>

definition end_tx :: "env \<Rightarrow> contract_row \<Rightarrow> id option \<Rightarrow> date \<Rightarrow> letting \<Rightarrow> letting result" where
  "end_tx e existing who effectiveEnd s =
     (let s1 = add_event (con_id existing) Ce_ended (Said []) who
            (change_contract (con_id existing) (\<lambda>c. c\<lparr>con_status := Con_ended, con_endedAt := Some (now e),
               con_endDate := Some effectiveEnd, con_scheduled := nothing_scheduled\<rparr>) s);
          why = ''Contrato '' @ con_contractNumber existing @ '' finalizado''
      in bindr (unit_row_of s1 (con_unitId existing)) (\<lambda>u.
         let s2 = (if unit_status u = Occupied
                   then syncUnitStatus (con_unitId existing) Occupied Available who why s1 else s1)
         in Inr (cancelScheduledDunning (con_id existing) ''Contrato finalizado''
              (releaseScheduledUnit e existing who why s2))))"

definition end_from :: "env \<Rightarrow> contract_row \<Rightarrow> id option \<Rightarrow> letting \<Rightarrow> letting result" where
  "end_from e existing who s =
     bindr (assertContractTransition (con_status existing) Con_ended) (\<lambda>_.
     bindr (guard (\<not> isPendingPreOpening existing) (BadRequestException ''pre_opening_not_started'')) (\<lambda>_.
     let tod = todayAtUnit e s (con_unitId existing);
         effectiveEnd = (case con_endDate existing of None \<Rightarrow> tod | Some d \<Rightarrow> min d tod)
     in bindr (end_tx e existing who effectiveEnd s) (\<lambda>s1.
        Inr (emitScheduledUnitFreed existing
          (emitContractEnded (con_id existing) (con_unitId existing)
            (creditPrepaidMonths e (con_id existing) who (con_billingIntervalMonths existing) effectiveEnd
              (write_audit ''contract.ended'' (con_id existing) s1)))))))"

definition end_contract :: "env \<Rightarrow> facility_scope \<Rightarrow> id \<Rightarrow> id option \<Rightarrow> letting \<Rightarrow> letting result" where
  "end_contract e scope c who s = bindr (findContract s scope c) (\<lambda>existing. end_from e existing who s)"

section \<open>Cancelling\<close>

definition kept_by_contract :: "contract_row \<Rightarrow> letting \<Rightarrow> bool" where
  "kept_by_contract c s \<longleftrightarrow>
     con_status c \<in> {Con_active, Con_ending} \<or> con_firstPaymentDeadline c \<noteq> None \<or> po_preOpening (con_opening c) \<or>
     0 < count_rows (\<lambda>r. res_convertedContractId r = Some (con_id c)) (reservations s) \<or>
     0 < count_rows (\<lambda>w. wl_convertedContractId w = Some (con_id c)) (waitlist s)"

definition releasable :: "env \<Rightarrow> contract_row \<Rightarrow> unit_row \<Rightarrow> letting \<Rightarrow> bool" where
  "releasable e c u s \<longleftrightarrow>
     (unit_status u = Reserved \<and> kept_by_contract c s \<and>
        \<not> unitHeldByOther e s ((hold_of (con_unitId c))\<lparr>ha_contractId := Some (con_id c)\<rparr>)) \<or>
     (con_status c \<in> {Con_active, Con_ending} \<and> unit_status u = Occupied)"

definition cancel_tx :: "env \<Rightarrow> contract_row \<Rightarrow> id option \<Rightarrow> string \<Rightarrow> letting \<Rightarrow> (letting \<times> bool) result" where
  "cancel_tx e existing who reason s =
     (let s1 = add_event (con_id existing) Ce_cancelled (Said (trim reason)) who
            (change_contract (con_id existing) (\<lambda>c. c\<lparr>con_status := Con_cancelled, con_cancelledAt := Some (now e),
               con_scheduled := nothing_scheduled\<rparr>) s);
          why = ''Contrato '' @ con_contractNumber existing @ '' cancelado''
      in bindr (unit_row_of s1 (con_unitId existing)) (\<lambda>u.
         let released = releasable e existing u s1;
             s2 = (if released then syncUnitStatus (con_unitId existing) (unit_status u) Available who why s1 else s1)
         in Inr (releaseForContractInTx (con_id existing)
              (cancelScheduledDunning (con_id existing) ''Contrato cancelado''
                (releaseScheduledUnit e existing who why s2)), released)))"

definition cancel_contract_from :: "env \<Rightarrow> contract_row \<Rightarrow> id option \<Rightarrow> string \<Rightarrow> letting \<Rightarrow> letting result" where
  "cancel_contract_from e existing who reason s =
     bindr (assertContractTransition (con_status existing) Con_cancelled) (\<lambda>_.
     bindr (cancel_tx e existing who reason s) (\<lambda>(s1, released).
     let s2 = write_audit ''contract.cancelled'' (con_id existing) s1;
         s3 = (if con_status existing \<in> {Con_active, Con_ending}
               then emitContractEnded (con_id existing) (con_unitId existing)
                      (creditPrepaidMonths e (con_id existing) who (con_billingIntervalMonths existing)
                        (todayAtUnit e s2 (con_unitId existing)) s2)
               else if released then tell (Unit_available (con_unitId existing)) s2 else s2)
     in Inr (emitScheduledUnitFreed existing s3)))"

definition cancel_contract :: "env \<Rightarrow> facility_scope \<Rightarrow> id \<Rightarrow> id option \<Rightarrow> string \<Rightarrow> letting \<Rightarrow> letting result" where
  "cancel_contract e scope c who reason s =
     bindr (findContract s scope c) (\<lambda>existing. cancel_contract_from e existing who reason s)"

section \<open>The daily jobs\<close>

text \<open>The conditional update of \<open>autoRenewDue\<close>: still active, with the end it had when it was read.\<close>

definition still_due :: "contract_row \<Rightarrow> contract_row \<Rightarrow> bool" where
  "still_due c r \<longleftrightarrow> con_id r = con_id c \<and> con_status r = Con_active \<and> con_endDate r = con_endDate c"

definition renew_due :: "env \<Rightarrow> contract_row \<Rightarrow> date \<Rightarrow> letting \<Rightarrow> letting" where
  "renew_due e c endDate s =
     (let months = (case con_termMonths c of Some n \<Rightarrow> n | None \<Rightarrow> termMonths (con_startDate c) endDate);
          newEnd = renewed_end (today e) months endDate;
          s1 = (if count_rows (still_due c) (contracts (base s)) = 0 then s
                else add_event (con_id c) Ce_note_added (Renewal months newEnd) None
                  (over_base (\<lambda>d. d\<lparr>contracts := update_many (still_due c)
                     (\<lambda>r. r\<lparr>con_endDate := Some newEnd, con_termMonths := Some months\<rparr>) (contracts d)\<rparr>) s))
      in tell (Contract_renewed (con_id c) newEnd) s1)"

definition end_due :: "env \<Rightarrow> contract_row \<Rightarrow> letting \<Rightarrow> letting" where
  "end_due e c s =
     (if count_rows (still_due c) (contracts (base s)) = 0 then s
      else add_event (con_id c) Ce_ending_requested (End_date (con_endDate c)) None
        (over_base (\<lambda>d. d\<lparr>contracts := update_many (still_due c)
           (\<lambda>r. r\<lparr>con_status := Con_ending, con_endingRequestedAt := Some (now e)\<rparr>) (contracts d)\<rparr>) s))"

definition renew_or_end :: "env \<Rightarrow> contract_row \<Rightarrow> letting \<Rightarrow> letting" where
  "renew_or_end e c s =
     (case con_endDate c of
        None \<Rightarrow> s
      | Some endDate \<Rightarrow> (if con_autoRenew c then renew_due e c endDate s else end_due e c s))"

definition due_contracts :: "contract_status \<Rightarrow> env \<Rightarrow> letting \<Rightarrow> contract_row list" where
  "due_contracts st e s =
     take 500 (filter (\<lambda>c. con_status c = st \<and> \<not> con_deleted c \<and> (\<exists>d. con_endDate c = Some d \<and> d < today e))
       (contracts (base s)))"

definition autoRenewDue :: "env \<Rightarrow> letting \<Rightarrow> letting" where
  "autoRenewDue e s = fold (renew_or_end e) (due_contracts Con_active e s) s"

definition auto_end_one :: "env \<Rightarrow> contract_row \<Rightarrow> letting \<Rightarrow> letting" where
  "auto_end_one e c s =
     (case end_contract e None (con_id c) None s of
        Inl _ \<Rightarrow> s | Inr s' \<Rightarrow> notify_staff ''contract.auto_ended'' s')"

definition autoEndDue :: "env \<Rightarrow> letting \<Rightarrow> letting" where
  "autoEndDue e s =
     (if set_autoEndContracts (settings s) then fold (auto_end_one e) (due_contracts Con_ending e s) s else s)"

end
