(* ===== verification/UnitMoves.thy ===== *)
theory UnitMoves imports MoveOut begin

text \<open>
  The price and the unit of a contract in force (\<open>contracts.service.ts\<close>: \<open>changePrice\<close>, \<open>renew\<close>,
  \<open>changeUnit\<close>, \<open>scheduleMove\<close> and the changes scheduled for a day), the status of a unit changed by
  hand (\<open>facilities/units.service.ts\<close>) and the reconciliation of the inventory
  (\<open>inventory/inventory.service.ts\<close>).
\<close>

section \<open>The price\<close>

record price_input =
  prc_priceMonthly :: cents
  prc_reason :: string
  prc_effectiveDate :: "date option"
  prc_notifyCustomer :: bool

definition change_price_checks :: "contract_row \<Rightarrow> price_input \<Rightarrow> unit result" where
  "change_price_checks existing i =
     bindr (guard (con_status existing \<in> {Con_active, Con_ending}) (BadRequestException ''contract_not_active'')) (\<lambda>_.
     bindr (guard (\<not> isPendingPreOpening existing) (BadRequestException ''pre_opening_not_started'')) (\<lambda>_.
     guard (\<not> isGreaterThan (euros (con_discountAmount existing)) (euros (prc_priceMonthly i)))
       (BadRequestException ''discount_too_high'')))"

text \<open>The notice to the customer carries the new monthly amount with its tax.\<close>

definition price_notice :: "contract_row \<Rightarrow> price_input \<Rightarrow> date \<Rightarrow> letting \<Rightarrow> letting" where
  "price_notice existing i effective s =
     (if \<not> prc_notifyCustomer i then s
      else let monthly = subtractAmounts (euros (prc_priceMonthly i)) (euros (con_discountAmount existing));
               taxRate = fst (rentTax (contract_housing s existing))
           in tell (Contract_price_notice (con_id existing)
                (ndiv (of_int (math_round (nmul monthly (nadd 100 taxRate)))) 100) effective) s)"

definition schedule_price :: "price_input \<Rightarrow> date \<Rightarrow> contract_row \<Rightarrow> contract_row" where
  "schedule_price i effective c =
     c\<lparr>con_scheduled := (con_scheduled c)\<lparr>sch_price := Some (prc_priceMonthly i),
         sch_priceDate := Some effective, sch_priceReason := Some (prc_reason i)\<rparr>\<rparr>"

definition no_scheduled_price :: "scheduled_fields \<Rightarrow> scheduled_fields" where
  "no_scheduled_price f = f\<lparr>sch_price := None, sch_priceDate := None, sch_priceReason := None\<rparr>"

definition set_price :: "price_input \<Rightarrow> contract_row \<Rightarrow> contract_row" where
  "set_price i c =
     c\<lparr>con_priceMonthly := prc_priceMonthly i, con_scheduled := no_scheduled_price (con_scheduled c)\<rparr>"

definition change_price_from ::
  "env \<Rightarrow> contract_row \<Rightarrow> id option \<Rightarrow> price_input \<Rightarrow> letting \<Rightarrow> letting result" where
  "change_price_from e existing who i s =
     bindr (change_price_checks existing i) (\<lambda>_.
     let c = con_id existing;
         tod = todayAtUnit e s (con_unitId existing);
         effective = (case prc_effectiveDate i of Some d \<Rightarrow> d | None \<Rightarrow> tod)
     in Inr (price_notice existing i effective
          (if tod < effective
           then write_audit ''contract.price_scheduled'' c
                  (add_event c Ce_note_added (Said ''price_scheduled'') who
                    (change_contract c (schedule_price i effective) s))
           else write_audit ''contract.price_changed'' c
                  (add_event c Ce_price_changed (Price_change (con_priceMonthly existing) (prc_priceMonthly i)) who
                    (change_contract c (set_price i) s)))))"

definition changePrice ::
  "env \<Rightarrow> facility_scope \<Rightarrow> id \<Rightarrow> id option \<Rightarrow> price_input \<Rightarrow> letting \<Rightarrow> letting result" where
  "changePrice e scope c who i s =
     bindr (findContract s scope c) (\<lambda>existing. change_price_from e existing who i s)"

definition cancelScheduledPrice :: "facility_scope \<Rightarrow> id \<Rightarrow> letting \<Rightarrow> letting result" where
  "cancelScheduledPrice scope c s =
     bindr (findContract s scope c) (\<lambda>_.
     Inr (write_audit ''contract.scheduled_price_cancelled'' c
       (change_contract c (\<lambda>r. r\<lparr>con_scheduled := no_scheduled_price (con_scheduled r)\<rparr>) s)))"

section \<open>Renewing\<close>

text \<open>
  From the end of the contract when it is still to come, from today otherwise. The day is kept, the
  time of the clock is not: the column holds a day.
\<close>

definition renew_base :: "env \<Rightarrow> contract_row \<Rightarrow> date" where
  "renew_base e c =
     (case con_endDate c of None \<Rightarrow> utc_day (now e)
      | Some d \<Rightarrow> (if now e < day_ms d then d else utc_day (now e)))"

definition renewed_fields :: "contract_row \<Rightarrow> int \<Rightarrow> date \<Rightarrow> contract_row \<Rightarrow> contract_row" where
  "renewed_fields existing months newEnd c =
     (let c1 = c\<lparr>con_endDate := Some newEnd, con_termMonths := Some months\<rparr>
      in if con_status existing = Con_ending
         then c1\<lparr>con_status := Con_active, con_endingRequestedAt := None, con_endDateBeforeEnding := None\<rparr> else c1)"

definition renew_tx :: "env \<Rightarrow> contract_row \<Rightarrow> id option \<Rightarrow> int \<Rightarrow> letting \<Rightarrow> letting result" where
  "renew_tx e existing who months s =
     (let newEnd = addMonths (renew_base e existing) months
      in bindr (save_contract (con_id existing) (renewed_fields existing months newEnd) s) (\<lambda>s1.
         Inr (tell (Contract_renewed (con_id existing) newEnd)
           (write_audit ''contract.renewed'' (con_id existing)
             (add_event (con_id existing) Ce_note_added (Renewal months newEnd) who s1)))))"

text \<open>The price of the new term is a change of price of its own, for the day after the end it had.\<close>

definition renew ::
  "env \<Rightarrow> facility_scope \<Rightarrow> id \<Rightarrow> id option \<Rightarrow> int \<Rightarrow> cents option \<Rightarrow> letting \<Rightarrow> letting \<times> unit result" where
  "renew e scope c who months newPrice s =
     (case bindr (findContract s scope c) (\<lambda>existing.
           bindr (guard (con_status existing \<in> {Con_active, Con_ending}) (BadRequestException ''contract_not_renewable'')) (\<lambda>_.
           bindr (guard (\<not> isPendingPreOpening existing) (BadRequestException ''pre_opening_not_started'')) (\<lambda>_.
           bindr (renew_tx e existing who months s) (\<lambda>s1. Inr (s1, existing))))) of
        Inl err \<Rightarrow> (s, Inl err)
      | Inr (s1, existing) \<Rightarrow>
          (case newPrice of
             None \<Rightarrow> (s1, Inr ())
           | Some p \<Rightarrow>
               (if p = con_priceMonthly existing then (s1, Inr ())
                else case changePrice e scope c who
                       \<lparr>prc_priceMonthly = p, prc_reason = ''Renovacion del contrato'',
                        prc_effectiveDate = Some (renew_base e existing + 1), prc_notifyCustomer = True\<rparr> s1 of
                       Inl err \<Rightarrow> (s1, Inl err)
                     | Inr s2 \<Rightarrow> (s2, Inr ()))))"

section \<open>Moving to another unit\<close>

record move_input =
  mov_unitId :: id
  mov_price :: "cents option"
  mov_prorate :: bool
  mov_effectiveDate :: "date option"

definition no_scheduled_move :: "scheduled_fields \<Rightarrow> scheduled_fields" where
  "no_scheduled_move f =
     f\<lparr>sch_unitId := None, sch_unitDate := None, sch_unitPrice := None, sch_unitProrate := False\<rparr>"

definition unit_in_open_facility :: "letting \<Rightarrow> id \<Rightarrow> unit_row result" where
  "unit_in_open_facility s u =
     bindr (found (find_unit (base s) u) (NotFoundException ''unit_not_found'')) (\<lambda>r.
     bindr (guard (\<not> (\<exists>f. facility_of_unit s r = Some f \<and> fac_deleted f)) (NotFoundException ''unit_not_found'')) (\<lambda>_.
     Inr r))"

definition destination :: "env \<Rightarrow> facility_scope \<Rightarrow> contract_row \<Rightarrow> id \<Rightarrow> bool \<Rightarrow> letting \<Rightarrow> unit_row result" where
  "destination e scope existing u fromSchedule s =
     bindr (unit_in_open_facility s u) (\<lambda>r.
     bindr (assertFacilityAllowed scope (unit_facilityId r)) (\<lambda>_.
     bindr (guard (unit_status r = Available \<or> (fromSchedule \<and> unit_status r = Reserved))
              (BadRequestException ''unit_not_available'')) (\<lambda>_.
     bindr (guard (\<not> unitHeldByOther e s ((hold_of u)\<lparr>ha_contractId := Some (con_id existing),
                ha_customerId := Some (con_customerId existing)\<rparr>))
              (ConflictException ''unit_reserved_for_other'')) (\<lambda>_.
     Inr r))))"

definition moved_fields ::
  "letting \<Rightarrow> unit_row \<Rightarrow> unit_row \<Rightarrow> move_input \<Rightarrow> contract_row \<Rightarrow> contract_row" where
  "moved_fields s oldUnit newUnit i c =
     c\<lparr>con_unitId := mov_unitId i,
       con_ownerId := (if unit_facilityId newUnit \<noteq> unit_facilityId oldUnit
         then (case facility_of_unit s newUnit of None \<Rightarrow> None | Some f \<Rightarrow> fac_ownerId f) else con_ownerId c),
       con_priceMonthly := given (mov_price i) (con_priceMonthly c),
       con_scheduled := no_scheduled_move (con_scheduled c)\<rparr>"

text \<open>The old unit is given back, the new one taken; a contract not started yet only reserves it.\<close>

definition free_old_unit :: "unit_row \<Rightarrow> id option \<Rightarrow> letting \<Rightarrow> letting" where
  "free_old_unit oldUnit who s =
     (if unit_status oldUnit \<in> {Occupied, Reserved}
      then syncUnitStatus (unit_id oldUnit) (unit_status oldUnit) Available who ''Traslado: origen liberado'' s else s)"

definition change_unit_tx ::
  "env \<Rightarrow> facility_scope \<Rightarrow> contract_row \<Rightarrow> id option \<Rightarrow> move_input \<Rightarrow> letting \<Rightarrow> letting result" where
  "change_unit_tx e scope existing who i s =
     as_conflict (
     bindr (destination e scope existing (mov_unitId i)
              (sch_unitId (con_scheduled existing) = Some (mov_unitId i)) s) (\<lambda>newUnit.
     bindr (unit_row_of s (con_unitId existing)) (\<lambda>oldUnit.
     let opening = isPendingPreOpening existing in
     bindr (guard (\<not> (opening \<and> (unit_facilityId newUnit \<noteq> unit_facilityId oldUnit \<or>
                toCents (euros (unit_basePrice newUnit)) \<noteq> toCents (euros (con_priceMonthly existing)))))
              (BadRequestException ''pre_opening_same_price'')) (\<lambda>_.
     let s2 = syncUnitStatus (mov_unitId i) (unit_status newUnit) (if opening then Reserved else Occupied) who
                (if opening then ''Cambio de trastero reservado'' else ''Traslado: destino ocupado'')
                (free_old_unit oldUnit who s) in
     bindr (save_contract (con_id existing) (moved_fields s oldUnit newUnit i) s2) (\<lambda>s3.
     Inr (add_event (con_id existing) Ce_unit_changed (Unit_change (con_unitId existing) (mov_unitId i)) who s3))))))"

text \<open>
  The rise of the price for the days left of the month is invoiced at once; a failure does not undo
  the move.
\<close>

definition move_adjustment :: "date \<Rightarrow> cents \<Rightarrow> cents \<Rightarrow> rat" where
  "move_adjustment tod newPrice oldPrice =
     (let days = date_of (make_date (year_of tod) (month_of tod + 1) 0);
          remaining = days - date_of tod + 1;
          diff = subtractAmounts (euros newPrice) (euros oldPrice)
      in ndiv (of_int (math_round (ndiv (of_int (toCents diff * remaining)) (of_int days)))) 100)"

definition adjustment_input :: "contract_row \<Rightarrow> bool \<Rightarrow> date \<Rightarrow> rat \<Rightarrow> create_input" where
  "adjustment_input existing housing tod amount =
     \<lparr>ci_customerId = Some (con_customerId existing), ci_contractId = Some (con_id existing), ci_seriesId = None,
      ci_invoiceType = Some F1, ci_justification = None, ci_issueDate = None, ci_dueDate = None,
      ci_periodStart = None, ci_periodEnd = None, ci_notes = None,
      ci_items = [\<lparr>ii_description = ''Ajuste por cambio de trastero ('' @
           show_int (date_of (make_date (year_of tod) (month_of tod + 1) 0) - date_of tod + 1) @ '' dias)'',
         ii_quantity = 1, ii_unitPrice = amount, ii_taxRate = fst (rentTax housing),
         ii_taxCategory = Some (snd (rentTax housing)), ii_relatedContractId = None, ii_relatedUnitId = None,
         ii_periodStart = None, ii_periodEnd = None\<rparr>]\<rparr>"

definition invoice_adjustment :: "env \<Rightarrow> contract_row \<Rightarrow> move_input \<Rightarrow> letting \<Rightarrow> letting" where
  "invoice_adjustment e existing i s =
     (case mov_price i of
        None \<Rightarrow> s
      | Some p \<Rightarrow>
          (if \<not> mov_prorate i \<or> \<not> isGreaterThan (euros p) (euros (con_priceMonthly existing)) then s
           else let tod = todayAtUnit e s (mov_unitId i);
                    amount = move_adjustment tod p (con_priceMonthly existing);
                    housing = (case find_unit (base s) (mov_unitId i) of None \<Rightarrow> False | Some u \<Rightarrow> unit_housing u)
                in if \<not> 0 < amount then s
                   else case create_invoice e (base s) None None None (adjustment_input existing housing tod amount) of
                          Inl _ \<Rightarrow> s
                        | Inr (d, r) \<Rightarrow> s\<lparr>base := fst (issue e None None False (inv_id r) d)\<rparr>))"

definition move_now ::
  "env \<Rightarrow> facility_scope \<Rightarrow> contract_row \<Rightarrow> id option \<Rightarrow> move_input \<Rightarrow> letting \<Rightarrow> letting result" where
  "move_now e scope existing who i s =
     bindr (change_unit_tx e scope existing who i s) (\<lambda>s1.
     Inr (invoice_adjustment e existing i
       (tell (Unit_available (con_unitId existing))
         (tell (Contract_unit_changed (con_id existing) (con_unitId existing) (mov_unitId i))
           (write_audit ''contract.unit_changed'' (con_id existing) s1)))))"

definition schedule_move :: "move_input \<Rightarrow> date \<Rightarrow> contract_row \<Rightarrow> contract_row" where
  "schedule_move i day c =
     c\<lparr>con_scheduled := (con_scheduled c)\<lparr>sch_unitId := Some (mov_unitId i), sch_unitDate := Some day,
         sch_unitPrice := mov_price i, sch_unitProrate := mov_prorate i\<rparr>\<rparr>"

definition scheduleMove ::
  "env \<Rightarrow> facility_scope \<Rightarrow> contract_row \<Rightarrow> id option \<Rightarrow> move_input \<Rightarrow> date \<Rightarrow> letting \<Rightarrow> letting result" where
  "scheduleMove e scope existing who i day s =
     bindr (guard (sch_unitId (con_scheduled existing) = None) (ConflictException ''move_already_scheduled'')) (\<lambda>_.
     bindr (destination e scope existing (mov_unitId i) False s) (\<lambda>u.
     Inr (write_audit ''contract.move_scheduled'' (con_id existing)
       (add_event (con_id existing) Ce_note_added (Said ''move_scheduled'') who
         (change_contract (con_id existing) (schedule_move i day)
           (syncUnitStatus (unit_id u) Available Reserved who ''Reservado para un traslado programado'' s))))))"

definition change_unit_from ::
  "env \<Rightarrow> facility_scope \<Rightarrow> contract_row \<Rightarrow> id option \<Rightarrow> move_input \<Rightarrow> letting \<Rightarrow> letting result" where
  "change_unit_from e scope existing who i s =
     bindr (guard (con_status existing \<in> {Con_active, Con_ending}) (BadRequestException ''contract_not_active'')) (\<lambda>_.
     bindr (guard (mov_unitId i \<noteq> con_unitId existing) (BadRequestException ''same_unit'')) (\<lambda>_.
     bindr (guard (\<not> (isPendingPreOpening existing \<and> (mov_price i \<noteq> None \<or> mov_prorate i)))
              (BadRequestException ''pre_opening_same_price'')) (\<lambda>_.
     case mov_effectiveDate i of
       Some day \<Rightarrow>
         (if todayAtUnit e s (con_unitId existing) < day
          then bindr (guard (\<not> isPendingPreOpening existing) (BadRequestException ''pre_opening_same_price''))
                 (\<lambda>_. scheduleMove e scope existing who i day s)
          else move_now e scope existing who i s)
     | None \<Rightarrow> move_now e scope existing who i s)))"

definition changeUnit ::
  "env \<Rightarrow> facility_scope \<Rightarrow> id \<Rightarrow> id option \<Rightarrow> move_input \<Rightarrow> letting \<Rightarrow> letting result" where
  "changeUnit e scope c who i s =
     bindr (findContract s scope c) (\<lambda>existing. change_unit_from e scope existing who i s)"

definition cancel_scheduled_move_from :: "env \<Rightarrow> contract_row \<Rightarrow> id option \<Rightarrow> letting \<Rightarrow> letting" where
  "cancel_scheduled_move_from e existing who s =
     emitScheduledUnitFreed existing
       (write_audit ''contract.scheduled_move_cancelled'' (con_id existing)
         (change_contract (con_id existing) (\<lambda>r. r\<lparr>con_scheduled := no_scheduled_move (con_scheduled r)\<rparr>)
           (releaseScheduledUnit e existing who ''Traslado programado anulado'' s)))"

definition cancelScheduledMove :: "env \<Rightarrow> facility_scope \<Rightarrow> id \<Rightarrow> id option \<Rightarrow> letting \<Rightarrow> letting result" where
  "cancelScheduledMove e scope c who s =
     bindr (findContract s scope c) (\<lambda>existing. Inr (cancel_scheduled_move_from e existing who s))"

text \<open>Both lists are read before anything is applied; an empty price column reads as zero.\<close>

definition apply_price :: "env \<Rightarrow> contract_row \<Rightarrow> letting \<times> nat \<Rightarrow> letting \<times> nat" where
  "apply_price e c = (\<lambda>(s, n).
     case changePrice e None (con_id c) None
            \<lparr>prc_priceMonthly = given (sch_price (con_scheduled c)) 0,
             prc_reason = given (sch_priceReason (con_scheduled c)) ''Cambio de cuota programado'',
             prc_effectiveDate = None, prc_notifyCustomer = False\<rparr> s of
       Inl _ \<Rightarrow> (s, n) | Inr s' \<Rightarrow> (s', Suc n))"

definition apply_move :: "env \<Rightarrow> contract_row \<Rightarrow> letting \<times> nat \<Rightarrow> letting \<times> nat" where
  "apply_move e c = (\<lambda>(s, n).
     case sch_unitId (con_scheduled c) of
       None \<Rightarrow> (s, n)
     | Some u \<Rightarrow>
         (case changeUnit e None (con_id c) None
                 \<lparr>mov_unitId = u, mov_price = sch_unitPrice (con_scheduled c),
                  mov_prorate = sch_unitProrate (con_scheduled c), mov_effectiveDate = None\<rparr> s of
            Inl _ \<Rightarrow> (notify_staff ''contract.scheduled_move_failed'' s, n)
          | Inr s' \<Rightarrow> (s', Suc n)))"

definition applyScheduledChanges :: "env \<Rightarrow> letting \<Rightarrow> letting \<times> nat \<times> nat" where
  "applyScheduledChanges e s =
     (let due = (\<lambda>day c. is_live c \<and> (\<exists>d. day (con_scheduled c) = Some d \<and> d \<le> today e));
          prices = take 500 (filter (due sch_priceDate) (contracts (base s)));
          moves = take 500 (filter (due sch_unitDate) (contracts (base s)));
          (s1, n) = fold (apply_price e) prices (s, 0);
          (s2, m) = fold (apply_move e) moves (s1, 0)
      in (s2, n, m))"

section \<open>The status of a unit, by hand\<close>

fun UNIT_STATUS_TRANSITIONS :: "unit_status \<Rightarrow> unit_status list" where
  "UNIT_STATUS_TRANSITIONS Available = [Maintenance, Blocked]"
| "UNIT_STATUS_TRANSITIONS Reserved = [Available, Maintenance, Blocked]"
| "UNIT_STATUS_TRANSITIONS Maintenance = [Available, Blocked]"
| "UNIT_STATUS_TRANSITIONS Blocked = [Available, Maintenance]"
| "UNIT_STATUS_TRANSITIONS Occupied = [Available, Maintenance, Blocked]"

record status_input =
  sti_status :: unit_status
  sti_reason :: "string option"
  sti_until :: "date option"
  sti_createTask :: bool

definition findUnit :: "letting \<Rightarrow> facility_scope \<Rightarrow> id \<Rightarrow> unit_row result" where
  "findUnit s scope u =
     bindr (unit_in_open_facility s u) (\<lambda>r.
     bindr (assertFacilityAllowed scope (unit_facilityId r)) (\<lambda>_. Inr r))"

definition assertFutureDay :: "env \<Rightarrow> letting \<Rightarrow> unit_row \<Rightarrow> date \<Rightarrow> unit result" where
  "assertFutureDay e s u day =
     guard (\<not> day < (case facility_of_unit s u of None \<Rightarrow> today e | Some f \<Rightarrow> today_in e (fac_timezone f)))
       (BadRequestException ''invalid_until'')"

definition stopped :: "unit_status \<Rightarrow> bool" where
  "stopped st \<longleftrightarrow> st \<in> {Maintenance, Blocked}"

definition status_fields ::
  "env \<Rightarrow> unit_row \<Rightarrow> status_input \<Rightarrow> unit_status \<Rightarrow> unit_row \<Rightarrow> unit_row" where
  "status_fields e existing i st u =
     (let was = stopped (unit_status existing) in
      u\<lparr>unit_status := st,
        unit_outOfServiceReason := (if stopped st
          then (case clean_text (sti_reason i) of Some r \<Rightarrow> Some r
                | None \<Rightarrow> (if was then unit_outOfServiceReason existing else None)) else None),
        unit_outOfServiceSince := (if stopped st
          then (if was then (case unit_outOfServiceSince existing of Some t \<Rightarrow> Some t | None \<Rightarrow> Some (now e))
                else Some (now e)) else None),
        unit_maintenanceUntil := (if sti_status i = Maintenance then sti_until i else None)\<rparr>)"

definition update_unit :: "id \<Rightarrow> (unit_row \<Rightarrow> unit_row) \<Rightarrow> letting \<Rightarrow> letting" where
  "update_unit u f s = over_base (\<lambda>d. d\<lparr>units := update_many (\<lambda>r. unit_id r = u) f (units d)\<rparr>) s"

definition note_status :: "id \<Rightarrow> unit_status \<Rightarrow> unit_status \<Rightarrow> id option \<Rightarrow> string \<Rightarrow> letting \<Rightarrow> letting" where
  "note_status u old new who why s =
     s\<lparr>unit_history := unit_history s @
        [\<lparr>his_unitId = u, his_previous = old, his_new = new, his_changedBy = who, his_reason = why\<rparr>]\<rparr>"

definition close_maintenance :: "env \<Rightarrow> id \<Rightarrow> letting \<Rightarrow> letting" where
  "close_maintenance e u s =
     s\<lparr>tasks := update_many (\<lambda>t. tsk_unitId t = u \<and> tsk_open t \<and> \<not> tsk_deleted t \<and> tsk_unitMaintenance t)
        (\<lambda>t. t\<lparr>tsk_open := False, tsk_completedAt := Some (now e)\<rparr>) (tasks s)\<rparr>"

definition open_maintenance :: "unit_row \<Rightarrow> status_input \<Rightarrow> letting \<Rightarrow> letting" where
  "open_maintenance existing i s =
     s\<lparr>tasks := tasks s @ [\<lparr>tsk_unitId = unit_id existing, tsk_facilityId = unit_facilityId existing,
        tsk_title = ''Mantenimiento del trastero '' @ unit_code existing,
        tsk_description = clean_text (sti_reason i), tsk_dueDate = sti_until i, tsk_unitMaintenance = True,
        tsk_open = True, tsk_completedAt = None, tsk_deleted = False\<rparr>]\<rparr>"

definition change_status_tx ::
  "env \<Rightarrow> unit_row \<Rightarrow> id option \<Rightarrow> status_input \<Rightarrow> bool \<Rightarrow> letting \<Rightarrow> (letting \<times> unit_status) result" where
  "change_status_tx e existing who i canCreateTasks s =
     (let u = unit_id existing; old = unit_status existing; new = sti_status i in
      bindr (guard (count_rows (\<lambda>c. con_unitId c = u \<and> is_started c) (contracts (base s)) = 0)
               (ConflictException ''unit_has_live_contract'')) (\<lambda>_.
      let held = (new = Available \<and> unitHeldByOther e s (hold_of u)) in
      bindr (guard (\<not> (held \<and> old = Reserved)) (ConflictException ''unit_held_by_other'')) (\<lambda>_.
      let st = (if held then Reserved else new);
          s1 = note_status u old st who (given (clean_text (sti_reason i)) [])
                 (update_unit u (status_fields e existing i st) s);
          s2 = (if old = Maintenance \<and> st \<noteq> Blocked then close_maintenance e u s1 else s1);
          s3 = (if new = Maintenance \<and> sti_createTask i \<and> canCreateTasks then open_maintenance existing i s2 else s2)
      in Inr (s3, st))))"

definition change_status_from ::
  "env \<Rightarrow> unit_row \<Rightarrow> id option \<Rightarrow> status_input \<Rightarrow> bool \<Rightarrow> letting \<Rightarrow> letting result" where
  "change_status_from e existing who i canCreateTasks s =
     (let u = unit_id existing; old = unit_status existing; new = sti_status i in
      bindr (case sti_until i of Some day \<Rightarrow> (if new = Maintenance then assertFutureDay e s existing day else Inr ())
             | None \<Rightarrow> Inr ()) (\<lambda>_.
      if old = new
      then Inr (case sti_until i of
             Some day \<Rightarrow> (if new = Maintenance
               then note_status u Maintenance Maintenance who ''Nueva fecha prevista''
                      (update_unit u (\<lambda>r. r\<lparr>unit_maintenanceUntil := Some day\<rparr>) s) else s)
           | None \<Rightarrow> s)
      else
      bindr (guard (new \<noteq> Occupied) (BadRequestException ''occupied_via_contract_only'')) (\<lambda>_.
      bindr (guard (new \<in> set (UNIT_STATUS_TRANSITIONS old)) (BadRequestException ''invalid_status_transition'')) (\<lambda>_.
      bindr (change_status_tx e existing who i canCreateTasks s) (\<lambda>(s1, st).
      let s2 = write_audit ''unit.status_changed'' u s1
      in Inr (if st = Available then tell (Unit_available u) s2 else s2))))))"

definition changeStatus ::
  "env \<Rightarrow> facility_scope \<Rightarrow> id \<Rightarrow> id option \<Rightarrow> status_input \<Rightarrow> bool \<Rightarrow> letting \<Rightarrow> letting result" where
  "changeStatus e scope u who i canCreateTasks s =
     bindr (findUnit s scope u) (\<lambda>existing. change_status_from e existing who i canCreateTasks s)"

section \<open>Reconciling the inventory\<close>

record inventory_issue =
  iss_unitId :: id
  iss_current :: unit_status
  iss_expected :: unit_status
  iss_reason :: string

definition issues_of ::
  "letting \<Rightarrow> facility_filter \<Rightarrow> (unit_row \<Rightarrow> bool) \<Rightarrow> unit_status \<Rightarrow> string \<Rightarrow> inventory_issue list" where
  "issues_of s flt p expected why =
     map (\<lambda>u. \<lparr>iss_unitId = unit_id u, iss_current = unit_status u, iss_expected = expected, iss_reason = why\<rparr>)
       (filter (\<lambda>u. (\<exists>f. facility_of_unit s u = Some f \<and> \<not> fac_deleted f) \<and> filter_admits flt (unit_facilityId u) \<and> p u)
         (units (base s)))"

definition has_contract :: "letting \<Rightarrow> (contract_row \<Rightarrow> bool) \<Rightarrow> unit_row \<Rightarrow> bool" where
  "has_contract s p u \<longleftrightarrow> (\<exists>c\<in>set (contracts (base s)). con_unitId c = unit_id u \<and> p c)"

definition orphan_reserved :: "letting \<Rightarrow> unit_row \<Rightarrow> bool" where
  "orphan_reserved s u \<longleftrightarrow>
     unit_status u = Reserved \<and>
     (\<forall>r\<in>set (reservations s). \<not> (res_unitId r = unit_id u \<and> res_status r \<in> {Res_pending, Res_confirmed})) \<and>
     \<not> has_contract s (\<lambda>c. con_status c \<in> {Con_draft, Con_active, Con_ending} \<and> \<not> con_deleted c) u \<and>
     (\<forall>w\<in>set (waitlist s). \<not> (wl_heldUnitId w = Some (unit_id u) \<and> wl_status w = Wl_notified)) \<and>
     (\<forall>c\<in>set (contracts (base s)). \<not> (sch_unitId (con_scheduled c) = Some (unit_id u) \<and> is_live c))"

definition findIssues :: "facility_scope \<Rightarrow> letting \<Rightarrow> inventory_issue list" where
  "findIssues scope s =
     (case resolveFacilityFilter scope None of
        Out_of_scope \<Rightarrow> []
      | flt \<Rightarrow>
          issues_of s flt (\<lambda>u. unit_status u = Occupied \<and> \<not> has_contract s is_live u) Available
            ''Ocupado sin ningun contrato activo'' @
          issues_of s flt (\<lambda>u. unit_status u = Available \<and> has_contract s is_live u) Occupied
            ''Disponible pero con un contrato activo'' @
          issues_of s flt (orphan_reserved s) Available ''Reservado sin reserva ni contrato en curso'' @
          issues_of s flt (\<lambda>u. unit_status u \<in> {Reserved, Maintenance, Blocked} \<and> has_contract s is_started u) Occupied
            ''Tiene un contrato en vigor'')"

text \<open>The write asks for the status the issue was found with.\<close>

definition fix_issue :: "inventory_issue \<Rightarrow> id option \<Rightarrow> letting \<Rightarrow> letting result" where
  "fix_issue iss who s =
     (let hit = (\<lambda>u. unit_id u = iss_unitId iss \<and> unit_status u = iss_current iss) in
      bindr (guard (0 < count_rows hit (units (base s))) (ConflictException ''no_inventory_issue'')) (\<lambda>_.
      let s1 = write_audit ''unit.status_reconciled'' (iss_unitId iss)
           (note_status (iss_unitId iss) (iss_current iss) (iss_expected iss) who
             (''Reconciliacion de inventario: '' @ iss_reason iss)
             (over_base (\<lambda>d. d\<lparr>units := update_many hit
                (\<lambda>u. u\<lparr>unit_status := iss_expected iss, unit_outOfServiceReason := None,
                       unit_outOfServiceSince := None, unit_maintenanceUntil := None\<rparr>) (units d)\<rparr>) s))
      in Inr (if iss_expected iss = Available then tell (Unit_available (iss_unitId iss)) s1 else s1)))"

definition fix_inventory :: "facility_scope \<Rightarrow> id \<Rightarrow> id option \<Rightarrow> letting \<Rightarrow> letting result" where
  "fix_inventory scope u who s =
     bindr (found (find_first (\<lambda>i. iss_unitId i = u) (findIssues scope s)) (ConflictException ''no_inventory_issue'')) (\<lambda>iss.
     fix_issue iss who s)"

end
