(* ===== verification/Deposits.thy ===== *)
theory Deposits imports UnitMoves begin

text \<open>
  The deposit of a contract (\<open>contracts.service.ts\<close>: \<open>collectDeposit\<close>, \<open>settleDeposit\<close>,
  \<open>applyRetainedDeposit\<close>; \<open>common/deposit-collected.ts\<close>). The amount to give back has at most two
  decimals, so it is a number of cents like the columns it is compared with.
\<close>

section \<open>Was it collected?\<close>

definition depositWasCollected :: "letting \<Rightarrow> id \<Rightarrow> bool" where
  "depositWasCollected s c \<longleftrightarrow>
     0 < count_rows (\<lambda>r. inv_contractId r = Some c \<and> \<not> inv_deleted r \<and>
            inv_status r \<in> {Paid, Partially_refunded, Refunded} \<and>
            (inv_kind r = Deposit_receipt \<or>
             (\<exists>l\<in>set (items (base s)). it_invoiceId l = inv_id r \<and> startsWith (it_description l) ''Fianza'')))
          (invoices (base s)) \<or>
     0 < count_rows (\<lambda>v. cev_contractId v = c \<and> cev_type v = Ce_signed \<and>
            (case cev_payload v of Migrated _ \<Rightarrow> True | _ \<Rightarrow> False)) (contract_events s)"

text \<open>The latest receipt that is not annulled.\<close>

definition deposit_receipt_of :: "letting \<Rightarrow> id \<Rightarrow> invoice_row option" where
  "deposit_receipt_of s c =
     find_latest (\<lambda>r. inv_contractId r = Some c \<and> inv_kind r = Deposit_receipt \<and> \<not> inv_deleted r \<and>
       inv_status r \<noteq> Cancelled) (invoices (base s))"

section \<open>Collecting it\<close>

text \<open>Only an issued invoice has something pending.\<close>

definition collected_input :: "invoice_row \<Rightarrow> method_type \<Rightarrow> mark_paid_input" where
  "collected_input r method =
     \<lparr>mp_amount = (if inv_status r \<in> {Issued, Overdue} then max 0 (inv_total r - inv_amountPaid r) else 0), mp_method = method, mp_paidAt = None, mp_notes = None,
      mp_override = False, mp_allowInRemittance = False, mp_allowPartialNonCash = False, mp_rejectDuplicate = False\<rparr>"

definition collect_receipt :: "env \<Rightarrow> method_type \<Rightarrow> id \<Rightarrow> letting \<Rightarrow> letting \<times> unit result" where
  "collect_receipt e method i s =
     (case bindr (found (find_invoice (base s) i) (NotFoundException ''invoice_not_found'')) (\<lambda>r.
           markPaidManually e None i (collected_input r method) (base s)) of
        Inl err \<Rightarrow> (s, Inl err) | Inr d \<Rightarrow> (s\<lparr>base := d\<rparr>, Inr ()))"

definition collectDeposit ::
  "env \<Rightarrow> facility_scope \<Rightarrow> id \<Rightarrow> method_type \<Rightarrow> letting \<Rightarrow> letting \<times> unit result" where
  "collectDeposit e scope c method s =
     (case bindr (findContract s scope c) (\<lambda>existing.
           bindr (guard (0 < dep_amount (con_deposit existing)) (BadRequestException ''no_deposit'')) (\<lambda>_.
           bindr (guard (con_status existing \<notin> {Con_cancelled, Con_ended}) (BadRequestException ''contract_closed'')) (\<lambda>_.
           case deposit_receipt_of s c of
             Some r \<Rightarrow> bindr (guard (inv_status r \<noteq> Paid) (ConflictException ''deposit_already_collected''))
                         (\<lambda>_. Inr (s, inv_id r))
           | None \<Rightarrow>
               bindr (createDepositReceipt e (base s)
                  \<lparr>ri_contractId = c, ri_customerId = con_customerId existing,
                   ri_contractNumber = con_contractNumber existing, ri_amount = dep_amount (con_deposit existing),
                   ri_dueDate = None, ri_bundledWith = None\<rparr>) (\<lambda>(d, r). Inr (s\<lparr>base := d\<rparr>, inv_id r))))) of
        Inl err \<Rightarrow> (s, Inl err)
      | Inr (s1, i) \<Rightarrow> collect_receipt e method i s1)"

section \<open>Settling it\<close>

record settle_input =
  stl_returned :: cents
  stl_reason :: "string option"
  stl_applyToInvoices :: bool
  stl_method :: "string option"
  stl_returnedOn :: "date option"
  stl_reference :: "string option"
  stl_notifyCustomer :: bool
  stl_closeUncollected :: bool

definition settle_checks :: "letting \<Rightarrow> contract_row \<Rightarrow> settle_input \<Rightarrow> unit result" where
  "settle_checks s existing i =
     (let deposit = dep_amount (con_deposit existing);
          legacyClosed = (con_status existing \<in> {Con_ended, Con_cancelled} \<and> deposit_receipt_of s (con_id existing) = None)
      in bindr (guard (dep_status (con_deposit existing) = Dep_held) (BadRequestException ''deposit_not_held'')) (\<lambda>_.
         bindr (guard (depositWasCollected s (con_id existing) \<or> legacyClosed \<or> stl_closeUncollected i)
                  (BadRequestException ''deposit_not_collected'')) (\<lambda>_.
         bindr (guard (\<not> (stl_returned i < 0 \<or> deposit < stl_returned i))
                  (BadRequestException ''invalid_return_amount'')) (\<lambda>_.
         guard (\<not> (0 < deposit - stl_returned i \<and> blank (stl_reason i)))
           (BadRequestException ''retention_reason_required'')))))"

definition settled_fields :: "env \<Rightarrow> contract_row \<Rightarrow> settle_input \<Rightarrow> contract_row \<Rightarrow> contract_row" where
  "settled_fields e existing i c =
     (let deposit = dep_amount (con_deposit existing); retained = deposit - stl_returned i in
      c\<lparr>con_deposit := (con_deposit c)\<lparr>
          dep_status := (if deposit \<le> stl_returned i then Dep_returned else Dep_partially_returned),
          dep_returnedAmount := stl_returned i, dep_settledAt := Some (now e),
          dep_retentionReason := (if 0 < retained then map_option trim (stl_reason i) else None),
          dep_returnMethod := stl_method i, dep_returnedOn := stl_returnedOn i,
          dep_returnReference := clean_text (stl_reference i)\<rparr>\<rparr>)"

text \<open>The claim asks for a deposit still held, so a second settlement finds nothing to settle.\<close>

definition settle_tx :: "env \<Rightarrow> contract_row \<Rightarrow> id option \<Rightarrow> settle_input \<Rightarrow> letting \<Rightarrow> letting result" where
  "settle_tx e existing who i s =
     (let c = con_id existing; deposit = dep_amount (con_deposit existing);
          hit = (\<lambda>r. con_id r = c \<and> dep_status (con_deposit r) = Dep_held)
      in bindr (guard (0 < count_rows hit (contracts (base s))) (ConflictException ''deposit_already_settled'')) (\<lambda>_.
         Inr (add_event c Ce_note_added (Deposit_settled deposit (stl_returned i) (deposit - stl_returned i)) who
           (over_base (\<lambda>d. d\<lparr>contracts := update_many hit (settled_fields e existing i) (contracts d)\<rparr>) s))))"

text \<open>What is retained pays the open invoices of the contract, the oldest first.\<close>

definition open_invoices :: "letting \<Rightarrow> id \<Rightarrow> invoice_row list" where
  "open_invoices s c =
     sort_key (\<lambda>r. case inv_issueDate r of None \<Rightarrow> (1, 0) | Some d \<Rightarrow> (0 :: int, d))
       (filter (\<lambda>r. inv_contractId r = Some c \<and> inv_kind r = Invoice_kind \<and> inv_status r \<in> {Issued, Overdue} \<and>
          \<not> inv_deleted r) (invoices (base s)))"

definition retained_payment :: "cents \<Rightarrow> mark_paid_input" where
  "retained_payment k =
     \<lparr>mp_amount = k, mp_method = Other_method, mp_paidAt = None,
      mp_notes = Some ''Aplicado de la fianza retenida'', mp_override = True, mp_allowInRemittance = True,
      mp_allowPartialNonCash = True, mp_rejectDuplicate = False\<rparr>"

fun pay_with_retained ::
  "env \<Rightarrow> invoice_row list \<Rightarrow> cents \<Rightarrow> cents \<Rightarrow> db \<Rightarrow> db \<times> cents result" where
  "pay_with_retained e [] funds applied d = (d, Inr applied)"
| "pay_with_retained e (r # rs) funds applied d =
     (if funds \<le> 0 then (d, Inr applied)
      else (let pay = min (inv_total r - inv_amountPaid r) funds
            in if pay \<le> 0 then pay_with_retained e rs funds applied d
               else case markPaidManually e None (inv_id r) (retained_payment pay) d of
                      Inl err \<Rightarrow> (d, Inl err)
                    | Inr d1 \<Rightarrow> pay_with_retained e rs (funds - pay) (applied + pay) d1))"

definition applyRetainedDeposit :: "env \<Rightarrow> id \<Rightarrow> cents \<Rightarrow> letting \<Rightarrow> letting \<times> cents result" where
  "applyRetainedDeposit e c retained s =
     (case pay_with_retained e (open_invoices s c) retained 0 (base s) of
        (d, Inl err) \<Rightarrow> (s\<lparr>base := d\<rparr>, Inl err)
      | (d, Inr applied) \<Rightarrow>
          ((if 0 < applied
            then change_contract c (\<lambda>r. r\<lparr>con_deposit := (con_deposit r)\<lparr>dep_appliedAmount := applied\<rparr>\<rparr>) (s\<lparr>base := d\<rparr>)
            else s\<lparr>base := d\<rparr>), Inr applied))"

definition settle_from ::
  "env \<Rightarrow> contract_row \<Rightarrow> id option \<Rightarrow> settle_input \<Rightarrow> letting \<Rightarrow> letting \<times> unit result" where
  "settle_from e existing who i s =
     (let c = con_id existing; deposit = dep_amount (con_deposit existing); retained = deposit - stl_returned i in
      case bindr (settle_checks s existing i) (\<lambda>_. settle_tx e existing who i s) of
        Inl err \<Rightarrow> (s, Inl err)
      | Inr s1 \<Rightarrow>
          (let s2 = write_audit ''contract.deposit_settled'' c s1 in
           case (if stl_applyToInvoices i then applyRetainedDeposit e c retained s2 else (s2, Inr 0)) of
             (s3, Inl err) \<Rightarrow> (s3, Inl err)
           | (s3, Inr applied) \<Rightarrow>
               ((if stl_notifyCustomer i
                 then tell (Contract_deposit_settled c deposit (stl_returned i) applied) s3 else s3), Inr ())))"

definition settleDeposit ::
  "env \<Rightarrow> facility_scope \<Rightarrow> id \<Rightarrow> id option \<Rightarrow> settle_input \<Rightarrow> letting \<Rightarrow> letting \<times> unit result" where
  "settleDeposit e scope c who i s =
     (case findContract s scope c of
        Inl err \<Rightarrow> (s, Inl err)
      | Inr existing \<Rightarrow> settle_from e existing who i s)"

end
