(* ===== verification/PreOpening.thy ===== *)
theory PreOpening imports Deposits begin

text \<open>
  A facility about to open and the reservations signed for it
  (\<open>contracts/pre-opening.service.ts\<close>, \<open>packages/shared/src/contracts/pre-opening.ts\<close>): its opening
  date, the start of its reservations the day it opens, and what a cancellation before that day gives
  back. The messages to the tenants are not modelled.
\<close>

section \<open>What a cancellation gives back\<close>

datatype cancel_reason = Withdrawal_period | Not_opened_in_time | Standard_cancellation

record cancel_outcome =
  co_allowed :: bool
  co_reason :: "cancel_reason option"
  co_refundRent :: bool
  co_refundDeposit :: bool
  co_withdrawalEndsOn :: date

definition PRE_OPENING_WITHDRAWAL_DAYS :: int where "PRE_OPENING_WITHDRAWAL_DAYS = 14"

definition preOpeningCancelOutcome :: "date \<Rightarrow> date \<Rightarrow> date option \<Rightarrow> bool \<Rightarrow> cancel_outcome" where
  "preOpeningCancelOutcome signedOn tod deadline started =
     (let ends = signedOn + PRE_OPENING_WITHDRAWAL_DAYS;
          outcome = (\<lambda>allowed reason rent deposit.
            \<lparr>co_allowed = allowed, co_reason = reason, co_refundRent = rent, co_refundDeposit = deposit,
             co_withdrawalEndsOn = ends\<rparr>)
      in if started then outcome False None False False
         else if tod \<le> ends then outcome True (Some Withdrawal_period) True True
         else case deadline of
                Some d \<Rightarrow> (if d < tod then outcome True (Some Not_opened_in_time) True True
                          else outcome True (Some Standard_cancellation) True False)
              | None \<Rightarrow> outcome True (Some Standard_cancellation) True False)"

section \<open>The opening of a facility\<close>

definition pendingContracts :: "letting \<Rightarrow> id \<Rightarrow> contract_row list" where
  "pendingContracts s f =
     filter (\<lambda>c. isPendingPreOpening c \<and> con_status c \<in> {Con_draft, Con_active, Con_ending} \<and> \<not> con_deleted c \<and>
       (\<exists>u. find_unit (base s) (con_unitId c) = Some u \<and> unit_facilityId u = f)) (contracts (base s))"

definition update_facility :: "id \<Rightarrow> (facility_row \<Rightarrow> facility_row) \<Rightarrow> letting \<Rightarrow> letting" where
  "update_facility f g s =
     over_base (\<lambda>d. d\<lparr>facilities := update_many (\<lambda>r. fac_id r = f) g (facilities d)\<rparr>) s"

text \<open>A draft not signed yet becomes an ordinary contract from the opening day.\<close>

definition start_draft :: "contract_row \<Rightarrow> date \<Rightarrow> letting \<Rightarrow> letting \<times> bool" where
  "start_draft c day s =
     (let hit = (\<lambda>r. con_id r = con_id c \<and> con_status r = Con_draft \<and> po_startedAt (con_opening r) = None)
      in (over_base (\<lambda>d. d\<lparr>contracts := update_many hit
            (\<lambda>r. r\<lparr>con_opening := (con_opening r)\<lparr>po_preOpening := False, po_dateConfirmed := False, po_deadline := None\<rparr>,
                   con_startDate := day\<rparr>) (contracts d)\<rparr>) s,
          0 < count_rows hit (contracts (base s))))"

text \<open>The free unit of the same facility, type and price with the least code.\<close>

fun least_code :: "unit_row list \<Rightarrow> unit_row option" where
  "least_code [] = None"
| "least_code (u # us) =
     (case least_code us of None \<Rightarrow> Some u
      | Some m \<Rightarrow> Some (if text_less (unit_code m) (unit_code u) then m else u))"

definition replacement_unit :: "letting \<Rightarrow> unit_row \<Rightarrow> unit_row option" where
  "replacement_unit s u =
     least_code (filter (\<lambda>r. unit_facilityId r = unit_facilityId u \<and> unit_unitTypeId r = unit_unitTypeId u \<and>
        unit_basePrice r = unit_basePrice u \<and> unit_status r = Available \<and> unit_id r \<noteq> unit_id u) (units (base s)))"

definition started_fields :: "env \<Rightarrow> date \<Rightarrow> contract_row \<Rightarrow> contract_row" where
  "started_fields e day r =
     r\<lparr>con_opening := (con_opening r)\<lparr>po_startedAt := Some (now e), po_dateConfirmed := True\<rparr>,
       con_startDate := day, con_billingStartsOn := Some (addMonthsYmd day 1)\<rparr>"

datatype start_kind = Started | Reassigned | Unit_problem | Unsigned

text \<open>The unit of the contract or, when that one is out of service, another like it.\<close>

definition reassign :: "contract_row \<Rightarrow> unit_row \<Rightarrow> letting \<Rightarrow> (letting \<times> unit_row \<times> start_kind) result" where
  "reassign c u s =
     (if \<not> stopped (unit_status u) then Inr (s, u, Started)
      else case replacement_unit s u of
             None \<Rightarrow> Inr (s, u, Unit_problem)
           | Some r \<Rightarrow>
               bindr (save_contract (con_id c) (\<lambda>x. x\<lparr>con_unitId := unit_id r\<rparr>) s) (\<lambda>s1.
               Inr (add_event (con_id c) Ce_note_added (Said ''pre_opening_reassigned'') None s1, r, Reassigned)))"

definition start_tx ::
  "env \<Rightarrow> contract_row \<Rightarrow> date \<Rightarrow> letting \<Rightarrow> (letting \<times> start_kind option) result" where
  "start_tx e c day s =
     (let hit = (\<lambda>r. con_id r = con_id c \<and> po_startedAt (con_opening r) = None)
      in if count_rows hit (contracts (base s)) = 0 then Inr (s, None)
         else (let s1 = over_base (\<lambda>d. d\<lparr>contracts := update_many hit (started_fields e day) (contracts d)\<rparr>) s
               in bindr (unit_row_of s1 (con_unitId c)) (\<lambda>u.
                  bindr (reassign c u s1) (\<lambda>(s2, r, kind).
                  let s3 = (if unit_status r \<in> {Reserved, Available}
                            then write_status (unit_id r) (unit_status r) Occupied None
                                   (''Apertura del local: empieza el contrato '' @ con_contractNumber c) s2
                            else s2)
                  in Inr (add_event (con_id c) Ce_note_added (Said ''pre_opening_started'') None s3, Some kind)))))"

definition startContract ::
  "env \<Rightarrow> contract_row \<Rightarrow> date \<Rightarrow> letting \<Rightarrow> (letting \<times> start_kind option) result" where
  "startContract e c day s =
     (if con_status c = Con_draft
      then (case start_draft c day s of (s1, hit) \<Rightarrow> Inr (s1, if hit then Some Unsigned else None))
      else bindr (start_tx e c day s) (\<lambda>(s1, kind).
           case kind of
             None \<Rightarrow> Inr (s1, None)
           | Some k \<Rightarrow>
               (let s2 = tell (Pre_opening_started (con_id c)) s1
                in Inr (if k = Unit_problem then notify_staff ''contract.pre_opening_unit_problem'' s2 else s2, Some k))))"

text \<open>
  One contract after another. The facility stops being about to open when none failed; the count
  is of the contracts started.
\<close>

fun start_each :: "env \<Rightarrow> date \<Rightarrow> contract_row list \<Rightarrow> letting \<Rightarrow> letting \<times> start_kind list \<times> nat" where
  "start_each e day [] s = (s, [], 0)"
| "start_each e day (c # cs) s =
     (case startContract e c day s of
        Inl _ \<Rightarrow> (case start_each e day cs s of (s', kinds, failed) \<Rightarrow> (s', kinds, Suc failed))
      | Inr (s1, None) \<Rightarrow> start_each e day cs s1
      | Inr (s1, Some k) \<Rightarrow> (case start_each e day cs s1 of (s', kinds, failed) \<Rightarrow> (s', k # kinds, failed)))"

definition startFacility :: "env \<Rightarrow> id \<Rightarrow> date \<Rightarrow> letting \<Rightarrow> letting \<times> nat" where
  "startFacility e f day s =
     (case start_each e day (pendingContracts s f) s of
        (s1, kinds, failed) \<Rightarrow>
          ((if failed = 0 then update_facility f (\<lambda>r. r\<lparr>fac_preOpening := False, fac_openingDate := Some day\<rparr>) s1
            else s1), length kinds))"

definition move_reservation :: "date option \<Rightarrow> contract_row \<Rightarrow> letting \<Rightarrow> letting" where
  "move_reservation opening c s =
     add_event (con_id c) Ce_note_added (Said ''pre_opening_date_changed'') None
       (change_contract (con_id c) (\<lambda>r. r\<lparr>
          con_startDate := (case opening of Some d \<Rightarrow> d
            | None \<Rightarrow> (case po_deadline (con_opening c) of Some d \<Rightarrow> d | None \<Rightarrow> con_startDate c)),
          con_opening := (con_opening r)\<lparr>po_dateConfirmed := (opening \<noteq> None)\<rparr>\<rparr>) s)"

definition moveReservations :: "id \<Rightarrow> date option \<Rightarrow> letting \<Rightarrow> letting \<times> nat" where
  "moveReservations f opening s =
     (let rows = pendingContracts s f in (fold (move_reservation opening) rows s, length rows))"

definition updateOpening ::
  "env \<Rightarrow> facility_scope \<Rightarrow> id \<Rightarrow> bool \<Rightarrow> date option \<Rightarrow> int \<Rightarrow> letting \<Rightarrow> (letting \<times> nat \<times> nat) result" where
  "updateOpening e scope f preOpening asked maxMonths s =
     bindr (assertFacilityAllowed scope f) (\<lambda>_.
     bindr (found (find_first (\<lambda>r. fac_id r = f \<and> \<not> fac_deleted r) (facilities (base s)))
              (NotFoundException ''facility_not_found'')) (\<lambda>before.
     let tod = today_in e (fac_timezone before);
         opening = (if preOpening then asked else None);
         s1 = write_audit ''facility.opening_changed'' f
                (update_facility f (\<lambda>r. r\<lparr>fac_preOpening := preOpening, fac_openingDate := opening,
                   fac_preOpeningMaxMonths := maxMonths\<rparr>) s)
     in if \<not> preOpening \<or> (\<exists>d. opening = Some d \<and> d \<le> tod)
        then (case startFacility e f (given opening tod) s1 of (s2, n) \<Rightarrow> Inr (s2, 0, n))
        else if fac_openingDate before \<noteq> opening
        then (case moveReservations f opening s1 of (s2, n) \<Rightarrow> Inr (s2, n, 0))
        else Inr (s1, 0, 0)))"

text \<open>The hourly pass: facilities that open today or opened with reservations left to start.\<close>

definition facility_due :: "letting \<Rightarrow> facility_row \<Rightarrow> bool" where
  "facility_due s f \<longleftrightarrow>
     \<not> fac_deleted f \<and>
     ((fac_preOpening f \<and> fac_openingDate f \<noteq> None) \<or> (\<not> fac_preOpening f \<and> pendingContracts s (fac_id f) \<noteq> []))"

definition start_due :: "env \<Rightarrow> facility_row \<Rightarrow> letting \<times> nat \<Rightarrow> letting \<times> nat" where
  "start_due e f = (\<lambda>(s, n).
     let tod = today_in e (fac_timezone f); opening = given (fac_openingDate f) tod in
     if \<not> fac_preOpening f \<or> opening \<le> tod
     then (case startFacility e (fac_id f) (min opening tod) s of (s', k) \<Rightarrow> (s', n + k))
     else (s, n))"

definition runDue :: "env \<Rightarrow> letting \<Rightarrow> letting \<times> nat" where
  "runDue e s = fold (start_due e) (filter (facility_due s) (facilities (base s))) (s, 0)"

section \<open>Cancelling before the facility opens\<close>

definition opening_rent_invoice :: "letting \<Rightarrow> id \<Rightarrow> invoice_row option" where
  "opening_rent_invoice s c =
     find_first (\<lambda>r. inv_contractId r = Some c \<and> inv_kind r = Invoice_kind \<and> \<not> inv_deleted r \<and> inv_rectifies r = None)
       (invoices (base s))"

definition loadForCancel ::
  "env \<Rightarrow> id option \<Rightarrow> facility_scope \<Rightarrow> id \<Rightarrow> letting \<Rightarrow> (contract_row \<times> cancel_outcome) result" where
  "loadForCancel e customer scope c s =
     bindr (found (find_first (\<lambda>r. con_id r = c \<and> \<not> con_deleted r \<and>
                (case customer of None \<Rightarrow> True | Some cu \<Rightarrow> con_customerId r = cu)) (contracts (base s)))
              (NotFoundException ''contract_not_found'')) (\<lambda>r.
     bindr (unit_row_of s (con_unitId r)) (\<lambda>u.
     bindr (assertFacilityAllowed scope (unit_facilityId u)) (\<lambda>_.
     bindr (guard (po_preOpening (con_opening r) \<and> con_status r \<notin> {Con_cancelled, Con_ended})
              (BadRequestException ''not_pre_opening'')) (\<lambda>_.
     let zone = (case facility_of_unit s u of None \<Rightarrow> tz_offset e | Some f \<Rightarrow> zone_offset e (fac_timezone f))
     in Inr (r, preOpeningCancelOutcome
               (todayInTimezone zone (case con_signedAt r of Some t \<Rightarrow> t | None \<Rightarrow> con_createdAt r))
               (todayInTimezone zone (now e)) (po_deadline (con_opening r)) (\<not> isPendingPreOpening r))))))"

text \<open>
  Money goes back by the gateway when it came by card or direct debit; the refusal of a gateway
  without refunds is an answer, any other error stops the cancellation.
\<close>

definition gateway_charged :: "letting \<Rightarrow> id \<Rightarrow> bool" where
  "gateway_charged s i \<longleftrightarrow>
     (\<exists>p\<in>set (payments (base s)). pay_invoiceId p = Some i \<and> pay_gatewayPaymentId p \<noteq> None \<and>
        pay_gateway p \<in> {Stripe, Gocardless} \<and> pay_status p \<in> {Pay_succeeded, Pay_partially_refunded})"

definition refundDocument ::
  "env \<Rightarrow> gateway_answer \<Rightarrow> id option \<Rightarrow> id \<Rightarrow> cents \<Rightarrow> string \<Rightarrow> bool \<Rightarrow> letting \<Rightarrow> (letting \<times> bool) result" where
  "refundDocument e gw who i amount why deposit s =
     (case refund e gw None i
            \<lparr>rf_amount = amount, rf_reason = Some why, rf_registeredExternally = False,
             rf_allowDepositReceipt = deposit, rf_rejectDuplicate = False, rf_userId = who\<rparr> (base s) of
        Inl err \<Rightarrow> (if err = BadRequestException ''refund_not_supported_gateway'' then Inr (s, False) else Inl err)
      | Inr d \<Rightarrow> Inr (s\<lparr>base := d\<rparr>, gateway_charged s i))"

text \<open>
  The cancellation is a sequence of operations of other services, each with its own transactions:
  what was done stays when a later one fails.
\<close>

definition and_then :: "'s \<times> 'a result \<Rightarrow> ('s \<Rightarrow> 'a \<Rightarrow> 's \<times> 'b result) \<Rightarrow> 's \<times> 'b result" where
  "and_then m k = (case m of (s, Inl err) \<Rightarrow> (s, Inl err) | (s, Inr x) \<Rightarrow> k s x)"

definition atomically :: "('s \<Rightarrow> ('s \<times> 'a) result) \<Rightarrow> 's \<Rightarrow> 's \<times> 'a result" where
  "atomically f s = (case f s of Inl err \<Rightarrow> (s, Inl err) | Inr (s', x) \<Rightarrow> (s', Inr x))"

definition cancel_invoice_of :: "env \<Rightarrow> id \<Rightarrow> string \<Rightarrow> letting \<Rightarrow> letting \<times> unit result" where
  "cancel_invoice_of e i why s = (case cancel e None i (Some why) (base s) of (d, r) \<Rightarrow> (s\<lparr>base := d\<rparr>, r))"

definition give_back_rent ::
  "env \<Rightarrow> gateway_answer \<Rightarrow> id option \<Rightarrow> invoice_row option \<Rightarrow> string \<Rightarrow> letting \<Rightarrow> letting \<times> unit result" where
  "give_back_rent e gw who invoice why s =
     (case invoice of
        None \<Rightarrow> (s, Inr ())
      | Some r \<Rightarrow>
          (let paid = inv_amountPaid r - inv_amountRefunded r
           in if 0 < paid
              then and_then (atomically (refundDocument e gw who (inv_id r) paid why False) s) (\<lambda>s1 _. (s1, Inr ()))
              else if inv_status r \<in> {Issued, Overdue} then cancel_invoice_of e (inv_id r) why s
              else (s, Inr ())))"

definition refund_deposit ::
  "env \<Rightarrow> gateway_answer \<Rightarrow> id option \<Rightarrow> contract_row \<Rightarrow> string \<Rightarrow> letting \<Rightarrow> letting \<times> unit result" where
  "refund_deposit e gw who c why s =
     (case find_first (\<lambda>r. inv_contractId r = Some (con_id c) \<and> inv_kind r = Deposit_receipt \<and>
              inv_status r \<in> {Paid, Partially_refunded} \<and> \<not> inv_deleted r) (invoices (base s)) of
        None \<Rightarrow> (s, Inr ())
      | Some r \<Rightarrow>
          (let refundable = min (dep_amount (con_deposit c)) (inv_amountPaid r - inv_amountRefunded r)
           in if 0 < refundable
              then and_then (atomically (refundDocument e gw who (inv_id r) refundable why True) s) (\<lambda>s1 _. (s1, Inr ()))
              else (s, Inr ())))"

definition opening_settlement :: "contract_row \<Rightarrow> cancel_outcome \<Rightarrow> settle_input" where
  "opening_settlement c outcome =
     \<lparr>stl_returned = (if co_refundDeposit outcome then dep_amount (con_deposit c) else 0),
      stl_reason = (if co_refundDeposit outcome then None
        else Some ''Cancelacion de la reserva anticipada pasados los 14 dias de desistimiento''),
      stl_applyToInvoices = False, stl_method = None, stl_returnedOn = None, stl_reference = None,
      stl_notifyCustomer = False, stl_closeUncollected = True\<rparr>"

text \<open>Receipts not collected are annulled; a failure is only logged.\<close>

definition cancelUnpaidDeposit :: "env \<Rightarrow> id \<Rightarrow> string \<Rightarrow> letting \<Rightarrow> letting" where
  "cancelUnpaidDeposit e c why s =
     fold (\<lambda>r s1. fst (cancel_invoice_of e (inv_id r) why s1))
       (filter (\<lambda>r. inv_contractId r = Some c \<and> inv_kind r = Deposit_receipt \<and>
          inv_status r \<in> {Draft, Issued, Overdue} \<and> \<not> inv_deleted r) (invoices (base s))) s"

definition give_back_deposit ::
  "env \<Rightarrow> gateway_answer \<Rightarrow> id option \<Rightarrow> contract_row \<Rightarrow> cancel_outcome \<Rightarrow> string \<Rightarrow> letting
    \<Rightarrow> letting \<times> unit result" where
  "give_back_deposit e gw who c outcome why s =
     (if dep_status (con_deposit c) = Dep_held
      then and_then
             (if co_refundDeposit outcome \<and> 0 < dep_amount (con_deposit c)
              then refund_deposit e gw who c why s else (s, Inr ()))
             (\<lambda>s1 _. settleDeposit e None (con_id c) who (opening_settlement c outcome) s1)
      else (cancelUnpaidDeposit e (con_id c) why s, Inr ()))"

definition cancel_why :: "cancel_outcome \<Rightarrow> string" where
  "cancel_why outcome =
     (case co_reason outcome of
        Some Withdrawal_period \<Rightarrow> ''Desistimiento dentro de los 14 dias''
      | Some Not_opened_in_time \<Rightarrow> ''El local no abrio en el plazo maximo''
      | _ \<Rightarrow> ''Cancelacion de la reserva antes de la apertura'')"

definition cancelOpening ::
  "env \<Rightarrow> gateway_answer \<Rightarrow> id option \<Rightarrow> facility_scope \<Rightarrow> id option \<Rightarrow> id \<Rightarrow> string option \<Rightarrow> letting
    \<Rightarrow> letting \<times> unit result" where
  "cancelOpening e gw customer scope who c reason s =
     (case loadForCancel e customer scope c s of
        Inl err \<Rightarrow> (s, Inl err)
      | Inr (r, outcome) \<Rightarrow>
          (if \<not> co_allowed outcome then (s, Inl (BadRequestException ''pre_opening_started''))
           else let why = cancel_why outcome in
             and_then (give_back_rent e gw who (opening_rent_invoice s c) why s) (\<lambda>s1 _.
             and_then (give_back_deposit e gw who r outcome why s1) (\<lambda>s2 _.
             and_then (atomically (\<lambda>x. bindr (cancel_contract e None c who (given (clean_text reason) why) x)
                         (\<lambda>x'. Inr (x', ()))) s2) (\<lambda>s3 _.
             (add_event c Ce_note_added (Said ''pre_opening_cancelled'') None
                (notify_staff ''contract.pre_opening_cancelled'' s3), Inr ()))))))"

end
