(* ===== verification/Reservations.thy ===== *)
theory Reservations imports PreOpening begin

text \<open>
  Reservations (\<open>contracts/reservations.service.ts\<close>): making, changing, confirming, cancelling and
  converting one, the signal paid for it and what becomes of it, and the hourly jobs that remind and
  expire.
\<close>

section \<open>Reservations do not overlap\<close>

text \<open>
  The exclusion constraint \<open>reservations_no_overlap_exclude\<close>: two pending or confirmed reservations
  of a unit do not share an instant of their ranges.
\<close>

definition held_status :: "reservation_row \<Rightarrow> bool" where
  "held_status r \<longleftrightarrow> res_status r \<in> {Res_pending, Res_confirmed}"

definition clash :: "reservation_row \<Rightarrow> reservation_row \<Rightarrow> bool" where
  "clash r x \<longleftrightarrow>
     held_status r \<and> held_status x \<and> res_unitId r = res_unitId x \<and>
     max (res_validFrom r) (res_validFrom x) < min (res_validUntil r) (res_validUntil x)"

fun no_overlap :: "reservation_row list \<Rightarrow> bool" where
  "no_overlap [] = True"
| "no_overlap (r # rs) \<longleftrightarrow> (\<forall>x\<in>set rs. \<not> clash r x) \<and> no_overlap rs"

definition save_reservations :: "reservation_row list \<Rightarrow> letting \<Rightarrow> letting result" where
  "save_reservations rows s =
     (if no_overlap rows then Inr (s\<lparr>reservations := rows\<rparr>) else Inl (ConflictException ''reservation_overlap''))"

section \<open>Lookups and transitions\<close>

definition findReservation :: "letting \<Rightarrow> facility_scope \<Rightarrow> id \<Rightarrow> reservation_row result" where
  "findReservation s scope i =
     bindr (found (find_first (\<lambda>r. res_id r = i) (reservations s)) (NotFoundException ''reservation_not_found'')) (\<lambda>r.
     bindr (case find_unit (base s) (res_unitId r) of None \<Rightarrow> Inr ()
            | Some u \<Rightarrow> assertFacilityAllowed scope (unit_facilityId u)) (\<lambda>_. Inr r))"

fun RESERVATION_TRANSITIONS :: "reservation_status \<Rightarrow> reservation_status list" where
  "RESERVATION_TRANSITIONS Res_pending = [Res_confirmed, Res_cancelled, Res_expired]"
| "RESERVATION_TRANSITIONS Res_confirmed = [Res_cancelled, Res_expired, Res_converted]"
| "RESERVATION_TRANSITIONS Res_expired = []"
| "RESERVATION_TRANSITIONS Res_converted = []"
| "RESERVATION_TRANSITIONS Res_cancelled = []"

definition assertReservationTransition :: "reservation_status \<Rightarrow> reservation_status \<Rightarrow> unit result" where
  "assertReservationTransition from to =
     guard (to \<in> set (RESERVATION_TRANSITIONS from)) (BadRequestException ''invalid_reservation_transition'')"

text \<open>The change of a row that is still as it was read.\<close>

definition claimStatus ::
  "id \<Rightarrow> reservation_status \<Rightarrow> (reservation_row \<Rightarrow> reservation_row) \<Rightarrow> letting \<Rightarrow> letting result" where
  "claimStatus i from f s =
     (let hit = (\<lambda>r. res_id r = i \<and> res_status r = from)
      in bindr (guard (0 < count_rows hit (reservations s)) (ConflictException ''reservation_changed'')) (\<lambda>_.
         save_reservations (update_many hit f (reservations s)) s))"

definition reservable :: "env \<Rightarrow> unit_row \<Rightarrow> id option \<Rightarrow> letting \<Rightarrow> unit result" where
  "reservable e u customer s =
     bindr (guard (unit_status u \<notin> {Occupied, Maintenance, Blocked}) (ConflictException ''unit_not_reservable'')) (\<lambda>_.
     guard (\<not> unitHeldByOther e s ((hold_of (unit_id u))\<lparr>ha_ignoreReservations := True, ha_customerId := customer\<rparr>))
       (ConflictException ''unit_held_by_other''))"

section \<open>The signal\<close>

definition signal_input :: "reservation_row \<Rightarrow> id \<Rightarrow> unit_row \<Rightarrow> create_input" where
  "signal_input r customer u =
     \<lparr>ci_customerId = Some customer, ci_contractId = None, ci_seriesId = None, ci_invoiceType = Some F1,
      ci_justification = None, ci_issueDate = None, ci_dueDate = None, ci_periodStart = None, ci_periodEnd = None,
      ci_notes = None,
      ci_items = [\<lparr>ii_description = ''Senal de reserva - trastero '' @ unit_code u @ '' (se descuenta del alquiler)'',
         ii_quantity = 1, ii_unitPrice = euros (res_depositAmount r), ii_taxRate = fst (rentTax (unit_housing u)),
         ii_taxCategory = Some (snd (rentTax (unit_housing u))), ii_relatedContractId = None,
         ii_relatedUnitId = Some (res_unitId r), ii_periodStart = None, ii_periodEnd = None\<rparr>]\<rparr>"

definition set_signal :: "(reservation_row \<Rightarrow> bool) \<Rightarrow> id option \<Rightarrow> letting \<Rightarrow> letting" where
  "set_signal hit i s =
     s\<lparr>reservations := update_many hit (\<lambda>r. r\<lparr>res_depositInvoiceId := i\<rparr>) (reservations s)\<rparr>"

text \<open>
  The draft is created, claimed and issued one after the other; a draft nobody claimed or that could
  not be issued is annulled.
\<close>

definition bill_signal :: "env \<Rightarrow> id \<Rightarrow> id \<Rightarrow> letting \<Rightarrow> letting \<times> unit result" where
  "bill_signal e rid i s =
     (let hit = (\<lambda>r. res_id r = rid \<and> res_depositInvoiceId r = None)
      in if count_rows hit (reservations s) = 0
         then (fst (cancel_invoice_of e i ''Senal duplicada'' s), Inr ())
         else (let s1 = set_signal hit (Some i) s
               in case issue e None None False i (base s1) of
                    (d, Inr _) \<Rightarrow> (write_audit ''reservation.deposit_invoiced'' rid (s1\<lparr>base := d\<rparr>), Inr ())
                  | (d, Inl err) \<Rightarrow>
                      (fst (cancel_invoice_of e i ''Senal sin emitir''
                         (set_signal (\<lambda>r. res_id r = rid \<and> res_depositInvoiceId r = Some i) None (s1\<lparr>base := d\<rparr>))),
                       Inl err)))"

definition signal_checks :: "reservation_row \<Rightarrow> id result" where
  "signal_checks r =
     bindr (guard (held_status r) (BadRequestException ''reservation_not_active'')) (\<lambda>_.
     bindr (guard (0 < res_depositAmount r) (BadRequestException ''no_deposit'')) (\<lambda>_.
     found (res_customerId r) (BadRequestException ''customer_required'')))"

definition issue_signal_from :: "env \<Rightarrow> reservation_row \<Rightarrow> letting \<Rightarrow> letting \<times> unit result" where
  "issue_signal_from e r s =
     (case res_depositInvoiceId r of
        Some i \<Rightarrow>
          (case find_invoice (base s) i of
             None \<Rightarrow> (s, Inl (NotFoundException ''invoice_not_found''))
           | Some v \<Rightarrow>
               (if inv_status v = Draft
                then (case issue e None None False i (base s) of (d, x) \<Rightarrow> (s\<lparr>base := d\<rparr>, x)) else (s, Inr ())))
      | None \<Rightarrow>
          (case bindr (signal_checks r) (\<lambda>customer.
                bindr (unit_row_of s (res_unitId r)) (\<lambda>u.
                create_invoice e (base s) None None None (signal_input r customer u))) of
             Inl err \<Rightarrow> (s, Inl err)
           | Inr (d, v) \<Rightarrow> bill_signal e (res_id r) (inv_id v) (s\<lparr>base := d\<rparr>)))"

definition issueDepositInvoice :: "env \<Rightarrow> facility_scope \<Rightarrow> id \<Rightarrow> letting \<Rightarrow> letting \<times> unit result" where
  "issueDepositInvoice e scope i s =
     (case findReservation s scope i of
        Inl err \<Rightarrow> (s, Inl err) | Inr r \<Rightarrow> issue_signal_from e r s)"

definition autoDepositInvoice :: "env \<Rightarrow> id \<Rightarrow> letting \<Rightarrow> letting" where
  "autoDepositInvoice e i s =
     (case find_first (\<lambda>r. res_id r = i) (reservations s) of
        None \<Rightarrow> s
      | Some r \<Rightarrow>
          (if res_depositAmount r \<le> 0 \<or> res_customerId r = None \<or> res_depositInvoiceId r \<noteq> None then s
           else case issueDepositInvoice e None i s of
                  (s', Inl _) \<Rightarrow> notify_staff ''reservation.signal_not_issued'' s'
                | (s', Inr _) \<Rightarrow> s'))"

text \<open>
  The handler of a paid invoice. Of a reservation already converted the signal goes to the balance of
  the contract, to be taken off its next invoice; \<open>read\<close> is the reservation as the handler read it.
\<close>

definition signal_reservation :: "letting \<Rightarrow> id \<Rightarrow> reservation_row option" where
  "signal_reservation s i =
     find_first (\<lambda>r. res_depositInvoiceId r = Some i \<and> \<not> res_depositPaid r) (reservations s)"

definition credit_signal :: "id \<Rightarrow> id \<Rightarrow> letting \<Rightarrow> letting" where
  "credit_signal i c s =
     (let k = signal_base s i
      in if 0 < k
         then change_contract c (\<lambda>r. r\<lparr>con_pendingCredit := con_pendingCredit r + k,
                con_pendingCreditReason := Some (trim (''senal '' @
                  (case find_invoice (base s) i of None \<Rightarrow> [] | Some v \<Rightarrow> inv_number v)))\<rparr>) s
         else s)"

definition signal_paid_from :: "reservation_row \<Rightarrow> id \<Rightarrow> letting \<Rightarrow> letting" where
  "signal_paid_from read i s =
     (let hit = (\<lambda>r. res_id r = res_id read \<and> \<not> res_depositPaid r);
          s1 = s\<lparr>reservations := update_many hit (\<lambda>r. r\<lparr>res_depositPaid := True\<rparr>) (reservations s)\<rparr>
      in if count_rows hit (reservations s) = 0 then s1
         else case res_convertedContractId read of None \<Rightarrow> s1 | Some c \<Rightarrow> credit_signal i c s1)"

definition onInvoicePaid :: "id \<Rightarrow> letting \<Rightarrow> letting" where
  "onInvoicePaid i s = (case signal_reservation s i of None \<Rightarrow> s | Some r \<Rightarrow> signal_paid_from r i s)"

definition signal_credit_items :: "db \<Rightarrow> id \<Rightarrow> item_input list" where
  "signal_credit_items d i =
     map (\<lambda>l. \<lparr>ii_description = ''Abono de la senal - '' @ it_description l, ii_quantity = 1,
          ii_unitPrice = nmul (- it_unitPrice l) (it_quantity l), ii_taxRate = it_taxRate l,
          ii_taxCategory = Some (it_taxCategory l), ii_relatedContractId = None, ii_relatedUnitId = None,
          ii_periodStart = None, ii_periodEnd = None\<rparr>) (items_of d i)"

text \<open>What becomes of the signal of a reservation that falls: best effort.\<close>

definition settleSignal :: "env \<Rightarrow> reservation_row \<Rightarrow> string \<Rightarrow> bool \<Rightarrow> letting \<Rightarrow> letting" where
  "settleSignal e r reason keep s =
     (case res_depositInvoiceId r of
        None \<Rightarrow> s
      | Some i \<Rightarrow>
          (case find_invoice (base s) i of
             None \<Rightarrow> s
           | Some v \<Rightarrow>
               (if inv_status v = Paid \<and> keep then write_audit ''reservation.signal_kept'' (res_id r) s
                else if inv_status v = Paid
                then (case rectify e None False i
                             \<lparr>rc_type = R1, rc_reason = reason @ '': abono de la senal'', rc_method = Some By_differences,
                              rc_issueDate = None, rc_items = signal_credit_items (base s) i\<rparr> (base s) of
                        Inl _ \<Rightarrow> s
                      | Inr (d, credit) \<Rightarrow> notify_staff ''reservation.signal_credit_pending'' (s\<lparr>base := d\<rparr>))
                else if 0 < inv_amountPaid v then notify_staff ''reservation.signal_partially_paid'' s
                else if inv_status v \<in> {Draft, Issued, Overdue} then fst (cancel_invoice_of e i reason s)
                else s)))"

section \<open>Making one\<close>

record create_reservation_input =
  cr_unitId :: id
  cr_customerId :: "id option"
  cr_validFrom :: instant
  cr_validUntil :: instant
  cr_depositAmount :: cents
  cr_notes :: "string option"
  cr_confirmImmediately :: bool

definition new_reservation :: "env \<Rightarrow> create_reservation_input \<Rightarrow> id \<Rightarrow> reservation_row" where
  "new_reservation e i rid =
     \<lparr>res_id = rid, res_unitId = cr_unitId i, res_customerId = cr_customerId i,
      res_status = (if cr_confirmImmediately i then Res_confirmed else Res_pending),
      res_validFrom = cr_validFrom i, res_validUntil = cr_validUntil i, res_depositPaid = False,
      res_depositAmount = cr_depositAmount i, res_notes = clean_text (cr_notes i), res_convertedContractId = None,
      res_cancelledAt = None, res_cancelReason = None, res_depositInvoiceId = None, res_reminderSentAt = None,
      res_createdAt = now e\<rparr>"

definition reserveUnitInTx :: "id \<Rightarrow> id option \<Rightarrow> string \<Rightarrow> letting \<Rightarrow> letting" where
  "reserveUnitInTx u who why s = write_status u Available Reserved who why s"

definition customer_exists :: "letting \<Rightarrow> id option \<Rightarrow> unit result" where
  "customer_exists s customer =
     (case customer of
        None \<Rightarrow> Inr ()
      | Some c \<Rightarrow> guard (\<exists>r\<in>set (customers (base s)). cus_id r = c \<and> \<not> cus_deleted r)
                    (NotFoundException ''customer_not_found''))"

definition create_reservation_tx ::
  "env \<Rightarrow> facility_scope \<Rightarrow> id option \<Rightarrow> create_reservation_input \<Rightarrow> letting \<Rightarrow> (letting \<times> reservation_row) result" where
  "create_reservation_tx e scope who i s =
     bindr (unit_in_open_facility s (cr_unitId i)) (\<lambda>u.
     bindr (assertFacilityAllowed scope (unit_facilityId u)) (\<lambda>_.
     bindr (reservable e u (cr_customerId i) s) (\<lambda>_.
     bindr (customer_exists s (cr_customerId i)) (\<lambda>_.
     let r = new_reservation e i (next_id (base s)) in
     bindr (save_reservations (create_row r (reservations s)) s) (\<lambda>s1.
     let s2 = over_base (\<lambda>d. d\<lparr>next_id := Suc (next_id d)\<rparr>) s1
     in Inr (if cr_confirmImmediately i \<and> unit_status u = Available
             then reserveUnitInTx (unit_id u) who ''Reserva para un cliente'' s2 else s2, r))))))"

definition announce_confirmed :: "reservation_row \<Rightarrow> letting \<Rightarrow> letting" where
  "announce_confirmed r s = (if res_customerId r = None then s else tell (Reservation_confirmed (res_id r)) s)"

definition create_reservation ::
  "env \<Rightarrow> facility_scope \<Rightarrow> id option \<Rightarrow> create_reservation_input \<Rightarrow> letting \<Rightarrow> (letting \<times> id) result" where
  "create_reservation e scope who i s =
     bindr (guard (\<not> cr_validUntil i \<le> now e) (BadRequestException ''invalid_valid_until'')) (\<lambda>_.
     bindr (guard (\<not> (0 < cr_depositAmount i \<and> cr_customerId i = None)) (BadRequestException ''customer_required'')) (\<lambda>_.
     bindr (create_reservation_tx e scope who i s) (\<lambda>(s1, r).
     let s2 = write_audit ''reservation.created'' (res_id r) s1
     in Inr (if cr_confirmImmediately i then autoDepositInvoice e (res_id r) (announce_confirmed r s2) else s2,
             res_id r))))"

section \<open>Changing, confirming, cancelling\<close>

record update_reservation_input =
  ur_validUntil :: "instant option"
  ur_notes :: "string option option"
  ur_customerId :: "id option option"

definition new_customer :: "reservation_row \<Rightarrow> update_reservation_input \<Rightarrow> id option option" where
  "new_customer existing i =
     (case ur_customerId i of None \<Rightarrow> None
      | Some c \<Rightarrow> (if c = res_customerId existing then None else Some c))"

definition update_reservation_from ::
  "env \<Rightarrow> reservation_row \<Rightarrow> update_reservation_input \<Rightarrow> letting \<Rightarrow> letting result" where
  "update_reservation_from e existing i s =
     bindr (guard (held_status existing) (BadRequestException ''reservation_not_active'')) (\<lambda>_.
     bindr (guard (\<not> (\<exists>t. ur_validUntil i = Some t \<and> (t \<le> now e \<or> t \<le> res_validFrom existing)))
              (BadRequestException ''invalid_valid_until'')) (\<lambda>_.
     bindr (guard (\<not> (new_customer existing i \<noteq> None \<and> res_depositInvoiceId existing \<noteq> None))
              (ConflictException ''reservation_has_signal'')) (\<lambda>_.
     bindr (guard (\<not> (new_customer existing i = Some None \<and> 0 < res_depositAmount existing))
              (BadRequestException ''customer_required'')) (\<lambda>_.
     bindr (customer_exists s (given (new_customer existing i) None)) (\<lambda>_.
     bindr (claimStatus (res_id existing) (res_status existing)
              (\<lambda>r. r\<lparr>res_validUntil := given (ur_validUntil i) (res_validUntil r),
                     res_reminderSentAt := (if ur_validUntil i = None then res_reminderSentAt r else None),
                     res_notes := (case ur_notes i of None \<Rightarrow> res_notes r | Some n \<Rightarrow> clean_text n),
                     res_customerId := given (new_customer existing i) (res_customerId r)\<rparr>) s) (\<lambda>s1.
     Inr (write_audit ''reservation.updated'' (res_id existing) s1)))))))"

definition update_reservation ::
  "env \<Rightarrow> facility_scope \<Rightarrow> id \<Rightarrow> update_reservation_input \<Rightarrow> letting \<Rightarrow> letting result" where
  "update_reservation e scope rid i s =
     bindr (findReservation s scope rid) (\<lambda>existing. update_reservation_from e existing i s)"

definition confirm_tx :: "env \<Rightarrow> reservation_row \<Rightarrow> id option \<Rightarrow> letting \<Rightarrow> letting result" where
  "confirm_tx e existing who s =
     bindr (unit_row_of s (res_unitId existing)) (\<lambda>u.
     bindr (reservable e u (res_customerId existing) s) (\<lambda>_.
     bindr (claimStatus (res_id existing) (res_status existing) (\<lambda>r. r\<lparr>res_status := Res_confirmed\<rparr>) s) (\<lambda>s1.
     Inr (if unit_status u = Available then reserveUnitInTx (unit_id u) who ''Reserva confirmada'' s1 else s1))))"

definition confirm_from :: "env \<Rightarrow> reservation_row \<Rightarrow> id option \<Rightarrow> letting \<Rightarrow> letting result" where
  "confirm_from e existing who s =
     bindr (assertReservationTransition (res_status existing) Res_confirmed) (\<lambda>_.
     bindr (guard (\<not> res_validUntil existing \<le> now e) (BadRequestException ''reservation_expired'')) (\<lambda>_.
     bindr (confirm_tx e existing who s) (\<lambda>s1.
     Inr (autoDepositInvoice e (res_id existing)
       (announce_confirmed existing (write_audit ''reservation.confirmed'' (res_id existing) s1))))))"

definition confirm_reservation :: "env \<Rightarrow> facility_scope \<Rightarrow> id \<Rightarrow> id option \<Rightarrow> letting \<Rightarrow> letting result" where
  "confirm_reservation e scope rid who s =
     bindr (findReservation s scope rid) (\<lambda>existing. confirm_from e existing who s)"

definition cancel_reservation_tx ::
  "env \<Rightarrow> reservation_row \<Rightarrow> id option \<Rightarrow> string option \<Rightarrow> letting \<Rightarrow> (letting \<times> bool) result" where
  "cancel_reservation_tx e existing who reason s =
     bindr (claimStatus (res_id existing) (res_status existing)
              (\<lambda>r. r\<lparr>res_status := Res_cancelled, res_cancelledAt := Some (now e), res_cancelReason := clean_text reason\<rparr>) s)
       (\<lambda>s1.
     Inr (if res_status existing = Res_confirmed
          then releaseReservedUnit e ((hold_of (res_unitId existing))\<lparr>ha_reservationId := Some (res_id existing)\<rparr>) who
                 ''Reserva cancelada'' s1
          else (s1, False)))"

definition cancel_reservation_from ::
  "env \<Rightarrow> reservation_row \<Rightarrow> id option \<Rightarrow> string option \<Rightarrow> bool option \<Rightarrow> letting \<Rightarrow> letting result" where
  "cancel_reservation_from e existing who reason keepSignal s =
     bindr (assertReservationTransition (res_status existing) Res_cancelled) (\<lambda>_.
     bindr (cancel_reservation_tx e existing who reason s) (\<lambda>(s1, released).
     let s2 = write_audit ''reservation.cancelled'' (res_id existing) s1;
         row = (case find_first (\<lambda>r. res_id r = res_id existing) (reservations s2) of None \<Rightarrow> existing | Some r \<Rightarrow> r);
         s3 = settleSignal e row ''Reserva cancelada'' (given keepSignal (set_keepSignal (settings s2))) s2
     in Inr (if released then tell (Unit_available (res_unitId existing)) s3 else s3)))"

definition cancel_reservation ::
  "env \<Rightarrow> facility_scope \<Rightarrow> id \<Rightarrow> id option \<Rightarrow> string option \<Rightarrow> bool option \<Rightarrow> letting \<Rightarrow> letting result" where
  "cancel_reservation e scope rid who reason keepSignal s =
     bindr (findReservation s scope rid) (\<lambda>existing. cancel_reservation_from e existing who reason keepSignal s)"

section \<open>Converting\<close>

record convert_input =
  cv_customerId :: "id option"
  cv_startDate :: date
  cv_endDate :: "date option"
  cv_priceMonthly :: cents
  cv_discountAmount :: cents
  cv_discountReason :: "string option"
  cv_depositAmount :: cents

definition converted_input :: "reservation_row \<Rightarrow> id \<Rightarrow> convert_input \<Rightarrow> create_contract_input" where
  "converted_input r customer i =
     \<lparr>cn_customerId = customer, cn_unitId = res_unitId r, cn_startDate = cv_startDate i, cn_endDate = cv_endDate i,
      cn_priceMonthly = cv_priceMonthly i, cn_discountAmount = cv_discountAmount i,
      cn_discountReason = cv_discountReason i, cn_depositAmount = cv_depositAmount i, cn_depositCash = False,
      cn_billingIntervalMonths = 1, cn_prepayDiscountPct = 0, cn_firstPaymentMonths = 1, cn_irpfRetentionPct = 0,
      cn_insurancePlanId = None, cn_promotionCode = None, cn_couponCode = None, cn_autoRenew = True,
      cn_cancellationNoticeDays = 15, cn_notes = None, cn_reservationId = Some (res_id r), cn_waitlistEntryId = None,
      cn_unitRequestId = None\<rparr>"

definition convertToContract ::
  "env \<Rightarrow> facility_scope \<Rightarrow> id option \<Rightarrow> id \<Rightarrow> convert_input \<Rightarrow> letting \<Rightarrow> (letting \<times> id) result" where
  "convertToContract e scope who rid i s =
     bindr (findReservation s scope rid) (\<lambda>existing.
     bindr (guard (held_status existing) (BadRequestException ''reservation_not_convertible'')) (\<lambda>_.
     bindr (found (case cv_customerId i of Some c \<Rightarrow> Some c | None \<Rightarrow> res_customerId existing)
              (BadRequestException ''customer_required'')) (\<lambda>customer.
     bindr (create_contract e scope who (converted_input existing customer i) s) (\<lambda>(s1, c).
     Inr (write_audit ''reservation.converted'' rid s1, c)))))"

section \<open>The hourly jobs\<close>

definition REMINDER_WINDOW_MS :: int where "REMINDER_WINDOW_MS = 2 * 86400000"
definition REMINDER_MIN_AGE_MS :: int where "REMINDER_MIN_AGE_MS = 86400000"

definition remind :: "instant \<Rightarrow> reservation_row \<Rightarrow> letting \<times> nat \<Rightarrow> letting \<times> nat" where
  "remind t r = (\<lambda>(s, n).
     let hit = (\<lambda>x. res_id x = res_id r \<and> res_reminderSentAt x = None)
     in if count_rows hit (reservations s) = 0 then (s, n)
        else (tell (Reservation_expiring (res_id r))
                (s\<lparr>reservations := update_many hit (\<lambda>x. x\<lparr>res_reminderSentAt := Some t\<rparr>) (reservations s)\<rparr>), Suc n))"

definition sendExpiryReminders :: "instant \<Rightarrow> letting \<Rightarrow> letting \<times> nat" where
  "sendExpiryReminders t s =
     fold (remind t)
       (take 500 (filter (\<lambda>r. res_status r = Res_confirmed \<and> res_customerId r \<noteq> None \<and> res_reminderSentAt r = None \<and>
          t < res_validUntil r \<and> res_validUntil r \<le> t + REMINDER_WINDOW_MS \<and>
          res_createdAt r \<le> t - REMINDER_MIN_AGE_MS) (reservations s))) (s, 0)"

definition expire_one :: "env \<Rightarrow> reservation_row \<Rightarrow> letting \<times> id list \<Rightarrow> letting \<times> id list" where
  "expire_one e r = (\<lambda>(s, released).
     let s1 = s\<lparr>reservations := update_many (\<lambda>x. res_id x = res_id r) (\<lambda>x. x\<lparr>res_status := Res_expired\<rparr>) (reservations s)\<rparr>
     in if res_status r \<noteq> Res_confirmed then (s1, released)
        else (case releaseReservedUnit e ((hold_of (res_unitId r))\<lparr>ha_reservationId := Some (res_id r)\<rparr>) None
                     ''Reserva caducada'' s1 of
                (s2, freed) \<Rightarrow> (s2, if freed then released @ [res_unitId r] else released)))"

definition due_reservations :: "env \<Rightarrow> letting \<Rightarrow> reservation_row list" where
  "due_reservations e s = filter (\<lambda>r. held_status r \<and> res_validUntil r < now e) (reservations s)"

definition expire_tx :: "env \<Rightarrow> letting \<Rightarrow> letting \<times> id list" where
  "expire_tx e s = fold (expire_one e) (due_reservations e s) (s, [])"

definition expireDue :: "env \<Rightarrow> letting \<Rightarrow> letting \<times> nat" where
  "expireDue e s =
     (case expire_tx e s of
        (s1, released) \<Rightarrow>
          (let due = due_reservations e s;
               s2 = (if \<exists>r\<in>set due. res_depositInvoiceId r \<noteq> None
                     then fold (\<lambda>r. settleSignal e r ''Reserva caducada'' (set_keepSignal (settings s1))) due s1 else s1)
           in (fold (\<lambda>u. tell (Unit_available u)) released s2, length due)))"

end
