(* ===== verification/LettingFrame.thy ===== *)
theory LettingFrame imports Reservations begin

text \<open>
  What billing leaves alone: the operations on invoices that the letting services call change no unit
  and, of a contract, none of the columns that say where it stands. \<open>frame\<close> is this relation between
  two databases; each billing operation is shown to be within it.
\<close>

section \<open>The view of a contract\<close>

definition con_view :: "contract_row \<Rightarrow> id \<times> id \<times> contract_status \<times> bool \<times> bool \<times> instant option" where
  "con_view c = (con_id c, con_unitId c, con_status c, con_deleted c,
     po_preOpening (con_opening c), po_startedAt (con_opening c))"

lemma con_view_facts:
  assumes "con_view c = con_view x"
  shows "con_id c = con_id x" and "con_unitId c = con_unitId x" and "is_live c = is_live x"
    and "is_started c = is_started x" and "con_status c = con_status x"
  using assms by (auto simp: con_view_def is_live_def is_started_def isPendingPreOpening_def)

definition frame :: "db \<Rightarrow> db \<Rightarrow> bool" where
  "frame d d' \<longleftrightarrow> units d' = units d \<and> map con_view (contracts d') = map con_view (contracts d) \<and>
     next_id d \<le> next_id d'"

named_theorems frame_intros

lemma frame_refl [simp, frame_intros]: "frame d d"
  by (simp add: frame_def)

lemma frame_trans [trans]: "frame a b \<Longrightarrow> frame b c \<Longrightarrow> frame a c"
  by (auto simp: frame_def)

lemma frame_same: "units d' = units d \<Longrightarrow> contracts d' = contracts d \<Longrightarrow> next_id d \<le> next_id d' \<Longrightarrow> frame d d'"
  by (simp add: frame_def)

lemma frame_logs [simp]:
  "frame d (emit ev d') \<longleftrightarrow> frame d d'" "frame d (audit a i d') \<longleftrightarrow> frame d d'"
  "frame d (update_invoice i f d') \<longleftrightarrow> frame d d'" "frame d (update_payment i g d') \<longleftrightarrow> frame d d'"
  "frame d (update_series i h d') \<longleftrightarrow> frame d d'"
  "frame d (d'\<lparr>invoices := v\<rparr>) \<longleftrightarrow> frame d d'" "frame d (d'\<lparr>items := its\<rparr>) \<longleftrightarrow> frame d d'"
  "frame d (d'\<lparr>verifactu_queue := q\<rparr>) \<longleftrightarrow> frame d d'" "frame d (d'\<lparr>tenant := t\<rparr>) \<longleftrightarrow> frame d d'"
  "frame d (d'\<lparr>notifications := ns\<rparr>) \<longleftrightarrow> frame d d'" "frame d (d'\<lparr>referrals := rf\<rparr>) \<longleftrightarrow> frame d d'"
  "frame d (d'\<lparr>refunds := rs\<rparr>) \<longleftrightarrow> frame d d'" "frame d (d'\<lparr>dunning_actions := das\<rparr>) \<longleftrightarrow> frame d d'"
  "frame d (d'\<lparr>series := ss\<rparr>) \<longleftrightarrow> frame d d'" "frame d (d'\<lparr>payments := ps\<rparr>) \<longleftrightarrow> frame d d'"
  "frame d (d'\<lparr>facilities := fs\<rparr>) \<longleftrightarrow> frame d d'"
  by (simp_all add: frame_def update_invoice_def update_payment_def update_series_def)

lemma frame_create_payment [simp]: "frame d d' \<Longrightarrow> frame d (create_payment p d')"
  by (simp add: frame_def)

lemma frame_create_refund [simp]: "frame d d' \<Longrightarrow> frame d (create_refund r d')"
  by (simp add: frame_def create_refund_def)

lemma frame_update_contract:
  assumes "frame d d'" and "\<And>c. con_view (f c) = con_view c"
  shows "frame d (update_contract i f d')"
  using assms map_update_many_inv [of con_view f] by (simp add: frame_def update_contract_def)

section \<open>Drafts\<close>

lemma insert_series_frame: "insert_series d s = Inr (d', r) \<Longrightarrow> frame d d'"
  by (auto simp: insert_series_def Let_def frame_def split: if_splits)

lemma insert_invoice_frame: "insert_invoice d row lines = Inr (d', r) \<Longrightarrow> frame d d'"
  by (auto simp: insert_invoice_def Let_def frame_def elim!: bindrE split: if_splits)

lemma ownerSeries_frame: "ownerSeries d ow b = Inr (d', s) \<Longrightarrow> frame d d'"
  by (auto simp: ownerSeries_def Let_def dest: insert_series_frame elim!: bindrE split: option.splits)

lemma rectificationSeries_frame: "rectificationSeries d ow = Inr (d', s) \<Longrightarrow> frame d d'"
  by (auto simp: rectificationSeries_def dest: insert_series_frame ownerSeries_frame split: option.splits)

lemma create_series_for_frame: "create_series_for d ow i = Inr (d', s) \<Longrightarrow> frame d d'"
  by (auto simp: create_series_for_def dest: ownerSeries_frame elim!: bindrE split: option.splits)

lemma owner_default_series_frame: "owner_default_series (d, so) ow = Inr (d', s) \<Longrightarrow> frame d d'"
  by (auto simp: owner_default_series_def dest: ownerSeries_frame elim!: bindrE split: option.splits if_splits)

lemma create_tx_frame:
  assumes "create_tx e d scope g ben input ty t = Inr (d', r)"
  shows "frame d d'"
proof -
  obtain ow d0 so d1 s1 row lines where "create_series_for d ow (ci_seriesId input) = Inr (d0, so)"
    and "owner_default_series (d0, so) ow = Inr (d1, s1)" and "insert_invoice d1 row lines = Inr (d', r)"
    using assms unfolding create_tx_def by (auto simp: bindr_eq_Inr split: prod.splits)
  then show ?thesis
    using create_series_for_frame owner_default_series_frame insert_invoice_frame frame_trans by metis
qed

lemma create_invoice_frame:
  assumes run: "create_invoice e d scope g ben input = Inr (d', r)"
  shows "frame d d'"
proof -
  define ty where "ty = (case ci_invoiceType input of None \<Rightarrow> F1 | Some ty \<Rightarrow> ty)"
  obtain t where c: "(case create_tx e d scope g ben input ty t of
      Inl err \<Rightarrow> if err = UniqueViolation then Inl (ConflictException ''duplicate_period_invoice'')
                 else Inl err
    | Inr (d', r) \<Rightarrow> Inr (audit ''invoice.created'' (inv_id r) d', r)) = Inr (d', r)"
    using run unfolding create_invoice_def Let_def ty_def [symmetric] by (auto simp only: bindr_eq_Inr)
  then show ?thesis
    by (cases "create_tx e d scope g ben input ty t") (auto dest: create_tx_frame split: if_splits)
qed

lemma createDepositReceipt_frame: "createDepositReceipt e d a = Inr (d', r) \<Longrightarrow> frame d d'"
  by (auto simp: createDepositReceipt_def bindr_eq_Inr dest: insert_invoice_frame)

lemma rectify_frame: "rectify e scope al i input d = Inr (d', r) \<Longrightarrow> frame d d'"
  by (auto simp: rectify_def rectify_tx_def Let_def bindr_eq_Inr
      dest!: insert_invoice_frame rectificationSeries_frame elim: frame_trans split: prod.splits)

section \<open>Issuing\<close>

lemma applyWithholding_frame: "frame d d' \<Longrightarrow> frame d (applyWithholding e d' r)"
  by (simp add: applyWithholding_def Let_def)

lemma compensateWithCredit_frame: "compensateWithCredit e d i k = Inr (d', cmp) \<Longrightarrow> frame d d'"
  by (auto simp: compensateWithCredit_def Let_def elim!: bindrE split: if_splits)

lemma compensate_original_frame: "compensate_original e ex b d = Inr (d', cmp) \<Longrightarrow> frame d d'"
  by (auto simp: compensate_original_def dest: compensateWithCredit_frame split: option.splits if_splits)

lemma write_invoice_frame: "write_invoice i f d = Inr (d', r) \<Longrightarrow> frame d d'"
  by (auto simp: write_invoice_def elim!: bindrE split: if_splits)

lemma compensated_frame:
  assumes "frame d d1" and "compensate_original e ex b (if z then d1 else applyWithholding e d1 r) = Inr (d', cmp)"
  shows "frame d d'"
  using assms compensate_original_frame applyWithholding_frame frame_trans by (metis (full_types))

lemma issue_app_frame:
  assumes "issue_app e ex z d = Inr (d', cmp)"
  shows "frame d d'"
proof -
  obtain d1 n s f d2 r where "reserveNextNumber d (inv_seriesId ex) (year_of (issue_date_of e ex)) = Inr (d1, n, s)"
    and w: "write_invoice (inv_id ex) f d1 = Inr (d2, r)"
    and c: "compensate_original e ex True (if settles ex z then d2 else applyWithholding e d2 r) = Inr (d', cmp)"
    using assms unfolding issue_app_def Let_def by (auto simp: bindr_eq_Inr split: prod.splits)
  then have "frame d d1" by (auto simp: reserveNextNumber_def Let_def elim!: bindrE)
  then have "frame d d2" using write_invoice_frame [OF w] frame_trans by blast
  then show ?thesis using c by (rule compensated_frame)
qed

lemma issue_holded_frame: "issue_holded e ex z doc d = Inr (d', cmp) \<Longrightarrow> frame d d'"
  by (auto simp: issue_holded_def bindr_eq_Inr dest!: write_invoice_frame intro: compensated_frame)

lemma issue_tx_frame: "issue_tx e ex z fh d = Inr (d', cmp) \<Longrightarrow> frame d d'"
proof -
  assume "issue_tx e ex z fh d = Inr (d', cmp)"
  then obtain d1 where r: "rectification_before_issue e ex d = Inr d1"
    and i: "(case fh of Some doc \<Rightarrow> issue_holded e ex z doc d1 | None \<Rightarrow> issue_app e ex z d1) = Inr (d', cmp)"
    unfolding issue_tx_def by (auto simp: bindr_eq_Inr)
  have "frame d d1"
    using r by (auto simp: rectification_before_issue_def Let_def elim!: bindrE split: option.splits if_splits)
  moreover have "frame d1 d'"
    using i by (auto dest: issue_holded_frame issue_app_frame split: option.splits)
  ultimately show ?thesis by (rule frame_trans)
qed

lemma after_issue_frame: "frame d d' \<Longrightarrow> frame d (after_issue ex z h cmp d')"
  by (simp add: after_issue_def Let_def split: option.splits)

lemma current_mode_frame: "current_mode e d = (d', m) \<Longrightarrow> frame d d'"
  by (auto simp: current_mode_def Let_def split: option.splits if_splits)

lemma awaitHolded_frame: "awaitHoldedCreditNote ex d = Inr d' \<Longrightarrow> frame d d'"
  by (auto simp: awaitHoldedCreditNote_def elim!: bindrE)

lemma claim_holded_frame: "claim_holded e ex d = Inr d' \<Longrightarrow> frame d d'"
  by (auto simp: claim_holded_def Let_def elim!: bindrE split: if_splits)

lemma issueInHolded_frame: "issueInHolded e ex d = (d', r) \<Longrightarrow> frame d d'"
  by (auto simp: issueInHolded_def dest: claim_holded_frame split: if_splits sum.splits)

lemma issued_frame:
  "issue_tx e ex z fh d1 = Inr (d2, cmp) \<Longrightarrow> frame d d1 \<Longrightarrow> frame d (after_issue ex z h cmp d2)"
  by (blast intro: after_issue_frame frame_trans dest: issue_tx_frame)

lemma issue_from_frame:
  assumes "issue_from e ex hd1 z d = (d', r)"
  shows "frame d d'"
proof -
  obtain d0 m where mode: "(if inv_ownerId ex \<noteq> None then (d, By_app) else current_mode e d) = (d0, m)"
    by fastforce
  have k0: "frame d d0" using mode current_mode_frame by (auto split: if_splits)
  have held: "frame d d1" if "issueInHolded e ex d0 = (d1, x)" for d1 x
    using frame_trans [OF k0 issueInHolded_frame [OF that]] .
  have await: "frame d d1" if "awaitHoldedCreditNote ex d0 = Inr d1" for d1
    using frame_trans [OF k0 awaitHolded_frame [OF that]] .
  show ?thesis
    using assms mode k0 unfolding issue_from_def Let_def
    by (auto split: if_splits sum.splits option.splits prod.splits intro: issued_frame dest: held await)
qed

lemma issue_frame: "issue e scope hd1 z i d = (d', r) \<Longrightarrow> frame d d'"
  by (auto simp: issue_def dest: issue_from_frame split: sum.splits)

lemma issue_frame_fst: "frame d (fst (issue e scope hd1 z i d))"
  using issue_frame prod.collapse by metis

section \<open>Payments and annulments\<close>

lemma markPaidManually_frame: "markPaidManually e scope i a d = Inr d' \<Longrightarrow> frame d d'"
  by (auto simp: markPaidManually_def mark_paid_tx_def Let_def bindr_eq_Inr)

lemma return_money_frame: "return_money e gw i a d = Inr (d', v) \<Longrightarrow> frame d d'"
  by (auto simp: return_money_def bindr_eq_Inr split: option.splits if_splits)

lemma refund_frame: "refund e gw scope i a d = Inr d' \<Longrightarrow> frame d d'"
  by (auto simp: refund_def refund_tx_def Let_def bindr_eq_Inr dest!: return_money_frame)

lemma releaseConsumedBenefits_frame: "frame d d' \<Longrightarrow> frame d (releaseConsumedBenefits i d')"
  by (auto simp: releaseConsumedBenefits_def Let_def con_view_def intro!: frame_update_contract split: option.splits)

lemma cancelIssued_frame:
  assumes orphan: "\<And>j n x. frame x (orphan j n x)" and run: "cancelIssued e orphan i reason d = (d', r)"
  shows "frame d d'"
proof -
  have reserve: "frame d d1" if "cancel_reserve e i d = Inr (d1, orig)" for d1 orig
    using that by (auto simp: cancel_reserve_def bindr_eq_Inr)
  have done1: "frame d (emit ev (orphan i n (releaseConsumedBenefits i
      (audit a i (fst (issue_and_settle e c d2))))))" if "frame d d2" for ev n a c d2
  proof -
    have "frame d2 (fst (issue_and_settle e c d2))"
      using issue_frame by (auto simp: issue_and_settle_def settle_credit_def split: prod.splits sum.splits)
    then have "frame d (releaseConsumedBenefits i (audit a i (fst (issue_and_settle e c d2))))"
      using that frame_trans by (blast intro: releaseConsumedBenefits_frame frame_logs(2) [THEN iffD2])
    then show ?thesis using orphan frame_trans by auto
  qed
  show ?thesis
    using run unfolding cancelIssued_def Let_def
    by (auto simp: unreserve_def split: sum.splits prod.splits if_splits
        dest!: reserve rectify_frame intro: done1 frame_trans)
qed

lemma cancel_with_frame:
  assumes "\<And>j n x. frame x (orphan j n x)" and "cancel_with e orphan scope i reason d = (d', r)"
  shows "frame d d'"
  using assms(2) cancelIssued_frame [OF assms(1)]
  by (auto simp: cancel_with_def cancel_from_def cancelDepositReceipt_def Let_def bindr_eq_Inr
      intro!: releaseConsumedBenefits_frame split: sum.splits if_splits)

lemma cancelOrphanLateFee_frame: "frame d (cancelOrphanLateFee e i n d)"
proof -
  have "frame d (fst (cancel_with e (\<lambda>_ _ d. d) None k why d))" for k why
    using cancel_with_frame [of "\<lambda>_ _ d. d"] frame_refl prod.collapse by metis
  then show ?thesis by (simp add: cancelOrphanLateFee_def split: option.splits)
qed

lemma cancel_frame: "cancel e scope i reason d = (d', r) \<Longrightarrow> frame d d'"
  unfolding cancel_def by (rule cancel_with_frame) (simp_all add: cancelOrphanLateFee_frame)

section \<open>The first invoice\<close>

lemma claimContractCredit_frame: "claimContractCredit c k d = (d', x) \<Longrightarrow> frame d d'"
  by (auto simp: claimContractCredit_def Let_def con_view_def intro!: frame_update_contract split: if_splits option.splits)

lemma restore_credit_frame: "frame d d' \<Longrightarrow> frame d (restore_credit c k d')"
  by (auto simp: restore_credit_def con_view_def intro!: frame_update_contract)

lemma set_billing_start_frame: "frame d d' \<Longrightarrow> frame d (set_billing_start c b d')"
  by (auto simp: set_billing_start_def con_view_def intro!: frame_update_contract split: option.splits)

lemma first_deposit_frame: "first_deposit e c cu i d = Inr d' \<Longrightarrow> frame d d'"
  by (auto simp: first_deposit_def dest: createDepositReceipt_frame elim!: bindrE split: if_splits)

lemma settleIfZero_frame: "frame d d' \<Longrightarrow> frame d (settleIfZero e i d')"
  by (simp add: settleIfZero_def split: option.splits)

end
