(* ===== verification/Tenancy.thy ===== *)
theory Tenancy imports Database begin

text \<open>
  What the letting of units promises, as an abstract machine: which contract is in force on which
  unit, which of them have started, the status of every unit and the log of its changes. The steps
  are those a business may take; their invariant is that a unit has at most one contract in force,
  that a unit with a started contract is never offered, that an occupied unit has a contract in force,
  and that the log explains every status.
\<close>

section \<open>The machine\<close>

type_synonym status_log = "(id \<times> unit_status \<times> unit_status) list"

record tenancy =
  tn_units :: "id \<Rightarrow> unit_status option"
  tn_live :: "id \<Rightarrow> id option"
  tn_started :: "id set"
  tn_closed :: "id set"
  tn_log :: status_log

definition put :: "id \<Rightarrow> unit_status \<Rightarrow> unit_status \<Rightarrow> tenancy \<Rightarrow> tenancy" where
  "put u old new t = t\<lparr>tn_units := (tn_units t)(u \<mapsto> new), tn_log := tn_log t @ [(u, old, new)]\<rparr>"

definition sync :: "id \<Rightarrow> unit_status \<Rightarrow> unit_status \<Rightarrow> tenancy \<Rightarrow> tenancy" where
  "sync u old new t = (if old = new then t else put u old new t)"

definition vacate :: "id \<Rightarrow> unit_status \<Rightarrow> tenancy \<Rightarrow> tenancy" where
  "vacate u old t = (if old \<in> {Occupied, Reserved} then put u old Available t else t)"

definition enter :: "id \<Rightarrow> id \<Rightarrow> bool \<Rightarrow> tenancy \<Rightarrow> tenancy" where
  "enter c u starts t =
     t\<lparr>tn_live := (tn_live t)(c \<mapsto> u), tn_started := (if starts then insert c (tn_started t) else tn_started t)\<rparr>"

definition leave :: "id \<Rightarrow> tenancy \<Rightarrow> tenancy" where
  "leave c t = t\<lparr>tn_live := (tn_live t)(c := None), tn_started := tn_started t - {c},
     tn_closed := insert c (tn_closed t)\<rparr>"

definition void :: "id \<Rightarrow> tenancy \<Rightarrow> tenancy" where
  "void c t = t\<lparr>tn_closed := insert c (tn_closed t)\<rparr>"

definition nobody_on :: "id \<Rightarrow> tenancy \<Rightarrow> bool" where
  "nobody_on u t \<longleftrightarrow> (\<forall>c. tn_live t c \<noteq> Some u)"

definition started_on :: "id \<Rightarrow> tenancy \<Rightarrow> bool" where
  "started_on u t \<longleftrightarrow> (\<exists>c\<in>tn_started t. tn_live t c = Some u)"

inductive tn_step :: "tenancy \<Rightarrow> tenancy \<Rightarrow> bool" where
  Hold: "tn_units t u = Some Available \<Longrightarrow> tn_step t (put u Available Reserved t)"
| Release: "tn_units t u = Some Reserved \<Longrightarrow> tn_step t (put u Reserved Available t)"
| By_hand: "tn_units t u = Some old \<Longrightarrow> \<not> started_on u t \<Longrightarrow> new \<noteq> Occupied \<Longrightarrow> tn_step t (put u old new t)"
| Note: "tn_units t u = Some old \<Longrightarrow> tn_step t (put u old old t)"
| Reconcile: "tn_units t u = Some old \<Longrightarrow> tn_live t c = Some u \<Longrightarrow> tn_step t (put u old Occupied t)"
| Enter: "tn_live t c = None \<Longrightarrow> c \<notin> tn_closed t \<Longrightarrow> nobody_on u t \<Longrightarrow> tn_units t u = Some old \<Longrightarrow> old \<in> {Available, Reserved} \<Longrightarrow>
    new \<in> {Reserved, Occupied} \<Longrightarrow> (starts \<Longrightarrow> new = Occupied) \<Longrightarrow>
    tn_step t (sync u old new (enter c u starts t))"
| Leave: "tn_live t c = Some u \<Longrightarrow> tn_units t u = Some old \<Longrightarrow> new \<in> {old, Available} \<Longrightarrow> new \<noteq> Occupied \<Longrightarrow>
    tn_step t (sync u old new (leave c t))"
| Void: "tn_live t c = None \<Longrightarrow> tn_step t (void c t)"
| Start: "tn_live t c = Some u \<Longrightarrow> tn_units t u = Some old \<Longrightarrow>
    new = (if old \<in> {Reserved, Available} then Occupied else old) \<Longrightarrow>
    tn_step t (sync u old new (enter c u True t))"
| Start_elsewhere: "tn_live t c = Some v \<Longrightarrow> tn_units t v \<noteq> Some Occupied \<Longrightarrow> nobody_on u t \<Longrightarrow>
    tn_units t u = Some Available \<Longrightarrow> tn_step t (put u Available Occupied (enter c u True t))"
| Move: "tn_live t c = Some v \<Longrightarrow> v \<noteq> u \<Longrightarrow> nobody_on u t \<Longrightarrow> tn_units t v = Some olv \<Longrightarrow>
    tn_units t u = Some old \<Longrightarrow> old \<in> {Available, Reserved} \<Longrightarrow> new \<in> {Reserved, Occupied} \<Longrightarrow>
    (c \<in> tn_started t \<Longrightarrow> new = Occupied) \<Longrightarrow>
    tn_step t (sync u old new (vacate v olv (enter c u False t)))"

section \<open>Its invariant\<close>

definition tn_ok :: "tenancy \<Rightarrow> bool" where
  "tn_ok t \<longleftrightarrow>
     (\<forall>c x u. tn_live t c = Some u \<longrightarrow> tn_live t x = Some u \<longrightarrow> c = x) \<and>
     (\<forall>c\<in>tn_started t. \<exists>u. tn_live t c = Some u \<and> tn_units t u \<notin> {Some Available, Some Reserved}) \<and>
     (\<forall>u. tn_units t u = Some Occupied \<longrightarrow> (\<exists>c. tn_live t c = Some u)) \<and>
     (\<forall>c\<in>tn_closed t. tn_live t c = None)"

named_theorems tn_simps

lemma put_sel [simp, tn_simps]:
  "tn_units (put u old new t) = (tn_units t)(u \<mapsto> new)" "tn_live (put u old new t) = tn_live t"
  "tn_started (put u old new t) = tn_started t" "tn_closed (put u old new t) = tn_closed t" "tn_log (put u old new t) = tn_log t @ [(u, old, new)]"
  by (simp_all add: put_def)

lemma enter_sel [simp, tn_simps]:
  "tn_units (enter c u b t) = tn_units t" "tn_live (enter c u b t) = (tn_live t)(c \<mapsto> u)"
  "tn_started (enter c u b t) = (if b then insert c (tn_started t) else tn_started t)"
  "tn_log (enter c u b t) = tn_log t" "tn_closed (enter c u b t) = tn_closed t"
  by (simp_all add: enter_def)

lemma leave_sel [simp, tn_simps]:
  "tn_units (leave c t) = tn_units t" "tn_live (leave c t) = (tn_live t)(c := None)"
  "tn_started (leave c t) = tn_started t - {c}" "tn_log (leave c t) = tn_log t"
  "tn_closed (leave c t) = insert c (tn_closed t)"
  by (simp_all add: leave_def)

lemma void_sel [simp, tn_simps]:
  "tn_units (void c t) = tn_units t" "tn_live (void c t) = tn_live t" "tn_started (void c t) = tn_started t"
  "tn_log (void c t) = tn_log t" "tn_closed (void c t) = insert c (tn_closed t)"
  by (simp_all add: void_def)

text \<open>\<open>sync\<close> and \<open>vacate\<close> by what they do to each column.\<close>

lemma sync_sel [simp, tn_simps]:
  "tn_live (sync u old new t) = tn_live t" "tn_started (sync u old new t) = tn_started t"
  "tn_closed (sync u old new t) = tn_closed t"
  "tn_units t u = Some old \<Longrightarrow> tn_units (sync u old new t) = (tn_units t)(u \<mapsto> new)"
  by (auto simp: sync_def)

lemma vacate_sel [simp, tn_simps]:
  "tn_live (vacate u old t) = tn_live t" "tn_started (vacate u old t) = tn_started t"
  "tn_closed (vacate u old t) = tn_closed t"
  "tn_units t u = Some old \<Longrightarrow>
     tn_units (vacate u old t) = (tn_units t)(u \<mapsto> (if old \<in> {Occupied, Reserved} then Available else old))"
  by (auto simp: vacate_def)

lemma tn_okI:
  assumes "\<And>c x u. tn_live t c = Some u \<Longrightarrow> tn_live t x = Some u \<Longrightarrow> c = x"
    and "\<And>c. c \<in> tn_started t \<Longrightarrow> \<exists>u. tn_live t c = Some u \<and> tn_units t u \<notin> {Some Available, Some Reserved}"
    and "\<And>u. tn_units t u = Some Occupied \<Longrightarrow> \<exists>c. tn_live t c = Some u"
    and "\<And>c. c \<in> tn_closed t \<Longrightarrow> tn_live t c = None"
  shows "tn_ok t"
  using assms unfolding tn_ok_def by blast

lemma tn_okD:
  assumes "tn_ok t"
  shows "tn_live t c = Some u \<Longrightarrow> tn_live t x = Some u \<Longrightarrow> c = x"
    and "c \<in> tn_started t \<Longrightarrow> \<exists>u. tn_live t c = Some u \<and> tn_units t u \<notin> {Some Available, Some Reserved}"
    and "tn_units t u = Some Occupied \<Longrightarrow> \<exists>c. tn_live t c = Some u"
    and "c \<in> tn_closed t \<Longrightarrow> tn_live t c = None"
  using assms unfolding tn_ok_def by blast+

lemma put_ok:
  assumes ok: "tn_ok t" and free: "new \<in> {Available, Reserved} \<Longrightarrow> \<not> started_on u t"
    and someone: "new = Occupied \<Longrightarrow> \<not> nobody_on u t"
  shows "tn_ok (put u old new t)"
proof (rule tn_okI)
  show "c = x" if "tn_live (put u old new t) c = Some v" "tn_live (put u old new t) x = Some v" for c x v
    using that tn_okD(1) [OF ok] by simp
  show "\<exists>v. tn_live (put u old new t) c = Some v \<and> tn_units (put u old new t) v \<notin> {Some Available, Some Reserved}"
    if "c \<in> tn_started (put u old new t)" for c
  proof -
    from that have c: "c \<in> tn_started t" by simp
    then obtain v where v: "tn_live t c = Some v" "tn_units t v \<notin> {Some Available, Some Reserved}"
      using tn_okD(2) [OF ok] by blast
    then show ?thesis using free c by (cases "v = u") (auto simp: started_on_def)
  qed
  show "\<exists>c. tn_live (put u old new t) c = Some v" if "tn_units (put u old new t) v = Some Occupied" for v
    using that someone tn_okD(3) [OF ok, of v] by (cases "v = u") (auto simp: nobody_on_def)
  show "tn_live (put u old new t) c = None" if "c \<in> tn_closed (put u old new t)" for c
    using that tn_okD(4) [OF ok] by simp
qed

lemma void_ok: "tn_ok t \<Longrightarrow> tn_live t c = None \<Longrightarrow> tn_ok (void c t)"
  unfolding tn_ok_def by simp

lemma sync_ok:
  assumes "tn_ok t" and "new \<noteq> old \<Longrightarrow> new \<in> {Available, Reserved} \<Longrightarrow> \<not> started_on u t"
    and "new \<noteq> old \<Longrightarrow> new = Occupied \<Longrightarrow> \<not> nobody_on u t"
  shows "tn_ok (sync u old new t)"
  using assms put_ok [of t new u old] by (auto simp: sync_def)

lemma started_not_offered:
  "tn_ok t \<Longrightarrow> tn_units t u \<in> {Some Available, Some Reserved} \<Longrightarrow> \<not> started_on u t"
  unfolding tn_ok_def started_on_def by fastforce

lemma leave_ok:
  assumes ok: "tn_ok t" and c: "tn_live t c = Some u" and old: "tn_units t u = Some old" and new: "new \<noteq> Occupied"
  shows "tn_ok (sync u old new (leave c t))"
proof -
  let ?t = "sync u old new (leave c t)"
  have sel: "tn_units ?t = (tn_units t)(u \<mapsto> new)" "tn_live ?t = (tn_live t)(c := None)" "tn_started ?t = tn_started t - {c}"
    using old by simp_all
  show ?thesis
  proof (rule tn_okI)
    show "a = x" if "tn_live ?t a = Some v" "tn_live ?t x = Some v" for a x v
      using that tn_okD(1) [OF ok] by (simp add: sel split: if_splits)
    show "\<exists>v. tn_live ?t a = Some v \<and> tn_units ?t v \<notin> {Some Available, Some Reserved}" if "a \<in> tn_started ?t" for a
      using that tn_okD(2) [OF ok, of a] tn_okD(1) [OF ok c, of a] by (auto simp: sel)
    show "\<exists>a. tn_live ?t a = Some v" if "tn_units ?t v = Some Occupied" for v
    proof -
      from that new have v: "v \<noteq> u" "tn_units t v = Some Occupied" by (auto simp: sel split: if_splits)
      then obtain a where "tn_live t a = Some v" using tn_okD(3) [OF ok] by blast
      then have "tn_live ?t a = Some v" using v c by (auto simp: sel)
      then show ?thesis ..
    qed
    show "tn_live ?t a = None" if "a \<in> tn_closed ?t" for a
      using that tn_okD(4) [OF ok, of a] by auto
  qed
qed

lemma enter_step_ok:
  assumes ok: "tn_ok t" and nobody: "nobody_on u t" and old: "tn_units t u = Some old"
    and gone: "\<And>v. tn_live t c = Some v \<Longrightarrow> us v \<noteq> Some Occupied"
    and us: "us u = Some new" and sames: "\<And>w. w \<noteq> u \<Longrightarrow> tn_live t c \<noteq> Some w \<Longrightarrow> us w = tn_units t w"
    and st: "b \<or> c \<in> tn_started t \<Longrightarrow> new \<notin> {Available, Reserved}"
    and cols: "tn_units t' = us" "tn_live t' = (tn_live t)(c \<mapsto> u)"
      "tn_started t' = (if b then insert c (tn_started t) else tn_started t)" "tn_closed t' = tn_closed t"
    and open1: "c \<notin> tn_closed t"
  shows "tn_ok t'"
proof (rule tn_okI)
  show "a = x" if "tn_live t' a = Some v" "tn_live t' x = Some v" for a x v
    using that nobody tn_okD(1) [OF ok] by (auto simp: cols nobody_on_def split: if_splits)
  show "\<exists>v. tn_live t' a = Some v \<and> tn_units t' v \<notin> {Some Available, Some Reserved}" if a: "a \<in> tn_started t'" for a
  proof (cases "a = c")
    case True
    then show ?thesis using a us st by (auto simp: cols split: if_splits)
  next
    case False
    with a obtain v where v: "tn_live t a = Some v" "tn_units t v \<notin> {Some Available, Some Reserved}"
      using tn_okD(2) [OF ok, of a] by (auto simp: cols split: if_splits)
    moreover have "v \<noteq> u" using v nobody by (auto simp: nobody_on_def)
    moreover have "tn_live t c \<noteq> Some v" using tn_okD(1) [OF ok v(1), of c] False by blast
    ultimately show ?thesis using sames False by (auto simp: cols)
  qed
  show "\<exists>a. tn_live t' a = Some v" if v: "tn_units t' v = Some Occupied" for v
  proof (cases "v = u")
    case False
    have away: "tn_live t c \<noteq> Some v" using gone v by (auto simp: cols)
    then have "tn_units t v = Some Occupied" using v sames False by (simp add: cols)
    then obtain a where "tn_live t a = Some v" using tn_okD(3) [OF ok] by blast
    then have "tn_live t' a = Some v" using away by (auto simp: cols)
    then show ?thesis ..
  qed (auto simp: cols)
  show "tn_live t' a = None" if "a \<in> tn_closed t'" for a
    using that open1 tn_okD(4) [OF ok, of a] by (auto simp: cols)
qed

lemma start_ok:
  assumes ok: "tn_ok t" and c: "tn_live t c = Some u" and old: "tn_units t u = Some old"
    and new: "new = (if old \<in> {Reserved, Available} then Occupied else old)"
  shows "tn_ok (sync u old new (enter c u True t))"
proof -
  let ?t = "sync u old new (enter c u True t)"
  have sel: "tn_units ?t = (tn_units t)(u \<mapsto> new)" "tn_live ?t = tn_live t" "tn_started ?t = insert c (tn_started t)"
    using old c by (auto simp: fun_upd_idem)
  show ?thesis
  proof (rule tn_okI)
    show "a = x" if "tn_live ?t a = Some v" "tn_live ?t x = Some v" for a x v
      using that unfolding sel by (rule tn_okD(1) [OF ok])
    show "\<exists>v. tn_live ?t a = Some v \<and> tn_units ?t v \<notin> {Some Available, Some Reserved}" if "a \<in> tn_started ?t" for a
      using that c new tn_okD(2) [OF ok, of a] unfolding sel by (cases "a = c") auto
    show "\<exists>a. tn_live ?t a = Some v" if "tn_units ?t v = Some Occupied" for v
      using that c tn_okD(3) [OF ok, of v] unfolding sel by (cases "v = u") auto
    show "tn_live ?t a = None" if "a \<in> tn_closed ?t" for a
      using that tn_okD(4) [OF ok, of a] unfolding sel by simp
  qed
qed

text \<open>Every step keeps the invariant.\<close>

lemma tn_step_ok:
  assumes "tn_step t t'" and ok: "tn_ok t"
  shows "tn_ok t'"
  using assms(1)
proof cases
  case (Hold u)
  then show ?thesis using put_ok [OF ok] started_not_offered [OF ok] by auto
next
  case (Release u)
  then show ?thesis using put_ok [OF ok] started_not_offered [OF ok] by auto
next
  case (By_hand u old new)
  then show ?thesis using put_ok [OF ok] by auto
next
  case (Note u old)
  then show ?thesis using put_ok [OF ok, of old u old] started_not_offered [OF ok, of u] tn_okD(3) [OF ok, of u]
    by (auto simp: nobody_on_def)
next
  case (Reconcile u old c)
  then show ?thesis using put_ok [OF ok, of Occupied u old] by (auto simp: nobody_on_def)
next
  case (Enter c u old new starts)
  have "c \<notin> tn_started t"
  proof
    assume "c \<in> tn_started t"
    then show False using tn_okD(2) [OF ok] Enter(2) by force
  qed
  then have st: "starts \<or> c \<in> tn_started t \<Longrightarrow> new \<notin> {Available, Reserved}" using Enter(8) by simp
  have us: "tn_units t' = (tn_units t)(u \<mapsto> new)" using Enter(1,5) by simp
  show ?thesis
    using us Enter(1) by (intro enter_step_ok [OF ok Enter(4,5) _ _ _ st _ _ _ _ Enter(3)]) (simp_all add: Enter(2))
next
  case (Leave c u old new)
  then show ?thesis using leave_ok [OF ok] by auto
next
  case (Void c)
  then show ?thesis using void_ok [OF ok] by simp
next
  case (Start c u old new)
  then show ?thesis using start_ok [OF ok] by auto
next
  case (Start_elsewhere c v u)
  have "v \<noteq> u" using Start_elsewhere(2,4) by (auto simp: nobody_on_def)
  have us: "tn_units t' = (tn_units t)(u \<mapsto> Occupied)" using Start_elsewhere(1) by simp
  have gone: "((tn_units t)(u \<mapsto> Occupied)) w \<noteq> Some Occupied" if "tn_live t c = Some w" for w
    using that Start_elsewhere(2,3) \<open>v \<noteq> u\<close> by simp
  have "c \<notin> tn_closed t" using Start_elsewhere(2) tn_okD(4) [OF ok, of c] by auto
  then show ?thesis
    using us Start_elsewhere(1) gone
    by (intro enter_step_ok [OF ok Start_elsewhere(4,5), where new = Occupied and b = True and c = c]) simp_all
next
  case (Move c v u olv old new)
  let ?us = "(tn_units t)(v \<mapsto> (if olv \<in> {Occupied, Reserved} then Available else olv), u \<mapsto> new)"
  have cols: "tn_units t' = ?us" "tn_live t' = (tn_live t)(c \<mapsto> u)"
    "tn_started t' = (if False then insert c (tn_started t) else tn_started t)" "tn_closed t' = tn_closed t"
    using Move(1,3,5,6) by simp_all
  have gone: "?us w \<noteq> Some Occupied" if "tn_live t c = Some w" for w
    using that Move(2,3) by auto
  have st: "False \<or> c \<in> tn_started t \<Longrightarrow> new \<notin> {Available, Reserved}" using Move(9) by simp
  have rest: "?us w = tn_units t w" if "w \<noteq> u" "tn_live t c \<noteq> Some w" for w
    using that Move(2) by simp
  have "c \<notin> tn_closed t" using Move(2) tn_okD(4) [OF ok, of c] by auto
  then show ?thesis
    by (intro enter_step_ok [OF ok Move(4,6) gone _ rest st cols]) simp_all
qed

text \<open>What is over stays over.\<close>

lemma tn_step_closed: "tn_step t t' \<Longrightarrow> tn_closed t \<subseteq> tn_closed t'"
  by (induction rule: tn_step.induct) auto

lemma tn_steps_closed: "tn_step\<^sup>*\<^sup>* t t' \<Longrightarrow> tn_closed t \<subseteq> tn_closed t'"
  by (induction rule: rtranclp_induct) (use tn_step_closed in blast)+

section \<open>The log\<close>

text \<open>Running the log from the statuses at its beginning: each entry must find the status it says it changes.\<close>

fun replay :: "status_log \<Rightarrow> (id \<Rightarrow> unit_status option) \<Rightarrow> (id \<Rightarrow> unit_status option) option" where
  "replay [] us = Some us"
| "replay ((u, old, new) # es) us = (if us u = Some old then replay es (us(u \<mapsto> new)) else None)"

lemma replay_append: "replay (l @ m) us = (case replay l us of None \<Rightarrow> None | Some vs \<Rightarrow> replay m vs)"
proof (induction l arbitrary: us)
  case (Cons e es)
  then show ?case by (cases e) (simp add: fun_upd_def)
qed simp

definition explains :: "tenancy \<Rightarrow> tenancy \<Rightarrow> bool" where
  "explains t t' \<longleftrightarrow> (\<exists>l. tn_log t' = tn_log t @ l \<and> replay l (tn_units t) = Some (tn_units t'))"

lemma explains_refl [simp]: "explains t t"
  by (simp add: explains_def)

lemma explains_trans [trans]: "explains a b \<Longrightarrow> explains b c \<Longrightarrow> explains a c"
  by (auto simp: explains_def replay_append)

lemma explains_put: "tn_units t u = Some old \<Longrightarrow> explains t (put u old new t)"
  by (simp add: explains_def)

lemma explains_sync: "tn_units t u = Some old \<Longrightarrow> explains t (sync u old new t)"
  by (simp add: sync_def explains_put)

lemma explains_vacate: "tn_units t u = Some old \<Longrightarrow> explains t (vacate u old t)"
  by (simp add: vacate_def explains_put)

lemma explains_enter [simp]: "explains t (enter c u b t)" and explains_leave [simp]: "explains t (leave c t)"
  and explains_void [simp]: "explains t (void c t)"
  by (simp_all add: explains_def)

lemma tn_step_explains: "tn_step t t' \<Longrightarrow> explains t t'"
proof (induction rule: tn_step.induct)
  case (Enter t c u old new starts)
  then have "explains (enter c u starts t) (sync u old new (enter c u starts t))" by (intro explains_sync) simp
  with explains_enter show ?case by (rule explains_trans)
next
  case (Leave t c u old new)
  then have "explains (leave c t) (sync u old new (leave c t))" by (intro explains_sync) simp
  with explains_leave show ?case by (rule explains_trans)
next
  case (Start t c u old new)
  then have "explains (enter c u True t) (sync u old new (enter c u True t))" by (intro explains_sync) simp
  with explains_enter show ?case by (rule explains_trans)
next
  case (Start_elsewhere t c v u)
  then have "explains (enter c u True t) (put u Available Occupied (enter c u True t))" by (intro explains_put) simp
  with explains_enter show ?case by (rule explains_trans)
next
  case (Move t c v u olv old new)
  let ?e = "enter c u False t"
  have "explains ?e (vacate v olv ?e)" using Move by (intro explains_vacate) simp
  moreover have "explains (vacate v olv ?e) (sync u old new (vacate v olv ?e))" using Move by (intro explains_sync) simp
  ultimately show ?case using explains_enter explains_trans by blast
qed (auto intro: explains_put)

lemma tn_steps_ok: "tn_step\<^sup>*\<^sup>* t t' \<Longrightarrow> tn_ok t \<Longrightarrow> tn_ok t'"
  by (induction rule: rtranclp_induct) (auto intro: tn_step_ok)

lemma tn_steps_explain: "tn_step\<^sup>*\<^sup>* t t' \<Longrightarrow> explains t t'"
  by (induction rule: rtranclp_induct) (auto intro: tn_step_explains explains_trans)

end
