(* ===== verification/LettingView.thy ===== *)
theory LettingView imports LettingFrame Tenancy begin

text \<open>
  The tables of the letting side seen as a \<open>tenancy\<close>: the status of the units, the contracts in force
  and the history of the units. \<open>quiet\<close> relates two states with the same view; \<open>refines\<close> says that
  what happened between two states is a sequence of steps of the abstract machine.
\<close>

section \<open>The view\<close>

text \<open>A contract: its key, the unit it is in force on, whether it has started and whether it is over.\<close>

type_synonym spot = "id \<times> id option \<times> bool \<times> bool"

definition is_closed :: "contract_row \<Rightarrow> bool" where
  "is_closed c \<longleftrightarrow> con_status c \<in> {Con_ended, Con_cancelled}"

definition spot_of :: "contract_row \<Rightarrow> spot" where
  "spot_of c = (con_id c, if is_live c then Some (con_unitId c) else None, is_started c, is_closed c)"

definition live_in :: "spot list \<Rightarrow> id \<Rightarrow> id option" where
  "live_in sp c = (case find_first (\<lambda>x. fst x = c) sp of None \<Rightarrow> None | Some x \<Rightarrow> fst (snd x))"

definition started_in :: "spot list \<Rightarrow> id set" where
  "started_in sp = {c. \<exists>x. find_first (\<lambda>x. fst x = c) sp = Some x \<and> fst (snd (snd x))}"

definition closed_in :: "spot list \<Rightarrow> id set" where
  "closed_in sp = {c. \<exists>x. find_first (\<lambda>x. fst x = c) sp = Some x \<and> snd (snd (snd x))}"

definition shown_status :: "(id \<times> unit_status) list \<Rightarrow> id \<Rightarrow> unit_status option" where
  "shown_status us u = map_option snd (find_first (\<lambda>x. fst x = u) us)"

definition spots :: "letting \<Rightarrow> spot list" where
  "spots s = map spot_of (contracts (base s))"

definition statuses :: "letting \<Rightarrow> (id \<times> unit_status) list" where
  "statuses s = map (\<lambda>u. (unit_id u, unit_status u)) (units (base s))"

definition history_log :: "letting \<Rightarrow> status_log" where
  "history_log s = map (\<lambda>h. (his_unitId h, his_previous h, his_new h)) (unit_history s)"

definition tenancy_of :: "letting \<Rightarrow> tenancy" where
  "tenancy_of s =
     \<lparr>tn_units = shown_status (statuses s), tn_live = live_in (spots s), tn_started = started_in (spots s),
      tn_closed = closed_in (spots s), tn_log = history_log s\<rparr>"

text \<open>Keys are unique and a contract's is one already given out.\<close>

definition letting_wf :: "letting \<Rightarrow> bool" where
  "letting_wf s \<longleftrightarrow> distinct (map fst (spots s)) \<and> distinct (map fst (statuses s)) \<and>
     (\<forall>x\<in>set (spots s). fst x < next_id (base s))"

definition quiet :: "letting \<Rightarrow> letting \<Rightarrow> bool" where
  "quiet s s' \<longleftrightarrow> spots s' = spots s \<and> statuses s' = statuses s \<and> history_log s' = history_log s \<and>
     next_id (base s) \<le> next_id (base s')"

definition refines :: "letting \<Rightarrow> letting \<Rightarrow> bool" where
  "refines s s' \<longleftrightarrow> (letting_wf s \<longrightarrow> letting_wf s' \<and> tn_step\<^sup>*\<^sup>* (tenancy_of s) (tenancy_of s'))"

lemma quiet_refl [simp]: "quiet s s"
  by (simp add: quiet_def)

lemma quiet_trans [trans]: "quiet a b \<Longrightarrow> quiet b c \<Longrightarrow> quiet a c"
  by (auto simp: quiet_def)

lemma refines_refl [simp]: "refines s s"
  by (simp add: refines_def)

lemma refines_trans [trans]: "refines a b \<Longrightarrow> refines b c \<Longrightarrow> refines a c"
  by (auto simp: refines_def)

lemma quiet_refines: "quiet s s' \<Longrightarrow> refines s s'"
  by (fastforce simp: quiet_def refines_def letting_wf_def tenancy_of_def)

lemma refines_quiet: "refines s s1 \<Longrightarrow> quiet s1 s2 \<Longrightarrow> refines s s2"
  by (rule refines_trans [OF _ quiet_refines])

lemma quiet_then_refines: "quiet s s1 \<Longrightarrow> refines s1 s2 \<Longrightarrow> refines s s2"
  by (rule refines_trans [OF quiet_refines])

section \<open>Writes that leave the view alone\<close>

lemma view_logs [simp]:
  "spots (tell ev s) = spots s" "statuses (tell ev s) = statuses s" "history_log (tell ev s) = history_log s"
  "spots (add_event c ty p who s) = spots s" "statuses (add_event c ty p who s) = statuses s"
  "history_log (add_event c ty p who s) = history_log s"
  "spots (write_audit a i s) = spots s" "statuses (write_audit a i s) = statuses s"
  "history_log (write_audit a i s) = history_log s"
  "spots (notify_staff k s) = spots s" "statuses (notify_staff k s) = statuses s"
  "history_log (notify_staff k s) = history_log s"
  by (simp_all add: spots_def statuses_def history_log_def)

lemma next_id_logs [simp]:
  "next_id (base (notify_staff k s)) = next_id (base s)"
  by (simp add: notify_staff_def)

lemma view_tables [simp]:
  "spots (s\<lparr>reservations := rs\<rparr>) = spots s" "spots (s\<lparr>waitlist := ws\<rparr>) = spots s"
  "spots (s\<lparr>coupons := cs\<rparr>) = spots s" "spots (s\<lparr>redemptions := us\<rparr>) = spots s"
  "spots (s\<lparr>promotions := ps\<rparr>) = spots s" "spots (s\<lparr>unit_requests := qs\<rparr>) = spots s"
  "spots (s\<lparr>change_requests := hs\<rparr>) = spots s" "spots (s\<lparr>tasks := ts\<rparr>) = spots s"
  "spots (s\<lparr>signed_terms := st\<rparr>) = spots s" "spots (s\<lparr>signatures := sg\<rparr>) = spots s"
  "statuses (s\<lparr>reservations := rs\<rparr>) = statuses s" "statuses (s\<lparr>waitlist := ws\<rparr>) = statuses s"
  "statuses (s\<lparr>coupons := cs\<rparr>) = statuses s" "statuses (s\<lparr>redemptions := us\<rparr>) = statuses s"
  "statuses (s\<lparr>promotions := ps\<rparr>) = statuses s" "statuses (s\<lparr>unit_requests := qs\<rparr>) = statuses s"
  "statuses (s\<lparr>change_requests := hs\<rparr>) = statuses s" "statuses (s\<lparr>tasks := ts\<rparr>) = statuses s"
  "statuses (s\<lparr>signed_terms := st\<rparr>) = statuses s" "statuses (s\<lparr>signatures := sg\<rparr>) = statuses s"
  "history_log (s\<lparr>reservations := rs\<rparr>) = history_log s" "history_log (s\<lparr>waitlist := ws\<rparr>) = history_log s"
  "history_log (s\<lparr>coupons := cs\<rparr>) = history_log s" "history_log (s\<lparr>redemptions := us\<rparr>) = history_log s"
  "history_log (s\<lparr>promotions := ps\<rparr>) = history_log s" "history_log (s\<lparr>unit_requests := qs\<rparr>) = history_log s"
  "history_log (s\<lparr>change_requests := hs\<rparr>) = history_log s" "history_log (s\<lparr>tasks := ts\<rparr>) = history_log s"
  "history_log (s\<lparr>signed_terms := st\<rparr>) = history_log s" "history_log (s\<lparr>signatures := sg\<rparr>) = history_log s"
  "history_log (s\<lparr>base := d\<rparr>) = history_log s" "history_log (over_base g s) = history_log s"
  by (simp_all add: spots_def statuses_def history_log_def over_base_def)

lemma quiet_logs [simp]:
  "quiet s (tell ev s') \<longleftrightarrow> quiet s s'" "quiet s (add_event c ty p who s') \<longleftrightarrow> quiet s s'"
  "quiet s (write_audit a i s') \<longleftrightarrow> quiet s s'" "quiet s (notify_staff k s') \<longleftrightarrow> quiet s s'"
  by (simp_all add: quiet_def)

lemma quiet_tables [simp]:
  "quiet s (s'\<lparr>reservations := rs\<rparr>) \<longleftrightarrow> quiet s s'" "quiet s (s'\<lparr>waitlist := ws\<rparr>) \<longleftrightarrow> quiet s s'"
  "quiet s (s'\<lparr>coupons := cs\<rparr>) \<longleftrightarrow> quiet s s'" "quiet s (s'\<lparr>redemptions := us\<rparr>) \<longleftrightarrow> quiet s s'"
  "quiet s (s'\<lparr>promotions := ps\<rparr>) \<longleftrightarrow> quiet s s'" "quiet s (s'\<lparr>unit_requests := qs\<rparr>) \<longleftrightarrow> quiet s s'"
  "quiet s (s'\<lparr>change_requests := hs\<rparr>) \<longleftrightarrow> quiet s s'" "quiet s (s'\<lparr>tasks := ts\<rparr>) \<longleftrightarrow> quiet s s'"
  "quiet s (s'\<lparr>signed_terms := st\<rparr>) \<longleftrightarrow> quiet s s'" "quiet s (s'\<lparr>signatures := sg\<rparr>) \<longleftrightarrow> quiet s s'"
  by (simp_all add: quiet_def)

lemma refines_logs [simp]:
  "refines s (tell ev s') \<longleftrightarrow> refines s s'" "refines s (add_event c ty p who s') \<longleftrightarrow> refines s s'"
  "refines s (write_audit a i s') \<longleftrightarrow> refines s s'" "refines s (notify_staff k s') \<longleftrightarrow> refines s s'"
  by (simp_all add: refines_def letting_wf_def tenancy_of_def)

lemma refines_tables [simp]:
  "refines s (s'\<lparr>reservations := rs\<rparr>) \<longleftrightarrow> refines s s'" "refines s (s'\<lparr>waitlist := ws\<rparr>) \<longleftrightarrow> refines s s'"
  "refines s (s'\<lparr>coupons := cs\<rparr>) \<longleftrightarrow> refines s s'" "refines s (s'\<lparr>redemptions := us\<rparr>) \<longleftrightarrow> refines s s'"
  "refines s (s'\<lparr>promotions := ps\<rparr>) \<longleftrightarrow> refines s s'" "refines s (s'\<lparr>unit_requests := qs\<rparr>) \<longleftrightarrow> refines s s'"
  "refines s (s'\<lparr>change_requests := hs\<rparr>) \<longleftrightarrow> refines s s'" "refines s (s'\<lparr>tasks := ts\<rparr>) \<longleftrightarrow> refines s s'"
  "refines s (s'\<lparr>signed_terms := st\<rparr>) \<longleftrightarrow> refines s s'" "refines s (s'\<lparr>signatures := sg\<rparr>) \<longleftrightarrow> refines s s'"
  by (simp_all add: refines_def letting_wf_def tenancy_of_def)

text \<open>Billing is quiet.\<close>

lemma spot_of_view: "con_view c = con_view x \<Longrightarrow> spot_of c = spot_of x"
  using con_view_facts [of c x] by (simp add: spot_of_def is_closed_def)

lemma spots_of_views:
  assumes "map con_view cs = map con_view ds"
  shows "map spot_of cs = map spot_of ds"
proof -
  have len: "length cs = length ds" using assms by (rule map_eq_imp_length_eq)
  show ?thesis
    using len assms by (induction cs ds rule: list_induct2) (auto intro: spot_of_view)
qed

lemma frame_quiet:
  assumes "frame (base s) d"
  shows "quiet s (s\<lparr>base := d\<rparr>)"
  using assms spots_of_views [of "contracts d" "contracts (base s)"]
  by (simp add: frame_def quiet_def spots_def statuses_def)

lemma quiet_base: "quiet s s' \<Longrightarrow> frame (base s') d \<Longrightarrow> quiet s (s'\<lparr>base := d\<rparr>)"
  by (rule quiet_trans [OF _ frame_quiet])

lemma refines_base: "refines s s' \<Longrightarrow> frame (base s') d \<Longrightarrow> refines s (s'\<lparr>base := d\<rparr>)"
  by (rule refines_quiet [OF _ frame_quiet])

lemma over_base_as: "over_base g s = s\<lparr>base := g (base s)\<rparr>"
  by (simp add: over_base_def)

lemma quiet_over_base: "frame (base s) (g (base s)) \<Longrightarrow> quiet s (over_base g s)"
  by (simp add: over_base_as frame_quiet)

end
