(* ===== verification/LettingWrites.thy ===== *)
theory LettingWrites imports LettingView begin

text \<open>
  The writes of the letting services that change the view: a unit's status with its entry in the
  history, and the columns that say where a contract stands.
\<close>

section \<open>Lookups\<close>

lemma find_first_map: "find_first p (map g rows) = map_option g (find_first (\<lambda>r. p (g r)) rows)"
  by (induction rows) auto

lemma unit_shown: "tn_units (tenancy_of s) u = map_option unit_status (find_unit (base s) u)"
  by (simp add: tenancy_of_def shown_status_def statuses_def find_first_map find_unit_def option.map_comp comp_def)

lemma unit_shown_Some [intro]: "find_unit (base s) u = Some r \<Longrightarrow> tn_units (tenancy_of s) u = Some (unit_status r)"
  by (simp add: unit_shown)

lemma live_shown:
  "tn_live (tenancy_of s) c =
     (case find_contract (base s) c of None \<Rightarrow> None | Some r \<Rightarrow> if is_live r then Some (con_unitId r) else None)"
  by (simp add: tenancy_of_def live_in_def spots_def find_first_map find_contract_def spot_of_def split: option.splits)

lemma started_shown:
  "c \<in> tn_started (tenancy_of s) \<longleftrightarrow> (\<exists>r. find_contract (base s) c = Some r \<and> is_started r)"
  by (cases "find_contract (base s) c")
    (auto simp: tenancy_of_def started_in_def spots_def find_first_map find_contract_def spot_of_def)

lemma closed_shown:
  "c \<in> tn_closed (tenancy_of s) \<longleftrightarrow> (\<exists>r. find_contract (base s) c = Some r \<and> is_closed r)"
  by (cases "find_contract (base s) c")
    (auto simp: tenancy_of_def closed_in_def spots_def find_first_map find_contract_def spot_of_def)

lemma contract_idD: "find_contract d c = Some r \<Longrightarrow> r \<in> set (contracts d) \<and> con_id r = c"
  unfolding find_contract_def by (drule find_first_SomeD) simp

lemma unit_idD: "find_unit d u = Some r \<Longrightarrow> r \<in> set (units d) \<and> unit_id r = u"
  unfolding find_unit_def by (drule find_first_SomeD) simp

lemma wf_keys:
  assumes "letting_wf s"
  shows "distinct (map con_id (contracts (base s)))" and "distinct (map unit_id (units (base s)))"
proof -
  have "map fst (spots s) = map con_id (contracts (base s))" by (simp add: spots_def spot_of_def)
  then show "distinct (map con_id (contracts (base s)))" using assms by (simp add: letting_wf_def)
  have "map fst (statuses s) = map unit_id (units (base s))" by (simp add: statuses_def)
  then show "distinct (map unit_id (units (base s)))" using assms by (simp add: letting_wf_def)
qed

lemma contract_found:
  "letting_wf s \<Longrightarrow> r \<in> set (contracts (base s)) \<Longrightarrow> find_contract (base s) (con_id r) = Some r"
  using find_first_key_unique [OF wf_keys(1)] by (simp add: find_contract_def)

lemma unit_found: "letting_wf s \<Longrightarrow> r \<in> set (units (base s)) \<Longrightarrow> find_unit (base s) (unit_id r) = Some r"
  using find_first_key_unique [OF wf_keys(2)] by (simp add: find_unit_def)

text \<open>A contract found by any condition that includes its key is the row of that key.\<close>

lemma contract_found_by:
  assumes "letting_wf s" and "find_first (\<lambda>c. con_id c = i \<and> p c) (contracts (base s)) = Some r"
  shows "find_contract (base s) i = Some r" and "p r"
  using assms contract_found [OF assms(1), of r] by (auto dest!: find_first_SomeD)

section \<open>The status of a unit\<close>

definition restatus :: "id \<Rightarrow> unit_status \<Rightarrow> (id \<times> unit_status) list \<Rightarrow> (id \<times> unit_status) list" where
  "restatus u st us = map (\<lambda>x. if fst x = u then (u, st) else x) us"

lemma restatus_keys [simp]: "map fst (restatus u st us) = map fst us"
  by (induction us) (auto simp: restatus_def)

lemma find_restatus:
  "find_first (\<lambda>x. fst x = v) (restatus u st us) =
     (if v = u then map_option (\<lambda>_. (u, st)) (find_first (\<lambda>x. fst x = u) us) else find_first (\<lambda>x. fst x = v) us)"
  by (induction us) (auto simp: restatus_def)

lemma shown_restatus: "shown_status us u \<noteq> None \<Longrightarrow> shown_status (restatus u st us) = (shown_status us)(u \<mapsto> st)"
  by (auto simp: shown_status_def find_restatus)

lemma statuses_update:
  assumes "\<And>x. unit_id (g x) = unit_id x" and "\<And>x. unit_status (g x) = st"
  shows "map (\<lambda>u. (unit_id u, unit_status u)) (update_many (\<lambda>r. unit_id r = u) g us) =
         restatus u st (map (\<lambda>u. (unit_id u, unit_status u)) us)"
  using assms by (simp add: update_many_def restatus_def)

text \<open>A state after one unit took a status, with its entry in the history.\<close>

lemma put_view:
  assumes "letting_wf s" and "find_unit (base s) u = Some r"
    and "spots s' = spots s" and "statuses s' = restatus u new (statuses s)"
    and "history_log s' = history_log s @ [(u, old, new)]" and "next_id (base s) \<le> next_id (base s')"
  shows "letting_wf s'" and "tenancy_of s' = put u old new (tenancy_of s)"
proof -
  show "letting_wf s'" using assms by (auto simp: letting_wf_def)
  have "shown_status (statuses s) u \<noteq> None" using assms(2) unit_shown [of s u] by (simp add: tenancy_of_def)
  then show "tenancy_of s' = put u old new (tenancy_of s)"
    using assms shown_restatus by (simp add: tenancy_of_def put_def)
qed

lemma refines_put:
  assumes "find_unit (base s) u = Some r"
    and "spots s' = spots s" and "statuses s' = restatus u new (statuses s)"
    and "history_log s' = history_log s @ [(u, old, new)]" and "next_id (base s) \<le> next_id (base s')"
    and "letting_wf s \<Longrightarrow> tn_step (tenancy_of s) (put u old new (tenancy_of s))"
  shows "refines s s'"
  using put_view [OF _ assms(1-5)] assms(6) by (auto simp: refines_def)

lemma write_status_view [simp]:
  "spots (write_status u old new who why s) = spots s"
  "statuses (write_status u old new who why s) = restatus u new (statuses s)"
  "history_log (write_status u old new who why s) = history_log s @ [(u, old, new)]"
  by (simp_all add: spots_def statuses_def history_log_def write_status_def statuses_update)

lemma refines_hold:
  assumes "find_unit (base s) u = Some r" and "unit_status r = Available"
  shows "refines s (write_status u Available Reserved who why s)"
  using assms by (intro refines_put [OF assms(1)]) (auto simp: unit_shown intro!: tn_step.Hold)

lemma refines_release_row:
  assumes "find_unit (base s) u = Some r" and "unit_status r = Reserved"
  shows "refines s (write_status u Reserved Available who why s)"
  using assms by (intro refines_put [OF assms(1)]) (auto simp: unit_shown intro!: tn_step.Release)

lemma release_refines: "refines s (fst (releaseReservedUnit e a who why s))"
proof -
  consider "releaseReservedUnit e a who why s = (s, False)"
    | u where "releaseReservedUnit e a who why s = (write_status (ha_unitId a) Reserved Available who why s, True)"
      "u \<in> set (units (base s))" "unit_id u = ha_unitId a" "unit_status u = Reserved"
    using releaseReservedUnit_cases [of e a who why s] by auto
  then show ?thesis
  proof cases
    case 2
    have "refines s (write_status (ha_unitId a) Reserved Available who why s)"
    proof (cases "letting_wf s")
      case True
      then show ?thesis using 2 unit_found [OF True, of u] by (auto intro: refines_release_row)
    qed (simp add: refines_def)
    then show ?thesis using 2 by simp
  qed simp
qed

lemma release_refines_pair: "releaseReservedUnit e a who why s = (s', b) \<Longrightarrow> refines s s'"
  using release_refines [of s e a who why] by simp

lemma release_scheduled_refines: "refines s (releaseScheduledUnit e c who why s)"
  by (simp add: releaseScheduledUnit_def release_refines split: option.splits)

section \<open>Where a contract stands\<close>

definition respot :: "spot \<Rightarrow> spot list \<Rightarrow> spot list" where
  "respot x sp = map (\<lambda>y. if fst y = fst x then x else y) sp"

lemma respot_keys [simp]: "map fst (respot x sp) = map fst sp"
  by (induction sp) (auto simp: respot_def)

lemma find_respot:
  "find_first (\<lambda>y. fst y = v) (respot x sp) =
     (if v = fst x then (if v \<in> fst ` set sp then Some x else None) else find_first (\<lambda>y. fst y = v) sp)"
proof (cases "v = fst x")
  case True
  then show ?thesis by (induction sp) (simp_all add: respot_def)
next
  case False
  then show ?thesis by (induction sp) (auto simp: respot_def)
qed

lemma live_respot: "c \<in> fst ` set sp \<Longrightarrow> live_in (respot (c, l, b, z) sp) = (live_in sp)(c := l)"
  by (rule ext) (simp add: live_in_def find_respot)

lemma started_respot:
  "c \<in> fst ` set sp \<Longrightarrow>
   started_in (respot (c, l, b, z) sp) = (if b then insert c (started_in sp) else started_in sp - {c})"
  by (rule set_eqI) (auto simp: started_in_def find_respot)

lemma closed_respot:
  "c \<in> fst ` set sp \<Longrightarrow>
   closed_in (respot (c, l, b, z) sp) = (if z then insert c (closed_in sp) else closed_in sp - {c})"
  by (rule set_eqI) (auto simp: closed_in_def find_respot)

text \<open>The row a key names is the only one with it, so an update by key changes one spot.\<close>

lemma same_contract:
  "letting_wf s \<Longrightarrow> find_contract (base s) i = Some r \<Longrightarrow> x \<in> set (contracts (base s)) \<Longrightarrow> con_id x = i \<Longrightarrow> x = r"
  using contract_found [of s x] by auto

lemma spots_update:
  assumes wf: "letting_wf s" and r: "find_contract (base s) i = Some r"
    and hit: "\<And>x. x \<in> set (contracts (base s)) \<Longrightarrow> p x = (con_id x = i)" and key: "con_id (f r) = i"
  shows "map spot_of (update_many p f (contracts (base s))) = respot (spot_of (f r)) (spots s)"
proof -
  have "spot_of (if p x then f x else x) =
      (if fst (spot_of x) = fst (spot_of (f r)) then spot_of (f r) else spot_of x)"
    if "x \<in> set (contracts (base s))" for x
    using that same_contract [OF wf r that] hit [OF that] key by (auto simp: spot_of_def)
  then show ?thesis by (simp add: update_many_def respot_def spots_def)
qed

lemma moved_view:
  assumes wf: "letting_wf s" and r: "find_contract (base s) i = Some r" and key: "con_id r' = i"
    and s': "spots s' = respot (spot_of r') (spots s)" "statuses s' = statuses s"
      "history_log s' = history_log s" "next_id (base s) \<le> next_id (base s')"
  shows "letting_wf s'"
    and "tenancy_of s' = tenancy_of s\<lparr>
      tn_live := (tn_live (tenancy_of s))(i := if is_live r' then Some (con_unitId r') else None),
      tn_started := (if is_started r' then insert i (tn_started (tenancy_of s)) else tn_started (tenancy_of s) - {i}),
      tn_closed := (if is_closed r' then insert i (tn_closed (tenancy_of s)) else tn_closed (tenancy_of s) - {i})\<rparr>"
proof -
  have i: "i \<in> fst ` set (spots s)" using contract_idD [OF r] by (auto simp: spots_def spot_of_def image_iff)
  have x: "spot_of r' = (i, if is_live r' then Some (con_unitId r') else None, is_started r', is_closed r')"
    using key by (simp add: spot_of_def)
  have "x \<in> set (spots s') \<Longrightarrow> fst x < next_id (base s)" for x
    using wf i x s'(1) by (auto simp: letting_wf_def respot_def split: if_splits)
  then show "letting_wf s'" using wf s' by (fastforce simp: letting_wf_def)
  show "tenancy_of s' = tenancy_of s\<lparr>
      tn_live := (tn_live (tenancy_of s))(i := if is_live r' then Some (con_unitId r') else None),
      tn_started := (if is_started r' then insert i (tn_started (tenancy_of s)) else tn_started (tenancy_of s) - {i}),
      tn_closed := (if is_closed r' then insert i (tn_closed (tenancy_of s)) else tn_closed (tenancy_of s) - {i})\<rparr>"
    using s' x live_respot [OF i] started_respot [OF i] closed_respot [OF i] by (simp add: tenancy_of_def)
qed

lemma statuses_contracts [simp]: "statuses (change_contract i f s) = statuses s"
  "history_log (change_contract i f s) = history_log s" "next_id (base (change_contract i f s)) = next_id (base s)"
  by (simp_all add: statuses_def history_log_def)

lemma spots_change:
  "letting_wf s \<Longrightarrow> find_contract (base s) i = Some r \<Longrightarrow> con_id (f r) = i \<Longrightarrow>
   spots (change_contract i f s) = respot (spot_of (f r)) (spots s)"
  using spots_update [of s i r "\<lambda>x. con_id x = i" f] by (simp add: spots_def)

lemma respot_same: "spot_of r \<in> set sp \<Longrightarrow> distinct (map fst sp) \<Longrightarrow> respot (spot_of r) sp = sp"
  unfolding respot_def by (intro map_idI) (metis distinct_map inj_onD)

text \<open>A change that leaves the contract where it stands.\<close>

lemma change_quiet:
  assumes "\<And>c. spot_of (f c) = spot_of c"
  shows "quiet s (change_contract i f s)"
  using map_update_many_inv [of spot_of f] assms by (simp add: quiet_def spots_def)

lemma change_refines_same:
  assumes "find_contract (base s) i = Some r" and "spot_of (f r) = spot_of r"
  shows "refines s (change_contract i f s)"
proof (cases "letting_wf s")
  case True
  have "con_id (f r) = i" using assms contract_idD [OF assms(1)] by (simp add: spot_of_def)
  moreover have "spot_of r \<in> set (spots s)" using contract_idD [OF assms(1)] by (auto simp: spots_def)
  ultimately have "spots (change_contract i f s) = spots s"
    using spots_change [OF True assms(1), of f] respot_same [of r "spots s"] True assms(2) by (simp add: letting_wf_def)
  then show ?thesis by (intro quiet_refines) (simp add: quiet_def)
qed (simp add: refines_def)

section \<open>One contract in force on a unit\<close>

lemma alone_on_unit:
  assumes one: "one_live_per_unit (contracts (base s))" and r: "find_contract (base s) c = Some r" "is_live r"
    and x: "tn_live (tenancy_of s) x = Some (con_unitId r)"
  shows "x = c"
proof -
  obtain y where y: "find_contract (base s) x = Some y" "is_live y" "con_unitId y = con_unitId r"
    using x by (auto simp: live_shown split: option.splits if_splits)
  have "inj_on con_unitId (set (filter is_live (contracts (base s))))"
    using one by (simp add: one_live_per_unit_def distinct_map)
  then have "y = r" using y r contract_idD by (fastforce dest: inj_onD)
  then show ?thesis using contract_idD [OF y(1)] contract_idD [OF r(1)] by simp
qed

lemma save_contract_change: "save_contract i f s = Inr s1 \<Longrightarrow> s1 = change_contract i f s"
  by (auto simp: save_contract_def Let_def split: if_splits)

text \<open>A write through the index: what it shows and that nobody else is on the unit.\<close>

lemma quiet_view:
  assumes "quiet s s'"
  shows "tenancy_of s' = tenancy_of s" and "letting_wf s \<Longrightarrow> letting_wf s'"
  using assms by (fastforce simp: quiet_def letting_wf_def tenancy_of_def)+

lemma saved_view:
  assumes wf: "letting_wf s" and r: "find_contract (base s) i = Some r" and run: "save_contract i f s = Inr s1"
    and key: "\<And>x. con_id (f x) = con_id x"
  shows "letting_wf s1" and "find_contract (base s1) i = Some (f r)"
    and "tenancy_of s1 = tenancy_of s\<lparr>
      tn_live := (tn_live (tenancy_of s))(i := if is_live (f r) then Some (con_unitId (f r)) else None),
      tn_started := (if is_started (f r) then insert i (tn_started (tenancy_of s)) else tn_started (tenancy_of s) - {i}),
      tn_closed := (if is_closed (f r) then insert i (tn_closed (tenancy_of s)) else tn_closed (tenancy_of s) - {i})\<rparr>"
    and "is_live (f r) \<Longrightarrow> tn_live (tenancy_of s) x = Some (con_unitId (f r)) \<Longrightarrow> x = i"
proof -
  have s1: "s1 = change_contract i f s" and one: "one_live_per_unit (contracts (base s1))"
    using run by (auto simp: save_contract_def Let_def split: if_splits)
  have k: "con_id (f r) = i" using contract_idD [OF r] key by simp
  show fr: "find_contract (base s1) i = Some (f r)"
    using r key find_first_update_many_key [of con_id f i] by (simp add: s1 find_contract_def)
  show "letting_wf s1" and t: "tenancy_of s1 = tenancy_of s\<lparr>
      tn_live := (tn_live (tenancy_of s))(i := if is_live (f r) then Some (con_unitId (f r)) else None),
      tn_started := (if is_started (f r) then insert i (tn_started (tenancy_of s)) else tn_started (tenancy_of s) - {i}),
      tn_closed := (if is_closed (f r) then insert i (tn_closed (tenancy_of s)) else tn_closed (tenancy_of s) - {i})\<rparr>"
    by (rule moved_view [OF wf r k]; simp add: s1 spots_change [OF wf r, of f, OF k])+
  show "x = i" if "is_live (f r)" "tn_live (tenancy_of s) x = Some (con_unitId (f r))"
  proof (rule alone_on_unit [OF one fr that(1)])
    show "tn_live (tenancy_of s1) x = Some (con_unitId (f r))" using that by (simp add: t)
  qed
qed

lemma sync_view:
  assumes "letting_wf s" and "tn_units (tenancy_of s) u = Some st"
  shows "letting_wf (syncUnitStatus u old new who why s)"
    and "tenancy_of (syncUnitStatus u old new who why s) = sync u old new (tenancy_of s)"
proof -
  obtain r where r: "find_unit (base s) u = Some r" using assms(2) by (auto simp: unit_shown)
  show "letting_wf (syncUnitStatus u old new who why s)"
    and "tenancy_of (syncUnitStatus u old new who why s) = sync u old new (tenancy_of s)"
    using put_view [OF assms(1) r, of "write_status u old new who why s"] assms(1)
    by (simp_all add: syncUnitStatus_def sync_def)
qed

lemma refines_wfI: "(letting_wf s \<Longrightarrow> refines s s') \<Longrightarrow> refines s s'"
  by (auto simp: refines_def)

lemma refines_step:
  "(letting_wf s \<Longrightarrow> letting_wf s') \<Longrightarrow> (letting_wf s \<Longrightarrow> tn_step (tenancy_of s) (tenancy_of s')) \<Longrightarrow> refines s s'"
  by (auto simp: refines_def)

lemma findContract_row:
  assumes "letting_wf s" and "findContract s scope i = Inr r"
  shows "find_contract (base s) i = Some r" and "\<not> con_deleted r" and "con_id r = i"
proof -
  have "find_first (\<lambda>c. con_id c = i \<and> \<not> con_deleted c) (contracts (base s)) = Some r"
    using assms(2) by (auto simp: findContract_def elim!: bindrE)
  then show "find_contract (base s) i = Some r" and "\<not> con_deleted r"
    by (rule contract_found_by [OF assms(1)])+
  then show "con_id r = i" using contract_idD by blast
qed

end
