(* ===== verification/LettingSteps.thy ===== *)
theory LettingSteps imports LettingWrites begin

text \<open>
  Each operation of the letting services, on the rows as they are, is a sequence of steps of the
  abstract machine of \<open>Tenancy\<close>: one lemma \<open>_refines\<close> for each, and \<open>_quiet\<close> for those that do not
  change the view.
\<close>

named_theorems quiet_dests
named_theorems refines_dests

section \<open>Making a contract\<close>

lemma applyToContractTx_quiet [quiet_dests]: "applyToContractTx e key p u s = Inr (s1, x) \<Longrightarrow> quiet s s1"
  by (auto simp: applyToContractTx_def Let_def elim!: bindrE split: option.splits if_splits)

lemma agreed_discount_quiet [quiet_dests]: "agreed_discount_of e i s = Inr (s1, x) \<Longrightarrow> quiet s s1"
  by (auto simp: agreed_discount_of_def dest: quiet_dests elim!: bindrE split: if_splits)

lemma redeemInTx_quiet [quiet_dests]: "redeemInTx e key ctx cu s = Inr (s1, x) \<Longrightarrow> quiet s s1"
  by (auto simp: redeemInTx_def Let_def elim!: bindrE split: coupon_quote.splits if_splits)

lemma redeem_for_contract_quiet [quiet_dests]: "redeem_for_contract e i u b k n p s = Inr (s1, x) \<Longrightarrow> quiet s s1"
  by (auto simp: redeem_for_contract_def Let_def dest: quiet_dests elim!: bindrE split: if_splits)

lemma quiet_next_id: "quiet s (s\<lparr>base := (base s)\<lparr>next_id := Suc (next_id (base s))\<rparr>\<rparr>)"
  by (rule frame_quiet) (simp add: frame_def)

lemma recordRedemption_quiet [quiet_dests]:
  assumes "recordRedemptionInTx r cu c i s = Inr s1"
  shows "quiet s s1"
proof -
  obtain row where "s1 = s\<lparr>redemptions := create_row row (redemptions s), base := (base s)\<lparr>next_id := Suc (next_id (base s))\<rparr>\<rparr>"
    using assms by (auto simp: recordRedemptionInTx_def Let_def split: if_splits)
  moreover have "quiet s (s\<lparr>redemptions := create_row row (redemptions s)\<rparr>)" by simp
  ultimately show ?thesis by (auto intro!: quiet_base frame_same)
qed

lemma record_coupon_quiet [quiet_dests]: "record_coupon rd cu c s = Inr s1 \<Longrightarrow> quiet s s1"
  by (auto simp: record_coupon_def dest: quiet_dests split: option.splits)

lemma close_unit_request_quiet [quiet_dests]: "close_unit_request q cu s = (s1, b) \<Longrightarrow> quiet s s1"
  by (auto simp: close_unit_request_def Let_def split: option.splits)

lemma credit_spot [simp]:
  "spot_of (c\<lparr>con_pendingCredit := k, con_pendingCreditReason := w\<rparr>) = spot_of c"
  by (simp add: spot_of_def is_live_def is_started_def is_closed_def isPendingPreOpening_def)

lemma convert_reservation_quiet [simp]: "quiet s (convert_reservation r c s)"
  by (auto simp: convert_reservation_def Let_def intro!: quiet_trans [OF _ change_quiet] split: option.splits)

lemma absent_live: "live_in (sp @ [(n, None, b, z)]) = live_in sp"
  by (rule ext) (simp add: live_in_def find_first_append split: option.split)

lemma absent_started: "started_in (sp @ [(n, l, False, z)]) = started_in sp"
  by (rule set_eqI) (auto simp: started_in_def find_first_append split: option.splits)

lemma absent_closed: "closed_in (sp @ [(n, l, b, False)]) = closed_in sp"
  by (rule set_eqI) (auto simp: closed_in_def find_first_append split: option.splits)

lemmas absent_spot = absent_live absent_started absent_closed

lemma insert_contract_refines:
  assumes "insert_contract row s = Inr (s1, r)" and "\<And>i. con_id (row i) = i" and "\<And>i. con_status (row i) = Con_draft"
  shows "refines s s1"
proof -
  let ?n = "next_id (base s)"
  have s1: "s1 = s\<lparr>base := (base s)\<lparr>contracts := create_row (row ?n) (contracts (base s)), next_id := Suc ?n\<rparr>\<rparr>"
    using assms(1) by (auto simp: insert_contract_def Let_def split: if_splits)
  have spots: "spots s1 = spots s @ [(?n, None, False, False)]"
    using assms(2,3) s1 by (simp add: spots_def create_row_def spot_of_def is_started_def is_live_def is_closed_def)
  have st: "statuses s1 = statuses s" "history_log s1 = history_log s" "next_id (base s1) = Suc ?n"
    using s1 by (simp_all add: statuses_def)
  have "tenancy_of s1 = tenancy_of s" by (simp add: tenancy_of_def spots st absent_spot)
  moreover have "letting_wf s \<Longrightarrow> letting_wf s1" by (fastforce simp: letting_wf_def spots st)
  ultimately show ?thesis by (simp add: refines_def)
qed

lemma convert_waitlist_refines [refines_dests]: "convert_waitlist e w u row who s = (s1, f) \<Longrightarrow> refines s s1"
  by (auto simp: convert_waitlist_def Let_def dest!: release_refines_pair
      intro: quiet_then_refines [rotated] split: option.splits prod.splits)

lemma create_contract_tx_refines [refines_dests]:
  assumes "create_contract_tx e scope who i s = Inr (s', row, f, b)"
  shows "refines s s'"
proof -
  obtain customer fac opng interval firstMonths disc insurance redeemed s1 s2 s3 s4 s5 s6 u ff cl reservation where
    q1: "agreed_discount_of e i s = Inr (s1, disc)"
    and q2: "redeem_for_contract e i u (opng \<noteq> None) interval firstMonths (agd_amount disc) s1 = Inr (s2, redeemed)"
    and ins: "insert_contract (new_contract e i (nextContractNumber e s2) customer fac opng interval firstMonths
          disc insurance) s2 = Inr (s3, row)"
    and q3: "record_coupon redeemed (cn_customerId i) (con_id row)
          (add_event (con_id row) Ce_created (Said (con_contractNumber row)) who s3) = Inr s4"
    and rel: "convert_waitlist e (cn_waitlistEntryId i) (cn_unitId i) row who s4 = (s5, ff)"
    and q4: "close_unit_request (cn_unitRequestId i) (cn_customerId i) s5 = (s6, cl)"
    and s': "s' = convert_reservation reservation (con_id row) s6"
    using assms unfolding create_contract_tx_def Let_def
    by (elim bindrE exE conjE case_prodE) (auto split: prod.split_asm elim!: bindrE)
  have "quiet s s2" using quiet_trans [OF agreed_discount_quiet [OF q1] redeem_for_contract_quiet [OF q2]] .
  moreover have "refines s2 s3"
    by (rule insert_contract_refines [OF ins]) (simp_all add: new_contract_def)
  moreover have "quiet s3 s4" using record_coupon_quiet [OF q3] by (auto intro: quiet_trans [rotated])
  moreover have "quiet s5 s'" using quiet_trans [OF close_unit_request_quiet [OF q4]] by (simp add: s')
  ultimately show ?thesis
    using convert_waitlist_refines [OF rel] by (meson quiet_refines refines_trans)
qed

lemma create_contract_refines [refines_dests]: "create_contract e scope who i s = Inr (s', c) \<Longrightarrow> refines s s'"
  by (auto simp: create_contract_def Let_def dest!: refines_dests elim!: bindrE split: option.splits prod.splits if_splits)

section \<open>Changing and signing one\<close>

lemmas spot_simps = spot_of_def is_live_def is_started_def is_closed_def isPendingPreOpening_def

lemma find_contract_result: "findContract s scope i = Inr r \<Longrightarrow> con_id r = i"
  by (auto simp: findContract_def dest!: find_first_SomeD elim!: bindrE)

lemma update_contract_terms_quiet: "update_contract_terms scope c who i s = Inr s' \<Longrightarrow> quiet s s'"
  by (auto simp: update_contract_terms_def update_contract_from_def Let_def apply_contract_update_def spot_simps
      intro!: quiet_trans [OF _ change_quiet] elim!: bindrE)

lemma setInsurance_quiet: "setInsurance scope c plan s = Inr s' \<Longrightarrow> quiet s s'"
  by (auto simp: setInsurance_def spot_simps intro!: change_quiet elim!: bindrE)

lemma setIrpfRetention_quiet: "setIrpfRetention scope c pct s = Inr s' \<Longrightarrow> quiet s s'"
  by (auto simp: setIrpfRetention_def spot_simps intro!: change_quiet elim!: bindrE)

lemma setDepositPaymentMethod_quiet: "setDepositPaymentMethod scope c cash s = Inr s' \<Longrightarrow> quiet s s'"
  by (auto simp: setDepositPaymentMethod_def spot_simps intro!: change_quiet elim!: bindrE)

lemma addNote_quiet: "addNote scope c who note s = Inr s' \<Longrightarrow> quiet s s'"
  by (auto simp: addNote_def elim!: bindrE)

text \<open>A draft that comes into force on its unit.\<close>

lemma enter_view:
  assumes wf: "letting_wf s" and r: "find_contract (base s) i = Some r" "con_status r = Con_draft"
    and run: "save_contract i f s = Inr s1" and key: "\<And>x. con_id (f x) = con_id x"
    and f: "is_live (f r)" "con_unitId (f r) = u" and q: "quiet s1 s2"
    and v: "find_unit (base s) u = Some v"
  shows "letting_wf (syncUnitStatus u (unit_status v) new who why s2)"
    and "tenancy_of (syncUnitStatus u (unit_status v) new who why s2) =
      sync u (unit_status v) new (enter i u (is_started (f r)) (tenancy_of s))"
    and "tn_live (tenancy_of s) i = None" and "i \<notin> tn_closed (tenancy_of s)" and "nobody_on u (tenancy_of s)"
proof -
  let ?t = "tenancy_of s"
  note saved = saved_view [OF wf r(1) run key]
  have gone: "i \<notin> tn_started ?t"
    using r by (auto simp: live_shown started_shown closed_shown is_started_def is_live_def is_closed_def)
  show live: "tn_live ?t i = None" and closed: "i \<notin> tn_closed ?t"
    using r by (auto simp: live_shown closed_shown is_live_def is_closed_def)
  have open1: "\<not> is_closed (f r)" using f(1) by (auto simp: is_live_def is_closed_def)
  show "nobody_on u ?t" using saved(4) [OF f(1)] live f(2) by (auto simp: nobody_on_def)
  have s2: "tenancy_of s2 = enter i u (is_started (f r)) ?t"
    using saved(3) f gone closed open1 quiet_view(1) [OF q] by (simp add: enter_def)
  have u: "tn_units (tenancy_of s2) u = Some (unit_status v)" using v by (simp add: s2 unit_shown)
  note sv = sync_view [OF quiet_view(2) [OF q saved(1)] u]
  show "letting_wf (syncUnitStatus u (unit_status v) new who why s2)" by (rule sv)
  show "tenancy_of (syncUnitStatus u (unit_status v) new who why s2) =
      sync u (unit_status v) new (enter i u (is_started (f r)) ?t)"
    by (simp add: sv(2) s2)
qed

lemma enter_refines:
  assumes r: "find_contract (base s) i = Some r" "con_status r = Con_draft"
    and run: "save_contract i f s = Inr s1" and key: "\<And>x. con_id (f x) = con_id x"
    and f: "is_live (f r)" "con_unitId (f r) = u" and q: "quiet s1 s2"
    and v: "find_unit (base s) u = Some v" "unit_status v \<in> {Available, Reserved}"
    and new: "new \<in> {Reserved, Occupied}" "is_started (f r) \<Longrightarrow> new = Occupied"
  shows "refines s (syncUnitStatus u (unit_status v) new who why s2)"
proof (rule refines_step)
  assume wf: "letting_wf s"
  note ev = enter_view [OF wf r run key f q v(1)]
  show "letting_wf (syncUnitStatus u (unit_status v) new who why s2)" by (rule ev)
  show "tn_step (tenancy_of s) (tenancy_of (syncUnitStatus u (unit_status v) new who why s2))"
    unfolding ev(2) using ev(3-5) v new by (intro tn_step.Enter) (auto simp: unit_shown)
qed

lemma to_active: "Con_active \<in> set (CONTRACT_TRANSITIONS st) \<longleftrightarrow> st = Con_draft"
  by (cases st) simp_all

lemma as_conflict_Inr [simp]: "as_conflict m = Inr x \<longleftrightarrow> m = Inr x"
  by (simp add: as_conflict_def split: sum.splits exn.splits)

lemma sign_tx_parts:
  assumes run: "sign_tx e compose digest existing a s = Inr s'"
  obtains v opng s1 where "sign_checks e existing s = Inr v"
    and "save_contract (con_id existing) (signed_fields e existing opng) (convert_own existing s) = Inr s1"
    and "\<exists>st sg ev. s' = (syncUnitStatus (con_unitId existing) (unit_status v)
        (if isPendingPreOpening existing then Reserved else Occupied) (sg_userId a)
        (''Contrato '' @ con_contractNumber existing @ '' firmado'') (add_event (con_id existing) Ce_signed ev (sg_userId a) s1))
        \<lparr>signed_terms := st, signatures := sg\<rparr>"
  using run unfolding sign_tx_def Let_def as_conflict_Inr by (elim bindrE) (unfold sum.inject, blast)

lemma sign_checks_unit:
  "sign_checks e existing s = Inr v \<Longrightarrow>
   find_unit (base s) (con_unitId existing) = Some v \<and> unit_status v \<in> {Available, Reserved} \<and>
   (\<forall>x\<in>set (live_on s (con_unitId existing)). res_customerId x = Some (con_customerId existing)) \<and>
   (unit_status v = Reserved \<longrightarrow> \<not> unitHeldByOther e s ((hold_of (con_unitId existing))\<lparr>ha_contractId := Some (con_id existing),
       ha_customerId := Some (con_customerId existing)\<rparr>))"
  by (auto simp: sign_checks_def elim!: bindrE)

lemma signed_row:
  assumes "con_status r = Con_draft" and "\<not> con_deleted r"
  shows "con_id (signed_fields e r opng x) = con_id x" and "is_live (signed_fields e r opng r)"
    and "con_unitId (signed_fields e r opng r) = con_unitId r"
    and "is_started (signed_fields e r opng r) = (\<not> isPendingPreOpening r)"
  using assms by (auto simp: signed_fields_def Let_def spot_simps split: option.splits)

lemma convert_own_sel [simp]: "base (convert_own r s) = base s" "quiet s' (convert_own r s) = quiet s' s"
  "tenancy_of (convert_own r s) = tenancy_of s"
  by (simp_all add: convert_own_def tenancy_of_def)

text \<open>What a signature leaves: the contract on its unit, and the reservations of the customer converted.\<close>

lemma sign_tx_view:
  assumes run: "sign_tx e compose digest r a s = Inr s'" and wf: "letting_wf s"
    and r: "find_contract (base s) (con_id r) = Some r" "con_status r = Con_draft" "\<not> con_deleted r"
    and chk: "sign_checks e r s = Inr v"
  shows "letting_wf s'" and "reservations s' = reservations (convert_own r s)"
    and "tenancy_of s' = sync (con_unitId r) (unit_status v) (if isPendingPreOpening r then Reserved else Occupied)
      (enter (con_id r) (con_unitId r) (\<not> isPendingPreOpening r) (tenancy_of s))"
    and "tn_step (tenancy_of s) (tenancy_of s')"
proof -
  let ?new = "if isPendingPreOpening r then Reserved else Occupied" and ?why = "''Contrato '' @ con_contractNumber r @ '' firmado''"
  obtain opng s1 st sg ev where save: "save_contract (con_id r) (signed_fields e r opng) (convert_own r s) = Inr s1"
    and s': "s' = (syncUnitStatus (con_unitId r) (unit_status v) ?new (sg_userId a) ?why
      (add_event (con_id r) Ce_signed ev (sg_userId a) s1))\<lparr>signed_terms := st, signatures := sg\<rparr>"
    using chk by (rule_tac sign_tx_parts [OF run]) auto
  have q: "quiet s1 (add_event (con_id r) Ce_signed ev (sg_userId a) s1)" by simp
  have v: "find_unit (base (convert_own r s)) (con_unitId r) = Some v" "unit_status v \<in> {Available, Reserved}"
    using sign_checks_unit [OF chk] by simp_all
  have wf1: "letting_wf (convert_own r s)" using wf by (simp add: letting_wf_def convert_own_def)
  have r1: "find_contract (base (convert_own r s)) (con_id r) = Some r" using r by simp
  note ev = enter_view [OF wf1 r1 r(2) save signed_row(1) [OF r(2,3)] signed_row(2,3) [OF r(2,3)] q v(1)]
  show "letting_wf s'" using ev(1) by (simp add: s' letting_wf_def)
  show view: "tenancy_of s' = sync (con_unitId r) (unit_status v) ?new
      (enter (con_id r) (con_unitId r) (\<not> isPendingPreOpening r) (tenancy_of s))"
  proof -
    have "tenancy_of s' = tenancy_of (syncUnitStatus (con_unitId r) (unit_status v) ?new (sg_userId a) ?why
        (add_event (con_id r) Ce_signed ev (sg_userId a) s1))" by (simp add: s' tenancy_of_def)
    then show ?thesis unfolding ev(2) signed_row(4) [OF r(2,3)] by simp
  qed
  show "tn_step (tenancy_of s) (tenancy_of s')"
    unfolding view using ev(3-5) v by (intro tn_step.Enter) (auto simp: unit_shown)
  have "reservations s1 = reservations (convert_own r s)" by (simp add: save_contract_change [OF save])
  then show "reservations s' = reservations (convert_own r s)" by (simp add: s' syncUnitStatus_def)
qed

lemma sign_tx_refines:
  assumes run: "sign_tx e compose digest r a s = Inr s'"
    and r: "find_contract (base s) (con_id r) = Some r" "con_status r = Con_draft" "\<not> con_deleted r"
  shows "refines s s'"
proof (rule refines_step)
  assume wf: "letting_wf s"
  obtain v where chk: "sign_checks e r s = Inr v" by (rule sign_tx_parts [OF run])
  show "letting_wf s'" and "tn_step (tenancy_of s) (tenancy_of s')"
    using sign_tx_view [OF run wf r chk] by blast+
qed

lemma issue_first_invoice_quiet:
  assumes "issue_first_invoice e sr c customer s = (s', x)"
  shows "quiet s s'"
proof -
  define f where "f = first_invoice_lines s c (contract_housing s c) (redemption_of s (con_id c))"
  obtain d1 credit where cl: "claimContractCredit (con_id c)
      (sum_list (map rent_line_cents (take (fst_rentLineCount f) (fst_items f)))) (base s) = (d1, credit)"
    by (cases "claimContractCredit (con_id c)
      (sum_list (map rent_line_cents (take (fst_rentLineCount f) (fst_items f)))) (base s)") auto
  have k1: "frame (base s) d1" by (rule claimContractCredit_frame [OF cl])
  have issue: "frame (base s) d3"
    if "create_invoice e d1 None None b inp = Inr (d2, r)"
      and "issue e None None False i (set_billing_start q w d2) = (d3, y)" for b inp d2 r i q w d3 y
    using that k1 by (blast intro: set_billing_start_frame frame_trans dest: create_invoice_frame issue_frame)
  have deposit: "frame (base s) (settleIfZero e i d4)"
    if "frame (base s) d3" and "first_deposit e c customer j d3 = Inr d4" for i j d3 d4
    using that by (blast intro: settleIfZero_frame frame_trans dest: first_deposit_frame)
  have both: "quiet s (s\<lparr>base := d, redemptions := rs\<rparr>)" if "frame (base s) d" for d rs
    using frame_quiet [OF that] by simp
  have later: "quiet s (s\<lparr>redemptions := rs, base := d\<rparr>)" if "frame (base s) d" for d rs
    using that by (intro quiet_base) simp_all
  show ?thesis
    using assms cl unfolding issue_first_invoice_def Let_def f_def [symmetric]
    by (auto split: sum.splits prod.splits intro!: frame_quiet restore_credit_frame k1 both later dest: issue deposit)
qed

lemma issueIfMissing_quiet: "quiet s s1 \<Longrightarrow> quiet s (issueIfMissing e c cu s1)"
  by (rule quiet_trans) (auto simp: issueIfMissing_def dest: issue_first_invoice_quiet split: option.splits prod.splits sum.splits)

lemma sign_from_parts:
  "sign_from e compose digest existing a s = Inr s' \<Longrightarrow>
   \<exists>s1. con_status existing = Con_draft \<and> sign_tx e compose digest existing a s = Inr s1 \<and> quiet s1 s'"
  by (auto simp: sign_from_def Let_def issueIfMissing_quiet assertContractTransition_def to_active elim!: bindrE)

lemma sign_refines: "sign e compose digest scope c a s = Inr s' \<Longrightarrow> refines s s'"
proof (rule refines_wfI)
  assume "sign e compose digest scope c a s = Inr s'" and wf: "letting_wf s"
  then obtain existing s1 where ex: "findContract s scope c = Inr existing" "con_status existing = Con_draft"
    and tx: "sign_tx e compose digest existing a s = Inr s1" and s': "quiet s1 s'"
    unfolding sign_def by (auto elim!: bindrE dest: sign_from_parts)
  have "refines s s1"
    using findContract_row [OF wf ex(1)] ex(2) by (intro sign_tx_refines [OF tx]) auto
  then show "refines s s'" using s' by (rule refines_quiet)
qed

lemma activate_tx_refines:
  assumes run: "activate_tx who day collected existing s = Inr s'" and wf: "letting_wf s"
    and r: "find_contract (base s) (con_id existing) = Some existing" "con_status existing = Con_draft" "\<not> con_deleted existing"
  shows "refines s s'"
proof -
  define f :: "contract_row \<Rightarrow> contract_row" where "f = (\<lambda>c. c\<lparr>con_status := Con_active,
      con_signedAt := Some (day_ms (con_startDate existing)), con_billingStartsOn := Some day,
      con_deposit := (con_deposit c)\<lparr>dep_status :=
        (if 0 < dep_amount (con_deposit existing) \<and> collected \<and> dep_status (con_deposit existing) = Dep_none
         then Dep_held else dep_status (con_deposit c))\<rparr>\<rparr>)"
  obtain v s1 where v: "find_first (\<lambda>u. unit_id u = con_unitId existing \<and> unit_status u \<in> {Available, Reserved}) (units (base s)) = Some v"
    and save: "save_contract (con_id existing) f s = Inr s1"
    and s': "\<exists>why ev. s' = syncUnitStatus (con_unitId existing) (unit_status v) Occupied who why
        (add_event (con_id existing) Ce_signed ev who s1)"
    using run unfolding activate_tx_def f_def found_eq_Inr by (elim bindrE) (unfold sum.inject found_eq_Inr, blast)
  have u: "find_unit (base s) (con_unitId existing) = Some v" "unit_status v \<in> {Available, Reserved}"
    using find_first_SomeD [OF v] unit_found [OF wf, of v] by auto
  have f: "con_id (f x) = con_id x" "is_live (f existing)" "con_unitId (f existing) = con_unitId existing" for x
    using r by (simp_all add: f_def is_live_def)
  show ?thesis
    using s' by (auto intro!: enter_refines [OF r(1) r(2) save f _ u])
qed

lemma activate_one_refines: "activate_one scope who day collected c s = Inr s' \<Longrightarrow> refines s s'"
proof (rule refines_wfI)
  assume run: "activate_one scope who day collected c s = Inr s'" and wf: "letting_wf s"
  then obtain existing where "findContract s scope c = Inr existing" "con_status existing = Con_draft"
    and "activate_tx who day collected existing s = Inr s'"
    by (auto simp: activate_one_def elim!: bindrE)
  then show "refines s s'" using findContract_row [OF wf] by (auto intro: activate_tx_refines [OF _ wf])
qed

lemma activate_each_refines: "activate_each scope who day collected cs s = (s', n, failed) \<Longrightarrow> refines s s'"
proof (induction cs arbitrary: s n failed)
  case (Cons c cs)
  show ?case
  proof (cases "activate_one scope who day collected c s")
    case (Inl err)
    then show ?thesis using Cons.prems Cons.IH by (auto simp: Let_def split: prod.splits)
  next
    case (Inr s1)
    then have "refines s1 s'" using Cons.prems Cons.IH by (auto simp: Let_def split: prod.splits)
    with activate_one_refines [OF Inr] show ?thesis by (rule refines_trans)
  qed
qed simp

lemma activateImported_refines: "activateImported scope who day collected cs s = (s', n, failed) \<Longrightarrow> refines s s'"
  by (auto simp: activateImported_def Let_def dest: activate_each_refines split: prod.splits)

end
