(* ===== verification/LettingEnds.thy ===== *)
theory LettingEnds imports LettingSteps begin

text \<open>
  The end of a contract and what happens to one in force (\<open>MoveOut\<close>, \<open>UnitMoves\<close>, \<open>Deposits\<close>) as
  steps of the abstract machine.
\<close>

section \<open>Asking for the end\<close>

lemma to_ending: "Con_ending \<in> set (CONTRACT_TRANSITIONS st) \<longleftrightarrow> st = Con_active"
  by (cases st) simp_all

lemma to_ended: "Con_ended \<in> set (CONTRACT_TRANSITIONS st) \<longleftrightarrow> st \<in> {Con_active, Con_ending}"
  by (cases st) simp_all

lemma to_cancelled: "Con_cancelled \<in> set (CONTRACT_TRANSITIONS st) \<longleftrightarrow> st \<in> {Con_draft, Con_active, Con_ending}"
  by (cases st) simp_all

lemma customer_row:
  assumes "letting_wf s" and "contract_of_customer s cu i = Inr r"
  shows "find_contract (base s) i = Some r" and "\<not> con_deleted r"
  using contract_found_by [OF assms(1), of i "\<lambda>c. con_customerId c = cu \<and> \<not> con_deleted c" r] assms(2)
  by (auto simp: contract_of_customer_def)

lemma requestEnd_refines: "requestEnd e scope c who asked s = Inr s' \<Longrightarrow> refines s s'"
proof (rule refines_wfI)
  assume run: "requestEnd e scope c who asked s = Inr s'" and wf: "letting_wf s"
  then obtain existing where ex: "findContract s scope c = Inr existing"
    and from1: "requestEnd_from e existing who asked s = Inr s'" by (auto simp: requestEnd_def elim!: bindrE)
  show "refines s s'"
    using from1 findContract_row [OF wf ex]
    by (auto simp: requestEnd_from_def Let_def assertContractTransition_def to_ending spot_simps
        intro!: change_refines_same elim!: bindrE)
qed

lemma requestEndByCustomer_refines: "requestEndByCustomer e cu i day s = Inr s' \<Longrightarrow> refines s s'"
  by (rule refines_wfI) (auto simp: requestEndByCustomer_def spot_simps
      intro!: change_refines_same dest: customer_row elim!: bindrE)

lemma changeMoveOutDate_refines: "changeMoveOutDateByCustomer e cu i day s = Inr s' \<Longrightarrow> refines s s'"
  by (rule refines_wfI) (auto simp: changeMoveOutDateByCustomer_def spot_simps
      intro!: change_refines_same dest: customer_row elim!: bindrE)

lemma cancelMoveOut_refines: "cancelMoveOutByCustomer e cu i s = Inr s' \<Longrightarrow> refines s s'"
  by (rule refines_wfI) (auto simp: cancelMoveOutByCustomer_def spot_simps
      intro!: change_refines_same dest: customer_row elim!: bindrE)

section \<open>Leaving a unit\<close>

lemma changed_view:
  assumes wf: "letting_wf s" and r: "find_contract (base s) i = Some r" and key: "con_id (f r) = i"
  shows "letting_wf (change_contract i f s)"
    and "tenancy_of (change_contract i f s) = tenancy_of s\<lparr>
      tn_live := (tn_live (tenancy_of s))(i := if is_live (f r) then Some (con_unitId (f r)) else None),
      tn_started := (if is_started (f r) then insert i (tn_started (tenancy_of s)) else tn_started (tenancy_of s) - {i}),
      tn_closed := (if is_closed (f r) then insert i (tn_closed (tenancy_of s)) else tn_closed (tenancy_of s) - {i})\<rparr>"
  by (rule moved_view [OF wf r key]; simp add: spots_change [OF wf r, of f, OF key])+

lemma closed_is_off: "is_closed c \<Longrightarrow> \<not> is_live c" "is_closed c \<Longrightarrow> \<not> is_started c"
  by (auto simp: is_closed_def is_live_def is_started_def)

lemma void_refines:
  assumes r: "find_contract (base s) i = Some r" "\<not> is_live r" and f: "con_id (f r) = i" "is_closed (f r)"
  shows "refines s (change_contract i f s)"
proof (rule refines_step)
  assume wf: "letting_wf s"
  note ch = changed_view [where f = f, OF wf r(1) f(1)]
  have gone: "tn_live (tenancy_of s) i = None" "i \<notin> tn_started (tenancy_of s)"
    using r by (auto simp: live_shown started_shown is_started_def)
  show "letting_wf (change_contract i f s)" by (rule ch)
  have "tenancy_of (change_contract i f s) = void i (tenancy_of s)"
    using ch(2) gone f(2) closed_is_off [OF f(2)] by (simp add: void_def fun_upd_idem)
  then show "tn_step (tenancy_of s) (tenancy_of (change_contract i f s))"
    using tn_step.Void [OF gone(1)] by simp
qed

lemma leave_refines:
  assumes r: "find_contract (base s) i = Some r" "is_live r" "con_unitId r = u"
    and f: "con_id (f r) = i" "is_closed (f r)" and q: "quiet (change_contract i f s) s1"
    and v: "find_unit (base s) u = Some v" and new: "new \<in> {unit_status v, Available}" "new \<noteq> Occupied"
  shows "refines s (syncUnitStatus u (unit_status v) new who why s1)"
proof (rule refines_step)
  assume wf: "letting_wf s"
  let ?t = "tenancy_of s"
  note ch = changed_view [where f = f, OF wf r(1) f(1)]
  note off = closed_is_off [OF f(2)]
  have s1: "tenancy_of s1 = leave i ?t" using quiet_view(1) [OF q] ch(2) f(2) off by (simp add: leave_def)
  have u: "tn_units (tenancy_of s1) u = Some (unit_status v)" using v by (simp add: s1 unit_shown)
  note sv = sync_view [OF quiet_view(2) [OF q ch(1)] u]
  show "letting_wf (syncUnitStatus u (unit_status v) new who why s1)" by (rule sv)
  have "tn_step ?t (sync u (unit_status v) new (leave i ?t))"
    using r v new by (intro tn_step.Leave) (auto simp: unit_shown live_shown)
  then show "tn_step ?t (tenancy_of (syncUnitStatus u (unit_status v) new who why s1))" by (simp add: sv(2) s1)
qed

lemma sync_same [simp]: "syncUnitStatus u st st who why s = s"
  by (simp add: syncUnitStatus_def)

lemma cancelScheduledDunning_quiet [simp]: "quiet s (cancelScheduledDunning c notes s1) \<longleftrightarrow> quiet s s1"
  by (simp add: cancelScheduledDunning_def over_base_def quiet_def spots_def statuses_def)

lemma cancelScheduledDunning_refines: "refines s s1 \<Longrightarrow> refines s (cancelScheduledDunning c notes s1)"
  by (erule refines_quiet) simp

lemma releaseForContract_quiet: "quiet s (releaseForContractInTx c s)"
  by (simp add: releaseForContractInTx_def split: option.splits)

lemma creditPrepaid_quiet: "quiet s s1 \<Longrightarrow> quiet s (creditPrepaidMonths e c who k day s1)"
  by (erule quiet_trans)
    (auto simp: creditPrepaidMonths_def createPrepayCreditNote_def Let_def
      intro!: frame_quiet dest: rectify_frame elim!: bindrE split: sum.splits option.splits if_splits)

lemma emitted_quiet [simp]:
  "quiet s (emitScheduledUnitFreed c s1) \<longleftrightarrow> quiet s s1" "quiet s (emitContractEnded i u s1) \<longleftrightarrow> quiet s s1"
  by (auto simp: emitScheduledUnitFreed_def emitContractEnded_def split: option.splits)

lemma end_tx_refines:
  assumes run: "end_tx e existing who day s = Inr s'"
    and r: "find_contract (base s) (con_id existing) = Some existing" "is_live existing"
  shows "refines s s'"
proof -
  define f :: "contract_row \<Rightarrow> contract_row" where "f = (\<lambda>c. c\<lparr>con_status := Con_ended, con_endedAt := Some (now e),
      con_endDate := Some day, con_scheduled := nothing_scheduled\<rparr>)"
  define s1 where "s1 = add_event (con_id existing) Ce_ended (Said []) who (change_contract (con_id existing) f s)"
  obtain v where row: "unit_row_of s1 (con_unitId existing) = Inr v"
    and s': "\<exists>why. s' = cancelScheduledDunning (con_id existing) ''Contrato finalizado'' (releaseScheduledUnit e existing who why
       (if unit_status v = Occupied then syncUnitStatus (con_unitId existing) Occupied Available who why s1 else s1))"
    using run unfolding end_tx_def Let_def f_def [symmetric] s1_def [symmetric]
    by (elim bindrE) (unfold sum.inject, blast)
  have v: "find_unit (base s) (con_unitId existing) = Some v"
    using row by (simp add: unit_row_of_def s1_def find_unit_def)
  let ?new = "if unit_status v = Occupied then Available else unit_status v"
  have q: "quiet (change_contract (con_id existing) f s) s1" by (simp add: s1_def)
  have "refines s (syncUnitStatus (con_unitId existing) (unit_status v) ?new who why s1)" for why
    by (rule leave_refines [OF r refl _ _ q v]) (simp_all add: f_def is_closed_def)
  then have "refines s (if unit_status v = Occupied then syncUnitStatus (con_unitId existing) Occupied Available who why s1
      else s1)" for why
    by (cases "unit_status v = Occupied") (auto dest: meta_spec [of _ why])
  then show ?thesis
    using s' by (auto intro!: cancelScheduledDunning_refines intro: refines_trans release_scheduled_refines)
qed

lemma live_if_ends: "con_status c \<in> {Con_active, Con_ending} \<Longrightarrow> \<not> con_deleted c \<Longrightarrow> is_live c"
  by (simp add: is_live_def)

lemma end_from_parts:
  "end_from e existing who s = Inr s' \<Longrightarrow>
   \<exists>day s1. con_status existing \<in> {Con_active, Con_ending} \<and> end_tx e existing who day s = Inr s1 \<and> quiet s1 s'"
  by (force simp: end_from_def Let_def assertContractTransition_def to_ended creditPrepaid_quiet elim!: bindrE)

lemma end_contract_refines: "end_contract e scope c who s = Inr s' \<Longrightarrow> refines s s'"
proof (rule refines_wfI)
  assume "end_contract e scope c who s = Inr s'" and wf: "letting_wf s"
  then obtain existing s1 day where ex: "findContract s scope c = Inr existing"
    and st: "con_status existing \<in> {Con_active, Con_ending}" and tx: "end_tx e existing who day s = Inr s1"
    and q: "quiet s1 s'"
    unfolding end_contract_def by (blast elim!: bindrE dest: end_from_parts)
  have "refines s s1" using findContract_row [OF wf ex] live_if_ends [OF st] by (intro end_tx_refines [OF tx]) auto
  then show "refines s s'" using q by (rule refines_quiet)
qed

section \<open>Cancelling\<close>

lemma cancel_tx_refines:
  assumes run: "cancel_tx e existing who reason s = Inr (s', released)"
    and r: "find_contract (base s) (con_id existing) = Some existing" "\<not> con_deleted existing"
  shows "refines s s'"
proof -
  define f :: "contract_row \<Rightarrow> contract_row" where "f = (\<lambda>c. c\<lparr>con_status := Con_cancelled,
      con_cancelledAt := Some (now e), con_scheduled := nothing_scheduled\<rparr>)"
  define s1 where "s1 = add_event (con_id existing) Ce_cancelled (Said (trim reason)) who (change_contract (con_id existing) f s)"
  obtain v why where row: "unit_row_of s1 (con_unitId existing) = Inr v"
    and s': "s' = releaseForContractInTx (con_id existing) (cancelScheduledDunning (con_id existing) ''Contrato cancelado''
       (releaseScheduledUnit e existing who why (if releasable e existing v s1
          then syncUnitStatus (con_unitId existing) (unit_status v) Available who why s1 else s1)))"
    using run unfolding cancel_tx_def Let_def f_def [symmetric] s1_def [symmetric]
    by (elim bindrE) (unfold sum.inject prod.inject, blast)
  have v: "find_unit (base s) (con_unitId existing) = Some v"
    using row by (simp add: unit_row_of_def s1_def find_unit_def)
  have q: "quiet (change_contract (con_id existing) f s) s1" by (simp add: s1_def)
  have f: "con_id (f existing) = con_id existing" "is_closed (f existing)" by (simp_all add: f_def is_closed_def)
  have "refines s (if releasable e existing v s1
      then syncUnitStatus (con_unitId existing) (unit_status v) Available who why s1 else s1)"
  proof (cases "is_live existing")
    case True
    let ?new = "if releasable e existing v s1 then Available else unit_status v"
    have new: "?new \<in> {unit_status v, Available}" "?new \<noteq> Occupied"
      using True by (auto simp: releasable_def is_live_def)
    show ?thesis
      using leave_refines [where f = f, OF r(1) True refl f q v new] by (cases "releasable e existing v s1") auto
  next
    case False
    then have "refines s s1" using void_refines [where f = f, OF r(1) _ f] by (simp add: s1_def)
    moreover have "refines s1 (syncUnitStatus (con_unitId existing) (unit_status v) Available who why s1)"
      if "releasable e existing v s1"
    proof -
      have "unit_status v = Reserved" using that False r(2) by (auto simp: releasable_def is_live_def)
      moreover have "find_unit (base s1) (con_unitId existing) = Some v" using row by (simp add: unit_row_of_def)
      ultimately show ?thesis using refines_release_row by (simp add: syncUnitStatus_def)
    qed
    ultimately show ?thesis using refines_trans by auto
  qed
  then have "refines s (cancelScheduledDunning (con_id existing) ''Contrato cancelado''
       (releaseScheduledUnit e existing who why (if releasable e existing v s1
          then syncUnitStatus (con_unitId existing) (unit_status v) Available who why s1 else s1)))"
    by (intro cancelScheduledDunning_refines) (rule refines_trans [OF _ release_scheduled_refines])
  then show ?thesis unfolding s' by (rule refines_quiet [OF _ releaseForContract_quiet])
qed

lemma cancel_from_parts:
  "cancel_contract_from e existing who reason s = Inr s' \<Longrightarrow>
   \<exists>s1 b. cancel_tx e existing who reason s = Inr (s1, b) \<and> quiet s1 s'"
  by (auto simp: cancel_contract_from_def Let_def creditPrepaid_quiet elim!: bindrE)

lemma cancel_contract_refines: "cancel_contract e scope c who reason s = Inr s' \<Longrightarrow> refines s s'"
proof (rule refines_wfI)
  assume "cancel_contract e scope c who reason s = Inr s'" and wf: "letting_wf s"
  then obtain existing s1 b where ex: "findContract s scope c = Inr existing"
    and tx: "cancel_tx e existing who reason s = Inr (s1, b)" and q: "quiet s1 s'"
    unfolding cancel_contract_def by (blast elim!: bindrE dest: cancel_from_parts)
  have "refines s s1" using findContract_row [OF wf ex] by (intro cancel_tx_refines [OF tx]) auto
  then show "refines s s'" using q by (rule refines_quiet)
qed

section \<open>The daily jobs\<close>

lemma update_rows_quiet:
  assumes "\<And>r. p r \<Longrightarrow> spot_of (f r) = spot_of r"
  shows "quiet s (over_base (\<lambda>d. d\<lparr>contracts := update_many p f (contracts d)\<rparr>) s)"
  using assms by (simp add: over_base_def quiet_def spots_def statuses_def update_many_def)

lemma renew_or_end_quiet: "quiet s (renew_or_end e c s)"
  by (auto simp: renew_or_end_def renew_due_def end_due_def Let_def still_due_def spot_simps
      intro!: update_rows_quiet split: option.splits)

lemma fold_quiet: "(\<And>x t. quiet t (g x t)) \<Longrightarrow> quiet s (fold g xs s)"
  by (induction xs arbitrary: s) (auto intro: quiet_trans)

lemma fold_refines: "(\<And>x t. refines t (g x t)) \<Longrightarrow> refines s (fold g xs s)"
  by (induction xs arbitrary: s) (auto intro: refines_trans)

lemma autoRenewDue_quiet: "quiet s (autoRenewDue e s)"
  unfolding autoRenewDue_def by (rule fold_quiet) (rule renew_or_end_quiet)

lemma autoEndDue_refines: "refines s (autoEndDue e s)"
proof -
  have "refines t (auto_end_one e c t)" for c t
    by (auto simp: auto_end_one_def dest: end_contract_refines split: sum.splits)
  then show ?thesis by (simp add: autoEndDue_def fold_refines)
qed

end
