(* ===== verification/LettingMoves.thy ===== *)
theory LettingMoves imports LettingEnds begin

text \<open>
  Prices, renewals, moves, statuses by hand, the inventory and the deposit (\<open>UnitMoves\<close>,
  \<open>Deposits\<close>) as steps of the abstract machine.
\<close>

section \<open>Prices and renewals\<close>

lemma price_notice_quiet [simp]: "quiet s (price_notice c i day s1) \<longleftrightarrow> quiet s s1"
  by (simp add: price_notice_def Let_def)

lemma changePrice_quiet: "changePrice e scope c who i s = Inr s' \<Longrightarrow> quiet s s'"
  by (auto simp: changePrice_def change_price_from_def Let_def schedule_price_def set_price_def spot_simps
      intro!: change_quiet elim!: bindrE)

lemma cancelScheduledPrice_quiet: "cancelScheduledPrice scope c s = Inr s' \<Longrightarrow> quiet s s'"
  by (auto simp: cancelScheduledPrice_def spot_simps intro!: change_quiet elim!: bindrE)

lemma renew_tx_refines:
  assumes "renew_tx e existing who n s = Inr s'" and wf: "letting_wf s"
    and r: "find_contract (base s) (con_id existing) = Some existing"
    and st: "con_status existing \<in> {Con_active, Con_ending}"
  shows "refines s s'"
proof -
  define f where "f = renewed_fields existing n (addMonths (renew_base e existing) n)"
  have "spot_of (f existing) = spot_of existing"
    using st by (auto simp: f_def renewed_fields_def Let_def spot_simps)
  moreover obtain s1 where "save_contract (con_id existing) f s = Inr s1" "quiet s1 s'"
    using assms(1) by (auto simp: renew_tx_def Let_def f_def elim!: bindrE)
  ultimately show ?thesis
    using change_refines_same [OF r] by (auto dest!: save_contract_change intro: refines_quiet)
qed

lemma renew_parts:
  "renew e scope c who n p s = (s', x) \<Longrightarrow>
   s' = s \<or> (\<exists>existing s1. findContract s scope c = Inr existing \<and>
     con_status existing \<in> {Con_active, Con_ending} \<and> renew_tx e existing who n s = Inr s1 \<and> quiet s1 s')"
  by (auto simp: renew_def bindr_eq_Inr bindr_eq_Inl changePrice_quiet split: sum.splits option.splits if_splits)

lemma renew_refines: "renew e scope c who n p s = (s', x) \<Longrightarrow> refines s s'"
proof (rule refines_wfI)
  assume run: "renew e scope c who n p s = (s', x)" and wf: "letting_wf s"
  show "refines s s'"
  proof (cases "s' = s")
    case False
    then obtain existing s1 where ex: "findContract s scope c = Inr existing"
      and st: "con_status existing \<in> {Con_active, Con_ending}" and tx: "renew_tx e existing who n s = Inr s1"
      and q: "quiet s1 s'"
      using renew_parts [OF run] by blast
    have "refines s s1" using findContract_row [OF wf ex] st by (intro renew_tx_refines [OF tx wf]) auto
    then show ?thesis using q by (rule refines_quiet)
  qed simp
qed

section \<open>Moving to another unit\<close>

lemma free_old_unit_view:
  assumes "letting_wf s" and "find_unit (base s) v = Some r"
  shows "letting_wf (free_old_unit r who s)"
    and "tenancy_of (free_old_unit r who s) = vacate v (unit_status r) (tenancy_of s)"
proof -
  have u: "tn_units (tenancy_of s) (unit_id r) = Some (unit_status r)" "unit_id r = v"
    using assms(2) unit_idD by (auto simp: unit_shown)
  note sv = sync_view [OF assms(1) u(1), of "unit_status r" Available who "''Traslado: origen liberado''"]
  show "letting_wf (free_old_unit r who s)"
    using assms(1) sv by (simp add: free_old_unit_def)
  show "tenancy_of (free_old_unit r who s) = vacate v (unit_status r) (tenancy_of s)"
    using sv u by (auto simp: free_old_unit_def vacate_def sync_def)
qed

lemma contracts_sync [simp]:
  "contracts (base (syncUnitStatus u old new who why s)) = contracts (base s)"
  "contracts (base (free_old_unit r who s)) = contracts (base s)"
  by (simp_all add: free_old_unit_def syncUnitStatus_def)

lemma move_refines:
  assumes r: "find_contract (base s) i = Some r" "is_live r" "con_unitId r = v" and vu: "v \<noteq> u"
    and old: "find_unit (base s) v = Some ov" and fresh: "find_unit (base s) u = Some nu"
    and st: "unit_status nu \<in> {Available, Reserved}"
    and new: "new \<in> {Reserved, Occupied}" "is_started r \<Longrightarrow> new = Occupied"
    and save: "save_contract i f (syncUnitStatus u (unit_status nu) new who why (free_old_unit ov who s)) = Inr s3"
    and key: "\<And>x. con_id (f x) = con_id x"
    and f: "is_live (f r)" "con_unitId (f r) = u" "is_started (f r) = is_started r"
  shows "refines s s3"
proof (rule refines_step)
  assume wf: "letting_wf s"
  let ?t = "tenancy_of s"
  note fv = free_old_unit_view [OF wf old, of who]
  have u: "tn_units (tenancy_of (free_old_unit ov who s)) u = Some (unit_status nu)"
    using fresh vu old fv(2) by (simp add: unit_shown vacate_def)
  note sv = sync_view [OF fv(1) u, of "unit_status nu" new who why]
  have r2: "find_contract (base (syncUnitStatus u (unit_status nu) new who why (free_old_unit ov who s))) i = Some r"
    using r(1) by (simp add: find_contract_def)
  note saved = saved_view [OF sv(1) r2 save key]
  show "letting_wf s3" by (rule saved(1))
  have live: "tn_live ?t i = Some v" using r by (simp add: live_shown)
  have started: "i \<in> tn_started ?t \<longleftrightarrow> is_started r" using r by (simp add: started_shown)
  have open1: "i \<notin> tn_closed ?t" and open2: "\<not> is_closed (f r)"
    using r f(1) closed_is_off(1) by (auto simp: closed_shown)
  have nobody: "nobody_on u ?t"
    unfolding nobody_on_def
  proof (intro allI notI)
    fix x assume x: "tn_live ?t x = Some u"
    then have "x = i" using saved(4) [OF f(1), of x] f(2) by (simp add: sv(2) fv(2))
    then show False using x live vu by simp
  qed
  have "tn_step ?t (sync u (unit_status nu) new (vacate v (unit_status ov) (enter i u False ?t)))"
    using live vu nobody old fresh st new started by (intro tn_step.Move) (auto simp: unit_shown)
  moreover have "tenancy_of s3 = sync u (unit_status nu) new (vacate v (unit_status ov) (enter i u False ?t))"
    using saved(3) f started open1 open2
    by (auto simp: sv(2) fv(2) sync_def vacate_def put_def enter_def insert_absorb)
  ultimately show "tn_step ?t (tenancy_of s3)" by simp
qed

lemma change_unit_tx_refines:
  assumes run: "change_unit_tx e scope existing who i s = Inr s'"
    and r: "find_contract (base s) (con_id existing) = Some existing" "is_live existing"
    and vu: "mov_unitId i \<noteq> con_unitId existing"
  shows "refines s s'"
proof -
  let ?new = "if isPendingPreOpening existing then Reserved else Occupied"
  obtain nu ov s3 why where dest: "\<exists>b. destination e scope existing (mov_unitId i) b s = Inr nu"
    and old: "unit_row_of s (con_unitId existing) = Inr ov"
    and save: "save_contract (con_id existing) (moved_fields s ov nu i)
      (syncUnitStatus (mov_unitId i) (unit_status nu) ?new who why (free_old_unit ov who s)) = Inr s3"
    and s': "\<exists>ev. s' = add_event (con_id existing) Ce_unit_changed ev who s3"
    using run unfolding change_unit_tx_def Let_def as_conflict_Inr by (elim bindrE) (unfold sum.inject, blast)
  have nu: "find_unit (base s) (mov_unitId i) = Some nu" "unit_status nu \<in> {Available, Reserved}"
    using dest by (auto simp: destination_def unit_in_open_facility_def elim!: bindrE)
  have f: "con_id (moved_fields s ov nu i x) = con_id x" "is_live (moved_fields s ov nu i existing)"
    "con_unitId (moved_fields s ov nu i existing) = mov_unitId i"
    "is_started (moved_fields s ov nu i existing) = is_started existing" for x
    using r by (auto simp: moved_fields_def spot_simps)
  have "refines s s3"
    using vu old by (intro move_refines [OF r refl _ _ nu _ _ save f])
      (auto simp: unit_row_of_def is_started_def)
  then show ?thesis using s' by auto
qed

lemma invoice_adjustment_quiet: "quiet s s1 \<Longrightarrow> quiet s (invoice_adjustment e c i s1)"
  by (erule quiet_trans)
    (auto simp: invoice_adjustment_def Let_def intro!: frame_quiet intro: frame_trans issue_frame_fst
      dest: create_invoice_frame split: option.splits sum.splits)

lemma move_now_parts:
  "move_now e scope existing who i s = Inr s' \<Longrightarrow>
   \<exists>s1. change_unit_tx e scope existing who i s = Inr s1 \<and> quiet s1 s'"
  by (auto simp: move_now_def invoice_adjustment_quiet elim!: bindrE)

lemma move_now_refines:
  "move_now e scope existing who i s = Inr s' \<Longrightarrow> find_contract (base s) (con_id existing) = Some existing \<Longrightarrow>
   is_live existing \<Longrightarrow> mov_unitId i \<noteq> con_unitId existing \<Longrightarrow> refines s s'"
  by (auto dest!: move_now_parts intro: refines_quiet change_unit_tx_refines)

lemma schedule_move_parts:
  "scheduleMove e scope existing who i day s = Inr s' \<Longrightarrow>
   \<exists>u. destination e scope existing (mov_unitId i) False s = Inr u \<and>
     quiet (syncUnitStatus (unit_id u) Available Reserved who ''Reservado para un traslado programado'' s) s'"
  by (auto simp: scheduleMove_def change_quiet schedule_move_def spot_simps elim!: bindrE)

lemma schedule_move_refines:
  assumes "scheduleMove e scope existing who i day s = Inr s'"
  shows "refines s s'"
proof -
  obtain u where dest: "destination e scope existing (mov_unitId i) False s = Inr u"
    and q: "quiet (syncUnitStatus (unit_id u) Available Reserved who ''Reservado para un traslado programado'' s) s'"
    using schedule_move_parts [OF assms] by blast
  have u: "find_unit (base s) (mov_unitId i) = Some u" "unit_status u = Available"
    using dest by (auto simp: destination_def unit_in_open_facility_def elim!: bindrE)
  have "refines s (syncUnitStatus (unit_id u) Available Reserved who ''Reservado para un traslado programado'' s)"
    using u unit_idD [OF u(1)] by (auto simp: syncUnitStatus_def intro: refines_hold)
  then show ?thesis using q by (rule refines_quiet)
qed

lemma changeUnit_refines: "changeUnit e scope c who i s = Inr s' \<Longrightarrow> refines s s'"
proof (rule refines_wfI)
  assume "changeUnit e scope c who i s = Inr s'" and wf: "letting_wf s"
  then obtain existing where ex: "findContract s scope c = Inr existing"
    and run: "change_unit_from e scope existing who i s = Inr s'" by (auto simp: changeUnit_def elim!: bindrE)
  have row: "find_contract (base s) (con_id existing) = Some existing" "\<not> con_deleted existing"
    using findContract_row [OF wf ex] by auto
  show "refines s s'"
    using run row
    by (auto simp: change_unit_from_def is_live_def split: option.splits if_splits elim!: bindrE
        intro: schedule_move_refines move_now_refines)
qed

lemma cancel_move_quiet:
  "quiet (releaseScheduledUnit e existing who ''Traslado programado anulado'' s) (cancel_scheduled_move_from e existing who s)"
  by (simp add: cancel_scheduled_move_from_def change_quiet spot_simps)

lemma cancelScheduledMove_refines: "cancelScheduledMove e scope c who s = Inr s' \<Longrightarrow> refines s s'"
  by (auto simp: cancelScheduledMove_def elim!: bindrE
      intro: refines_quiet [OF release_scheduled_refines cancel_move_quiet])

lemma apply_price_refines: "apply_price e c (s, n) = (s', m) \<Longrightarrow> refines s s'"
  by (auto simp: apply_price_def split: sum.splits dest!: changePrice_quiet intro: quiet_refines)

lemma apply_move_refines: "apply_move e c (s, n) = (s', m) \<Longrightarrow> refines s s'"
  by (auto simp: apply_move_def split: sum.splits option.splits dest!: changeUnit_refines)

lemma fold_pair_refines:
  assumes "fold g xs (s, n) = (s', m)" and step: "\<And>x t n t' m. g x (t, n) = (t', m) \<Longrightarrow> refines t t'"
  shows "refines s s'"
  using assms(1)
proof (induction xs arbitrary: s n)
  case (Cons x xs)
  obtain t k where t: "g x (s, n) = (t, k)" by fastforce
  then have "refines t s'" using Cons by auto
  with step [OF t] show ?case by (rule refines_trans)
qed simp

lemma applyScheduledChanges_refines:
  assumes "applyScheduledChanges e s = (s', n, m)"
  shows "refines s s'"
proof -
  obtain prices moves s1 where p: "fold (apply_price e) prices (s, 0) = (s1, n)" and m: "fold (apply_move e) moves (s1, 0) = (s', m)"
    using assms by (auto simp: applyScheduledChanges_def Let_def split: prod.splits)
  have "refines s s1" by (rule fold_pair_refines [OF p]) (rule apply_price_refines)
  also have "refines s1 s'" by (rule fold_pair_refines [OF m]) (rule apply_move_refines)
  finally show ?thesis .
qed

section \<open>By hand\<close>

lemma restatus_view:
  assumes "\<And>x. unit_id (g x) = unit_id x" and "\<And>x. unit_status (g x) = new"
  shows "spots (note_status u old new who why (update_unit u g s)) = spots s"
    and "statuses (note_status u old new who why (update_unit u g s)) = restatus u new (statuses s)"
    and "history_log (note_status u old new who why (update_unit u g s)) = history_log s @ [(u, old, new)]"
    and "next_id (base (note_status u old new who why (update_unit u g s))) = next_id (base s)"
  using statuses_update [OF assms]
  by (simp_all add: note_status_def update_unit_def over_base_def spots_def statuses_def history_log_def)

lemma maintenance_refines [simp]:
  "refines s (close_maintenance e u s1) \<longleftrightarrow> refines s s1" "refines s (open_maintenance r i s1) \<longleftrightarrow> refines s s1"
  by (simp_all add: close_maintenance_def open_maintenance_def)

lemma started_on_shown:
  assumes "started_on u (tenancy_of s)"
  shows "\<exists>c\<in>set (contracts (base s)). con_unitId c = u \<and> is_started c"
  using assms contract_idD unfolding started_on_def
  by (fastforce simp: started_shown live_shown split: option.splits if_splits)

lemma change_status_tx_refines:
  assumes run: "change_status_tx e existing who i b s = Inr (s', st)" and r: "find_unit (base s) (unit_id existing) = Some existing"
    and new: "sti_status i \<noteq> Occupied"
  shows "refines s s'"
proof -
  define s1 where "s1 = note_status (unit_id existing) (unit_status existing) st who (given (clean_text (sti_reason i)) [])
      (update_unit (unit_id existing) (status_fields e existing i st) s)"
  have free: "count_rows (\<lambda>c. con_unitId c = unit_id existing \<and> is_started c) (contracts (base s)) = 0"
    and st: "st \<noteq> Occupied" and s': "refines s s1 \<Longrightarrow> refines s s'"
    using run new unfolding change_status_tx_def Let_def s1_def
    by (auto simp: bindr_eq_Inr simp del: count_rows_eq_0 split: if_splits)
  have "\<not> started_on (unit_id existing) (tenancy_of s)"
    using free started_on_shown [of "unit_id existing" s] by (auto simp: count_rows_eq_0)
  then have "tn_step (tenancy_of s) (put (unit_id existing) (unit_status existing) st (tenancy_of s))"
    using r st by (intro tn_step.By_hand) (auto simp: unit_shown)
  then have "refines s s1"
    unfolding s1_def by (intro refines_put [OF r]) (simp_all add: restatus_view status_fields_def Let_def)
  then show ?thesis by (rule s')
qed

lemma findUnit_row:
  assumes "findUnit s scope u = Inr r"
  shows "find_unit (base s) (unit_id r) = Some r"
proof -
  have "find_unit (base s) u = Some r"
    using assms by (auto simp: findUnit_def unit_in_open_facility_def elim!: bindrE)
  then show ?thesis using unit_idD by blast
qed

lemma note_again_refines:
  assumes "find_unit (base s) u = Some r" and "unit_status r = Maintenance"
  shows "refines s (note_status u Maintenance Maintenance who why (update_unit u (\<lambda>r. r\<lparr>unit_maintenanceUntil := day\<rparr>) s))"
proof (rule refines_wfI, rule refines_put [OF assms(1)])
  assume wf: "letting_wf s"
  have same: "x = r" if "x \<in> set (units (base s))" "unit_id x = u" for x
    using that unit_found [OF wf that(1)] assms(1) by simp
  have "(unit_id (if unit_id x = u then x\<lparr>unit_maintenanceUntil := day\<rparr> else x),
      unit_status (if unit_id x = u then x\<lparr>unit_maintenanceUntil := day\<rparr> else x)) =
      (if unit_id x = u then (u, Maintenance) else (unit_id x, unit_status x))"
    if "x \<in> set (units (base s))" for x
    using same [OF that] assms(2) by (cases "unit_id x = u") auto
  then show "statuses (note_status u Maintenance Maintenance who why (update_unit u (\<lambda>r. r\<lparr>unit_maintenanceUntil := day\<rparr>) s)) =
      restatus u Maintenance (statuses s)"
    by (simp add: note_status_def update_unit_def over_base_def statuses_def restatus_def update_many_def)
  show "tn_step (tenancy_of s) (put u Maintenance Maintenance (tenancy_of s))"
    using assms by (intro tn_step.Note) (simp add: unit_shown)
qed (simp_all add: note_status_def update_unit_def over_base_def spots_def history_log_def)

lemma changeStatus_refines: "changeStatus e scope u who i b s = Inr s' \<Longrightarrow> refines s s'"
proof -
  assume "changeStatus e scope u who i b s = Inr s'"
  then obtain existing where ex: "findUnit s scope u = Inr existing"
    and run: "change_status_from e existing who i b s = Inr s'" by (auto simp: changeStatus_def elim!: bindrE)
  note row = findUnit_row [OF ex]
  show "refines s s'"
  proof (cases "unit_status existing = sti_status i")
    case True
    then show ?thesis using run row
      by (auto simp: change_status_from_def Let_def elim!: bindrE split: option.splits if_splits
          intro!: note_again_refines)
  next
    case False
    have "\<exists>s1 st. change_status_tx e existing who i b s = Inr (s1, st) \<and> sti_status i \<noteq> Occupied \<and> quiet s1 s'"
      using run False by (auto simp: change_status_from_def Let_def elim!: bindrE split: if_splits)
    then show ?thesis using change_status_tx_refines [OF _ row] by (blast intro: refines_quiet)
  qed
qed

section \<open>The inventory\<close>

text \<open>Each issue is of one of four kinds; all of them call for a step the machine allows.\<close>

lemma issues_ofD:
  "iss \<in> set (issues_of s flt p expected why) \<Longrightarrow>
   \<exists>r\<in>set (units (base s)). unit_id r = iss_unitId iss \<and> unit_status r = iss_current iss \<and> p r \<and> iss_expected iss = expected"
  by (auto simp: issues_of_def)

lemma no_live_no_started: "\<not> has_contract s is_live r \<Longrightarrow> \<not> started_on (unit_id r) (tenancy_of s)"
  using started_on_shown [of "unit_id r" s] by (auto simp: has_contract_def is_started_def)

lemma orphan_free: "orphan_reserved s r \<Longrightarrow> unit_status r = Reserved \<and> \<not> has_contract s is_live r"
  by (fastforce simp: orphan_reserved_def has_contract_def is_live_def)

lemma live_on_unit:
  assumes "letting_wf s" and "has_contract s p r" and "\<And>c. p c \<Longrightarrow> is_live c"
  shows "\<exists>c. tn_live (tenancy_of s) c = Some (unit_id r)"
proof -
  obtain c where "c \<in> set (contracts (base s))" "con_unitId c = unit_id r" "is_live c"
    using assms(2,3) by (auto simp: has_contract_def)
  then have "tn_live (tenancy_of s) (con_id c) = Some (unit_id r)"
    using contract_found [OF assms(1)] by (simp add: live_shown)
  then show ?thesis ..
qed

lemma issue_step:
  assumes wf: "letting_wf s" and iss: "iss \<in> set (findIssues scope s)"
  shows "\<exists>r. find_unit (base s) (iss_unitId iss) = Some r \<and> unit_status r = iss_current iss \<and>
     tn_step (tenancy_of s) (put (iss_unitId iss) (iss_current iss) (iss_expected iss) (tenancy_of s))"
proof -
  have "\<exists>r\<in>set (units (base s)). unit_id r = iss_unitId iss \<and> unit_status r = iss_current iss \<and>
      (iss_expected iss = Available \<and> \<not> has_contract s is_live r \<or> iss_expected iss = Occupied \<and> has_contract s is_live r)"
    using iss orphan_free
    by (fastforce simp: findIssues_def has_contract_def is_started_def dest!: issues_ofD split: facility_filter.splits)
  then obtain r where r: "r \<in> set (units (base s))" "unit_id r = iss_unitId iss" "unit_status r = iss_current iss"
    and p: "iss_expected iss = Available \<and> \<not> has_contract s is_live r \<or> iss_expected iss = Occupied \<and> has_contract s is_live r"
    by blast
  have u: "tn_units (tenancy_of s) (unit_id r) = Some (unit_status r)"
    using unit_found [OF wf r(1)] by (simp add: unit_shown)
  have "tn_step (tenancy_of s) (put (unit_id r) (unit_status r) (iss_expected iss) (tenancy_of s))"
    using p u no_live_no_started [of s r] live_on_unit [OF wf, of is_live r]
    by (auto intro: tn_step.By_hand tn_step.Reconcile)
  then show ?thesis using unit_found [OF wf r(1)] r by auto
qed

lemma fix_inventory_refines: "fix_inventory scope u who s = Inr s' \<Longrightarrow> refines s s'"
proof (rule refines_wfI)
  assume "fix_inventory scope u who s = Inr s'" and wf: "letting_wf s"
  then obtain iss where iss: "iss \<in> set (findIssues scope s)" and run: "fix_issue iss who s = Inr s'"
    by (auto simp: fix_inventory_def dest!: find_first_SomeD elim!: bindrE)
  obtain r where r: "find_unit (base s) (iss_unitId iss) = Some r" "unit_status r = iss_current iss"
    and step: "tn_step (tenancy_of s) (put (iss_unitId iss) (iss_current iss) (iss_expected iss) (tenancy_of s))"
    using issue_step [OF wf iss] by blast
  define g where "g = (\<lambda>u :: unit_row. u\<lparr>unit_status := iss_expected iss, unit_outOfServiceReason := None,
      unit_outOfServiceSince := None, unit_maintenanceUntil := None\<rparr>)"
  define s1 where "s1 = note_status (iss_unitId iss) (iss_current iss) (iss_expected iss) who
      (''Reconciliacion de inventario: '' @ iss_reason iss) (over_base (\<lambda>d. d\<lparr>units := update_many
        (\<lambda>u. unit_id u = iss_unitId iss \<and> unit_status u = iss_current iss) g (units d)\<rparr>) s)"
  have "quiet s1 s'" using run by (auto simp: fix_issue_def Let_def s1_def g_def elim!: bindrE)
  moreover have "refines s s1"
  proof (rule refines_put [OF r(1)])
    have same: "x = r" if "x \<in> set (units (base s))" "unit_id x = iss_unitId iss" for x
      using that unit_found [OF wf that(1)] r(1) by simp
    have "(unit_id x, unit_status x) = (iss_unitId iss, iss_current iss)" if "x \<in> set (units (base s))" "unit_id x = iss_unitId iss" for x
      using same [OF that] that r(2) by simp
    then show "statuses s1 = restatus (iss_unitId iss) (iss_expected iss) (statuses s)"
      by (auto simp: s1_def note_status_def over_base_def statuses_def restatus_def update_many_def g_def)
    show "tn_step (tenancy_of s) (put (iss_unitId iss) (iss_current iss) (iss_expected iss) (tenancy_of s))" by (rule step)
  qed (simp_all add: s1_def note_status_def over_base_def spots_def history_log_def)
  ultimately show "refines s s'" by (rule refines_quiet [rotated])
qed

end
