(* ===== verification/LettingOpens.thy ===== *)
theory LettingOpens imports LettingMoves begin

text \<open>
  The deposit, the opening of a facility and the reservations (\<open>Deposits\<close>, \<open>PreOpening\<close>,
  \<open>Reservations\<close>) as steps of the abstract machine.
\<close>

section \<open>The deposit\<close>

lemma collect_receipt_quiet: "collect_receipt e m i s = (s', x) \<Longrightarrow> quiet s s'"
  by (auto simp: collect_receipt_def intro!: frame_quiet dest: markPaidManually_frame elim!: bindrE split: sum.splits)

lemma receipt_quiet: "createDepositReceipt e (base s) a = Inr (d, r) \<Longrightarrow> quiet s (s\<lparr>base := d\<rparr>)"
  by (rule frame_quiet) (rule createDepositReceipt_frame)

lemma collectDeposit_quiet:
  assumes "collectDeposit e scope c m s = (s', x)"
  shows "quiet s s'"
proof -
  have after: "quiet s s'" if "quiet s t" "collect_receipt e m i t = (s', x)" for t i
    using quiet_trans [OF that(1) collect_receipt_quiet [OF that(2)]] .
  show ?thesis
    using assms unfolding collectDeposit_def bindr_eq_Inr
    by (auto simp: bindr_eq_Inr intro: after [rotated] receipt_quiet split: sum.splits option.split_asm)
qed

lemma settle_tx_quiet: "settle_tx e existing who i s = Inr s' \<Longrightarrow> quiet s s'"
  by (auto simp: settle_tx_def Let_def settled_fields_def spot_simps intro!: update_rows_quiet elim!: bindrE)

lemma pay_with_retained_frame: "pay_with_retained e rs funds k d = (d', x) \<Longrightarrow> frame d d'"
proof (induction e rs funds k d rule: pay_with_retained.induct)
  case (2 e r rs funds applied d)
  then show ?case
    by (auto simp: Let_def split: if_splits sum.splits dest!: markPaidManually_frame intro: frame_trans)
qed simp

lemma applyRetainedDeposit_quiet: "applyRetainedDeposit e c k s = (s', x) \<Longrightarrow> quiet s s'"
  by (auto simp: applyRetainedDeposit_def spot_simps dest: pay_with_retained_frame
      intro!: quiet_trans [OF frame_quiet change_quiet] frame_quiet split: prod.splits sum.splits)

lemma settleDeposit_quiet:
  assumes "settleDeposit e scope c who i s = (s', x)"
  shows "quiet s s'"
proof -
  have after: "quiet s u" if "applyRetainedDeposit e c k (write_audit a j t) = (u, y)" "quiet s t" for c k t u y a j
    using quiet_trans [OF _ applyRetainedDeposit_quiet [OF that(1)]] that(2) by simp
  show ?thesis
    using assms unfolding settleDeposit_def settle_from_def Let_def
    by (auto simp: bindr_eq_Inr dest!: settle_tx_quiet intro: after split: sum.splits prod.splits if_splits)
qed

section \<open>Cancelling before the opening\<close>

lemma and_then_refines:
  assumes "and_then m k = (s', x)" and "refines s (fst m)"
    and "\<And>t y z. k t y = (s', z) \<Longrightarrow> refines t s'"
  shows "refines s s'"
  using assms by (auto simp: and_then_def split: prod.splits sum.splits intro: refines_trans)

lemma cancel_invoice_quiet: "cancel_invoice_of e i why s = (s', x) \<Longrightarrow> quiet s s'"
  by (auto simp: cancel_invoice_of_def intro!: frame_quiet cancel_frame split: prod.splits)

lemma cancel_invoice_quiet_fst: "quiet s s1 \<Longrightarrow> quiet s (fst (cancel_invoice_of e i why s1))"
  using cancel_invoice_quiet quiet_trans by (metis prod.collapse)

lemma refundDocument_quiet: "refundDocument e gw who i k why b s = Inr (s', x) \<Longrightarrow> quiet s s'"
  by (auto simp: refundDocument_def intro!: frame_quiet refund_frame split: sum.splits if_splits)

lemma refund_atomically: "quiet s (fst (atomically (refundDocument e gw who i k why b) s))"
  by (auto simp: atomically_def dest: refundDocument_quiet split: sum.splits prod.splits)

lemma give_back_rent_quiet: "quiet s (fst (give_back_rent e gw who v why s))"
  using refund_atomically
  by (auto simp: give_back_rent_def Let_def and_then_def cancel_invoice_quiet_fst
      split: option.splits prod.splits sum.splits) (metis fst_conv)+

lemma refund_deposit_quiet: "quiet s (fst (refund_deposit e gw who c why s))"
  using refund_atomically
  by (auto simp: refund_deposit_def Let_def and_then_def split: option.splits prod.splits sum.splits) (metis fst_conv)+

lemma cancelUnpaidDeposit_quiet: "quiet s (cancelUnpaidDeposit e c why s)"
  unfolding cancelUnpaidDeposit_def by (rule fold_quiet) (simp add: cancel_invoice_quiet_fst)

lemma give_back_deposit_refines: "give_back_deposit e gw who c outcome why s = (s', x) \<Longrightarrow> refines s s'"
  by (auto simp: give_back_deposit_def cancelUnpaidDeposit_quiet split: if_splits
      elim!: and_then_refines intro: quiet_refines refund_deposit_quiet dest!: settleDeposit_quiet)

lemma cancel_atomically:
  "refines s (fst (atomically (\<lambda>x. bindr (cancel_contract e scope c who why x) (\<lambda>x'. Inr (x', ()))) s))"
  by (auto simp: atomically_def bindr_eq_Inr dest: cancel_contract_refines split: sum.splits prod.splits)

lemma cancelOpening_refines:
  assumes "cancelOpening e gw customer scope who c reason s = (s', x)"
  shows "refines s s'"
proof (cases "s' = s")
  case False
  then obtain r outcome why where run: "and_then (give_back_rent e gw who (opening_rent_invoice s c) why s) (\<lambda>s1 _.
      and_then (give_back_deposit e gw who r outcome why s1) (\<lambda>s2 _.
      and_then (atomically (\<lambda>x. bindr (cancel_contract e None c who (given (clean_text reason) why) x) (\<lambda>x'. Inr (x', ()))) s2)
        (\<lambda>s3 _. (add_event c Ce_note_added (Said ''pre_opening_cancelled'') None
          (notify_staff ''contract.pre_opening_cancelled'' s3), Inr ())))) = (s', x)"
    using assms by (auto simp: cancelOpening_def Let_def split: sum.splits prod.splits if_splits)
  show ?thesis
  proof (rule and_then_refines [OF run quiet_refines [OF give_back_rent_quiet]])
    fix t and y :: unit and z
    assume k: "and_then (give_back_deposit e gw who r outcome why t) (\<lambda>s2 _.
      and_then (atomically (\<lambda>x. bindr (cancel_contract e None c who (given (clean_text reason) why) x) (\<lambda>x'. Inr (x', ()))) s2)
        (\<lambda>s3 _. (add_event c Ce_note_added (Said ''pre_opening_cancelled'') None
          (notify_staff ''contract.pre_opening_cancelled'' s3), Inr ()))) = (s', z)"
    show "refines t s'"
    proof (rule and_then_refines [OF k])
      show "refines t (fst (give_back_deposit e gw who r outcome why t))"
        by (rule give_back_deposit_refines) (rule prod.collapse [symmetric])
    qed (erule and_then_refines, auto intro: cancel_atomically)
  qed
qed simp

section \<open>Starting the reservations of a facility\<close>

lemma start_draft_quiet: "quiet s (fst (start_draft c day s))"
  by (auto simp: start_draft_def Let_def spot_simps intro!: update_rows_quiet)

text \<open>The claimed row shows a contract started, still on its unit.\<close>

lemma started_view:
  assumes wf: "letting_wf s" and r: "find_contract (base s) (con_id c) = Some c"
    and c: "is_live c" "isPendingPreOpening c"
    and s1: "s1 = over_base (\<lambda>d. d\<lparr>contracts := update_many
      (\<lambda>r. con_id r = con_id c \<and> po_startedAt (con_opening r) = None) (started_fields e day) (contracts d)\<rparr>) s"
  shows "letting_wf s1" and "tenancy_of s1 = enter (con_id c) (con_unitId c) True (tenancy_of s)"
    and "find_contract (base s1) (con_id c) = Some (started_fields e day c)"
proof -
  let ?g = "started_fields e day :: contract_row \<Rightarrow> contract_row"
  have hit: "(con_id x = con_id c \<and> po_startedAt (con_opening x) = None) = (con_id x = con_id c)"
    if "x \<in> set (contracts (base s))" for x
    using same_contract [OF wf r that] c by (auto simp: isPendingPreOpening_def)
  have key: "con_id (?g x) = con_id x" for x by (simp add: started_fields_def)
  have g: "is_live (?g c)" "is_started (?g c)" "con_unitId (?g c) = con_unitId c"
    using c by (auto simp: started_fields_def spot_simps)
  have closed: "\<not> is_closed (?g c)" "con_id c \<notin> tn_closed (tenancy_of s)"
    using g(1) c(1) r closed_is_off(1) by (auto simp: closed_shown)
  have sp: "spots s1 = respot (spot_of (?g c)) (spots s)"
    using spots_update [OF wf r hit, of ?g] key by (simp add: s1 spots_def over_base_def)
  note mv = moved_view [OF wf r key [of c], of s1, OF sp]
  show "letting_wf s1" by (rule mv; simp add: s1 statuses_def over_base_def history_log_def)
  have "tenancy_of s1 = tenancy_of s\<lparr>
      tn_live := (tn_live (tenancy_of s))(con_id c := if is_live (?g c) then Some (con_unitId (?g c)) else None),
      tn_started := (if is_started (?g c) then insert (con_id c) (tn_started (tenancy_of s)) else tn_started (tenancy_of s) - {con_id c}),
      tn_closed := (if is_closed (?g c) then insert (con_id c) (tn_closed (tenancy_of s)) else tn_closed (tenancy_of s) - {con_id c})\<rparr>"
    by (rule mv; simp add: s1 statuses_def over_base_def history_log_def)
  then show "tenancy_of s1 = enter (con_id c) (con_unitId c) True (tenancy_of s)" using g closed by (simp add: enter_def)
  have "update_many (\<lambda>r. con_id r = con_id c \<and> po_startedAt (con_opening r) = None) ?g (contracts (base s)) =
      update_many (\<lambda>r. con_id r = con_id c) ?g (contracts (base s))"
    using hit by (simp add: update_many_def)
  then show "find_contract (base s1) (con_id c) = Some (?g c)"
    using r find_first_update_many_key [of con_id ?g "con_id c"] key by (simp add: s1 find_contract_def over_base_def)
qed

lemma least_code_in: "least_code us = Some x \<Longrightarrow> x \<in> set us"
  by (induction us arbitrary: x) (auto split: option.splits if_splits)

lemma replacement_facts:
  assumes "replacement_unit s u = Some r"
  shows "r \<in> set (units (base s))" and "unit_status r = Available" and "unit_id r \<noteq> unit_id u"
  using least_code_in [OF assms [unfolded replacement_unit_def]] by auto

definition claim_start :: "env \<Rightarrow> contract_row \<Rightarrow> date \<Rightarrow> letting \<Rightarrow> letting" where
  "claim_start e c day s = over_base (\<lambda>d. d\<lparr>contracts := update_many
      (\<lambda>r. con_id r = con_id c \<and> po_startedAt (con_opening r) = None) (started_fields e day) (contracts d)\<rparr>) s"

definition take_unit :: "contract_row \<Rightarrow> unit_row \<Rightarrow> letting \<Rightarrow> letting" where
  "take_unit c w s =
     (if unit_status w \<in> {Reserved, Available}
      then write_status (unit_id w) (unit_status w) Occupied None
             (''Apertura del local: empieza el contrato '' @ con_contractNumber c) s else s)"

lemma start_tx_parts:
  "start_tx e c day s = Inr (s', kind) \<Longrightarrow> s' \<noteq> s \<Longrightarrow>
   \<exists>u s2 w k. unit_row_of (claim_start e c day s) (con_unitId c) = Inr u \<and>
     reassign c u (claim_start e c day s) = Inr (s2, w, k) \<and> quiet (take_unit c w s2) s'"
  unfolding start_tx_def Let_def claim_start_def [symmetric] take_unit_def [symmetric]
  by (auto elim!: bindrE split: if_splits)

lemma take_unit_view:
  assumes "letting_wf s" and "find_unit (base s) (unit_id w) = Some w"
  shows "letting_wf (take_unit c w s)"
    and "tenancy_of (take_unit c w s) =
      sync (unit_id w) (unit_status w) (if unit_status w \<in> {Reserved, Available} then Occupied else unit_status w) (tenancy_of s)"
proof -
  let ?why = "''Apertura del local: empieza el contrato '' @ con_contractNumber c"
  have u: "tn_units (tenancy_of s) (unit_id w) = Some (unit_status w)" using assms(2) by (simp add: unit_shown)
  have "take_unit c w s = syncUnitStatus (unit_id w) (unit_status w)
      (if unit_status w \<in> {Reserved, Available} then Occupied else unit_status w) None ?why s"
    by (auto simp: take_unit_def syncUnitStatus_def)
  then show "letting_wf (take_unit c w s)" and "tenancy_of (take_unit c w s) =
      sync (unit_id w) (unit_status w) (if unit_status w \<in> {Reserved, Available} then Occupied else unit_status w) (tenancy_of s)"
    using sync_view [OF assms(1) u] by simp_all
qed

lemma reassigned_refines:
  assumes re: "reassign c u s1 = Inr (s2, w, k)" and s1: "s1 = claim_start e c day s"
    and r: "find_contract (base s) (con_id c) = Some c" and c: "is_live c" "isPendingPreOpening c"
    and u: "find_unit (base s) (con_unitId c) = Some u"
  shows "refines s (take_unit c w s2)"
proof (rule refines_wfI)
  assume wf: "letting_wf s"
  let ?t = "tenancy_of s" and ?i = "con_id c" and ?v = "con_unitId c"
  note sv = started_view [OF wf r c s1 [unfolded claim_start_def]]
  have live: "tn_live ?t ?i = Some ?v" using r c by (simp add: live_shown)
  have uid: "unit_id u = ?v" using unit_idD [OF u] by simp
  have units: "units (base s1) = units (base s)" by (simp add: s1 claim_start_def over_base_def)
  show ?thesis
  proof (cases "w = u \<and> s2 = s1")
    case True
    have w: "find_unit (base s1) (unit_id u) = Some u" using u uid units by (simp add: find_unit_def)
    note tv = take_unit_view [OF sv(1) w, of c]
    have "tn_step ?t (tenancy_of (take_unit c u s1))"
      unfolding tv(2) sv(2) uid using live u by (intro tn_step.Start) (auto simp: unit_shown)
    then show ?thesis using True tv(1) by (auto intro: refines_step)
  next
    case False
    then obtain s3 where st: "stopped (unit_status u)" and repl: "replacement_unit s1 u = Some w"
      and save: "save_contract ?i (\<lambda>x. x\<lparr>con_unitId := unit_id w\<rparr>) s1 = Inr s3"
      and s2: "s2 = add_event ?i Ce_note_added (Said ''pre_opening_reassigned'') None s3"
      using re by (auto simp: reassign_def elim!: bindrE split: if_splits option.splits)
    note rf = replacement_facts [OF repl]
    let ?g = "\<lambda>x :: contract_row. x\<lparr>con_unitId := unit_id w\<rparr>"
    have fresh: "tn_units ?t (unit_id w) = Some Available" "unit_id w \<noteq> ?v"
      using rf units unit_found [OF wf, of w] uid by (auto simp: unit_shown)
    have key: "con_id (?g x) = con_id x" for x by simp
    note saved = saved_view [OF sv(1) sv(3) save key]
    have g: "is_live (?g (started_fields e day c))" "is_started (?g (started_fields e day c))"
      using c by (auto simp: started_fields_def spot_simps)
    have closed: "\<not> is_closed (?g (started_fields e day c))" "?i \<notin> tn_closed ?t"
      using g(1) c(1) r closed_is_off(1) by (auto simp: closed_shown)
    have wf2: "letting_wf s2" and t2: "tenancy_of s2 = enter ?i (unit_id w) True ?t"
      using quiet_view [of s3 s2] saved(1,3) g sv(2) closed by (auto simp: s2 enter_def)
    have w2: "find_unit (base s2) (unit_id w) = Some w"
      using save_contract_change [OF save] rf(1) units unit_found [OF wf, of w] by (simp add: s2 find_unit_def)
    note tv = take_unit_view [OF wf2 w2, of c]
    have nobody: "nobody_on (unit_id w) ?t"
      unfolding nobody_on_def
    proof (intro allI notI)
      fix x assume x: "tn_live ?t x = Some (unit_id w)"
      then have "x \<noteq> ?i" using live fresh by auto
      then have "tn_live (tenancy_of s1) x = Some (unit_id w)" using x by (simp add: sv(2))
      then have "x = ?i" using saved(4) [OF g(1)] by simp
      then show False using \<open>x \<noteq> ?i\<close> by simp
    qed
    have "tn_step ?t (put (unit_id w) Available Occupied (enter ?i (unit_id w) True ?t))"
      using live st u nobody fresh by (intro tn_step.Start_elsewhere) (auto simp: unit_shown stopped_def)
    moreover have "tenancy_of (take_unit c w s2) = put (unit_id w) Available Occupied (enter ?i (unit_id w) True ?t)"
      using tv(2) rf(2) by (simp add: t2 sync_def)
    ultimately show ?thesis using tv(1) by (auto intro: refines_step)
  qed
qed

lemma start_tx_refines:
  assumes run: "start_tx e c day s = Inr (s', kind)" and r: "find_contract (base s) (con_id c) = Some c"
    and c: "is_live c" "isPendingPreOpening c"
  shows "refines s s'"
proof (cases "s' = s")
  case False
  then obtain u s2 w k where u: "unit_row_of (claim_start e c day s) (con_unitId c) = Inr u"
    and re: "reassign c u (claim_start e c day s) = Inr (s2, w, k)" and q: "quiet (take_unit c w s2) s'"
    using start_tx_parts [OF run] by blast
  have "find_unit (base s) (con_unitId c) = Some u"
    using u by (simp add: unit_row_of_def claim_start_def over_base_def find_unit_def)
  from reassigned_refines [OF re refl r c this] q show ?thesis by (rule refines_quiet)
qed simp

lemma startContract_refines:
  assumes run: "startContract e c day s = Inr (s', kind)" and r: "find_contract (base s) (con_id c) = Some c"
    and c: "isPendingPreOpening c" "con_status c \<noteq> Con_draft \<Longrightarrow> is_live c"
  shows "refines s s'"
proof (cases "con_status c = Con_draft")
  case True
  then show ?thesis using run start_draft_quiet [of s c day]
    by (auto simp: startContract_def intro: quiet_refines split: prod.splits)
next
  case False
  then have "\<exists>s1 k. start_tx e c day s = Inr (s1, k) \<and> quiet s1 s'"
    using run by (auto simp: startContract_def Let_def elim!: bindrE split: option.splits if_splits)
  then show ?thesis using start_tx_refines [OF _ r _ c(1)] c(2) False by (blast intro: refines_quiet)
qed

text \<open>It touches no other contract.\<close>

lemma find_first_update_many_off:
  assumes "\<And>r. p r \<Longrightarrow> k r \<noteq> i" and "\<And>r. p r \<Longrightarrow> k (f r) = k r"
  shows "find_first (\<lambda>r. k r = i) (update_many p f rows) = find_first (\<lambda>r. k r = i) rows"
  by (induction rows) (use assms in auto)

lemma startContract_other:
  assumes run: "startContract e c day s = Inr (s', kind)" and i: "i \<noteq> con_id c"
  shows "find_contract (base s') i = find_contract (base s) i"
proof (cases "con_status c = Con_draft")
  case True
  then show ?thesis using run i i [symmetric]
    by (auto simp: startContract_def start_draft_def Let_def over_base_def find_contract_def)
      (rule find_first_update_many_off; auto)
next
  case False
  then obtain s1 k where tx: "start_tx e c day s = Inr (s1, k)" and q: "contracts (base s') = contracts (base s1)"
    using run by (auto simp: startContract_def Let_def elim!: bindrE split: option.splits if_splits)
  have claim: "find_contract (base (claim_start e c day s)) i = find_contract (base s) i"
    unfolding claim_start_def find_contract_def over_base_sel
    by simp (rule find_first_update_many_off; use i in \<open>auto simp: started_fields_def\<close>)
  have re: "find_contract (base s2) i = find_contract (base t) i" if "reassign c u t = Inr (s2, w, m)" for u t s2 w m
    using that i by (auto simp: reassign_def find_contract_def find_first_update_many_other [OF _ i]
        dest!: save_contract_change elim!: bindrE split: if_splits option.splits)
  have take: "find_contract (base (take_unit c w t)) i = find_contract (base t) i" for w t
    by (simp add: take_unit_def find_contract_def)
  have "find_contract (base s1) i = find_contract (base s) i"
    using tx re take claim unfolding start_tx_def Let_def claim_start_def [symmetric] take_unit_def [symmetric]
    by (auto elim!: bindrE simp: find_contract_def split: if_splits)
  then show ?thesis using q by (simp add: find_contract_def)
qed

definition to_start :: "letting \<Rightarrow> contract_row \<Rightarrow> bool" where
  "to_start s c \<longleftrightarrow> find_contract (base s) (con_id c) = Some c \<and> isPendingPreOpening c \<and>
     (con_status c \<noteq> Con_draft \<longrightarrow> is_live c)"

lemma pending_to_start: "letting_wf s \<Longrightarrow> c \<in> set (pendingContracts s f) \<Longrightarrow> to_start s c"
  using contract_found [of s c] by (auto simp: pendingContracts_def to_start_def is_live_def)

lemma start_each_refines:
  "start_each e day cs s = (s', kinds, n) \<Longrightarrow> (\<forall>c\<in>set cs. to_start s c) \<Longrightarrow> distinct (map con_id cs) \<Longrightarrow> refines s s'"
proof (induction cs arbitrary: s kinds n)
  case (Cons c cs)
  show ?case
  proof (cases "startContract e c day s")
    case (Inl err)
    then show ?thesis using Cons by (auto split: prod.splits)
  next
    case (Inr a)
    then obtain s1 k where run: "startContract e c day s = Inr (s1, k)" by (cases a) auto
    have "con_id x \<noteq> con_id c" if "x \<in> set cs" for x using that Cons.prems(3) by (auto simp: image_iff)
    then have "\<forall>x\<in>set cs. to_start s1 x"
      using Cons.prems(2) startContract_other [OF run] by (simp add: to_start_def)
    then have "refines s1 s'"
      using Cons.IH Cons.prems run by (auto split: option.splits prod.splits)
    moreover have "refines s s1"
      using Cons.prems(2) by (intro startContract_refines [OF run]) (auto simp: to_start_def)
    ultimately show ?thesis using refines_trans by blast
  qed
qed simp

lemma update_facility_quiet [simp]: "quiet s (update_facility f g s1) \<longleftrightarrow> quiet s s1"
  by (simp add: update_facility_def over_base_def quiet_def spots_def statuses_def)

lemma distinct_pending: "letting_wf s \<Longrightarrow> distinct (map con_id (pendingContracts s f))"
  using wf_keys(1) by (simp add: pendingContracts_def distinct_map_filter)

lemma startFacility_refines: "startFacility e f day s = (s', n) \<Longrightarrow> refines s s'"
proof (rule refines_wfI)
  assume run: "startFacility e f day s = (s', n)" and wf: "letting_wf s"
  obtain s1 kinds m where each: "start_each e day (pendingContracts s f) s = (s1, kinds, m)"
    by (cases "start_each e day (pendingContracts s f) s") auto
  have "refines s s1"
    by (rule start_each_refines [OF each]) (auto simp: pending_to_start [OF wf] distinct_pending [OF wf])
  moreover have "quiet s1 s'" using run each by (auto simp: startFacility_def)
  ultimately show "refines s s'" by (rule refines_quiet)
qed

lemma move_reservation_quiet: "quiet s (move_reservation d c s)"
  by (auto simp: move_reservation_def spot_simps intro!: change_quiet)

lemma moveReservations_quiet: "moveReservations f d s = (s', n) \<Longrightarrow> quiet s s'"
  using fold_quiet [of "move_reservation d"] move_reservation_quiet by (auto simp: moveReservations_def Let_def)

lemma updateOpening_refines:
  assumes "updateOpening e scope f pre asked k s = Inr (s', n, m)"
  shows "refines s s'"
proof -
  have opens: "refines s s'" if "startFacility e f day (write_audit a i (update_facility f g s)) = (s', x)" for day a i g x
    by (rule quiet_then_refines [OF _ startFacility_refines [OF that]]) simp
  have moves: "refines s s'" if "moveReservations f d (write_audit a i (update_facility f g s)) = (s', x)" for d a i g x
    by (rule quiet_refines [OF quiet_trans [OF _ moveReservations_quiet [OF that]]]) simp
  have rest: "refines s (update_facility f g s)" for g by (rule quiet_refines) simp
  show ?thesis
    using assms unfolding updateOpening_def Let_def
    by (elim bindrE; simp only: sum.inject split: if_split_asm prod.split_asm)
      (auto, (erule opens | erule moves | rule rest)+)
qed

lemma runDue_refines:
  assumes "runDue e s = (s', n)"
  shows "refines s s'"
proof -
  have step: "refines t t'" if "start_due e f (t, n) = (t', m)" for f t n t' m
    using that by (auto simp: start_due_def Let_def split: if_splits prod.splits intro: startFacility_refines)
  show ?thesis using assms unfolding runDue_def by (rule fold_pair_refines) (rule step)
qed

section \<open>Reservations\<close>

lemma save_reservations_same: "save_reservations rows s = Inr s' \<Longrightarrow> s' = s\<lparr>reservations := rows\<rparr>"
  by (simp add: save_reservations_def split: if_splits)

lemma claimStatus_quiet: "claimStatus i st f s = Inr s' \<Longrightarrow> quiet s s'"
  by (auto simp: claimStatus_def Let_def dest!: save_reservations_same elim!: bindrE)

lemma bill_signal_quiet: "bill_signal e rid i s = (s', x) \<Longrightarrow> quiet s s'"
proof -
  assume run: "bill_signal e rid i s = (s', x)"
  have set1: "quiet s (set_signal hit k t) = quiet s t" for hit k t by (simp add: set_signal_def)
  have issued: "quiet s ((set_signal hit k s)\<lparr>base := d\<rparr>)" if "issue e None None False i (base (set_signal hit k s)) = (d, y)" for hit k d y
    by (rule quiet_base [OF _ issue_frame [OF that]]) (simp add: set1)
  show ?thesis
    using run unfolding bill_signal_def Let_def
    by (auto simp: cancel_invoice_quiet_fst set1 issued split: if_splits prod.splits sum.splits)
qed

lemma issue_signal_quiet:
  assumes "issue_signal_from e r s = (s', x)"
  shows "quiet s s'"
proof -
  have bill: "quiet s s'" if "create_invoice e (base s) None None None inp = Inr (d, v)"
      and "bill_signal e i j (s\<lparr>base := d\<rparr>) = (s', y)" for inp d v i j y
    using quiet_trans [OF frame_quiet [OF create_invoice_frame [OF that(1)]] bill_signal_quiet [OF that(2)]] .
  have issue: "quiet s (s\<lparr>base := d\<rparr>)" if "issue e None None False i (base s) = (d, y)" for i d y
    by (rule frame_quiet [OF issue_frame [OF that]])
  show ?thesis
    using assms unfolding issue_signal_from_def
    by (auto simp: bindr_eq_Inr intro: issue split: option.split_asm sum.split_asm prod.split_asm if_split_asm) (erule bill, assumption)
qed

lemma issueDepositInvoice_quiet: "issueDepositInvoice e scope i s = (s', x) \<Longrightarrow> quiet s s'"
  by (auto simp: issueDepositInvoice_def split: sum.splits dest: issue_signal_quiet)

lemma autoDepositInvoice_quiet: "quiet s s1 \<Longrightarrow> quiet s (autoDepositInvoice e i s1)"
  by (erule quiet_trans)
    (auto simp: autoDepositInvoice_def dest: issueDepositInvoice_quiet split: option.splits prod.splits sum.splits)

lemma onInvoicePaid_signal_quiet: "quiet s (Reservations.onInvoicePaid i s)"
  by (auto simp: Reservations.onInvoicePaid_def signal_paid_from_def credit_signal_def Let_def spot_simps
      intro!: quiet_trans [OF _ change_quiet] split: option.splits)

lemma settleSignal_quiet: "quiet s s1 \<Longrightarrow> quiet s (settleSignal e r why keep s1)"
  by (erule quiet_trans)
    (auto simp: settleSignal_def intro!: frame_quiet cancel_invoice_quiet_fst dest: rectify_frame
      split: option.splits sum.splits prod.splits)

lemma hold_if_refines:
  assumes "find_unit (base s) j = Some u" and "quiet s t" and "units (base t) = units (base s)"
  shows "refines s (if b \<and> unit_status u = Available then write_status (unit_id u) Available Reserved who why t else t)"
proof (cases "b \<and> unit_status u = Available")
  case True
  have "find_unit (base t) (unit_id u) = Some u"
    using assms unit_idD [OF assms(1)] by (auto simp: find_unit_def)
  then show ?thesis using True by (auto intro: quiet_then_refines [OF assms(2)] refines_hold)
next
  case False
  then show ?thesis using quiet_refines [OF assms(2)] by auto
qed

lemma create_reservation_tx_refines:
  assumes "create_reservation_tx e scope who i s = Inr (s', r)"
  shows "refines s s'"
proof -
  let ?t = "\<lambda>rows. over_base (\<lambda>d. d\<lparr>next_id := Suc (next_id d)\<rparr>) (s\<lparr>reservations := rows\<rparr>)"
  have t: "quiet s (?t rows)" for rows
    by (rule quiet_trans [OF _ quiet_over_base]) (simp_all add: frame_def)
  show ?thesis
    using assms unfolding create_reservation_tx_def Let_def reserveUnitInTx_def unit_in_open_facility_def
    by (elim bindrE)
      (clarsimp dest!: save_reservations_same split del: if_split, rule hold_if_refines [OF _ t], simp_all)
qed

lemma create_reservation_refines:
  assumes "create_reservation e scope who i s = Inr (s', rid)"
  shows "refines s s'"
proof -
  obtain s1 r where tx: "create_reservation_tx e scope who i s = Inr (s1, r)" and q: "quiet s1 s'"
    using assms
    by (auto simp: create_reservation_def Let_def announce_confirmed_def autoDepositInvoice_quiet elim!: bindrE)
  from create_reservation_tx_refines [OF tx] q show ?thesis by (rule refines_quiet)
qed

lemma update_reservation_quiet: "update_reservation e scope rid i s = Inr s' \<Longrightarrow> quiet s s'"
  by (auto simp: update_reservation_def update_reservation_from_def dest: claimStatus_quiet elim!: bindrE)

lemma confirm_reservation_refines:
  assumes "confirm_reservation e scope rid who s = Inr s'"
  shows "refines s s'"
proof -
  obtain existing s1 where tx: "confirm_tx e existing who s = Inr s1" and q: "quiet s1 s'"
    using assms
    by (auto simp: confirm_reservation_def confirm_from_def announce_confirmed_def autoDepositInvoice_quiet elim!: bindrE)
  have "refines s s1"
    using tx hold_if_refines [where b = True] unfolding confirm_tx_def reserveUnitInTx_def claimStatus_def Let_def
    by (elim bindrE) (clarsimp simp: unit_row_of_def dest!: save_reservations_same split del: if_split)
  then show ?thesis using q by (rule refines_quiet)
qed

lemma cancel_reservation_tx_refines:
  "cancel_reservation_tx e existing who reason s = Inr (s', b) \<Longrightarrow> refines s s'"
  by (auto simp: cancel_reservation_tx_def dest!: claimStatus_quiet release_refines_pair elim!: bindrE
      split: if_splits intro: quiet_refines quiet_then_refines)

lemma cancel_reservation_refines:
  assumes "cancel_reservation e scope rid who reason keep s = Inr s'"
  shows "refines s s'"
proof -
  obtain existing s1 b where tx: "cancel_reservation_tx e existing who reason s = Inr (s1, b)" and q: "quiet s1 s'"
    using assms
    by (auto simp: cancel_reservation_def cancel_reservation_from_def Let_def settleSignal_quiet elim!: bindrE)
  from cancel_reservation_tx_refines [OF tx] q show ?thesis by (rule refines_quiet)
qed

lemma convertToContract_refines: "convertToContract e scope who rid i s = Inr (s', c) \<Longrightarrow> refines s s'"
  by (auto simp: convertToContract_def dest!: create_contract_refines elim!: bindrE)

lemma sendExpiryReminders_quiet: "sendExpiryReminders t s = (s', n) \<Longrightarrow> refines s s'"
proof -
  have step: "refines u u'" if "remind t r (u, k) = (u', m)" for r u k u' m
    using that by (auto simp: remind_def Let_def split: if_splits)
  show "sendExpiryReminders t s = (s', n) \<Longrightarrow> refines s s'"
    unfolding sendExpiryReminders_def by (rule fold_pair_refines [OF _ step])
qed

lemma expire_one_refines: "expire_one e r (s, l) = (s', m) \<Longrightarrow> refines s s'"
  by (auto simp: expire_one_def Let_def split: if_splits prod.splits
      intro: quiet_then_refines [rotated] release_refines_pair)

lemma expireDue_refines:
  assumes "expireDue e s = (s', n)"
  shows "refines s s'"
proof -
  obtain s1 freed where tx: "expire_tx e s = (s1, freed)" by fastforce
  have "refines s s1"
    using tx unfolding expire_tx_def by (rule fold_pair_refines) (rule expire_one_refines)
  moreover have "quiet s1 (fold (\<lambda>u. tell (Unit_available u)) us (fold (\<lambda>r. settleSignal e r why keep) rs s1))" for us why keep rs
    by (rule quiet_trans [OF fold_quiet fold_quiet]) (auto intro: settleSignal_quiet)
  moreover have "quiet s1 (fold (\<lambda>u. tell (Unit_available u)) us s1)" for us
    by (rule fold_quiet) simp
  ultimately show ?thesis
    using assms tx by (auto simp: expireDue_def Let_def intro: refines_quiet)
qed

end
