(* ===== verification/Letting.thy ===== *)
theory Letting imports LettingOpens
begin

text \<open>
  The letting side as a whole: every operation of its services, one after the other and in any order
  (\<open>letting_step\<close>), is a sequence of steps of the abstract machine of \<open>Tenancy\<close>. What holds of the
  machine therefore holds of the tables: who is on a unit, what the status of a unit says and what the
  history of a unit tells.
\<close>

section \<open>Simulations\<close>

text \<open>
  A system that takes steps \<open>step\<close>, seen through \<open>view\<close> as a system that takes steps \<open>astep\<close>;
  \<open>ok\<close> is the well-formedness the view needs.
\<close>

locale simulation =
  fixes view :: "'c \<Rightarrow> 'a" and ok :: "'c \<Rightarrow> bool" and step :: "'c \<Rightarrow> 'c \<Rightarrow> bool" and astep :: "'a \<Rightarrow> 'a \<Rightarrow> bool"
  assumes simulates: "step s s' \<Longrightarrow> ok s \<Longrightarrow> ok s' \<and> astep\<^sup>*\<^sup>* (view s) (view s')"
begin

lemma runs:
  assumes "step\<^sup>*\<^sup>* s s'" and "ok s"
  shows "ok s' \<and> astep\<^sup>*\<^sup>* (view s) (view s')"
  using assms(1)
proof (induction rule: rtranclp_induct)
  case (step t u)
  then show ?case using simulates [of t u] by auto
qed (simp add: assms(2))

lemma invariant:
  assumes "step\<^sup>*\<^sup>* s s'" and "ok s" and "I (view s)" and keeps: "\<And>a b. astep a b \<Longrightarrow> I a \<Longrightarrow> I b"
  shows "I (view s')"
proof -
  have "astep\<^sup>*\<^sup>* (view s) (view s')" using runs [OF assms(1,2)] by blast
  then show ?thesis by (induction rule: rtranclp_induct) (auto intro: assms(3) keeps)
qed

end

section \<open>The operations of the letting services\<close>

inductive letting_step :: "letting \<Rightarrow> letting \<Rightarrow> bool" where
  Create: "create_contract e scope who ci s = Inr (s', c) \<Longrightarrow> letting_step s s'"
| Update: "update_contract_terms scope c who ui s = Inr s' \<Longrightarrow> letting_step s s'"
| Insure: "setInsurance scope c plan s = Inr s' \<Longrightarrow> letting_step s s'"
| Withhold: "setIrpfRetention scope c pct s = Inr s' \<Longrightarrow> letting_step s s'"
| Deposit_method: "setDepositPaymentMethod scope c cash s = Inr s' \<Longrightarrow> letting_step s s'"
| Add_note: "addNote scope c who note s = Inr s' \<Longrightarrow> letting_step s s'"
| Sign: "sign e compose digest scope c rq s = Inr s' \<Longrightarrow> letting_step s s'"
| Activate: "activateImported scope who day collected cs s = (s', n, failed) \<Longrightarrow> letting_step s s'"
| Request_end: "requestEnd e scope c who asked s = Inr s' \<Longrightarrow> letting_step s s'"
| Request_end_portal: "requestEndByCustomer e cu c day s = Inr s' \<Longrightarrow> letting_step s s'"
| Change_day: "changeMoveOutDateByCustomer e cu c day s = Inr s' \<Longrightarrow> letting_step s s'"
| Call_off: "cancelMoveOutByCustomer e cu c s = Inr s' \<Longrightarrow> letting_step s s'"
| End_contract: "end_contract e scope c who s = Inr s' \<Longrightarrow> letting_step s s'"
| Cancel_contract: "cancel_contract e scope c who reason s = Inr s' \<Longrightarrow> letting_step s s'"
| Renew_due: "letting_step s (autoRenewDue e s)"
| End_due: "letting_step s (autoEndDue e s)"
| Price: "changePrice e scope c who prci s = Inr s' \<Longrightarrow> letting_step s s'"
| Cancel_price: "cancelScheduledPrice scope c s = Inr s' \<Longrightarrow> letting_step s s'"
| Renew: "renew e scope c who months p s = (s', x) \<Longrightarrow> letting_step s s'"
| Move_unit: "changeUnit e scope c who mi s = Inr s' \<Longrightarrow> letting_step s s'"
| Cancel_move: "cancelScheduledMove e scope c who s = Inr s' \<Longrightarrow> letting_step s s'"
| Apply_scheduled: "applyScheduledChanges e s = (s', n, m) \<Longrightarrow> letting_step s s'"
| Set_status: "changeStatus e scope u who si b s = Inr s' \<Longrightarrow> letting_step s s'"
| Fix_unit: "fix_inventory scope u who s = Inr s' \<Longrightarrow> letting_step s s'"
| Collect_deposit: "collectDeposit e scope c method s = (s', x) \<Longrightarrow> letting_step s s'"
| Settle_deposit: "settleDeposit e scope c who sti s = (s', x) \<Longrightarrow> letting_step s s'"
| Update_opening: "updateOpening e scope f pre asked k s = Inr (s', n, m) \<Longrightarrow> letting_step s s'"
| Open_due: "runDue e s = (s', n) \<Longrightarrow> letting_step s s'"
| Cancel_opening: "cancelOpening e gw cu scope who c why s = (s', x) \<Longrightarrow> letting_step s s'"
| Reserve: "create_reservation e scope who ri s = Inr (s', r) \<Longrightarrow> letting_step s s'"
| Change_reservation: "update_reservation e scope r uri s = Inr s' \<Longrightarrow> letting_step s s'"
| Confirm: "confirm_reservation e scope r who s = Inr s' \<Longrightarrow> letting_step s s'"
| Cancel_reservation: "cancel_reservation e scope r who reason2 keep s = Inr s' \<Longrightarrow> letting_step s s'"
| Convert: "convertToContract e scope who r cvi s = Inr (s', c) \<Longrightarrow> letting_step s s'"
| Bill_signal: "issueDepositInvoice e scope r s = (s', x) \<Longrightarrow> letting_step s s'"
| Signal_paid: "letting_step s (Reservations.onInvoicePaid i s)"
| Remind: "sendExpiryReminders t s = (s', n) \<Longrightarrow> letting_step s s'"
| Expire: "expireDue e s = (s', n) \<Longrightarrow> letting_step s s'"
| Elsewhere: "spots s' = spots s \<Longrightarrow> statuses s' = statuses s \<Longrightarrow> unit_history s' = unit_history s \<Longrightarrow>
    next_id (base s) \<le> next_id (base s') \<Longrightarrow> letting_step s s'"

text \<open>
  \<open>Elsewhere\<close> is any write of another service that changes neither the status of a unit nor where a
  contract stands; the operations of billing are of this kind.
\<close>

lemma billing_elsewhere: "frame (base s) d \<Longrightarrow> letting_step s (s\<lparr>base := d\<rparr>)"
  using frame_quiet by (intro Elsewhere) (auto simp: quiet_def)

lemmas letting_quiet = update_contract_terms_quiet setInsurance_quiet setIrpfRetention_quiet
  setDepositPaymentMethod_quiet addNote_quiet autoRenewDue_quiet changePrice_quiet cancelScheduledPrice_quiet
  collectDeposit_quiet settleDeposit_quiet update_reservation_quiet issueDepositInvoice_quiet
  onInvoicePaid_signal_quiet

lemmas letting_refines = create_contract_refines sign_refines activateImported_refines requestEnd_refines
  requestEndByCustomer_refines changeMoveOutDate_refines cancelMoveOut_refines end_contract_refines
  cancel_contract_refines autoEndDue_refines renew_refines changeUnit_refines cancelScheduledMove_refines
  applyScheduledChanges_refines changeStatus_refines fix_inventory_refines updateOpening_refines runDue_refines
  cancelOpening_refines create_reservation_refines confirm_reservation_refines cancel_reservation_refines
  convertToContract_refines sendExpiryReminders_quiet expireDue_refines

lemma letting_step_refines: "letting_step s s' \<Longrightarrow> refines s s'"
proof (induction rule: letting_step.induct)
  case (Elsewhere s' s)
  then show ?case by (intro quiet_refines) (simp add: quiet_def history_log_def)
qed (blast intro: letting_refines quiet_refines letting_quiet)+

interpretation tenancies: simulation tenancy_of letting_wf letting_step tn_step
  by unfold_locales (use letting_step_refines in \<open>auto simp: refines_def\<close>)

section \<open>What the tables say\<close>

definition consistent :: "letting \<Rightarrow> bool" where
  "consistent s \<longleftrightarrow>
     (\<forall>a\<in>set (contracts (base s)). \<forall>b\<in>set (contracts (base s)).
        is_live a \<and> is_live b \<and> con_unitId a = con_unitId b \<longrightarrow> con_id a = con_id b) \<and>
     (\<forall>c\<in>set (contracts (base s)). \<forall>u\<in>set (units (base s)).
        is_started c \<and> con_unitId c = unit_id u \<longrightarrow> unit_status u \<notin> {Available, Reserved}) \<and>
     (\<forall>u\<in>set (units (base s)). unit_status u = Occupied \<longrightarrow>
        (\<exists>c\<in>set (contracts (base s)). is_live c \<and> con_unitId c = unit_id u))"

lemma consistentD:
  assumes "consistent s"
  shows "a \<in> set (contracts (base s)) \<Longrightarrow> b \<in> set (contracts (base s)) \<Longrightarrow> is_live a \<Longrightarrow> is_live b \<Longrightarrow>
      con_unitId a = con_unitId b \<Longrightarrow> con_id a = con_id b"
    and "a \<in> set (contracts (base s)) \<Longrightarrow> u \<in> set (units (base s)) \<Longrightarrow> is_started a \<Longrightarrow> con_unitId a = unit_id u \<Longrightarrow>
      unit_status u \<notin> {Available, Reserved}"
    and "u \<in> set (units (base s)) \<Longrightarrow> unit_status u = Occupied \<Longrightarrow>
      \<exists>c\<in>set (contracts (base s)). is_live c \<and> con_unitId c = unit_id u"
  using assms unfolding consistent_def by blast+

lemma consistent_iff:
  assumes wf: "letting_wf s"
  shows "consistent s \<longleftrightarrow> tn_ok (tenancy_of s)"
proof
  assume con: "consistent s"
  show "tn_ok (tenancy_of s)"
  proof (rule tn_okI)
    show "c = x" if "tn_live (tenancy_of s) c = Some u" "tn_live (tenancy_of s) x = Some u" for c x u
    proof -
      obtain a b where a: "find_contract (base s) c = Some a" "is_live a" "con_unitId a = u"
        and b: "find_contract (base s) x = Some b" "is_live b" "con_unitId b = u"
        using \<open>tn_live (tenancy_of s) c = Some u\<close> \<open>tn_live (tenancy_of s) x = Some u\<close>
        by (auto simp: live_shown split: option.splits if_splits)
      have "con_id a = con_id b"
        using consistentD(1) [OF con _ _ a(2) b(2)] a(3) b(3) contract_idD [OF a(1)] contract_idD [OF b(1)] by simp
      then show "c = x" using contract_idD [OF a(1)] contract_idD [OF b(1)] by simp
    qed
    show "\<exists>u. tn_live (tenancy_of s) c = Some u \<and> tn_units (tenancy_of s) u \<notin> {Some Available, Some Reserved}"
      if started: "c \<in> tn_started (tenancy_of s)" for c
    proof -
      obtain a where a: "find_contract (base s) c = Some a" "is_started a" using started by (auto simp: started_shown)
      then have "tn_live (tenancy_of s) c = Some (con_unitId a)" by (simp add: live_shown is_started_def)
      moreover have "tn_units (tenancy_of s) (con_unitId a) \<notin> {Some Available, Some Reserved}"
      proof (cases "find_unit (base s) (con_unitId a)")
        case (Some r)
        then show ?thesis
          using consistentD(2) [OF con _ _ a(2), of r] contract_idD [OF a(1)] unit_idD [OF Some] by (simp add: unit_shown)
      qed (simp add: unit_shown)
      ultimately show ?thesis by blast
    qed
    show "\<exists>c. tn_live (tenancy_of s) c = Some u" if occupied: "tn_units (tenancy_of s) u = Some Occupied" for u
    proof -
      obtain r where r: "find_unit (base s) u = Some r" "unit_status r = Occupied"
        using occupied by (auto simp: unit_shown)
      then obtain c where c: "c \<in> set (contracts (base s))" "is_live c" "con_unitId c = u"
        using consistentD(3) [OF con, of r] unit_idD [OF r(1)] by auto
      then have "tn_live (tenancy_of s) (con_id c) = Some u" using contract_found [OF wf c(1)] by (simp add: live_shown)
      then show ?thesis ..
    qed
    show "tn_live (tenancy_of s) c = None" if closed: "c \<in> tn_closed (tenancy_of s)" for c
      using closed closed_is_off(1) by (auto simp: closed_shown live_shown)
  qed
next
  assume ok: "tn_ok (tenancy_of s)"
  have live: "tn_live (tenancy_of s) (con_id c) = Some (con_unitId c)" if "c \<in> set (contracts (base s))" "is_live c" for c
    using that contract_found [OF wf] by (simp add: live_shown)
  have shown: "tn_units (tenancy_of s) (unit_id u) = Some (unit_status u)" if "u \<in> set (units (base s))" for u
    using that unit_found [OF wf] by (simp add: unit_shown)
  show "consistent s"
    unfolding consistent_def
  proof (intro conjI ballI impI)
    show "con_id a = con_id b" if "a \<in> set (contracts (base s))" "b \<in> set (contracts (base s))"
      "is_live a \<and> is_live b \<and> con_unitId a = con_unitId b" for a b
      using that live tn_okD(1) [OF ok] by metis
    show "unit_status u \<notin> {Available, Reserved}" if c: "c \<in> set (contracts (base s))" and u: "u \<in> set (units (base s))"
      and on: "is_started c \<and> con_unitId c = unit_id u" for c u
    proof -
      have "con_id c \<in> tn_started (tenancy_of s)" using c on contract_found [OF wf] by (simp add: started_shown)
      then obtain v where "tn_live (tenancy_of s) (con_id c) = Some v" "tn_units (tenancy_of s) v \<notin> {Some Available, Some Reserved}"
        using tn_okD(2) [OF ok] by blast
      then show ?thesis using live [OF c] shown [OF u] on by (auto simp: is_started_def)
    qed
    show "\<exists>c\<in>set (contracts (base s)). is_live c \<and> con_unitId c = unit_id u"
      if u: "u \<in> set (units (base s))" and occupied: "unit_status u = Occupied" for u
    proof -
      obtain c where "tn_live (tenancy_of s) c = Some (unit_id u)"
        using tn_okD(3) [OF ok, of "unit_id u"] shown [OF u] occupied by auto
      then obtain r where "find_contract (base s) c = Some r" "is_live r" "con_unitId r = unit_id u"
        by (auto simp: live_shown split: option.splits if_splits)
      then show ?thesis using contract_idD by blast
    qed
  qed
qed

end
