(* ===== verification/LettingProperties.thy ===== *)
theory LettingProperties imports Letting Demo
begin

text \<open>
  The properties of the letting side: who is on a unit and what its status says, whatever operations
  follow each other; contracts that are over; what a signature asks and leaves; what the first invoice
  charges.
\<close>

section \<open>Units and contracts\<close>

text \<open>
  A tenant with two units, one of them taken by a draft, to show that the hypotheses below can hold.
\<close>

definition demo_unit :: "id \<Rightarrow> unit_status \<Rightarrow> unit_row" where
  "demo_unit u st = \<lparr>unit_id = u, unit_facilityId = 1, unit_code = ''A'', unit_unitTypeId = 1, unit_housing = False,
     unit_basePrice = 5000, unit_status = st, unit_outOfServiceReason = None, unit_outOfServiceSince = None,
     unit_maintenanceUntil = None\<rparr>"

definition demo_contract :: contract_row where
  "demo_contract = default_contract\<lparr>con_id := 7, con_contractNumber := ''CT-2026-00001'', con_customerId := 3,
     con_unitId := 5, con_status := Con_draft, con_priceMonthly := 5000\<rparr>"

definition demo_letting :: letting where
  "demo_letting =
     \<lparr>base = demo_db0\<lparr>units := [demo_unit 5 Available, demo_unit 6 Available], contracts := [demo_contract], next_id := 8\<rparr>,
      reservations = [], waitlist = [], unit_history = [], contract_events = [], coupons = [], redemptions = [],
      promotions = [], insurance_plans = [], unit_requests = [], change_requests = [], unit_types = [], tasks = [],
      signed_terms = [], signatures = [], letting_events = [],
      settings = \<lparr>set_insuranceFeature = False, set_nextMonthFromDay = None, set_keepSignal = False,
                  set_autoEndContracts = True\<rparr>\<rparr>"

lemma demo_letting_sel [simp]:
  "contracts (base demo_letting) = [demo_contract]"
  "units (base demo_letting) = [demo_unit 5 Available, demo_unit 6 Available]" "reservations demo_letting = []"
  "waitlist demo_letting = []" "unit_history demo_letting = []" "next_id (base demo_letting) = 8"
  "facilities (base demo_letting) = [demo_facility]" "redemptions demo_letting = []"
  by (simp_all add: demo_letting_def demo_db0_def empty_db_def)

lemma demo_rows [simp]:
  "con_id demo_contract = 7" "con_unitId demo_contract = 5" "con_status demo_contract = Con_draft"
  "con_customerId demo_contract = 3" "\<not> con_deleted demo_contract" "con_opening demo_contract = no_opening"
  "sch_unitId (con_scheduled demo_contract) = None"
  "unit_id (demo_unit u st) = u" "unit_status (demo_unit u st) = st" "unit_facilityId (demo_unit u st) = 1"
  by (simp_all add: demo_contract_def demo_unit_def default_contract_def nothing_scheduled_def)

lemma demo_letting_ok: "letting_wf demo_letting" "consistent demo_letting"
  by (simp_all add: letting_wf_def spots_def statuses_def spot_of_def consistent_def is_live_def is_started_def)

definition demo_active :: letting where
  "demo_active = fst (activateImported None None 0 False [7] demo_letting)"

lemma demo_active_step: "letting_step demo_letting demo_active"
  by (rule letting_step.Activate) (simp add: demo_active_def prod_eq_iff)

lemma demo_active_sel:
  "map con_status (contracts (base demo_active)) = [Con_active]"
  "map unit_status (units (base demo_active)) = [Occupied, Available]"
  "history_log demo_active = [(5, Available, Occupied)]"
  by (simp_all add: demo_active_def activateImported_def activate_one_def activate_tx_def findContract_def
      contract_facility_def find_unit_def isFacilityAllowed_def assertFacilityAllowed_def save_contract_def
      one_live_per_unit_def syncUnitStatus_def write_status_def history_log_def Let_def)

text \<open>
  C3: Whatever operations of the letting services follow each other, a unit is let once: two contracts
  in force are on different units; the unit of a contract that has started is neither available nor
  reserved, so it is never offered; and an occupied unit has a contract in force.
\<close>

theorem units_let_once:
  assumes "letting_step\<^sup>*\<^sup>* s s'" and "letting_wf s" and "consistent s"
  shows "(\<forall>a\<in>set (contracts (base s')). \<forall>b\<in>set (contracts (base s')).
            is_live a \<and> is_live b \<and> con_unitId a = con_unitId b \<longrightarrow> con_id a = con_id b) \<and>
    (\<forall>c\<in>set (contracts (base s')). \<forall>u\<in>set (units (base s')).
            is_started c \<and> con_unitId c = unit_id u \<longrightarrow> unit_status u \<notin> {Available, Reserved}) \<and>
    (\<forall>u\<in>set (units (base s')). unit_status u = Occupied \<longrightarrow>
            (\<exists>c\<in>set (contracts (base s')). is_live c \<and> con_unitId c = unit_id u))"
proof -
  have "tn_ok (tenancy_of s')"
    by (rule tenancies.invariant [OF assms(1,2)]) (use assms consistent_iff tn_step_ok in blast)+
  then show ?thesis
    using consistent_iff tenancies.runs [OF assms(1,2)] unfolding consistent_def by blast
qed

lemma units_let_once_witness:
  "letting_step\<^sup>*\<^sup>* demo_letting demo_active \<and> map unit_status (units (base demo_active)) = [Occupied, Available] \<and>
   \<not> (\<exists>a b. contracts (base demo_active) = [a, b])"
proof -
  have run: "letting_step\<^sup>*\<^sup>* demo_letting demo_active" using demo_active_step by blast
  note units_let_once [OF run demo_letting_ok]
  then show ?thesis using run demo_active_sel by auto
qed

text \<open>
  C4: Every operation of the letting services, on the tables as they are, is a sequence of steps of
  the abstract machine of who is on a unit: holding, releasing, entering, starting, moving, leaving, a
  status by hand and the reconciliation of the inventory, each with its condition.
\<close>

theorem letting_implements_tenancy:
  assumes "letting_step s s'" and "letting_wf s"
  shows "tn_step\<^sup>*\<^sup>* (tenancy_of s) (tenancy_of s')"
  using tenancies.simulates [OF assms] by blast

lemma letting_implements_tenancy_witness:
  "tn_step\<^sup>*\<^sup>* (tenancy_of demo_letting) (tenancy_of demo_active) \<and> tenancy_of demo_letting \<noteq> tenancy_of demo_active"
proof -
  have "tn_log (tenancy_of demo_letting) \<noteq> tn_log (tenancy_of demo_active)"
    using demo_active_sel by (simp add: tenancy_of_def history_log_def)
  then show ?thesis using letting_implements_tenancy [OF demo_active_step demo_letting_ok(1)] by auto
qed

text \<open>
  C24: The history of the units explains their statuses: what the operations add to it, applied in
  order to the statuses there were, finds in each entry the status the entry says it changes and ends
  in the statuses there are.
\<close>

theorem history_explains_statuses:
  assumes "letting_step\<^sup>*\<^sup>* s s'" and "letting_wf s"
  shows "\<exists>l. history_log s' = history_log s @ l \<and>
    replay l (\<lambda>u. map_option unit_status (find_unit (base s) u)) = Some (\<lambda>u. map_option unit_status (find_unit (base s') u))"
proof -
  have "explains (tenancy_of s) (tenancy_of s')"
    using tenancies.runs [OF assms] by (intro tn_steps_explain) blast
  moreover have "tn_units (tenancy_of t) = (\<lambda>u. map_option unit_status (find_unit (base t) u))" for t
    by (rule ext) (rule unit_shown)
  ultimately show ?thesis by (simp add: explains_def tenancy_of_def)
qed

lemma history_explains_statuses_witness:
  "\<exists>l. history_log demo_active = l \<and> l = [(5, Available, Occupied)] \<and>
    replay l (\<lambda>u. map_option unit_status (find_unit (base demo_letting) u)) =
      Some (\<lambda>u. map_option unit_status (find_unit (base demo_active) u))"
proof -
  have run: "letting_step\<^sup>*\<^sup>* demo_letting demo_active" using demo_active_step by blast
  have "history_log demo_letting = []" by (simp add: history_log_def)
  then show ?thesis using history_explains_statuses [OF run demo_letting_ok(1)] demo_active_sel(3) by auto
qed

text \<open>
  C25: A contract that is over stays over: once ended or cancelled it is ended or cancelled after
  whatever operations follow, so it never comes back in force.
\<close>

theorem closed_contract_stays_closed:
  assumes "letting_step\<^sup>*\<^sup>* s s'" and "letting_wf s"
    and "c \<in> set (contracts (base s))" and "con_status c \<in> {Con_ended, Con_cancelled}"
  shows "\<exists>c'\<in>set (contracts (base s')). con_id c' = con_id c \<and> con_status c' \<in> {Con_ended, Con_cancelled}"
proof -
  have "con_id c \<in> tn_closed (tenancy_of s)"
    using assms(3,4) contract_found [OF assms(2)] by (simp add: closed_shown is_closed_def)
  then have "con_id c \<in> tn_closed (tenancy_of s')"
    using tenancies.runs [OF assms(1,2)] tn_steps_closed by blast
  then show ?thesis using contract_idD by (auto simp: closed_shown is_closed_def)
qed

definition demo_void :: letting where
  "demo_void = (case cancel_contract demo_env None 7 None ''error'' demo_letting of Inr s \<Rightarrow> s | Inl _ \<Rightarrow> demo_letting)"

lemma demo_void_sel:
  "cancel_contract demo_env None 7 None ''error'' demo_letting = Inr demo_void"
  "map (\<lambda>c. (con_id c, con_status c)) (contracts (base demo_void)) = [(7, Con_cancelled)]"
  by (simp_all add: demo_void_def cancel_contract_def cancel_contract_from_def cancel_tx_def findContract_def
      contract_facility_def find_unit_def isFacilityAllowed_def assertFacilityAllowed_def assertContractTransition_def
      unit_row_of_def releasable_def kept_by_contract_def releaseScheduledUnit_def cancelScheduledDunning_def
      releaseForContractInTx_def emitScheduledUnitFreed_def Let_def)

lemma closed_contract_stays_closed_witness:
  "\<exists>c\<in>set (contracts (base (autoEndDue demo_env demo_void))). con_id c = 7 \<and> con_status c \<in> {Con_ended, Con_cancelled}"
proof -
  have step: "letting_step demo_letting demo_void" by (rule letting_step.Cancel_contract [OF demo_void_sel(1)])
  then have wf: "letting_wf demo_void" using tenancies.simulates demo_letting_ok(1) by blast
  have run: "letting_step\<^sup>*\<^sup>* demo_void (autoEndDue demo_env demo_void)" using letting_step.End_due by blast
  obtain c where "contracts (base demo_void) = [c]" "con_status c = Con_cancelled" "con_id c = 7"
    using demo_void_sel(2) by auto
  then show ?thesis using closed_contract_stays_closed [OF run wf, of c] by simp
qed

section \<open>Signing\<close>

lemma reservations_after [simp]:
  "reservations (notify_staff k s) = reservations s" "reservations (s\<lparr>base := d\<rparr>) = reservations s"
  "reservations (s\<lparr>redemptions := rs\<rparr>) = reservations s"
  by (simp_all add: notify_staff_def)

lemma issue_first_invoice_reservations:
  "issue_first_invoice e sr c customer s = (s', x) \<Longrightarrow> reservations s' = reservations s"
  by (auto simp: issue_first_invoice_def Let_def split: prod.splits sum.splits)

lemma issueIfMissing_reservations: "reservations (issueIfMissing e c cu s) = reservations s"
  by (auto simp: issueIfMissing_def dest: issue_first_invoice_reservations split: option.splits prod.splits sum.splits)

lemma sign_from_reservations:
  "sign_from e compose digest r a s = Inr s' \<Longrightarrow>
   \<exists>s1. con_status r = Con_draft \<and> sign_tx e compose digest r a s = Inr s1 \<and> quiet s1 s' \<and>
     reservations s' = reservations s1"
  by (auto simp: sign_from_def Let_def issueIfMissing_quiet issueIfMissing_reservations
      assertContractTransition_def to_active elim!: bindrE)

text \<open>The live reservations of the unit, once all are of the signing customer, are what a signature converts.\<close>

lemma convert_own_rows:
  assumes "\<forall>x\<in>set (live_on s (con_unitId r)). res_customerId x = Some (con_customerId r)"
  shows "reservations (convert_own r s) = map (\<lambda>x. if res_unitId x = con_unitId r \<and> held_status x
    then x\<lparr>res_status := Res_converted, res_convertedContractId := Some (con_id r)\<rparr> else x) (reservations s)"
  using assms unfolding convert_own_def update_many_def
  by (auto simp: live_on_def held_status_def)

text \<open>
  C5: A signature respects who holds the unit: it succeeds only for a draft, on a unit that is
  available or reserved and that no live reservation of somebody else nor, when it is reserved, any
  other holder keeps; it leaves the contract in force on the unit, the unit occupied (or reserved, before
  the facility opens) and no live reservation of the unit: the rows of the reservations are as they
  were, except that each live one of the unit, all of the customer, is now converted into this contract.
\<close>

theorem signature_respects_holds:
  assumes wf: "letting_wf s" and run: "sign e compose digest scope c a s = Inr s'"
  shows "\<exists>r u r' u'. find_contract (base s) c = Some r \<and> con_status r = Con_draft \<and>
    find_unit (base s) (con_unitId r) = Some u \<and> unit_status u \<in> {Available, Reserved} \<and>
    (\<forall>x\<in>set (reservations s). res_unitId x = con_unitId r \<and> held_status x \<longrightarrow>
       res_customerId x = Some (con_customerId r)) \<and>
    (unit_status u = Reserved \<longrightarrow> \<not> unitHeldByOther e s ((hold_of (con_unitId r))\<lparr>ha_contractId := Some c,
       ha_customerId := Some (con_customerId r)\<rparr>)) \<and>
    find_contract (base s') c = Some r' \<and> is_live r' \<and> con_unitId r' = con_unitId r \<and>
    find_unit (base s') (con_unitId r) = Some u' \<and>
    unit_status u' = (if isPendingPreOpening r then Reserved else Occupied) \<and>
    (\<forall>x\<in>set (reservations s'). res_unitId x = con_unitId r \<longrightarrow> \<not> held_status x) \<and>
    reservations s' = map (\<lambda>x. if res_unitId x = con_unitId r \<and> held_status x
      then x\<lparr>res_status := Res_converted, res_convertedContractId := Some c\<rparr> else x) (reservations s)"
proof -
  obtain r s1 where ex: "findContract s scope c = Inr r" and draft: "con_status r = Con_draft"
    and tx: "sign_tx e compose digest r a s = Inr s1" and q: "quiet s1 s'" and res: "reservations s' = reservations s1"
    using run unfolding sign_def by (blast elim!: bindrE dest: sign_from_reservations)
  note row = findContract_row [OF wf ex]
  obtain u where chk: "sign_checks e r s = Inr u" by (rule sign_tx_parts [OF tx])
  note u = sign_checks_unit [OF chk]
  have r: "find_contract (base s) (con_id r) = Some r" using row by simp
  note view = sign_tx_view [OF tx wf r draft row(2) chk]
  let ?new = "if isPendingPreOpening r then Reserved else Occupied"
  have t': "tenancy_of s' = sync (con_unitId r) (unit_status u) ?new
      (enter c (con_unitId r) (\<not> isPendingPreOpening r) (tenancy_of s))"
    using view(3) quiet_view(1) [OF q] row(3) by simp
  have on: "tn_units (tenancy_of s) (con_unitId r) = Some (unit_status u)" using u by (simp add: unit_shown)
  have "tn_live (tenancy_of s') c = Some (con_unitId r)" and "tn_units (tenancy_of s') (con_unitId r) = Some ?new"
    using on by (simp_all add: t')
  then obtain r' u' where "find_contract (base s') c = Some r'" "is_live r'" "con_unitId r' = con_unitId r"
    and "find_unit (base s') (con_unitId r) = Some u'" "unit_status u' = ?new"
    by (auto simp: live_shown unit_shown split: option.splits if_splits)
  moreover have rows: "reservations s' = map (\<lambda>x. if res_unitId x = con_unitId r \<and> held_status x
      then x\<lparr>res_status := Res_converted, res_convertedContractId := Some c\<rparr> else x) (reservations s)"
    using convert_own_rows [of s r] u view(2) res row(3) by simp
  moreover have "\<forall>x\<in>set (reservations s'). res_unitId x = con_unitId r \<longrightarrow> \<not> held_status x"
    by (auto simp: rows held_status_def)
  moreover have "\<forall>x\<in>set (reservations s). res_unitId x = con_unitId r \<and> held_status x \<longrightarrow>
      res_customerId x = Some (con_customerId r)"
    using u by (auto simp: live_on_def held_status_def)
  ultimately show ?thesis using row draft u by blast
qed

definition demo_request :: sign_request where
  "demo_request = \<lparr>sg_userId = None, sg_signature = True, sg_deferAccessUntilPaid = False, sg_expectedTermsHash = None\<rparr>"

lemma demo_signed: "\<exists>s'. sign demo_env (\<lambda>_ _. ''terms'') id None 7 demo_request demo_letting = Inr s'"
  by (simp add: sign_def sign_from_def sign_tx_def findContract_def contract_facility_def find_unit_def
      isFacilityAllowed_def assertFacilityAllowed_def assertContractTransition_def sign_checks_def facility_of_unit_def
      find_facility_def live_on_def opening_day_def isPendingPreOpening_def no_opening_def save_contract_def
      signed_fields_def convert_own_def one_live_per_unit_def demo_request_def as_conflict_def Let_def)

lemma signature_respects_holds_witness:
  "\<exists>s' r'. sign demo_env (\<lambda>_ _. ''terms'') id None 7 demo_request demo_letting = Inr s' \<and>
     find_contract (base s') 7 = Some r' \<and> is_live r' \<and> con_unitId r' = 5"
proof -
  obtain s' where run: "sign demo_env (\<lambda>_ _. ''terms'') id None 7 demo_request demo_letting = Inr s'"
    using demo_signed by blast
  have "find_contract (base demo_letting) 7 = Some demo_contract" by (simp add: find_contract_def)
  then show ?thesis using signature_respects_holds [OF demo_letting_ok(1) run] run by force
qed

section \<open>The first invoice and the balance of the contract\<close>

text \<open>The rent the lines of the first invoice charge, line by line, in cents.\<close>

definition rent_parts :: "letting \<Rightarrow> contract_row \<Rightarrow> redemption_row option \<Rightarrow> cents list" where
  "rent_parts s c coupon =
     (let month = month_cents c; months = first_payment_months c;
          plan = firstMonthPlan (con_startDate c) (set_nextMonthFromDay (settings s)) in
      if isPendingPreOpening c
      then [month - (case coupon of None \<Rightarrow> 0 | Some u \<Rightarrow> min (red_discountAmount u) month)]
      else if 1 < con_billingIntervalMonths c \<or> 1 < months \<or> coupon \<noteq> None
      then (case coupon of
              Some u \<Rightarrow> (if 0 < red_freeMonths u then [month * (months - min (red_freeMonths u) (months - 1))]
                         else [month * months - min (red_discountAmount u) (month * months)])
            | None \<Rightarrow> [math_round (nmul (of_int (month * months))
                (nsub 1 (ndiv (if 1 < con_billingIntervalMonths c then con_prepayDiscountPct c else 0) 100)))])
      else fmc_firstMonth (firstMonthCents month plan) #
           (if fmp_includesNextMonth plan then [fmc_nextMonth (firstMonthCents month plan)] else []))"

lemma ndiv_euros: "ndiv (of_int n) 100 = euros n"
  by (simp add: euros_def)

lemma rent_line_cents_line:
  "\<bar>n\<bar> \<le> 100000000000000 \<Longrightarrow> rent_line_cents (rent_line c h from until what 1 (euros n)) = n"
  by (simp add: rent_line_cents_def rent_line_def toCents_euros)

lemma rent_lines_charge:
  assumes small: "\<forall>k\<in>set (rent_parts s c coupon). \<bar>k\<bar> \<le> 100000000000000"
    and f_def: "f = first_invoice_lines s c h coupon"
  shows "map rent_line_cents (take (fst_rentLineCount f) (fst_items f)) = rent_parts s c coupon"
proof -
  consider (pending) "isPendingPreOpening c"
    | (months) "\<not> isPendingPreOpening c" "1 < con_billingIntervalMonths c \<or> 1 < first_payment_months c \<or> coupon \<noteq> None"
    | (monthly) "\<not> isPendingPreOpening c" "\<not> (1 < con_billingIntervalMonths c \<or> 1 < first_payment_months c \<or> coupon \<noteq> None)"
    by blast
  then show ?thesis
  proof cases
    case pending
    then show ?thesis using small
      by (simp add: f_def first_invoice_lines_def opening_lines_def rent_parts_def Let_def rent_line_cents_def rent_line_def toCents_euros)
  next
    case months
    then show ?thesis using small
      by (cases coupon) (auto simp: f_def first_invoice_lines_def months_lines_def months_rent_def rent_parts_def Let_def
          ndiv_euros rent_line_cents_line)
  next
    case monthly
    then show ?thesis using small
      by (auto simp: f_def first_invoice_lines_def monthly_lines_def rent_parts_def Let_def
          rent_line_cents_line firstMonthPlan_def split: option.splits)
  qed
qed

lemma rent_line_cents_taken:
  "\<bar>n\<bar> \<le> 100000000000000 \<Longrightarrow> rent_line_cents (l\<lparr>ii_unitPrice := euros n, ii_quantity := 1, ii_description := t\<rparr>) = n"
  by (simp add: rent_line_cents_def toCents_euros)

lemma take_off_sum:
  assumes "\<forall>l\<in>set ls. 0 \<le> rent_line_cents l \<and> rent_line_cents l \<le> 100000000000000"
    and "0 \<le> k" and "k \<le> sum_list (map rent_line_cents ls)"
  shows "sum_list (map rent_line_cents (take_off why k ls)) + k = sum_list (map rent_line_cents ls) \<and>
    (\<forall>l\<in>set (take_off why k ls). 0 \<le> rent_line_cents l) \<and> length (take_off why k ls) = length ls"
  using assms
proof (induction ls arbitrary: k)
  case (Cons l ls)
  show ?case
  proof (cases "k = 0")
    case False
    let ?n = "rent_line_cents l" and ?m = "min (rent_line_cents l) k"
    have n: "0 \<le> ?n" "?n \<le> 100000000000000" using Cons.prems(1) by simp_all
    have first: "rent_line_cents (l\<lparr>ii_unitPrice := euros (?n - ?m), ii_quantity := 1, ii_description := t\<rparr>) = ?n - ?m" for t
      using n Cons.prems(2) by (intro rent_line_cents_taken) linarith
    have "0 \<le> sum_list (map rent_line_cents ls)" using Cons.prems(1) by (intro sum_list_nonneg) auto
    then have "k - ?m \<le> sum_list (map rent_line_cents ls)" and "0 \<le> k - ?m" using Cons.prems(2,3) n by simp_all
    then show ?thesis
      using Cons.IH [of "k - ?m"] Cons.prems False first by (simp add: Let_def)
  qed (use Cons.prems in auto)
qed simp

lemma claimed_amount:
  assumes "claimContractCredit i rent d = (d1, k)" and "find_contract d i = Some r" and "0 \<le> con_pendingCredit r" and "0 \<le> rent"
  shows "clc_cents k = min (con_pendingCredit r) rent"
    and "\<exists>r'. find_contract d1 i = Some r' \<and> con_pendingCredit r' = con_pendingCredit r - clc_cents k"
proof -
  show "clc_cents k = min (con_pendingCredit r) rent"
    using assms by (auto simp: claimContractCredit_def Let_def no_credit_def split: if_splits)
  show "\<exists>r'. find_contract d1 i = Some r' \<and> con_pendingCredit r' = con_pendingCredit r - clc_cents k"
    using assms find_first_update_many_key [where k = con_id and i = i and rows = "contracts d"]
    by (auto simp: claimContractCredit_def Let_def no_credit_def find_contract_def split: if_splits)
qed

text \<open>
  C6: The first invoice charges the rent once: its rent lines are, to the cent, the parts of the rent
  due (the prorated month of entry and the next one, the months paid in advance less the coupon or the
  discount for prepaying, or the first month of a facility still to open); what is taken off them is
  exactly what leaves the balance of the contract, never more than the rent nor than the balance, and
  no line becomes negative.
\<close>

theorem first_invoice_charges_rent:
  assumes "find_contract d (con_id c) = Some r" and "0 \<le> con_pendingCredit r"
    and "\<forall>k\<in>set (rent_parts s c coupon). 0 \<le> k \<and> k \<le> 100000000000000"
    and f: "f = first_invoice_lines s c h coupon"
    and claim: "claimContractCredit (con_id c) (sum_list (rent_parts s c coupon)) d = (d1, k)"
  shows "map rent_line_cents (take (fst_rentLineCount f) (fst_items f)) = rent_parts s c coupon \<and>
    sum_list (map rent_line_cents (take (fst_rentLineCount f) (with_credit k f))) + clc_cents k = sum_list (rent_parts s c coupon) \<and>
    clc_cents k = min (con_pendingCredit r) (sum_list (rent_parts s c coupon)) \<and>
    (\<forall>l\<in>set (take (fst_rentLineCount f) (with_credit k f)). 0 \<le> rent_line_cents l) \<and>
    (\<exists>r'. find_contract d1 (con_id c) = Some r' \<and> con_pendingCredit r' = con_pendingCredit r - clc_cents k)"
proof -
  let ?ls = "take (fst_rentLineCount f) (fst_items f)" and ?rent = "sum_list (rent_parts s c coupon)"
  have parts: "map rent_line_cents ?ls = rent_parts s c coupon"
    using assms(3) by (intro rent_lines_charge [OF _ f]) fastforce
  have rent: "0 \<le> ?rent" using assms(3) by (intro sum_list_nonneg) blast
  note k = claimed_amount [OF claim assms(1,2) rent]
  have lines: "\<forall>l\<in>set ?ls. 0 \<le> rent_line_cents l \<and> rent_line_cents l \<le> 100000000000000"
  proof
    fix l assume "l \<in> set ?ls"
    then have "rent_line_cents l \<in> set (map rent_line_cents ?ls)" by simp
    then show "0 \<le> rent_line_cents l \<and> rent_line_cents l \<le> 100000000000000" unfolding parts using assms(3) by blast
  qed
  have "0 \<le> clc_cents k" and "clc_cents k \<le> sum_list (map rent_line_cents ?ls)"
    using k(1) assms(2) rent by (simp_all add: parts)
  note off = take_off_sum [OF lines this, of "clc_reason k"]
  have "take (fst_rentLineCount f) (with_credit k f) = take_off (clc_reason k) (clc_cents k) ?ls"
    using off nat_le_linear [of "fst_rentLineCount f" "length (fst_items f)"] by (auto simp: with_credit_def)
  then show ?thesis using parts off k by simp
qed

definition demo_credit_contract :: contract_row where
  "demo_credit_contract = demo_contract\<lparr>con_firstPaymentMonths := 3, con_pendingCredit := 2000\<rparr>"

definition demo_use :: redemption_row where
  "demo_use = \<lparr>red_id = 9, red_couponId = 8, red_customerId = Some 3, red_contractId = Some 7, red_invoiceId = None,
     red_months = 3, red_discountAmount = 5000, red_freeMonths = 1\<rparr>"

lemma demo_month_cents: "month_cents demo_credit_contract = 5000"
proof -
  have "nsub (euros 5000) (euros 0) = euros 5000" by code_simp
  moreover have "con_priceMonthly demo_credit_contract = 5000" "con_discountAmount demo_credit_contract = 0"
    by (simp_all add: demo_credit_contract_def demo_contract_def default_contract_def)
  ultimately show ?thesis by (simp add: month_cents_def toCents_euros)
qed

lemma demo_rent_parts: "rent_parts demo_letting demo_credit_contract (Some demo_use) = [10000]"
  by (simp add: rent_parts_def demo_month_cents isPendingPreOpening_def first_payment_months_def Let_def)
    (simp add: demo_credit_contract_def demo_use_def no_opening_def demo_contract_def default_contract_def)

lemma first_invoice_charges_rent_witness:
  "let d = (base demo_letting)\<lparr>contracts := [demo_credit_contract]\<rparr>;
       f = first_invoice_lines demo_letting demo_credit_contract False (Some demo_use);
       k = snd (claimContractCredit 7 10000 d)
   in clc_cents k = 2000 \<and> sum_list (map rent_line_cents (take (fst_rentLineCount f) (with_credit k f))) = 8000"
proof -
  let ?d = "(base demo_letting)\<lparr>contracts := [demo_credit_contract]\<rparr>"
  obtain d1 k where claim: "claimContractCredit 7 10000 ?d = (d1, k)" by force
  have key: "con_id demo_credit_contract = 7" and credit: "con_pendingCredit demo_credit_contract = 2000"
    by (simp_all add: demo_credit_contract_def)
  have row: "find_contract ?d (con_id demo_credit_contract) = Some demo_credit_contract"
    by (simp add: find_contract_def demo_credit_contract_def demo_contract_def default_contract_def)
  have "0 \<le> con_pendingCredit demo_credit_contract" by (simp add: credit)
  from first_invoice_charges_rent [OF row this, of demo_letting "Some demo_use" _ False d1 k]
  show ?thesis by (simp add: demo_rent_parts key credit claim Let_def)
qed

end
