(* ===== verification/EndingProperties.thy ===== *)
theory EndingProperties imports LettingProperties
begin

text \<open>
  The properties of what comes at the end of a contract or a reservation: a deposit is settled once and
  the money it retains is accounted for, a move-out called off leaves the contract as it was, a signal
  is credited once, and the hourly job leaves no reservation past its time.
\<close>

section \<open>Deposits\<close>

lemma markPaidManually_writes:
  "markPaidManually e scope i a d = Inr d' \<Longrightarrow>
   contracts d' = contracts d \<and> sum_list (map pay_amount (payments d')) = sum_list (map pay_amount (payments d)) + mp_amount a"
  by (auto simp: markPaidManually_def mark_paid_tx_def Let_def bindr_eq_Inr create_payment_def create_row_def
      manual_payment_row_def update_invoice_def update_contract_def)

lemma pay_with_retained_spent:
  "pay_with_retained e rs funds k d = (d', Inr k') \<Longrightarrow> 0 \<le> funds \<Longrightarrow>
   contracts d' = contracts d \<and> k \<le> k' \<and> k' \<le> k + funds \<and>
   sum_list (map pay_amount (payments d')) = sum_list (map pay_amount (payments d)) + (k' - k)"
proof (induction e rs funds k d rule: pay_with_retained.induct)
  case (2 e r rs funds applied d)
  let ?pay = "min (inv_total r - inv_amountPaid r) funds"
  show ?case
  proof (cases "funds \<le> 0 \<or> ?pay \<le> 0")
    case True
    then show ?thesis using 2 by (auto simp: Let_def split: if_splits)
  next
    case False
    then obtain d1 where step: "markPaidManually e None (inv_id r) (retained_payment ?pay) d = Inr d1"
      and rest: "pay_with_retained e rs (funds - ?pay) (applied + ?pay) d1 = (d', Inr k')"
      using "2.prems"(1) by (auto simp: Let_def split: sum.splits)
    have "contracts d' = contracts d1 \<and> applied + ?pay \<le> k' \<and> k' \<le> applied + ?pay + (funds - ?pay) \<and>
        sum_list (map pay_amount (payments d')) = sum_list (map pay_amount (payments d1)) + (k' - (applied + ?pay))"
      using "2.IH"(2) [OF _ _ _ step rest] False by simp
    then show ?thesis using markPaidManually_writes [OF step] False by (simp add: retained_payment_def)
  qed
qed simp

lemma settle_tx_writes:
  assumes "settle_tx e r who i s = Inr s1" and "find_contract (base s) (con_id r) = Some r"
  shows "dep_status (con_deposit r) = Dep_held \<Longrightarrow> find_contract (base s1) (con_id r) = Some (settled_fields e r i r)"
    and "\<forall>x\<in>set (contracts (base s1)). con_id x = con_id r \<longrightarrow> dep_status (con_deposit x) \<noteq> Dep_held"
    and "payments (base s1) = payments (base s)" and "invoices (base s1) = invoices (base s)"
proof -
  let ?hit = "\<lambda>x. con_id x = con_id r \<and> dep_status (con_deposit x) = Dep_held"
  have rows: "contracts (base s1) = update_many ?hit (settled_fields e r i) (contracts (base s))"
    and rest: "payments (base s1) = payments (base s)" "invoices (base s1) = invoices (base s)"
    using assms(1) by (auto simp: settle_tx_def Let_def bindr_eq_Inr)
  show "payments (base s1) = payments (base s)" "invoices (base s1) = invoices (base s)" by (fact rest)+
  have sf: "con_id (settled_fields e r i x) = con_id x"
    "dep_status (con_deposit (settled_fields e r i x)) \<noteq> Dep_held" for x
    by (simp_all add: settled_fields_def Let_def)
  show "\<forall>x\<in>set (contracts (base s1)). con_id x = con_id r \<longrightarrow> dep_status (con_deposit x) \<noteq> Dep_held"
    unfolding rows by (auto simp: sf elim!: in_update_manyE split: if_splits)
  have "find_first (\<lambda>x. con_id x = con_id r) rows = Some r \<Longrightarrow> dep_status (con_deposit r) = Dep_held \<Longrightarrow>
      find_first (\<lambda>x. con_id x = con_id r) (update_many ?hit (settled_fields e r i) rows) = Some (settled_fields e r i r)" for rows
    by (induction rows) (auto simp: sf split: if_splits)
  then show "dep_status (con_deposit r) = Dep_held \<Longrightarrow> find_contract (base s1) (con_id r) = Some (settled_fields e r i r)"
    using assms(2) by (simp add: find_contract_def rows)
qed

lemma settled_twice:
  assumes "\<forall>x\<in>set (contracts (base s)). con_id x = con_id r \<longrightarrow> dep_status (con_deposit x) \<noteq> Dep_held"
  shows "settle_tx e r who i s = Inl (ConflictException ''deposit_already_settled'')"
proof -
  have "count_rows (\<lambda>x. con_id x = con_id r \<and> dep_status (con_deposit x) = Dep_held) (contracts (base s)) = 0"
    using assms by (auto simp: count_rows_def)
  then show ?thesis by (simp add: settle_tx_def Let_def)
qed

lemma settle_from_parts:
  assumes "settle_from e r who i s = (s', Inr ())"
  obtains s1 k s3 where "settle_checks s r i = Inr ()" and "settle_tx e r who i s = Inr s1"
    and "(if stl_applyToInvoices i
          then applyRetainedDeposit e (con_id r) (dep_amount (con_deposit r) - stl_returned i)
                 (write_audit ''contract.deposit_settled'' (con_id r) s1)
          else (write_audit ''contract.deposit_settled'' (con_id r) s1, Inr 0)) = (s3, Inr k)"
    and "base s' = base s3"
  using assms by (auto simp: settle_from_def Let_def split: sum.splits prod.splits if_splits elim!: bindrE)

lemma applied_writes:
  assumes "applyRetainedDeposit e c retained s = (s', Inr k)" and "0 \<le> retained"
  shows "0 \<le> k \<and> k \<le> retained \<and>
    sum_list (map pay_amount (payments (base s'))) = sum_list (map pay_amount (payments (base s))) + k \<and>
    contracts (base s') = (if 0 < k
      then update_many (\<lambda>r. con_id r = c) (\<lambda>r. r\<lparr>con_deposit := (con_deposit r)\<lparr>dep_appliedAmount := k\<rparr>\<rparr>) (contracts (base s))
      else contracts (base s))"
  using assms
  by (auto simp: applyRetainedDeposit_def update_contract_def split: prod.splits sum.splits if_splits
      dest!: pay_with_retained_spent)

text \<open>
  C23: A deposit is settled once: a settlement that goes through found it held, gives back at most what
  was paid in and says why when it gives back less; afterwards the contract carries the amount given
  back and is no longer held; what is applied to the open invoices of the contract is never more than
  what was retained, and is to the cent the sum of the payments recorded; and any other settlement of
  the contract, from whatever it read before, is refused.
\<close>

theorem deposit_settled_once:
  assumes wf: "letting_wf s" and run: "settleDeposit e scope c who i s = (s', Inr ())"
  shows "\<exists>r r'. find_contract (base s) c = Some r \<and> dep_status (con_deposit r) = Dep_held \<and>
    0 \<le> stl_returned i \<and> stl_returned i \<le> dep_amount (con_deposit r) \<and>
    (stl_returned i < dep_amount (con_deposit r) \<longrightarrow> \<not> blank (stl_reason i)) \<and>
    find_contract (base s') c = Some r' \<and>
    dep_status (con_deposit r') = (if stl_returned i = dep_amount (con_deposit r) then Dep_returned else Dep_partially_returned) \<and>
    dep_returnedAmount (con_deposit r') = stl_returned i \<and>
    (\<exists>k. 0 \<le> k \<and> k \<le> dep_amount (con_deposit r) - stl_returned i \<and>
       sum_list (map pay_amount (payments (base s'))) = sum_list (map pay_amount (payments (base s))) + k \<and>
       (0 < k \<longrightarrow> dep_appliedAmount (con_deposit r') = k)) \<and>
    (\<forall>e2 x who2 i2. con_id x = c \<longrightarrow> settle_tx e2 x who2 i2 s' = Inl (ConflictException ''deposit_already_settled''))"
proof -
  obtain r where ex: "findContract s scope c = Inr r" and settled: "settle_from e r who i s = (s', Inr ())"
    using run by (auto simp: settleDeposit_def split: sum.splits)
  note row = findContract_row [OF wf ex]
  obtain s1 k s3 where checks: "settle_checks s r i = Inr ()" and tx: "settle_tx e r who i s = Inr s1"
    and app: "(if stl_applyToInvoices i
          then applyRetainedDeposit e (con_id r) (dep_amount (con_deposit r) - stl_returned i)
                 (write_audit ''contract.deposit_settled'' (con_id r) s1)
          else (write_audit ''contract.deposit_settled'' (con_id r) s1, Inr 0)) = (s3, Inr k)"
    and s': "base s' = base s3"
    by (rule settle_from_parts [OF settled])
  have held: "dep_status (con_deposit r) = Dep_held"
    and amounts: "0 \<le> stl_returned i" "stl_returned i \<le> dep_amount (con_deposit r)"
      "stl_returned i < dep_amount (con_deposit r) \<longrightarrow> \<not> blank (stl_reason i)"
    using checks by (auto simp: settle_checks_def Let_def bindr_eq_Inr)
  have r: "find_contract (base s) (con_id r) = Some r" using row by simp
  note w = settle_tx_writes [OF tx r]
  let ?f = "\<lambda>r. r\<lparr>con_deposit := (con_deposit r)\<lparr>dep_appliedAmount := k\<rparr>\<rparr>"
  have k: "0 \<le> k \<and> k \<le> dep_amount (con_deposit r) - stl_returned i \<and>
      sum_list (map pay_amount (payments (base s3))) = sum_list (map pay_amount (payments (base s1))) + k \<and>
      contracts (base s3) = (if 0 < k then update_many (\<lambda>x. con_id x = con_id r) ?f (contracts (base s1)) else contracts (base s1))"
    using app amounts applied_writes [of e "con_id r" "dep_amount (con_deposit r) - stl_returned i" _ s3 k]
    by (auto split: if_splits)
  define r' where "r' = (if 0 < k then ?f (settled_fields e r i r) else settled_fields e r i r)"
  have found: "find_contract (base s3) (con_id r) = Some r'"
    using k w(1) [OF held] find_first_update_many_key [where k = con_id and i = "con_id r" and f = ?f and rows = "contracts (base s1)"]
    by (auto simp: find_contract_def r'_def)
  have none: "\<forall>x\<in>set (contracts (base s')). con_id x = con_id r \<longrightarrow> dep_status (con_deposit x) \<noteq> Dep_held"
    using k w(2) s' by (auto elim!: in_update_manyE split: if_splits)
  have again: "\<forall>e2 x who2 i2. con_id x = c \<longrightarrow> settle_tx e2 x who2 i2 s' = Inl (ConflictException ''deposit_already_settled'')"
    using settled_twice none row(3) by simp
  have fields: "dep_status (con_deposit r') = (if stl_returned i = dep_amount (con_deposit r) then Dep_returned else Dep_partially_returned)"
    "dep_returnedAmount (con_deposit r') = stl_returned i" "0 < k \<longrightarrow> dep_appliedAmount (con_deposit r') = k"
    using amounts(2) by (simp_all add: r'_def settled_fields_def Let_def)
  have paid: "\<exists>k. 0 \<le> k \<and> k \<le> dep_amount (con_deposit r) - stl_returned i \<and>
      sum_list (map pay_amount (payments (base s'))) = sum_list (map pay_amount (payments (base s))) + k \<and>
      (0 < k \<longrightarrow> dep_appliedAmount (con_deposit r') = k)"
    using k fields(3) w(3) s' by metis
  have found': "find_contract (base s') c = Some r'" using found s' row(3) by simp
  show ?thesis
    by (rule exI [of _ r], rule exI [of _ r'], intro conjI)
      (rule row(1) held amounts found' fields(1,2) paid again)+
qed

definition demo_held :: letting where
  "demo_held = over_base (\<lambda>d. d\<lparr>contracts := [demo_contract\<lparr>con_status := Con_ended, con_deposit :=
     (con_deposit demo_contract)\<lparr>dep_amount := 10000, dep_status := Dep_held\<rparr>\<rparr>]\<rparr>) demo_letting"

definition demo_settle :: settle_input where
  "demo_settle = \<lparr>stl_returned = 4000, stl_reason = Some ''Limpieza'', stl_applyToInvoices = False, stl_method = None,
     stl_returnedOn = None, stl_reference = None, stl_notifyCustomer = False, stl_closeUncollected = True\<rparr>"

lemma demo_reason: "blank (Some ''Limpieza'') \<longleftrightarrow> False"
  by code_simp

lemma demo_settle_runs: "\<exists>s'. settleDeposit demo_env None 7 None demo_settle demo_held = (s', Inr ())"
  by (simp add: settleDeposit_def settle_from_def settle_checks_def settle_tx_def findContract_def contract_facility_def
      find_unit_def isFacilityAllowed_def assertFacilityAllowed_def demo_held_def demo_settle_def count_rows_def
      demo_reason Let_def)

lemma deposit_settled_once_witness:
  "\<exists>s' r'. settleDeposit demo_env None 7 None demo_settle demo_held = (s', Inr ()) \<and>
     find_contract (base s') 7 = Some r' \<and> dep_status (con_deposit r') = Dep_partially_returned \<and>
     dep_returnedAmount (con_deposit r') = 4000"
proof -
  obtain s' where run: "settleDeposit demo_env None 7 None demo_settle demo_held = (s', Inr ())"
    using demo_settle_runs by blast
  have wf: "letting_wf demo_held"
    by (simp add: demo_held_def letting_wf_def spots_def statuses_def spot_of_def)
  have "find_contract (base demo_held) 7 = Some r \<Longrightarrow> dep_amount (con_deposit r) = 10000" for r
    by (auto simp: demo_held_def find_contract_def)
  with deposit_settled_once [OF wf run] run show ?thesis by (fastforce simp: demo_settle_def)
qed

section \<open>A move-out called off\<close>

lemma end_date_restored: "(\<forall>d. b = Some d \<longrightarrow> todayInTimezone off t \<le> d) \<Longrightarrow> endDateAfterCancellingMoveOut off b t = b"
  by (simp add: endDateAfterCancellingMoveOut_def split: option.split)

lemma change_contract_find:
  assumes "\<And>r. con_id (f r) = con_id r"
  shows "find_contract (update_contract i f d) i = map_option f (find_contract d i)"
  using find_first_update_many_key [where k = con_id, OF assms] by (simp add: find_contract_def)

lemma customer_contract_row:
  assumes "letting_wf s" and "contract_of_customer s cu i = Inr r"
  shows "find_contract (base s) i = Some r" and "con_id r = i"
proof -
  have "find_first (\<lambda>c. con_id c = i \<and> (con_customerId c = cu \<and> \<not> con_deleted c)) (contracts (base s)) = Some r"
    using assms(2) by (auto simp: contract_of_customer_def)
  then show "find_contract (base s) i = Some r" by (rule contract_found_by [OF assms(1)])
  then show "con_id r = i" using contract_idD by blast
qed

lemma requestEnd_row:
  assumes wf: "letting_wf s" and run: "requestEndByCustomer e cu i day s = Inr s1"
  shows "\<exists>r. find_contract (base s) i = Some r \<and> con_status r = Con_active \<and>
    find_contract (base s1) i = Some (r\<lparr>con_status := Con_ending, con_endDate := Some day,
      con_endingRequestedAt := Some (now e), con_endDateBeforeEnding := con_endDate r\<rparr>)"
proof -
  obtain r where own: "contract_of_customer s cu i = Inr r" and act: "con_status r = Con_active"
    and s1: "s1 = tell (Move_out_requested i) (add_event i Ce_ending_requested (End_date (Some day)) None
         (change_contract i (\<lambda>c. c\<lparr>con_status := Con_ending, con_endDate := Some day,
            con_endingRequestedAt := Some (now e), con_endDateBeforeEnding := con_endDate r\<rparr>) s))"
    using run by (auto simp: requestEndByCustomer_def bindr_eq_Inr)
  note row = customer_contract_row [OF wf own]
  show ?thesis using row act by (intro exI [of _ r]) (simp add: s1 change_contract_find)
qed

lemma cancelMoveOut_row:
  assumes wf: "letting_wf s" and run: "cancelMoveOutByCustomer e cu i s = Inr s1" and row: "find_contract (base s) i = Some r"
  shows "find_contract (base s1) i = Some (r\<lparr>con_status := Con_active,
      con_endDate := endDateAfterCancellingMoveOut (tz_offset e) (con_endDateBeforeEnding r) (now e),
      con_endDateBeforeEnding := None, con_endingRequestedAt := None\<rparr>)"
proof -
  obtain x where own: "contract_of_customer s cu i = Inr x"
    and s1: "s1 = tell (Move_out_cancelled i)
       (add_event i Ce_resumed (Said ''move_out_cancelled'') None
         (change_contract i (\<lambda>c. c\<lparr>con_status := Con_active,
            con_endDate := endDateAfterCancellingMoveOut (tz_offset e) (con_endDateBeforeEnding x) (now e),
            con_endDateBeforeEnding := None, con_endingRequestedAt := None\<rparr>) s))"
    using run by (auto simp: cancelMoveOutByCustomer_def bindr_eq_Inr)
  have "x = r" using customer_contract_row [OF wf own] row by simp
  then show ?thesis using row by (simp add: s1 change_contract_find)
qed

text \<open>
  C26: A move-out called off leaves the contract as it was: a tenant who asks to leave, whatever day,
  and later calls it off has the contract row there was before, its end date included, unless that date
  has passed in the meantime, and the units and every status in them are as they were.
\<close>

theorem move_out_called_off:
  assumes wf: "letting_wf s" and asked: "requestEndByCustomer e cu i day s = Inr s1"
    and off: "cancelMoveOutByCustomer e2 cu i s1 = Inr s2"
    and before: "find_contract (base s) i = Some r" and clean: "con_endDateBeforeEnding r = None" "con_endingRequestedAt r = None"
    and ahead: "\<forall>d. con_endDate r = Some d \<longrightarrow> todayInTimezone (tz_offset e2) (now e2) \<le> d"
  shows "find_contract (base s2) i = Some r \<and> units (base s2) = units (base s)"
proof -
  have step: "letting_step s s1" by (rule letting_step.Request_end_portal [OF asked])
  have wf1: "letting_wf s1" using tenancies.simulates [OF step wf] by blast
  have act: "con_status r = Con_active" and row1: "find_contract (base s1) i = Some (r\<lparr>con_status := Con_ending,
      con_endDate := Some day, con_endingRequestedAt := Some (now e), con_endDateBeforeEnding := con_endDate r\<rparr>)"
    using requestEnd_row [OF wf asked] before by auto
  have "find_contract (base s2) i = Some r"
    using cancelMoveOut_row [OF wf1 off row1] act clean end_date_restored [OF ahead] by simp
  moreover have "units (base s2) = units (base s)"
    using asked off by (auto simp: requestEndByCustomer_def cancelMoveOutByCustomer_def bindr_eq_Inr)
  ultimately show ?thesis ..
qed

definition demo_tenant_in :: letting where
  "demo_tenant_in = over_base (\<lambda>d. d\<lparr>contracts := [demo_contract\<lparr>con_status := Con_active, con_endDate := Some 40000\<rparr>]\<rparr>) demo_letting"

lemma demo_days: "todayAtUnit demo_env demo_tenant_in 5 \<le> 21000" "todayInTimezone (tz_offset demo_env) (now demo_env) \<le> 21000"
  "con_cancellationNoticeDays demo_contract \<le> 100" "\<not> isPendingPreOpening demo_contract"
  by code_simp+

lemma demo_asks:
  "\<exists>s1 s2. requestEndByCustomer demo_env 3 7 30000 demo_tenant_in = Inr s1 \<and> cancelMoveOutByCustomer demo_env 3 7 s1 = Inr s2"
proof -
  have ahead: "\<not> 30000 < todayAtUnit demo_env demo_tenant_in 5 + con_cancellationNoticeDays demo_contract"
    using demo_days by linarith
  have row: "contract_of_customer demo_tenant_in 3 7 = Inr (demo_contract\<lparr>con_status := Con_active, con_endDate := Some 40000\<rparr>)"
    by (simp add: contract_of_customer_def demo_tenant_in_def)
  show ?thesis
    using ahead
    by (simp add: requestEndByCustomer_def row isPendingPreOpening_def no_opening_def)
      (simp add: cancelMoveOutByCustomer_def contract_of_customer_def demo_tenant_in_def update_contract_def)
qed

lemma move_out_called_off_witness:
  "\<exists>s1 s2. requestEndByCustomer demo_env 3 7 30000 demo_tenant_in = Inr s1 \<and> cancelMoveOutByCustomer demo_env 3 7 s1 = Inr s2 \<and>
     find_contract (base s2) 7 = Some (demo_contract\<lparr>con_status := Con_active, con_endDate := Some 40000\<rparr>)"
proof -
  let ?r = "demo_contract\<lparr>con_status := Con_active, con_endDate := Some 40000\<rparr>"
  obtain s1 s2 where runs: "requestEndByCustomer demo_env 3 7 30000 demo_tenant_in = Inr s1"
    "cancelMoveOutByCustomer demo_env 3 7 s1 = Inr s2" using demo_asks by blast
  have wf: "letting_wf demo_tenant_in" by (simp add: demo_tenant_in_def letting_wf_def spots_def statuses_def spot_of_def)
  have row: "find_contract (base demo_tenant_in) 7 = Some ?r" by (simp add: demo_tenant_in_def find_contract_def)
  have "con_endDateBeforeEnding ?r = None" "con_endingRequestedAt ?r = None"
    by (simp_all add: demo_contract_def default_contract_def)
  then show ?thesis using move_out_called_off [OF wf runs row] runs demo_days by fastforce
qed
section \<open>The signal of a reservation\<close>

lemma signal_paid_marks:
  assumes "r \<in> set (reservations s)" and "\<not> res_depositPaid r"
  shows "signal_paid_from r i s =
    (let s1 = s\<lparr>reservations := update_many (\<lambda>x. res_id x = res_id r \<and> \<not> res_depositPaid x)
           (\<lambda>x. x\<lparr>res_depositPaid := True\<rparr>) (reservations s)\<rparr>
     in case res_convertedContractId r of None \<Rightarrow> s1 | Some c \<Rightarrow> credit_signal i c s1)"
proof -
  have "count_rows (\<lambda>x. res_id x = res_id r \<and> \<not> res_depositPaid x) (reservations s) \<noteq> 0"
    using assms by (auto simp: count_rows_def filter_empty_conv)
  then show ?thesis by (simp add: signal_paid_from_def Let_def)
qed

lemma credit_signal_adds:
  assumes "find_contract (base s) c = Some r"
  shows "\<exists>r'. find_contract (base (credit_signal i c (s\<lparr>reservations := rs\<rparr>))) c = Some r' \<and>
    con_pendingCredit r' = con_pendingCredit r + max 0 (signal_base s i)"
proof -
  have same: "signal_base (s\<lparr>reservations := rs\<rparr>) i = signal_base s i" by (simp add: signal_base_def)
  show ?thesis
  proof (cases "0 < signal_base s i")
    case True
    then show ?thesis using assms same by (simp add: credit_signal_def Let_def change_contract_find)
  next
    case False
    then show ?thesis using assms same by (simp add: credit_signal_def Let_def)
  qed
qed

lemma nothing_to_credit: "signal_reservation t i = None \<Longrightarrow> Reservations.onInvoicePaid i t = t"
  by (simp add: Reservations.onInvoicePaid_def)

definition one_signal :: "letting \<Rightarrow> id \<Rightarrow> bool" where
  "one_signal s i \<longleftrightarrow> (\<forall>r\<in>set (reservations s). \<forall>x\<in>set (reservations s).
     res_depositInvoiceId r = Some i \<and> res_depositInvoiceId x = Some i \<longrightarrow> res_id r = res_id x)"

text \<open>The announcement that finds the reservation converted: the balance grows by the signal, and only once.\<close>

lemma announced_after_conversion:
  assumes one: "one_signal s i"
    and found: "signal_reservation s i = Some r" and conv: "res_convertedContractId r = Some c"
    and con: "find_contract (base s) c = Some k"
  shows "\<exists>k'. find_contract (base (Reservations.onInvoicePaid i s)) c = Some k' \<and>
    con_pendingCredit k' = con_pendingCredit k + max 0 (signal_base s i) \<and>
    (\<forall>x\<in>set (reservations (Reservations.onInvoicePaid i s)). res_depositInvoiceId x = Some i \<longrightarrow> res_depositPaid x) \<and>
    Reservations.onInvoicePaid i (Reservations.onInvoicePaid i s) = Reservations.onInvoicePaid i s"
proof -
  have r: "r \<in> set (reservations s)" "res_depositInvoiceId r = Some i" "\<not> res_depositPaid r"
    using found by (auto simp: signal_reservation_def dest: find_first_SomeD)
  let ?hit = "\<lambda>x. res_id x = res_id r \<and> \<not> res_depositPaid x"
  let ?rs = "update_many ?hit (\<lambda>x. x\<lparr>res_depositPaid := True\<rparr>) (reservations s)"
  let ?s' = "Reservations.onInvoicePaid i s"
  have s': "?s' = credit_signal i c (s\<lparr>reservations := ?rs\<rparr>)"
    using found signal_paid_marks [OF r(1,3)] conv by (simp add: Reservations.onInvoicePaid_def Let_def)
  then have rows: "reservations ?s' = ?rs" by (simp add: credit_signal_def Let_def)
  have marked: "\<forall>x\<in>set (reservations ?s'). res_depositInvoiceId x = Some i \<longrightarrow> res_depositPaid x"
  proof (intro ballI impI)
    fix x assume "x \<in> set (reservations ?s')" and x: "res_depositInvoiceId x = Some i"
    then obtain y where y: "y \<in> set (reservations s)" and xy: "x = (if ?hit y then y\<lparr>res_depositPaid := True\<rparr> else y)"
      unfolding rows by (auto elim: in_update_manyE)
    then have "res_depositInvoiceId y = Some i" using x by (simp split: if_splits)
    then have "res_id y = res_id r" using one r(1,2) y unfolding one_signal_def by blast
    then show "res_depositPaid x" using xy by simp
  qed
  then have "signal_reservation ?s' i = None"
    by (auto simp: signal_reservation_def find_first_None_iff)
  then have "Reservations.onInvoicePaid i ?s' = ?s'" by (rule nothing_to_credit)
  moreover obtain k' where "find_contract (base ?s') c = Some k'" "con_pendingCredit k' = con_pendingCredit k + max 0 (signal_base s i)"
    using credit_signal_adds [OF con, of i ?rs] s' by metis
  ultimately show ?thesis using marked by (intro exI [of _ k'] conjI)
qed

lemma find_first_update_same:
  assumes "\<And>x. P (f x) = P x"
  shows "find_first P (update_many q f xs) = map_option (\<lambda>x. if q x then f x else x) (find_first P xs)"
  using assms by (induction xs) auto

text \<open>The announcement that finds it unconverted only marks it.\<close>

lemma announced_before_conversion:
  assumes one: "one_signal s i" and found: "signal_reservation s i = Some r" and conv: "res_convertedContractId r = None"
  shows "base (Reservations.onInvoicePaid i s) = base s" and
    "r\<lparr>res_depositPaid := True\<rparr> \<in> set (reservations (Reservations.onInvoicePaid i s))" and
    "\<forall>x\<in>set (reservations (Reservations.onInvoicePaid i s)). res_depositInvoiceId x = Some i \<longrightarrow> res_depositPaid x"
proof -
  have r: "r \<in> set (reservations s)" "res_depositInvoiceId r = Some i" "\<not> res_depositPaid r"
    using found by (auto simp: signal_reservation_def dest: find_first_SomeD)
  let ?hit = "\<lambda>x. res_id x = res_id r \<and> \<not> res_depositPaid x"
  let ?s' = "Reservations.onInvoicePaid i s"
  have s': "?s' = s\<lparr>reservations := update_many ?hit (\<lambda>x. x\<lparr>res_depositPaid := True\<rparr>) (reservations s)\<rparr>"
    using found signal_paid_marks [OF r(1,3)] conv by (simp add: Reservations.onInvoicePaid_def Let_def)
  show "base ?s' = base s" by (simp add: s')
  have "(if ?hit r then r\<lparr>res_depositPaid := True\<rparr> else r) \<in>
      (\<lambda>x. if ?hit x then x\<lparr>res_depositPaid := True\<rparr> else x) ` set (reservations s)" using r(1) by (rule imageI)
  then show "r\<lparr>res_depositPaid := True\<rparr> \<in> set (reservations ?s')" using r(3) by (simp add: s' update_many_def)
  show "\<forall>x\<in>set (reservations ?s'). res_depositInvoiceId x = Some i \<longrightarrow> res_depositPaid x"
  proof (intro ballI impI)
    fix x assume "x \<in> set (reservations ?s')" and x: "res_depositInvoiceId x = Some i"
    then obtain y where y: "y \<in> set (reservations s)" and xy: "x = (if ?hit y then y\<lparr>res_depositPaid := True\<rparr> else y)"
      by (auto simp: s' elim: in_update_manyE)
    then have "res_depositInvoiceId y = Some i" using x by (simp split: if_splits)
    then have "res_id y = res_id r" using one r(1,2) y unfolding one_signal_def by blast
    then show "res_depositPaid x" using xy by simp
  qed
qed

lemma convert_reservation_rows:
  "reservations (convert_reservation (Some r) c s) = update_many (\<lambda>x. res_id x = res_id r)
     (\<lambda>x. x\<lparr>res_status := Res_converted, res_convertedContractId := Some c\<rparr>) (reservations s)"
  by (simp add: convert_reservation_def Let_def split: option.split)

lemma one_signal_converted:
  assumes "one_signal s i" and t: "reservations t = reservations (convert_reservation (Some r) c s)"
  shows "one_signal t i"
proof -
  let ?g = "\<lambda>x. (res_depositInvoiceId x, res_id x)"
  have view: "one_signal u i \<longleftrightarrow> (\<forall>p\<in>set (map ?g (reservations u)). \<forall>q\<in>set (map ?g (reservations u)).
      fst p = Some i \<and> fst q = Some i \<longrightarrow> snd p = snd q)" for u
    unfolding one_signal_def list.set_map ball_simps fst_conv snd_conv by blast
  have same: "map ?g (reservations t) = map ?g (reservations s)"
    by (simp add: t convert_reservation_rows map_update_many_inv)
  show ?thesis using assms(1) unfolding view same .
qed

text \<open>The conversion gives the contract the signal of an invoice that is paid, and nothing of one that is not.\<close>

lemma conversion_credits:
  assumes bill: "find_invoice (base s) i = Some v" and r: "res_depositInvoiceId r = Some i"
    and con: "find_contract (base s) c = Some k" and new: "con_pendingCredit k = 0"
  shows "inv_status v = Paid \<Longrightarrow> \<exists>k'. find_contract (base (convert_reservation (Some r) c s)) c = Some k' \<and>
      con_pendingCredit k' = max 0 (signal_base s i)"
    and "inv_status v \<noteq> Paid \<Longrightarrow> base (convert_reservation (Some r) c s) = base s"
proof -
  let ?s1 = "s\<lparr>reservations := update_many (\<lambda>x. res_id x = res_id r)
    (\<lambda>x. x\<lparr>res_status := Res_converted, res_convertedContractId := Some c\<rparr>) (reservations s)\<rparr>"
  have same: "signal_base ?s1 i = signal_base s i" by (simp add: signal_base_def)
  have signal: "signalCredit ?s1 (Some i) = (if inv_status v \<noteq> Paid \<or> signal_base s i \<le> 0 then None
      else Some (signal_base s i, ''senal '' @ inv_number v))"
    using bill by (simp add: signalCredit_def same)
  show "\<exists>k'. find_contract (base (convert_reservation (Some r) c s)) c = Some k' \<and>
      con_pendingCredit k' = max 0 (signal_base s i)" if "inv_status v = Paid"
  proof (cases "0 < signal_base s i")
    case True
    then show ?thesis using that con by (simp add: convert_reservation_def r signal change_contract_find)
  next
    case False
    then show ?thesis using that con new by (simp add: convert_reservation_def r signal)
  qed
  show "base (convert_reservation (Some r) c s) = base s" if "inv_status v \<noteq> Paid"
    using that by (simp add: convert_reservation_def r signal)
qed

text \<open>
  C27: The signal of a reservation reaches the contract once, whichever comes first. When its invoice
  is paid and announced before the reservation is converted, the announcement only marks the reservation
  as paid, the conversion gives the new contract the signal without its tax, and announcing the invoice
  again changes nothing. When the reservation is converted while the invoice is not paid, the conversion
  touches no contract; once it is paid, the first announcement adds the signal to the balance the contract
  has then, and announcing it again changes nothing. (An invoice already paid whose announcement only runs
  after the conversion is credited twice: lemma \<open>signal_credited_twice\<close>.)
\<close>

theorem signal_credited_once:
  assumes one: "one_signal s i" and found: "signal_reservation s i = Some r" and conv: "res_convertedContractId r = None"
    and bill: "find_invoice (base s) i = Some v"
    and con: "find_contract (base s) c = Some k" and new: "con_pendingCredit k = 0"
  shows "(inv_status v = Paid \<longrightarrow>
      (\<exists>s1 s2 k2. s1 = Reservations.onInvoicePaid i s \<and> base s1 = base s \<and>
        r\<lparr>res_depositPaid := True\<rparr> \<in> set (reservations s1) \<and>
        s2 = convert_reservation (Some (r\<lparr>res_depositPaid := True\<rparr>)) c s1 \<and>
        find_contract (base s2) c = Some k2 \<and> con_pendingCredit k2 = max 0 (signal_base s i) \<and>
        Reservations.onInvoicePaid i s2 = s2)) \<and>
    (inv_status v \<noteq> Paid \<longrightarrow>
      base (convert_reservation (Some r) c s) = base s \<and>
      (\<forall>t k1. reservations t = reservations (convert_reservation (Some r) c s) \<longrightarrow> find_contract (base t) c = Some k1 \<longrightarrow>
        (\<exists>t1 k2. t1 = Reservations.onInvoicePaid i t \<and> find_contract (base t1) c = Some k2 \<and>
          con_pendingCredit k2 = con_pendingCredit k1 + max 0 (signal_base t i) \<and>
          Reservations.onInvoicePaid i t1 = t1)))"
proof -
  have r: "res_depositInvoiceId r = Some i"
    using found by (auto simp: signal_reservation_def dest: find_first_SomeD)
  let ?s1 = "Reservations.onInvoicePaid i s" and ?r1 = "r\<lparr>res_depositPaid := True\<rparr>"
  note marked = announced_before_conversion [OF one found conv]
  have "\<exists>k2. find_contract (base (convert_reservation (Some ?r1) c ?s1)) c = Some k2 \<and>
      con_pendingCredit k2 = max 0 (signal_base s i) \<and>
      Reservations.onInvoicePaid i (convert_reservation (Some ?r1) c ?s1) = convert_reservation (Some ?r1) c ?s1"
    if paid: "inv_status v = Paid"
  proof -
    have same: "signal_base ?s1 i = signal_base s i" by (simp add: signal_base_def marked(1))
    obtain k2 where k2: "find_contract (base (convert_reservation (Some ?r1) c ?s1)) c = Some k2"
      "con_pendingCredit k2 = max 0 (signal_base s i)"
      using conversion_credits(1) [of ?s1 i v ?r1 c k] bill con new r paid same by (auto simp: marked(1))
    have "find_first (\<lambda>x. res_depositInvoiceId x = Some i \<and> \<not> res_depositPaid x) (reservations ?s1) = None"
      using marked(3) by (auto simp: find_first_None_iff)
    then have "signal_reservation (convert_reservation (Some ?r1) c ?s1) i = None"
      by (simp add: signal_reservation_def convert_reservation_rows find_first_update_same)
    then show ?thesis using k2 nothing_to_credit by blast
  qed
  moreover have "\<exists>k2. find_contract (base (Reservations.onInvoicePaid i t)) c = Some k2 \<and>
      con_pendingCredit k2 = con_pendingCredit k1 + max 0 (signal_base t i) \<and>
      Reservations.onInvoicePaid i (Reservations.onInvoicePaid i t) = Reservations.onInvoicePaid i t"
    if t: "reservations t = reservations (convert_reservation (Some r) c s)" and k1: "find_contract (base t) c = Some k1"
    for t k1
  proof -
    let ?r' = "r\<lparr>res_status := Res_converted, res_convertedContractId := Some c\<rparr>"
    have "signal_reservation t i = Some ?r'"
      using found by (simp add: signal_reservation_def t convert_reservation_rows find_first_update_same)
    moreover have "one_signal t i" by (rule one_signal_converted [OF one t])
    ultimately show ?thesis using announced_after_conversion [of t i ?r' c k1] k1 by auto
  qed
  ultimately show ?thesis
    using marked(1,2) conversion_credits(2) [OF bill r con new] by (intro conjI impI allI) (blast, blast, blast)
qed

text \<open>
  The case that is left: the invoice is paid, the reservation is converted, and only then the handler of
  the payment, which runs later, sees the reservation converted and adds what the conversion gave.
\<close>

lemma signal_credited_twice:
  assumes one: "one_signal s i" and found: "signal_reservation s i = Some r"
    and bill: "find_invoice (base s) i = Some v" "inv_status v = Paid"
    and con: "find_contract (base s) c = Some k" and new: "con_pendingCredit k = 0" and some: "0 < signal_base s i"
  shows "\<exists>k'. find_contract (base (Reservations.onInvoicePaid i (convert_reservation (Some r) c s))) c = Some k' \<and>
    con_pendingCredit k' = 2 * signal_base s i"
proof -
  let ?t = "convert_reservation (Some r) c s"
  let ?r' = "r\<lparr>res_status := Res_converted, res_convertedContractId := Some c\<rparr>"
  have r: "res_depositInvoiceId r = Some i"
    using found by (auto simp: signal_reservation_def dest: find_first_SomeD)
  obtain k1 where k1: "find_contract (base ?t) c = Some k1" "con_pendingCredit k1 = max 0 (signal_base s i)"
    using conversion_credits(1) [OF bill(1) r con new bill(2)] by blast
  have "items (base ?t) = items (base s)"
    by (simp add: convert_reservation_def change_contract_def update_contract_def Let_def split: option.split)
  then have same: "signal_base ?t i = signal_base s i" by (simp add: signal_base_def)
  have "signal_reservation ?t i = Some ?r'"
    using found by (simp add: signal_reservation_def convert_reservation_rows find_first_update_same)
  moreover have "one_signal ?t i" by (rule one_signal_converted [OF one refl])
  ultimately show ?thesis using announced_after_conversion [of ?t i ?r' c k1] k1 some same by auto
qed

section \<open>The hourly job\<close>

lemma expire_one_reservations:
  "expire_one e r (s, l) = (s', l') \<Longrightarrow>
   reservations s' = update_many (\<lambda>x. res_id x = res_id r) (\<lambda>x. x\<lparr>res_status := Res_expired\<rparr>) (reservations s)"
  by (auto simp: expire_one_def releaseReservedUnit_def Let_def split: if_splits prod.splits)

lemma expired_twice:
  "update_many p (\<lambda>x. x\<lparr>res_status := Res_expired\<rparr>) (update_many q (\<lambda>x. x\<lparr>res_status := Res_expired\<rparr>) rows) =
   update_many (\<lambda>x. p (x\<lparr>res_status := Res_expired\<rparr>) \<and> q x \<or> p x \<or> q x) (\<lambda>x. x\<lparr>res_status := Res_expired\<rparr>) rows"
  by (induction rows) auto

lemma expire_each_reservations:
  "fold (expire_one e) rs (s, l) = (s', l') \<Longrightarrow>
   reservations s' = update_many (\<lambda>x. res_id x \<in> res_id ` set rs) (\<lambda>x. x\<lparr>res_status := Res_expired\<rparr>) (reservations s)"
proof (induction rs arbitrary: s l)
  case Nil
  then show ?case by (simp add: update_many_def)
next
  case (Cons r rs)
  obtain s1 l1 where step: "expire_one e r (s, l) = (s1, l1)" by force
  have eq: "(x \<in> A \<and> x = y \<or> x \<in> A \<or> x = y) \<longleftrightarrow> x \<in> insert y A" for x y :: id and A by blast
  show ?case using Cons.IH [of s1 l1] Cons.prems step
    by (simp add: expire_one_reservations [OF step] expired_twice eq)
qed

lemma settleSignal_reservations: "reservations (settleSignal e r why keep s) = reservations s"
  by (auto simp: settleSignal_def cancel_invoice_of_def split: option.split sum.split prod.split)

lemma fold_keeps: "(\<And>x s. g (f x s) = g s) \<Longrightarrow> g (fold f xs s) = g s"
  by (induction xs arbitrary: s) simp_all

text \<open>
  C28: The hourly job leaves no reservation past its time: afterwards every reservation that was live
  with its term over is expired and every other one is as it was, and the job reports how many.
\<close>

theorem expiry_clears_overdue:
  assumes run: "expireDue e s = (s', n)" and keys: "distinct (map res_id (reservations s))"
  shows "reservations s' = map (\<lambda>r. if held_status r \<and> res_validUntil r < now e then r\<lparr>res_status := Res_expired\<rparr> else r)
      (reservations s) \<and> due_reservations e s' = [] \<and>
    n = length (filter (\<lambda>r. held_status r \<and> res_validUntil r < now e) (reservations s))"
proof -
  let ?due = "\<lambda>r. held_status r \<and> res_validUntil r < now e"
  obtain s1 us where tx: "expire_tx e s = (s1, us)" by force
  have "reservations s1 = update_many (\<lambda>x. res_id x \<in> res_id ` set (due_reservations e s)) (\<lambda>x. x\<lparr>res_status := Res_expired\<rparr>) (reservations s)"
    using expire_each_reservations [OF tx [unfolded expire_tx_def]] .
  also have "\<dots> = map (\<lambda>r. if ?due r then r\<lparr>res_status := Res_expired\<rparr> else r) (reservations s)"
    unfolding update_many_def
  proof (rule map_cong [OF refl])
    fix x assume x: "x \<in> set (reservations s)"
    have "res_id x \<in> res_id ` set (due_reservations e s) \<longleftrightarrow> ?due x"
      using x keys by (auto simp: due_reservations_def distinct_map dest: inj_onD)
    then show "(if res_id x \<in> res_id ` set (due_reservations e s) then x\<lparr>res_status := Res_expired\<rparr> else x) =
        (if ?due x then x\<lparr>res_status := Res_expired\<rparr> else x)" by simp
  qed
  finally have rows: "reservations s1 = map (\<lambda>r. if ?due r then r\<lparr>res_status := Res_expired\<rparr> else r) (reservations s)" .
  have "reservations s' = reservations s1" and n: "n = length (due_reservations e s)"
    using run tx by (auto simp: expireDue_def Let_def fold_keeps [of reservations] settleSignal_reservations split: if_splits)
  then have "reservations s' = map (\<lambda>r. if ?due r then r\<lparr>res_status := Res_expired\<rparr> else r) (reservations s)" using rows by simp
  moreover from this have "due_reservations e s' = []"
    by (auto simp: due_reservations_def filter_empty_conv held_status_def)
  ultimately show ?thesis using n by (simp add: due_reservations_def)
qed

definition demo_signal :: reservation_row where
  "demo_signal = \<lparr>res_id = 20, res_unitId = 5, res_customerId = Some 3, res_status = Res_converted, res_validFrom = 0,
     res_validUntil = 5000, res_depositPaid = False, res_depositAmount = 3000, res_notes = None,
     res_convertedContractId = Some 7, res_cancelledAt = None, res_cancelReason = None, res_depositInvoiceId = Some 30,
     res_reminderSentAt = None, res_createdAt = 0\<rparr>"

definition demo_kept :: reservation_row where
  "demo_kept = demo_signal\<lparr>res_status := Res_confirmed, res_convertedContractId := None\<rparr>"

definition demo_signal_paid :: letting where
  "demo_signal_paid = over_base (\<lambda>d. d\<lparr>items := [demo_item_row\<lparr>it_invoiceId := 30, it_total := 3000, it_taxAmount := 0\<rparr>],
     invoices := [demo_issued\<lparr>inv_id := 30, inv_status := Paid\<rparr>]\<rparr>) (demo_letting\<lparr>reservations := [demo_kept]\<rparr>)"

lemma demo_signal_base: "signal_base demo_signal_paid 30 = 3000"
proof -
  have "nsub (euros 3000) (euros 0) = euros 3000" by code_simp
  then show ?thesis by (simp add: signal_base_def demo_signal_paid_def toCents_euros)
qed

lemma demo_signal_sel:
  "one_signal demo_signal_paid 30" "signal_reservation demo_signal_paid 30 = Some demo_kept"
  "res_convertedContractId demo_kept = None"
  "find_invoice (base demo_signal_paid) 30 = Some (demo_issued\<lparr>inv_id := 30, inv_status := Paid\<rparr>)"
  "find_contract (base demo_signal_paid) 7 = Some demo_contract" "con_pendingCredit demo_contract = 0"
  by (simp_all add: one_signal_def demo_signal_paid_def signal_reservation_def demo_kept_def demo_signal_def
      find_invoice_def find_contract_def demo_contract_def default_contract_def)

lemma signal_credited_once_witness:
  "\<exists>k2. find_contract (base (convert_reservation (Some (demo_kept\<lparr>res_depositPaid := True\<rparr>)) 7
       (Reservations.onInvoicePaid 30 demo_signal_paid))) 7 = Some k2 \<and> con_pendingCredit k2 = 3000"
  using signal_credited_once [OF demo_signal_sel] by (auto simp: demo_signal_base)

lemma expiry_clears_overdue_witness:
  "reservations (fst (expireDue demo_env (demo_letting\<lparr>reservations := [demo_signal\<lparr>res_status := Res_confirmed\<rparr>]\<rparr>))) =
     [demo_signal\<lparr>res_status := Res_expired\<rparr>]"
proof -
  let ?s = "demo_letting\<lparr>reservations := [demo_signal\<lparr>res_status := Res_confirmed\<rparr>]\<rparr>"
  obtain s' n where run: "expireDue demo_env ?s = (s', n)" by force
  have "now demo_env = 1768000000000" by (simp add: demo_env_def)
  then show ?thesis using expiry_clears_overdue [OF run] run by (simp add: held_status_def demo_signal_def)
qed

end
