(* ===== verification/Recurring.thy ===== *)
theory Recurring imports FirstInvoice begin

text \<open>
  Recurring billing (\<open>apps/api/src/modules/billing/billing-jobs.service.ts\<close>): the nightly job that makes
  the invoice of the period of every contract in force, with the rewards for recommendations
  (\<open>referrals.service.ts\<close>), the balance in favour and the free months it takes off the rent.
\<close>

section \<open>The period to invoice\<close>

text \<open>\<open>resolvePeriod\<close>: the one asked for or the month, in UTC, of the moment.\<close>

definition resolvePeriod :: "env \<Rightarrow> (date \<times> date) option \<Rightarrow> date \<times> date" where
  "resolvePeriod e asked =
     (case asked of
        Some p \<Rightarrow> p
      | None \<Rightarrow> (let d = utc_day (now e)
                 in (make_date (year_of d) (month_of d) 1, make_date (year_of d) (month_of d + 1) 0)))"

definition daysBetween :: "date \<Rightarrow> date \<Rightarrow> int" where
  "daysBetween from until = until - from + 1"

text \<open>
  \<open>addMonths\<close> of the job keeps the day of the month: a day the month does not have runs over into the
  next one.
\<close>

definition plus_months :: "date \<Rightarrow> int \<Rightarrow> date" where
  "plus_months d n = make_date (year_of d) (month_of d + n) (date_of d)"

definition billable_contracts :: "db \<Rightarrow> contract_row list" where
  "billable_contracts d =
     filter (\<lambda>c. is_started c \<and>
         \<not> (case find_customer d (con_customerId c) of None \<Rightarrow> False | Some r \<Rightarrow> cus_isTest r)) (contracts d)"

text \<open>The last day the invoices of a contract cover; those without a period do not count.\<close>

definition last_covered :: "db \<Rightarrow> id \<Rightarrow> date option" where
  "last_covered d c =
     (case least_by (\<lambda>r. - (case inv_periodEnd r of None \<Rightarrow> 0 | Some q \<Rightarrow> q))
             (filter (\<lambda>r. inv_contractId r = Some c \<and> inv_status r \<noteq> Cancelled \<and> \<not> inv_deleted r \<and>
                inv_kind r = Invoice_kind \<and> inv_periodEnd r \<noteq> None) (invoices d)) of
        None \<Rightarrow> None | Some r \<Rightarrow> inv_periodEnd r)"

record due_period =
  due_start :: date
  due_end :: date
  due_fullDays :: int

text \<open>Prepaid: the next period not covered yet, once it has begun.\<close>

definition prepaid_period :: "db \<Rightarrow> contract_row \<Rightarrow> date \<times> date \<Rightarrow> due_period option" where
  "prepaid_period d c period =
     (let start = (case last_covered d (con_id c) of
                     Some q \<Rightarrow> q + 1
                   | None \<Rightarrow> (case con_billingStartsOn c of Some b \<Rightarrow> b | None \<Rightarrow> con_startDate c));
          until = plus_months start (con_billingIntervalMonths c) - 1
      in if snd period < start then None
         else Some \<lparr>due_start = start, due_end = until, due_fullDays = daysBetween start until\<rparr>)"

text \<open>Monthly: the month, from the day of entry or the day the application starts to invoice.\<close>

definition monthly_period :: "contract_row \<Rightarrow> date \<times> date \<Rightarrow> due_period option" where
  "monthly_period c period =
     (let start = (case con_billingStartsOn c of
                     Some b \<Rightarrow> (if con_startDate c < b then b else con_startDate c) | None \<Rightarrow> con_startDate c)
      in if snd period < start then None
         else Some \<lparr>due_start = (if fst period < start then start else fst period), due_end = snd period,
                 due_fullDays = daysBetween (fst period) (snd period)\<rparr>)"

text \<open>Nothing is invoiced past the end of the contract.\<close>

definition until_end :: "contract_row \<Rightarrow> due_period \<Rightarrow> due_period option" where
  "until_end c p =
     (case con_endDate c of
        None \<Rightarrow> Some p
      | Some q \<Rightarrow> (if q < due_start p then None
                  else Some (if q < due_end p then p\<lparr>due_end := q\<rparr> else p)))"

definition period_due :: "db \<Rightarrow> contract_row \<Rightarrow> date \<times> date \<Rightarrow> due_period option" where
  "period_due d c period =
     Option.bind (if 1 < con_billingIntervalMonths c then prepaid_period d c period else monthly_period c period)
       (until_end c)"

definition due_factor :: "due_period \<Rightarrow> rat" where
  "due_factor p =
     (let billed = daysBetween (due_start p) (due_end p)
      in if due_fullDays p \<le> billed then 1 else ndiv (of_int billed) (of_int (due_fullDays p)))"

text \<open>
  A period that overlaps one already invoiced is not invoiced again, not even when that invoice was
  a draft somebody cancelled.
\<close>

definition already_billed :: "db \<Rightarrow> id \<Rightarrow> due_period \<Rightarrow> bool" where
  "already_billed d c p \<longleftrightarrow>
     (\<exists>r\<in>set (invoices d). inv_contractId r = Some c \<and> \<not> inv_deleted r \<and>
        (\<exists>a. inv_periodStart r = Some a \<and> a \<le> due_end p) \<and> (\<exists>b. inv_periodEnd r = Some b \<and> due_start p \<le> b))"

section \<open>Rewards for recommendations\<close>

definition reward_cents :: "int \<Rightarrow> referral_row \<Rightarrow> cents" where
  "reward_cents rentCents r =
     (let value = euros (case rfr_rewardValue r of None \<Rightarrow> 0 | Some v \<Rightarrow> v)
      in if rfr_percentage r then math_round (ndiv (nmul (of_int rentCents) value) 100)
         else math_round (nmul value 100))"

definition pending_rewards :: "db \<Rightarrow> id \<Rightarrow> referral_row list" where
  "pending_rewards d customer =
     sort_key (\<lambda>r. case rfr_convertedAt r of None \<Rightarrow> (1 :: int, 0) | Some t \<Rightarrow> (0, t))
       (filter (\<lambda>r. rfr_referrerId r = customer \<and> rfr_converted r \<and> rfr_rewardAppliedAt r = None \<and>
          rfr_rewardValue r \<noteq> None) (referrals d))"

fun claim_rewards ::
  "env \<Rightarrow> int \<Rightarrow> referral_row list \<Rightarrow> id list \<Rightarrow> cents \<Rightarrow> db \<Rightarrow> db \<times> id list \<times> cents" where
  "claim_rewards e rentCents [] ids taken d = (d, ids, taken)"
| "claim_rewards e rentCents (r # rs) ids taken d =
     (let k = reward_cents rentCents r; hit = (\<lambda>x. rfr_id x = rfr_id r \<and> rfr_rewardAppliedAt x = None)
      in if k \<le> 0 \<or> rentCents < taken + k then claim_rewards e rentCents rs ids taken d
         else if count_rows hit (referrals d) = 0 then claim_rewards e rentCents rs ids taken d
         else claim_rewards e rentCents rs (ids @ [rfr_id r]) (taken + k)
                (d\<lparr>referrals := update_many hit (\<lambda>x. x\<lparr>rfr_rewardAppliedAt := Some (now e)\<rparr>) (referrals d)\<rparr>))"

definition claimRewardsForInvoice :: "env \<Rightarrow> id \<Rightarrow> rat \<Rightarrow> db \<Rightarrow> db \<times> id list \<times> cents" where
  "claimRewardsForInvoice e customer rentAmount d =
     (if rentAmount \<le> 0 then (d, [], 0)
      else claim_rewards e (math_round (nmul rentAmount 100)) (pending_rewards d customer) [] 0 d)"

definition settleRewards :: "id list \<Rightarrow> id option \<Rightarrow> db \<Rightarrow> db" where
  "settleRewards ids invoice d =
     d\<lparr>referrals := update_many (\<lambda>r. rfr_id r \<in> set ids)
         (\<lambda>r. case invoice of Some i \<Rightarrow> r\<lparr>rfr_rewardInvoiceId := Some i\<rparr> | None \<Rightarrow> r\<lparr>rfr_rewardAppliedAt := None\<rparr>)
         (referrals d)\<rparr>"

section \<open>The invoice of a contract\<close>

definition is_free_month :: "contract_row \<Rightarrow> bool" where
  "is_free_month c \<longleftrightarrow> con_billingIntervalMonths c = 1 \<and> 0 < con_freeMonthsRemaining c"

definition prepay_pct :: "contract_row \<Rightarrow> rat" where
  "prepay_pct c = (if 1 < con_billingIntervalMonths c then con_prepayDiscountPct c else 0)"

text \<open>A Number with at most two decimals as a template string shows it.\<close>

definition show_decimal :: "rat \<Rightarrow> string" where
  "show_decimal x = rev (dropWhile (\<lambda>c. c = CHR ''.'') (dropWhile (\<lambda>c. c = CHR ''0'') (rev (show_cents \<lfloor>x * 100 + 1 / 2\<rfloor>))))"

text \<open>The rent of the period before what is taken off it, in cents.\<close>

definition base_rent :: "contract_row \<Rightarrow> due_period \<Rightarrow> cents" where
  "base_rent c p =
     (if is_free_month c then 0
      else math_round (nmul (nmul (nmul (of_int (month_cents c)) (of_int (con_billingIntervalMonths c)))
             (nsub 1 (ndiv (prepay_pct c) 100))) (due_factor p)))"

definition rent_description :: "contract_row \<Rightarrow> due_period \<Rightarrow> cents \<Rightarrow> claimed_credit \<Rightarrow> string" where
  "rent_description c p reward credit =
     ''Alquiler '' @ con_contractNumber c @ '' ('' @
     (if 1 < con_billingIntervalMonths c
      then ymd (due_start p) @ '' '' @ ymd (due_end p) @ '', '' @ show_int (con_billingIntervalMonths c) @
           '' meses prepago'' @ (if 0 < prepay_pct c then '' -'' @ show_decimal (prepay_pct c) @ ''%'' else []) @ '')''
      else take 7 (ymd (due_start p)) @
           (if due_factor p < 1 then '', '' @ ymd (due_start p) @ '' '' @ ymd (due_end p) else []) @ '')'' @
           (if is_free_month c then '' - mes gratis (promocion)'' else []) @
           (if 0 < reward then '' - incluye '' @ show_cents reward @ '' de descuento por recomendar'' else []) @
           (if 0 < clc_cents credit
            then '' - descontados '' @ show_cents (clc_cents credit) @ '' ('' @
              (case clc_reason credit of None \<Rightarrow> ''saldo a favor'' | Some w \<Rightarrow> w) @ '')''
            else []))"

definition recurring_lines ::
  "letting \<Rightarrow> contract_row \<Rightarrow> due_period \<Rightarrow> cents \<Rightarrow> cents \<Rightarrow> claimed_credit \<Rightarrow> item_input list" where
  "recurring_lines s c p rent reward credit =
     rent_line c (contract_housing s c) (due_start p) (due_end p) (rent_description c p reward credit) 1
       (euros (rent - clc_cents credit)) #
     insurance_line s c
       (''('' @ (if 1 < con_billingIntervalMonths c then show_int (con_billingIntervalMonths c) @ '' meses''
               else take 7 (ymd (due_start p))) @ '')'')
       (\<lambda>k. math_round (nmul (nmul (of_int k) (of_int (con_billingIntervalMonths c))) (due_factor p)))
       (Some (due_start p, due_end p))"

definition recurring_input :: "contract_row \<Rightarrow> id \<Rightarrow> due_period \<Rightarrow> item_input list \<Rightarrow> create_input" where
  "recurring_input c sr p lines =
     \<lparr>ci_customerId = Some (con_customerId c), ci_contractId = Some (con_id c), ci_seriesId = Some sr,
      ci_invoiceType = Some F1, ci_justification = None, ci_issueDate = None, ci_dueDate = None,
      ci_periodStart = Some (due_start p), ci_periodEnd = Some (due_end p), ci_notes = None, ci_items = lines\<rparr>"

definition recurring_benefits :: "contract_row \<Rightarrow> claimed_credit \<Rightarrow> consumed_benefits option" where
  "recurring_benefits c credit =
     (if is_free_month c \<or> 0 < clc_cents credit
      then Some \<lparr>ben_freeMonth = is_free_month c, ben_creditCents = clc_cents credit,
             ben_creditReason = (if 0 < clc_cents credit then clc_reason credit else None)\<rparr>
      else None)"

text \<open>After the draft: the rewards are linked to it, it is issued when the tenant wants it, the free month is used.\<close>

definition after_draft :: "env \<Rightarrow> bool \<Rightarrow> contract_row \<Rightarrow> id list \<Rightarrow> id \<Rightarrow> db \<Rightarrow> db" where
  "after_draft e auto c ids i d =
     (let d1 = settleRewards ids (Some i) d;
          d2 = (if auto then fst (issue e None None False i d1) else d1)
      in if is_free_month c
         then update_contract (con_id c) (\<lambda>r. r\<lparr>con_freeMonthsRemaining := con_freeMonthsRemaining r - 1\<rparr>) d2
         else d2)"

text \<open>
  A draft that cannot be created gives back what was taken; only a violation of a unique index that
  reaches the job as such is passed over, any other failure ends the job.
\<close>

definition bill_period ::
  "env \<Rightarrow> bool \<Rightarrow> contract_row \<Rightarrow> id \<Rightarrow> due_period \<Rightarrow> letting \<Rightarrow> letting \<times> bool result" where
  "bill_period e auto c sr p s =
     (let rent0 = base_rent c p;
          (d1, ids, reward) = claimRewardsForInvoice e (con_customerId c) (euros rent0) (base s);
          rent = toCents (euros rent0) - toCents (euros reward);
          (d2, credit) = claimContractCredit (con_id c) (toCents (euros rent)) d1
      in case create_invoice e d2 None None (recurring_benefits c credit)
                (recurring_input c sr p (recurring_lines s c p (toCents (euros rent)) reward credit)) of
           Inl err \<Rightarrow>
             (s\<lparr>base := restore_credit (con_id c) credit (settleRewards ids None d2)\<rparr>,
              if err = UniqueViolation then Inr False else Inl err)
         | Inr (d3, r) \<Rightarrow> (s\<lparr>base := after_draft e auto c ids (inv_id r) d3\<rparr>, Inr True))"

definition bill_contract ::
  "env \<Rightarrow> bool \<Rightarrow> date \<times> date \<Rightarrow> contract_row \<Rightarrow> letting \<Rightarrow> letting \<times> bool result" where
  "bill_contract e auto period c s =
     (case period_due (base s) c period of
        None \<Rightarrow> (s, Inr False)
      | Some p \<Rightarrow>
          (if already_billed (base s) (con_id c) p then (s, Inr False)
           else case getDefault (base s) of
                  None \<Rightarrow> (s, Inr False)
                | Some sr \<Rightarrow> bill_period e auto c (ser_id sr) p s))"

fun bill_each ::
  "env \<Rightarrow> bool \<Rightarrow> date \<times> date \<Rightarrow> contract_row list \<Rightarrow> nat \<Rightarrow> letting \<Rightarrow> letting \<times> nat result" where
  "bill_each e auto period [] n s = (s, Inr n)"
| "bill_each e auto period (c # cs) n s =
     (case bill_contract e auto period c s of
        (s1, Inl err) \<Rightarrow> (s1, Inl err)
      | (s1, Inr made) \<Rightarrow> bill_each e auto period cs (if made then Suc n else n) s1)"

definition processGenerateRecurring :: "env \<Rightarrow> (date \<times> date) option \<Rightarrow> letting \<Rightarrow> letting \<times> nat result" where
  "processGenerateRecurring e asked s =
     bill_each e (ten_autoIssueRecurring (tenant (base s))) (resolvePeriod e asked) (billable_contracts (base s)) 0 s"

end
