(* ===== verification/RecurringFacts.thy ===== *)
theory RecurringFacts imports Recurring EndingProperties Journal
begin

text \<open>
  What the recurring job leaves alone and what it writes: issuing an invoice changes the contract and
  the period of none and keeps a default series; a run writes neither units nor where a contract
  stands; and it is made of steps of the journal of \<open>Journal\<close>, so the books stay in order.
\<close>

section \<open>Periods of invoices\<close>

definition period_view :: "invoice_row \<Rightarrow> id option \<times> date option \<times> date option \<times> bool" where
  "period_view r = (inv_contractId r, inv_periodStart r, inv_periodEnd r, inv_deleted r)"

definition is_default_series :: "series_row \<Rightarrow> bool" where
  "is_default_series s \<longleftrightarrow> ser_isDefault s \<and> ser_isActive s \<and> \<not> ser_isRectification s \<and> ser_ownerId s = None"

definition has_default :: "db \<Rightarrow> bool" where
  "has_default d \<longleftrightarrow> (\<exists>s\<in>set (series d). is_default_series s)"

definition same_periods :: "db \<Rightarrow> db \<Rightarrow> bool" where
  "same_periods d d' \<longleftrightarrow> map period_view (invoices d') = map period_view (invoices d) \<and>
     (has_default d \<longrightarrow> has_default d')"

lemma has_default_iff: "has_default d \<longleftrightarrow> getDefault d \<noteq> None"
  by (auto simp: has_default_def getDefault_def is_default_series_def find_first_None_iff)

lemma same_periods_refl [simp]: "same_periods d d"
  by (simp add: same_periods_def)

lemma same_periods_trans [trans]: "same_periods a b \<Longrightarrow> same_periods b c \<Longrightarrow> same_periods a c"
  by (simp add: same_periods_def)

lemma same_periods_rows [simp]:
  "same_periods d (emit ev d') \<longleftrightarrow> same_periods d d'" "same_periods d (audit a i d') \<longleftrightarrow> same_periods d d'"
  "same_periods d (update_payment i g d') \<longleftrightarrow> same_periods d d'"
  "same_periods d (create_payment p d') \<longleftrightarrow> same_periods d d'"
  "same_periods d (update_contract i f d') \<longleftrightarrow> same_periods d d'"
  "same_periods d (d'\<lparr>verifactu_queue := q\<rparr>) \<longleftrightarrow> same_periods d d'"
  "same_periods d (d'\<lparr>tenant := t\<rparr>) \<longleftrightarrow> same_periods d d'"
  "same_periods d (d'\<lparr>referrals := rf\<rparr>) \<longleftrightarrow> same_periods d d'"
  by (simp_all add: same_periods_def has_default_def emit_def audit_def update_payment_def create_payment_def update_contract_def)

lemma same_periods_update:
  assumes "same_periods d d'" and "\<And>r. period_view (f r) = period_view r"
  shows "same_periods d (update_invoice i f d')"
    and "same_periods d (d'\<lparr>invoices := update_many p f (invoices d')\<rparr>)"
  using assms map_update_many_inv [of period_view f]
  by (simp_all add: same_periods_def has_default_def update_invoice_def)

lemma has_default_map: "has_default d \<longleftrightarrow> True \<in> set (map is_default_series (series d))"
  by (auto simp: has_default_def)

lemma reserve_periods:
  assumes "reserveNextNumber d i y = Inr (d', n, s)"
  shows "same_periods d d'"
proof -
  have d': "d' = update_series i (take_number y) d"
    using assms by (auto simp: reserveNextNumber_def Let_def elim!: bindrE)
  have "is_default_series (take_number y s) = is_default_series s" for s
    by (simp add: is_default_series_def take_number_def)
  then have "map is_default_series (series d') = map is_default_series (series d)"
    by (simp add: d' update_series_def map_update_many_inv)
  then have "has_default d' = has_default d" by (simp only: has_default_map)
  then show ?thesis by (simp add: same_periods_def d' update_series_def)
qed

lemma compensate_original_periods: "compensate_original e ex b d = Inr (d', cmp) \<Longrightarrow> same_periods d d'"
  by (auto simp: compensate_original_def compensateWithCredit_def Let_def period_view_def intro!: same_periods_update
      elim!: bindrE split: option.splits if_splits)

lemma applyWithholding_periods: "same_periods d d' \<Longrightarrow> same_periods d (applyWithholding e d' r)"
  by (simp add: applyWithholding_def Let_def period_view_def same_periods_update)

lemma write_invoice_periods:
  assumes "write_invoice i f d = Inr (d', r)" and "\<And>r. period_view (f r) = period_view r"
  shows "same_periods d d'"
proof -
  have "d' = update_invoice i f d" using assms(1) by (auto simp: write_invoice_def elim!: bindrE split: if_splits)
  then show ?thesis using same_periods_update(1) [OF same_periods_refl, of f d i] assms(2) by simp
qed

lemma issued_fields_period:
  "period_view (issued_fields e ex z k n t l q r) = period_view r"
  "period_view (holded_written e ex z k doc r) = period_view r"
  by (simp_all add: period_view_def issued_fields_def holded_written_def mark_settled_def)

lemma compensated_periods:
  "same_periods d d1 \<Longrightarrow> compensate_original e ex b (if z then d1 else applyWithholding e d1 r) = Inr (d', cmp) \<Longrightarrow>
   same_periods d d'"
  using compensate_original_periods applyWithholding_periods same_periods_trans by (metis (full_types))

lemma issue_app_periods:
  assumes "issue_app e ex z d = Inr (d', cmp)"
  shows "same_periods d d'"
proof -
  obtain d1 n s f d2 r where res: "reserveNextNumber d (inv_seriesId ex) (year_of (issue_date_of e ex)) = Inr (d1, n, s)"
    and w: "write_invoice (inv_id ex) f d1 = Inr (d2, r)" and f: "\<And>r. period_view (f r) = period_view r"
    and c: "compensate_original e ex True (if settles ex z then d2 else applyWithholding e d2 r) = Inr (d', cmp)"
    using assms issued_fields_period unfolding issue_app_def Let_def by (fastforce simp: bindr_eq_Inr split: prod.splits)
  show ?thesis
    using compensated_periods [OF same_periods_trans [OF reserve_periods [OF res] write_invoice_periods [OF w f]] c] .
qed

lemma issue_holded_periods: "issue_holded e ex z doc d = Inr (d', cmp) \<Longrightarrow> same_periods d d'"
  by (auto simp: issue_holded_def bindr_eq_Inr intro: compensated_periods dest!: write_invoice_periods
      intro: issued_fields_period)

lemma issue_tx_periods:
  assumes "issue_tx e ex z fh d = Inr (d', cmp)"
  shows "same_periods d d'"
proof -
  obtain d1 where r: "rectification_before_issue e ex d = Inr d1"
    and i: "(case fh of Some doc \<Rightarrow> issue_holded e ex z doc d1 | None \<Rightarrow> issue_app e ex z d1) = Inr (d', cmp)"
    using assms unfolding issue_tx_def by (auto simp: bindr_eq_Inr)
  have "same_periods d d1"
    using r by (auto simp: rectification_before_issue_def Let_def period_view_def intro!: same_periods_update
        elim!: bindrE split: option.splits if_splits)
  moreover have "same_periods d1 d'"
    using i by (auto dest: issue_holded_periods issue_app_periods split: option.splits)
  ultimately show ?thesis by (rule same_periods_trans)
qed

lemma after_issue_periods: "same_periods d d' \<Longrightarrow> same_periods d (after_issue ex z h cmp d')"
  by (simp add: after_issue_def Let_def split: option.splits)

lemma current_mode_periods: "current_mode e d = (d', m) \<Longrightarrow> same_periods d d'"
  by (auto simp: current_mode_def Let_def split: option.splits if_splits)

lemma awaitHolded_periods: "awaitHoldedCreditNote ex d = Inr d' \<Longrightarrow> same_periods d d'"
  by (auto simp: awaitHoldedCreditNote_def period_view_def intro!: same_periods_update elim!: bindrE)

lemma issueInHolded_periods: "issueInHolded e ex d = (d', r) \<Longrightarrow> same_periods d d'"
  by (auto simp: issueInHolded_def claim_holded_def set_holded_def Let_def period_view_def intro!: same_periods_update
      elim!: bindrE split: if_splits sum.splits)

lemma issued_periods:
  "issue_tx e ex z fh d1 = Inr (d2, cmp) \<Longrightarrow> same_periods d d1 \<Longrightarrow> same_periods d (after_issue ex z h cmp d2)"
  by (blast intro: after_issue_periods same_periods_trans dest: issue_tx_periods)

lemma issue_from_periods:
  assumes "issue_from e ex hd1 z d = (d', r)"
  shows "same_periods d d'"
proof -
  obtain d0 m where mode: "(if inv_ownerId ex \<noteq> None then (d, By_app) else current_mode e d) = (d0, m)" by fastforce
  have k0: "same_periods d d0" using mode current_mode_periods by (auto split: if_splits)
  have held: "same_periods d d1" if "issueInHolded e ex d0 = (d1, x)" for d1 x
    using same_periods_trans [OF k0 issueInHolded_periods [OF that]] .
  have await: "same_periods d d1" if "awaitHoldedCreditNote ex d0 = Inr d1" for d1
    using same_periods_trans [OF k0 awaitHolded_periods [OF that]] .
  show ?thesis
    using assms mode k0 unfolding issue_from_def Let_def
    by (auto split: if_splits sum.splits option.splits prod.splits intro: issued_periods dest: held await)
qed

lemma issue_periods: "issue e scope hd1 z i d = (d', r) \<Longrightarrow> same_periods d d'"
  by (auto simp: issue_def dest: issue_from_periods split: sum.splits)

lemma issue_periods_fst: "same_periods d (fst (issue e scope hd1 z i d))"
  using issue_periods prod.collapse by metis

section \<open>What one contract adds\<close>

lemma ownerSeries_default: "ownerSeries d ow b = Inr (d', s) \<Longrightarrow> has_default d \<Longrightarrow> has_default d'"
  by (auto simp: ownerSeries_def insert_series_def has_default_def Let_def elim!: bindrE split: option.splits if_splits)

lemma ownerSeries_invoices: "ownerSeries d ow b = Inr (d', s) \<Longrightarrow> invoices d' = invoices d"
  by (auto simp: ownerSeries_def insert_series_def Let_def elim!: bindrE split: option.splits if_splits)

lemma create_tx_row:
  assumes "create_tx e d scope g ben input ty t = Inr (d', r)"
  shows "invoices d' = invoices d @ [r]" and "period_view r = (ci_contractId input, ci_periodStart input, ci_periodEnd input, False)"
    and "has_default d \<Longrightarrow> has_default d'"
proof -
  obtain ow d0 so d1 so1 s row lines where a: "create_series_for d ow (ci_seriesId input) = Inr (d0, so)"
    and b: "owner_default_series (d0, so) ow = Inr (d1, so1)" and c: "insert_invoice d1 row lines = Inr (d', r)"
    and v: "period_view row = (ci_contractId input, ci_periodStart input, ci_periodEnd input, False)"
    using assms unfolding create_tx_def
    by (auto simp: bindr_eq_Inr default_invoice_def period_view_def split: prod.splits)
  have d0: "invoices d0 = invoices d" "has_default d \<Longrightarrow> has_default d0"
    using a by (auto simp: create_series_for_def dest: ownerSeries_invoices ownerSeries_default elim!: bindrE split: option.splits)
  have d1: "invoices d1 = invoices d0" "has_default d0 \<Longrightarrow> has_default d1"
    using b by (auto simp: owner_default_series_def dest: ownerSeries_invoices ownerSeries_default elim!: bindrE split: option.splits if_splits)
  have r: "r = row\<lparr>inv_id := next_id d1\<rparr>" "invoices d' = invoices d1 @ [r]" "series d' = series d1"
    using c by (auto simp: insert_invoice_def Let_def create_row_def elim!: bindrE split: if_splits)
  show "invoices d' = invoices d @ [r]" using r d0 d1 by simp
  show "period_view r = (ci_contractId input, ci_periodStart input, ci_periodEnd input, False)"
    using v by (simp add: r(1) period_view_def)
  show "has_default d \<Longrightarrow> has_default d'" using r d0 d1 by (simp add: has_default_def)
qed

lemma create_invoice_row:
  assumes "create_invoice e d scope g ben input = Inr (d', r)"
  shows "invoices d' = invoices d @ [r]" and "period_view r = (ci_contractId input, ci_periodStart input, ci_periodEnd input, False)"
    and "has_default d \<Longrightarrow> has_default d'"
proof -
  define ty where "ty = (case ci_invoiceType input of None \<Rightarrow> F1 | Some ty \<Rightarrow> ty)"
  obtain t where c: "(case create_tx e d scope g ben input ty t of
      Inl err \<Rightarrow> if err = UniqueViolation then Inl (ConflictException ''duplicate_period_invoice'')
                 else Inl err
    | Inr (d', r) \<Rightarrow> Inr (audit ''invoice.created'' (inv_id r) d', r)) = Inr (d', r)"
    using assms unfolding create_invoice_def Let_def ty_def [symmetric] by (auto simp only: bindr_eq_Inr)
  then obtain d1 where tx: "create_tx e d scope g ben input ty t = Inr (d1, r)" and d': "d' = audit ''invoice.created'' (inv_id r) d1"
    by (cases "create_tx e d scope g ben input ty t") (auto split: if_splits)
  note row = create_tx_row [OF tx]
  show "invoices d' = invoices d @ [r]" and "period_view r = (ci_contractId input, ci_periodStart input, ci_periodEnd input, False)"
    using row by (simp_all add: d')
  show "has_default d \<Longrightarrow> has_default d'" using row(3) by (simp add: d' has_default_def audit_def)
qed

lemma claim_rewards_other:
  "claim_rewards e k rs ids taken d = (d', out) \<Longrightarrow> \<exists>rf. d' = d\<lparr>referrals := rf\<rparr>"
proof (induction e k rs ids taken d rule: claim_rewards.induct)
  case (1 e rentCents ids taken d)
  then show ?case by (intro exI [of _ "referrals d"]) simp
next
  case (2 e rentCents r rs ids taken d)
  show ?case
    using 2 by (auto simp: Let_def split: if_splits)
qed

lemma claimRewards_other:
  assumes "claimRewardsForInvoice e cu k d = (d', out)"
  shows "\<exists>rf. d' = d\<lparr>referrals := rf\<rparr>"
proof (cases "k \<le> 0")
  case True
  then show ?thesis using assms by (intro exI [of _ "referrals d"]) (simp add: claimRewardsForInvoice_def)
next
  case False
  then show ?thesis using assms claim_rewards_other unfolding claimRewardsForInvoice_def by simp
qed

lemma claimContractCredit_other: "claimContractCredit c k d = (d', out) \<Longrightarrow> \<exists>f. d' = d \<or> d' = update_contract c f d"
  by (auto simp: claimContractCredit_def Let_def split: if_splits option.splits)

lemma same_periods_restore [simp]: "same_periods d (restore_credit c k d') \<longleftrightarrow> same_periods d d'"
  by (simp add: restore_credit_def)

lemma same_periods_settle [simp]: "same_periods d (settleRewards ids i d') \<longleftrightarrow> same_periods d d'"
  by (simp add: settleRewards_def)

lemma after_draft_periods: "same_periods d (after_draft e auto c ids i d)"
proof -
  have "same_periods d (fst (issue e None None False i (settleRewards ids (Some i) d)))"
    using same_periods_trans [of d "settleRewards ids (Some i) d"] issue_periods_fst by simp
  then show ?thesis by (simp add: after_draft_def Let_def)
qed

text \<open>What is taken off the rent before the draft is made: rewards and balance.\<close>

definition taken_off :: "env \<Rightarrow> contract_row \<Rightarrow> due_period \<Rightarrow> db \<Rightarrow> db \<times> id list \<times> cents \<times> claimed_credit" where
  "taken_off e c p d =
     (let (d1, ids, reward) = claimRewardsForInvoice e (con_customerId c) (euros (base_rent c p)) d;
          rent = toCents (euros (base_rent c p)) - toCents (euros reward);
          (d2, credit) = claimContractCredit (con_id c) (toCents (euros rent)) d1
      in (d2, ids, reward, credit))"

lemma taken_off_other: "taken_off e c p d = (d', out) \<Longrightarrow> same_periods d d'"
  by (auto simp: taken_off_def Let_def split: prod.splits dest!: claimRewards_other claimContractCredit_other)

lemma bill_period_parts:
  assumes "bill_period e auto c sr p s = (s', x)"
  obtains d2 ids reward credit where "taken_off e c p (base s) = (d2, ids, reward, credit)"
    and "case create_invoice e d2 None None (recurring_benefits c credit) (recurring_input c sr p
           (recurring_lines s c p (toCents (euros (toCents (euros (base_rent c p)) - toCents (euros reward)))) reward credit)) of
         Inl err \<Rightarrow> s' = s\<lparr>base := restore_credit (con_id c) credit (settleRewards ids None d2)\<rparr> \<and> x \<noteq> Inr True
       | Inr (d3, r) \<Rightarrow> s' = s\<lparr>base := after_draft e auto c ids (inv_id r) d3\<rparr> \<and> x = Inr True"
  using assms unfolding bill_period_def taken_off_def Let_def
  by (auto split: prod.splits sum.splits if_splits)

definition due_view :: "contract_row \<Rightarrow> due_period \<Rightarrow> id option \<times> date option \<times> date option \<times> bool" where
  "due_view c p = (Some (con_id c), Some (due_start p), Some (due_end p), False)"

definition period_views :: "db \<Rightarrow> (id option \<times> date option \<times> date option \<times> bool) list" where
  "period_views d = map period_view (invoices d)"

lemma bill_period_adds:
  assumes "bill_period e auto c sr p s = (s', x)"
  shows "period_views (base s') = period_views (base s) @ (if x = Inr True then [due_view c p] else [])"
    and "has_default (base s) \<Longrightarrow> has_default (base s')"
proof -
  obtain d2 ids reward credit where off: "taken_off e c p (base s) = (d2, ids, reward, credit)"
    and made: "case create_invoice e d2 None None (recurring_benefits c credit) (recurring_input c sr p
           (recurring_lines s c p (toCents (euros (toCents (euros (base_rent c p)) - toCents (euros reward)))) reward credit)) of
         Inl err \<Rightarrow> s' = s\<lparr>base := restore_credit (con_id c) credit (settleRewards ids None d2)\<rparr> \<and> x \<noteq> Inr True
       | Inr (d3, r) \<Rightarrow> s' = s\<lparr>base := after_draft e auto c ids (inv_id r) d3\<rparr> \<and> x = Inr True"
    by (rule bill_period_parts [OF assms])
  have d2: "same_periods (base s) d2" using taken_off_other [OF off] .
  have "period_views (base s') = period_views (base s) @ (if x = Inr True then [due_view c p] else []) \<and>
      (has_default (base s) \<longrightarrow> has_default (base s'))"
    using made
  proof (cases "create_invoice e d2 None None (recurring_benefits c credit) (recurring_input c sr p
           (recurring_lines s c p (toCents (euros (toCents (euros (base_rent c p)) - toCents (euros reward)))) reward credit))")
    case (Inl err)
    then show ?thesis using made d2 same_periods_trans [OF d2] by (simp add: same_periods_def period_views_def restore_credit_def settleRewards_def has_default_def update_contract_def)
  next
    case (Inr y)
    obtain d3 r where y: "y = (d3, r)" by force
    note row = create_invoice_row [OF Inr [unfolded y]]
    have "base s' = after_draft e auto c ids (inv_id r) d3" "x = Inr True" using made Inr y by simp_all
    then show ?thesis
      using row d2 after_draft_periods [of d3 e auto c ids "inv_id r"]
      by (simp add: same_periods_def period_views_def due_view_def recurring_input_def)
  qed
  then show "period_views (base s') = period_views (base s) @ (if x = Inr True then [due_view c p] else [])"
    and "has_default (base s) \<Longrightarrow> has_default (base s')" by simp_all
qed

section \<open>A run\<close>

text \<open>The periods invoiced of a contract.\<close>

definition billed :: "(id option \<times> date option \<times> date option \<times> bool) list \<Rightarrow> id \<Rightarrow> (date \<times> date) list" where
  "billed vs c = map (\<lambda>(k, a, b, x). (the a, the b))
     (filter (\<lambda>(k, a, b, x). k = Some c \<and> a \<noteq> None \<and> b \<noteq> None \<and> \<not> x) vs)"

definition apart :: "date \<times> date \<Rightarrow> date \<times> date \<Rightarrow> bool" where
  "apart p q \<longleftrightarrow> snd p < fst q \<or> snd q < fst p"

lemma already_billed_iff:
  "already_billed d c p \<longleftrightarrow> (\<exists>q\<in>set (billed (period_views d) c). \<not> apart q (due_start p, due_end p))"
proof -
  have "(\<exists>q\<in>set (billed (period_views d) c). P q) \<longleftrightarrow>
      (\<exists>r\<in>set (invoices d). inv_contractId r = Some c \<and> \<not> inv_deleted r \<and>
         (\<exists>a b. inv_periodStart r = Some a \<and> inv_periodEnd r = Some b \<and> P (a, b)))" for P
    by (auto simp: billed_def period_views_def period_view_def image_iff) (metis option.sel)+
  then show ?thesis unfolding already_billed_def apart_def
    by (simp add: not_less) blast
qed

lemma create_invoice_conflict: "create_invoice e d scope g ben input \<noteq> Inl UniqueViolation"
proof
  define ty where "ty = (case ci_invoiceType input of None \<Rightarrow> F1 | Some ty \<Rightarrow> ty)"
  assume "create_invoice e d scope g ben input = Inl UniqueViolation"
  then obtain t where "computeTotals (ci_items input) = Inl UniqueViolation \<or>
      (case create_tx e d scope g ben input ty t of
        Inl err \<Rightarrow> if err = UniqueViolation then Inl (ConflictException ''duplicate_period_invoice'') else Inl err
      | Inr (d', r) \<Rightarrow> Inr (audit ''invoice.created'' (inv_id r) d', r)) = Inl UniqueViolation"
    unfolding create_invoice_def Let_def ty_def [symmetric] by (auto simp: bindr_eq_Inl split: if_splits)
  then show False
    by (auto simp: computeTotals_def assertTotalInRange_def bindr_eq_Inl split: prod.splits sum.splits if_splits)
qed

text \<open>
  So the branch of the job that passes over a duplicate is never taken: the error that reaches it is
  the conflict the creation makes of it.
\<close>

lemma bill_period_never_passes: "bill_period e auto c sr p s \<noteq> (s', Inr False)"
  using create_invoice_conflict by (auto simp: bill_period_def Let_def split: prod.splits sum.splits)

lemma bill_contract_adds:
  assumes "bill_contract e auto period c s = (s', x)"
  shows "period_views (base s') = period_views (base s) \<and> x \<noteq> Inr True \<or>
      (\<exists>p. x = Inr True \<and> period_due (base s) c period = Some p \<and> \<not> already_billed (base s) (con_id c) p \<and>
         period_views (base s') = period_views (base s) @ [due_view c p])"
    and "has_default (base s) \<Longrightarrow> has_default (base s')"
  using assms bill_period_adds by (fastforce simp: bill_contract_def split: option.splits if_splits)+

text \<open>One period more, apart from those there are.\<close>

lemma billed_apart_step:
  assumes "sorted_wrt apart (billed (period_views d) k)" and "\<not> already_billed d (con_id c) p"
    and "period_views d' = period_views d @ [due_view c p]"
  shows "sorted_wrt apart (billed (period_views d') k)"
proof (cases "con_id c = k")
  case True
  then have "billed (period_views d') k = billed (period_views d) k @ [(due_start p, due_end p)]"
    using assms(3) by (simp add: billed_def due_view_def)
  then show ?thesis using assms(1,2) True by (auto simp: sorted_wrt_append already_billed_iff)
next
  case False
  then have "billed (period_views d') k = billed (period_views d) k"
    using assms(3) by (simp add: billed_def due_view_def)
  then show ?thesis using assms(1) by simp
qed

lemma bill_each_apart:
  "bill_each e auto period cs n s = (s', x) \<Longrightarrow> sorted_wrt apart (billed (period_views (base s)) k) \<Longrightarrow>
   sorted_wrt apart (billed (period_views (base s')) k)"
proof (induction e auto period cs n s rule: bill_each.induct)
  case (2 e auto period c cs n s)
  obtain s1 y where step: "bill_contract e auto period c s = (s1, y)" by force
  have one: "sorted_wrt apart (billed (period_views (base s1)) k)"
    using bill_contract_adds(1) [OF step] billed_apart_step [OF "2.prems"(2)] "2.prems"(2) by auto
  show ?case
  proof (cases y)
    case (Inl err)
    then show ?thesis using "2.prems" step one by simp
  next
    case (Inr made)
    then show ?thesis using "2.IH" [OF step [symmetric] Inr] "2.prems"(1) step one by simp
  qed
qed simp

text \<open>Monthly, the period depends only on the contract.\<close>

lemma monthly_due: "con_billingIntervalMonths c \<le> 1 \<Longrightarrow> period_due d c period = Option.bind (monthly_period c period) (until_end c)"
  by (simp add: period_due_def)

lemma billed_other: "period_views d' = period_views d @ [due_view c p] \<Longrightarrow> con_id c \<noteq> k \<Longrightarrow>
  billed (period_views d') k = billed (period_views d) k"
  by (simp add: billed_def due_view_def)

lemma bill_contract_other:
  assumes "bill_contract e auto period c s = (s', x)" and "con_id c \<noteq> k"
  shows "billed (period_views (base s')) k = billed (period_views (base s)) k"
  using bill_contract_adds(1) [OF assms(1)] billed_other [OF _ assms(2)] by auto

lemma bill_each_other:
  "bill_each e auto period cs n s = (s', x) \<Longrightarrow> k \<notin> con_id ` set cs \<Longrightarrow>
   billed (period_views (base s')) k = billed (period_views (base s)) k"
proof (induction e auto period cs n s rule: bill_each.induct)
  case (2 e auto period c cs n s)
  obtain s1 y where step: "bill_contract e auto period c s = (s1, y)" by force
  have one: "billed (period_views (base s1)) k = billed (period_views (base s)) k"
    using bill_contract_other [OF step] "2.prems"(2) by auto
  show ?case
  proof (cases y)
    case (Inl err)
    then show ?thesis using "2.prems" step one by simp
  next
    case (Inr made)
    then show ?thesis using "2.IH" [OF step [symmetric] Inr] "2.prems" step one by simp
  qed
qed simp

text \<open>What the contract has invoiced after its turn: the period due too, unless it was covered.\<close>

definition with_period :: "(date \<times> date) list \<Rightarrow> due_period \<Rightarrow> (date \<times> date) list" where
  "with_period qs p = (if \<exists>q\<in>set qs. \<not> apart q (due_start p, due_end p) then qs
     else qs @ [(due_start p, due_end p)])"

lemma bill_contract_done:
  assumes run: "bill_contract e auto period c s = (s', Inr y)" and default: "has_default (base s)"
    and due: "period_due (base s) c period = Some p"
  shows "billed (period_views (base s')) (con_id c) = with_period (billed (period_views (base s)) (con_id c)) p"
proof (cases "already_billed (base s) (con_id c) p")
  case True
  then have "s' = s" using run due by (simp add: bill_contract_def)
  then show ?thesis using True by (simp add: with_period_def already_billed_iff)
next
  case False
  then obtain sr where "bill_period e auto c sr p s = (s', Inr y)"
    using run default due by (auto simp: bill_contract_def has_default_iff)
  then have y using bill_period_never_passes by (cases y) auto
  then have "period_views (base s') = period_views (base s) @ [due_view c p]"
    using bill_contract_adds(1) [OF run] due by auto
  then show ?thesis using False by (simp add: with_period_def already_billed_iff billed_def due_view_def)
qed

lemma bill_each_done:
  "bill_each e auto period cs n s = (s', Inr m) \<Longrightarrow> has_default (base s) \<Longrightarrow> c \<in> set cs \<Longrightarrow>
   distinct (map con_id cs) \<Longrightarrow> con_billingIntervalMonths c \<le> 1 \<Longrightarrow> period_due d c period = Some p \<Longrightarrow>
   billed (period_views (base s')) (con_id c) = with_period (billed (period_views (base s)) (con_id c)) p"
proof (induction e auto period cs n s rule: bill_each.induct)
  case (2 e auto period c1 cs n s)
  obtain s1 y where step: "bill_contract e auto period c1 s = (s1, Inr y)"
    and rest: "bill_each e auto period cs (if y then Suc n else n) s1 = (s', Inr m)"
    using "2.prems"(1) by (auto split: prod.splits sum.splits)
  show ?case
  proof (cases "c = c1")
    case True
    have "period_due (base s) c1 period = Some p" using "2.prems"(5,6) True by (simp add: monthly_due)
    then have "billed (period_views (base s1)) (con_id c) = with_period (billed (period_views (base s)) (con_id c)) p"
      using bill_contract_done [OF step "2.prems"(2)] True by simp
    moreover have "con_id c \<notin> con_id ` set cs" using "2.prems"(4) True by auto
    ultimately show ?thesis using bill_each_other [OF rest] by simp
  next
    case False
    then have in_cs: "c \<in> set cs" "con_id c1 \<noteq> con_id c" using "2.prems"(3,4) by auto
    then show ?thesis
      using "2.IH" [OF step [symmetric] refl rest bill_contract_adds(2) [OF step "2.prems"(2)]] "2.prems"
        bill_contract_other [OF step in_cs(2)] by simp
  qed
qed simp

section \<open>What a run leaves alone\<close>

lemma claim_frame: "taken_off e c p d = (d', out) \<Longrightarrow> frame d d'"
  by (auto simp: taken_off_def Let_def frame_def split: prod.splits dest!: claimRewards_other
      dest: claimContractCredit_frame)

lemma settleRewards_frame [simp]: "frame d (settleRewards ids i d') \<longleftrightarrow> frame d d'"
  by (simp add: settleRewards_def frame_def)

lemma after_draft_frame: "frame d (after_draft e auto c ids i d)"
proof -
  have "frame d (fst (issue e None None False i (settleRewards ids (Some i) d)))"
    using frame_trans [OF _ issue_frame_fst, of d "settleRewards ids (Some i) d"] by simp
  then have draft: "frame d (if auto then fst (issue e None None False i (settleRewards ids (Some i) d)) else settleRewards ids (Some i) d)"
    by simp
  then show ?thesis
    using frame_update_contract [OF draft, of "\<lambda>r. r\<lparr>con_freeMonthsRemaining := con_freeMonthsRemaining r - 1\<rparr>" "con_id c"]
    by (simp add: after_draft_def Let_def con_view_def)
qed

lemma bill_period_frame:
  assumes "bill_period e auto c sr p s = (s', x)"
  shows "frame (base s) (base s') \<and> s' = s\<lparr>base := base s'\<rparr>"
proof -
  obtain d2 ids reward credit where off: "taken_off e c p (base s) = (d2, ids, reward, credit)"
    and made: "case create_invoice e d2 None None (recurring_benefits c credit) (recurring_input c sr p
           (recurring_lines s c p (toCents (euros (toCents (euros (base_rent c p)) - toCents (euros reward)))) reward credit)) of
         Inl err \<Rightarrow> s' = s\<lparr>base := restore_credit (con_id c) credit (settleRewards ids None d2)\<rparr> \<and> x \<noteq> Inr True
       | Inr (d3, r) \<Rightarrow> s' = s\<lparr>base := after_draft e auto c ids (inv_id r) d3\<rparr> \<and> x = Inr True"
    by (rule bill_period_parts [OF assms])
  have d2: "frame (base s) d2" using claim_frame [OF off] .
  then have undo: "frame (base s) (restore_credit (con_id c) credit (settleRewards ids None d2))"
    by (intro restore_credit_frame) simp
  show ?thesis
    using made undo frame_trans [OF frame_trans [OF d2 create_invoice_frame] after_draft_frame]
    by (auto split: sum.splits)
qed

lemma bill_each_frame: "bill_each e auto period cs n s = (s', x) \<Longrightarrow> frame (base s) (base s') \<and> s' = s\<lparr>base := base s'\<rparr>"
proof (induction e auto period cs n s rule: bill_each.induct)
  case (2 e auto period c cs n s)
  obtain s1 y where step: "bill_contract e auto period c s = (s1, y)" by force
  have one: "frame (base s) (base s1) \<and> s1 = s\<lparr>base := base s1\<rparr>"
    using step bill_period_frame by (auto simp: bill_contract_def split: option.splits if_splits)
  show ?case
  proof (cases y)
    case (Inl err)
    then show ?thesis using 2 step one by simp
  next
    case (Inr made)
    then have "frame (base s1) (base s') \<and> s' = s1\<lparr>base := base s'\<rparr>"
      using "2.IH" [OF step [symmetric] Inr] "2.prems" step by simp
    then show ?thesis using one frame_trans by (metis letting.update_convs(1) letting.surjective)
  qed
qed simp

text \<open>So for the letting services a run is one of the writes elsewhere.\<close>

lemma recurring_letting_step:
  assumes "processGenerateRecurring e asked s = (s', x)"
  shows "letting_step s s'"
proof -
  have "frame (base s) (base s')" and "s' = s\<lparr>base := base s'\<rparr>"
    using bill_each_frame assms unfolding processGenerateRecurring_def by blast+
  then show ?thesis using billing_elsewhere by metis
qed

section \<open>The journal of a run\<close>

lemma journal_other: "billing_step d (d\<lparr>contracts := cs, referrals := rf\<rparr>)"
proof -
  have "d\<lparr>contracts := cs, referrals := rf\<rparr> =
    d\<lparr>tenant := tenant d, owners := owners d, customers := customers d, facilities := facilities d, units := units d,
     contracts := cs, certificates := certificates d, referrals := rf, notifications := notifications d,
     remittance_items := remittance_items d, dunning_actions := dunning_actions d\<rparr>" by simp
  then show ?thesis by (metis billing_step.other_tables)
qed

lemma journal_contracts: "billing_step d (update_contract i f d)"
  using journal_other [where d = d and cs = "update_many (\<lambda>r. con_id r = i) f (contracts d)" and rf = "referrals d"] by (simp add: update_contract_def)

lemma journal_referrals: "billing_step d (d\<lparr>referrals := rf\<rparr>)"
  using journal_other [where d = d and cs = "contracts d" and rf = rf] by simp

lemma journal_taken_off: "taken_off e c p d = (d', out) \<Longrightarrow> billing_step\<^sup>*\<^sup>* d d'"
  by (auto simp: taken_off_def Let_def split: prod.splits dest!: claimRewards_other claimContractCredit_other
      intro: journal_contracts journal_referrals converse_rtranclp_into_rtranclp)

lemma journal_issue: "billing_step\<^sup>*\<^sup>* d (fst (issue e scope doc z i d))"
proof (cases "findOrThrow d scope i")
  case (Inr ex)
  then have "current_snapshot ex d"
    by (rule findOrThrow_in(3))
  then show ?thesis
    using billing_step.issue [of ex d e doc z] Inr by (auto simp: issue_def intro: r_into_rtranclp split: prod.splits) (metis prod.collapse r_into_rtranclp)
qed (simp add: issue_def)

lemma journal_settle: "billing_step\<^sup>*\<^sup>* d (settleRewards ids i d)"
  unfolding settleRewards_def using journal_referrals by blast

lemma journal_restore: "billing_step\<^sup>*\<^sup>* d (restore_credit c k d)"
  using journal_contracts by (auto simp: restore_credit_def)

lemma journal_after_draft: "billing_step\<^sup>*\<^sup>* d (after_draft e auto c ids i d)"
proof -
  have a: "billing_step\<^sup>*\<^sup>* d (settleRewards ids (Some i) d)"
    by (rule journal_settle)
  have b: "billing_step\<^sup>*\<^sup>* d (if auto then fst (issue e None None False i (settleRewards ids (Some i) d)) else settleRewards ids (Some i) d)"
    using rtranclp_trans [OF a journal_issue] a by simp
  show ?thesis
    using b rtranclp.rtrancl_into_rtrancl [OF b journal_contracts] by (simp add: after_draft_def Let_def)
qed

lemma journal_bill_period:
  assumes "bill_period e auto c sr p s = (s', x)"
  shows "billing_step\<^sup>*\<^sup>* (base s) (base s')"
proof -
  obtain d2 ids reward credit where off: "taken_off e c p (base s) = (d2, ids, reward, credit)"
    and made: "case create_invoice e d2 None None (recurring_benefits c credit) (recurring_input c sr p
           (recurring_lines s c p (toCents (euros (toCents (euros (base_rent c p)) - toCents (euros reward)))) reward credit)) of
         Inl err \<Rightarrow> s' = s\<lparr>base := restore_credit (con_id c) credit (settleRewards ids None d2)\<rparr> \<and> x \<noteq> Inr True
       | Inr (d3, r) \<Rightarrow> s' = s\<lparr>base := after_draft e auto c ids (inv_id r) d3\<rparr> \<and> x = Inr True"
    by (rule bill_period_parts [OF assms])
  have undo: "billing_step\<^sup>*\<^sup>* d2 (restore_credit (con_id c) credit (settleRewards ids None d2))"
    using journal_settle journal_restore rtranclp_trans by metis
  show ?thesis
    using made rtranclp_trans [OF journal_taken_off [OF off] undo]
      rtranclp_trans [OF rtranclp.rtrancl_into_rtrancl [OF journal_taken_off [OF off] billing_step.create] journal_after_draft]
    by (auto split: sum.splits)
qed

lemma journal_bill_each: "bill_each e auto period cs n s = (s', x) \<Longrightarrow> billing_step\<^sup>*\<^sup>* (base s) (base s')"
proof (induction e auto period cs n s rule: bill_each.induct)
  case (2 e auto period c cs n s)
  obtain s1 y where step: "bill_contract e auto period c s = (s1, y)" by force
  have one: "billing_step\<^sup>*\<^sup>* (base s) (base s1)"
    using step journal_bill_period by (auto simp: bill_contract_def split: option.splits if_splits)
  show ?case
    using "2.IH" [OF step [symmetric]] "2.prems" step one by (cases y) (auto intro: rtranclp_trans)
qed simp
end
