(* ===== verification/RecurringProperties.thy ===== *)
theory RecurringProperties imports RecurringFacts
begin

text \<open>
  The properties of the recurring billing: no day of a contract is invoiced twice, no contract due is
  left out, the rent of the period is charged exactly once whatever is taken off it, and a run keeps the
  books and the units in order.
\<close>

section \<open>Periods\<close>

text \<open>
  C7: No day of a contract is invoiced twice: if the periods invoiced of a contract do not overlap
  before a run of the job, for whatever period and whether or not the run ends in an error, they do not
  overlap after it.
\<close>

theorem recurring_never_bills_twice:
  assumes "processGenerateRecurring e asked s = (s', x)"
    and "sorted_wrt apart (billed (period_views (base s)) c)"
  shows "sorted_wrt apart (billed (period_views (base s')) c)"
  using bill_each_apart assms unfolding processGenerateRecurring_def by blast

lemma billable_distinct: "distinct (map con_id (contracts d)) \<Longrightarrow> distinct (map con_id (billable_contracts d))"
  by (simp add: billable_contracts_def distinct_map_filter)

text \<open>
  C8: No contract due is left out: after a run that ends well, with a default series, the periods
  invoiced of a contract in force that pays by the month (the first and last day of its invoices that
  are not deleted) are those there were and, exactly, the period due, from its first day to its last.
  Only when an invoice there was already covers a day of that period (even a draft that was cancelled
  and kept) nothing is added.
\<close>

theorem recurring_bills_every_contract:
  assumes run: "processGenerateRecurring e asked s = (s', Inr n)" and "has_default (base s)"
    and "c \<in> set (billable_contracts (base s))" and "con_billingIntervalMonths c \<le> 1"
    and "period_due (base s) c (resolvePeriod e asked) = Some p" and "distinct (map con_id (contracts (base s)))"
  shows "billed (period_views (base s')) (con_id c) = billed (period_views (base s)) (con_id c) @
      (if already_billed (base s) (con_id c) p then [] else [(due_start p, due_end p)])"
  using bill_each_done [OF run [unfolded processGenerateRecurring_def] assms(2,3) billable_distinct [OF assms(6)] assms(4,5)]
  by (simp add: with_period_def already_billed_iff)

section \<open>The rent\<close>

lemma fl_unit: "0 \<le> x \<Longrightarrow> x \<le> 1 \<Longrightarrow> 0 \<le> fl x \<and> fl x \<le> 1"
  using fl_nonneg fl_mono_nonneg [of x 1] fl_of_int [of 1] by simp

lemma fl_below:
  assumes "0 \<le> x" and "x \<le> of_int k" and "\<bar>k\<bar> \<le> 200000000000000"
  shows "0 \<le> fl x \<and> fl x \<le> of_int k"
  using fl_nonneg [OF assms(1)] fl_mono_nonneg [OF assms(1,2)] of_int_le_2_53 [OF assms(3)] by simp

lemma scaled_below:
  assumes "0 \<le> a" and "a \<le> of_int k" and "0 \<le> q" and "q \<le> 1" and "\<bar>k\<bar> \<le> 200000000000000"
  shows "0 \<le> nmul a q \<and> nmul a q \<le> of_int k"
proof -
  have "a * q \<le> a" using assms(1,4) by (simp add: mult_left_le)
  then show ?thesis unfolding nmul_def using assms by (intro fl_below) auto
qed

lemma due_factor_unit: "due_start p \<le> due_end p \<Longrightarrow> 0 \<le> due_factor p \<and> due_factor p \<le> 1"
  unfolding due_factor_def Let_def ndiv_def
  by (auto simp: daysBetween_def divide_le_eq intro!: fl_unit)

lemma math_round_below: "0 \<le> x \<Longrightarrow> x \<le> of_int k \<Longrightarrow> 0 \<le> math_round x \<and> math_round x \<le> k"
  unfolding math_round_def by (auto simp: le_floor_iff floor_less_iff intro: floor_le_iff [THEN iffD2])

lemma base_rent_bounded:
  assumes "0 \<le> month_cents c" and "0 \<le> con_billingIntervalMonths c"
    and small: "month_cents c * con_billingIntervalMonths c \<le> 100000000000000"
    and "0 \<le> con_prepayDiscountPct c" and "con_prepayDiscountPct c \<le> 100" and "due_start p \<le> due_end p"
  shows "0 \<le> base_rent c p \<and> base_rent c p \<le> month_cents c * con_billingIntervalMonths c"
proof -
  let ?k = "month_cents c * con_billingIntervalMonths c"
  have k: "0 \<le> ?k" "\<bar>?k\<bar> \<le> 200000000000000" using assms by simp_all
  have nn: "(0 :: rat) \<le> of_int ?k" using k(1) by (simp only: of_int_0_le_iff)
  have whole: "nmul (of_int (month_cents c)) (of_int (con_billingIntervalMonths c)) = of_int ?k"
    unfolding nmul_def using of_int_le_2_53 [OF k(2)] by simp
  have "0 \<le> ndiv (prepay_pct c) 100 \<and> ndiv (prepay_pct c) 100 \<le> 1"
    unfolding ndiv_def using assms(4,5) by (intro fl_unit) (auto simp: prepay_pct_def)
  then have "0 \<le> nsub 1 (ndiv (prepay_pct c) 100) \<and> nsub 1 (ndiv (prepay_pct c) 100) \<le> 1"
    unfolding nsub_def by (intro fl_unit) auto
  then have "0 \<le> nmul (of_int ?k) (nsub 1 (ndiv (prepay_pct c) 100)) \<and> nmul (of_int ?k) (nsub 1 (ndiv (prepay_pct c) 100)) \<le> of_int ?k"
    by (intro scaled_below [OF nn order_refl _ _ k(2)]) simp_all
  then have "0 \<le> nmul (nmul (of_int ?k) (nsub 1 (ndiv (prepay_pct c) 100))) (due_factor p) \<and>
      nmul (nmul (of_int ?k) (nsub 1 (ndiv (prepay_pct c) 100))) (due_factor p) \<le> of_int ?k"
    using due_factor_unit [OF assms(6)] k by (intro scaled_below) auto
  note bound = math_round_below [OF conjunct1 [OF this] conjunct2 [OF this]]
  show ?thesis
  proof (cases "is_free_month c")
    case True
    then show ?thesis using k(1) by (simp add: base_rent_def)
  next
    case False
    then show ?thesis using bound by (simp only: base_rent_def whole if_False)
  qed
qed

lemma claim_rewards_bounded:
  "claim_rewards e rent rs ids taken d = (d', ids', reward) \<Longrightarrow> 0 \<le> taken \<Longrightarrow> taken \<le> rent \<Longrightarrow>
   taken \<le> reward \<and> reward \<le> rent"
proof (induction e rent rs ids taken d rule: claim_rewards.induct)
  case (2 e rent r rs ids taken d)
  let ?k = "reward_cents rent r"
  show ?case
  proof (cases "?k \<le> 0 \<or> rent < taken + ?k \<or>
      count_rows (\<lambda>x. rfr_id x = rfr_id r \<and> rfr_rewardAppliedAt x = None) (referrals d) = 0")
    case True
    then have "claim_rewards e rent rs ids taken d = (d', ids', reward)" using "2.prems"(1) by (auto simp: Let_def split: if_splits)
    then show ?thesis using "2.IH" "2.prems"(2,3) True by (auto simp: Let_def)
  next
    case False
    then have "taken + ?k \<le> reward \<and> reward \<le> rent"
      using "2.IH"(3) [OF refl refl] "2.prems" by (simp add: Let_def)
    then show ?thesis using False by simp
  qed
qed simp


lemma math_round_euros:
  assumes "\<bar>n\<bar> \<le> 100000000000000"
  shows "math_round (nmul (euros n) 100) = n"
proof -
  have e: "\<bar>euros n * 100 - of_int n\<bar> \<le> 1 / 10" using euros_error [OF assms] by linarith
  then have "\<bar>euros n * 100\<bar> \<le> 500000000000000" using of_int_bound [OF assms] by linarith
  then have "\<bar>nmul (euros n) 100 - euros n * 100\<bar> \<le> 1 / 16"
    unfolding nmul_def by (rule fl_near)
  then have "\<bar>nmul (euros n) 100 - of_int n\<bar> \<le> 1 / 4" using e by linarith
  then show ?thesis by (intro math_round_eqI) linarith+
qed

text \<open>
  C9: The rent of the period is charged exactly once: what the rent line of a recurring invoice charges,
  what the rewards for recommendations take off and what is taken from the balance of the contract add
  up, to the cent, to the rent of the period; none of the three is negative, the balance gives the least
  of what it has and what is left; and the rent is never more than the price of the months it covers.
\<close>

theorem recurring_rent_exact:
  assumes off: "taken_off e c p d = (d', ids, reward, credit)"
    and con: "find_contract d (con_id c) = Some r" and "0 \<le> con_pendingCredit r"
    and price: "0 \<le> month_cents c" "0 \<le> con_billingIntervalMonths c"
      "month_cents c * con_billingIntervalMonths c \<le> 100000000000000"
      "0 \<le> con_prepayDiscountPct c" "con_prepayDiscountPct c \<le> 100" "due_start p \<le> due_end p"
    and lines: "l # ls = recurring_lines s c p (base_rent c p - reward) reward credit"
  shows "rent_line_cents l + reward + clc_cents credit = base_rent c p \<and>
    0 \<le> rent_line_cents l \<and> 0 \<le> reward \<and> clc_cents credit = min (con_pendingCredit r) (base_rent c p - reward) \<and>
    0 \<le> base_rent c p \<and> base_rent c p \<le> month_cents c * con_billingIntervalMonths c"
proof -
  note rent = base_rent_bounded [OF price]
  have small: "\<bar>base_rent c p\<bar> \<le> 100000000000000" using rent price(3) by linarith
  obtain d1 where claim: "claimRewardsForInvoice e (con_customerId c) (euros (base_rent c p)) d = (d1, ids, reward)"
    and credit: "claimContractCredit (con_id c) (toCents (euros (toCents (euros (base_rent c p)) - toCents (euros reward)))) d1 = (d', credit)"
    using off by (auto simp: taken_off_def Let_def split: prod.splits)
  have reward: "0 \<le> reward \<and> reward \<le> base_rent c p"
  proof (cases "euros (base_rent c p) \<le> 0")
    case True
    then show ?thesis using claim rent by (simp add: claimRewardsForInvoice_def)
  next
    case False
    have "claim_rewards e (base_rent c p) (pending_rewards d (con_customerId c)) [] 0 d = (d1, ids, reward)"
      using claim False math_round_euros [OF small] by (simp add: claimRewardsForInvoice_def)
    then show ?thesis using claim_rewards_bounded rent by fastforce
  qed
  have cents: "toCents (euros (toCents (euros (base_rent c p)) - toCents (euros reward))) = base_rent c p - reward"
    using reward small by (simp add: toCents_euros)
  obtain rf where "d1 = d\<lparr>referrals := rf\<rparr>" using claimRewards_other [OF claim] by blast
  then have "find_contract d1 (con_id c) = Some r" using con by (simp add: find_contract_def)
  then have k: "clc_cents credit = min (con_pendingCredit r) (base_rent c p - reward)"
    using claimed_amount(1) [of "con_id c" "base_rent c p - reward" d1 d' credit r] credit cents assms(3) reward by simp
  have "rent_line_cents l = base_rent c p - reward - clc_cents credit"
  proof -
    have "\<bar>base_rent c p - reward - clc_cents credit\<bar> \<le> 100000000000000"
      using k reward small assms(3) by (simp add: min_def split: if_splits)
    then show ?thesis using lines by (simp add: recurring_lines_def rent_line_cents_line)
  qed
  then show ?thesis using k reward rent assms(3) by simp
qed

text \<open>
  A run of the job keeps the books and the units in order: it is made of steps of the journal of
  billing, so in every state they lead to the numbers of the invoices stay without gaps and the records
  chained; and for the letting services it is a write that moves nobody.
\<close>

theorem recurring_keeps_books:
  assumes "processGenerateRecurring e asked s = (s', x)"
  shows "billing_step\<^sup>*\<^sup>* (base s) (base s') \<and> letting_step s s' \<and> units (base s') = units (base s)"
proof (intro conjI)
  show "billing_step\<^sup>*\<^sup>* (base s) (base s')"
    using journal_bill_each assms unfolding processGenerateRecurring_def by blast
  show "letting_step s s'" by (rule recurring_letting_step [OF assms])
  show "units (base s') = units (base s)"
    using bill_each_frame assms unfolding processGenerateRecurring_def frame_def by blast
qed

section \<open>A month of one tenant\<close>

definition demo_rented :: contract_row where
  "demo_rented = demo_contract\<lparr>con_status := Con_active, con_startDate := 20000\<rparr>"

definition demo_month :: letting where
  "demo_month = over_base (\<lambda>d. d\<lparr>contracts := [demo_rented], series := [demo_row], next_id := 8,
     customers := [\<lparr>cus_id = 3, cus_documentNumber = None, cus_country = None, cus_depositExempt = False,
       cus_isTest = False, cus_deleted = False\<rparr>]\<rparr>) demo_letting"

lemma demo_rent_cents: "month_cents demo_rented = 5000"
  using demo_month_cents by (simp add: month_cents_def demo_rented_def demo_credit_contract_def)

lemma demo_rounds: "math_round (nmul (nmul (nmul 5000 1) (nsub 1 (ndiv 0 100))) 1) = 5000"
proof -
  have "nsub 1 (ndiv 0 100) = 1" using fl_of_int [of 1] by (simp add: nsub_def ndiv_def)
  moreover have "nmul 5000 1 = 5000" using fl_of_int [of 5000] by (simp add: nmul_def)
  ultimately show ?thesis using math_round_eqI [of 5000 5000] by simp
qed

lemma demo_due: "period_due (base demo_month) demo_rented (20454, 20484) =
    Some \<lparr>due_start = 20454, due_end = 20484, due_fullDays = 31\<rparr>"
  by (simp add: period_due_def monthly_period_def until_end_def demo_rented_def demo_contract_def default_contract_def daysBetween_def)

lemma demo_base_rent: "base_rent demo_rented \<lparr>due_start = 20454, due_end = 20484, due_fullDays = 31\<rparr> = 5000"
  using demo_rounds
  by (simp add: base_rent_def is_free_month_def demo_rent_cents prepay_pct_def due_factor_def daysBetween_def)
    (simp add: demo_rented_def demo_contract_def default_contract_def)

lemma demo_billable: "billable_contracts (base demo_month) = [demo_rented]" "has_default (base demo_month)"
  by (simp_all add: billable_contracts_def demo_month_def demo_rented_def is_started_def is_live_def isPendingPreOpening_def
      no_opening_def find_customer_def has_default_def is_default_series_def demo_row_def default_series_def)


lemma demo_month_sel:
  "referrals (base demo_month) = []" "contracts (base demo_month) = [demo_rented]" "series (base demo_month) = [demo_row]"
  "invoices (base demo_month) = []" "next_id (base demo_month) = 8" "con_id demo_rented = 7" "con_customerId demo_rented = 3"
  "insurance_plans demo_month = []" "con_pendingCredit demo_rented = 0" "con_billingIntervalMonths demo_rented = 1"
  "con_ownerId demo_rented = None" "\<not> con_deleted demo_rented" "con_insurancePlanId demo_rented = None"
  by (simp_all add: demo_month_def demo_letting_def demo_db0_def empty_db_def demo_rented_def demo_contract_def default_contract_def)

abbreviation demo_period :: due_period where
  "demo_period \<equiv> \<lparr>due_start = 20454, due_end = 20484, due_fullDays = 31\<rparr>"

lemma demo_taken: "claimRewardsForInvoice demo_env 3 (euros 5000) (base demo_month) = (base demo_month, [], 0)"
  "claimContractCredit 7 5000 (base demo_month) = (base demo_month, no_credit)" "euros 0 = 0"
  by (simp_all add: claimRewardsForInvoice_def pending_rewards_def demo_month_sel claimContractCredit_def find_contract_def euros_def ndiv_def)

definition demo_rent_line :: item_input where
  "demo_rent_line = hd (recurring_lines demo_month demo_rented demo_period 5000 0 no_credit)"

lemma demo_housing: "contract_housing demo_month demo_rented = False"
  by (simp add: contract_housing_def find_unit_def demo_month_def demo_rented_def demo_unit_def)

lemma demo_rent_line: "recurring_lines demo_month demo_rented demo_period 5000 0 no_credit = [demo_rent_line]"
  "ii_quantity demo_rent_line = 1" "ii_unitPrice demo_rent_line = euros 5000" "ii_taxRate demo_rent_line = 21"
  "ii_taxCategory demo_rent_line = Some S1"
  by (simp_all add: demo_rent_line_def recurring_lines_def insurance_line_def demo_month_sel demo_housing rent_line_def
      no_credit_def rentTax_def)

lemma demo_rent_total: "input_line demo_rent_line = \<lparr>baseCents = 5000, taxCents = 1050, totalCents = 6050\<rparr>"
  using lineCents_exact [of 1 5000 21] by (simp add: input_line_def demo_rent_line half_away_def)

lemma demo_zero: "toCents 0 = 0"
  using toCents_euros [of 0] by (simp add: demo_taken)

lemma demo_rent_row: "\<exists>r. item_rows (toItemCreateData 8) [demo_rent_line] 0 = Inr [r]"
  by (simp add: toItemCreateData_def demo_rent_total demo_rent_line lineTaxCategory_def taxCategoryAllowsRate_def Let_def)

lemma demo_bill:
  "\<exists>s'. bill_period demo_env False demo_rented 1 demo_period demo_month = (s', Inr True)"
proof -
  let ?i = "recurring_input demo_rented 1 demo_period [demo_rent_line]"
  obtain r where row: "item_rows (toItemCreateData 8) [demo_rent_line] 0 = Inr [r]" using demo_rent_row by blast
  have who: "customers (base demo_month) = [\<lparr>cus_id = 3, cus_documentNumber = None, cus_country = None, cus_depositExempt = False,
       cus_isTest = False, cus_deleted = False\<rparr>]" by (simp add: demo_month_def)
  have "\<exists>y. create_invoice demo_env (base demo_month) None None (recurring_benefits demo_rented no_credit) ?i = Inr y"
    by (simp add: create_invoice_def recurring_input_def demo_month_sel computeTotals_def demo_rent_total
      assertTotalInRange_def MAX_INVOICE_TOTAL_CENTS_def create_tx_def who customer_in_scope_def create_owner_def
      create_series_for_def find_series_def owner_default_series_def insert_invoice_def row violates_unique_def Let_def
      demo_row_def default_series_def del: item_rows.simps)
  then show ?thesis
    by (auto simp: bill_period_def demo_base_rent demo_taken demo_month_sel demo_rent_line demo_zero Let_def split: prod.splits)
qed


lemma demo_run: "\<exists>s'. processGenerateRecurring demo_env (Some (20454, 20484)) demo_month = (s', Inr 1)"
proof -
  obtain s' where bill: "bill_period demo_env False demo_rented 1 demo_period demo_month = (s', Inr True)" using demo_bill by blast
  have "getDefault (base demo_month) = Some demo_row" and "ser_id demo_row = 1"
    by (simp_all add: getDefault_def demo_month_sel demo_row_def default_series_def)
  moreover have "\<not> already_billed (base demo_month) 7 demo_period" by (simp add: already_billed_def demo_month_sel)
  moreover have "\<not> ten_autoIssueRecurring (tenant (base demo_month))"
    by (simp add: demo_month_def demo_letting_def demo_db0_def demo_tenant_def default_tenant_def)
  ultimately show ?thesis
    using bill by (simp add: processGenerateRecurring_def demo_billable resolvePeriod_def bill_contract_def demo_due demo_month_sel)
qed

lemma recurring_never_bills_twice_witness:
  "\<exists>s'. processGenerateRecurring demo_env (Some (20454, 20484)) demo_month = (s', Inr 1) \<and>
     sorted_wrt apart (billed (period_views (base s')) 7)"
proof -
  obtain s' where run: "processGenerateRecurring demo_env (Some (20454, 20484)) demo_month = (s', Inr 1)" using demo_run by blast
  have "sorted_wrt apart (billed (period_views (base demo_month)) 7)" by (simp add: period_views_def demo_month_sel billed_def)
  then show ?thesis using recurring_never_bills_twice [OF run] run by blast
qed

lemma recurring_bills_every_contract_witness:
  "\<exists>s'. processGenerateRecurring demo_env (Some (20454, 20484)) demo_month = (s', Inr 1) \<and>
     billed (period_views (base s')) 7 = [(20454, 20484)]"
proof -
  obtain s' where run: "processGenerateRecurring demo_env (Some (20454, 20484)) demo_month = (s', Inr 1)" using demo_run by blast
  have "billed (period_views (base demo_month)) 7 = []" and "\<not> already_billed (base demo_month) 7 demo_period"
    by (simp_all add: period_views_def demo_month_sel billed_def already_billed_def)
  then show ?thesis
    using recurring_bills_every_contract [OF run demo_billable(2), of demo_rented demo_period] run
    by (simp add: demo_billable demo_month_sel resolvePeriod_def demo_due)
qed

lemma recurring_rent_exact_witness: "rent_line_cents demo_rent_line = 5000"
proof -
  have off: "taken_off demo_env demo_rented demo_period (base demo_month) = (base demo_month, [], 0, no_credit)"
    by (simp add: taken_off_def demo_base_rent demo_taken demo_month_sel demo_zero)
  have con: "find_contract (base demo_month) (con_id demo_rented) = Some demo_rented" by (simp add: find_contract_def demo_month_sel)
  have pct: "con_prepayDiscountPct demo_rented = 0" and k: "clc_cents no_credit = 0"
    by (simp_all add: demo_rented_def demo_contract_def default_contract_def no_credit_def)
  show ?thesis
    using recurring_rent_exact [OF off con, of demo_rent_line "[]" demo_month] pct k
    by (simp add: demo_month_sel demo_rent_cents demo_base_rent demo_rent_line)
qed

lemma recurring_keeps_books_witness:
  "\<exists>s'. processGenerateRecurring demo_env (Some (20454, 20484)) demo_month = (s', Inr 1) \<and>
     billing_step\<^sup>*\<^sup>* (base demo_month) (base s') \<and> letting_step demo_month s'"
proof -
  obtain s' where run: "processGenerateRecurring demo_env (Some (20454, 20484)) demo_month = (s', Inr 1)" using demo_run by blast
  then show ?thesis using recurring_keeps_books [OF run] by blast
qed


text \<open>
  An invoice of the contract with the first day of its period and not the last one is not seen by the
  check for overlaps but is by the unique index: the conflict it gives ends the run, and the contracts
  after this one are not invoiced.
\<close>

definition demo_open_period :: letting where
  "demo_open_period = over_base (\<lambda>d. d\<lparr>invoices := [default_invoice\<lparr>inv_id := 5, inv_contractId := Some 7,
     inv_status := Issued, inv_number := ''FA1'', inv_periodStart := Some 20454\<rparr>]\<rparr>) demo_month"

lemma open_period_stops_run:
  "\<exists>s'. processGenerateRecurring demo_env (Some (20454, 20484)) demo_open_period =
     (s', Inl (ConflictException ''duplicate_period_invoice''))"
proof -
  have same: "customers (base demo_open_period) = customers (base demo_month)" "contracts (base demo_open_period) = [demo_rented]"
    "series (base demo_open_period) = [demo_row]" "tenant (base demo_open_period) = tenant (base demo_month)"
    "units (base demo_open_period) = units (base demo_month)" "next_id (base demo_open_period) = 8"
    "referrals (base demo_open_period) = []"
    by (simp_all add: demo_open_period_def demo_month_sel)
  have line: "recurring_lines demo_open_period demo_rented demo_period 5000 0 no_credit = [demo_rent_line]"
    using demo_rent_line(1) demo_housing
    by (simp add: recurring_lines_def insurance_line_def demo_month_sel contract_housing_def find_unit_def same)
  have "create_invoice demo_env (base demo_open_period) None None (recurring_benefits demo_rented no_credit)
      (recurring_input demo_rented 1 demo_period [demo_rent_line]) = Inl (ConflictException ''duplicate_period_invoice'')"
  proof -
    obtain r where row: "item_rows (toItemCreateData 8) [demo_rent_line] 0 = Inr [r]" using demo_rent_row by blast
    have who: "customers (base demo_month) = [\<lparr>cus_id = 3, cus_documentNumber = None, cus_country = None, cus_depositExempt = False,
       cus_isTest = False, cus_deleted = False\<rparr>]" by (simp add: demo_month_def)
    have inv: "invoices (base demo_open_period) = [default_invoice\<lparr>inv_id := 5, inv_contractId := Some 7,
       inv_status := Issued, inv_number := ''FA1'', inv_periodStart := Some 20454\<rparr>]" by (simp add: demo_open_period_def)
    show ?thesis
      by (simp add: create_invoice_def recurring_input_def demo_month_sel computeTotals_def demo_rent_total
        assertTotalInRange_def MAX_INVOICE_TOTAL_CENTS_def create_tx_def same who customer_in_scope_def create_owner_def
        create_series_for_def find_series_def owner_default_series_def insert_invoice_def row violates_unique_def recurring_key_def
        inv Let_def demo_row_def default_series_def default_invoice_def del: item_rows.simps)
  qed
  moreover have "claimRewardsForInvoice demo_env 3 (euros 5000) (base demo_open_period) = (base demo_open_period, [], 0)"
    "claimContractCredit 7 5000 (base demo_open_period) = (base demo_open_period, no_credit)"
    by (simp_all add: claimRewardsForInvoice_def pending_rewards_def same demo_month_sel claimContractCredit_def find_contract_def)
  ultimately have bill: "\<exists>s'. bill_period demo_env False demo_rented 1 demo_period demo_open_period =
      (s', Inl (ConflictException ''duplicate_period_invoice''))"
    using line by (simp add: bill_period_def demo_base_rent demo_taken demo_month_sel demo_zero Let_def)
  have "getDefault (base demo_open_period) = Some demo_row" and "ser_id demo_row = 1"
    by (simp_all add: getDefault_def same demo_row_def default_series_def)
  moreover have "\<not> already_billed (base demo_open_period) 7 demo_period"
    by (simp add: already_billed_def demo_open_period_def default_invoice_def)
  moreover have "\<not> ten_autoIssueRecurring (tenant (base demo_open_period))"
    by (simp add: same demo_month_def demo_letting_def demo_db0_def demo_tenant_def default_tenant_def)
  moreover have "billable_contracts (base demo_open_period) = [demo_rented]" and
    "period_due (base demo_open_period) demo_rented (20454, 20484) = Some demo_period"
    using demo_billable(1) demo_due by (simp_all add: billable_contracts_def find_customer_def same demo_month_sel monthly_due)
  ultimately show ?thesis
    using bill by (auto simp: processGenerateRecurring_def resolvePeriod_def bill_contract_def demo_month_sel)
qed

end
