(* ===== verification/SepaRules.thy ===== *)
theory SepaRules imports Strings begin

text \<open>
  The rules of a file of direct debits (\<open>packages/shared/src/sepa/collection.ts\<close>, \<open>sepa/index.ts\<close>,
  \<open>sepa/mandate.ts\<close>): the days on which banks settle (TARGET2), the checks of a collection date, the
  life of a mandate, the check digits of an IBAN and of a creditor, and the texts a file admits. A day
  written \<open>YYYY-MM-DD\<close> is its day number; such texts are compared as the days they name.
\<close>

section \<open>Business days\<close>

text \<open>\<open>easterSunday\<close>: the anonymous Gregorian algorithm.\<close>

definition easterSunday :: "int \<Rightarrow> int" where
  "easterSunday year =
     (let a = year mod 19; b = year div 100; c = year mod 100; d = b div 4; e = b mod 4;
          f = (b + 8) div 25; g = (b - f + 1) div 3; h = (19 * a + b - d - g + 15) mod 30;
          i = c div 4; k = c mod 4; l = (32 + 2 * e + 2 * i - h - k) mod 7;
          m = (a + 11 * h + 22 * l) div 451;
          month = (h + l - 7 * m + 114) div 31; day = (h + l - 7 * m + 114) mod 31 + 1
      in make_date year (month - 1) day)"

definition fixed_holidays :: "(int \<times> int) list" where
  "fixed_holidays = [(0, 1), (4, 1), (11, 25), (11, 26)]"

definition isTargetHoliday :: "int \<Rightarrow> bool" where
  "isTargetHoliday d \<longleftrightarrow>
     (month_of d, date_of d) \<in> set fixed_holidays \<or>
     (let easter = easterSunday (year_of d) in d = easter - 2 \<or> d = easter + 1)"

text \<open>\<open>getUTCDay\<close>: the epoch was a Thursday.\<close>

definition weekday :: "int \<Rightarrow> int" where "weekday d = (d + 4) mod 7"

definition isSepaBusinessDay :: "int \<Rightarrow> bool" where
  "isSepaBusinessDay d \<longleftrightarrow> weekday d \<noteq> 0 \<and> weekday d \<noteq> 6 \<and> \<not> isTargetHoliday d"

text \<open>
  The loop of \<open>nextSepaBusinessDay\<close> ends because there are more working days in the weeks to come than
  holidays in two years.
\<close>

definition holidays_of :: "int \<Rightarrow> int list" where
  "holidays_of y = map (\<lambda>(m, k). make_date y m k) fixed_holidays @ [easterSunday y - 2, easterSunday y + 1]"

lemma holiday_listed: "isTargetHoliday d \<Longrightarrow> d \<in> set (holidays_of (year_of d))"
  using make_date_fields [of d]
  by (auto simp: isTargetHoliday_def holidays_of_def Let_def image_iff intro!: bexI [of _ "(month_of d, date_of d)"])

lemma year_within: "d \<le> x \<Longrightarrow> x \<le> d + 22 \<Longrightarrow> year_of x = year_of d \<or> year_of x = year_of d + 1"
proof -
  assume x: "d \<le> x" "x \<le> d + 22"
  have "d < day_from_year (year_of d + 1)" by (rule year_of_bounds)
  then have "x < day_from_year (year_of d + 1 + 1)"
    using x day_from_year_Suc [of "year_of d + 1"] by (simp split: if_splits)
  then have "year_of x < year_of d + 2"
    using year_of_bounds(1) [of x] day_from_year_mono [of "year_of d + 2" "year_of x"]
    by (cases "year_of d + 2 \<le> year_of x") (simp_all add: add.commute)
  then show ?thesis using year_of_mono [OF x(1)] by linarith
qed

text \<open>The working days of two weeks and a half, from the first Monday on.\<close>

lemma weekdays_of_weeks:
  assumes "weekday m = 1"
  shows "\<forall>k\<in>{0, 1, 2, 3, 4, 7, 8, 9, 10, 11, 14, 15, 16}. weekday (m + k) \<noteq> 0 \<and> weekday (m + k) \<noteq> 6"
proof -
  have "(m + 4 + k) mod 7 = (1 + k) mod 7" for k
    using assms mod_add_left_eq [of "m + 4" 7 k] by (simp add: weekday_def)
  then have "weekday (m + k) = (1 + k) mod 7" for k by (simp add: weekday_def algebra_simps)
  then show ?thesis by simp
qed

lemma business_day_ahead: "\<exists>n\<le>22. isSepaBusinessDay (d + int n)"
proof (rule ccontr)
  assume none: "\<not> ?thesis"
  define m where "m = d + (4 - d) mod 7"
  have "m + 4 = (d + (4 - d) mod 7) + 4" by (simp add: m_def)
  have "(d + (4 - d) mod 7 + 4) mod 7 = (d + (4 - d) + 4) mod 7" by (metis mod_add_cong mod_mod_trivial)
  then have monday: "weekday m = 1" by (simp add: weekday_def m_def)
  have m: "d \<le> m" "m \<le> d + 6" by (simp_all add: m_def)
  define K :: "int set" where "K = {0, 1, 2, 3, 4, 7, 8, 9, 10, 11, 14, 15, 16}"
  let ?H = "set (holidays_of (year_of d) @ holidays_of (year_of d + 1))"
  have "m + k \<in> ?H" if k: "k \<in> K" for k
  proof -
    have range: "0 \<le> k" "k \<le> 16" using k by (auto simp: K_def)
    have "nat (m + k - d) \<le> 22" using range m by simp
    then have "\<not> isSepaBusinessDay (d + int (nat (m + k - d)))" using none by blast
    then have "\<not> isSepaBusinessDay (m + k)" using range m by simp
    moreover have "weekday (m + k) \<noteq> 0 \<and> weekday (m + k) \<noteq> 6"
      using weekdays_of_weeks [OF monday] k unfolding K_def by blast
    ultimately have "isTargetHoliday (m + k)" by (simp add: isSepaBusinessDay_def)
    moreover have "year_of (m + k) = year_of d \<or> year_of (m + k) = year_of d + 1"
      using range m by (intro year_within) simp_all
    ultimately show ?thesis using holiday_listed [of "m + k"] by auto
  qed
  then have "(\<lambda>k. m + k) ` K \<subseteq> ?H" by auto
  then have "card ((\<lambda>k. m + k) ` K) \<le> card ?H" by (rule card_mono [rotated]) simp
  moreover have "card ?H \<le> 12"
    using card_length [of "holidays_of (year_of d) @ holidays_of (year_of d + 1)"]
    by (simp add: holidays_of_def fixed_holidays_def)
  moreover have "card ((\<lambda>k. m + k) ` K) = 13"
    by (subst card_image) (simp_all add: K_def)
  ultimately show False by simp
qed

function nextSepaBusinessDay :: "int \<Rightarrow> int" where
  "nextSepaBusinessDay d = (if isSepaBusinessDay d then d else nextSepaBusinessDay (d + 1))"
  by pat_completeness auto

termination
proof (relation "measure (\<lambda>d. LEAST n. isSepaBusinessDay (d + int n))")
  fix d :: int
  assume d: "\<not> isSepaBusinessDay d"
  define n where "n = (LEAST n. isSepaBusinessDay (d + int n))"
  have n: "isSepaBusinessDay (d + int n)"
    unfolding n_def using business_day_ahead [of d] by (metis (mono_tags, lifting) LeastI)
  with d obtain k where k: "n = Suc k" by (cases n) auto
  with n have "isSepaBusinessDay (d + 1 + int k)" by (simp add: algebra_simps)
  then have "(LEAST n. isSepaBusinessDay (d + 1 + int n)) \<le> k" by (rule Least_le)
  then show "(d + 1, d) \<in> measure (\<lambda>d. LEAST n. isSepaBusinessDay (d + int n))"
    using k by (simp add: n_def)
qed simp

declare nextSepaBusinessDay.simps [simp del]

lemma next_business_day:
  "isSepaBusinessDay (nextSepaBusinessDay d)" "d \<le> nextSepaBusinessDay d"
  "d \<le> x \<Longrightarrow> x < nextSepaBusinessDay d \<Longrightarrow> \<not> isSepaBusinessDay x"
proof (induction d arbitrary: x rule: nextSepaBusinessDay.induct)
  case (1 d)
  { case 1 then show ?case using "1.IH"(1) by (subst nextSepaBusinessDay.simps) simp }
  { case 2 then show ?case using "1.IH"(2) nextSepaBusinessDay.simps [of d] by (auto split: if_splits) }
  { case 3
    then show ?case
      using "1.IH"(3) [of x] nextSepaBusinessDay.simps [of d] by (cases "x = d") (auto split: if_splits) }
qed

lemma next_business_day_bound: "nextSepaBusinessDay d \<le> d + 22"
proof -
  obtain n where n: "n \<le> 22" "isSepaBusinessDay (d + int n)" using business_day_ahead by blast
  have "\<not> d + int n < nextSepaBusinessDay d" using next_business_day(3) [of d "d + int n"] n by auto
  then show ?thesis using n by linarith
qed

section \<open>The collection date\<close>

definition SEPA_MAX_COLLECTION_DAYS :: int where "SEPA_MAX_COLLECTION_DAYS = 365"

datatype collection_issue = Past | Too_far | Not_business_day

definition collectionDateIssue :: "int \<Rightarrow> int \<Rightarrow> (collection_issue \<times> int) option" where
  "collectionDateIssue d tod =
     (if d \<le> tod then Some (Past, nextSepaBusinessDay (tod + 1))
      else let latest = tod + SEPA_MAX_COLLECTION_DAYS
           in if latest < d then Some (Too_far, latest)
              else if \<not> isSepaBusinessDay d then Some (Not_business_day, nextSepaBusinessDay d)
              else None)"

text \<open>\<open>earliestCollectionDate\<close>: the notice goes out today and the debit comes \<open>days\<close> later.\<close>

definition earliestCollectionDate :: "int \<Rightarrow> int \<Rightarrow> int" where
  "earliestCollectionDate days tod = tod + days"

text \<open>\<open>requiredPrenoticeDays\<close>: the longest notice agreed in the mandates (\<open>None\<close>: that of the creditor).\<close>

definition requiredPrenoticeDays :: "int \<Rightarrow> int option list \<Rightarrow> int" where
  "requiredPrenoticeDays settingsDays ms =
     (if ms = [] then settingsDays
      else Max (set (map (\<lambda>m. case m of None \<Rightarrow> settingsDays | Some n \<Rightarrow> n) ms)))"

lemma requiredPrenotice_ge:
  assumes "m \<in> set ms"
  shows "(case m of None \<Rightarrow> settingsDays | Some n \<Rightarrow> n) \<le> requiredPrenoticeDays settingsDays ms"
proof -
  have "ms \<noteq> []" using assms by auto
  then show ?thesis using assms by (simp add: requiredPrenoticeDays_def)
qed

section \<open>The life of a mandate\<close>

definition SEPA_MANDATE_EXPIRY_MONTHS :: int where "SEPA_MANDATE_EXPIRY_MONTHS = 36"

text \<open>\<open>setUTCDate(0)\<close> is the last day of the month before.\<close>

definition sepaMandateExpiresOn :: "int option \<Rightarrow> int \<Rightarrow> int" where
  "sepaMandateExpiresOn lastCollectedAt signedAt =
     (let b = (case lastCollectedAt of None \<Rightarrow> signedAt | Some l \<Rightarrow> l);
          d = make_date (year_of b) (month_of b + SEPA_MANDATE_EXPIRY_MONTHS) (date_of b)
      in if date_of d \<noteq> date_of b then startOfMonth d - 1 else d)"

definition isSepaMandateExpired :: "int option \<Rightarrow> int \<Rightarrow> int \<Rightarrow> bool" where
  "isSepaMandateExpired lastCollectedAt signedAt tod \<longleftrightarrow> sepaMandateExpiresOn lastCollectedAt signedAt < tod"

section \<open>Check digits\<close>

definition upper_or_digit :: "char \<Rightarrow> bool" where
  "upper_or_digit c \<longleftrightarrow> is_upper c \<or> is_digit c"

text \<open>Letters are read as the numbers from 10 on: each is two digits of the numeral.\<close>

definition numeral_of :: "string \<Rightarrow> string" where
  "numeral_of s = concat (map (\<lambda>c. if is_upper c then show_nat (code c - 55) else [c]) s)"

definition mod97 :: "string \<Rightarrow> nat" where
  "mod97 s = foldl (\<lambda>r c. (r * 10 + (code c - 48)) mod 97) 0 s"

definition normalizeIban :: "string \<Rightarrow> string" where
  "normalizeIban raw = toUpperCase (filter (\<lambda>c. \<not> is_space c) raw)"

definition isValidIban :: "string \<Rightarrow> bool" where
  "isValidIban raw =
     (let iban = normalizeIban raw
      in (14 \<le> length iban \<and> length iban \<le> 34 \<and> (\<forall>c\<in>set (take 2 iban). is_upper c) \<and>
          (\<forall>c\<in>set (take 2 (drop 2 iban)). is_digit c) \<and> (\<forall>c\<in>set (drop 4 iban). upper_or_digit c)) \<and>
         mod97 (numeral_of (drop 4 iban @ take 4 iban)) = 1)"

definition normalizeCreditorId :: "string \<Rightarrow> string" where
  "normalizeCreditorId raw = toUpperCase (filter (\<lambda>c. \<not> (is_space c \<or> c = CHR ''-'')) raw)"

definition isValidCreditorId :: "string \<Rightarrow> bool" where
  "isValidCreditorId raw =
     (let cid = normalizeCreditorId raw
      in (8 \<le> length cid \<and> length cid \<le> 35 \<and> (\<forall>c\<in>set (take 2 cid). is_upper c) \<and>
          (\<forall>c\<in>set (take 2 (drop 2 cid)). is_digit c) \<and> (\<forall>c\<in>set (drop 4 cid). upper_or_digit c)) \<and>
         98 - mod97 (numeral_of (drop 7 cid @ take 2 cid @ ''00'')) = read_nat (take 2 (drop 2 cid)))"

section \<open>The texts of a file\<close>

text \<open>
  \<open>SEPA_CHAR_MAP\<close> and the removal of the accents of Latin-1 letters (\<open>normalize('NFD')\<close> without the
  combining marks), by character code; other characters stay as they are.
\<close>

definition sepa_mapped :: "char \<Rightarrow> string" where
  "sepa_mapped c =
     (if c = CHR ''&'' then ''+'' else if c = CHR 0x22 then [CHR 0x27]
      else if code c \<in> {209} then ''N'' else if code c \<in> {241} then ''n''
      else if code c \<in> {199} then ''C'' else if code c \<in> {231} then ''c''
      else if code c = 170 then ''a'' else if code c = 186 then ''o'' else [c])"

definition without_accent :: "char \<Rightarrow> char" where
  "without_accent c =
     (let n = code c
      in if 192 \<le> n \<and> n \<le> 197 then CHR ''A'' else if 200 \<le> n \<and> n \<le> 203 then CHR ''E''
         else if 204 \<le> n \<and> n \<le> 207 then CHR ''I'' else if 210 \<le> n \<and> n \<le> 214 then CHR ''O''
         else if 217 \<le> n \<and> n \<le> 220 then CHR ''U'' else if n = 221 then CHR ''Y''
         else if 224 \<le> n \<and> n \<le> 229 then CHR ''a'' else if 232 \<le> n \<and> n \<le> 235 then CHR ''e''
         else if 236 \<le> n \<and> n \<le> 239 then CHR ''i'' else if 242 \<le> n \<and> n \<le> 246 then CHR ''o''
         else if 249 \<le> n \<and> n \<le> 252 then CHR ''u'' else if n = 253 \<or> n = 255 then CHR ''y'' else c)"

definition sepa_char :: "char \<Rightarrow> bool" where
  "sepa_char c \<longleftrightarrow> is_upper c \<or> (97 \<le> code c \<and> code c \<le> 122) \<or> is_digit c \<or>
     c \<in> set (''/-?:().,+ '' @ [CHR 0x27])"

text \<open>\<open>replace(/c+/g, c)\<close>: a run of one character becomes a single one.\<close>

fun squeeze :: "char \<Rightarrow> string \<Rightarrow> string" where
  "squeeze a (b # c # s) = (if b = a \<and> c = a then squeeze a (c # s) else b # squeeze a (c # s))"
| "squeeze a s = s"

definition sepaText :: "string \<Rightarrow> nat \<Rightarrow> string" where
  "sepaText value n =
     (let plain = map without_accent (concat (map sepa_mapped value));
          clean = trim (squeeze (CHR '' '') (map (\<lambda>c. if sepa_char c then c else CHR '' '') plain))
      in trim (take n clean))"

definition without_slashes :: "string \<Rightarrow> string" where
  "without_slashes s = rev (dropWhile (\<lambda>c. c = CHR ''/'') (rev (dropWhile (\<lambda>c. c = CHR ''/'') s)))"

definition sepaId :: "string \<Rightarrow> nat \<Rightarrow> string" where
  "sepaId value n =
     without_slashes (take n (squeeze (CHR ''/'') (filter (\<lambda>c. c \<noteq> CHR '' '') (sepaText value 200))))"

text \<open>\<open>maskIban\<close>: the first and the last four characters, in groups of four.\<close>

fun groups4 :: "string \<Rightarrow> string" where
  "groups4 (a # b # c # d # s) = a # b # c # d # CHR '' '' # groups4 s"
| "groups4 s = s"

definition maskIban :: "string \<Rightarrow> string" where
  "maskIban iban =
     (let clean = filter (\<lambda>c. \<not> is_space c) iban; n = length clean;
          middle = replicate (n - 8) (CHR ''*'')
      in trim (groups4 (take 4 clean @ middle @ drop (n - 4) clean)))"

end
