(* ===== verification/BankDb.thy ===== *)
theory BankDb imports Journal SepaRules begin

text \<open>
  The tables of direct debits, bank statements and the till (\<open>modules/sepa\<close>,
  \<open>modules/bank-reconciliation\<close>, \<open>modules/cash\<close>) beside the tables of billing (\<open>core\<close>). The debits of
  the remittances are in \<open>core\<close> (\<open>remittance_items\<close>), because collecting an invoice looks at them. An
  IBAN is stored encrypted; the rows here hold the text it decrypts to.
\<close>

section \<open>Rows\<close>

datatype mandate_status = Man_active | Man_cancelled | Man_expired

datatype signature_status = Sig_pending | Sig_signed | Sig_external

datatype remittance_status = Rmt_generated | Rmt_confirmed | Rmt_cancelled

datatype entry_status = Ent_pending | Ent_matched | Ent_returned | Ent_ignored

record sepa_settings_row =
  sst_creditorName :: string
  sst_creditorId :: string
  sst_creditorIban :: string
  sst_creditorBic :: "string option"
  sst_prenoticeDays :: int
  sst_enabled :: bool
  sst_creditorAddress :: "string option"
  sst_creditorPostalCode :: "string option"
  sst_creditorCity :: "string option"
  sst_creditorCountry :: string

record mandate_row =
  man_id :: id
  man_customerId :: id
  man_reference :: string
  man_iban :: string
  man_bic :: "string option"
  man_signedAt :: date
  man_sequence :: sequence_type
  man_lastCollectedAt :: "date option"
  man_status :: mandate_status
  man_signature :: signature_status
  man_tokenHash :: "string option"
  man_tokenExpiresAt :: "instant option"
  man_prenoticeDays :: "int option"
  man_signerName :: "string option"
  man_signedAtTs :: "instant option"

record remittance_row =
  rmt_id :: id
  rmt_name :: string
  rmt_messageId :: string
  rmt_collectionDate :: date
  rmt_status :: remittance_status
  rmt_itemCount :: nat
  rmt_totalAmount :: cents
  rmt_xml :: "string option"
  rmt_createdBy :: id
  rmt_confirmedAt :: "instant option"

text \<open>A payment plan in force and its invoices; the columns of a customer with the name.\<close>

record plan_row =
  pln_active :: bool
  pln_invoiceIds :: "id list"

record debtor_row =
  deb_customerId :: id
  deb_business :: bool
  deb_firstName :: "string option"
  deb_lastName :: "string option"
  deb_companyName :: "string option"

record statement_row =
  stm_id :: id
  stm_filename :: string
  stm_accountLabel :: string
  stm_currency :: string
  stm_startDate :: "date option"
  stm_endDate :: "date option"
  stm_initialBalance :: cents
  stm_finalBalance :: cents
  stm_transactionCount :: nat

record entry_row =
  ent_id :: id
  ent_statementId :: id
  ent_operationDate :: "date option"
  ent_valueDate :: "date option"
  ent_amount :: cents
  ent_conceptCommon :: "string option"
  ent_conceptOwn :: "string option"
  ent_reference1 :: "string option"
  ent_reference2 :: "string option"
  ent_documentNumber :: "string option"
  ent_description :: "string option"
  ent_status :: entry_status
  ent_matchedInvoiceId :: "id option"
  ent_matchedAt :: "instant option"
  ent_autoMatched :: bool
  ent_matchedPaymentId :: "id option"

record closure_row =
  clo_id :: id
  clo_facilityId :: "id option"
  clo_date :: date
  clo_expectedCash :: cents
  clo_countedCash :: cents
  clo_difference :: cents
  clo_notes :: "string option"
  clo_closedBy :: id

record bank =
  core :: db
  sepa_settings :: "sepa_settings_row option"
  mandates :: "mandate_row list"
  remittances :: "remittance_row list"
  plans :: "plan_row list"
  debtors :: "debtor_row list"
  statements :: "statement_row list"
  entries :: "entry_row list"
  closures :: "closure_row list"
  autoReconcile :: bool
  prenotices :: "id list"

text \<open>
  What comes from outside: the identifiers drawn at random (the reference of a mandate, the
  message of a remittance, the end of the reference of a debit), the hash of a signing secret and its
  check, and the text of an instant.
\<close>

record bank_world =
  new_reference :: string
  new_message :: string
  debit_suffix :: "id \<Rightarrow> string"
  argon_hash :: "string \<Rightarrow> string"
  argon_verify :: "string \<Rightarrow> string \<Rightarrow> bool"
  iso_instant :: "instant \<Rightarrow> string"

definition over_core :: "(db \<Rightarrow> db) \<Rightarrow> bank \<Rightarrow> bank" where
  "over_core f s = s\<lparr>core := f (core s)\<rparr>"

definition madrid_today :: "env \<Rightarrow> date" where
  "madrid_today e = today_in e ''Europe/Madrid''"

text \<open>An optional text that is given and not empty.\<close>

definition filled :: "string option \<Rightarrow> bool" where
  "filled x \<longleftrightarrow> x \<noteq> None \<and> x \<noteq> Some []"

definition or_null :: "string option \<Rightarrow> string option" where
  "or_null x = (if filled x then x else None)"

definition find_mandate :: "bank \<Rightarrow> id \<Rightarrow> mandate_row option" where
  "find_mandate s i = find_first (\<lambda>m. man_id m = i) (mandates s)"

definition find_remittance :: "bank \<Rightarrow> id \<Rightarrow> remittance_row option" where
  "find_remittance s i = find_first (\<lambda>r. rmt_id r = i) (remittances s)"

definition debits_of :: "db \<Rightarrow> id \<Rightarrow> remittance_item_row list" where
  "debits_of d i = filter (\<lambda>q. rem_remittanceId q = i) (remittance_items d)"

text \<open>A debit that may still bring money or has brought it.\<close>

definition live_debit :: "remittance_item_row \<Rightarrow> bool" where
  "live_debit q \<longleftrightarrow> rem_status q = Deb_pending \<or> rem_status q = Deb_collected"

definition text_or :: "string option \<Rightarrow> string \<Rightarrow> string" where
  "text_or x y = (case x of None \<Rightarrow> y | Some t \<Rightarrow> t)"

definition joined_names :: "string option \<Rightarrow> string option \<Rightarrow> string" where
  "joined_names a b =
     (if filled a \<and> filled b then the a @ '' '' @ the b
      else if filled a then the a else if filled b then the b else [])"

definition customerName :: "debtor_row \<Rightarrow> string" where
  "customerName c =
     (if deb_business c then text_or (deb_companyName c) ''Empresa''
      else let n = trim (joined_names (deb_firstName c) (deb_lastName c))
           in if n = [] then ''Cliente'' else n)"

definition iso_date :: "date \<Rightarrow> string" where
  "iso_date d =
     padStart 4 (CHR ''0'') (show_int (year_of d)) @ ''-'' @
     padStart 2 (CHR ''0'') (show_int (month_of d + 1)) @ ''-'' @
     padStart 2 (CHR ''0'') (show_int (date_of d))"

section \<open>The creditor\<close>

record settings_input =
  si_creditorName :: string
  si_creditorId :: string
  si_creditorIban :: "string option"
  si_creditorBic :: "string option"
  si_prenoticeDays :: int
  si_enabled :: bool
  si_creditorAddress :: "string option"
  si_creditorPostalCode :: "string option"
  si_creditorCity :: "string option"
  si_creditorCountry :: "string option"

definition mandateIsSigned :: "signature_status \<Rightarrow> bool" where
  "mandateIsSigned g \<longleftrightarrow> g = Sig_signed \<or> g = Sig_external"

definition assertCreditorIdChangeable :: "bank \<Rightarrow> string \<Rightarrow> unit result" where
  "assertCreditorIdChangeable s current =
     (if \<not> isValidCreditorId current then Inr ()
      else guard (count_rows (\<lambda>m. man_status m = Man_active \<and> mandateIsSigned (man_signature m)) (mandates s) = 0)
             (ConflictException ''creditor_id_locked''))"

text \<open>A column given as \<open>undefined\<close> stays as it was (on a new row, the default).\<close>

definition kept_or :: "string option \<Rightarrow> string option \<Rightarrow> string option" where
  "kept_or given old = (case given of None \<Rightarrow> old | Some t \<Rightarrow> or_null (Some t))"

definition settings_fields :: "settings_input \<Rightarrow> string \<Rightarrow> sepa_settings_row option \<Rightarrow> sepa_settings_row" where
  "settings_fields input iban existing =
     \<lparr>sst_creditorName = si_creditorName input, sst_creditorId = si_creditorId input, sst_creditorIban = iban,
      sst_creditorBic = or_null (si_creditorBic input), sst_prenoticeDays = si_prenoticeDays input,
      sst_enabled = si_enabled input,
      sst_creditorAddress = kept_or (si_creditorAddress input) (Option.bind existing sst_creditorAddress),
      sst_creditorPostalCode = kept_or (si_creditorPostalCode input) (Option.bind existing sst_creditorPostalCode),
      sst_creditorCity = kept_or (si_creditorCity input) (Option.bind existing sst_creditorCity),
      sst_creditorCountry =
        (if filled (si_creditorCountry input) then the (si_creditorCountry input)
         else case existing of None \<Rightarrow> ''ES'' | Some st \<Rightarrow> sst_creditorCountry st)\<rparr>"

definition updateSettings :: "settings_input \<Rightarrow> bank \<Rightarrow> bank result" where
  "updateSettings input s =
     bindr (guard (filled (si_creditorIban input) \<or> sepa_settings s \<noteq> None)
              (BadRequestException ''iban_required'')) (\<lambda>_.
     bindr (case sepa_settings s of None \<Rightarrow> Inr ()
            | Some st \<Rightarrow> if sst_creditorId st \<noteq> si_creditorId input
                then assertCreditorIdChangeable s (sst_creditorId st) else Inr ()) (\<lambda>_.
     let iban = (if filled (si_creditorIban input) then the (si_creditorIban input)
                 else case sepa_settings s of None \<Rightarrow> [] | Some st \<Rightarrow> sst_creditorIban st)
     in Inr (s\<lparr>sepa_settings := Some (settings_fields input iban (sepa_settings s))\<rparr>)))"

definition creditorForMandate :: "bank \<Rightarrow> sepa_settings_row result" where
  "creditorForMandate s =
     bindr (found (sepa_settings s) (BadRequestException ''sepa_creditor_address_required'')) (\<lambda>st.
     bindr (guard (filled (sst_creditorAddress st) \<and> filled (sst_creditorPostalCode st) \<and> filled (sst_creditorCity st))
              (BadRequestException ''sepa_creditor_address_required'')) (\<lambda>_. Inr st))"

section \<open>Rows unique under a condition\<close>

text \<open>What a partial unique index says: no two rows under \<open>p\<close> have the same key.\<close>

fun unique_where :: "('r \<Rightarrow> bool) \<Rightarrow> ('r \<Rightarrow> 'k) \<Rightarrow> 'r list \<Rightarrow> bool" where
  "unique_where p k [] = True"
| "unique_where p k (x # xs) = (unique_where p k xs \<and> (p x \<longrightarrow> (\<forall>y\<in>set xs. p y \<longrightarrow> k y \<noteq> k x)))"

lemma unique_whereD:
  "unique_where p k rows \<Longrightarrow> x \<in> set rows \<Longrightarrow> y \<in> set rows \<Longrightarrow> p x \<Longrightarrow> p y \<Longrightarrow> k x = k y \<Longrightarrow> x = y"
  by (induction rows) auto

text \<open>An update that brings no row under the condition and keeps the keys.\<close>

lemma unique_where_update:
  assumes "unique_where p k rows" and key: "\<And>r. k (f r) = k r"
    and under: "\<And>r. r \<in> set rows \<Longrightarrow> u r \<Longrightarrow> p (f r) \<Longrightarrow> p r"
  shows "unique_where p k (update_many u f rows)"
  using assms(1) under
proof (induction rows)
  case Nil then show ?case by simp
next
  case (Cons x xs)
  have old: "\<exists>z\<in>set xs. p z \<and> k z = k y" if y: "y \<in> set (update_many u f xs)" "p y" for y
  proof -
    obtain z where z: "z \<in> set xs" "(u z \<and> y = f z) \<or> y = z"
      using y(1) unfolding set_update_many by blast
    then show ?thesis using y(2) key [of z] Cons.prems(2) [of z] by (cases "y = z") auto
  qed
  have "unique_where p k (update_many u f xs)" using Cons by simp
  moreover have "\<forall>y\<in>set (update_many u f xs). p y \<longrightarrow> k y \<noteq> k x" if px: "p x"
  proof (intro ballI impI)
    fix y assume "y \<in> set (update_many u f xs)" "p y"
    then obtain z where "z \<in> set xs" "p z" "k z = k y" using old by blast
    then show "k y \<noteq> k x" using Cons.prems(1) px by auto
  qed
  ultimately show ?case using key [of x] Cons.prems(2) [of x] by (cases "u x") simp_all
qed

lemma unique_where_append:
  "unique_where p k (xs @ ys) \<longleftrightarrow> unique_where p k xs \<and> unique_where p k ys \<and>
     (\<forall>x\<in>set xs. \<forall>y\<in>set ys. p x \<longrightarrow> p y \<longrightarrow> k y \<noteq> k x)"
  by (induction xs) auto

lemma unique_where_distinct: "distinct (map k rows) \<Longrightarrow> unique_where p k rows"
proof (induction rows)
  case Nil then show ?case by simp
next
  case (Cons x xs)
  then have "k x \<notin> k ` set xs" by simp
  then have "k y \<noteq> k x" if "y \<in> set xs" for y using that imageI [of y "set xs" k] by metis
  with Cons show ?case by simp
qed

end
