(* ===== verification/Cash.thy ===== *)
theory Cash imports BankDb begin

text \<open>
  The till (\<open>modules/cash/cash.service.ts\<close>, and the limits of a local day in \<open>common/format.ts\<close>): what was
  collected and given back on a day by each means of payment, in the whole business or at one facility,
  and the closing of a day with the cash that was counted. Which facility a sale or an invoice without
  contract belongs to is an argument (\<open>own\<close>, \<open>sale\<close>: columns the model of the tables leaves out); the
  amounts of a summary are JavaScript numbers, as the code adds them up.
\<close>

section \<open>The limits of a day\<close>

definition zonedDayStart :: "(instant \<Rightarrow> int) \<Rightarrow> date \<Rightarrow> instant" where
  "zonedDayStart off d =
     (let midnight = day_ms d; t = midnight - off midnight; again = midnight - off t
      in if again \<noteq> t then again else t)"

definition zonedNextDayStart :: "(instant \<Rightarrow> int) \<Rightarrow> date \<Rightarrow> instant" where
  "zonedNextDayStart off d = zonedDayStart off (d + 1)"

definition in_day :: "env \<Rightarrow> date \<Rightarrow> instant option \<Rightarrow> bool" where
  "in_day e d t =
     (case t of None \<Rightarrow> False
      | Some i \<Rightarrow> zonedDayStart (zone_offset e ''Europe/Madrid'') d \<le> i \<and>
                  i < zonedNextDayStart (zone_offset e ''Europe/Madrid'') d)"

section \<open>The day\<close>

definition contract_facility_of :: "db \<Rightarrow> id \<Rightarrow> id option" where
  "contract_facility_of d i = Option.bind (find_invoice d i) (invoice_facility d)"

definition at_facility ::
  "db \<Rightarrow> (id \<Rightarrow> id option) \<Rightarrow> (id \<Rightarrow> id option) \<Rightarrow> id option \<Rightarrow> payment_row \<Rightarrow> bool" where
  "at_facility d own sale facility p =
     (case facility of None \<Rightarrow> True
      | Some f \<Rightarrow>
          (case pay_invoiceId p of None \<Rightarrow> False
           | Some i \<Rightarrow> contract_facility_of d i = Some f \<or> sale i = Some f \<or> own i = Some f))"

text \<open>A payment counts on the day it came in, even when it was given back later.\<close>

definition income_row :: "env \<Rightarrow> date \<Rightarrow> payment_row \<Rightarrow> bool" where
  "income_row e d p \<longleftrightarrow>
     (pay_status p = Pay_succeeded \<or> pay_status p = Pay_partially_refunded \<or> pay_status p = Pay_refunded) \<and>
     in_day e d (pay_paidAt p) \<and> pay_method p \<notin> NON_CASH_PAYMENT_METHODS"

definition refund_of_day :: "env \<Rightarrow> date \<Rightarrow> payment_row \<Rightarrow> bool" where
  "refund_of_day e d p \<longleftrightarrow> in_day e d (pay_refundedAt p) \<and> 0 < pay_refundedAmount p"

definition sum_by :: "method_type \<Rightarrow> (payment_row \<Rightarrow> cents) \<Rightarrow> payment_row list \<Rightarrow> cents" where
  "sum_by m f ps = sum_list (map f (filter (\<lambda>p. pay_method p = m) ps))"

record day_summary =
  dsm_cash :: rat
  dsm_card :: rat
  dsm_sepaDebit :: rat
  dsm_bankTransfer :: rat
  dsm_other :: rat
  dsm_total :: rat
  dsm_cashRefunds :: rat
  dsm_expectedCash :: rat
  dsm_count :: nat
  dsm_closure :: "closure_row option"

definition closure_at :: "bank \<Rightarrow> date \<Rightarrow> id option \<Rightarrow> closure_row option" where
  "closure_at s d f = find_first (\<lambda>c. clo_date c = d \<and> clo_facilityId c = f) (closures s)"

definition summary_of ::
  "env \<Rightarrow> (id \<Rightarrow> id option) \<Rightarrow> (id \<Rightarrow> id option) \<Rightarrow> date \<Rightarrow> id option \<Rightarrow> bank \<Rightarrow> day_summary" where
  "summary_of e own sale day f s =
     (let here = filter (at_facility (core s) own sale f) (payments (core s));
          income = filter (income_row e day) here; back = filter (refund_of_day e day) here;
          total_of = (\<lambda>m. euros (sum_by m pay_amount income));
          cash_refunds = euros (sum_by Cash pay_refundedAmount back)
      in \<lparr>dsm_cash = total_of Cash, dsm_card = total_of Card, dsm_sepaDebit = total_of Sepa_debit,
          dsm_bankTransfer = total_of Bank_transfer, dsm_other = total_of Other_method,
          dsm_total = nadd (nadd (nadd (nadd (total_of Cash) (total_of Card)) (total_of Sepa_debit))
            (total_of Bank_transfer)) (total_of Other_method),
          dsm_cashRefunds = cash_refunds, dsm_expectedCash = subtractAmounts (total_of Cash) cash_refunds,
          dsm_count = length income, dsm_closure = closure_at s day f\<rparr>)"

definition day_scope :: "facility_scope \<Rightarrow> id option \<Rightarrow> unit result" where
  "day_scope scope f =
     (case f of
        None \<Rightarrow> guard (scope = None) (BadRequestException ''facility_required'')
      | Some x \<Rightarrow> assertFacilityAllowed scope x)"

definition getDaySummary ::
  "env \<Rightarrow> (id \<Rightarrow> id option) \<Rightarrow> (id \<Rightarrow> id option) \<Rightarrow> date \<Rightarrow> id option \<Rightarrow> facility_scope \<Rightarrow> bank \<Rightarrow> day_summary result" where
  "getDaySummary e own sale day f scope s =
     bindr (day_scope scope f) (\<lambda>_. Inr (summary_of e own sale day f s))"

section \<open>Closing it\<close>

record close_input =
  cls_date :: date
  cls_countedCash :: cents
  cls_notes :: "string option"
  cls_facilityId :: "id option"

definition closure_for :: "id \<Rightarrow> day_summary \<Rightarrow> close_input \<Rightarrow> id \<Rightarrow> closure_row" where
  "closure_for who sm input i =
     \<lparr>clo_id = i, clo_facilityId = cls_facilityId input, clo_date = cls_date input,
      clo_expectedCash = toCents (dsm_expectedCash sm), clo_countedCash = cls_countedCash input,
      clo_difference = toCents (subtractAmounts (euros (cls_countedCash input)) (dsm_expectedCash sm)),
      clo_notes = (case cls_notes input of None \<Rightarrow> None | Some n \<Rightarrow> or_null (Some (trim n))), clo_closedBy = who\<rparr>"

text \<open>
  The two unique indexes (of the whole business, where the facility is null, and of a facility): a second
  closing of the day in the same scope is the conflict the code makes of \<open>P2002\<close>. \<open>sm\<close> is the summary that
  was read before.
\<close>

definition close_from :: "id \<Rightarrow> day_summary \<Rightarrow> close_input \<Rightarrow> bank \<Rightarrow> bank result" where
  "close_from who sm input s =
     bindr (guard (dsm_closure sm = None) (ConflictException ''day_already_closed'')) (\<lambda>_.
     bindr (guard (closure_at s (cls_date input) (cls_facilityId input) = None)
              (ConflictException ''day_already_closed'')) (\<lambda>_.
     let n = next_id (core s)
     in Inr (s\<lparr>core := audit ''cash.day_closed'' n ((core s)\<lparr>next_id := Suc n\<rparr>),
              closures := create_row (closure_for who sm input n) (closures s)\<rparr>)))"

definition closeDay ::
  "env \<Rightarrow> (id \<Rightarrow> id option) \<Rightarrow> (id \<Rightarrow> id option) \<Rightarrow> facility_scope \<Rightarrow> id \<Rightarrow> close_input \<Rightarrow> bank \<Rightarrow> bank result" where
  "closeDay e own sale scope who input s =
     bindr (case cls_facilityId input of None \<Rightarrow> Inr () | Some f \<Rightarrow> assertFacilityAllowed scope f) (\<lambda>_.
     bindr (getDaySummary e own sale (cls_date input) (cls_facilityId input) scope s) (\<lambda>sm.
     close_from who sm input s))"

text \<open>The closings a user may see, newest day first, ninety at most.\<close>

definition listClosures :: "facility_scope \<Rightarrow> bank \<Rightarrow> closure_row list" where
  "listClosures scope s =
     take 90 (sort_key (\<lambda>c. - clo_date c)
       (filter (\<lambda>c. case scope of None \<Rightarrow> True
          | Some fs \<Rightarrow> clo_facilityId c = None \<or> (\<exists>f\<in>set fs. clo_facilityId c = Some f)) (closures s)))"

section \<open>The local day\<close>

text \<open>
  The clocks of Spain are one or two hours ahead of UTC and change at one in the morning UTC; so the
  offset is that of the day before until one o'clock.
\<close>

definition madrid_rule :: "(int \<Rightarrow> int) \<Rightarrow> (instant \<Rightarrow> int) \<Rightarrow> bool" where
  "madrid_rule hours off \<longleftrightarrow>
     (\<forall>k. hours k = 3600000 \<or> hours k = 7200000) \<and> (\<forall>t. off t = hours ((t - 3600000) div msPerDay))"

lemma day_div_iff: "x div msPerDay = k \<longleftrightarrow> k * msPerDay \<le> x \<and> x < (k + 1) * msPerDay"
proof
  assume k: "x div msPerDay = k"
  have "0 < msPerDay" by (simp add: msPerDay_def)
  then have "0 \<le> x mod msPerDay" "x mod msPerDay < msPerDay" by simp_all
  moreover have "x = k * msPerDay + x mod msPerDay" using div_mult_mod_eq [of x msPerDay] k by simp
  ultimately show "k * msPerDay \<le> x \<and> x < (k + 1) * msPerDay" unfolding distrib_right by linarith
next
  assume "k * msPerDay \<le> x \<and> x < (k + 1) * msPerDay"
  then show "x div msPerDay = k"
    by (intro int_div_pos_eq [where r = "x - k * msPerDay"]) (simp_all add: algebra_simps)
qed

lemma madrid_day_start:
  assumes "madrid_rule hours off"
  shows "zonedDayStart off d = day_ms d - hours (d - 1)"
proof -
  have h: "hours (d - 1) = 3600000 \<or> hours (d - 1) = 7200000" and off: "\<And>t. off t = hours ((t - 3600000) div msPerDay)"
    using assms by (auto simp: madrid_rule_def)
  have a: "off (day_ms d) = hours (d - 1)"
    unfolding off by (rule arg_cong [of _ _ hours], unfold day_div_iff) (simp add: day_ms_def msPerDay_def)
  have b: "off (day_ms d - hours (d - 1)) = hours (d - 1)"
    unfolding off by (rule arg_cong [of _ _ hours], unfold day_div_iff) (use h in \<open>auto simp: day_ms_def msPerDay_def\<close>)
  show ?thesis unfolding zonedDayStart_def Let_def a b by simp
qed

text \<open>The limits hold exactly the instants of the local day.\<close>

lemma madrid_day:
  assumes rule: "madrid_rule hours off"
  shows "zonedDayStart off d \<le> t \<and> t < zonedNextDayStart off d \<longleftrightarrow> todayInTimezone off t = d"
proof -
  define k where "k = (t - 3600000) div msPerDay"
  have off: "off t = hours k" and h: "hours k = 3600000 \<or> hours k = 7200000"
    and hd: "hours d = 3600000 \<or> hours d = 7200000" "hours (d - 1) = 3600000 \<or> hours (d - 1) = 7200000"
    using rule by (auto simp: madrid_rule_def k_def)
  have t: "k * msPerDay + 3600000 \<le> t" "t < k * msPerDay + msPerDay + 3600000"
    using div_mult_mod_eq [of "t - 3600000" msPerDay] pos_mod_sign [of msPerDay "t - 3600000"]
      pos_mod_bound [of msPerDay "t - 3600000"] by (simp_all add: k_def msPerDay_def)
  have loc: "todayInTimezone off t = d \<longleftrightarrow> d * msPerDay \<le> t + hours k \<and> t + hours k < (d + 1) * msPerDay"
    unfolding todayInTimezone_def off by (rule day_div_iff)
  have lim: "zonedDayStart off d \<le> t \<and> t < zonedNextDayStart off d \<longleftrightarrow>
      d * msPerDay - hours (d - 1) \<le> t \<and> t < (d + 1) * msPerDay - hours d"
    by (simp add: zonedNextDayStart_def madrid_day_start [OF rule] day_ms_def)
  consider "k \<le> d - 2" | "k = d - 1" | "k = d" | "d + 1 \<le> k" by linarith
  then show ?thesis
    unfolding lim loc
  proof cases
    case 1
    then have "k * msPerDay \<le> (d - 2) * msPerDay" by (intro mult_right_mono) (simp_all add: msPerDay_def)
    then show "(d * msPerDay - hours (d - 1) \<le> t \<and> t < (d + 1) * msPerDay - hours d) =
        (d * msPerDay \<le> t + hours k \<and> t + hours k < (d + 1) * msPerDay)"
      using t h hd by (auto simp: msPerDay_def algebra_simps)
  next
    case 4
    then have "(d + 1) * msPerDay \<le> k * msPerDay" by (intro mult_right_mono) (simp_all add: msPerDay_def)
    then show "(d * msPerDay - hours (d - 1) \<le> t \<and> t < (d + 1) * msPerDay - hours d) =
        (d * msPerDay \<le> t + hours k \<and> t + hours k < (d + 1) * msPerDay)"
      using t h hd by (auto simp: msPerDay_def algebra_simps)
  qed (use t h hd in \<open>auto simp: msPerDay_def algebra_simps\<close>)
qed

end
