(* ===== verification/Mandates.thy ===== *)
theory Mandates imports BankDb begin

text \<open>
  The mandates of the customers (\<open>sepa.service.ts\<close>): making one, sending the link to sign it, signing
  it through the link, cancelling it. A customer has at most one mandate in force. The document that is
  signed and the e-mail with the link are not modelled; the token of a link is the pair it is split into.
\<close>

section \<open>Making a mandate\<close>

definition MANDATE_SIGNING_TTL_MS :: int where
  "MANDATE_SIGNING_TTL_MS = 30 * 24 * 3600 * 1000"

record mandate_input =
  mi_customerId :: id
  mi_iban :: string
  mi_bic :: "string option"
  mi_signedOutside :: bool
  mi_signedAt :: "date option"

record mandate_opts =
  mo_reference :: "string option"
  mo_sequence :: "sequence_type option"

definition change_mandate :: "id \<Rightarrow> (mandate_row \<Rightarrow> mandate_row) \<Rightarrow> bank \<Rightarrow> bank" where
  "change_mandate i f s = s\<lparr>mandates := update_many (\<lambda>m. man_id m = i) f (mandates s)\<rparr>"

text \<open>\<open>sendSigningLink\<close>: a link with a new secret, which is valid for thirty days.\<close>

definition link_of_mandate :: "env \<Rightarrow> string \<Rightarrow> mandate_row \<Rightarrow> mandate_row" where
  "link_of_mandate e hash m =
     m\<lparr>man_tokenHash := Some hash, man_tokenExpiresAt := Some (now e + MANDATE_SIGNING_TTL_MS)\<rparr>"

definition sendSigningLink :: "env \<Rightarrow> bank_world \<Rightarrow> string \<Rightarrow> id \<Rightarrow> bank \<Rightarrow> bank" where
  "sendSigningLink e w secret i s = change_mandate i (link_of_mandate e (argon_hash w secret)) s"

definition cancel_active :: "id \<Rightarrow> mandate_row list \<Rightarrow> mandate_row list" where
  "cancel_active c ms =
     update_many (\<lambda>m. man_customerId m = c \<and> man_status m = Man_active) (\<lambda>m. m\<lparr>man_status := Man_cancelled\<rparr>) ms"

definition mandate_row_for ::
  "env \<Rightarrow> bank \<Rightarrow> mandate_input \<Rightarrow> mandate_opts \<Rightarrow> string \<Rightarrow> bool \<Rightarrow> date \<Rightarrow> mandate_row" where
  "mandate_row_for e s input opts reference external signedAt =
     \<lparr>man_id = next_id (core s), man_customerId = mi_customerId input, man_reference = reference,
      man_iban = mi_iban input, man_bic = or_null (mi_bic input), man_signedAt = signedAt,
      man_sequence = (case mo_sequence opts of None \<Rightarrow> FRST | Some q \<Rightarrow> q),
      man_lastCollectedAt = (if mo_sequence opts = Some RCUR then Some (today e) else None),
      man_status = Man_active, man_signature = (if external then Sig_external else Sig_pending),
      man_tokenHash = None, man_tokenExpiresAt = None,
      man_prenoticeDays = Some (case sepa_settings s of None \<Rightarrow> 14 | Some st \<Rightarrow> sst_prenoticeDays st),
      man_signerName = None, man_signedAtTs = None\<rparr>"

text \<open>The transaction: the mandate in force of the customer is cancelled and the new one created.\<close>

definition create_mandate_tx :: "mandate_row \<Rightarrow> bank \<Rightarrow> bank result" where
  "create_mandate_tx row s =
     bindr (found (find_first (\<lambda>c. cus_id c = man_customerId row \<and> \<not> cus_deleted c) (customers (core s)))
              (NotFoundException ''customer_not_found'')) (\<lambda>_.
     bindr (guard (man_reference row \<notin> man_reference ` set (mandates s))
              (ConflictException ''mandate_reference_taken'')) (\<lambda>_.
     Inr (s\<lparr>core := (core s)\<lparr>next_id := Suc (next_id (core s))\<rparr>,
            mandates := create_row row (cancel_active (man_customerId row) (mandates s))\<rparr>)))"

definition createMandate ::
  "env \<Rightarrow> bank_world \<Rightarrow> string \<Rightarrow> mandate_input \<Rightarrow> mandate_opts \<Rightarrow> bank \<Rightarrow> (bank \<times> mandate_row) result" where
  "createMandate e w secret input opts s =
     (let reference = (case mo_reference opts of None \<Rightarrow> ''MND-'' @ new_reference w | Some r \<Rightarrow> r);
          signedAt = (case mi_signedAt input of None \<Rightarrow> madrid_today e | Some d \<Rightarrow> d);
          external = mi_signedOutside input \<or> filled (mo_reference opts);
          row = mandate_row_for e s input opts reference external signedAt
      in bindr (guard (signedAt \<le> madrid_today e) (BadRequestException ''invalid_signed_at'')) (\<lambda>_.
         bindr (if external then Inr () else bindr (creditorForMandate s) (\<lambda>_. Inr ())) (\<lambda>_.
         bindr (create_mandate_tx row s) (\<lambda>s'.
         Inr (if external then s' else sendSigningLink e w secret (man_id row) s', row)))))"

definition resendSigningLink ::
  "env \<Rightarrow> bank_world \<Rightarrow> string \<Rightarrow> id \<Rightarrow> bank \<Rightarrow> bank result" where
  "resendSigningLink e w secret i s =
     bindr (found (find_first (\<lambda>m. man_id m = i \<and> man_status m = Man_active) (mandates s))
              (NotFoundException ''mandate_not_found'')) (\<lambda>m.
     bindr (guard (man_signature m = Sig_pending) (BadRequestException ''mandate_already_signed'')) (\<lambda>_.
     Inr (sendSigningLink e w secret i s)))"

section \<open>Signing it\<close>

definition mandateByToken :: "env \<Rightarrow> bank_world \<Rightarrow> id \<times> string \<Rightarrow> bank \<Rightarrow> mandate_row result" where
  "mandateByToken e w token s =
     (case find_mandate s (fst token) of
        None \<Rightarrow> Inl (UnauthorizedException ''signing_token_invalid'')
      | Some m \<Rightarrow>
          case man_tokenHash m of
            None \<Rightarrow> Inl (UnauthorizedException ''signing_token_invalid'')
          | Some h \<Rightarrow>
              if man_status m \<noteq> Man_active then Inl (UnauthorizedException ''signing_token_invalid'')
              else if (case man_tokenExpiresAt m of None \<Rightarrow> False | Some t \<Rightarrow> t < now e)
              then Inl (UnauthorizedException ''signing_token_expired'')
              else if \<not> argon_verify w h (snd token) then Inl (UnauthorizedException ''signing_token_invalid'')
              else Inr m)"

definition mandate_signed :: "env \<Rightarrow> string \<Rightarrow> int \<Rightarrow> mandate_row \<Rightarrow> mandate_row" where
  "mandate_signed e signer days m =
     m\<lparr>man_signature := Sig_signed, man_tokenHash := None, man_tokenExpiresAt := None,
       man_signedAt := madrid_today e, man_signedAtTs := Some (now e), man_prenoticeDays := Some days,
       man_signerName := Some signer\<rparr>"

text \<open>The conditional update: of two signatures sent at the same time only one finds it pending.\<close>

definition sign_mandate_tx :: "env \<Rightarrow> string \<Rightarrow> int \<Rightarrow> id \<Rightarrow> bank \<Rightarrow> bank result" where
  "sign_mandate_tx e signer days i s =
     bindr (guard (count_rows (\<lambda>m. man_id m = i \<and> man_signature m = Sig_pending) (mandates s) \<noteq> 0)
              (BadRequestException ''mandate_already_signed'')) (\<lambda>_.
     Inr (s\<lparr>mandates := update_many (\<lambda>m. man_id m = i \<and> man_signature m = Sig_pending)
              (mandate_signed e signer days) (mandates s)\<rparr>))"

definition signByToken ::
  "env \<Rightarrow> bank_world \<Rightarrow> id \<times> string \<Rightarrow> string \<Rightarrow> bank \<Rightarrow> bank result" where
  "signByToken e w token signer s =
     bindr (mandateByToken e w token s) (\<lambda>m.
     bindr (guard (man_signature m = Sig_pending) (BadRequestException ''mandate_already_signed'')) (\<lambda>_.
     bindr (creditorForMandate s) (\<lambda>st.
     sign_mandate_tx e signer (sst_prenoticeDays st) (man_id m) s)))"

definition cancelMandate :: "id \<Rightarrow> bank \<Rightarrow> bank result" where
  "cancelMandate i s =
     bindr (guard (count_rows (\<lambda>m. man_id m = i) (mandates s) \<noteq> 0) (NotFoundException ''mandate_not_found'')) (\<lambda>_.
     Inr (change_mandate i (\<lambda>m. m\<lparr>man_status := Man_cancelled\<rparr>) s))"

section \<open>One mandate in force\<close>

definition one_mandate :: "mandate_row list \<Rightarrow> bool" where
  "one_mandate ms \<longleftrightarrow> unique_where (\<lambda>m. man_status m = Man_active) man_customerId ms"

lemma one_mandate_update:
  assumes "one_mandate ms" and "\<And>m. man_customerId (f m) = man_customerId m"
    and "\<And>m. u m \<Longrightarrow> man_status (f m) = Man_active \<Longrightarrow> man_status m = Man_active"
  shows "one_mandate (update_many u f ms)"
  unfolding one_mandate_def
  by (rule unique_where_update [OF assms(1) [unfolded one_mandate_def] assms(2)]) (use assms(3) in blast)

lemma cancel_active_none:
  assumes m: "m \<in> set (cancel_active c ms)" "man_status m = Man_active"
  shows "c \<noteq> man_customerId m"
proof -
  obtain y where y: "m = (if man_customerId y = c \<and> man_status y = Man_active then y\<lparr>man_status := Man_cancelled\<rparr> else y)"
    using m(1) unfolding cancel_active_def update_many_def set_map by blast
  then show ?thesis using m(2) by (cases "man_customerId y = c \<and> man_status y = Man_active") simp_all
qed

lemma one_mandate_created:
  assumes "one_mandate ms"
  shows "one_mandate (create_row row (cancel_active (man_customerId row) ms))"
proof -
  have "one_mandate (cancel_active (man_customerId row) ms)"
    unfolding cancel_active_def by (rule one_mandate_update [OF assms]) simp_all
  then show ?thesis
    using cancel_active_none [of _ "man_customerId row" ms]
    by (simp add: one_mandate_def create_row_def unique_where_append)
qed

end
