(* ===== verification/Pain008.thy ===== *)
theory Pain008 imports BankDb begin

text \<open>
  The file of direct debits for the bank (\<open>sepa-pain008.ts\<close>): one block of payments for the first
  debits of a mandate and one for the recurrent ones, each with its count and its control sum.
\<close>

section \<open>The file\<close>

record pain_creditor =
  pc_name :: string
  pc_creditorId :: string
  pc_iban :: string
  pc_bic :: "string option"

record pain_tx =
  pt_endToEndId :: string
  pt_amountCents :: cents
  pt_mandateReference :: string
  pt_mandateSignedDate :: string
  pt_sequence :: sequence_type
  pt_debtorName :: string
  pt_debtorIban :: string
  pt_debtorBic :: "string option"
  pt_remittanceInfo :: string

definition esc_char :: "char \<Rightarrow> string" where
  "esc_char c =
     (if c = CHR ''&'' then ''&amp;'' else if c = CHR ''<'' then ''&lt;'' else if c = CHR ''>'' then ''&gt;''
      else if c = CHR 0x22 then ''&quot;'' else if c = CHR 0x27 then ''&apos;'' else [c])"

definition esc :: "string \<Rightarrow> string" where "esc s = concat (map esc_char s)"

definition nm :: "string \<Rightarrow> string" where
  "nm s = esc (let t = sepaText s 70 in if t = [] then ''NOTPROVIDED'' else t)"

definition pain_id :: "string \<Rightarrow> string" where "pain_id s = esc (sepaId s 35)"

definition pain_amount :: "cents \<Rightarrow> string" where "pain_amount c = toFixed2 (euros c)"

definition elem :: "string \<Rightarrow> string \<Rightarrow> string" where
  "elem tag body = ''<'' @ tag @ ''>'' @ body @ ''</'' @ tag @ ''>''"

definition finInstn :: "string option \<Rightarrow> string" where
  "finInstn bic =
     elem ''FinInstnId''
       (if filled bic then elem ''BIC'' (esc (the bic)) else elem ''Othr'' (elem ''Id'' ''NOTPROVIDED''))"

definition newline :: "nat \<Rightarrow> string" where "newline n = CHR 0x0A # replicate n (CHR '' '')"

definition seq_text :: "sequence_type \<Rightarrow> string" where
  "seq_text q = (case q of FRST \<Rightarrow> ''FRST'' | RCUR \<Rightarrow> ''RCUR'')"

definition tx_block :: "pain_tx \<Rightarrow> string" where
  "tx_block t =
     newline 6 @ ''<DrctDbtTxInf>'' @
     newline 8 @ elem ''PmtId'' (elem ''EndToEndId'' (pain_id (pt_endToEndId t))) @
     newline 8 @ ''<InstdAmt Ccy='' @ [CHR 0x22] @ ''EUR'' @ [CHR 0x22] @ ''>'' @ pain_amount (pt_amountCents t) @ ''</InstdAmt>'' @
     newline 8 @ elem ''DrctDbtTx'' (elem ''MndtRltdInf''
       (elem ''MndtId'' (pain_id (pt_mandateReference t)) @ elem ''DtOfSgntr'' (pt_mandateSignedDate t))) @
     newline 8 @ elem ''DbtrAgt'' (finInstn (pt_debtorBic t)) @
     newline 8 @ elem ''Dbtr'' (elem ''Nm'' (nm (pt_debtorName t))) @
     newline 8 @ elem ''DbtrAcct'' (elem ''Id'' (elem ''IBAN'' (esc (pt_debtorIban t)))) @
     newline 8 @ elem ''RmtInf'' (elem ''Ustrd'' (esc (sepaText (pt_remittanceInfo t) 140))) @
     newline 6 @ ''</DrctDbtTxInf>''"

definition of_sequence :: "sequence_type \<Rightarrow> pain_tx list \<Rightarrow> pain_tx list" where
  "of_sequence q txs = filter (\<lambda>t. pt_sequence t = q) txs"

definition pain_cents :: "pain_tx list \<Rightarrow> cents" where
  "pain_cents txs = sum_list (map pt_amountCents txs)"

definition pmt_block :: "string \<Rightarrow> pain_creditor \<Rightarrow> string \<Rightarrow> sequence_type \<Rightarrow> pain_tx list \<Rightarrow> string" where
  "pmt_block messageId cr collectionDate q txs =
     newline 4 @ ''<PmtInf>'' @
     newline 6 @ elem ''PmtInfId'' (esc (sepaId (sepaId messageId 30 @ ''-'' @ seq_text q) 35)) @
     newline 6 @ elem ''PmtMtd'' ''DD'' @
     newline 6 @ elem ''NbOfTxs'' (show_nat (length txs)) @
     newline 6 @ elem ''CtrlSum'' (pain_amount (pain_cents txs)) @
     newline 6 @ elem ''PmtTpInf'' (elem ''SvcLvl'' (elem ''Cd'' ''SEPA'') @ elem ''LclInstrm'' (elem ''Cd'' ''CORE'')
       @ elem ''SeqTp'' (seq_text q)) @
     newline 6 @ elem ''ReqdColltnDt'' collectionDate @
     newline 6 @ elem ''Cdtr'' (elem ''Nm'' (nm (pc_name cr))) @
     newline 6 @ elem ''CdtrAcct'' (elem ''Id'' (elem ''IBAN'' (esc (pc_iban cr)))) @
     newline 6 @ elem ''CdtrAgt'' (finInstn (pc_bic cr)) @
     newline 6 @ elem ''ChrgBr'' ''SLEV'' @
     newline 6 @ elem ''CdtrSchmeId'' (elem ''Id'' (elem ''PrvtId'' (elem ''Othr''
       (elem ''Id'' (pain_id (pc_creditorId cr)) @ elem ''SchmeNm'' (elem ''Prtry'' ''SEPA''))))) @
     concat (map tx_block txs) @ newline 4 @ ''</PmtInf>''"

definition quoted :: "string \<Rightarrow> string \<Rightarrow> string" where
  "quoted name val = '' '' @ name @ ''='' @ [CHR 0x22] @ val @ [CHR 0x22]"

definition buildPain008 :: "string \<Rightarrow> string \<Rightarrow> pain_creditor \<Rightarrow> string \<Rightarrow> pain_tx list \<Rightarrow> string" where
  "buildPain008 messageId creDtTm cr collectionDate txs =
     ''<?xml'' @ quoted ''version'' ''1.0'' @ quoted ''encoding'' ''UTF-8'' @ ''?>'' @
     newline 0 @ ''<Document'' @ quoted ''xmlns'' ''urn:iso:std:iso:20022:tech:xsd:pain.008.001.02'' @
       quoted ''xmlns:xsi'' ''http://www.w3.org/2001/XMLSchema-instance'' @ ''>'' @
     newline 2 @ ''<CstmrDrctDbtInitn>'' @
     newline 4 @ ''<GrpHdr>'' @
     newline 6 @ elem ''MsgId'' (pain_id messageId) @
     newline 6 @ elem ''CreDtTm'' creDtTm @
     newline 6 @ elem ''NbOfTxs'' (show_nat (length txs)) @
     newline 6 @ elem ''CtrlSum'' (pain_amount (pain_cents txs)) @
     newline 6 @ elem ''InitgPty'' (elem ''Nm'' (nm (pc_name cr)) @
       elem ''Id'' (elem ''OrgId'' (elem ''Othr'' (elem ''Id'' (pain_id (pc_creditorId cr)))))) @
     newline 4 @ ''</GrpHdr>'' @
     concat (map (\<lambda>q. pmt_block messageId cr collectionDate q (of_sequence q txs))
       (filter (\<lambda>q. of_sequence q txs \<noteq> []) [FRST, RCUR])) @
     newline 2 @ ''</CstmrDrctDbtInitn>'' @ newline 0 @ ''</Document>''"

text \<open>The blocks share the debits out: counts and sums of the blocks add up to those of the header.\<close>

lemma blocks_add_up:
  "length (of_sequence FRST txs) + length (of_sequence RCUR txs) = length txs"
  "pain_cents (of_sequence FRST txs) + pain_cents (of_sequence RCUR txs) = pain_cents txs"
proof -
  have rcur: "(pt_sequence t = RCUR) = (pt_sequence t \<noteq> FRST)" for t by (cases "pt_sequence t") simp_all
  show "length (of_sequence FRST txs) + length (of_sequence RCUR txs) = length txs"
    by (induction txs) (simp_all add: of_sequence_def rcur)
  show "pain_cents (of_sequence FRST txs) + pain_cents (of_sequence RCUR txs) = pain_cents txs"
    by (induction txs) (simp_all add: of_sequence_def pain_cents_def rcur)
qed

end
