(* ===== verification/Sepa.thy ===== *)
theory Sepa imports Mandates Pain008 begin

text \<open>
  Remittances of direct debits (\<open>sepa.service.ts\<close>, \<open>sepa-items.ts\<close>, \<open>common/sepa-mandate/collection-date.ts\<close>):
  which invoices can be debited, making the file, confirming what the bank collected, cancelling, and
  a debit the bank gives back. A remittance is made in one transaction over the invoices it locks; the
  confirmation claims the remittance and then collects debit by debit, each in its own transaction.
\<close>

section \<open>Which invoices can be debited\<close>

text \<open>Not in another live remittance nor with a charge of a gateway under way.\<close>

definition debitable :: "db \<Rightarrow> invoice_row \<Rightarrow> bool" where
  "debitable d r \<longleftrightarrow>
     (inv_status r = Issued \<or> inv_status r = Overdue) \<and> \<not> inv_deleted r \<and>
     (\<forall>q\<in>set (remittance_items d). rem_invoiceId q = inv_id r \<longrightarrow> \<not> live_debit q) \<and>
     (\<forall>p\<in>set (payments_of d (inv_id r)). pay_status p \<noteq> Pay_pending \<and> pay_status p \<noteq> Pay_processing)"

definition expired_mandates :: "env \<Rightarrow> bank \<Rightarrow> mandate_row list" where
  "expired_mandates e s =
     filter (\<lambda>m. man_status m = Man_active \<and>
       isSepaMandateExpired (man_lastCollectedAt m) (man_signedAt m) (madrid_today e)) (mandates s)"

record eligible =
  elg_invoices :: "invoice_row list"
  elg_live :: "mandate_row list"
  elg_expired :: "id set"

text \<open>
  \<open>eligible\<close>: the invoices to collect (those of a payment plan are left out), the mandates in force once
  the expired ones are marked, and the customers whose mandate expired.
\<close>

definition eligible_of :: "env \<Rightarrow> bank \<Rightarrow> eligible" where
  "eligible_of e s =
     (let inPlan = concat (map pln_invoiceIds (filter pln_active (plans s)));
          expired = man_customerId ` set (expired_mandates e s)
      in \<lparr>elg_invoices =
            filter (\<lambda>r. inv_id r \<notin> set inPlan)
              (sort_key inv_number
                (filter (\<lambda>r. debitable (core s) r \<and> inv_customerId r \<noteq> None) (invoices (core s)))),
          elg_live = filter (\<lambda>m. man_status m = Man_active \<and> man_customerId m \<notin> expired) (mandates s),
          elg_expired = expired\<rparr>)"

definition expire_mandates :: "env \<Rightarrow> bank \<Rightarrow> bank" where
  "expire_mandates e s =
     s\<lparr>mandates := update_many (\<lambda>m. man_id m \<in> man_id ` set (expired_mandates e s) \<and> man_status m = Man_active)
         (\<lambda>m. m\<lparr>man_status := Man_expired\<rparr>) (mandates s)\<rparr>"

text \<open>The map of the signed mandates by customer: the last one stands.\<close>

definition by_customer :: "mandate_row list \<Rightarrow> id option \<Rightarrow> mandate_row option" where
  "by_customer ms c =
     (case c of None \<Rightarrow> None
      | Some i \<Rightarrow> find_first (\<lambda>m. man_customerId m = i \<and> mandateIsSigned (man_signature m)) (rev ms))"

section \<open>What a remittance would hold\<close>

record preview =
  prv_eligible :: "(id \<times> cents \<times> string) list"
  prv_withoutMandate :: "(id \<times> bool \<times> bool) list"
  prv_total :: cents
  prv_prenoticeDays :: int

definition pending_cents :: "invoice_row \<Rightarrow> cents" where
  "pending_cents r = max 0 (inv_total r - inv_amountPaid r)"

definition preview_of :: "env \<Rightarrow> bank \<Rightarrow> preview" where
  "preview_of e s =
     (let g = eligible_of e s; due = filter (\<lambda>r. 0 < pending_cents r) (elg_invoices g);
          with_mandate = filter (\<lambda>r. by_customer (elg_live g) (inv_customerId r) \<noteq> None) due;
          used = map (\<lambda>r. the (by_customer (elg_live g) (inv_customerId r))) with_mandate;
          unsigned = man_customerId ` set (filter (\<lambda>m. \<not> mandateIsSigned (man_signature m)) (elg_live g))
      in \<lparr>prv_eligible = map (\<lambda>r. (inv_id r, pending_cents r,
             man_reference (the (by_customer (elg_live g) (inv_customerId r))))) with_mandate,
          prv_withoutMandate = map (\<lambda>r. (inv_id r, (case inv_customerId r of None \<Rightarrow> False | Some c \<Rightarrow> c \<in> unsigned),
             (case inv_customerId r of None \<Rightarrow> False | Some c \<Rightarrow> c \<in> elg_expired g)))
             (filter (\<lambda>r. by_customer (elg_live g) (inv_customerId r) = None) due),
          prv_total = sum_list (map pending_cents with_mandate),
          prv_prenoticeDays = requiredPrenoticeDays
             (case sepa_settings s of None \<Rightarrow> 14 | Some st \<Rightarrow> sst_prenoticeDays st) (map man_prenoticeDays used)\<rparr>)"

definition previewRemittance :: "env \<Rightarrow> bank \<Rightarrow> bank \<times> preview" where
  "previewRemittance e s = (expire_mandates e s, preview_of e s)"

section \<open>Making a remittance\<close>

record remittance_input =
  ri_name :: string
  ri_collectionDate :: date
  ri_invoiceIds :: "id list option"

definition assertCollectionDate :: "env \<Rightarrow> date \<Rightarrow> unit result" where
  "assertCollectionDate e d =
     guard (collectionDateIssue d (madrid_today e) = None) (BadRequestException ''invalid_collection_date'')"

definition end_to_end :: "bank_world \<Rightarrow> invoice_row \<Rightarrow> string" where
  "end_to_end w r =
     take 35 (filter (\<lambda>c. is_upper c \<or> (97 \<le> code c \<and> code c \<le> 122) \<or> is_digit c \<or> c = CHR ''-'')
       (''E2E-'' @ inv_number r @ ''-'' @ debit_suffix w (inv_id r)))"

text \<open>One invoice of the selection, looked at again under the lock: its debit, if there is one.\<close>

definition debit_for :: "mandate_row list \<Rightarrow> db \<Rightarrow> invoice_row \<Rightarrow> (invoice_row \<times> mandate_row \<times> cents) option" where
  "debit_for live d bill =
     (case find_first (\<lambda>r. inv_id r = inv_id bill \<and> debitable d r) (invoices d) of
        None \<Rightarrow> None
      | Some fresh \<Rightarrow>
          if pending_cents fresh \<le> 0 then None
          else case by_customer live (inv_customerId bill) of
                 None \<Rightarrow> None
               | Some m \<Rightarrow> Some (bill, m, pending_cents fresh))"

definition debits_for :: "mandate_row list \<Rightarrow> db \<Rightarrow> invoice_row list \<Rightarrow> (invoice_row \<times> mandate_row \<times> cents) list" where
  "debits_for live d invs = List.map_filter (debit_for live d) invs"

definition debtor_name :: "bank \<Rightarrow> invoice_row \<Rightarrow> string" where
  "debtor_name s r =
     (case find_first (\<lambda>c. Some (deb_customerId c) = inv_customerId r) (debtors s) of
        None \<Rightarrow> ''Cliente'' | Some c \<Rightarrow> customerName c)"

definition pain_tx_of :: "bank_world \<Rightarrow> bank \<Rightarrow> invoice_row \<times> mandate_row \<times> cents \<Rightarrow> pain_tx" where
  "pain_tx_of w s x =
     (case x of (bill, m, c) \<Rightarrow>
        \<lparr>pt_endToEndId = end_to_end w bill, pt_amountCents = c, pt_mandateReference = man_reference m,
         pt_mandateSignedDate = iso_date (man_signedAt m), pt_sequence = man_sequence m,
         pt_debtorName = debtor_name s bill, pt_debtorIban = man_iban m, pt_debtorBic = man_bic m,
         pt_remittanceInfo = ''Factura '' @ inv_number bill\<rparr>)"

definition item_for :: "bank_world \<Rightarrow> id \<Rightarrow> id \<Rightarrow> invoice_row \<times> mandate_row \<times> cents \<Rightarrow> remittance_item_row" where
  "item_for w i remittance x =
     (case x of (bill, m, c) \<Rightarrow>
        \<lparr>rem_id = i, rem_remittanceId = remittance, rem_invoiceId = inv_id bill, rem_mandateId = man_id m,
         rem_amount = c, rem_sequence = man_sequence m, rem_endToEndId = end_to_end w bill,
         rem_status = Deb_pending, rem_failureReason = None\<rparr>)"

fun items_from :: "bank_world \<Rightarrow> id \<Rightarrow> id \<Rightarrow> (invoice_row \<times> mandate_row \<times> cents) list \<Rightarrow> remittance_item_row list" where
  "items_from w i remittance [] = []"
| "items_from w i remittance (x # xs) = item_for w i remittance x # items_from w (Suc i) remittance xs"

definition pain_creditor_of :: "sepa_settings_row \<Rightarrow> pain_creditor" where
  "pain_creditor_of st =
     \<lparr>pc_name = sst_creditorName st, pc_creditorId = sst_creditorId st, pc_iban = sst_creditorIban st,
      pc_bic = sst_creditorBic st\<rparr>"

definition remittance_for ::
  "env \<Rightarrow> bank_world \<Rightarrow> id \<Rightarrow> remittance_input \<Rightarrow> sepa_settings_row \<Rightarrow> bank \<Rightarrow>
   (invoice_row \<times> mandate_row \<times> cents) list \<Rightarrow> remittance_row" where
  "remittance_for e w who input st s debits =
     (let messageId = ''REM-'' @ new_message w;
          its = items_from w (Suc (next_id (core s))) (next_id (core s)) debits
      in \<lparr>rmt_id = next_id (core s), rmt_name = ri_name input, rmt_messageId = messageId,
          rmt_collectionDate = ri_collectionDate input, rmt_status = Rmt_generated,
          rmt_itemCount = length its, rmt_totalAmount = sum_list (map rem_amount its),
          rmt_xml = Some (buildPain008 messageId (iso_instant w (now e)) (pain_creditor_of st)
            (iso_date (ri_collectionDate input)) (map (pain_tx_of w s) debits)),
          rmt_createdBy = who, rmt_confirmedAt = None\<rparr>)"

text \<open>The transaction: the selected invoices are locked and looked at again.\<close>

definition create_remittance_tx ::
  "env \<Rightarrow> bank_world \<Rightarrow> id \<Rightarrow> remittance_input \<Rightarrow> sepa_settings_row \<Rightarrow> invoice_row list \<Rightarrow> mandate_row list \<Rightarrow>
   bank \<Rightarrow> (bank \<times> remittance_row) result" where
  "create_remittance_tx e w who input st selected live s =
     (let debits = debits_for live (core s) selected; n = next_id (core s);
          row = remittance_for e w who input st s debits;
          its = items_from w (Suc n) n debits
      in bindr (guard (debits \<noteq> []) (BadRequestException ''no_eligible_invoices'')) (\<lambda>_.
         Inr (s\<lparr>core := (core s)\<lparr>next_id := Suc n + length its, remittance_items := remittance_items (core s) @ its\<rparr>,
                remittances := create_row row (remittances s)\<rparr>, row)))"

definition selected_for :: "remittance_input \<Rightarrow> invoice_row list \<Rightarrow> invoice_row list" where
  "selected_for input invs =
     (case ri_invoiceIds input of None \<Rightarrow> invs | Some ids \<Rightarrow> filter (\<lambda>r. inv_id r \<in> set ids) invs)"

definition notice_for :: "sepa_settings_row \<Rightarrow> mandate_row list \<Rightarrow> invoice_row list \<Rightarrow> int" where
  "notice_for st live selected =
     requiredPrenoticeDays (sst_prenoticeDays st)
       (map man_prenoticeDays (List.map_filter (\<lambda>r. by_customer live (inv_customerId r)) selected))"

definition announce :: "id \<Rightarrow> bank \<Rightarrow> bank" where
  "announce i s = s\<lparr>prenotices := prenotices s @ [i]\<rparr>"

definition createRemittance ::
  "env \<Rightarrow> bank_world \<Rightarrow> id \<Rightarrow> remittance_input \<Rightarrow> bank \<Rightarrow> bank \<times> remittance_row result" where
  "createRemittance e w who input s =
     (case bindr (found (sepa_settings s) (BadRequestException ''sepa_not_configured'')) (\<lambda>st.
           bindr (guard (isValidCreditorId (sst_creditorId st)) (BadRequestException ''invalid_creditor_id'')) (\<lambda>_.
           bindr (assertCollectionDate e (ri_collectionDate input)) (\<lambda>_. Inr st))) of
        Inl err \<Rightarrow> (s, Inl err)
      | Inr st \<Rightarrow>
          (let g = eligible_of e s; s1 = expire_mandates e s;
               selected = selected_for input (elg_invoices g)
           in if ri_collectionDate input < earliestCollectionDate (notice_for st (elg_live g) selected) (madrid_today e)
              then (s1, Inl (BadRequestException ''collection_date_too_soon''))
              else case create_remittance_tx e w who input st selected (elg_live g) s1 of
                     Inl err \<Rightarrow> (s1, Inl err)
                   | Inr (s2, row) \<Rightarrow> (announce (rmt_id row) s2, Inr row)))"

section \<open>Confirming what the bank collected\<close>

definition RESUME_AFTER_MS :: int where "RESUME_AFTER_MS = 5 * 60000"

text \<open>
  \<open>claimConfirmation\<close>: of two confirmations only one goes on; one that was cut short (debits still
  pending in a confirmed remittance) can be resumed after five minutes. \<open>r\<close> is the row read before.
\<close>

definition claim_generated :: "env \<Rightarrow> id \<Rightarrow> bank \<Rightarrow> bank" where
  "claim_generated e i s =
     s\<lparr>remittances := update_many (\<lambda>r. rmt_id r = i \<and> rmt_status r = Rmt_generated)
        (\<lambda>r. r\<lparr>rmt_status := Rmt_confirmed, rmt_confirmedAt := Some (now e)\<rparr>) (remittances s)\<rparr>"

definition claim_resumed :: "env \<Rightarrow> id \<Rightarrow> instant \<Rightarrow> bank \<Rightarrow> bank" where
  "claim_resumed e i t s =
     s\<lparr>remittances := update_many (\<lambda>r. rmt_id r = i \<and> rmt_status r = Rmt_confirmed \<and> rmt_confirmedAt r = Some t)
        (\<lambda>r. r\<lparr>rmt_confirmedAt := Some (now e)\<rparr>) (remittances s)\<rparr>"

definition still_pending :: "db \<Rightarrow> id \<Rightarrow> nat" where
  "still_pending d i = count_rows (\<lambda>q. rem_remittanceId q = i \<and> rem_status q = Deb_pending) (remittance_items d)"

definition claimConfirmation :: "env \<Rightarrow> remittance_row \<Rightarrow> bank \<Rightarrow> bank result" where
  "claimConfirmation e r s =
     (if count_rows (\<lambda>x. rmt_id x = rmt_id r \<and> rmt_status x = Rmt_generated) (remittances s) = 1
      then Inr (claim_generated e (rmt_id r) s)
      else case (rmt_status r = Rmt_confirmed, rmt_confirmedAt r) of
             (True, Some t) \<Rightarrow>
               if still_pending (core s) (rmt_id r) = 0 then Inl (BadRequestException ''remittance_not_confirmable'')
               else if now e - t < RESUME_AFTER_MS then Inl (BadRequestException ''remittance_confirming'')
               else if count_rows (\<lambda>x. rmt_id x = rmt_id r \<and> rmt_status x = Rmt_confirmed \<and> rmt_confirmedAt x = Some t)
                         (remittances s) = 1
               then Inr (claim_resumed e (rmt_id r) t s)
               else Inl (BadRequestException ''remittance_not_confirmable'')
           | _ \<Rightarrow> Inl (BadRequestException ''remittance_not_confirmable''))"

definition set_item_status :: "id \<Rightarrow> debit_status \<Rightarrow> string option \<Rightarrow> db \<Rightarrow> db" where
  "set_item_status i st why d =
     d\<lparr>remittance_items := update_many (\<lambda>q. rem_id q = i)
         (\<lambda>q. q\<lparr>rem_status := st, rem_failureReason := why\<rparr>) (remittance_items d)\<rparr>"

text \<open>\<open>notes: \{ contains \}\<close>.\<close>

fun contains_text :: "string \<Rightarrow> string \<Rightarrow> bool" where
  "contains_text [] p = (p = [])"
| "contains_text (c # s) p = (startsWith (c # s) p \<or> contains_text s p)"

definition already_registered :: "db \<Rightarrow> remittance_item_row \<Rightarrow> bool" where
  "already_registered d q \<longleftrightarrow>
     (\<exists>p\<in>set (payments_of d (rem_invoiceId q)). pay_method p = Sepa_debit \<and>
        (case pay_notes p of None \<Rightarrow> False | Some n \<Rightarrow> contains_text n (rem_endToEndId q)))"

definition debit_payment :: "string \<Rightarrow> remittance_item_row \<Rightarrow> mark_paid_input" where
  "debit_payment name q =
     \<lparr>mp_amount = rem_amount q, mp_method = Sepa_debit, mp_paidAt = None,
      mp_notes = Some (''Remesa SEPA '' @ name @ '' '' @ [CHR 0xB7] @ '' '' @ rem_endToEndId q),
      mp_override = True, mp_allowInRemittance = True, mp_allowPartialNonCash = True,
      mp_rejectDuplicate = False\<rparr>"

text \<open>The reason kept is the message of the exception; here its code stands for it.\<close>

definition failure_text :: "exn \<Rightarrow> string" where
  "failure_text err =
     (case err of BadRequestException c \<Rightarrow> c | ConflictException c \<Rightarrow> c | NotFoundException c \<Rightarrow> c
      | ForbiddenException c \<Rightarrow> c | UnauthorizedException c \<Rightarrow> c | UnprocessableEntityException c \<Rightarrow> c
      | BadGatewayException c \<Rightarrow> c | UniqueViolation \<Rightarrow> ''P2002'' | RecordNotFound \<Rightarrow> ''P2025'')"

text \<open>
  One debit: rejected by the bank, registered by a confirmation that was cut short, or collected now.
  An exception (the invoice was paid in another way meanwhile) leaves it failed. The flag says whether
  its mandate has collected.
\<close>

definition confirm_item :: "env \<Rightarrow> string \<Rightarrow> id list \<Rightarrow> remittance_item_row \<Rightarrow> db \<Rightarrow> db \<times> bool" where
  "confirm_item e name rejected q d =
     (if rem_id q \<in> set rejected then (set_item_status (rem_id q) Deb_failed (Some ''Rechazado por el banco'') d, False)
      else if already_registered d q then (set_item_status (rem_id q) Deb_collected None d, True)
      else case markPaidManually e None (rem_invoiceId q) (debit_payment name q) d of
             Inr d' \<Rightarrow> (set_item_status (rem_id q) Deb_collected None d', True)
           | Inl err \<Rightarrow> (set_item_status (rem_id q) Deb_failed (Some (failure_text err)) d, False))"

fun confirm_items :: "env \<Rightarrow> string \<Rightarrow> id list \<Rightarrow> remittance_item_row list \<Rightarrow> db \<Rightarrow> db \<times> id list" where
  "confirm_items e name rejected [] d = (d, [])"
| "confirm_items e name rejected (q # qs) d =
     (case confirm_item e name rejected q d of (d1, collected) \<Rightarrow>
      case confirm_items e name rejected qs d1 of (d2, ms) \<Rightarrow>
        (d2, if collected then rem_mandateId q # ms else ms))"

definition collected_once :: "date \<Rightarrow> id list \<Rightarrow> mandate_row list \<Rightarrow> mandate_row list" where
  "collected_once day ms rows =
     update_many (\<lambda>m. man_id m \<in> set ms) (\<lambda>m. m\<lparr>man_lastCollectedAt := Some day\<rparr>)
       (update_many (\<lambda>m. man_id m \<in> set ms \<and> man_sequence m = FRST \<and> man_status m = Man_active)
         (\<lambda>m. m\<lparr>man_sequence := RCUR\<rparr>) rows)"

definition confirm_read :: "env \<Rightarrow> remittance_row \<Rightarrow> id list \<Rightarrow> bank \<Rightarrow> bank result" where
  "confirm_read e r rejected s =
     bindr (claimConfirmation e r s) (\<lambda>s1.
     case confirm_items e (rmt_name r) rejected
            (filter (\<lambda>q. rem_status q = Deb_pending) (debits_of (core s1) (rmt_id r))) (core s1) of
       (d, ms) \<Rightarrow> Inr (s1\<lparr>core := d, mandates := collected_once (rmt_collectionDate r) ms (mandates s1)\<rparr>))"

definition confirmRemittance :: "env \<Rightarrow> id \<Rightarrow> id list \<Rightarrow> bank \<Rightarrow> bank result" where
  "confirmRemittance e i rejected s =
     bindr (found (find_remittance s i) (NotFoundException ''remittance_not_found'')) (\<lambda>r.
     confirm_read e r rejected s)"

section \<open>Cancelling, and a debit given back\<close>

definition cancelRemittance :: "id \<Rightarrow> bank \<Rightarrow> bank result" where
  "cancelRemittance i s =
     bindr (found (find_remittance s i) (NotFoundException ''remittance_not_found'')) (\<lambda>_.
     bindr (guard (count_rows (\<lambda>r. rmt_id r = i \<and> rmt_status r = Rmt_generated) (remittances s) \<noteq> 0)
              (BadRequestException ''remittance_not_cancellable'')) (\<lambda>_.
     Inr (s\<lparr>remittances := update_many (\<lambda>r. rmt_id r = i \<and> rmt_status r = Rmt_generated)
              (\<lambda>r. r\<lparr>rmt_status := Rmt_cancelled\<rparr>) (remittances s),
            core := (core s)\<lparr>remittance_items :=
              update_many (\<lambda>q. rem_remittanceId q = i \<and> rem_status q = Deb_pending)
                (\<lambda>q. q\<lparr>rem_status := Deb_cancelled\<rparr>) (remittance_items (core s))\<rparr>\<rparr>)))"

text \<open>The last collected debit of the invoice; the ids of rows grow with time.\<close>

definition last_collected :: "db \<Rightarrow> id \<Rightarrow> remittance_item_row option" where
  "last_collected d bill =
     find_first (\<lambda>_. True)
       (rev (sort_key rem_id (filter (\<lambda>q. rem_invoiceId q = bill \<and> rem_status q = Deb_collected) (remittance_items d))))"

definition markSepaItemReturned :: "id \<Rightarrow> bank \<Rightarrow> bank" where
  "markSepaItemReturned bill s =
     (case last_collected (core s) bill of
        None \<Rightarrow> s
      | Some q \<Rightarrow>
          (let s1 = over_core (set_item_status (rem_id q) Deb_returned (Some ''Devuelto por el banco'')) s
           in if rem_sequence q = FRST \<and>
                 count_rows (\<lambda>x. rem_mandateId x = rem_mandateId q \<and> rem_status x = Deb_collected)
                   (remittance_items (core s1)) = 0
              then s1\<lparr>mandates := update_many (\<lambda>m. man_id m = rem_mandateId q \<and> man_status m = Man_active)
                        (\<lambda>m. m\<lparr>man_sequence := FRST\<rparr>) (mandates s1)\<rparr>
              else s1))"

end
