(* ===== verification/Reconciliation.thy ===== *)
theory Reconciliation imports Sepa begin

text \<open>
  Bank statements (\<open>modules/bank-reconciliation/bank-reconciliation.service.ts\<close>): entering a credit as the
  payment of one or several invoices, a debit as a payment the bank gave back, leaving an entry aside,
  the automatic reconciliation of an import and how it is undone. An entry is claimed before money moves,
  and released when nothing could be entered. The suggestions shown to people are not modelled.
\<close>

section \<open>Claiming an entry\<close>

definition find_entry :: "bank \<Rightarrow> id \<Rightarrow> entry_row option" where
  "find_entry s i = find_first (\<lambda>t. ent_id t = i) (entries s)"

definition change_entries :: "(entry_row \<Rightarrow> bool) \<Rightarrow> (entry_row \<Rightarrow> entry_row) \<Rightarrow> bank \<Rightarrow> bank" where
  "change_entries p f s = s\<lparr>entries := update_many p f (entries s)\<rparr>"

definition pending_entry :: "id \<Rightarrow> entry_row \<Rightarrow> bool" where
  "pending_entry i t \<longleftrightarrow> ent_id t = i \<and> ent_status t = Ent_pending"

definition claimTransaction :: "env \<Rightarrow> id \<Rightarrow> entry_status \<Rightarrow> id \<Rightarrow> bank \<Rightarrow> bank result" where
  "claimTransaction e i st bill s =
     bindr (guard (count_rows (pending_entry i) (entries s) \<noteq> 0) (BadRequestException ''already_matched'')) (\<lambda>_.
     Inr (change_entries (pending_entry i)
       (\<lambda>t. t\<lparr>ent_status := st, ent_matchedInvoiceId := Some bill, ent_matchedAt := Some (now e)\<rparr>) s))"

definition releaseTransaction :: "id \<Rightarrow> entry_status \<Rightarrow> bank \<Rightarrow> bank" where
  "releaseTransaction i st s =
     change_entries (\<lambda>t. ent_id t = i \<and> ent_status t = st)
       (\<lambda>t. t\<lparr>ent_status := Ent_pending, ent_matchedInvoiceId := None, ent_matchedAt := None\<rparr>) s"

section \<open>A credit is shared out\<close>

text \<open>To each invoice, in order, at most what it lacks.\<close>

fun share_out :: "cents \<Rightarrow> (id \<times> cents) list \<Rightarrow> (id \<times> cents) list" where
  "share_out remaining [] = []"
| "share_out remaining ((i, lacks) # xs) =
     (let c = min remaining lacks
      in if 0 < c then (i, c) # share_out (remaining - c) xs else share_out remaining xs)"

definition without_repeats :: "id list \<Rightarrow> id list" where
  "without_repeats ids = rev (remdups (rev ids))"

definition lacking :: "db \<Rightarrow> id \<Rightarrow> cents" where
  "lacking d i = (case find_invoice d i of None \<Rightarrow> 0 | Some r \<Rightarrow> pending_cents r)"

definition transfer :: "string \<Rightarrow> cents \<Rightarrow> mark_paid_input" where
  "transfer notes c =
     \<lparr>mp_amount = c, mp_method = Bank_transfer, mp_paidAt = None, mp_notes = Some notes, mp_override = True,
      mp_allowInRemittance = True, mp_allowPartialNonCash = True, mp_rejectDuplicate = False\<rparr>"

definition N43_NOTES :: string where "N43_NOTES = ''Conciliaci'' @ [CHR 0xF3] @ ''n N43''"

definition AUTO_NOTES :: string where "AUTO_NOTES = N43_NOTES @ '' autom'' @ [CHR 0xE1] @ ''tica''"

text \<open>The payments of the plan, one transaction each, up to the first that fails.\<close>

fun apply_parts :: "env \<Rightarrow> (id \<times> cents) list \<Rightarrow> db \<Rightarrow> db \<times> id list \<times> unit result" where
  "apply_parts e [] d = (d, [], Inr ())"
| "apply_parts e ((i, c) # ps) d =
     (case markPaidManually e None i (transfer N43_NOTES c) d of
        Inl err \<Rightarrow> (d, [], Inl err)
      | Inr d1 \<Rightarrow> (case apply_parts e ps d1 of (d2, applied, ans) \<Rightarrow> (d2, i # applied, ans)))"

definition match_checks :: "db \<Rightarrow> entry_row \<Rightarrow> id list \<Rightarrow> unit result" where
  "match_checks d t ids =
     bindr (guard (ent_status t \<noteq> Ent_matched) (BadRequestException ''already_matched'')) (\<lambda>_.
     bindr (guard (0 \<le> ent_amount t) (BadRequestException ''not_a_credit'')) (\<lambda>_.
     guard (\<forall>i\<in>set ids. find_invoice d i \<noteq> None) (NotFoundException ''invoice_not_found'')))"

text \<open>\<open>plan_db\<close> is the state in which the amounts of the plan were read, before the entry was claimed.\<close>

definition match_from :: "env \<Rightarrow> entry_row \<Rightarrow> id list \<Rightarrow> db \<Rightarrow> bank \<Rightarrow> bank \<times> unit result" where
  "match_from e t ids plan_db s =
     (let plan = share_out (ent_amount t) (map (\<lambda>i. (i, lacking plan_db i)) ids)
      in case claimTransaction e (ent_id t) Ent_matched (hd ids) s of
           Inl err \<Rightarrow> (s, Inl err)
         | Inr s1 \<Rightarrow>
             (case apply_parts e plan (core s1) of
                (d, applied, Inr u) \<Rightarrow> (s1\<lparr>core := d\<rparr>, Inr ())
              | (d, applied, Inl err) \<Rightarrow>
                  (if applied = [] then releaseTransaction (ent_id t) Ent_matched (s1\<lparr>core := d\<rparr>) else s1\<lparr>core := d\<rparr>,
                   Inl err)))"

definition matchTransaction :: "env \<Rightarrow> id \<Rightarrow> id list \<Rightarrow> bank \<Rightarrow> bank \<times> unit result" where
  "matchTransaction e i invoiceIds s =
     (let ids = without_repeats invoiceIds
      in case bindr (found (find_entry s i) (NotFoundException ''transaction_not_found'')) (\<lambda>t.
              bindr (match_checks (core s) t ids) (\<lambda>_. Inr t)) of
           Inl err \<Rightarrow> (s, Inl err)
         | Inr t \<Rightarrow> match_from e t ids (core s) s)"

section \<open>A debit is a payment given back\<close>

text \<open>What was collected in money: withholdings and credits are not the bank's to give back.\<close>

definition cash_paid :: "db \<Rightarrow> invoice_row \<Rightarrow> cents" where
  "cash_paid d r =
     inv_amountPaid r -
     sum_list (map pay_amount (filter (\<lambda>p. pay_status p = Pay_succeeded \<and> pay_method p \<in> NON_CASH_PAYMENT_METHODS)
       (payments_of d (inv_id r))))"

definition return_input :: "cents \<Rightarrow> revert_input" where
  "return_input c =
     \<lparr>rv_amount = c, rv_reason = ''Devoluci'' @ [CHR 0xF3] @ ''n SEPA (conciliaci'' @ [CHR 0xF3] @ ''n N43)'',
      rv_paymentId = None, rv_undo = False\<rparr>"

definition return_checks :: "db \<Rightarrow> entry_row \<Rightarrow> id \<Rightarrow> invoice_row result" where
  "return_checks d t bill =
     bindr (guard (ent_status t = Ent_pending) (BadRequestException ''already_matched'')) (\<lambda>_.
     bindr (guard (ent_amount t < 0) (BadRequestException ''not_a_debit'')) (\<lambda>_.
     found (find_invoice d bill) (NotFoundException ''invoice_not_found'')))"

definition return_from :: "env \<Rightarrow> entry_row \<Rightarrow> id \<Rightarrow> cents \<Rightarrow> bank \<Rightarrow> bank \<times> unit result" where
  "return_from e t bill cashPaid s =
     (case claimTransaction e (ent_id t) Ent_returned bill s of
        Inl err \<Rightarrow> (s, Inl err)
      | Inr s1 \<Rightarrow>
          (case revertPayment e None bill (return_input (min \<bar>ent_amount t\<bar> (max 0 cashPaid))) (core s1) of
             Inl err \<Rightarrow> (releaseTransaction (ent_id t) Ent_returned s1, Inl err)
           | Inr d \<Rightarrow> (markSepaItemReturned bill (s1\<lparr>core := d\<rparr>), Inr ())))"

definition markReturn :: "env \<Rightarrow> id \<Rightarrow> id \<Rightarrow> bank \<Rightarrow> bank \<times> unit result" where
  "markReturn e i bill s =
     (case bindr (found (find_entry s i) (NotFoundException ''transaction_not_found'')) (\<lambda>t.
           bindr (return_checks (core s) t bill) (\<lambda>r. Inr (t, r))) of
        Inl err \<Rightarrow> (s, Inl err)
      | Inr (t, r) \<Rightarrow> return_from e t bill (cash_paid (core s) r) s)"

definition ignoreTransaction :: "id \<Rightarrow> bank \<Rightarrow> bank result" where
  "ignoreTransaction i s =
     bindr (guard (count_rows (pending_entry i) (entries s) \<noteq> 0) (NotFoundException ''transaction_not_found'')) (\<lambda>_.
     Inr (change_entries (pending_entry i) (\<lambda>t. t\<lparr>ent_status := Ent_ignored\<rparr>) s))"

section \<open>The automatic reconciliation\<close>

definition alnum :: "char \<Rightarrow> bool" where "alnum c \<longleftrightarrow> is_upper c \<or> is_digit c"

text \<open>The number stands in the text as a word of its own.\<close>

definition containsInvoiceNumber :: "string \<Rightarrow> string \<Rightarrow> bool" where
  "containsInvoiceNumber haystack number =
     (let h = toUpperCase haystack; n = toUpperCase number
      in \<exists>k\<in>set [0..<Suc (length h)]. startsWith (drop k h) n \<and> (k = 0 \<or> \<not> alnum (h ! (k - 1))) \<and>
           (length h \<le> k + length n \<or> \<not> alnum (h ! (k + length n))))"

definition filled_texts :: "string option list \<Rightarrow> string list" where
  "filled_texts xs = map the (filter filled xs)"

fun join_space :: "string list \<Rightarrow> string" where
  "join_space [] = []"
| "join_space [x] = x"
| "join_space (x # xs) = x @ '' '' @ join_space xs"

definition entry_text :: "entry_row \<Rightarrow> string" where
  "entry_text t = join_space (filled_texts [ent_reference1 t, ent_reference2 t, ent_documentNumber t, ent_description t])"

record candidate =
  cnd_id :: id
  cnd_number :: string
  cnd_pendingCents :: int

text \<open>\<open>Math.round((Number(total) - Number(amountPaid)) * 100)\<close>.\<close>

definition candidate_cents :: "invoice_row \<Rightarrow> int" where
  "candidate_cents r = math_round (nmul (nsub (euros (inv_total r)) (euros (inv_amountPaid r))) 100)"

definition candidate_of :: "invoice_row \<Rightarrow> candidate" where
  "candidate_of r = \<lparr>cnd_id = inv_id r, cnd_number = inv_number r, cnd_pendingCents = candidate_cents r\<rparr>"

text \<open>Invoices without a charge under way, neither of a gateway nor in a remittance.\<close>

definition loadCandidates :: "bool \<Rightarrow> db \<Rightarrow> candidate list" where
  "loadCandidates excludeInFlight d =
     filter (\<lambda>c. 0 < cnd_pendingCents c)
       (map candidate_of
         (filter (\<lambda>r. (inv_status r = Issued \<or> inv_status r = Overdue) \<and> \<not> inv_deleted r \<and>
             (excludeInFlight \<longrightarrow> \<not> hasPaymentInFlight d (inv_id r))) (invoices d)))"

definition uniqueAutoMatch :: "cents \<Rightarrow> entry_row \<Rightarrow> candidate list \<Rightarrow> candidate list" where
  "uniqueAutoMatch amount t cs =
     filter (\<lambda>c. cnd_pendingCents c = amount \<and> containsInvoiceNumber (entry_text t) (cnd_number c)) cs"

definition claim_auto :: "env \<Rightarrow> id \<Rightarrow> id \<Rightarrow> bank \<Rightarrow> bank" where
  "claim_auto e i bill s =
     change_entries (pending_entry i)
       (\<lambda>t. t\<lparr>ent_status := Ent_matched, ent_matchedInvoiceId := Some bill, ent_matchedAt := Some (now e),
              ent_autoMatched := True\<rparr>) s"

definition release_auto :: "id \<Rightarrow> bank \<Rightarrow> bank" where
  "release_auto i s =
     change_entries (\<lambda>t. ent_id t = i \<and> ent_status t = Ent_matched)
       (\<lambda>t. t\<lparr>ent_status := Ent_pending, ent_matchedInvoiceId := None, ent_matchedAt := None,
              ent_autoMatched := False\<rparr>) s"

definition auto_payment :: "db \<Rightarrow> id \<Rightarrow> id option" where
  "auto_payment d bill =
     map_option pay_id (find_latest (\<lambda>p. pay_notes p = Some AUTO_NOTES) (payments_of d bill))"

text \<open>One entry: matched only when a single invoice fits that this run has not used yet.\<close>

definition auto_one :: "env \<Rightarrow> candidate list \<Rightarrow> entry_row \<Rightarrow> bank \<times> id list \<times> nat \<Rightarrow> bank \<times> id list \<times> nat" where
  "auto_one e cs t st =
     (case st of (s, used, n) \<Rightarrow>
        (case filter (\<lambda>c. cnd_id c \<notin> set used) (uniqueAutoMatch (ent_amount t) t cs) of
           [c] \<Rightarrow>
             if count_rows (pending_entry (ent_id t)) (entries s) = 0 then (s, used, n)
             else
               (let s1 = claim_auto e (ent_id t) (cnd_id c) s
                in case markPaidManually e None (cnd_id c) (transfer AUTO_NOTES (ent_amount t)) (core s1) of
                     Inl err \<Rightarrow> (release_auto (ent_id t) s1, cnd_id c # used, n)
                   | Inr d \<Rightarrow>
                       (change_entries (\<lambda>x. ent_id x = ent_id t)
                          (\<lambda>x. x\<lparr>ent_matchedPaymentId := auto_payment d (cnd_id c)\<rparr>) (s1\<lparr>core := d\<rparr>),
                        cnd_id c # used, Suc n))
         | _ \<Rightarrow> (s, used, n)))"

definition entry_date :: "entry_row \<Rightarrow> int \<times> int" where
  "entry_date t = (case ent_operationDate t of None \<Rightarrow> (1, 0) | Some d \<Rightarrow> (0, d))"

definition autoMatch :: "env \<Rightarrow> id list \<Rightarrow> bank \<Rightarrow> bank \<times> nat" where
  "autoMatch e statementIds s =
     (let todo = sort_key entry_date
            (filter (\<lambda>t. ent_statementId t \<in> set statementIds \<and> ent_status t = Ent_pending \<and> 0 < ent_amount t) (entries s));
          cs = loadCandidates True (core s)
      in case fold (auto_one e cs) todo (s, [], 0) of (s', used, n) \<Rightarrow> (s', n))"

section \<open>Undoing an automatic match\<close>

definition undo_input :: "cents \<Rightarrow> id \<Rightarrow> revert_input" where
  "undo_input c p =
     \<lparr>rv_amount = c, rv_reason = ''Conciliaci'' @ [CHR 0xF3] @ ''n autom'' @ [CHR 0xE1] @ ''tica deshecha'',
      rv_paymentId = Some p, rv_undo = True\<rparr>"

definition undo_auto_from :: "env \<Rightarrow> entry_row \<Rightarrow> bank \<Rightarrow> bank \<times> unit result" where
  "undo_auto_from e t s =
     (case (ent_status t = Ent_matched \<and> ent_autoMatched t, ent_matchedInvoiceId t, ent_matchedPaymentId t) of
        (True, Some bill, Some p) \<Rightarrow>
          if count_rows (\<lambda>x. ent_id x = ent_id t \<and> ent_status x = Ent_matched \<and> ent_autoMatched x) (entries s) = 0
          then (s, Inl (BadRequestException ''not_auto_matched''))
          else
            (let s1 = change_entries (\<lambda>x. ent_id x = ent_id t \<and> ent_status x = Ent_matched \<and> ent_autoMatched x)
                  (\<lambda>x. x\<lparr>ent_status := Ent_pending, ent_matchedInvoiceId := None, ent_matchedAt := None,
                         ent_autoMatched := False\<rparr>) s
             in case revertPayment e None bill (undo_input (ent_amount t) p) (core s1) of
                  Inl err \<Rightarrow>
                    (change_entries (\<lambda>x. ent_id x = ent_id t)
                       (\<lambda>x. x\<lparr>ent_status := Ent_matched, ent_matchedInvoiceId := Some bill,
                              ent_matchedAt := ent_matchedAt t, ent_autoMatched := True\<rparr>) s1, Inl err)
                | Inr d \<Rightarrow>
                    (change_entries (\<lambda>x. ent_id x = ent_id t) (\<lambda>x. x\<lparr>ent_matchedPaymentId := None\<rparr>) (s1\<lparr>core := d\<rparr>),
                     Inr ()))
      | _ \<Rightarrow> (s, Inl (BadRequestException ''not_auto_matched'')))"

definition undoAutoMatch :: "env \<Rightarrow> id \<Rightarrow> bank \<Rightarrow> bank \<times> unit result" where
  "undoAutoMatch e i s =
     (case find_entry s i of
        None \<Rightarrow> (s, Inl (NotFoundException ''transaction_not_found''))
      | Some t \<Rightarrow> undo_auto_from e t s)"

definition update_reconcile_settings :: "bool \<Rightarrow> id \<Rightarrow> bank \<Rightarrow> bank" where
  "update_reconcile_settings b tenantId s =
     over_core (audit ''bank_reconciliation.settings_changed'' tenantId) (s\<lparr>autoReconcile := b\<rparr>)"

end
