(* ===== verification/SepaFacts.thy ===== *)
theory SepaFacts imports Sepa begin

text \<open>
  What every operation on remittances keeps: an invoice has at most one live debit, a remittance holds
  the debits its totals say, and the state of a debit agrees with that of its remittance (\<open>debits_ok\<close>).
  \<open>bank_step\<close> puts the operations together with those of the rest of the application.
\<close>

section \<open>The invariant\<close>

definition coherent :: "remittance_status \<Rightarrow> debit_status \<Rightarrow> bool" where
  "coherent r q \<longleftrightarrow>
     (case r of Rmt_generated \<Rightarrow> q = Deb_pending
      | Rmt_cancelled \<Rightarrow> q = Deb_cancelled
      | Rmt_confirmed \<Rightarrow> q \<noteq> Deb_cancelled)"

definition ids_below :: "id \<Rightarrow> remittance_row list \<Rightarrow> remittance_item_row list \<Rightarrow> bool" where
  "ids_below n rs qs \<longleftrightarrow> distinct (map rmt_id rs) \<and> distinct (map rem_id qs) \<and>
     (\<forall>r\<in>set rs. rmt_id r < n) \<and> (\<forall>q\<in>set qs. rem_id q < n \<and> rem_remittanceId q < n)"

definition items_in :: "remittance_item_row list \<Rightarrow> id \<Rightarrow> remittance_item_row list" where
  "items_in qs i = filter (\<lambda>q. rem_remittanceId q = i) qs"

definition totals_ok :: "remittance_row list \<Rightarrow> remittance_item_row list \<Rightarrow> bool" where
  "totals_ok rs qs \<longleftrightarrow>
     (\<forall>r\<in>set rs. rmt_itemCount r = length (items_in qs (rmt_id r)) \<and>
        rmt_totalAmount r = sum_list (map rem_amount (items_in qs (rmt_id r))))"

definition states_ok :: "remittance_row list \<Rightarrow> remittance_item_row list \<Rightarrow> bool" where
  "states_ok rs qs \<longleftrightarrow>
     (\<forall>r\<in>set rs. \<forall>q\<in>set qs. rem_remittanceId q = rmt_id r \<longrightarrow> coherent (rmt_status r) (rem_status q))"

definition live_once :: "remittance_item_row list \<Rightarrow> bool" where
  "live_once qs \<longleftrightarrow> unique_where live_debit rem_invoiceId qs"

definition debits_ok :: "bank \<Rightarrow> bool" where
  "debits_ok s \<longleftrightarrow>
     ids_below (next_id (core s)) (remittances s) (remittance_items (core s)) \<and>
     totals_ok (remittances s) (remittance_items (core s)) \<and>
     states_ok (remittances s) (remittance_items (core s)) \<and>
     live_once (remittance_items (core s)) \<and> (\<forall>q\<in>set (remittance_items (core s)). 0 < rem_amount q) \<and>
     one_mandate (mandates s)"

text \<open>
  An operation that adds no debit: it keeps what identifies remittances and debits, and moves their
  states only in ways that keep them in agreement.
\<close>

definition item_key :: "remittance_item_row \<Rightarrow> id \<times> id \<times> id \<times> cents" where
  "item_key q = (rem_id q, rem_remittanceId q, rem_invoiceId q, rem_amount q)"

definition remittance_key :: "remittance_row \<Rightarrow> id \<times> nat \<times> cents" where
  "remittance_key r = (rmt_id r, rmt_itemCount r, rmt_totalAmount r)"

lemma item_key_facts:
  assumes "map item_key qs' = map item_key qs"
  shows "map rem_id qs' = map rem_id qs" and "map rem_amount (items_in qs' i) = map rem_amount (items_in qs i)"
    and "length (items_in qs' i) = length (items_in qs i)"
    and "(\<forall>q\<in>set qs'. P (item_key q)) = (\<forall>q\<in>set qs. P (item_key q))"
proof -
  have rel: "list_all2 (\<lambda>a b. item_key a = item_key b) qs' qs" using assms by (simp add: list_all2_conv_all_nth list_eq_iff_nth_eq)
  show "map rem_id qs' = map rem_id qs"
    using rel by (induction rule: list_all2_induct) (simp_all add: item_key_def)
  have m: "map rem_amount (items_in qs' i) = map rem_amount (items_in qs i)"
    using rel by (induction rule: list_all2_induct) (simp_all add: item_key_def items_in_def)
  then show "map rem_amount (items_in qs' i) = map rem_amount (items_in qs i)" .
  show "length (items_in qs' i) = length (items_in qs i)" using map_eq_imp_length_eq [OF m] .
  show "(\<forall>q\<in>set qs'. P (item_key q)) = (\<forall>q\<in>set qs. P (item_key q))"
    using rel by (induction rule: list_all2_induct) simp_all
qed

lemma remittance_key_facts:
  assumes "map remittance_key rs' = map remittance_key rs"
  shows "map rmt_id rs' = map rmt_id rs"
    and "(\<forall>r\<in>set rs'. P (remittance_key r)) = (\<forall>r\<in>set rs. P (remittance_key r))"
proof -
  have rel: "list_all2 (\<lambda>a b. remittance_key a = remittance_key b) rs' rs"
    using assms by (simp add: list_all2_conv_all_nth list_eq_iff_nth_eq)
  show "map rmt_id rs' = map rmt_id rs"
    using rel by (induction rule: list_all2_induct) (simp_all add: remittance_key_def)
  show "(\<forall>r\<in>set rs'. P (remittance_key r)) = (\<forall>r\<in>set rs. P (remittance_key r))"
    using rel by (induction rule: list_all2_induct) simp_all
qed

lemma debits_ok_moved:
  assumes ok: "debits_ok s"
    and items: "map item_key (remittance_items (core s')) = map item_key (remittance_items (core s))"
    and rows: "map remittance_key (remittances s') = map remittance_key (remittances s)"
    and n: "next_id (core s) \<le> next_id (core s')"
    and live: "live_once (remittance_items (core s'))"
    and states: "states_ok (remittances s') (remittance_items (core s'))"
    and one: "one_mandate (mandates s')"
  shows "debits_ok s'"
proof -
  note i = item_key_facts [OF items] and r = remittance_key_facts [OF rows]
  have "ids_below (next_id (core s')) (remittances s') (remittance_items (core s'))"
    using ok n i(1) r(1) i(4) [of "\<lambda>(a, b, _). a < next_id (core s') \<and> b < next_id (core s')"]
      r(2) [of "\<lambda>(a, _). a < next_id (core s')"]
    by (fastforce simp: debits_ok_def ids_below_def item_key_def remittance_key_def)
  moreover have "totals_ok (remittances s') (remittance_items (core s'))"
    using ok i(2,3) r(2) [of "\<lambda>(a, b, c). b = length (items_in (remittance_items (core s)) a) \<and>
        c = sum_list (map rem_amount (items_in (remittance_items (core s)) a))"]
    by (simp add: debits_ok_def totals_ok_def remittance_key_def)
  moreover have "\<forall>q\<in>set (remittance_items (core s')). 0 < rem_amount q"
    using ok i(4) [of "\<lambda>(_, _, _, c). 0 < c"] by (simp add: debits_ok_def item_key_def)
  ultimately show ?thesis using live states one by (simp add: debits_ok_def)
qed

section \<open>Moving the state of a debit\<close>

lemma map_key_status [simp]:
  "map item_key (update_many p (\<lambda>q. q\<lparr>rem_status := st, rem_failureReason := why\<rparr>) qs) = map item_key qs"
  "map item_key (update_many p (\<lambda>q. q\<lparr>rem_status := st\<rparr>) qs) = map item_key qs"
  by (simp_all add: map_update_many_inv item_key_def)

lemma set_item_status_sel [simp]:
  "remittance_items (set_item_status i st why d) =
     update_many (\<lambda>q. rem_id q = i) (\<lambda>q. q\<lparr>rem_status := st, rem_failureReason := why\<rparr>) (remittance_items d)"
  "next_id (set_item_status i st why d) = next_id d" "payments (set_item_status i st why d) = payments d"
  "invoices (set_item_status i st why d) = invoices d"
  by (simp_all add: set_item_status_def)

lemma live_once_status:
  assumes "live_once qs" and "\<And>q. q \<in> set qs \<Longrightarrow> p q \<Longrightarrow> st = Deb_pending \<or> st = Deb_collected \<Longrightarrow> live_debit q"
  shows "live_once (update_many p (\<lambda>q. q\<lparr>rem_status := st, rem_failureReason := why\<rparr>) qs)"
    and "live_once (update_many p (\<lambda>q. q\<lparr>rem_status := st\<rparr>) qs)"
proof -
  show "live_once (update_many p (\<lambda>q. q\<lparr>rem_status := st, rem_failureReason := why\<rparr>) qs)"
    unfolding live_once_def
    by (rule unique_where_update [OF assms(1) [unfolded live_once_def]])
      (use assms(2) in \<open>simp_all add: live_debit_def [of "rem_status_update f q" for f q]
         live_debit_def [of "rem_failureReason_update g (rem_status_update f q)" for f g q]\<close>)
  show "live_once (update_many p (\<lambda>q. q\<lparr>rem_status := st\<rparr>) qs)"
    unfolding live_once_def
    by (rule unique_where_update [OF assms(1) [unfolded live_once_def]])
      (use assms(2) in \<open>simp_all add: live_debit_def [of "rem_status_update f q" for f q]\<close>)
qed

lemma in_update_many_cases:
  assumes "x \<in> set (update_many p f rows)"
  obtains y where "y \<in> set rows" and "p y" and "x = f y" | "x \<in> set rows" and "\<not> p x"
  using assms unfolding set_update_many by blast

lemma states_ok_status:
  assumes ok: "states_ok rs qs"
    and new: "\<And>r q. r \<in> set rs \<Longrightarrow> q \<in> set qs \<Longrightarrow> p q \<Longrightarrow> rem_remittanceId q = rmt_id r \<Longrightarrow> coherent (rmt_status r) st"
  shows "states_ok rs (update_many p (\<lambda>q. q\<lparr>rem_status := st, rem_failureReason := why\<rparr>) qs)"
    and "states_ok rs (update_many p (\<lambda>q. q\<lparr>rem_status := st\<rparr>) qs)"
proof -
  show "states_ok rs (update_many p (\<lambda>q. q\<lparr>rem_status := st, rem_failureReason := why\<rparr>) qs)"
    unfolding states_ok_def
  proof (intro ballI impI)
    fix r q
    assume r: "r \<in> set rs" and q: "q \<in> set (update_many p (\<lambda>q. q\<lparr>rem_status := st, rem_failureReason := why\<rparr>) qs)"
      and k: "rem_remittanceId q = rmt_id r"
    from q show "coherent (rmt_status r) (rem_status q)"
      by (rule in_update_many_cases) (use r k ok new in \<open>auto simp: states_ok_def\<close>)
  qed
  show "states_ok rs (update_many p (\<lambda>q. q\<lparr>rem_status := st\<rparr>) qs)"
    unfolding states_ok_def
  proof (intro ballI impI)
    fix r q
    assume r: "r \<in> set rs" and q: "q \<in> set (update_many p (\<lambda>q. q\<lparr>rem_status := st\<rparr>) qs)"
      and k: "rem_remittanceId q = rmt_id r"
    from q show "coherent (rmt_status r) (rem_status q)"
      by (rule in_update_many_cases) (use r k ok new in \<open>auto simp: states_ok_def\<close>)
  qed
qed

section \<open>Collecting the debits\<close>

lemma markPaidManually_rows:
  assumes "markPaidManually e scope i a d = Inr d'"
  obtains fresh where "find_invoice d i = Some fresh" and "inv_status fresh = Issued \<or> inv_status fresh = Overdue"
    and "inv_amountPaid fresh + mp_amount a \<le> inv_total fresh"
    and "remittance_items d' = remittance_items d" and "next_id d' = Suc (next_id d)"
    and "payments d' = payments d @ [(manual_payment_row e i a fresh)\<lparr>pay_id := next_id d\<rparr>]"
proof -
  obtain d1 full where m: "mark_paid_tx e i a d = Inr (d1, full)"
    and d': "d' = (if full then emit (Invoice_paid i) (audit (if full then ''invoice.paid'' else ''invoice.partial_payment'') i d1)
       else audit (if full then ''invoice.paid'' else ''invoice.partial_payment'') i d1)"
    using assms unfolding markPaidManually_def Let_def bindr_eq_Inr by (auto split: prod.splits)
  from m obtain fresh where f: "find_invoice d i = Some fresh" "inv_status fresh = Issued \<or> inv_status fresh = Overdue"
      "inv_amountPaid fresh + mp_amount a \<le> inv_total fresh"
      "d1 = update_invoice i (paid_fields e a (inv_amountPaid fresh + mp_amount a) full)
         (create_payment (manual_payment_row e i a fresh) d)"
    by (rule mark_paid_tx_Inr)
  have "remittance_items d' = remittance_items d" "next_id d' = Suc (next_id d)"
    "payments d' = payments d @ [(manual_payment_row e i a fresh)\<lparr>pay_id := next_id d\<rparr>]"
    by (simp_all add: d' f(4) Let_def emit_def audit_def update_invoice_def create_payment_def create_row_def)
  then show ?thesis using f that by blast
qed

text \<open>What one debit does: the state it gets, the payments, and what it says of its mandate.\<close>

lemma confirm_item_moves:
  assumes "confirm_item e name rejected q d = (d', collected)"
  obtains st why where "st = Deb_failed \<or> st = Deb_collected"
    and "remittance_items d' =
      update_many (\<lambda>x. rem_id x = rem_id q) (\<lambda>x. x\<lparr>rem_status := st, rem_failureReason := why\<rparr>) (remittance_items d)"
    and "next_id d \<le> next_id d'" and "collected = (st = Deb_collected)"
    and "rem_id q \<in> set rejected \<longrightarrow> st = Deb_failed"
    and "rem_id q \<notin> set rejected \<longrightarrow> already_registered d q \<longrightarrow> st = Deb_collected"
    and "(payments d' = payments d \<and>
          (rem_id q \<in> set rejected \<or> already_registered d q \<or> st = Deb_failed)) \<or>
      (st = Deb_collected \<and> rem_id q \<notin> set rejected \<and> \<not> already_registered d q \<and>
       (\<exists>p. payments d' = payments d @ [p] \<and> pay_invoiceId p = Some (rem_invoiceId q) \<and>
          pay_amount p = rem_amount q \<and> pay_method p = Sepa_debit \<and> pay_status p = Pay_succeeded))"
proof (cases "rem_id q \<in> set rejected \<or> already_registered d q")
  case True
  then show ?thesis
    using assms that [of "if rem_id q \<in> set rejected then Deb_failed else Deb_collected"
        "if rem_id q \<in> set rejected then Some ''Rechazado por el banco'' else None"]
    by (auto simp: confirm_item_def split: if_splits)
next
  case False
  show ?thesis
  proof (cases "markPaidManually e None (rem_invoiceId q) (debit_payment name q) d")
    case (Inl err)
    then show ?thesis
      using assms False that [of Deb_failed "Some (failure_text err)"] by (auto simp: confirm_item_def)
  next
    case (Inr d1)
    from Inr obtain fresh where f: "remittance_items d1 = remittance_items d" "next_id d1 = Suc (next_id d)"
        "payments d1 = payments d @ [(manual_payment_row e (rem_invoiceId q) (debit_payment name q) fresh)\<lparr>pay_id := next_id d\<rparr>]"
      by (rule markPaidManually_rows)
    have "d' = set_item_status (rem_id q) Deb_collected None d1" "collected"
      using assms False Inr by (simp_all add: confirm_item_def)
    then show ?thesis
      using that [of Deb_collected None] f False by (simp add: manual_payment_row_def debit_payment_def)
  qed
qed

definition debit_state :: "db \<Rightarrow> id \<Rightarrow> debit_status option" where
  "debit_state d i = map_option rem_status (find_first (\<lambda>q. rem_id q = i) (remittance_items d))"

lemma debit_state_set:
  "debit_state d' j = (if j = i then map_option (\<lambda>_. st) (debit_state d i) else debit_state d j)"
  if "remittance_items d' =
      update_many (\<lambda>x. rem_id x = i) (\<lambda>x. x\<lparr>rem_status := st, rem_failureReason := why\<rparr>) (remittance_items d)"
proof (cases "j = i")
  case True
  then show ?thesis
    unfolding debit_state_def that
    by (simp add: find_first_update_many_key option.map_comp comp_def)
next
  case False
  then show ?thesis
    unfolding debit_state_def that
    by (simp add: find_first_update_many_other)
qed

text \<open>The rows of a run: the debits it goes through are pending debits of one remittance.\<close>

definition to_confirm :: "id \<Rightarrow> remittance_item_row list \<Rightarrow> db \<Rightarrow> bool" where
  "to_confirm i qs d \<longleftrightarrow> distinct (map rem_id qs) \<and>
     (\<forall>q\<in>set qs. debit_state d (rem_id q) \<noteq> None) \<and>
     (\<forall>q\<in>set qs. \<forall>x\<in>set (remittance_items d). rem_id x = rem_id q \<longrightarrow>
        live_debit x \<and> rem_remittanceId x = i)"

lemma to_confirm_next:
  assumes "to_confirm i (q # qs) d"
    and d': "remittance_items d' =
      update_many (\<lambda>x. rem_id x = rem_id q) (\<lambda>x. x\<lparr>rem_status := st, rem_failureReason := why\<rparr>) (remittance_items d)"
  shows "to_confirm i qs d'"
  unfolding to_confirm_def
proof (intro conjI ballI impI)
  have fresh: "rem_id q \<notin> rem_id ` set qs" using assms(1) by (simp add: to_confirm_def)
  have other: "rem_id r \<noteq> rem_id q" if "r \<in> set qs" for r
    using fresh imageI [OF that, of rem_id] by metis
  show "distinct (map rem_id qs)" using assms(1) by (simp add: to_confirm_def)
  show "debit_state d' (rem_id r) \<noteq> None" if "r \<in> set qs" for r
    using that assms(1) debit_state_set [OF d', of "rem_id r"] other [OF that] by (simp add: to_confirm_def)
  fix r x
  assume r: "r \<in> set qs" and x: "x \<in> set (remittance_items d')" and k: "rem_id x = rem_id r"
  have "rem_id r \<noteq> rem_id q" using r by (rule other)
  with x k have "x \<in> set (remittance_items d)" unfolding d' by (auto elim!: in_update_many_cases)
  with assms(1) r k show "live_debit x" and "rem_remittanceId x = i" by (auto simp: to_confirm_def)
qed

lemma confirm_items_ok:
  assumes "confirm_items e name rejected qs d = (d', ms)" and "to_confirm i qs d"
    and "live_once (remittance_items d)" and "states_ok rs (remittance_items d)"
    and confirmed: "\<forall>r\<in>set rs. rmt_id r = i \<longrightarrow> rmt_status r = Rmt_confirmed"
  shows "map item_key (remittance_items d') = map item_key (remittance_items d) \<and>
    next_id d \<le> next_id d' \<and> live_once (remittance_items d') \<and> states_ok rs (remittance_items d')"
  using assms(1-4)
proof (induction qs arbitrary: d ms)
  case Nil then show ?case by simp
next
  case (Cons q qs)
  obtain d1 c ms1 where c: "confirm_item e name rejected q d = (d1, c)"
    and rest: "confirm_items e name rejected qs d1 = (d', ms1)"
    using Cons.prems(1) by (auto split: prod.splits)
  from c obtain st why where st: "st = Deb_failed \<or> st = Deb_collected" and n: "next_id d \<le> next_id d1"
    and d1: "remittance_items d1 =
      update_many (\<lambda>x. rem_id x = rem_id q) (\<lambda>x. x\<lparr>rem_status := st, rem_failureReason := why\<rparr>) (remittance_items d)"
    by (rule confirm_item_moves)
  have mine: "live_debit x \<and> rem_remittanceId x = i" if "x \<in> set (remittance_items d)" "rem_id x = rem_id q" for x
    using Cons.prems(2) that by (simp add: to_confirm_def)
  have "live_once (remittance_items d1)"
    unfolding d1 by (rule live_once_status [OF Cons.prems(3)]) (use mine in blast)
  moreover have "states_ok rs (remittance_items d1)"
    unfolding d1
    by (rule states_ok_status [OF Cons.prems(4)]) (use mine confirmed st in \<open>auto simp: coherent_def\<close>)
  moreover have "to_confirm i qs d1" by (rule to_confirm_next [OF Cons.prems(2) d1])
  ultimately show ?case using Cons.IH [OF rest] n by (simp add: d1)
qed

text \<open>
  What a run collects: the debits that are neither rejected nor registered before, and end up collected.
  Each has its payment, and there is no other.
\<close>

definition collected_now :: "id list \<Rightarrow> db \<Rightarrow> db \<Rightarrow> remittance_item_row \<Rightarrow> bool" where
  "collected_now rejected d d' q \<longleftrightarrow> rem_id q \<notin> set rejected \<and> \<not> already_registered d q \<and>
     debit_state d' (rem_id q) = Some Deb_collected"

definition payment_facts :: "payment_row \<Rightarrow> id option \<times> cents \<times> method_type \<times> payment_status" where
  "payment_facts p = (pay_invoiceId p, pay_amount p, pay_method p, pay_status p)"

definition debit_facts :: "remittance_item_row \<Rightarrow> id option \<times> cents \<times> method_type \<times> payment_status" where
  "debit_facts q = (Some (rem_invoiceId q), rem_amount q, Sepa_debit, Pay_succeeded)"

lemma already_registered_other:
  assumes "payments d' = payments d @ [p]" and "pay_invoiceId p = Some i" and "rem_invoiceId q \<noteq> i"
  shows "already_registered d' q = already_registered d q"
proof -
  have "payments_of d' (rem_invoiceId q) = payments_of d (rem_invoiceId q)"
    using assms by (simp add: payments_of_def)
  then show ?thesis by (simp add: already_registered_def)
qed

lemma confirm_items_keeps_state:
  assumes "confirm_items e name rejected qs d = (d', ms)" and "i \<notin> rem_id ` set qs"
  shows "debit_state d' i = debit_state d i"
  using assms
proof (induction qs arbitrary: d ms)
  case Nil then show ?case by simp
next
  case (Cons q qs)
  obtain d1 c ms1 where c: "confirm_item e name rejected q d = (d1, c)"
    and rest: "confirm_items e name rejected qs d1 = (d', ms1)"
    using Cons.prems(1) by (auto split: prod.splits)
  from c obtain st why where d1: "remittance_items d1 =
      update_many (\<lambda>x. rem_id x = rem_id q) (\<lambda>x. x\<lparr>rem_status := st, rem_failureReason := why\<rparr>) (remittance_items d)"
    by (rule confirm_item_moves)
  have "debit_state d' i = debit_state d1 i" using Cons.IH [OF rest] Cons.prems(2) by simp
  then show ?case using debit_state_set [OF d1, of i] Cons.prems(2) by auto
qed

definition outcome :: "id list \<Rightarrow> db \<Rightarrow> db \<Rightarrow> remittance_item_row \<Rightarrow> bool" where
  "outcome rejected d d' q \<longleftrightarrow>
     (rem_id q \<in> set rejected \<longrightarrow> debit_state d' (rem_id q) = Some Deb_failed) \<and>
     (rem_id q \<notin> set rejected \<longrightarrow> already_registered d q \<longrightarrow> debit_state d' (rem_id q) = Some Deb_collected) \<and>
     (debit_state d' (rem_id q) = Some Deb_failed \<or> debit_state d' (rem_id q) = Some Deb_collected)"

lemma confirm_items_outcome:
  assumes "confirm_items e name rejected qs d = (d', ms)" and "to_confirm i qs d"
    and "distinct (map rem_invoiceId qs)"
  shows "(\<forall>q\<in>set qs. outcome rejected d d' q) \<and>
    (\<exists>new. payments d' = payments d @ new \<and>
      map payment_facts new = map debit_facts (filter (collected_now rejected d d') qs))"
  using assms
proof (induction qs arbitrary: d ms)
  case Nil then show ?case by simp
next
  case (Cons q qs)
  obtain d1 c ms1 where c: "confirm_item e name rejected q d = (d1, c)"
    and rest: "confirm_items e name rejected qs d1 = (d', ms1)"
    using Cons.prems(1) by (auto split: prod.splits)
  from c obtain st why where st: "st = Deb_failed \<or> st = Deb_collected"
    and d1: "remittance_items d1 =
      update_many (\<lambda>x. rem_id x = rem_id q) (\<lambda>x. x\<lparr>rem_status := st, rem_failureReason := why\<rparr>) (remittance_items d)"
    and rej: "rem_id q \<in> set rejected \<longrightarrow> st = Deb_failed"
    and old: "rem_id q \<notin> set rejected \<longrightarrow> already_registered d q \<longrightarrow> st = Deb_collected"
    and pay: "(payments d1 = payments d \<and>
          (rem_id q \<in> set rejected \<or> already_registered d q \<or> st = Deb_failed)) \<or>
      (st = Deb_collected \<and> rem_id q \<notin> set rejected \<and> \<not> already_registered d q \<and>
       (\<exists>p. payments d1 = payments d @ [p] \<and> pay_invoiceId p = Some (rem_invoiceId q) \<and>
          pay_amount p = rem_amount q \<and> pay_method p = Sepa_debit \<and> pay_status p = Pay_succeeded))"
    by (rule confirm_item_moves) blast
  have tc: "to_confirm i qs d1" by (rule to_confirm_next [OF Cons.prems(2) d1])
  have ih: "(\<forall>x\<in>set qs. outcome rejected d1 d' x) \<and>
    (\<exists>new. payments d' = payments d1 @ new \<and>
      map payment_facts new = map debit_facts (filter (collected_now rejected d1 d') qs))"
    using Cons.IH [OF rest tc] Cons.prems(3) by simp
  have "rem_id q \<notin> rem_id ` set qs" using Cons.prems(2) by (simp add: to_confirm_def)
  then have "debit_state d' (rem_id q) = debit_state d1 (rem_id q)" by (rule confirm_items_keeps_state [OF rest])
  then have mine: "debit_state d' (rem_id q) = Some st"
    using debit_state_set [OF d1, of "rem_id q"] Cons.prems(2) by (auto simp: to_confirm_def)
  have same: "already_registered d1 x = already_registered d x" if x: "x \<in> set qs" for x
  proof -
    have "rem_invoiceId x \<noteq> rem_invoiceId q"
      using x Cons.prems(3) imageI [OF x, of rem_invoiceId] by (metis distinct.simps(2) list.set_map list.simps(9))
    then show ?thesis
      using pay already_registered_other [of d1 d _ "rem_invoiceId q" x]
      by (auto simp: already_registered_def payments_of_def)
  qed
  have out: "\<forall>x\<in>set qs. outcome rejected d d' x" using ih same by (simp add: outcome_def)
  have now_q: "collected_now rejected d d' q \<longleftrightarrow>
      (rem_id q \<notin> set rejected \<and> \<not> already_registered d q \<and> st = Deb_collected)"
    using mine by (simp add: collected_now_def)
  have later: "filter (collected_now rejected d1 d') qs = filter (collected_now rejected d d') qs"
    using same by (intro filter_cong) (auto simp: collected_now_def)
  from ih obtain new where new: "payments d' = payments d1 @ new"
      "map payment_facts new = map debit_facts (filter (collected_now rejected d d') qs)"
    unfolding later by blast
  have "\<exists>new'. payments d' = payments d @ new' \<and>
      map payment_facts new' = map debit_facts (filter (collected_now rejected d d') (q # qs))"
    using pay
  proof
    assume "payments d1 = payments d \<and> (rem_id q \<in> set rejected \<or> already_registered d q \<or> st = Deb_failed)"
    then show ?thesis using new now_q by auto
  next
    assume p: "st = Deb_collected \<and> rem_id q \<notin> set rejected \<and> \<not> already_registered d q \<and>
       (\<exists>p. payments d1 = payments d @ [p] \<and> pay_invoiceId p = Some (rem_invoiceId q) \<and>
          pay_amount p = rem_amount q \<and> pay_method p = Sepa_debit \<and> pay_status p = Pay_succeeded)"
    then obtain p where "payments d1 = payments d @ [p]" "payment_facts p = debit_facts q"
      by (auto simp: payment_facts_def debit_facts_def)
    then show ?thesis using new now_q p by (intro exI [of _ "p # new"]) simp
  qed
  moreover have "outcome rejected d d' q" using mine st rej old by (auto simp: outcome_def)
  ultimately show ?case using out by simp
qed

section \<open>Mandates\<close>

lemma debits_ok_mandates:
  assumes "debits_ok s" and "remittance_items (core s') = remittance_items (core s)"
    and "remittances s' = remittances s" and "next_id (core s) \<le> next_id (core s')" and "one_mandate (mandates s')"
  shows "debits_ok s'"
  by (rule debits_ok_moved [OF assms(1)]) (use assms in \<open>simp_all add: debits_ok_def\<close>)

lemma sendSigningLink_ok: "debits_ok s \<Longrightarrow> debits_ok (sendSigningLink e w secret i s)"
  by (rule debits_ok_mandates [where s = s])
    (auto simp: sendSigningLink_def change_mandate_def debits_ok_def link_of_mandate_def intro!: one_mandate_update)

lemma create_mandate_tx_ok:
  assumes "debits_ok s" and "create_mandate_tx row s = Inr s'"
  shows "debits_ok s'"
  by (rule debits_ok_mandates [OF assms(1)])
    (use assms in \<open>auto simp: create_mandate_tx_def bindr_eq_Inr debits_ok_def one_mandate_created\<close>)

lemma createMandate_ok:
  assumes "debits_ok s" and "createMandate e w secret input opts s = Inr (s', row)"
  shows "debits_ok s'"
proof -
  obtain s1 where s1: "create_mandate_tx row s = Inr s1"
    and s': "s' = s1 \<or> s' = sendSigningLink e w secret (man_id row) s1"
    using assms(2) unfolding createMandate_def Let_def bindr_eq_Inr by (auto split: if_splits)
  have "debits_ok s1" by (rule create_mandate_tx_ok [OF assms(1) s1])
  then show ?thesis using s' sendSigningLink_ok by auto
qed

lemma resendSigningLink_ok: "debits_ok s \<Longrightarrow> resendSigningLink e w secret i s = Inr s' \<Longrightarrow> debits_ok s'"
  using sendSigningLink_ok by (auto simp: resendSigningLink_def bindr_eq_Inr)

lemma sign_mandate_tx_ok:
  assumes "debits_ok s" and "sign_mandate_tx e signer days i s = Inr s'"
  shows "debits_ok s'"
  by (rule debits_ok_mandates [OF assms(1)])
    (use assms in \<open>auto simp: sign_mandate_tx_def bindr_eq_Inr debits_ok_def mandate_signed_def intro!: one_mandate_update\<close>)

lemma signByToken_ok: "debits_ok s \<Longrightarrow> signByToken e w token signer s = Inr s' \<Longrightarrow> debits_ok s'"
  using sign_mandate_tx_ok by (auto simp: signByToken_def bindr_eq_Inr)

lemma cancelMandate_ok:
  assumes "debits_ok s" and "cancelMandate i s = Inr s'"
  shows "debits_ok s'"
  by (rule debits_ok_mandates [OF assms(1)])
    (use assms in \<open>auto simp: cancelMandate_def change_mandate_def bindr_eq_Inr debits_ok_def intro!: one_mandate_update\<close>)

lemma updateSettings_ok:
  assumes "debits_ok s" and "updateSettings input s = Inr s'"
  shows "debits_ok s'"
  by (rule debits_ok_mandates [OF assms(1)])
    (use assms in \<open>auto simp: updateSettings_def Let_def bindr_eq_Inr debits_ok_def\<close>)

lemma expire_mandates_sel [simp]:
  "core (expire_mandates e s) = core s" "remittances (expire_mandates e s) = remittances s"
  "debtors (expire_mandates e s) = debtors s"
  by (simp_all add: expire_mandates_def)

lemma expire_mandates_ok: "debits_ok s \<Longrightarrow> debits_ok (expire_mandates e s)"
  by (rule debits_ok_mandates [where s = s])
    (auto simp: expire_mandates_def debits_ok_def intro!: one_mandate_update)

section \<open>Making a remittance\<close>

lemma items_from_facts:
  "q \<in> set (items_from w i r xs) \<Longrightarrow> i \<le> rem_id q \<and> rem_id q < i + length xs \<and> rem_remittanceId q = r \<and>
     rem_status q = Deb_pending"
  "length (items_from w i r xs) = length xs"
  "map rem_invoiceId (items_from w i r xs) = map (\<lambda>(bill, m, c). inv_id bill) xs"
  "map rem_amount (items_from w i r xs) = map (\<lambda>(bill, m, c). c) xs"
  by (induction xs arbitrary: i) (force simp: item_for_def)+

lemma items_from_distinct: "distinct (map rem_id (items_from w i r xs))"
proof (induction xs arbitrary: i)
  case Nil then show ?case by simp
next
  case (Cons x xs)
  have "rem_id q \<noteq> i" if "q \<in> set (items_from w (Suc i) r xs)" for q
    using items_from_facts(1) [OF that] by simp
  then show ?case using Cons [of "Suc i"] by (auto simp: item_for_def split: prod.splits)
qed

text \<open>A debit is of an invoice that is still owed, found under the lock.\<close>

lemma debit_for_Some:
  assumes "debit_for live d bill = Some x"
  obtains fresh m where "fresh \<in> set (invoices d)" and "inv_id fresh = inv_id bill" and "debitable d fresh"
    and "by_customer live (inv_customerId bill) = Some m" and "x = (bill, m, inv_total fresh - inv_amountPaid fresh)"
    and "0 < inv_total fresh - inv_amountPaid fresh"
proof -
  obtain fresh where f: "find_first (\<lambda>r. inv_id r = inv_id bill \<and> debitable d r) (invoices d) = Some fresh"
    and p: "0 < pending_cents fresh"
    using assms unfolding debit_for_def by (auto split: option.splits if_splits)
  then obtain m where m: "by_customer live (inv_customerId bill) = Some m" "x = (bill, m, pending_cents fresh)"
    using assms unfolding debit_for_def by (auto split: option.splits if_splits)
  have "pending_cents fresh = inv_total fresh - inv_amountPaid fresh"
    using p by (auto simp: pending_cents_def max_def split: if_splits)
  then show ?thesis using that [of fresh m] find_first_SomeD [OF f] p m by simp
qed

lemma debits_for_in:
  assumes "x \<in> set (debits_for live d bills)"
  obtains bill where "bill \<in> set bills" and "debit_for live d bill = Some x"
  using assms by (auto simp: debits_for_def List.map_filter_def)

lemma debits_for_distinct:
  assumes "distinct (map inv_id bills)"
  shows "distinct (map (\<lambda>(bill, m, c). inv_id bill) (debits_for live d bills))"
  using assms
proof (induction bills)
  case Nil then show ?case by (simp add: debits_for_def map_filter_simps)
next
  case (Cons b bs)
  have step: "debits_for live d (b # bs) =
      (case debit_for live d b of None \<Rightarrow> debits_for live d bs | Some x \<Rightarrow> x # debits_for live d bs)"
    by (simp add: debits_for_def map_filter_simps split: option.split)
  have mine: "fst x = c" if "debit_for live d c = Some x" for c x
    using that by (rule debit_for_Some) simp
  have "inv_id (fst x) \<in> inv_id ` set bs" if "x \<in> set (debits_for live d bs)" for x
    using that by (rule debits_for_in) (use mine in auto)
  then have "inv_id b \<notin> (\<lambda>(bill, m, c). inv_id bill) ` set (debits_for live d bs)"
    using Cons.prems by (force simp: case_prod_beta)
  then show ?case
    using Cons mine [of b] by (auto simp: step case_prod_beta split: option.splits)
qed

lemma items_in_append: "items_in (qs @ qs') i = items_in qs i @ items_in qs' i"
  by (simp add: items_in_def)

lemma create_remittance_tx_ok:
  assumes ok: "debits_ok s" and sel: "distinct (map inv_id selected)"
    and run: "create_remittance_tx e w who input st selected live s = Inr (s', row)"
  shows "debits_ok s'"
proof -
  define ds where "ds = debits_for live (core s) selected"
  define n where "n = next_id (core s)"
  define its where "its = items_from w (Suc n) n ds"
  define qs where "qs = remittance_items (core s)"
  have row: "row = remittance_for e w who input st s ds"
    and s': "s' = s\<lparr>core := (core s)\<lparr>next_id := Suc n + length its, remittance_items := qs @ its\<rparr>,
        remittances := remittances s @ [row]\<rparr>"
    using run by (auto simp: create_remittance_tx_def Let_def bindr_eq_Inr ds_def n_def its_def qs_def create_row_def)
  have r: "rmt_id row = n" "rmt_itemCount row = length its" "rmt_totalAmount row = sum_list (map rem_amount its)"
    "rmt_status row = Rmt_generated"
    by (simp_all add: row remittance_for_def Let_def n_def its_def)
  have its: "n < rem_id q \<and> rem_id q < Suc n + length its \<and> rem_remittanceId q = n \<and> rem_status q = Deb_pending"
    if "q \<in> set its" for q
    using items_from_facts(1) [of q w "Suc n" n ds] that unfolding its_def by (simp add: items_from_facts(2))
  have low: "rem_id q < n \<and> rem_remittanceId q < n \<and> 0 < rem_amount q" if "q \<in> set qs" for q
    using ok that by (simp add: debits_ok_def ids_below_def qs_def n_def)
  have low_r: "rmt_id x < n" if "x \<in> set (remittances s)" for x
    using ok that by (simp add: debits_ok_def ids_below_def n_def)
  have mine: "items_in qs n = []" "items_in its n = its"
    using low its by (force simp: items_in_def filter_empty_conv filter_id_conv)+
  have other: "items_in its (rmt_id x) = []" if "x \<in> set (remittances s)" for x
    using its low_r [OF that] by (auto simp: items_in_def filter_empty_conv)
  have "ids_below (Suc n + length its) (remittances s @ [row]) (qs @ its)"
    unfolding ids_below_def
  proof (intro conjI ballI)
    have "distinct (map rmt_id (remittances s))" "distinct (map rem_id qs)"
      using ok by (simp_all add: debits_ok_def ids_below_def qs_def)
    moreover have "distinct (map rem_id its)" unfolding its_def by (rule items_from_distinct)
    moreover have "rmt_id row \<notin> rmt_id ` set (remittances s)" using low_r r(1) by fastforce
    moreover have "rem_id ` set qs \<inter> rem_id ` set its = {}" using low its by fastforce
    ultimately show "distinct (map rmt_id (remittances s @ [row]))" "distinct (map rem_id (qs @ its))" by simp_all
    show "rmt_id x < Suc n + length its" if "x \<in> set (remittances s @ [row])" for x
      using that low_r r(1) by (auto intro: less_trans trans_less_add1)
    show "rem_id q < Suc n + length its" "rem_remittanceId q < Suc n + length its" if "q \<in> set (qs @ its)" for q
      using that low [of q] its [of q] by auto
  qed
  moreover have "totals_ok (remittances s @ [row]) (qs @ its)"
    unfolding totals_ok_def
  proof
    fix x assume "x \<in> set (remittances s @ [row])"
    then consider "x = row" | "x \<in> set (remittances s)" by auto
    then show "rmt_itemCount x = length (items_in (qs @ its) (rmt_id x)) \<and>
        rmt_totalAmount x = sum_list (map rem_amount (items_in (qs @ its) (rmt_id x)))"
    proof cases
      case 1 then show ?thesis using mine r by (simp add: items_in_append)
    next
      case 2
      then show ?thesis using ok other [OF 2] by (simp add: debits_ok_def totals_ok_def items_in_append qs_def)
    qed
  qed
  moreover have "states_ok (remittances s @ [row]) (qs @ its)"
    unfolding states_ok_def
  proof (intro ballI impI)
    fix x q
    assume x: "x \<in> set (remittances s @ [row])" and q: "q \<in> set (qs @ its)" and k: "rem_remittanceId q = rmt_id x"
    consider "x = row" "q \<in> set its" | "x \<in> set (remittances s)" "q \<in> set qs"
      | "x = row" "q \<in> set qs" | "x \<in> set (remittances s)" "q \<in> set its" using x q by auto
    then show "coherent (rmt_status x) (rem_status q)"
    proof cases
      case 1 then show ?thesis using its r(4) by (simp add: coherent_def)
    next
      case 2 then show ?thesis using ok k by (simp add: debits_ok_def states_ok_def qs_def)
    next
      case 3 then show ?thesis using low [of q] k r(1) by simp
    next
      case 4 then show ?thesis using its [of q] low_r [of x] k by simp
    qed
  qed
  moreover have "live_once (qs @ its)"
    unfolding live_once_def unique_where_append
  proof (intro conjI ballI impI)
    show "unique_where live_debit rem_invoiceId qs" using ok by (simp add: debits_ok_def live_once_def qs_def)
    have "distinct (map rem_invoiceId its)"
      using debits_for_distinct [OF sel, of live "core s"] by (simp add: its_def items_from_facts(3) ds_def)
    then show "unique_where live_debit rem_invoiceId its" by (rule unique_where_distinct)
    fix x y
    assume x: "x \<in> set qs" "live_debit x" and y: "y \<in> set its"
    have "rem_invoiceId y \<in> set (map (\<lambda>(bill, m, c). inv_id bill) ds)"
      using y imageI [OF y, of rem_invoiceId] by (simp flip: items_from_facts(3) [of w "Suc n" n] add: its_def)
    then obtain d where d: "d \<in> set ds" "rem_invoiceId y = inv_id (fst d)" by (auto simp: case_prod_beta)
    from d(1) obtain bill where "debit_for live (core s) bill = Some d"
      unfolding ds_def by (rule debits_for_in)
    then obtain fresh where "inv_id fresh = inv_id (fst d)" "debitable (core s) fresh"
      by (rule debit_for_Some) auto
    then show "rem_invoiceId y \<noteq> rem_invoiceId x" using x d(2) by (auto simp: debitable_def qs_def)
  qed
  moreover have "\<forall>q\<in>set (qs @ its). 0 < rem_amount q"
  proof
    fix q assume q: "q \<in> set (qs @ its)"
    have "0 < c" if "(bill, m, c) \<in> set ds" for bill m c
      using that unfolding ds_def by (rule debits_for_in) (auto elim: debit_for_Some)
    then have "0 < a" if "a \<in> set (map rem_amount its)" for a
      using that by (auto simp: its_def items_from_facts(4))
    then show "0 < rem_amount q" using q low by auto
  qed
  ultimately show ?thesis using ok by (simp add: debits_ok_def s')
qed

section \<open>Confirming, cancelling, giving back\<close>

lemma claim_confirms:
  assumes ok: "debits_ok s" and run: "claimConfirmation e r s = Inr s1"
  shows "core s1 = core s \<and> mandates s1 = mandates s \<and> map remittance_key (remittances s1) = map remittance_key (remittances s)
    \<and> (\<forall>x\<in>set (remittances s1). rmt_id x = rmt_id r \<longrightarrow> rmt_status x = Rmt_confirmed)
    \<and> (\<forall>x\<in>set (remittances s1). \<exists>y\<in>set (remittances s). rmt_id y = rmt_id x \<and>
        (rmt_status x = rmt_status y \<or> rmt_status y = Rmt_generated \<and> rmt_status x = Rmt_confirmed))"
proof -
  have d: "distinct (map rmt_id (remittances s))" using ok by (simp add: debits_ok_def ids_below_def)
  have one: "x = y" if "x \<in> set (remittances s)" "y \<in> set (remittances s)" "rmt_id x = rmt_id y" for x y
    using that d by (auto simp: distinct_map inj_on_def)
  consider (made) x where "x \<in> set (remittances s)" "rmt_id x = rmt_id r" "rmt_status x = Rmt_generated"
      "s1 = claim_generated e (rmt_id r) s"
    | (again) x t where "x \<in> set (remittances s)" "rmt_id x = rmt_id r" "rmt_status x = Rmt_confirmed"
      "s1 = claim_resumed e (rmt_id r) t s"
  proof (cases "count_rows (\<lambda>x. rmt_id x = rmt_id r \<and> rmt_status x = Rmt_generated) (remittances s) = 1")
    case True
    then have "filter (\<lambda>x. rmt_id x = rmt_id r \<and> rmt_status x = Rmt_generated) (remittances s) \<noteq> []"
      by (auto simp: count_rows_def)
    then obtain x where "x \<in> set (remittances s)" "rmt_id x = rmt_id r" "rmt_status x = Rmt_generated"
      by (auto simp: filter_empty_conv)
    then show ?thesis using made run True by (simp add: claimConfirmation_def)
  next
    case False
    then obtain t where t: "count_rows (\<lambda>x. rmt_id x = rmt_id r \<and> rmt_status x = Rmt_confirmed \<and> rmt_confirmedAt x = Some t)
        (remittances s) = 1" and s1: "s1 = claim_resumed e (rmt_id r) t s"
      using run unfolding claimConfirmation_def by (auto split: bool.splits option.splits if_splits)
    have "filter (\<lambda>x. rmt_id x = rmt_id r \<and> rmt_status x = Rmt_confirmed \<and> rmt_confirmedAt x = Some t) (remittances s) \<noteq> []"
      using t by (auto simp: count_rows_def)
    then obtain x where "x \<in> set (remittances s)" "rmt_id x = rmt_id r" "rmt_status x = Rmt_confirmed"
      by (auto simp: filter_empty_conv)
    then show ?thesis using again s1 by blast
  qed
  then show ?thesis
  proof cases
    case made
    have st: "rmt_status y = Rmt_generated" if "y \<in> set (remittances s)" "rmt_id y = rmt_id r" for y
      using one [OF made(1) that(1)] made that by simp
    have rows: "remittances s1 = update_many (\<lambda>r'. rmt_id r' = rmt_id r \<and> rmt_status r' = Rmt_generated)
        (\<lambda>r'. r'\<lparr>rmt_status := Rmt_confirmed, rmt_confirmedAt := Some (now e)\<rparr>) (remittances s)"
      by (simp add: made(4) claim_generated_def)
    have old: "\<exists>y\<in>set (remittances s). rmt_id y = rmt_id z \<and>
        (rmt_status z = rmt_status y \<or> rmt_status y = Rmt_generated \<and> rmt_status z = Rmt_confirmed)"
      if "z \<in> set (remittances s1)" for z
      using that unfolding rows by (rule in_update_many_cases) auto
    have "rmt_status z = Rmt_confirmed" if z: "z \<in> set (remittances s1)" "rmt_id z = rmt_id r" for z
      using z(1) unfolding rows by (rule in_update_many_cases) (use z(2) st in auto)
    then show ?thesis
      using old rows made(4) by (auto simp: claim_generated_def map_update_many_inv remittance_key_def)
  next
    case again
    have st: "rmt_status y = Rmt_confirmed" if "y \<in> set (remittances s)" "rmt_id y = rmt_id r" for y
      using one [OF again(1) that(1)] again that by simp
    have rows: "remittances s1 = update_many (\<lambda>r'. rmt_id r' = rmt_id r \<and> rmt_status r' = Rmt_confirmed \<and> rmt_confirmedAt r' = Some t)
        (\<lambda>r'. r'\<lparr>rmt_confirmedAt := Some (now e)\<rparr>) (remittances s)"
      by (simp add: again(4) claim_resumed_def)
    have old: "\<exists>y\<in>set (remittances s). rmt_id y = rmt_id z \<and> rmt_status z = rmt_status y"
      if "z \<in> set (remittances s1)" for z
      using that unfolding rows by (rule in_update_many_cases) auto
    have "\<forall>z\<in>set (remittances s1). rmt_id z = rmt_id r \<longrightarrow> rmt_status z = Rmt_confirmed"
      using old st by (metis (no_types))
    then show ?thesis
      using old rows again(4) by (auto simp: claim_resumed_def map_update_many_inv remittance_key_def)
  qed
qed

text \<open>The pending debits of a remittance are ready to be confirmed.\<close>

lemma pending_to_confirm:
  assumes "distinct (map rem_id (remittance_items d))"
  shows "to_confirm i (filter (\<lambda>q. rem_status q = Deb_pending) (debits_of d i)) d"
  unfolding to_confirm_def
proof (intro conjI ballI impI)
  have same: "x = q" if "x \<in> set (remittance_items d)" "q \<in> set (remittance_items d)" "rem_id x = rem_id q" for x q
    using that assms by (auto simp: distinct_map inj_on_def)
  show "distinct (map rem_id (filter (\<lambda>q. rem_status q = Deb_pending) (debits_of d i)))"
    using assms by (simp add: debits_of_def distinct_map_filter)
  show "debit_state d (rem_id q) \<noteq> None"
    if "q \<in> set (filter (\<lambda>q. rem_status q = Deb_pending) (debits_of d i))" for q
    using that find_first_None_iff [of "\<lambda>x. rem_id x = rem_id q" "remittance_items d"]
    by (auto simp: debit_state_def debits_of_def)
  fix q x
  assume "q \<in> set (filter (\<lambda>q. rem_status q = Deb_pending) (debits_of d i))"
    and "x \<in> set (remittance_items d)" and "rem_id x = rem_id q"
  then show "live_debit x" and "rem_remittanceId x = i"
    using same [of x q] by (auto simp: debits_of_def live_debit_def)
qed

lemma collected_once_one: "one_mandate ms \<Longrightarrow> one_mandate (collected_once day ids ms)"
  unfolding collected_once_def by (intro one_mandate_update) simp_all

lemma confirm_from_parts:
  assumes "confirm_read e r rejected s = Inr s'"
  obtains s1 d ms where "claimConfirmation e r s = Inr s1"
    and "confirm_items e (rmt_name r) rejected
       (filter (\<lambda>q. rem_status q = Deb_pending) (debits_of (core s1) (rmt_id r))) (core s1) = (d, ms)"
    and "s' = s1\<lparr>core := d, mandates := collected_once (rmt_collectionDate r) ms (mandates s1)\<rparr>"
proof -
  from assms obtain s1 where s1: "claimConfirmation e r s = Inr s1"
    and rest: "(case confirm_items e (rmt_name r) rejected
            (filter (\<lambda>q. rem_status q = Deb_pending) (debits_of (core s1) (rmt_id r))) (core s1) of
       (d, ms) \<Rightarrow> Inr (s1\<lparr>core := d, mandates := collected_once (rmt_collectionDate r) ms (mandates s1)\<rparr>)) = (Inr s' :: bank result)"
    unfolding confirm_read_def bindr_eq_Inr by blast
  obtain d ms where c: "confirm_items e (rmt_name r) rejected
       (filter (\<lambda>q. rem_status q = Deb_pending) (debits_of (core s1) (rmt_id r))) (core s1) = (d, ms)"
    by fastforce
  show ?thesis using that [OF s1 c] rest unfolding c by simp
qed

lemma confirm_from_ok:
  assumes ok: "debits_ok s" and run: "confirm_read e r rejected s = Inr s'"
  shows "debits_ok s'"
proof -
  from run obtain s1 d ms where s1: "claimConfirmation e r s = Inr s1"
    and c: "confirm_items e (rmt_name r) rejected
       (filter (\<lambda>q. rem_status q = Deb_pending) (debits_of (core s1) (rmt_id r))) (core s1) = (d, ms)"
    and s': "s' = s1\<lparr>core := d, mandates := collected_once (rmt_collectionDate r) ms (mandates s1)\<rparr>"
    by (rule confirm_from_parts)
  note claim = claim_confirms [OF ok s1]
  have keys: "map remittance_key (remittances s1) = map remittance_key (remittances s)" using claim by blast
  have states1: "states_ok (remittances s1) (remittance_items (core s))"
    unfolding states_ok_def
  proof (intro ballI impI)
    fix x q
    assume x: "x \<in> set (remittances s1)" and q: "q \<in> set (remittance_items (core s))" "rem_remittanceId q = rmt_id x"
    obtain y where y: "y \<in> set (remittances s)" "rmt_id y = rmt_id x"
      "rmt_status x = rmt_status y \<or> rmt_status y = Rmt_generated \<and> rmt_status x = Rmt_confirmed"
      using claim x by blast
    then have "coherent (rmt_status y) (rem_status q)" using ok q by (auto simp: debits_ok_def states_ok_def)
    then show "coherent (rmt_status x) (rem_status q)" using y(3) by (auto simp: coherent_def)
  qed
  have "to_confirm (rmt_id r) (filter (\<lambda>q. rem_status q = Deb_pending) (debits_of (core s1) (rmt_id r))) (core s1)"
    by (rule pending_to_confirm) (use ok claim in \<open>simp add: debits_ok_def ids_below_def\<close>)
  from confirm_items_ok [OF c this, of "remittances s1"]
  have "map item_key (remittance_items d) = map item_key (remittance_items (core s))" "next_id (core s) \<le> next_id d"
    "live_once (remittance_items d)" "states_ok (remittances s1) (remittance_items d)"
    using ok claim states1 by (simp_all add: debits_ok_def)
  then show ?thesis
    using debits_ok_moved [OF ok, of s'] keys claim ok by (simp add: s' debits_ok_def collected_once_one)
qed

lemma cancelRemittance_ok:
  assumes ok: "debits_ok s" and run: "cancelRemittance i s = Inr s'"
  shows "debits_ok s'"
proof -
  define rs where "rs = update_many (\<lambda>r. rmt_id r = i \<and> rmt_status r = Rmt_generated)
      (\<lambda>r. r\<lparr>rmt_status := Rmt_cancelled\<rparr>) (remittances s)"
  define qs where "qs = update_many (\<lambda>q. rem_remittanceId q = i \<and> rem_status q = Deb_pending)
      (\<lambda>q. q\<lparr>rem_status := Deb_cancelled\<rparr>) (remittance_items (core s))"
  have s': "remittances s' = rs" "remittance_items (core s') = qs" "next_id (core s') = next_id (core s)"
      "mandates s' = mandates s"
    and some: "count_rows (\<lambda>r. rmt_id r = i \<and> rmt_status r = Rmt_generated) (remittances s) \<noteq> 0"
    using run by (auto simp: cancelRemittance_def bindr_eq_Inr rs_def qs_def)
  obtain x where x: "x \<in> set (remittances s)" "rmt_id x = i" "rmt_status x = Rmt_generated"
    using some by (auto simp: count_rows_eq_0)
  have one: "rmt_status y = Rmt_generated" if "y \<in> set (remittances s)" "rmt_id y = i" for y
    using ok that x unfolding debits_ok_def ids_below_def by (auto simp: distinct_map inj_on_def)
  have pending: "rem_status q = Deb_pending" if "q \<in> set (remittance_items (core s))" "rem_remittanceId q = i" for q
    using ok x that by (fastforce simp: debits_ok_def states_ok_def coherent_def)
  have "states_ok rs qs"
    unfolding states_ok_def
  proof (intro ballI impI)
    fix r q
    assume r: "r \<in> set rs" and q: "q \<in> set qs" and k: "rem_remittanceId q = rmt_id r"
    from q consider (mine) "rem_remittanceId q = i" "rem_status q = Deb_cancelled"
      | (kept) "q \<in> set (remittance_items (core s))" "rem_remittanceId q \<noteq> i"
      unfolding qs_def by (rule in_update_many_cases) (use pending in auto)
    then show "coherent (rmt_status r) (rem_status q)"
    proof cases
      case mine
      have "rmt_status r = Rmt_cancelled"
        using r unfolding rs_def by (rule in_update_many_cases) (use mine k one in auto)
      then show ?thesis using mine by (simp add: coherent_def)
    next
      case kept
      have "r \<in> set (remittances s)"
        using r unfolding rs_def by (rule in_update_many_cases) (use kept k in auto)
      then show ?thesis using ok kept k by (auto simp: debits_ok_def states_ok_def)
    qed
  qed
  moreover have "live_once qs"
    unfolding qs_def by (rule live_once_status(2)) (use ok in \<open>auto simp: debits_ok_def\<close>)
  moreover have "map remittance_key rs = map remittance_key (remittances s)"
    unfolding rs_def by (simp add: map_update_many_inv remittance_key_def)
  moreover have "map item_key qs = map item_key (remittance_items (core s))" by (simp add: qs_def)
  ultimately show ?thesis
    using debits_ok_moved [OF ok, of s'] ok by (simp add: s' debits_ok_def)
qed

lemma last_collected_in:
  assumes "last_collected d bill = Some q"
  shows "q \<in> set (remittance_items d) \<and> rem_invoiceId q = bill \<and> rem_status q = Deb_collected"
  using find_first_SomeD [OF assms [unfolded last_collected_def]] by simp

lemma markSepaItemReturned_ok:
  assumes ok: "debits_ok s"
  shows "debits_ok (markSepaItemReturned bill s)"
proof (cases "last_collected (core s) bill")
  case None then show ?thesis using ok by (simp add: markSepaItemReturned_def)
next
  case (Some q)
  note q = last_collected_in [OF Some]
  have same: "x = q" if "x \<in> set (remittance_items (core s))" "rem_id x = rem_id q" for x
    using ok q that unfolding debits_ok_def ids_below_def by (auto simp: distinct_map inj_on_def)
  define s1 where "s1 = over_core (set_item_status (rem_id q) Deb_returned (Some ''Devuelto por el banco'')) s"
  have s1: "remittances s1 = remittances s" "mandates s1 = mandates s" "next_id (core s1) = next_id (core s)"
    "remittance_items (core s1) = update_many (\<lambda>x. rem_id x = rem_id q)
       (\<lambda>x. x\<lparr>rem_status := Deb_returned, rem_failureReason := Some ''Devuelto por el banco''\<rparr>) (remittance_items (core s))"
    by (simp_all add: s1_def over_core_def)
  have "live_once (remittance_items (core s1))"
    unfolding s1 by (rule live_once_status(1)) (use ok in \<open>auto simp: debits_ok_def\<close>)
  moreover have "states_ok (remittances s1) (remittance_items (core s1))"
    unfolding s1
  proof (rule states_ok_status(1))
    show "states_ok (remittances s) (remittance_items (core s))" using ok by (simp add: debits_ok_def)
    show "coherent (rmt_status r) Deb_returned" if "r \<in> set (remittances s)" "x \<in> set (remittance_items (core s))"
      "rem_id x = rem_id q" "rem_remittanceId x = rmt_id r" for r x
    proof -
      have "coherent (rmt_status r) (rem_status x)" using ok that by (simp add: debits_ok_def states_ok_def)
      then have "coherent (rmt_status r) Deb_collected" using same [OF that(2,3)] q by simp
      then show ?thesis by (simp add: coherent_def split: remittance_status.splits)
    qed
  qed
  ultimately have "debits_ok s1"
    using debits_ok_moved [OF ok, of s1] ok by (simp add: s1 debits_ok_def)
  have one: "one_mandate (update_many (\<lambda>m. man_id m = rem_mandateId q \<and> man_status m = Man_active)
      (\<lambda>m. m\<lparr>man_sequence := FRST\<rparr>) (mandates s1))"
    by (rule one_mandate_update) (use \<open>debits_ok s1\<close> in \<open>simp_all add: debits_ok_def\<close>)
  have "debits_ok (s1\<lparr>mandates := update_many (\<lambda>m. man_id m = rem_mandateId q \<and> man_status m = Man_active)
      (\<lambda>m. m\<lparr>man_sequence := FRST\<rparr>) (mandates s1)\<rparr>)" (is "debits_ok ?s2")
    by (rule debits_ok_mandates [OF \<open>debits_ok s1\<close>]) (simp_all add: one)
  moreover have "\<exists>c. markSepaItemReturned bill s = (if c then ?s2 else s1)"
    unfolding markSepaItemReturned_def Some option.case Let_def s1_def by (rule exI, rule refl)
  ultimately show ?thesis using \<open>debits_ok s1\<close> by (auto split: if_splits)
qed

section \<open>The debits as a transition system\<close>

text \<open>
  The operations of the module on the rows as they are. \<open>create_locked\<close> is the transaction of
  \<open>createRemittance\<close> on its own: the selection and the mandates may have been read before others wrote.
  \<open>elsewhere\<close> is any step of billing; no other module writes the state of a debit.
\<close>

inductive bank_step :: "bank \<Rightarrow> bank \<Rightarrow> bool" where
  change_settings: "updateSettings input s = Inr s' \<Longrightarrow> bank_step s s'"
| new_mandate: "createMandate e w secret mandate opts s = Inr (s', m) \<Longrightarrow> bank_step s s'"
| new_link: "resendSigningLink e w secret i s = Inr s' \<Longrightarrow> bank_step s s'"
| sign_mandate: "signByToken e w token signer s = Inr s' \<Longrightarrow> bank_step s s'"
| drop_mandate: "cancelMandate i s = Inr s' \<Longrightarrow> bank_step s s'"
| look: "bank_step s (expire_mandates e s)"
| remit: "createRemittance e w who ri s = (s', ans) \<Longrightarrow> bank_step s s'"
| create_locked: "distinct (map inv_id selected) \<Longrightarrow>
    create_remittance_tx e w who ri st selected live s = Inr (s', row) \<Longrightarrow> bank_step s s'"
| confirm: "confirm_read e r rejected s = Inr s' \<Longrightarrow> bank_step s s'"
| call_off: "cancelRemittance i s = Inr s' \<Longrightarrow> bank_step s s'"
| given_back: "bank_step s (markSepaItemReturned bill s)"
| elsewhere: "billing_step (core s) d' \<Longrightarrow> remittance_items d' = remittance_items (core s) \<Longrightarrow>
    next_id (core s) \<le> next_id d' \<Longrightarrow> bank_step s (s\<lparr>core := d'\<rparr>)"

inductive_cases bank_stepE: "bank_step s s'"

definition bank_start :: "bank \<Rightarrow> bool" where
  "bank_start s \<longleftrightarrow> start_db (core s) \<and> remittance_items (core s) = [] \<and> remittances s = [] \<and> mandates s = []"

inductive bank_reachable :: "bank \<Rightarrow> bool" where
  start: "bank_start s \<Longrightarrow> bank_reachable s"
| step: "bank_reachable s \<Longrightarrow> bank_step s s' \<Longrightarrow> bank_reachable s'"

section \<open>Every reachable state\<close>

lemma createRemittance_cases:
  assumes "createRemittance e w who input s = (s', ans)"
  obtains (refused) err where "ans = Inl err" and "s' = s \<or> s' = expire_mandates e s"
    | (made) st s2 row where "ans = Inr row" and "s' = announce (rmt_id row) s2" and "sepa_settings s = Some st"
      and "isValidCreditorId (sst_creditorId st)"
      and "collectionDateIssue (ri_collectionDate input) (madrid_today e) = None"
      and "earliestCollectionDate (notice_for st (elg_live (eligible_of e s))
          (selected_for input (elg_invoices (eligible_of e s)))) (madrid_today e) \<le> ri_collectionDate input"
      and "create_remittance_tx e w who input st (selected_for input (elg_invoices (eligible_of e s)))
          (elg_live (eligible_of e s)) (expire_mandates e s) = Inr (s2, row)"
proof (cases "bindr (found (sepa_settings s) (BadRequestException ''sepa_not_configured'')) (\<lambda>st.
           bindr (guard (isValidCreditorId (sst_creditorId st)) (BadRequestException ''invalid_creditor_id'')) (\<lambda>_.
           bindr (assertCollectionDate e (ri_collectionDate input)) (\<lambda>_. Inr st)))")
  case (Inl err)
  then have "ans = Inl err" "s' = s" using assms by (simp_all add: createRemittance_def)
  then show ?thesis using refused by blast
next
  case (Inr st)
  then have st: "sepa_settings s = Some st" "isValidCreditorId (sst_creditorId st)"
    "collectionDateIssue (ri_collectionDate input) (madrid_today e) = None"
    by (auto simp: bindr_eq_Inr found_eq_Inr assertCollectionDate_def)
  note run = assms [unfolded createRemittance_def Inr sum.case Let_def]
  show ?thesis
  proof (cases "ri_collectionDate input < earliestCollectionDate (notice_for st (elg_live (eligible_of e s))
          (selected_for input (elg_invoices (eligible_of e s)))) (madrid_today e)")
    case True
    then have "s' = expire_mandates e s" "ans = Inl (BadRequestException ''collection_date_too_soon'')"
      using run by simp_all
    then show ?thesis using refused by blast
  next
    case False
    show ?thesis
    proof (cases "create_remittance_tx e w who input st (selected_for input (elg_invoices (eligible_of e s)))
          (elg_live (eligible_of e s)) (expire_mandates e s)")
      case (Inl err)
      then have "s' = expire_mandates e s" "ans = Inl err" using run False by simp_all
      then show ?thesis using refused by blast
    next
      case (Inr x)
      then show ?thesis using run False made [of "snd x" "fst x" st] st by (cases x) simp
    qed
  qed
qed

lemma selected_distinct:
  assumes "distinct (map inv_id (invoices (core s)))"
  shows "distinct (map inv_id (selected_for input (elg_invoices (eligible_of e s))))"
proof -
  have sorted: "distinct (map inv_id (sort_key inv_number rows))" if "distinct (map inv_id rows)" for rows
    using that mset_sort [of inv_number rows] by (metis mset_eq_imp_distinct_iff mset_map)
  have "distinct (map inv_id (elg_invoices (eligible_of e s)))"
    unfolding eligible_of_def Let_def eligible.simps
    by (intro distinct_map_filter sorted assms)
  then show ?thesis unfolding selected_for_def by (auto split: option.split intro: distinct_map_filter)
qed

lemma announce_ok: "debits_ok s \<Longrightarrow> debits_ok (announce i s)"
  by (rule debits_ok_mandates [where s = s]) (simp_all add: announce_def debits_ok_def)

lemma announce_sel [simp]: "core (announce i s) = core s"
  by (simp add: announce_def)

lemma create_remittance_tx_keeps:
  "create_remittance_tx e w who input st selected live s = Inr (s', row) \<Longrightarrow> keeps_books (core s) (core s')"
  by (auto simp: create_remittance_tx_def Let_def bindr_eq_Inr keeps_books_def list.rel_refl)

lemma createRemittance_ok:
  assumes ok: "debits_ok s" "books_ok (core s)" and run: "createRemittance e w who input s = (s', ans)"
  shows "debits_ok s' \<and> keeps_books (core s) (core s')"
  using run
proof (cases rule: createRemittance_cases)
  case refused
  then show ?thesis using ok expire_mandates_ok by auto
next
  case (made st s2 row)
  have "distinct (map inv_id (invoices (core s)))" using ok(2) by (simp add: books_ok_def ids_ok_def)
  then have "debits_ok s2"
    using create_remittance_tx_ok [OF expire_mandates_ok [OF ok(1)] selected_distinct made(7)] by simp
  then show ?thesis
    using made(2) create_remittance_tx_keeps [OF made(7)] announce_ok by simp
qed

lemma confirm_item_keeps:
  assumes "confirm_item e name rejected q d = (d', c)"
  shows "keeps_books d d'"
proof -
  have set_status: "keeps_books x (set_item_status i st why x)" for i st why x
    by (simp add: keeps_books_def set_item_status_def list.rel_refl)
  show ?thesis
    using assms markPaid_keeps [of e None "rem_invoiceId q" "debit_payment name q" d] set_status keeps_books_trans
    by (auto simp: confirm_item_def split: if_splits sum.splits)
qed

lemma confirm_items_keeps:
  "confirm_items e name rejected qs d = (d', ms) \<Longrightarrow> keeps_books d d'"
proof (induction qs arbitrary: d ms)
  case Nil then show ?case by simp
next
  case (Cons q qs)
  obtain d1 c ms1 where c: "confirm_item e name rejected q d = (d1, c)"
    and rest: "confirm_items e name rejected qs d1 = (d', ms1)"
    using Cons.prems by (auto split: prod.splits)
  show ?case by (rule keeps_books_trans [OF confirm_item_keeps [OF c] Cons.IH [OF rest]])
qed

lemma confirm_from_keeps:
  assumes ok: "debits_ok s" and run: "confirm_read e r rejected s = Inr s'"
  shows "keeps_books (core s) (core s')"
  using run
proof (rule confirm_from_parts)
  fix s1 d ms
  assume "claimConfirmation e r s = Inr s1"
    and "confirm_items e (rmt_name r) rejected
       (filter (\<lambda>q. rem_status q = Deb_pending) (debits_of (core s1) (rmt_id r))) (core s1) = (d, ms)"
    and "s' = s1\<lparr>core := d, mandates := collected_once (rmt_collectionDate r) ms (mandates s1)\<rparr>"
  then show ?thesis using claim_confirms [OF ok] confirm_items_keeps by force
qed

lemma mandate_cores:
  "updateSettings input s = Inr s' \<Longrightarrow> core s' = core s"
  "resendSigningLink e w secret i s = Inr s' \<Longrightarrow> core s' = core s"
  "signByToken e w token signer s = Inr s' \<Longrightarrow> core s' = core s"
  "cancelMandate i s = Inr s' \<Longrightarrow> core s' = core s"
  by (auto simp: updateSettings_def resendSigningLink_def sendSigningLink_def change_mandate_def signByToken_def
      sign_mandate_tx_def cancelMandate_def Let_def bindr_eq_Inr)

lemma createMandate_keeps: "createMandate e w secret input opts s = Inr (s', m) \<Longrightarrow> keeps_books (core s) (core s')"
  unfolding createMandate_def create_mandate_tx_def Let_def bindr_eq_Inr
  by (auto simp: sendSigningLink_def change_mandate_def keeps_books_def list.rel_refl split: if_splits)

lemma bank_step_ok:
  assumes "bank_step s s'" and "debits_ok s" and "books_ok (core s)"
  shows "debits_ok s' \<and> books_ok (core s')"
  using assms
proof cases
  case change_settings then show ?thesis using assms(2,3) updateSettings_ok mandate_cores(1) by simp
next
  case new_mandate
  then show ?thesis using assms(2,3) createMandate_ok createMandate_keeps keeps_books_ok by blast
next
  case new_link then show ?thesis using assms(2,3) resendSigningLink_ok mandate_cores(2) by simp
next
  case sign_mandate then show ?thesis using assms(2,3) signByToken_ok mandate_cores(3) by simp
next
  case drop_mandate then show ?thesis using assms(2,3) cancelMandate_ok mandate_cores(4) by simp
next
  case look then show ?thesis using assms(2,3) expire_mandates_ok by simp
next
  case remit then show ?thesis using createRemittance_ok [OF assms(2,3)] keeps_books_ok [OF assms(3)] by blast
next
  case create_locked
  then show ?thesis
    using create_remittance_tx_ok [OF assms(2)] create_remittance_tx_keeps keeps_books_ok [OF assms(3)] by blast
next
  case confirm
  then show ?thesis using confirm_from_ok [OF assms(2)] confirm_from_keeps [OF assms(2)] keeps_books_ok [OF assms(3)] by blast
next
  case call_off
  then have "keeps_books (core s) (core s')"
    by (auto simp: cancelRemittance_def bindr_eq_Inr keeps_books_def list.rel_refl)
  then show ?thesis using call_off cancelRemittance_ok [OF assms(2)] keeps_books_ok [OF assms(3)] by blast
next
  case (given_back bill)
  have "keeps_books (core s) (core s')"
    unfolding given_back
    by (auto simp: markSepaItemReturned_def over_core_def set_item_status_def Let_def keeps_books_def list.rel_refl
        split: option.splits)
  then show ?thesis using given_back markSepaItemReturned_ok [OF assms(2)] keeps_books_ok [OF assms(3)] by simp
next
  case (elsewhere d')
  have "books_ok d'" using billing_step_grows [OF elsewhere(2)] assms(3) by (simp add: grows_def)
  moreover have "debits_ok s'"
    by (rule debits_ok_mandates [OF assms(2)]) (use elsewhere assms(2) in \<open>simp_all add: debits_ok_def\<close>)
  ultimately show ?thesis using elsewhere(1) by simp
qed

lemma bank_reachable_ok: "bank_reachable s \<Longrightarrow> debits_ok s \<and> books_ok (core s)"
proof (induction rule: bank_reachable.induct)
  case (start s)
  then show ?case
    using start_books by (simp add: bank_start_def debits_ok_def ids_below_def totals_ok_def states_ok_def live_once_def one_mandate_def)
next
  case (step s s')
  then show ?case using bank_step_ok by blast
qed

section \<open>A remittance confirmed once\<close>

lemma pending_distinct:
  "live_once qs \<Longrightarrow> \<forall>q\<in>set (filter p qs). live_debit q \<Longrightarrow> distinct (map rem_invoiceId (filter p qs))"
  unfolding live_once_def by (induction qs) (auto split: if_splits)

lemma debit_state_row:
  assumes "distinct (map rem_id (remittance_items d))" and "q \<in> set (remittance_items d)"
  shows "debit_state d (rem_id q) = Some (rem_status q)"
  using find_first_key_unique [OF assms] by (simp add: debit_state_def)

lemma settled_none_pending:
  assumes keys: "map item_key (remittance_items d') = map item_key (remittance_items d)"
    and ids: "distinct (map rem_id (remittance_items d))"
    and settled: "\<forall>q\<in>set (debits_of d i). debit_state d' (rem_id q) \<noteq> Some Deb_pending"
  shows "still_pending d' i = 0"
proof -
  have ids': "distinct (map rem_id (remittance_items d'))" using item_key_facts(1) [OF keys] ids by simp
  have "rem_status q \<noteq> Deb_pending" if q: "q \<in> set (remittance_items d')" "rem_remittanceId q = i" for q
  proof -
    have "item_key q \<in> set (map item_key (remittance_items d))"
      using q(1) by (metis image_eqI keys list.set_map)
    then obtain q0 where q0: "q0 \<in> set (remittance_items d)" "item_key q0 = item_key q" by auto
    then have "q0 \<in> set (debits_of d i)" "rem_id q0 = rem_id q" using q(2) by (simp_all add: item_key_def debits_of_def)
    then show ?thesis using settled debit_state_row [OF ids' q(1)] by auto
  qed
  then show ?thesis by (auto simp: still_pending_def count_rows_eq_0)
qed

lemma again_refused:
  assumes ok: "debits_ok s" and r: "find_remittance s i = Some r" and st: "rmt_status r = Rmt_confirmed"
    and none: "still_pending (core s) i = 0"
  shows "confirmRemittance e i rejected s = Inl (BadRequestException ''remittance_not_confirmable'')"
proof -
  have ri: "r \<in> set (remittances s)" "rmt_id r = i" using find_first_SomeD [OF r [unfolded find_remittance_def]] by auto
  have "x = r" if "x \<in> set (remittances s)" "rmt_id x = i" for x
    using ok that ri unfolding debits_ok_def ids_below_def by (auto simp: distinct_map inj_on_def)
  then have "count_rows (\<lambda>x. rmt_id x = i \<and> rmt_status x = Rmt_generated) (remittances s) = 0"
    using st by (auto simp: count_rows_eq_0)
  then show ?thesis
    using r ri st none
    by (simp add: confirmRemittance_def confirm_read_def claimConfirmation_def split: option.split)
qed

section \<open>Where a debit comes from\<close>

lemma items_from_source:
  assumes "q \<in> set (items_from w i r xs)"
  obtains j x where "x \<in> set xs" and "q = item_for w j r x"
proof -
  have "\<exists>j. \<exists>x\<in>set xs. q = item_for w j r x"
    using assms
  proof (induction xs arbitrary: i)
    case Nil then show ?case by simp
  next
    case (Cons x xs)
    show ?case
    proof (cases "q = item_for w i r x")
      case True then show ?thesis by auto
    next
      case False
      then have "q \<in> set (items_from w (Suc i) r xs)" using Cons.prems by simp
      from Cons.IH [OF this] show ?thesis by auto
    qed
  qed
  then show ?thesis using that by blast
qed

lemma by_customer_Some:
  assumes "by_customer ms c = Some m"
  shows "m \<in> set ms" and "c = Some (man_customerId m)" and "mandateIsSigned (man_signature m)"
  using assms find_first_SomeD [of _ "rev ms" m] by (auto simp: by_customer_def split: option.splits)

lemma selected_in: "r \<in> set (selected_for input (elg_invoices (eligible_of e s))) \<Longrightarrow> r \<in> set (invoices (core s))"
  by (auto simp: selected_for_def eligible_of_def Let_def split: option.splits)

lemma live_mandate:
  assumes "m \<in> set (elg_live (eligible_of e s))"
  shows "m \<in> set (mandates s)" and "man_status m = Man_active"
    and "\<not> isSepaMandateExpired (man_lastCollectedAt m) (man_signedAt m) (madrid_today e)"
  using assms by (auto simp: eligible_of_def expired_mandates_def Let_def)

text \<open>The notice of a remittance is at least that of each mandate it uses.\<close>

lemma notice_covers:
  assumes "bill \<in> set selected" and "by_customer live (inv_customerId bill) = Some m"
    and "man_prenoticeDays m = Some days"
  shows "days \<le> notice_for st live selected"
proof -
  have "m \<in> set (List.map_filter (\<lambda>r. by_customer live (inv_customerId r)) selected)"
    using assms(1,2) by (force simp: List.map_filter_def)
  then have "man_prenoticeDays m \<in> set (map man_prenoticeDays (List.map_filter (\<lambda>r. by_customer live (inv_customerId r)) selected))"
    by simp
  then show ?thesis
    using requiredPrenotice_ge [of "Some days"] assms(3) unfolding notice_for_def by auto
qed

end
