(* ===== verification/PainFile.thy ===== *)
theory PainFile imports Pain008 begin

text \<open>
  Reading the file of direct debits back: what stands in it after each occurrence of a tag. It says
  what the bank sees of the debits, whatever built the text.
\<close>

section \<open>Reading tags\<close>

fun tagged :: "string \<Rightarrow> string \<Rightarrow> string list" where
  "tagged p [] = []"
| "tagged p (c # s) =
     (if startsWith (c # s) p then takeWhile (\<lambda>x. x \<noteq> CHR ''<'') (drop (length p) (c # s)) # tagged p s
      else tagged p s)"

declare tagged.simps(2) [simp del]

definition plain :: "string \<Rightarrow> bool" where "plain s \<longleftrightarrow> (\<forall>c\<in>set s. c \<noteq> CHR ''<'')"

abbreviation amount_tag :: string where "amount_tag \<equiv> ''<InstdAmt Ccy='' @ [CHR 0x22] @ ''EUR'' @ [CHR 0x22] @ ''>''"

abbreviation endToEnd_tag :: string where "endToEnd_tag \<equiv> ''<EndToEndId>''"

abbreviation mandate_tag :: string where "mandate_tag \<equiv> ''<MndtId>''"

abbreviation debtor_tag :: string where "debtor_tag \<equiv> ''<DbtrAcct><Id><IBAN>''"

abbreviation count_tag :: string where "count_tag \<equiv> ''<NbOfTxs>''"

abbreviation sum_tag :: string where "sum_tag \<equiv> ''<CtrlSum>''"

named_theorems scan "rules to read a text tag by tag"

lemma startsWith_steps [scan]:
  "startsWith s []" "\<not> startsWith [] (y # ys)" "startsWith (x # xs) (y # ys) \<longleftrightarrow> x = y \<and> startsWith xs ys"
  by (auto simp: startsWith_def)

lemma tagged_char [scan]: "c \<noteq> CHR ''<'' \<Longrightarrow> tagged (CHR ''<'' # p) (c # s) = tagged (CHR ''<'' # p) s"
  by (simp add: tagged.simps startsWith_def)

lemma tagged_tag [scan]:
  "tagged (CHR ''<'' # p) (CHR ''<'' # s) =
     (if startsWith s p then takeWhile (\<lambda>x. x \<noteq> CHR ''<'') (drop (length p) s) # tagged (CHR ''<'' # p) s
      else tagged (CHR ''<'' # p) s)"
  by (simp add: tagged.simps startsWith_def)

lemma tagged_plain [scan]: "plain a \<Longrightarrow> tagged (CHR ''<'' # p) (a @ s) = tagged (CHR ''<'' # p) s"
  by (induction a) (simp_all add: plain_def tagged_char)

lemma takeWhile_plain [scan]: "plain a \<Longrightarrow> takeWhile (\<lambda>x. x \<noteq> CHR ''<'') (a @ CHR ''<'' # s) = a"
  by (induction a) (simp_all add: plain_def)

section \<open>Texts without tags\<close>

lemma plain_esc [scan]: "plain (esc s)"
  by (auto simp: plain_def esc_def esc_char_def)

lemma plain_id [scan]: "plain (pain_id s)" and plain_nm [scan]: "plain (nm s)"
  using plain_esc by (simp_all add: pain_id_def nm_def Let_def)

lemma plain_digits: "\<forall>c\<in>set s. is_digit c \<Longrightarrow> plain s"
  by (auto simp: plain_def is_digit_def code_def)

lemma plain_nat [scan]: "plain (show_nat n)"
  by (rule plain_digits [OF show_nat_digits])

lemma plain_parts: "plain []" "plain (c # a) \<longleftrightarrow> c \<noteq> CHR ''<'' \<and> plain a" "plain (a @ b) \<longleftrightarrow> plain a \<and> plain b"
    "plain (replicate n CHR ''0'')"
  by (auto simp: plain_def)

lemma plain_padded [scan]: "plain (padStart k (CHR ''0'') (show_int n))"
  by (simp add: padStart_def show_int_def plain_parts plain_nat)

lemma plain_amount [scan]: "plain (pain_amount c)"
proof -
  have "plain (hundredths n)" for n
    by (simp add: hundredths_def plain_parts plain_nat plain_digits [OF padStart_digits])
  then show ?thesis by (simp add: pain_amount_def toFixed2_def plain_parts)
qed

lemma plain_newline [scan]: "plain (newline n)"
  by (simp add: plain_def newline_def)

lemma plain_seq [scan]: "plain (seq_text q)"
  by (cases q) (simp_all add: plain_def seq_text_def)

lemma scan_agent [simplified, scan]:
  "tagged amount_tag (finInstn b @ s) = tagged amount_tag s"
  "tagged endToEnd_tag (finInstn b @ s) = tagged endToEnd_tag s"
  "tagged mandate_tag (finInstn b @ s) = tagged mandate_tag s"
  "tagged debtor_tag (finInstn b @ s) = tagged debtor_tag s"
  "tagged count_tag (finInstn b @ s) = tagged count_tag s"
  "tagged sum_tag (finInstn b @ s) = tagged sum_tag s"
  by (simp_all add: finInstn_def elem_def scan)

section \<open>What each part holds\<close>

lemma scan_tx:
  assumes "plain (pt_mandateSignedDate t)"
  shows "tagged amount_tag (tx_block t @ s) = pain_amount (pt_amountCents t) # tagged amount_tag s"
    and "tagged endToEnd_tag (tx_block t @ s) = pain_id (pt_endToEndId t) # tagged endToEnd_tag s"
    and "tagged mandate_tag (tx_block t @ s) = pain_id (pt_mandateReference t) # tagged mandate_tag s"
    and "tagged debtor_tag (tx_block t @ s) = esc (pt_debtorIban t) # tagged debtor_tag s"
    and "tagged count_tag (tx_block t @ s) = tagged count_tag s"
    and "tagged sum_tag (tx_block t @ s) = tagged sum_tag s"
  using assms by (simp_all add: tx_block_def elem_def scan)

lemma scan_each:
  assumes "\<And>t s. t \<in> set txs \<Longrightarrow> tagged p (f t @ s) = g t # tagged p s"
  shows "tagged p (concat (map f txs) @ s) = map g txs @ tagged p s"
  using assms by (induction txs) simp_all

lemma scan_none:
  assumes "\<And>t s. t \<in> set txs \<Longrightarrow> tagged p (f t @ s) = tagged p s"
  shows "tagged p (concat (map f txs) @ s) = tagged p s"
  using assms by (induction txs) simp_all

lemma scan_txs:
  assumes "\<forall>t\<in>set txs. plain (pt_mandateSignedDate t)"
  shows "tagged amount_tag (concat (map tx_block txs) @ s) = map (\<lambda>t. pain_amount (pt_amountCents t)) txs @ tagged amount_tag s"
    and "tagged endToEnd_tag (concat (map tx_block txs) @ s) = map (\<lambda>t. pain_id (pt_endToEndId t)) txs @ tagged endToEnd_tag s"
    and "tagged mandate_tag (concat (map tx_block txs) @ s) = map (\<lambda>t. pain_id (pt_mandateReference t)) txs @ tagged mandate_tag s"
    and "tagged debtor_tag (concat (map tx_block txs) @ s) = map (\<lambda>t. esc (pt_debtorIban t)) txs @ tagged debtor_tag s"
    and "tagged count_tag (concat (map tx_block txs) @ s) = tagged count_tag s"
    and "tagged sum_tag (concat (map tx_block txs) @ s) = tagged sum_tag s"
proof -
  have plain: "plain (pt_mandateSignedDate t)" if "t \<in> set txs" for t using assms that by blast
  note one = scan_tx [OF plain]
  show "tagged amount_tag (concat (map tx_block txs) @ s) = map (\<lambda>t. pain_amount (pt_amountCents t)) txs @ tagged amount_tag s"
    "tagged endToEnd_tag (concat (map tx_block txs) @ s) = map (\<lambda>t. pain_id (pt_endToEndId t)) txs @ tagged endToEnd_tag s"
    "tagged mandate_tag (concat (map tx_block txs) @ s) = map (\<lambda>t. pain_id (pt_mandateReference t)) txs @ tagged mandate_tag s"
    "tagged debtor_tag (concat (map tx_block txs) @ s) = map (\<lambda>t. esc (pt_debtorIban t)) txs @ tagged debtor_tag s"
    by (rule scan_each; rule one; assumption)+
  show "tagged count_tag (concat (map tx_block txs) @ s) = tagged count_tag s"
    "tagged sum_tag (concat (map tx_block txs) @ s) = tagged sum_tag s"
    by (rule scan_none; rule one; assumption)+
qed

lemma scan_pmt:
  assumes "plain day" and "\<forall>t\<in>set txs. plain (pt_mandateSignedDate t)"
  shows "tagged amount_tag (pmt_block m cr day q txs @ s) = map (\<lambda>t. pain_amount (pt_amountCents t)) txs @ tagged amount_tag s"
    and "tagged endToEnd_tag (pmt_block m cr day q txs @ s) = map (\<lambda>t. pain_id (pt_endToEndId t)) txs @ tagged endToEnd_tag s"
    and "tagged mandate_tag (pmt_block m cr day q txs @ s) = map (\<lambda>t. pain_id (pt_mandateReference t)) txs @ tagged mandate_tag s"
    and "tagged debtor_tag (pmt_block m cr day q txs @ s) = map (\<lambda>t. esc (pt_debtorIban t)) txs @ tagged debtor_tag s"
    and "tagged count_tag (pmt_block m cr day q txs @ s) = show_nat (length txs) # tagged count_tag s"
    and "tagged sum_tag (pmt_block m cr day q txs @ s) = pain_amount (pain_cents txs) # tagged sum_tag s"
  using assms(1) scan_txs [OF assms(2), simplified] by (simp_all add: pmt_block_def elem_def scan)

text \<open>The debits in the order of the file: the first ones of their mandate, then the recurrent ones.\<close>

definition in_blocks :: "pain_tx list \<Rightarrow> pain_tx list" where
  "in_blocks txs = of_sequence FRST txs @ of_sequence RCUR txs"

theorem scan_file:
  assumes "plain time" and "plain day" and "\<forall>t\<in>set txs. plain (pt_mandateSignedDate t)"
  shows "tagged amount_tag (buildPain008 m time cr day txs) = map (\<lambda>t. pain_amount (pt_amountCents t)) (in_blocks txs)"
    and "tagged endToEnd_tag (buildPain008 m time cr day txs) = map (\<lambda>t. pain_id (pt_endToEndId t)) (in_blocks txs)"
    and "tagged mandate_tag (buildPain008 m time cr day txs) = map (\<lambda>t. pain_id (pt_mandateReference t)) (in_blocks txs)"
    and "tagged debtor_tag (buildPain008 m time cr day txs) = map (\<lambda>t. esc (pt_debtorIban t)) (in_blocks txs)"
    and "\<exists>more. tagged count_tag (buildPain008 m time cr day txs) = show_nat (length txs) # more"
    and "\<exists>more. tagged sum_tag (buildPain008 m time cr day txs) = pain_amount (pain_cents txs) # more"
proof -
  have dates: "\<forall>t\<in>set (of_sequence q txs). plain (pt_mandateSignedDate t)" for q
    using assms(3) by (simp add: of_sequence_def)
  note pmt = scan_pmt [OF assms(2) dates, simplified]
  note parts = buildPain008_def quoted_def elem_def in_blocks_def
  show "tagged amount_tag (buildPain008 m time cr day txs) = map (\<lambda>t. pain_amount (pt_amountCents t)) (in_blocks txs)"
    using assms(1) by (simp add: parts scan pmt)
  show "tagged endToEnd_tag (buildPain008 m time cr day txs) = map (\<lambda>t. pain_id (pt_endToEndId t)) (in_blocks txs)"
    using assms(1) by (simp add: parts scan pmt)
  show "tagged mandate_tag (buildPain008 m time cr day txs) = map (\<lambda>t. pain_id (pt_mandateReference t)) (in_blocks txs)"
    using assms(1) by (simp add: parts scan pmt)
  show "tagged debtor_tag (buildPain008 m time cr day txs) = map (\<lambda>t. esc (pt_debtorIban t)) (in_blocks txs)"
    using assms(1) by (simp add: parts scan pmt)
  show "\<exists>more. tagged count_tag (buildPain008 m time cr day txs) = show_nat (length txs) # more"
    using assms(1) by (simp add: parts scan)
  show "\<exists>more. tagged sum_tag (buildPain008 m time cr day txs) = pain_amount (pain_cents txs) # more"
    using assms(1) by (simp add: parts scan)
qed

end
