(* ===== verification/SepaProperties.thy ===== *)
theory SepaProperties imports SepaFacts PainFile Demo begin

text \<open>
  The properties of direct debits: the calendar, what a remittance asks of whom, that nobody is debited
  twice, and what a confirmation enters in the books.
\<close>

section \<open>The calendar\<close>

text \<open>
  C13: \<open>nextSepaBusinessDay\<close> ends on every date and answers the first business day from it on: a weekday
  that is no TARGET2 holiday, with none in between and at most 22 days away. A date the bank admits is
  one from tomorrow to a year ahead that is its own next business day; the date proposed in place of a
  past one is always admitted.
\<close>

theorem next_business_day_first:
  "isSepaBusinessDay (nextSepaBusinessDay d) \<and> d \<le> nextSepaBusinessDay d \<and> nextSepaBusinessDay d \<le> d + 22 \<and>
   (\<forall>x. d \<le> x \<and> x < nextSepaBusinessDay d \<longrightarrow> \<not> isSepaBusinessDay x) \<and>
   (collectionDateIssue d tod = None \<longleftrightarrow> tod < d \<and> d \<le> tod + 365 \<and> nextSepaBusinessDay d = d) \<and>
   (\<forall>d'. collectionDateIssue d tod = Some (Past, d') \<longrightarrow> collectionDateIssue d' tod = None)"
proof (intro conjI allI impI)
  note next1 = next_business_day [of d]
  show "isSepaBusinessDay (nextSepaBusinessDay d)" "d \<le> nextSepaBusinessDay d" by (rule next1)+
  show "nextSepaBusinessDay d \<le> d + 22" by (rule next_business_day_bound)
  show "\<not> isSepaBusinessDay x" if "d \<le> x \<and> x < nextSepaBusinessDay d" for x
    using next1(3) that by blast
  have self: "nextSepaBusinessDay d = d \<longleftrightarrow> isSepaBusinessDay d"
    using next1(1) nextSepaBusinessDay.simps [of d] by metis
  show "collectionDateIssue d tod = None \<longleftrightarrow> tod < d \<and> d \<le> tod + 365 \<and> nextSepaBusinessDay d = d"
    unfolding self by (auto simp: collectionDateIssue_def SEPA_MAX_COLLECTION_DAYS_def Let_def)
  fix d'
  assume "collectionDateIssue d tod = Some (Past, d')"
  then have "d' = nextSepaBusinessDay (tod + 1)" by (auto simp: collectionDateIssue_def Let_def split: if_splits)
  then show "collectionDateIssue d' tod = None"
    using next_business_day [of "tod + 1"] next_business_day_bound [of "tod + 1"]
    by (simp add: collectionDateIssue_def SEPA_MAX_COLLECTION_DAYS_def Let_def)
qed

theorem next_business_day_first_witness:
  "collectionDateIssue (nextSepaBusinessDay 20812) 20811 = None \<and> isSepaBusinessDay (nextSepaBusinessDay 20812)"
proof -
  have "collectionDateIssue 20811 20811 = Some (Past, nextSepaBusinessDay 20812)"
    by (simp add: collectionDateIssue_def Let_def)
  then show ?thesis
    using next_business_day_first [of 20811 20811] next_business_day_first [of 20812 20811] by blast
qed

text \<open>
  The date proposed in place of one too far away need not be a business day: from 26 December 2025 it
  is 26 December 2026.
\<close>

lemma too_far_suggests_holiday:
  "collectionDateIssue 21000 20448 = Some (Too_far, 20813) \<and> collectionDateIssue 20813 20448 \<noteq> None"
proof -
  have "\<not> isSepaBusinessDay 20813" by (simp add: isSepaBusinessDay_def weekday_def)
  then show ?thesis by (simp add: collectionDateIssue_def SEPA_MAX_COLLECTION_DAYS_def Let_def)
qed

section \<open>Nobody is debited twice\<close>

text \<open>
  C10: In every state reached by the operations of direct debits, interleaved with any step of billing and
  with selections read before others wrote: an invoice has at most one debit that is pending or
  collected; a remittance's count and total are those of its debits, each of a positive amount; the
  debits of a remittance not yet confirmed are all pending and those of a cancelled one all cancelled;
  and a customer has at most one mandate in force.
\<close>

theorem nobody_debited_twice:
  assumes "bank_reachable s"
  shows "(\<forall>q\<in>set (remittance_items (core s)). \<forall>q'\<in>set (remittance_items (core s)).
      live_debit q \<and> live_debit q' \<and> rem_invoiceId q = rem_invoiceId q' \<longrightarrow> q = q') \<and>
    (\<forall>r\<in>set (remittances s). rmt_itemCount r = length (debits_of (core s) (rmt_id r)) \<and>
      rmt_totalAmount r = sum_list (map rem_amount (debits_of (core s) (rmt_id r))) \<and>
      (\<forall>q\<in>set (debits_of (core s) (rmt_id r)). 0 < rem_amount q \<and>
        (rmt_status r = Rmt_generated \<longrightarrow> rem_status q = Deb_pending) \<and>
        (rmt_status r = Rmt_cancelled \<longrightarrow> rem_status q = Deb_cancelled))) \<and>
    (\<forall>m\<in>set (mandates s). \<forall>m'\<in>set (mandates s). man_status m = Man_active \<and> man_status m' = Man_active \<and>
      man_customerId m = man_customerId m' \<longrightarrow> m = m')"
proof (intro conjI ballI impI)
  note ok = bank_reachable_ok [OF assms, THEN conjunct1, unfolded debits_ok_def]
  show "q = q'" if "q \<in> set (remittance_items (core s))" "q' \<in> set (remittance_items (core s))"
    "live_debit q \<and> live_debit q' \<and> rem_invoiceId q = rem_invoiceId q'" for q q'
    using unique_whereD [of live_debit rem_invoiceId] ok that unfolding live_once_def by blast
  show "m = m'" if "m \<in> set (mandates s)" "m' \<in> set (mandates s)"
    "man_status m = Man_active \<and> man_status m' = Man_active \<and> man_customerId m = man_customerId m'" for m m'
    using unique_whereD [of "\<lambda>m. man_status m = Man_active" man_customerId] ok that unfolding one_mandate_def by blast
  fix r assume r: "r \<in> set (remittances s)"
  then show "rmt_itemCount r = length (debits_of (core s) (rmt_id r))"
    "rmt_totalAmount r = sum_list (map rem_amount (debits_of (core s) (rmt_id r)))"
    using ok by (simp_all add: totals_ok_def items_in_def debits_of_def)
  fix q assume q: "q \<in> set (debits_of (core s) (rmt_id r))"
  then show "0 < rem_amount q" using ok by (simp add: debits_of_def)
  have "coherent (rmt_status r) (rem_status q)" using ok r q by (simp add: states_ok_def debits_of_def)
  then show "rem_status q = Deb_pending" if "rmt_status r = Rmt_generated"
    using that by (simp add: coherent_def)
  show "rem_status q = Deb_cancelled" if "rmt_status r = Rmt_cancelled"
    using \<open>coherent (rmt_status r) (rem_status q)\<close> that by (simp add: coherent_def)
qed

text \<open>
  The example: the tenant of \<open>Demo\<close>, whose customer 5 has signed a mandate on paper, presents the invoice
  of 121 euros.
\<close>

definition demo_world :: bank_world where
  "demo_world = \<lparr>new_reference = ''A1'', new_message = ''M1'', debit_suffix = (\<lambda>_. ''0A1B''), argon_hash = id,
     argon_verify = (=), iso_instant = (\<lambda>_. ''2026-01-10T00:06:40'')\<rparr>"

definition demo_creditor :: sepa_settings_row where
  "demo_creditor = \<lparr>sst_creditorName = ''Trasteros SL'', sst_creditorId = ''ES11ZZZB12345674'',
     sst_creditorIban = ''ES9121000418450200051332'', sst_creditorBic = None, sst_prenoticeDays = 14,
     sst_enabled = True, sst_creditorAddress = None, sst_creditorPostalCode = None, sst_creditorCity = None,
     sst_creditorCountry = ''ES''\<rparr>"

definition demo_mandate :: mandate_row where
  "demo_mandate = \<lparr>man_id = 1, man_customerId = 5, man_reference = ''MND-1'', man_iban = ''ES7921000813610123456789'',
     man_bic = None, man_signedAt = 20400, man_sequence = FRST, man_lastCollectedAt = None,
     man_status = Man_active, man_signature = Sig_external, man_tokenHash = None, man_tokenExpiresAt = None,
     man_prenoticeDays = Some 14, man_signerName = None, man_signedAtTs = None\<rparr>"

definition demo_bank_of :: "db \<Rightarrow> bank" where
  "demo_bank_of d = \<lparr>core = d, sepa_settings = Some demo_creditor, mandates = [], remittances = [], plans = [],
     debtors = [], statements = [], entries = [], closures = [], autoReconcile = False, prenotices = []\<rparr>"

definition demo_remittance_input :: remittance_input where
  "demo_remittance_input = \<lparr>ri_name = ''Enero'', ri_collectionDate = 20479, ri_invoiceIds = None\<rparr>"

text \<open>The row that was read when the customer was still on the invoice.\<close>

definition demo_chosen :: invoice_row where
  "demo_chosen = demo_issued\<lparr>inv_customerId := Some 5\<rparr>"

definition demo_debits :: "(invoice_row \<times> mandate_row \<times> cents) list" where
  "demo_debits = [(demo_chosen, demo_mandate, 12100)]"

definition demo_bank :: bank where
  "demo_bank = (demo_bank_of demo_db3)
     \<lparr>core := demo_db3\<lparr>next_id := 5, remittance_items := [item_for demo_world 4 3 (demo_chosen, demo_mandate, 12100)]\<rparr>,
      remittances := [remittance_for demo_env demo_world 9 demo_remittance_input demo_creditor
        (demo_bank_of demo_db3) demo_debits]\<rparr>"

lemma demo_not_deleted [simp]: "\<not> inv_deleted demo_issued"
  by (simp add: demo_issued_def issued_fields_def mark_settled_def demo_ids settles_def)

lemma demo_debit_made: "debits_for [demo_mandate] demo_db3 [demo_chosen] = demo_debits"
  by (simp add: debits_for_def map_filter_simps debit_for_def demo_chosen_def debitable_def payments_of_def
      pending_cents_def by_customer_def demo_mandate_def mandateIsSigned_def demo_debits_def)

lemma demo_locked: "create_remittance_tx demo_env demo_world 9 demo_remittance_input demo_creditor [demo_chosen]
    [demo_mandate] (demo_bank_of demo_db3) = Inr (demo_bank, hd (remittances demo_bank))"
  by (simp add: create_remittance_tx_def demo_bank_of_def demo_debit_made demo_bank_def Let_def create_row_def)
    (simp add: demo_debits_def)

lemma demo_elsewhere:
  assumes "bank_reachable (demo_bank_of d)" and "billing_step d d'"
    and "remittance_items d' = remittance_items d" and "next_id d \<le> next_id d'"
  shows "bank_reachable (demo_bank_of d')"
  using bank_reachable.step [OF assms(1) bank_step.elsewhere [of "demo_bank_of d" d']] assms(2-4)
  by (simp add: demo_bank_of_def)

lemma demo_bank_reachable: "bank_reachable demo_bank"
proof -
  have "bank_reachable (demo_bank_of demo_db0)"
    by (rule bank_reachable.start) (simp add: bank_start_def demo_bank_of_def start_db_def demo_db0_def empty_db_def)
  then have "bank_reachable (demo_bank_of demo_db1)"
    by (rule demo_elsewhere [OF _ billing_step.new_series [OF demo_new_series]]) (simp_all add: demo_db1_def demo_db0_def empty_db_def)
  then have "bank_reachable (demo_bank_of demo_db2)"
    by (rule demo_elsewhere [OF _ billing_step.create [OF demo_create]]) (simp_all add: demo_db2_def demo_db1_def)
  then have "bank_reachable (demo_bank_of demo_db3)"
    by (rule demo_elsewhere [OF _ demo_step3]) (simp_all add: demo_db3_def demo_db2_def demo_db1_def)
  then show ?thesis
    by (rule bank_reachable.step [OF _ bank_step.create_locked [OF _ demo_locked]]) simp
qed

lemma demo_bank_sel [simp]:
  "remittance_items (core demo_bank) = [item_for demo_world 4 3 (demo_chosen, demo_mandate, 12100)]"
  "remittances demo_bank = [remittance_for demo_env demo_world 9 demo_remittance_input demo_creditor
     (demo_bank_of demo_db3) demo_debits]"
  by (simp_all add: demo_bank_def)

lemma demo_remittance_sel [simp]:
  "rmt_id (remittance_for demo_env demo_world 9 demo_remittance_input demo_creditor (demo_bank_of demo_db3) demo_debits) = 3"
  "rmt_status (remittance_for demo_env demo_world 9 demo_remittance_input demo_creditor (demo_bank_of demo_db3) demo_debits)
     = Rmt_generated"
  by (simp_all add: remittance_for_def Let_def demo_bank_of_def)

theorem nobody_debited_twice_witness:
  "rmt_totalAmount (hd (remittances demo_bank)) = sum_list (map rem_amount (debits_of (core demo_bank) 3)) \<and>
   map rem_amount (debits_of (core demo_bank) 3) = [12100]"
  using nobody_debited_twice [OF demo_bank_reachable]
  by (simp add: debits_of_def item_for_def)

section \<open>What a remittance asks of whom\<close>

text \<open>The debits in the order of the file: first those of a mandate used for the first time.\<close>

definition filed :: "remittance_item_row list \<Rightarrow> remittance_item_row list" where
  "filed qs = filter (\<lambda>q. rem_sequence q = FRST) qs @ filter (\<lambda>q. rem_sequence q = RCUR) qs"

definition grouped ::
  "(invoice_row \<times> mandate_row \<times> cents) list \<Rightarrow> (invoice_row \<times> mandate_row \<times> cents) list" where
  "grouped ds = filter (\<lambda>x. man_sequence (fst (snd x)) = FRST) ds @ filter (\<lambda>x. man_sequence (fst (snd x)) = RCUR) ds"

lemma filed_grouped:
  "list_all2 (\<lambda>x q. \<exists>k. q = item_for w k r x) (grouped ds) (filed (items_from w i r ds))"
proof -
  have "list_all2 (\<lambda>x q. \<exists>k. q = item_for w k r x) (filter (\<lambda>x. man_sequence (fst (snd x)) = z) ds)
      (filter (\<lambda>q. rem_sequence q = z) (items_from w i r ds))" for z
    by (induction ds arbitrary: i) (auto simp: item_for_def split: prod.splits)
  then show ?thesis by (simp add: filed_def grouped_def list_all2_appendI)
qed

lemma same_images: "list_all2 P xs ys \<Longrightarrow> (\<And>x y. P x y \<Longrightarrow> f x = g y) \<Longrightarrow> map f xs = map g ys"
  by (induction rule: list_all2_induct) auto

lemma in_blocks_grouped: "in_blocks (map (pain_tx_of w s) ds) = map (pain_tx_of w s) (grouped ds)"
  by (simp add: in_blocks_def of_sequence_def grouped_def filter_map comp_def pain_tx_of_def case_prod_beta)

lemma plain_iso_date: "plain (iso_date d)"
  by (simp add: iso_date_def plain_parts plain_padded)

lemma grouped_mandates:
  "list_all2 (\<lambda>m q. (\<exists>bill c. (bill, m, c) \<in> set ds) \<and> man_id m = rem_mandateId q)
     (map (\<lambda>(bill, m, c). m) (grouped ds)) (filed (items_from w i r ds))"
proof -
  have "x \<in> set ds" if "x \<in> set (grouped ds)" for x using that by (auto simp: grouped_def)
  then show ?thesis
    unfolding list.rel_map by (intro list.rel_mono_strong [OF filed_grouped]) (fastforce simp: item_for_def)
qed

text \<open>The debits a remittance would have, and what each asks of whom.\<close>

definition debits_due :: "env \<Rightarrow> remittance_input \<Rightarrow> bank \<Rightarrow> (invoice_row \<times> mandate_row \<times> cents) list" where
  "debits_due e input s =
     (let g = eligible_of e s in debits_for (elg_live g) (core s) (selected_for input (elg_invoices g)))"

lemma debit_due_from:
  assumes "x \<in> set (debits_due e input s)"
  obtains chosen bill m where "x = (chosen, m, inv_total bill - inv_amountPaid bill)"
    and "chosen \<in> set (selected_for input (elg_invoices (eligible_of e s)))" and "chosen \<in> set (invoices (core s))"
    and "by_customer (elg_live (eligible_of e s)) (inv_customerId chosen) = Some m"
    and "bill \<in> set (invoices (core s))" and "inv_id bill = inv_id chosen" and "debitable (core s) bill"
    and "0 < inv_total bill - inv_amountPaid bill" and "m \<in> set (mandates s)" and "man_status m = Man_active"
    and "\<not> isSepaMandateExpired (man_lastCollectedAt m) (man_signedAt m) (madrid_today e)"
proof -
  obtain chosen where chosen: "chosen \<in> set (selected_for input (elg_invoices (eligible_of e s)))"
      "debit_for (elg_live (eligible_of e s)) (core s) chosen = Some x"
    using assms unfolding debits_due_def Let_def by (rule debits_for_in)
  from chosen(2) obtain bill m where b: "bill \<in> set (invoices (core s))" "inv_id bill = inv_id chosen"
      "debitable (core s) bill" "by_customer (elg_live (eligible_of e s)) (inv_customerId chosen) = Some m"
      "x = (chosen, m, inv_total bill - inv_amountPaid bill)" "0 < inv_total bill - inv_amountPaid bill"
    by (rule debit_for_Some)
  have "m \<in> set (elg_live (eligible_of e s))" using by_customer_Some [OF b(4)] by simp
  then show ?thesis
    using that [OF b(5) chosen(1) selected_in [OF chosen(1)] b(4,1,2,3,6)] live_mandate [of m e s] by blast
qed

definition owed_debit :: "env \<Rightarrow> date \<Rightarrow> bank \<Rightarrow> remittance_item_row \<Rightarrow> bool" where
  "owed_debit e day s q \<longleftrightarrow>
     (\<exists>bill\<in>set (invoices (core s)). \<exists>chosen\<in>set (invoices (core s)). \<exists>m\<in>set (mandates s).
        inv_id bill = rem_invoiceId q \<and> inv_id chosen = inv_id bill \<and> debitable (core s) bill \<and>
        rem_amount q = inv_total bill - inv_amountPaid bill \<and> 0 < rem_amount q \<and>
        rem_mandateId q = man_id m \<and> inv_customerId chosen = Some (man_customerId m) \<and>
        man_status m = Man_active \<and> mandateIsSigned (man_signature m) \<and>
        \<not> isSepaMandateExpired (man_lastCollectedAt m) (man_signedAt m) (madrid_today e) \<and>
        (\<forall>days. man_prenoticeDays m = Some days \<longrightarrow> madrid_today e + days \<le> day))"

lemma items_owed:
  assumes q: "q \<in> set (items_from w i n (debits_due e input s))"
    and notice: "earliestCollectionDate (notice_for st (elg_live (eligible_of e s))
      (selected_for input (elg_invoices (eligible_of e s)))) (madrid_today e) \<le> day"
  shows "owed_debit e day s q"
proof -
  obtain k x where x: "x \<in> set (debits_due e input s)" "q = item_for w k n x" using q by (rule items_from_source)
  from x(1) obtain chosen bill m where b: "x = (chosen, m, inv_total bill - inv_amountPaid bill)"
      "chosen \<in> set (selected_for input (elg_invoices (eligible_of e s)))" "chosen \<in> set (invoices (core s))"
      "by_customer (elg_live (eligible_of e s)) (inv_customerId chosen) = Some m"
      "bill \<in> set (invoices (core s))" "inv_id bill = inv_id chosen" "debitable (core s) bill"
      "0 < inv_total bill - inv_amountPaid bill" "m \<in> set (mandates s)" "man_status m = Man_active"
      "\<not> isSepaMandateExpired (man_lastCollectedAt m) (man_signedAt m) (madrid_today e)"
    by (rule debit_due_from)
  have "madrid_today e + days \<le> day" if "man_prenoticeDays m = Some days" for days
    using notice_covers [OF b(2,4) that, of st] notice by (simp add: earliestCollectionDate_def)
  then show ?thesis
    unfolding owed_debit_def using b by_customer_Some [OF b(4)] x(2)
    by (intro bexI [of _ bill] bexI [of _ chosen] bexI [of _ m]) (simp_all add: item_for_def)
qed

text \<open>What the file of a remittance says of its debits.\<close>

definition file_says :: "bank \<Rightarrow> remittance_row \<Rightarrow> remittance_item_row list \<Rightarrow> bool" where
  "file_says s row qs \<longleftrightarrow>
     (\<exists>x. rmt_xml row = Some x \<and>
        tagged amount_tag x = map (\<lambda>q. pain_amount (rem_amount q)) (filed qs) \<and>
        tagged endToEnd_tag x = map (\<lambda>q. pain_id (rem_endToEndId q)) (filed qs) \<and>
        (\<exists>ms. list_all2 (\<lambda>m q. m \<in> set (mandates s) \<and> man_id m = rem_mandateId q) ms (filed qs) \<and>
          tagged mandate_tag x = map (\<lambda>m. pain_id (man_reference m)) ms \<and>
          tagged debtor_tag x = map (\<lambda>m. esc (man_iban m)) ms) \<and>
        (\<exists>more. tagged count_tag x = show_nat (length qs) # more) \<and>
        (\<exists>more. tagged sum_tag x = pain_amount (rmt_totalAmount row) # more))"

lemma remittance_file:
  assumes time: "plain (iso_instant w (now e))" and row: "row = remittance_for e w who input st t ds"
    and its: "its = items_from w (Suc (next_id (core t))) (next_id (core t)) ds"
    and mandate: "\<And>bill m c. (bill, m, c) \<in> set ds \<Longrightarrow> m \<in> set (mandates s)"
  shows "file_says s row its" and "rmt_totalAmount row = sum_list (map rem_amount its)"
proof -
  define txs where "txs = map (pain_tx_of w t) ds"
  define x where "x = buildPain008 (rmt_messageId row) (iso_instant w (now e)) (pain_creditor_of st)
    (iso_date (ri_collectionDate input)) txs"
  have xml: "rmt_xml row = Some x" by (simp add: row remittance_for_def Let_def x_def txs_def)
  have dates: "\<forall>y\<in>set txs. plain (pt_mandateSignedDate y)"
    by (auto simp: txs_def pain_tx_of_def plain_iso_date)
  note stands = scan_file [OF time plain_iso_date dates, of "rmt_messageId row" "pain_creditor_of st"
    "ri_collectionDate input", folded x_def, unfolded txs_def in_blocks_grouped]
  show total: "rmt_totalAmount row = sum_list (map rem_amount its)"
    by (simp add: row remittance_for_def Let_def its)
  have "map pt_amountCents txs = map rem_amount its"
    by (simp add: txs_def its items_from_facts(4) pain_tx_of_def comp_def case_prod_beta)
  then have sums: "pain_cents txs = rmt_totalAmount row" "length txs = length its"
    by (simp_all add: total pain_cents_def) (simp add: txs_def its items_from_facts(2))
  have amounts: "map (\<lambda>y. pain_amount (pt_amountCents y)) (map (pain_tx_of w t) (grouped ds)) =
      map (\<lambda>q. pain_amount (rem_amount q)) (filed its)"
    and ends: "map (\<lambda>y. pain_id (pt_endToEndId y)) (map (pain_tx_of w t) (grouped ds)) =
      map (\<lambda>q. pain_id (rem_endToEndId q)) (filed its)"
    unfolding list.map_comp its
    by (rule same_images [OF filed_grouped], auto simp: pain_tx_of_def item_for_def)+
  define ms where "ms = map (\<lambda>(bill, m, c). m) (grouped ds)"
  have refs: "map (\<lambda>y. pain_id (pt_mandateReference y)) (map (pain_tx_of w t) (grouped ds)) =
      map (\<lambda>m. pain_id (man_reference m)) ms"
    and accounts: "map (\<lambda>y. esc (pt_debtorIban y)) (map (pain_tx_of w t) (grouped ds)) =
      map (\<lambda>m. esc (man_iban m)) ms"
    by (auto simp: ms_def pain_tx_of_def)
  have theirs: "list_all2 (\<lambda>m q. m \<in> set (mandates s) \<and> man_id m = rem_mandateId q) ms (filed its)"
    unfolding ms_def its
    by (rule list.rel_mono_strong [OF grouped_mandates]) (use mandate in blast)
  show "file_says s row its"
    unfolding file_says_def
    using xml stands [unfolded amounts ends refs accounts] theirs sums [unfolded txs_def] by (intro exI [of _ x]) auto
qed

text \<open>
  C11: A remittance that is made holds at least one debit. Each is of an issued invoice, not deleted, with
  no other live debit and no charge under way, and asks exactly for what is left to pay; it goes against
  a mandate of the customer that is in force, signed and not expired, after the notice agreed in that
  mandate. The day is a business day between tomorrow and a year ahead. The text of the file that is
  stored has exactly those debits: read tag by tag, its amounts and its end-to-end identifiers are those
  of the debits, first the first debits of a mandate and then the recurrent ones, in the same order
  inside each group; each comes with the reference and the account of its mandate; and the count and the
  total of its header are those of the remittance. (The moment the file is made, as the standard library
  writes it, has no angle bracket.)
\<close>

theorem remittance_asks_what_is_owed:
  assumes ok: "debits_ok s" and run: "createRemittance e w who input s = (s', Inr row)"
    and time: "plain (iso_instant w (now e))"
  shows "debits_of (core s') (rmt_id row) \<noteq> [] \<and>
    (\<forall>q\<in>set (debits_of (core s') (rmt_id row)). \<exists>bill\<in>set (invoices (core s)). \<exists>chosen\<in>set (invoices (core s)).
      \<exists>m\<in>set (mandates s).
        inv_id bill = rem_invoiceId q \<and> inv_id chosen = inv_id bill \<and> debitable (core s) bill \<and>
        rem_amount q = inv_total bill - inv_amountPaid bill \<and> 0 < rem_amount q \<and>
        rem_mandateId q = man_id m \<and> inv_customerId chosen = Some (man_customerId m) \<and>
        man_status m = Man_active \<and> mandateIsSigned (man_signature m) \<and>
        \<not> isSepaMandateExpired (man_lastCollectedAt m) (man_signedAt m) (madrid_today e) \<and>
        (\<forall>days. man_prenoticeDays m = Some days \<longrightarrow> madrid_today e + days \<le> ri_collectionDate input)) \<and>
    isSepaBusinessDay (ri_collectionDate input) \<and> madrid_today e < ri_collectionDate input \<and>
    ri_collectionDate input \<le> madrid_today e + 365 \<and>
    rmt_totalAmount row = sum_list (map rem_amount (debits_of (core s') (rmt_id row))) \<and>
    (\<exists>x. rmt_xml row = Some x \<and>
      tagged amount_tag x = map (\<lambda>q. pain_amount (rem_amount q)) (filed (debits_of (core s') (rmt_id row))) \<and>
      tagged endToEnd_tag x = map (\<lambda>q. pain_id (rem_endToEndId q)) (filed (debits_of (core s') (rmt_id row))) \<and>
      (\<exists>ms. list_all2 (\<lambda>m q. m \<in> set (mandates s) \<and> man_id m = rem_mandateId q) ms
          (filed (debits_of (core s') (rmt_id row))) \<and>
        tagged mandate_tag x = map (\<lambda>m. pain_id (man_reference m)) ms \<and>
        tagged debtor_tag x = map (\<lambda>m. esc (man_iban m)) ms) \<and>
      (\<exists>more. tagged count_tag x = show_nat (length (debits_of (core s') (rmt_id row))) # more) \<and>
      (\<exists>more. tagged sum_tag x = pain_amount (rmt_totalAmount row) # more))"
  using run
proof (cases rule: createRemittance_cases)
  case refused then show ?thesis by simp
next
  case (made st s2 row')
  define n where "n = next_id (core s)"
  define its where "its = items_from w (Suc n) n (debits_due e input s)"
  have row: "row' = row" using made(1) by simp
  have parts: "rmt_id row = n" "remittance_items (core s') = remittance_items (core s) @ its" "debits_due e input s \<noteq> []"
      "row = remittance_for e w who input st (expire_mandates e s) (debits_due e input s)"
    using made(7,2) row
    by (auto simp: create_remittance_tx_def Let_def bindr_eq_Inr debits_due_def its_def n_def remittance_for_def)
  have old: "rem_remittanceId q < n" if "q \<in> set (remittance_items (core s))" for q
    using ok that by (simp add: debits_ok_def ids_below_def n_def)
  have "filter (\<lambda>q. rem_remittanceId q = n) (remittance_items (core s)) = []"
    using old by (force simp: filter_empty_conv)
  moreover have "filter (\<lambda>q. rem_remittanceId q = n) its = its"
    using items_from_facts(1) [of _ w "Suc n" n "debits_due e input s"] by (auto simp: its_def filter_id_conv)
  ultimately have mine: "debits_of (core s') (rmt_id row) = its" by (simp add: debits_of_def parts(1,2))
  have "m \<in> set (mandates s)" if "(bill, m, c) \<in> set (debits_due e input s)" for bill m c
    using that by (rule debit_due_from) simp
  then have "file_says s row its" "rmt_totalAmount row = sum_list (map rem_amount its)"
    using remittance_file [OF time parts(4), of its s] by (simp_all add: its_def n_def)
  moreover have "owed_debit e (ri_collectionDate input) s q" if "q \<in> set its" for q
    using that made(6) unfolding its_def by (rule items_owed)
  moreover have "isSepaBusinessDay (ri_collectionDate input) \<and> madrid_today e < ri_collectionDate input \<and>
      ri_collectionDate input \<le> madrid_today e + 365"
    using made(5) by (auto simp: collectionDateIssue_def SEPA_MAX_COLLECTION_DAYS_def Let_def split: if_splits)
  moreover have "its \<noteq> []" using parts(3) items_from_facts(2) [of w "Suc n" n "debits_due e input s"] by (auto simp: its_def)
  ultimately show ?thesis unfolding mine file_says_def owed_debit_def by simp
qed

text \<open>The example with the customer still on the invoice.\<close>

definition demo_owed :: bank where
  "demo_owed = (demo_bank_of (demo_db3\<lparr>invoices := [demo_chosen]\<rparr>))\<lparr>mandates := [demo_mandate]\<rparr>"

lemma demo_creditor_valid: "isValidCreditorId ''ES11ZZZB12345674''"
  by code_simp

lemma demo_collection_day: "isSepaBusinessDay 20479"
  by code_simp

lemma demo_mandate_stands: "\<not> isSepaMandateExpired None 20400 20463"
  by code_simp

lemma demo_madrid: "madrid_today demo_env = 20463"
  by (simp add: madrid_today_def today_in_def todayInTimezone_def demo_env_def msPerDay_def)

lemma demo_owed_eligible:
  "elg_invoices (eligible_of demo_env demo_owed) = [demo_chosen]"
  "elg_live (eligible_of demo_env demo_owed) = [demo_mandate]"
  "expire_mandates demo_env demo_owed = demo_owed"
proof -
  have none: "expired_mandates demo_env demo_owed = []"
    by (simp add: expired_mandates_def demo_owed_def demo_mandate_def demo_madrid demo_mandate_stands)
  have "debitable (core demo_owed) demo_chosen"
    by (simp add: debitable_def demo_owed_def demo_bank_of_def demo_chosen_def payments_of_def)
  then show "elg_invoices (eligible_of demo_env demo_owed) = [demo_chosen]"
    by (simp add: eligible_of_def none Let_def) (simp add: demo_owed_def demo_bank_of_def demo_chosen_def)
  show "elg_live (eligible_of demo_env demo_owed) = [demo_mandate]"
    by (simp add: eligible_of_def none Let_def) (simp add: demo_owed_def demo_mandate_def)
  show "expire_mandates demo_env demo_owed = demo_owed"
    by (simp add: expire_mandates_def none) (simp add: demo_owed_def demo_bank_of_def update_many_def)
qed

lemma demo_owed_debits: "debits_for [demo_mandate] (core demo_owed) [demo_chosen] = demo_debits"
  by (simp add: demo_owed_def demo_bank_of_def debits_for_def map_filter_simps debit_for_def demo_chosen_def
      debitable_def payments_of_def pending_cents_def by_customer_def demo_mandate_def mandateIsSigned_def demo_debits_def)

lemma demo_owed_run: "\<exists>s' row. createRemittance demo_env demo_world 9 demo_remittance_input demo_owed = (s', Inr row)"
proof -
  have notice: "notice_for demo_creditor [demo_mandate] [demo_chosen] = 14"
    by (simp add: notice_for_def map_filter_simps by_customer_def demo_chosen_def demo_mandate_def mandateIsSigned_def
        requiredPrenoticeDays_def)
  have settings: "sepa_settings demo_owed = Some demo_creditor" "isValidCreditorId (sst_creditorId demo_creditor)"
    by (simp_all add: demo_owed_def demo_bank_of_def) (simp add: demo_creditor_def demo_creditor_valid)
  have input: "ri_collectionDate demo_remittance_input = 20479" "ri_invoiceIds demo_remittance_input = None"
    by (simp_all add: demo_remittance_input_def)
  have day: "assertCollectionDate demo_env 20479 = Inr ()"
    by (simp add: assertCollectionDate_def collectionDateIssue_def demo_madrid demo_collection_day
        SEPA_MAX_COLLECTION_DAYS_def Let_def)
  have "\<exists>s2 row. create_remittance_tx demo_env demo_world 9 demo_remittance_input demo_creditor [demo_chosen]
      [demo_mandate] demo_owed = Inr (s2, row)"
    by (simp add: create_remittance_tx_def demo_owed_debits Let_def) (simp add: demo_debits_def)
  then obtain s2 row where tx: "create_remittance_tx demo_env demo_world 9 demo_remittance_input demo_creditor
      [demo_chosen] [demo_mandate] demo_owed = Inr (s2, row)" by blast
  show ?thesis
    by (intro exI [of _ "announce (rmt_id row) s2"] exI [of _ row])
      (simp add: createRemittance_def settings input day demo_owed_eligible selected_for_def notice demo_madrid
        earliestCollectionDate_def tx Let_def)
qed

theorem remittance_asks_what_is_owed_witness:
  "\<exists>s' row. createRemittance demo_env demo_world 9 demo_remittance_input demo_owed = (s', Inr row) \<and>
     debits_of (core s') (rmt_id row) \<noteq> [] \<and> isSepaBusinessDay 20479"
proof -
  have ok: "debits_ok demo_owed"
    by (simp add: debits_ok_def demo_owed_def demo_bank_of_def ids_below_def totals_ok_def states_ok_def live_once_def
        one_mandate_def)
  obtain s' row where run: "createRemittance demo_env demo_world 9 demo_remittance_input demo_owed = (s', Inr row)"
    using demo_owed_run by blast
  have "plain (iso_instant demo_world (now demo_env))" by (simp add: demo_world_def plain_def)
  from remittance_asks_what_is_owed [OF ok run this] show ?thesis using run by (auto simp: demo_remittance_input_def)
qed

section \<open>Confirming enters what was collected\<close>

text \<open>The debits of a remittance that wait for an answer of the bank.\<close>

definition waiting :: "db \<Rightarrow> id \<Rightarrow> remittance_item_row list" where
  "waiting d i = filter (\<lambda>q. rem_status q = Deb_pending) (debits_of d i)"

text \<open>A payment by direct debit that bears the reference of the debit.\<close>

definition bears_reference :: "db \<Rightarrow> remittance_item_row \<Rightarrow> payment_row \<Rightarrow> bool" where
  "bears_reference d q p \<longleftrightarrow> p \<in> set (payments_of d (rem_invoiceId q)) \<and> pay_method p = Sepa_debit \<and>
     (case pay_notes p of None \<Rightarrow> False | Some n \<Rightarrow> contains_text n (rem_endToEndId q))"

lemma already_registered_bears: "already_registered d q \<longleftrightarrow> (\<exists>p. bears_reference d q p)"
  by (auto simp: already_registered_def bears_reference_def)

lemma count_of_one:
  assumes "distinct (map k xs)" and "x \<in> set xs" and "P x" and "\<And>y. P y \<Longrightarrow> k y = k x"
  shows "count_rows P xs = 1"
  using assms
proof (induction xs)
  case Nil then show ?case by simp
next
  case (Cons y ys)
  show ?case
  proof (cases "y = x")
    case True
    have "\<not> P z" if "z \<in> set ys" for z
    proof
      assume "P z"
      then have "k z = k x" by (rule Cons.prems(4))
      then have "k y = k z" using True by simp
      then show False using Cons.prems(1) that by simp
    qed
    then have "count_rows P ys = 0" by (simp add: count_rows_eq_0)
    then show ?thesis using True Cons.prems(3) by simp
  next
    case False
    then have x: "x \<in> set ys" using Cons.prems(2) by simp
    have "\<not> P y"
    proof
      assume "P y"
      then have "k y = k x" by (rule Cons.prems(4))
      then show False using Cons.prems(1) x by simp
    qed
    moreover have "count_rows P ys = 1" by (rule Cons.IH [OF _ x Cons.prems(3,4)]) (use Cons.prems(1) in simp)
    ultimately show ?thesis by simp
  qed
qed

text \<open>A remittance made, or one whose confirmation was cut short five minutes ago or more, can be claimed.\<close>

definition can_confirm :: "env \<Rightarrow> remittance_row \<Rightarrow> bank \<Rightarrow> bool" where
  "can_confirm e r s \<longleftrightarrow> rmt_status r = Rmt_generated \<or>
     rmt_status r = Rmt_confirmed \<and> waiting (core s) (rmt_id r) \<noteq> [] \<and>
     (\<exists>t. rmt_confirmedAt r = Some t \<and> 300000 \<le> now e - t)"

lemma can_confirm_claims:
  assumes ok: "debits_ok s" and r: "find_remittance s i = Some r" and can: "can_confirm e r s"
  shows "\<exists>s1. claimConfirmation e r s = Inr s1 \<and>
    find_remittance s1 i = Some (r\<lparr>rmt_status := Rmt_confirmed, rmt_confirmedAt := Some (now e)\<rparr>)"
proof -
  have ri: "r \<in> set (remittances s)" "rmt_id r = i" using find_first_SomeD [OF r [unfolded find_remittance_def]] by auto
  have ids: "distinct (map rmt_id (remittances s))" using ok by (simp add: debits_ok_def ids_below_def)
  have one: "count_rows (\<lambda>x. rmt_id x = rmt_id r \<and> P x) (remittances s) = 1" if "P r" for P
    by (rule count_of_one [OF ids ri(1)]) (use that in auto)
  have same: "x = r" if "x \<in> set (remittances s)" "rmt_id x = rmt_id r" for x
    using that ids ri(1) by (auto simp: distinct_map inj_on_def)
  have row: "find_first (\<lambda>x. rmt_id x = i) (update_many (\<lambda>x. rmt_id x = i \<and> P x) f (remittances s)) = Some (f r)"
    if "P r" "\<And>x. rmt_id (f x) = rmt_id x" for P f
  proof -
    have "update_many (\<lambda>x. rmt_id x = i \<and> P x) f (remittances s) = update_many (\<lambda>x. rmt_id x = i) f (remittances s)"
      unfolding update_many_def
    proof (rule map_cong [OF refl])
      fix x assume "x \<in> set (remittances s)"
      then show "(if rmt_id x = i \<and> P x then f x else x) = (if rmt_id x = i then f x else x)"
        using same [of x] that(1) ri(2) by (cases "rmt_id x = i") simp_all
    qed
    then show ?thesis using r find_first_update_many_key [of rmt_id f i] that(2) by (simp add: find_remittance_def)
  qed
  show ?thesis
  proof (cases "rmt_status r = Rmt_generated")
    case True
    then show ?thesis
      using one [of "\<lambda>x. rmt_status x = Rmt_generated"] row [of "\<lambda>x. rmt_status x = Rmt_generated"] ri
      by (simp add: claimConfirmation_def claim_generated_def find_remittance_def)
  next
    case False
    then obtain t where t: "rmt_confirmedAt r = Some t" "300000 \<le> now e - t" and st: "rmt_status r = Rmt_confirmed"
      and some: "waiting (core s) (rmt_id r) \<noteq> []" using can by (auto simp: can_confirm_def)
    have "count_rows (\<lambda>x. rmt_id x = rmt_id r \<and> rmt_status x = Rmt_generated) (remittances s) = 0"
      unfolding count_rows_eq_0
    proof (rule ballI)
      fix x assume "x \<in> set (remittances s)"
      then show "\<not> (rmt_id x = rmt_id r \<and> rmt_status x = Rmt_generated)" using same [of x] st by auto
    qed
    moreover have "still_pending (core s) (rmt_id r) \<noteq> 0"
      using some by (auto simp: still_pending_def count_rows_eq_0 waiting_def debits_of_def filter_empty_conv)
    moreover have "r\<lparr>rmt_status := Rmt_confirmed, rmt_confirmedAt := Some (now e)\<rparr> = r\<lparr>rmt_confirmedAt := Some (now e)\<rparr>"
      using st by simp
    moreover have "find_remittance (claim_resumed e i t s) i = Some (r\<lparr>rmt_confirmedAt := Some (now e)\<rparr>)"
      using row [of "\<lambda>x. rmt_status x = Rmt_confirmed \<and> rmt_confirmedAt x = Some t"] st t
      by (simp add: claim_resumed_def find_remittance_def)
    ultimately show ?thesis
      using one [of "\<lambda>x. rmt_status x = Rmt_confirmed \<and> rmt_confirmedAt x = Some t"] st t ri
      by (simp add: claimConfirmation_def RESUME_AFTER_MS_def)
  qed
qed

text \<open>What a run over the debits that were pending leaves, whichever confirmation it belongs to.\<close>

lemma waiting_confirmed:
  assumes ok: "debits_ok s" and run: "confirm_items e name rejected (waiting (core s) i) (core s) = (d, ms)"
  shows "\<forall>q\<in>set (waiting (core s) i). outcome rejected (core s) d q"
    and "\<exists>pays. payments d = payments (core s) @ pays \<and> map payment_facts pays =
      map debit_facts (filter (collected_now rejected (core s) d) (waiting (core s) i))"
    and "\<And>q. q \<in> set (remittance_items (core s)) \<Longrightarrow> q \<notin> set (waiting (core s) i) \<Longrightarrow>
      debit_state d (rem_id q) = Some (rem_status q)"
    and "still_pending d i = 0"
proof -
  define qs where "qs = waiting (core s) i"
  have ids: "distinct (map rem_id (remittance_items (core s)))"
    using ok by (simp_all add: debits_ok_def ids_below_def)
  have live: "distinct (map rem_invoiceId qs)"
    unfolding qs_def waiting_def debits_of_def filter_filter
    by (rule pending_distinct) (use ok in \<open>auto simp: debits_ok_def live_debit_def\<close>)
  have tc: "to_confirm i qs (core s)" using pending_to_confirm [OF ids, of i] by (simp add: qs_def waiting_def)
  note all = confirm_items_outcome [OF run [folded qs_def] tc live]
  show out: "\<forall>q\<in>set (waiting (core s) i). outcome rejected (core s) d q"
    and "\<exists>pays. payments d = payments (core s) @ pays \<and> map payment_facts pays =
      map debit_facts (filter (collected_now rejected (core s) d) (waiting (core s) i))"
    using all unfolding qs_def by blast+
  show kept: "debit_state d (rem_id q) = Some (rem_status q)"
    if q: "q \<in> set (remittance_items (core s))" "q \<notin> set (waiting (core s) i)" for q
  proof -
    have "rem_id q \<notin> rem_id ` set (waiting (core s) i)"
      using q ids by (auto simp: waiting_def debits_of_def distinct_map inj_on_def)
    then show ?thesis using confirm_items_keeps_state [OF run] debit_state_row [OF ids q(1)] by simp
  qed
  show "still_pending d i = 0"
  proof (rule settled_none_pending [OF _ ids])
    show "map item_key (remittance_items d) = map item_key (remittance_items (core s))"
      using confirm_items_ok [OF run [folded qs_def] tc, of "[]"] ok by (simp add: debits_ok_def states_ok_def)
    show "\<forall>q\<in>set (debits_of (core s) i). debit_state d (rem_id q) \<noteq> Some Deb_pending"
    proof
      fix q assume q: "q \<in> set (debits_of (core s) i)"
      show "debit_state d (rem_id q) \<noteq> Some Deb_pending"
      proof (cases "q \<in> set (waiting (core s) i)")
        case True then show ?thesis using out by (auto simp: outcome_def)
      next
        case False then show ?thesis using kept [of q] q by (auto simp: waiting_def debits_of_def)
      qed
    qed
  qed
qed

text \<open>
  C12: Confirming a remittance that was made, or whose confirmation was cut short five minutes ago or
  more with debits still pending, always ends well and settles every debit that was pending: failed when
  the bank rejected it; collected, and not paid a second time, when a payment with its reference was
  there; otherwise one or the other. The payments entered are exactly one direct debit of the amount of
  the debit for each one collected now, in the order of the debits, and every debit marked as collected
  has such a payment. Nothing is left pending, the debits settled before are as they were, and confirming
  the remittance again is refused. The references are taken to tell the debits apart: a payment with the
  reference of a pending debit is its own, entered by the confirmation that was cut short, so there is
  none before the first confirmation (references cut to the same 35 characters, which the code can
  make, are outside this property).
\<close>

theorem confirmation_settles_debits:
  assumes ok: "debits_ok s" and r: "find_remittance s i = Some r" and can: "can_confirm e r s"
    and own: "\<forall>q\<in>set (waiting (core s) i). \<forall>p. bears_reference (core s) q p \<longrightarrow>
      rmt_status r = Rmt_confirmed \<and> payment_facts p = debit_facts q"
  shows "\<exists>s' pays. confirmRemittance e i rejected s = Inr s' \<and>
    (\<forall>q\<in>set (waiting (core s) i). outcome rejected (core s) (core s') q \<and>
      (debit_state (core s') (rem_id q) = Some Deb_collected \<longrightarrow>
        (\<exists>p\<in>set (payments (core s')). payment_facts p = debit_facts q))) \<and>
    (\<forall>q\<in>set (remittance_items (core s)). q \<notin> set (waiting (core s) i) \<longrightarrow>
      debit_state (core s') (rem_id q) = Some (rem_status q)) \<and>
    payments (core s') = payments (core s) @ pays \<and>
    map payment_facts pays =
      map debit_facts (filter (collected_now rejected (core s) (core s')) (waiting (core s) i)) \<and>
    still_pending (core s') i = 0 \<and>
    confirmRemittance e' i rejected' s' = Inl (BadRequestException ''remittance_not_confirmable'')"
proof -
  have ri: "rmt_id r = i" using find_first_SomeD [OF r [unfolded find_remittance_def]] by auto
  obtain s1 where claim: "claimConfirmation e r s = Inr s1"
    and row1: "find_remittance s1 i = Some (r\<lparr>rmt_status := Rmt_confirmed, rmt_confirmedAt := Some (now e)\<rparr>)"
    using can_confirm_claims [OF ok r can] by blast
  have c1: "core s1 = core s" using claim_confirms [OF ok claim] by blast
  obtain d ms where run: "confirm_items e (rmt_name r) rejected (waiting (core s) i) (core s) = (d, ms)" by fastforce
  note settled = waiting_confirmed [OF ok run]
  define s' where "s' = s1\<lparr>core := d, mandates := collected_once (rmt_collectionDate r) ms (mandates s1)\<rparr>"
  have done1: "confirmRemittance e i rejected s = Inr s'"
    using r claim run ri c1 by (simp add: confirmRemittance_def confirm_read_def s'_def waiting_def)
  obtain pays where pays: "payments d = payments (core s) @ pays" "map payment_facts pays =
      map debit_facts (filter (collected_now rejected (core s) d) (waiting (core s) i))" using settled(2) by blast
  have paid: "\<exists>p\<in>set (payments d). payment_facts p = debit_facts q"
    if q: "q \<in> set (waiting (core s) i)" "debit_state d (rem_id q) = Some Deb_collected" for q
  proof (cases "already_registered (core s) q")
    case True
    then obtain p where p: "bears_reference (core s) q p" by (auto simp: already_registered_bears)
    then have "p \<in> set (payments (core s))" by (simp add: bears_reference_def payments_of_def)
    then show ?thesis using own p q(1) pays(1) by auto
  next
    case False
    then have "debit_facts q \<in> set (map payment_facts pays)"
      using q settled(1) unfolding pays(2) by (auto simp: collected_now_def outcome_def)
    then show ?thesis using pays(1) by auto
  qed
  have ok': "debits_ok s'" using confirm_from_ok [OF ok] done1 r by (simp add: confirmRemittance_def)
  have "find_remittance s' i = Some (r\<lparr>rmt_status := Rmt_confirmed, rmt_confirmedAt := Some (now e)\<rparr>)"
    using row1 by (simp add: s'_def find_remittance_def)
  then have "confirmRemittance e' i rejected' s' = Inl (BadRequestException ''remittance_not_confirmable'')"
    using again_refused [OF ok'] settled(4) by (simp add: s'_def)
  then show ?thesis
    using done1 settled(1,3,4) paid pays by (intro exI [of _ s'] exI [of _ pays]) (simp add: s'_def)
qed

theorem confirmation_settles_debits_witness:
  "\<exists>s'. confirmRemittance demo_env 3 [4] demo_bank = Inr s' \<and> debit_state (core s') 4 = Some Deb_failed \<and>
     confirmRemittance demo_env 3 [] s' = Inl (BadRequestException ''remittance_not_confirmable'')"
proof -
  have r: "find_remittance demo_bank 3 = Some (hd (remittances demo_bank))"
    by (simp add: find_remittance_def)
  have ok: "debits_ok demo_bank" using bank_reachable_ok [OF demo_bank_reachable] by blast
  have q: "waiting (core demo_bank) 3 = [item_for demo_world 4 3 (demo_chosen, demo_mandate, 12100)]"
    "rem_id (item_for demo_world 4 3 (demo_chosen, demo_mandate, 12100)) = 4"
    by (simp_all add: waiting_def debits_of_def item_for_def)
  have can: "can_confirm demo_env (hd (remittances demo_bank)) demo_bank" by (simp add: can_confirm_def)
  have "\<not> bears_reference (core demo_bank) x p" for x p
    by (simp add: bears_reference_def payments_of_def demo_bank_def)
  then have own: "\<forall>q\<in>set (waiting (core demo_bank) 3). \<forall>p. bears_reference (core demo_bank) q p \<longrightarrow>
      rmt_status (hd (remittances demo_bank)) = Rmt_confirmed \<and> payment_facts p = debit_facts q" by blast
  from confirmation_settles_debits [OF ok r can own, of "[4]" demo_env "[]"]
  show ?thesis by (auto simp: q outcome_def)
qed

end
