(* ===== verification/ReconciliationProperties.thy ===== *)
theory ReconciliationProperties imports Reconciliation SepaProperties begin

text \<open>
  The properties of the reconciliation of bank statements: a credit is shared out to the cent among the
  invoices it pays, and an entry of the bank moves money at most once.
\<close>

section \<open>Sharing out\<close>

lemma share_out_sum:
  assumes "0 \<le> r" and "\<forall>x\<in>set xs. 0 \<le> snd x"
  shows "sum_list (map snd (share_out r xs)) = min r (sum_list (map snd xs))"
  using assms
proof (induction xs arbitrary: r)
  case Nil then show ?case by simp
next
  case (Cons x xs)
  obtain i l where x: "x = (i, l)" by (cases x)
  have "0 \<le> sum_list (map snd xs)" using Cons.prems(2) by (intro sum_list_nonneg) auto
  then show ?case
    using Cons.IH [of "r - min r l"] Cons.IH [of r] Cons.prems by (auto simp: x Let_def min_def)
qed

lemma share_out_within:
  "(i, c) \<in> set (share_out r xs) \<Longrightarrow> 0 < c \<and> (\<exists>l. (i, l) \<in> set xs \<and> c \<le> l)"
proof (induction xs arbitrary: r)
  case Nil then show ?case by simp
next
  case (Cons x xs)
  obtain j l where x: "x = (j, l)" by (cases x)
  show ?case
  proof (cases "0 < min r l \<and> (i, c) = (j, min r l)")
    case True then show ?thesis by (auto simp: x)
  next
    case False
    then have "\<exists>r'. (i, c) \<in> set (share_out r' xs)" using Cons.prems by (auto simp: x Let_def split: if_splits)
    then show ?thesis using Cons.IH by (auto simp: x)
  qed
qed

definition transfer_facts :: "id \<times> cents \<Rightarrow> id option \<times> cents \<times> method_type \<times> payment_status" where
  "transfer_facts x = (Some (fst x), snd x, Bank_transfer, Pay_succeeded)"

lemma apply_parts_payments:
  assumes "apply_parts e ps d = (d', applied, ans)"
  shows "(\<exists>pays. payments d' = payments d @ pays \<and>
      map payment_facts pays = map transfer_facts (take (length applied) ps)) \<and>
    (ans = Inr () \<longrightarrow> length applied = length ps) \<and> keeps_books d d'"
  using assms
proof (induction ps arbitrary: d applied)
  case Nil then show ?case by simp
next
  case (Cons p ps)
  obtain i c where p: "p = (i, c)" by (cases p)
  show ?case
  proof (cases "markPaidManually e None i (transfer N43_NOTES c) d")
    case (Inl err) then show ?thesis using Cons.prems by (auto simp: p)
  next
    case (Inr d1)
    obtain applied1 where rest: "apply_parts e ps d1 = (d', applied1, ans)" and ap: "applied = i # applied1"
      using Cons.prems Inr by (auto simp: p split: prod.splits)
    from Inr obtain fresh where "payments d1 = payments d @ [(manual_payment_row e i (transfer N43_NOTES c) fresh)\<lparr>pay_id := next_id d\<rparr>]"
      by (rule markPaidManually_rows)
    then obtain q where q: "payments d1 = payments d @ [q]" "payment_facts q = transfer_facts p"
      by (simp add: payment_facts_def transfer_facts_def manual_payment_row_def transfer_def p)
    from Cons.IH [OF rest] obtain pays where ih: "payments d' = payments d1 @ pays"
      "map payment_facts pays = map transfer_facts (take (length applied1) ps)"
      "ans = Inr () \<longrightarrow> length applied1 = length ps" "keeps_books d1 d'" by blast
    have "payments d' = payments d @ (q # pays) \<and>
        map payment_facts (q # pays) = map transfer_facts (take (length applied) (p # ps))"
      using q ih by (simp add: ap)
    then show ?thesis using ih(3) keeps_books_trans [OF markPaid_keeps [OF Inr] ih(4)] by (auto simp: ap)
  qed
qed

lemma in_without_repeats [simp]: "set (without_repeats ids) = set ids"
  by (simp add: without_repeats_def)

lemma lacking_nonneg: "0 \<le> lacking d i"
  by (simp add: lacking_def pending_cents_def split: option.split)

text \<open>What the k-th invoice gets: what it lacks, or what the ones before it leave of the credit.\<close>

definition share_of :: "cents \<Rightarrow> (id \<Rightarrow> cents) \<Rightarrow> id list \<Rightarrow> nat \<Rightarrow> id \<times> cents" where
  "share_of amount lacks ids k = (ids ! k, min (lacks (ids ! k)) (amount - sum_list (map lacks (take k ids))))"

lemma share_of_Cons: "share_of r l (i # ids) (Suc k) = share_of (r - l i) l ids k"
  by (simp add: share_of_def algebra_simps)

lemma no_share_left:
  assumes "r \<le> 0" and "\<forall>j. 0 \<le> l j"
  shows "filter (\<lambda>x. 0 < snd x) (map (share_of r l ids) ks) = []"
proof -
  have "0 \<le> sum_list (map l (take k ids))" for k using assms(2) by (intro sum_list_nonneg) auto
  then have "snd (share_of r l ids k) \<le> 0" for k using assms(1) by (simp add: share_of_def) (smt (verit))
  then show ?thesis by (auto simp: filter_empty_conv not_less)
qed

lemma share_out_shares:
  assumes "0 \<le> r" and l: "\<forall>j. 0 \<le> l j"
  shows "share_out r (map (\<lambda>j. (j, l j)) ids) =
    filter (\<lambda>x. 0 < snd x) (map (share_of r l ids) [0..<length ids])"
  using assms(1)
proof (induction ids arbitrary: r)
  case Nil then show ?case by simp
next
  case (Cons i ids)
  have up: "[0..<length (i # ids)] = 0 # map Suc [0..<length ids]" by (simp add: upt_conv_Cons map_Suc_upt del: upt_Suc)
  have first: "share_of r l (i # ids) 0 = (i, min (l i) r)" by (simp add: share_of_def)
  have later: "map (share_of r l (i # ids)) (map Suc ks) = map (share_of (r - l i) l ids) ks" for ks
    by (simp add: share_of_Cons)
  have rest: "share_out (r - min r (l i)) (map (\<lambda>j. (j, l j)) ids) =
      filter (\<lambda>x. 0 < snd x) (map (share_of (r - l i) l ids) [0..<length ids])"
  proof (cases "l i \<le> r")
    case True
    then have "r - min r (l i) = r - l i" by simp
    then show ?thesis using Cons.IH [of "r - l i"] True by (simp only: diff_ge_0_iff_ge)
  next
    case False
    then have "share_out (r - min r (l i)) (map (\<lambda>j. (j, l j)) ids) = []"
      using Cons.IH [of 0] no_share_left [OF order_refl l] by (simp add: min_def)
    then show ?thesis using no_share_left [OF _ l, of "r - l i"] False by simp
  qed
  show ?case
  proof (cases "0 < min r (l i)")
    case True
    then show ?thesis using rest unfolding up list.map later first by (simp add: Let_def min.commute)
  next
    case False
    then have "r = 0 \<or> l i = 0" using Cons.prems l by (metis min_less_iff_conj order_less_le)
    then have "r - min r (l i) = r" using Cons.prems l by (auto simp: min_def)
    then show ?thesis using rest False unfolding up list.map later first by (simp add: Let_def min.commute)
  qed
qed

lemma hd_without_repeats:
  assumes "ids \<noteq> []"
  shows "hd (without_repeats ids) = hd ids"
proof -
  have last: "xs \<noteq> [] \<Longrightarrow> last (remdups xs) = last xs" for xs :: "id list" by (induction xs) auto
  have "hd (without_repeats ids) = last (remdups (rev ids))"
    using assms by (simp add: without_repeats_def hd_rev)
  then show ?thesis using assms last [of "rev ids"] by (simp add: last_rev)
qed

text \<open>
  C20: A credit entered on invoices becomes one bank transfer for each invoice that gets a part, in the
  order given: each gets what it lacks or, when that is less, what the invoices before it leave of the
  credit, and one that would get nothing is passed over. An invoice named twice counts once. Together
  the transfers are the credit or, when that is less, all that the invoices lack (so there is none when
  they lack nothing). Either way the entry is matched with the first invoice given.
\<close>

theorem bank_credit_shared_out:
  assumes t: "find_entry s i = Some t" and run: "matchTransaction e i invoiceIds s = (s', Inr ())"
    and one: "distinct (map ent_id (entries s))" and some: "invoiceIds \<noteq> []"
  shows "\<exists>pays. payments (core s') = payments (core s) @ pays \<and>
    map payment_facts pays = map transfer_facts (filter (\<lambda>x. 0 < snd x)
      (map (share_of (ent_amount t) (lacking (core s)) (without_repeats invoiceIds))
        [0..<length (without_repeats invoiceIds)])) \<and>
    sum_list (map pay_amount pays) =
      min (ent_amount t) (sum_list (map (lacking (core s)) (without_repeats invoiceIds))) \<and>
    find_entry s' i = Some (t\<lparr>ent_status := Ent_matched, ent_matchedInvoiceId := Some (hd invoiceIds),
      ent_matchedAt := Some (now e)\<rparr>)"
proof -
  define ids where "ids = without_repeats invoiceIds"
  define plan where "plan = share_out (ent_amount t) (map (\<lambda>j. (j, lacking (core s) j)) ids)"
  note t' = find_first_SomeD [OF t [unfolded find_entry_def]]
  then have ti: "ent_id t = i" "t \<in> set (entries s)" by auto
  have checks: "match_checks (core s) t ids = Inr ()" and m: "match_from e t ids (core s) s = (s', Inr ())"
    using run t by (auto simp: matchTransaction_def ids_def [symmetric] Let_def split: sum.splits) (auto simp: bindr_eq_Inr)
  have amount: "0 \<le> ent_amount t" using checks by (auto simp: match_checks_def bindr_eq_Inr)
  obtain s1 where claim: "claimTransaction e i Ent_matched (hd ids) s = Inr s1"
    using m by (auto simp: match_from_def Let_def ti split: sum.splits)
  obtain d applied ans where parts: "apply_parts e plan (core s1) = (d, applied, ans)" using prod_cases3 by blast
  have ans: "ans = Inr ()" and s': "s' = s1\<lparr>core := d\<rparr>"
    using m parts claim by (auto simp: match_from_def Let_def ti plan_def [symmetric] split: sum.splits)
  let ?f = "\<lambda>x. x\<lparr>ent_status := Ent_matched, ent_matchedInvoiceId := Some (hd ids), ent_matchedAt := Some (now e)\<rparr>"
  have s1: "s1 = change_entries (pending_entry i) ?f s" and hit: "count_rows (pending_entry i) (entries s) \<noteq> 0"
    using claim by (auto simp: claimTransaction_def bindr_eq_Inr)
  obtain y where "y \<in> set (entries s)" "pending_entry i y" using hit by (auto simp: count_rows_eq_0)
  then have pend: "pending_entry i t" using one ti by (auto simp: pending_entry_def distinct_map inj_on_def)
  have "update_many (pending_entry i) ?f (entries s) = update_many (\<lambda>x. ent_id x = i) ?f (entries s)"
    unfolding update_many_def
    by (rule map_cong) (use one pend ti in \<open>auto simp: pending_entry_def distinct_map inj_on_def\<close>)
  then have entry: "find_entry s' i = Some (?f t)"
    using t find_first_update_many_key [of ent_id ?f i "entries s"]
    by (simp add: s' s1 change_entries_def find_entry_def)
  have c1: "core s1 = core s" by (simp add: s1 change_entries_def)
  from apply_parts_payments [OF parts] ans obtain pays where pays: "payments d = payments (core s) @ pays"
    "map payment_facts pays = map transfer_facts plan" by (auto simp: c1)
  have "map pay_amount pays = map (\<lambda>p. fst (snd (payment_facts p))) pays" by (simp add: payment_facts_def)
  also have "\<dots> = map (\<lambda>x. fst (snd x)) (map payment_facts pays)" by simp
  also have "\<dots> = map snd plan" unfolding pays(2) by (simp add: transfer_facts_def)
  finally have sum: "sum_list (map pay_amount pays) = min (ent_amount t) (sum_list (map (lacking (core s)) ids))"
    using share_out_sum [OF amount, of "map (\<lambda>j. (j, lacking (core s) j)) ids"] lacking_nonneg
    by (simp add: plan_def comp_def)
  have shares: "plan = filter (\<lambda>x. 0 < snd x) (map (share_of (ent_amount t) (lacking (core s)) ids) [0..<length ids])"
    unfolding plan_def by (rule share_out_shares [OF amount]) (simp add: lacking_nonneg)
  show ?thesis
    using pays sum entry hd_without_repeats [OF some] by (intro exI [of _ pays]) (simp add: shares s' ids_def)
qed

section \<open>An entry is used once\<close>

text \<open>What used the entry found it pending and leaves it otherwise.\<close>

definition used_entry :: "id \<Rightarrow> bank \<Rightarrow> bank \<Rightarrow> bool" where
  "used_entry i s0 s1 \<longleftrightarrow>
     (\<exists>x\<in>set (entries s0). pending_entry i x) \<and> (\<forall>x\<in>set (entries s1). \<not> pending_entry i x)"

lemma used_by_update:
  assumes "count_rows (pending_entry i) (entries s0) \<noteq> 0"
    and "\<And>x. ent_id (f x) = ent_id x" and "\<And>x. ent_status (f x) \<noteq> Ent_pending"
    and "entries s1 = update_many (pending_entry i) f (entries s0)"
  shows "used_entry i s0 s1"
proof -
  have "\<not> pending_entry i x" if "x \<in> set (entries s1)" for x
  proof -
    have "x \<in> (\<lambda>y. if pending_entry i y then f y else y) ` set (entries s0)"
      using that unfolding assms(4) update_many_def by simp
    then obtain y where "x = (if pending_entry i y then f y else y)" by blast
    then show ?thesis using assms(3) [of y] by (auto simp: pending_entry_def)
  qed
  then show ?thesis using assms(1) by (auto simp: used_entry_def count_rows_eq_0)
qed

lemma claim_uses:
  assumes "claimTransaction e i st bill s0 = Inr s1" and "st \<noteq> Ent_pending"
  shows "used_entry i s0 s1"
proof (rule used_by_update)
  let ?f = "\<lambda>t. t\<lparr>ent_status := st, ent_matchedInvoiceId := Some bill, ent_matchedAt := Some (now e)\<rparr>"
  show "count_rows (pending_entry i) (entries s0) \<noteq> 0" "entries s1 = update_many (pending_entry i) ?f (entries s0)"
    using assms(1) by (auto simp: claimTransaction_def bindr_eq_Inr change_entries_def)
qed (use assms(2) in simp_all)

lemma markSepaItemReturned_entries [simp]: "entries (markSepaItemReturned bill s) = entries s"
  by (simp add: markSepaItemReturned_def over_core_def Let_def split: option.split)

lemma used_entry_same: "entries s2 = entries s1 \<Longrightarrow> used_entry i s0 s1 \<Longrightarrow> used_entry i s0 s2"
  by (simp add: used_entry_def)

lemma match_uses: "match_from e t ids d s0 = (s1, Inr ()) \<Longrightarrow> used_entry (ent_id t) s0 s1"
  by (auto simp: match_from_def Let_def split: sum.splits prod.splits
      intro: used_entry_same [OF _ claim_uses])

lemma return_uses: "return_from e t bill c s0 = (s1, Inr ()) \<Longrightarrow> used_entry (ent_id t) s0 s1"
  by (auto simp: return_from_def split: sum.splits intro: used_entry_same [OF _ claim_uses])

lemma ignore_uses: "ignoreTransaction (ent_id t) s0 = Inr s1 \<Longrightarrow> used_entry (ent_id t) s0 s1"
  by (rule used_by_update [where f = "\<lambda>t. t\<lparr>ent_status := Ent_ignored\<rparr>"])
    (auto simp: ignoreTransaction_def bindr_eq_Inr change_entries_def)

lemma auto_uses:
  assumes "auto_one e cs t (s0, used, n) = (s1, used', Suc n)"
  shows "used_entry (ent_id t) s0 s1"
proof -
  let ?hits = "filter (\<lambda>c. cnd_id c \<notin> set used) (uniqueAutoMatch (ent_amount t) t cs)"
  obtain c where c: "?hits = [c]"
    using assms by (cases ?hits rule: remdups_adj.cases) (simp_all add: auto_one_def)
  have hit: "count_rows (pending_entry (ent_id t)) (entries s0) \<noteq> 0"
    using assms c by (cases "count_rows (pending_entry (ent_id t)) (entries s0) = 0") (simp_all add: auto_one_def)
  obtain d where s1: "s1 = change_entries (\<lambda>x. ent_id x = ent_id t)
      (\<lambda>x. x\<lparr>ent_matchedPaymentId := auto_payment d (cnd_id c)\<rparr>) ((claim_auto e (ent_id t) (cnd_id c) s0)\<lparr>core := d\<rparr>)"
    using assms c hit
    by (cases "markPaidManually e None (cnd_id c) (transfer AUTO_NOTES (ent_amount t))
          (core (claim_auto e (ent_id t) (cnd_id c) s0))") (auto simp: auto_one_def Let_def)
  have claimed: "used_entry (ent_id t) s0 (claim_auto e (ent_id t) (cnd_id c) s0)"
    by (rule used_by_update [OF hit]) (auto simp: claim_auto_def change_entries_def)
  have "\<not> pending_entry (ent_id t) x" if x: "x \<in> set (entries s1)" for x
  proof -
    obtain y where "y \<in> set (entries (claim_auto e (ent_id t) (cnd_id c) s0))"
      "ent_id x = ent_id y" "ent_status x = ent_status y"
      using x by (fastforce simp: s1 change_entries_def update_many_def)
    then show ?thesis using claimed by (auto simp: used_entry_def pending_entry_def)
  qed
  then show ?thesis using claimed by (simp add: used_entry_def)
qed

text \<open>
  C21: Whoever read an entry while it was pending, once it is no longer pending a match, a return, the
  automatic run and leaving it aside do nothing: no payment is entered or reverted and the entry stays
  as it is. A match, a return and leaving it aside that went well, and an automatic match that was
  counted, found the entry pending and leave it no longer pending.
\<close>

theorem bank_entry_used_once:
  assumes "\<forall>x\<in>set (entries s). \<not> pending_entry (ent_id t) x"
  shows "match_from e t ids d s = (s, Inl (BadRequestException ''already_matched'')) \<and>
    return_from e t bill c s = (s, Inl (BadRequestException ''already_matched'')) \<and>
    auto_one e cs t (s, used, n) = (s, used, n) \<and>
    ignoreTransaction (ent_id t) s = Inl (NotFoundException ''transaction_not_found'') \<and>
    (match_from e t ids d s0 = (s1, Inr ()) \<or> return_from e t bill c s0 = (s1, Inr ()) \<or>
     auto_one e cs t (s0, used, n) = (s1, used', Suc n) \<or> ignoreTransaction (ent_id t) s0 = Inr s1 \<longrightarrow>
      (\<exists>x\<in>set (entries s0). pending_entry (ent_id t) x) \<and>
      (\<forall>x\<in>set (entries s1). \<not> pending_entry (ent_id t) x))"
proof (intro conjI impI)
  have none: "count_rows (pending_entry (ent_id t)) (entries s) = 0"
    using assms by (simp add: count_rows_eq_0)
  show "match_from e t ids d s = (s, Inl (BadRequestException ''already_matched''))"
    by (simp add: match_from_def claimTransaction_def none Let_def)
  show "return_from e t bill c s = (s, Inl (BadRequestException ''already_matched''))"
    by (simp add: return_from_def claimTransaction_def none)
  show "auto_one e cs t (s, used, n) = (s, used, n)"
    by (simp add: auto_one_def none split: list.split)
  show "ignoreTransaction (ent_id t) s = Inl (NotFoundException ''transaction_not_found'')"
    by (simp add: ignoreTransaction_def none)
next
  assume done1: "match_from e t ids d s0 = (s1, Inr ()) \<or> return_from e t bill c s0 = (s1, Inr ()) \<or>
     auto_one e cs t (s0, used, n) = (s1, used', Suc n) \<or> ignoreTransaction (ent_id t) s0 = Inr s1"
  have used_up: "(\<exists>x\<in>set (entries s0). pending_entry (ent_id t) x) \<and>
      (\<forall>x\<in>set (entries s1). \<not> pending_entry (ent_id t) x)"
    using done1 match_uses [of e t ids d s0 s1] return_uses [of e t bill c s0 s1]
      auto_uses [of e cs t s0 used n s1 used'] ignore_uses [of t s0 s1] unfolding used_entry_def by blast
  then show "\<exists>x\<in>set (entries s0). pending_entry (ent_id t) x" by blast
  show "\<forall>x\<in>set (entries s1). \<not> pending_entry (ent_id t) x" using used_up by blast
qed

text \<open>The example: a transfer of 200 euros on the invoice of 121.\<close>

definition demo_entry :: entry_row where
  "demo_entry = \<lparr>ent_id = 7, ent_statementId = 6, ent_operationDate = Some 20463, ent_valueDate = None,
     ent_amount = 20000, ent_conceptCommon = None, ent_conceptOwn = None, ent_reference1 = None,
     ent_reference2 = None, ent_documentNumber = None, ent_description = None, ent_status = Ent_pending,
     ent_matchedInvoiceId = None, ent_matchedAt = None, ent_autoMatched = False, ent_matchedPaymentId = None\<rparr>"

definition demo_account :: bank where
  "demo_account = (demo_bank_of demo_db3)\<lparr>entries := [demo_entry]\<rparr>"

lemma demo_entry_sel [simp]:
  "ent_id demo_entry = 7" "ent_amount demo_entry = 20000" "ent_status demo_entry = Ent_pending"
  "core demo_account = demo_db3" "entries demo_account = [demo_entry]"
  by (simp_all add: demo_entry_def demo_account_def demo_bank_of_def)

lemma demo_transfer: "\<exists>d. markPaidManually demo_env None 2 (transfer N43_NOTES 12100) demo_db3 = Inr d"
proof -
  have "findOrThrow demo_db3 None 2 = Inr demo_issued"
    by (simp add: findOrThrow_def assertFacilityAllowed_def isFacilityAllowed_def split: option.split)
  moreover have "\<exists>d1. mark_paid_tx demo_env 2 (transfer N43_NOTES 12100) demo_db3 = Inr (d1, True)"
    by (simp add: mark_paid_tx_def transfer_def Let_def)
  ultimately show ?thesis
    by (auto simp: markPaidManually_def paid_at_def transfer_def Let_def)
qed

lemma demo_match: "\<exists>s'. matchTransaction demo_env 7 [2, 2] demo_account = (s', Inr ())"
proof -
  have ids: "without_repeats [2, 2] = [2]" by (simp add: without_repeats_def)
  have plan: "lacking demo_db3 2 = 12100" by (simp add: lacking_def pending_cents_def)
  obtain d where d: "markPaidManually demo_env None 2 (transfer N43_NOTES 12100) demo_db3 = Inr d"
    using demo_transfer by blast
  show ?thesis
    by (simp add: matchTransaction_def ids find_entry_def match_checks_def match_from_def plan claimTransaction_def
        pending_entry_def change_entries_def d Let_def)
qed

theorem bank_credit_shared_out_witness:
  "\<exists>s' pays. matchTransaction demo_env 7 [2, 2] demo_account = (s', Inr ()) \<and>
     payments (core s') = payments demo_db3 @ pays \<and> sum_list (map pay_amount pays) = 12100"
proof -
  obtain s' where run: "matchTransaction demo_env 7 [2, 2] demo_account = (s', Inr ())" using demo_match by blast
  have t: "find_entry demo_account 7 = Some demo_entry" by (simp add: find_entry_def)
  have "min (ent_amount demo_entry) (sum_list (map (lacking (core demo_account)) (without_repeats [2, 2]))) = 12100"
    by (simp add: without_repeats_def lacking_def pending_cents_def)
  moreover have "distinct (map ent_id (entries demo_account))" by simp
  ultimately show ?thesis using bank_credit_shared_out [OF t run] run by auto
qed

definition demo_matched :: bank where
  "demo_matched = demo_account\<lparr>entries := [demo_entry\<lparr>ent_status := Ent_matched\<rparr>]\<rparr>"

theorem bank_entry_used_once_witness:
  "match_from demo_env demo_entry [2] demo_db3 demo_matched =
     (demo_matched, Inl (BadRequestException ''already_matched''))"
proof -
  have "\<forall>x\<in>set (entries demo_matched). \<not> pending_entry (ent_id demo_entry) x"
    by (simp add: demo_matched_def pending_entry_def)
  from bank_entry_used_once [OF this, of demo_env "[2]" demo_db3 2 0 "[]" "[]" 0] show ?thesis by blast
qed

end
