(* ===== verification/CashProperties.thy ===== *)
theory CashProperties imports Cash ReconciliationProperties begin

text \<open>
  The property of the till: a day is closed once in each scope, and the difference it leaves is what was
  counted less the cash of the local day.
\<close>

section \<open>The cash of a local day\<close>

definition on_local_day :: "env \<Rightarrow> date \<Rightarrow> instant option \<Rightarrow> bool" where
  "on_local_day e day t \<longleftrightarrow> (\<exists>i. t = Some i \<and> todayInTimezone (zone_offset e ''Europe/Madrid'') i = day)"

definition cash_in :: "env \<Rightarrow> date \<Rightarrow> payment_row list \<Rightarrow> cents" where
  "cash_in e day ps =
     sum_list (map pay_amount (filter (\<lambda>p. pay_method p = Cash \<and>
       pay_status p \<in> {Pay_succeeded, Pay_partially_refunded, Pay_refunded} \<and> on_local_day e day (pay_paidAt p)) ps))"

text \<open>What the rows of the payments say was given back, and what the refunds of the day say.\<close>

definition cash_back :: "env \<Rightarrow> date \<Rightarrow> payment_row list \<Rightarrow> cents" where
  "cash_back e day ps =
     sum_list (map pay_refundedAmount (filter (\<lambda>p. pay_method p = Cash \<and> 0 < pay_refundedAmount p \<and>
       on_local_day e day (pay_refundedAt p)) ps))"

definition refunds_of_payment :: "db \<Rightarrow> payment_row \<Rightarrow> refund_row list" where
  "refunds_of_payment d p = filter (\<lambda>r. rfd_paymentId r = Some (pay_id p)) (refunds d)"

definition refunded_on :: "env \<Rightarrow> date \<Rightarrow> db \<Rightarrow> payment_row \<Rightarrow> cents" where
  "refunded_on e day d p =
     sum_list (map rfd_amount (filter (\<lambda>r. on_local_day e day (Some (rfd_createdAt r))) (refunds_of_payment d p)))"

definition cash_out :: "env \<Rightarrow> date \<Rightarrow> db \<Rightarrow> payment_row list \<Rightarrow> cents" where
  "cash_out e day d ps = sum_list (map (refunded_on e day d) (filter (\<lambda>p. pay_method p = Cash) ps))"

text \<open>Its refunds add up to what the payment says was given back, and all are of one local day, the one it says.\<close>

definition refunded_in_one_day :: "env \<Rightarrow> db \<Rightarrow> payment_row \<Rightarrow> bool" where
  "refunded_in_one_day e d p \<longleftrightarrow>
     pay_refundedAmount p = sum_list (map rfd_amount (refunds_of_payment d p)) \<and> 0 \<le> pay_refundedAmount p \<and>
     (\<forall>r\<in>set (refunds_of_payment d p). \<exists>t. pay_refundedAt p = Some t \<and>
        (\<forall>day. on_local_day e day (Some (rfd_createdAt r)) = on_local_day e day (Some t)))"

lemma refunded_on_day:
  assumes "refunded_in_one_day e d p"
  shows "refunded_on e day d p =
    (if 0 < pay_refundedAmount p \<and> on_local_day e day (pay_refundedAt p) then pay_refundedAmount p else 0)"
proof -
  let ?rs = "refunds_of_payment d p"
  have "on_local_day e day (Some (rfd_createdAt r)) = on_local_day e day (pay_refundedAt p)" if "r \<in> set ?rs" for r
    using assms that by (auto simp: refunded_in_one_day_def)
  then have "filter (\<lambda>r. on_local_day e day (Some (rfd_createdAt r))) ?rs =
      (if on_local_day e day (pay_refundedAt p) then ?rs else [])"
    by (auto simp: filter_id_conv filter_empty_conv)
  then show ?thesis using assms by (auto simp: refunded_on_def refunded_in_one_day_def)
qed

lemma cash_back_is_out:
  assumes "\<forall>p\<in>set ps. pay_method p = Cash \<longrightarrow> refunded_in_one_day e d p"
  shows "cash_back e day ps = cash_out e day d ps"
  using assms
proof (induction ps)
  case Nil then show ?case by (simp add: cash_back_def cash_out_def)
next
  case (Cons p ps)
  then show ?case using refunded_on_day [of e d p day] by (auto simp: cash_back_def cash_out_def)
qed

lemma in_day_local:
  assumes "madrid_rule hours (zone_offset e ''Europe/Madrid'')"
  shows "in_day e day t = on_local_day e day t"
  using madrid_day [OF assms] by (auto simp: in_day_def on_local_day_def split: option.split)

lemma cash_of_summary:
  assumes rule: "madrid_rule hours (zone_offset e ''Europe/Madrid'')"
  shows "sum_by Cash pay_amount (filter (income_row e day) ps) = cash_in e day ps"
    and "sum_by Cash pay_refundedAmount (filter (refund_of_day e day) ps) = cash_back e day ps"
  by (auto simp: sum_by_def cash_in_def cash_back_def income_row_def refund_of_day_def in_day_local [OF rule]
      NON_CASH_PAYMENT_METHODS_def intro!: arg_cong [where f = "\<lambda>x. sum_list (map _ x)"] filter_cong)

definition till_rows :: "(id \<Rightarrow> id option) \<Rightarrow> (id \<Rightarrow> id option) \<Rightarrow> close_input \<Rightarrow> db \<Rightarrow> payment_row list" where
  "till_rows own sale input d = filter (at_facility d own sale (cls_facilityId input)) (payments d)"

definition till_expected ::
  "env \<Rightarrow> (id \<Rightarrow> id option) \<Rightarrow> (id \<Rightarrow> id option) \<Rightarrow> close_input \<Rightarrow> db \<Rightarrow> cents" where
  "till_expected e own sale input d =
     cash_in e (cls_date input) (till_rows own sale input d) - cash_out e (cls_date input) d (till_rows own sale input d)"

lemma expected_is_exact:
  assumes rule: "madrid_rule hours (zone_offset e ''Europe/Madrid'')"
    and "\<bar>cash_in e (cls_date input) (till_rows own sale input (core s))\<bar> \<le> 10000000000000"
    and "\<bar>cash_out e (cls_date input) (core s) (till_rows own sale input (core s))\<bar> \<le> 10000000000000"
    and "\<forall>p\<in>set (till_rows own sale input (core s)). pay_method p = Cash \<longrightarrow> refunded_in_one_day e (core s) p"
  shows "dsm_expectedCash (summary_of e own sale (cls_date input) (cls_facilityId input) s) =
    euros (till_expected e own sale input (core s))"
  using assms(2,3) cash_back_is_out [OF assms(4), of "cls_date input"]
  by (simp add: summary_of_def Let_def cash_of_summary [OF rule] subtractAmounts_euros till_expected_def till_rows_def)

lemma closure_at_None:
  "closure_at s d f = None \<longleftrightarrow> (\<forall>c\<in>set (closures s). \<not> (clo_date c = d \<and> clo_facilityId c = f))"
  by (auto simp: closure_at_def find_first_def find_None_iff)

section \<open>A day is closed once\<close>

text \<open>
  C22: A day of the till is closed once, and exactly: a closing that goes through found none of that day
  and scope, adds one row, and the row expects the cash of the payments whose local day in Madrid it is
  (those given back later included) less the refunds of cash payments made on it; the difference is the
  cash counted less the expected, to the cent, however JavaScript rounds on the way. From then on every
  closing of that day and scope is refused, also one whose summary was read before. The refunds of each
  cash payment are taken to be of one local day: the code keeps only their sum and the last day of a
  payment, so partial refunds on different days are counted wrong (lemma
  \<open>partial_refunds_miscounted\<close>).
\<close>

theorem till_closed_once:
  assumes went: "closeDay e own sale scope who input s = Inr s'"
    and rule: "madrid_rule hours (zone_offset e ''Europe/Madrid'')"
    and small: "\<bar>cls_countedCash input\<bar> \<le> 10000000000000"
      "\<bar>cash_in e (cls_date input) (till_rows own sale input (core s))\<bar> \<le> 10000000000000"
      "\<bar>cash_out e (cls_date input) (core s) (till_rows own sale input (core s))\<bar> \<le> 10000000000000"
    and whole: "\<forall>p\<in>set (till_rows own sale input (core s)). pay_method p = Cash \<longrightarrow> refunded_in_one_day e (core s) p"
  shows "(\<forall>c\<in>set (closures s). clo_date c \<noteq> cls_date input \<or> clo_facilityId c \<noteq> cls_facilityId input) \<and>
    payments (core s') = payments (core s) \<and>
    (\<exists>r. closures s' = closures s @ [r] \<and> clo_date r = cls_date input \<and>
       clo_facilityId r = cls_facilityId input \<and> clo_countedCash r = cls_countedCash input \<and>
       clo_expectedCash r = till_expected e own sale input (core s) \<and>
       clo_difference r = cls_countedCash input - till_expected e own sale input (core s)) \<and>
    (\<forall>(later :: bank) (again :: close_input) other stale. set (closures s') \<subseteq> set (closures later) \<longrightarrow> cls_date again = cls_date input \<longrightarrow>
       cls_facilityId again = cls_facilityId input \<longrightarrow>
       close_from other stale again later = Inl (ConflictException ''day_already_closed''))"
proof (intro conjI allI impI)
  define sm where "sm = summary_of e own sale (cls_date input) (cls_facilityId input) s"
  define r where "r = closure_for who sm input (next_id (core s))"
  have free: "closure_at s (cls_date input) (cls_facilityId input) = None"
    and s': "closures s' = closures s @ [r]" "payments (core s') = payments (core s)"
    using went
    by (auto simp: closeDay_def getDaySummary_def close_from_def sm_def r_def bindr_eq_Inr Let_def create_row_def
        audit_def)
  show "\<forall>c\<in>set (closures s). clo_date c \<noteq> cls_date input \<or> clo_facilityId c \<noteq> cls_facilityId input"
    using free by (auto simp: closure_at_None)
  show "payments (core s') = payments (core s)" by (rule s'(2))
  note exact = expected_is_exact [OF rule small(2,3) whole, folded sm_def]
  have "\<bar>till_expected e own sale input (core s)\<bar> \<le> 20000000000000" using small by (simp add: till_expected_def)
  then have "clo_expectedCash r = till_expected e own sale input (core s)"
    "clo_difference r = cls_countedCash input - till_expected e own sale input (core s)"
    using small by (simp_all add: r_def closure_for_def exact subtractAmounts_euros)
  then show "\<exists>r. closures s' = closures s @ [r] \<and> clo_date r = cls_date input \<and>
      clo_facilityId r = cls_facilityId input \<and> clo_countedCash r = cls_countedCash input \<and>
      clo_expectedCash r = till_expected e own sale input (core s) \<and>
      clo_difference r = cls_countedCash input - till_expected e own sale input (core s)"
    using s'(1) by (auto simp: r_def closure_for_def)
  fix later :: bank and again :: close_input and other stale
  assume later: "set (closures s') \<subseteq> set (closures later)" and same: "cls_date again = cls_date input"
    "cls_facilityId again = cls_facilityId input"
  have "r \<in> set (closures later)" using later s'(1) by auto
  moreover have "clo_date r = cls_date input" "clo_facilityId r = cls_facilityId input"
    by (simp_all add: r_def closure_for_def)
  ultimately have "closure_at later (cls_date input) (cls_facilityId input) \<noteq> None"
    unfolding closure_at_None by blast
  then show "close_from other stale again later = Inl (ConflictException ''day_already_closed'')"
    using same by (auto simp: close_from_def guard_def)
qed

text \<open>
  The example: 121 euros collected in cash at half past midnight of a winter day in Madrid (the day
  before in UTC), of which 20 were given back an hour later; 100 are counted.
\<close>

definition demo_cash :: payment_row where
  "demo_cash = \<lparr>pay_id = 8, pay_invoiceId = Some 2, pay_customerId = None, pay_amount = 12100,
     pay_status = Pay_partially_refunded, pay_method = Cash, pay_gateway = Manual, pay_gatewayPaymentId = None,
     pay_paidAt = Some (20463 * msPerDay - 1800000), pay_createdAt = 0, pay_refundedAmount = 2000,
     pay_refundedAt = Some (20463 * msPerDay + 1800000), pay_returnedAt = None, pay_failureReason = None,
     pay_notes = None\<rparr>"

definition demo_refund :: refund_row where
  "demo_refund = \<lparr>rfd_id = 9, rfd_invoiceId = 2, rfd_paymentId = Some 8, rfd_amount = 2000, rfd_via = Via_manual,
     rfd_reason = None, rfd_gatewayRefundId = None, rfd_createdBy = None,
     rfd_createdAt = 20463 * msPerDay + 1800000\<rparr>"

definition demo_till :: bank where
  "demo_till = (demo_bank_of demo_db3)\<lparr>core := demo_db3\<lparr>payments := [demo_cash], refunds := [demo_refund]\<rparr>,
     closures := []\<rparr>"

definition demo_close :: close_input where
  "demo_close = \<lparr>cls_date = 20463, cls_countedCash = 10000, cls_notes = Some '' '', cls_facilityId = None\<rparr>"

lemma demo_till_rows: "till_rows (\<lambda>_. None) (\<lambda>_. None) demo_close (core demo_till) = [demo_cash]"
  by (simp add: till_rows_def at_facility_def demo_close_def demo_till_def)

lemma demo_till_day:
  "cash_in demo_env 20463 [demo_cash] = 12100" "cash_out demo_env 20463 (core demo_till) [demo_cash] = 2000"
  "refunded_in_one_day demo_env (core demo_till) demo_cash"
  by (simp_all add: cash_in_def cash_out_def refunded_on_def refunds_of_payment_def refunded_in_one_day_def on_local_day_def
      demo_cash_def demo_refund_def demo_till_def todayInTimezone_def demo_env_def msPerDay_def)

text \<open>
  Why each payment has to be given back on one day: of 121 euros, 10 are given back one day and 20 the
  next. The first day the till was right to take off 10; then its rows say 0, and 30 the next day.
\<close>

definition demo_parts :: db where
  "demo_parts = demo_db3\<lparr>payments := [demo_cash\<lparr>pay_refundedAmount := 3000, pay_refundedAt := Some (20464 * msPerDay)\<rparr>],
     refunds := [demo_refund\<lparr>rfd_amount := 1000\<rparr>, demo_refund\<lparr>rfd_id := 10, rfd_createdAt := 20464 * msPerDay\<rparr>]\<rparr>"

lemma partial_refunds_miscounted:
  "cash_out demo_env 20463 demo_parts (payments demo_parts) = 1000" "cash_back demo_env 20463 (payments demo_parts) = 0"
  "cash_out demo_env 20464 demo_parts (payments demo_parts) = 2000" "cash_back demo_env 20464 (payments demo_parts) = 3000"
  by (simp_all add: cash_out_def cash_back_def refunded_on_def refunds_of_payment_def on_local_day_def
      demo_parts_def demo_cash_def demo_refund_def todayInTimezone_def demo_env_def msPerDay_def)

theorem till_closed_once_witness:
  "\<exists>s' r. closeDay demo_env (\<lambda>_. None) (\<lambda>_. None) None 9 demo_close demo_till = Inr s' \<and> closures s' = [r] \<and>
     clo_expectedCash r = 10100 \<and> clo_difference r = - 100"
proof -
  have "closures demo_till = []" by (simp add: demo_till_def)
  then obtain s' where s': "closeDay demo_env (\<lambda>_. None) (\<lambda>_. None) None 9 demo_close demo_till = Inr s'"
    by (auto simp: closeDay_def getDaySummary_def day_scope_def close_from_def summary_of_def demo_close_def
        closure_at_def Let_def)
  have "madrid_rule (\<lambda>_. 3600000) (zone_offset demo_env ''Europe/Madrid'')"
    by (simp add: madrid_rule_def demo_env_def)
  note run = till_closed_once [OF s' this]
  have "cls_date demo_close = 20463" "cls_countedCash demo_close = 10000" by (simp_all add: demo_close_def)
  then have "\<exists>r. closures s' = closures demo_till @ [r] \<and> clo_expectedCash r = 10100 \<and> clo_difference r = - 100"
    using run by (auto simp: demo_till_rows till_expected_def demo_till_day)
  then show ?thesis using s' \<open>closures demo_till = []\<close> by auto
qed

end
