(* ===== verification/Spec2Isabelle.thy ===== *)
theory Spec2Isabelle imports SalesProperties CoreProperties BillingProperties PaymentProperties CreditProperties PeriodProperties CouponProperties LettingProperties EndingProperties RecurringProperties CashProperties
begin

text \<open>
  Verification library of StorageOS, a multi-tenant system for self-storage businesses. The library
  models the API (\<open>apps/api/src\<close>) and the calculations it shares with the web
  (\<open>packages/shared/src\<close>), in the parts that decide money and occupancy: invoices and their legal
  records, payments, direct debits, bank statements, the till, products, coupons, contracts, reservations
  and the nightly jobs.

  \<^bold>\<open>The program and how its parts interact.\<close> A facility has units. A customer reserves one, signs a
  contract for it, moves in, may change unit or price, and leaves. Signing asks the billing side for a
  first invoice; every night a job asks it for the invoice of the period. An invoice is a draft until it
  is issued, when it takes the next number of its series and a record linked by hash to the record
  before it of the same issuer (Veri*Factu). From then on it is paid, refunded, corrected by credit
  notes or annulled by one, never changed. Paying an invoice raises an event: a reservation whose
  signal was paid is marked so, a sale is marked as paid. Sales at the counter take stock and make an
  invoice of their own. A remittance asks the bank for what invoices still owe, on the strength of the
  mandates the customers signed; confirming it enters the payments, and so does matching the entries of
  a bank statement, where a debit can also be a payment the bank gave back. At night the till of the day
  is counted.

  \<^bold>\<open>How the code is translated.\<close> Tables are lists of rows (\<open>Prelude\<close>: \<open>find_first\<close>, \<open>update_many\<close>,
  \<open>create_row\<close> are \<open>findFirst\<close>, \<open>updateMany\<close>, \<open>create\<close>); a row is a record whose fields carry the names of
  \<open>schema.prisma\<close> after a prefix (\<open>Database\<close>, \<open>LettingDb\<close>). The model is one tenant's view: row-level
  security hides the rest. Identifiers come from a counter. Money in a table is a whole number of
  cents (\<open>Decimal(12,2)\<close>), read by the code as the nearest JavaScript number (\<open>euros\<close>); quantities,
  unit prices and percentages stay JavaScript numbers. A JavaScript number is the rational it denotes,
  and each operation rounds to 53 bits (\<open>Binary64\<close>). A \<open>DATE\<close> is a day number, an instant a number of
  milliseconds. An operation of one transaction answers \<open>Inl\<close> of an exception, which rolls it back, or
  \<open>Inr\<close>; an operation of several transactions returns the state it reached beside its answer, so what
  was committed before a failure stays. A row that the code reads before the transaction is an argument
  of the definition whose name ends in \<open>_from\<close> or \<open>_tx\<close>: instantiated with the current row it is the
  undisturbed run, with an older row a run that something else overtook.

  \<^bold>\<open>Parameters.\<close> The record \<open>env\<close> (and its extensions) holds what comes from outside: the clock, the
  offsets of time zones, SHA-256 and the texts of time stamps, the QR image, the answers of Holded, of
  the tax agency and of the payment gateways, the composer of contract terms. Nothing is assumed of
  them except where a theorem says so by a hypothesis (that SHA-256 tells two texts apart, that a
  clock has a date in a range).

  \<^bold>\<open>Theories.\<close>
  \<^item> \<open>Prelude\<close>, \<open>Binary64\<close>, \<open>Money\<close> (\<open>common/money.ts\<close>), \<open>Calendar\<close> (\<open>common/format.ts\<close>), \<open>Strings\<close>
    (\<open>shared/accounting/billing-details.ts\<close>), \<open>Database\<close> (\<open>schema.prisma\<close>): the ground.
  \<^item> \<open>InvoiceSeries\<close> (\<open>billing/invoice-series.service.ts\<close>), \<open>Verifactu\<close> (\<open>verifactu.service.ts\<close>,
    \<open>verifactu-hash.ts\<close>), \<open>FacilityScope\<close> (\<open>common/facility-scope.ts\<close>), \<open>InvoiceLines\<close>, \<open>Invoices\<close>, \<open>Issue\<close>,
    \<open>Payments\<close>, \<open>Cancel\<close> (\<open>billing/invoices.service.ts\<close>): the operations of billing.
  \<^item> \<open>Books\<close>, \<open>Billing\<close>, \<open>Journal\<close>, \<open>Ledger\<close>, \<open>PaymentLedger\<close>, \<open>Demo\<close>: the invariant of the books, each
    operation within it, the step relation \<open>billing_step\<close>, the payments as an account, an example.
  \<^item> \<open>Stock\<close>, \<open>Sales\<close> (\<open>modules/products\<close>); \<open>Coupons\<close> (\<open>shared/coupons/index.ts\<close>,
    \<open>coupons/coupons.service.ts\<close>, \<open>promotions/promotions.service.ts\<close>).
  \<^item> \<open>Periods\<close> (\<open>contracts/prepay-credit.ts\<close>, \<open>shared/billing/first-month.ts\<close>), \<open>LettingDb\<close>, \<open>UnitHolds\<close>
    (\<open>common/unit-holds.ts\<close>), \<open>FirstInvoice\<close> (\<open>billing/first-invoice.service.ts\<close>), \<open>Contracts\<close>,
    \<open>Signing\<close>, \<open>MoveOut\<close>, \<open>UnitMoves\<close>, \<open>Deposits\<close> (\<open>contracts/contracts.service.ts\<close>), \<open>PreOpening\<close>
    (\<open>contracts/pre-opening.service.ts\<close>), \<open>Reservations\<close> (\<open>contracts/reservations.service.ts\<close>): the
    operations of letting.
  \<^item> \<open>Tenancy\<close>, \<open>LettingFrame\<close>, \<open>LettingView\<close>, \<open>LettingWrites\<close>, \<open>LettingSteps\<close>, \<open>LettingEnds\<close>,
    \<open>LettingMoves\<close>, \<open>LettingOpens\<close>, \<open>Letting\<close>: the abstract machine of occupancy and the simulation.
  \<^item> \<open>Recurring\<close>, \<open>RecurringFacts\<close> (\<open>billing/billing-jobs.service.ts\<close>, \<open>referrals/referrals.service.ts\<close>).
  \<^item> \<open>SepaRules\<close> (\<open>shared/sepa\<close>), \<open>BankDb\<close>, \<open>Mandates\<close>, \<open>Sepa\<close> (\<open>sepa/sepa.service.ts\<close>,
    \<open>sepa/sepa-items.ts\<close>), \<open>Pain008\<close> (\<open>sepa/sepa-pain008.ts\<close>), \<open>PainFile\<close> (reading that file back), \<open>SepaFacts\<close> (the invariant of the debits and
    \<open>bank_step\<close>), \<open>Reconciliation\<close> (\<open>bank-reconciliation.service.ts\<close>), \<open>Cash\<close> (\<open>cash/cash.service.ts\<close>).
  \<^item> The properties stand in \<open>CoreProperties\<close>, \<open>BillingProperties\<close>, \<open>PaymentProperties\<close>,
    \<open>CreditProperties\<close>, \<open>SalesProperties\<close>, \<open>CouponProperties\<close>, \<open>PeriodProperties\<close>,
    \<open>LettingProperties\<close>, \<open>EndingProperties\<close>, \<open>RecurringProperties\<close>, \<open>SepaProperties\<close>,
    \<open>ReconciliationProperties\<close> and \<open>CashProperties\<close>.

  \<^bold>\<open>Interfaces.\<close> What one part asks of another is a locale, interpreted on the code's own definitions:
  \<open>exact_money\<close> (sums and comparisons of amounts, \<open>Money\<close>), \<open>yearly_counter\<close> (numbers of a series,
  \<open>InvoiceSeries\<close>), \<open>record_chain\<close> (records linked to the one before, \<open>Verifactu\<close>), \<open>ledger\<close> (a
  balance and its entries move together: the payments and refunds of an invoice in \<open>PaymentLedger\<close>,
  the stock and its movements in \<open>Stock\<close>) and \<open>simulation\<close> (a step relation implements another,
  \<open>Letting\<close>).

  \<^bold>\<open>What the lemmas show.\<close>
  \<^item> Amounts: on amounts up to $10^{14}$ cents the floating-point helpers compute exactly on cents, so
    the rest of the library reckons with whole cents.
  \<^item> Books: in every state reachable by \<open>billing_step\<close> from a tenant without invoices, the numbers of a
    series are consecutive within the year, dates follow numbers, the records of an issuer form one
    chain, and an issued invoice keeps its number, its issue date and its record. The relation has a rule per request,
    job and committed transaction, with stale rows, so the invariant holds of every interleaving.
  \<^item> Payments and credit notes: registering payments adds exactly what they pay to \<open>amountPaid\<close> and to
    the live payments, a refund never exceeds what was collected, credit notes never exceed the invoice, and an operation with its inverse leaves
    things as they were.
  \<^item> Stock and sales: the stock on hand is the sum of its movements and never negative, a sale takes what
    it sells and is stored with its lines, its cancellation gives it back, and neither touches the books.
  \<^item> Occupancy: \<open>Tenancy\<close> is an abstract machine (who is on which unit, its status, the log of changes).
    Each operation of letting has a lemma \<open>_refines\<close>: what it does to the tables is a sequence of its
    steps. A unit is never let twice and its status always says who is on it, whatever the order of the
    operations. A signature converts the reservations of the customer, and a signal reaches the contract
    once in either order of conversion and payment (\<open>signal_credited_twice\<close> is the order that is left).
    \<open>letting_step\<close> runs the operations one after another on the rows as they are.
  \<^item> Recurring billing: no day of a contract is invoiced twice, no contract due is left out, the rent is
    charged exactly whatever is taken off it, and a run is a sequence of steps of the books.
  \<^item> Direct debits: in every state reached by \<open>bank_step\<close>, interleaved with any step of billing, an
    invoice has at most one debit that is pending or collected and a customer one mandate in force. A
    remittance asks of signed mandates exactly what each invoice lacks, and its file, read tag by tag, says the
    same; a confirmation, also one resumed after it was cut short, settles every debit and enters one
    payment for each it collects.
  \<^item> Bank and till: a credit is shared out to the cent and an entry moves money at most once; a day of the
    till is closed once, and its difference is what was counted less the cash of the local day, as long as no
    payment is given back in parts on different days (\<open>partial_refunds_miscounted\<close>).

  \<^bold>\<open>Bounds.\<close> The code's own limits are kept: 120 renewals in a term (\<open>renewed_end\<close>), 120 prepaid months
  (\<open>unusedPrepaidMonths\<close>), 500 rows in a run of the daily jobs. Every loop of the model is structural recursion over rows or a bounded count, so no
  fuel is needed; \<open>renewal_reaches_today\<close> states when 120 renewals are enough. \<open>nextSepaBusinessDay\<close> is a
  loop over days: it ends because a week without holidays is never far (at most 22 days).

  \<^bold>\<open>Not modelled.\<close> HTTP routing, validation of request shapes, rendering (PDF, the XML of records, e-mail) and lists
  without a decision; the queue that starts the jobs; SOAP, signatures and cryptography; the gateways
  and Holded beyond their answers. Characters are 8 bits, so texts stored for people lose their accents;
  texts are compared by character codes; the year of a number is the UTC year. Overflow of binary64,
  subnormals and \<open>NaN\<close> are outside \<open>Binary64\<close>. Other modules (access control, messaging, the platform's own
  billing, dunning, reports, the suggestions of the bank module, the web and the workers) are listed in the manifest with the reason.
\<close>

end
